(* ===== verification/Prelude.thy ===== *)
theory Prelude
  imports Main "HOL-Library.Word" "HOL-Library.Multiset"
begin

text \<open>
  The prelude of the development: the collections of rewrite rules the component theories
  share, the generic error monad on sums, machine integers with their bounds written out,
  bit flags on words, and generic facts on lists.

  Conventions. A Rust \<open>Result\<close> or a fallible computation is a sum \<open>'e + 'a\<close>, an
  error on the left. Rust's question-mark operator is \<open>bindR\<close>. Unsigned integers are
  \<open>nat\<close> and signed ones \<open>int\<close>, with the bound checked where the source can leave it;
  bit masks are words.
\<close>

named_theorems res_simps "rules that evaluate and invert computations in the error monad"

named_theorems inv_intros "preservation lemmas of the component invariants"

section \<open>The error monad\<close>

definition bindR :: "'e + 'a \<Rightarrow> ('a \<Rightarrow> 'e + 'b) \<Rightarrow> 'e + 'b" where
  "bindR m f = (case m of Inl e \<Rightarrow> Inl e | Inr x \<Rightarrow> f x)"

lemma bindR_Inl [simp, res_simps]: "bindR (Inl e) f = Inl e"
  by (simp add: bindR_def)

lemma bindR_Inr [simp, res_simps]: "bindR (Inr x) f = f x"
  by (simp add: bindR_def)

lemma bindR_eq_Inr [res_simps]: "bindR m f = Inr y \<longleftrightarrow> (\<exists>x. m = Inr x \<and> f x = Inr y)"
  by (cases m) simp_all

lemma bindR_eq_Inl [res_simps]:
  "bindR m f = Inl e \<longleftrightarrow> m = Inl e \<or> (\<exists>x. m = Inr x \<and> f x = Inl e)"
  by (cases m) simp_all

lemma bindR_assoc: "bindR (bindR m f) g = bindR m (\<lambda>x. bindR (f x) g)"
  by (cases m) simp_all

lemma bindR_Inr_right [simp]: "bindR m Inr = m"
  by (cases m) simp_all

lemma bindR_InrE:
  assumes "bindR m f = Inr y"
  obtains x where "m = Inr x" and "f x = Inr y"
  using assms by (auto simp: bindR_eq_Inr)

lemma if_Inl_eq_Inr [res_simps]: "(if b then Inl e else r) = Inr y \<longleftrightarrow> \<not> b \<and> r = Inr y"
  by simp

lemma if_Inr_Inl_eq_Inr [res_simps]: "(if b then r else Inl e) = Inr y \<longleftrightarrow> b \<and> r = Inr y"
  by simp

text \<open>A loop that threads a state through a list and stops at the first error.\<close>

fun foldR :: "('a \<Rightarrow> 's \<Rightarrow> 'e + 's) \<Rightarrow> 'a list \<Rightarrow> 's \<Rightarrow> 'e + 's" where
  "foldR f [] s = Inr s"
| "foldR f (x # xs) s = bindR (f x s) (foldR f xs)"

text \<open>A map that collects the results and stops at the first error.\<close>

fun mapR :: "('a \<Rightarrow> 'e + 'b) \<Rightarrow> 'a list \<Rightarrow> 'e + 'b list" where
  "mapR f [] = Inr []"
| "mapR f (x # xs) = bindR (f x) (\<lambda>y. bindR (mapR f xs) (\<lambda>ys. Inr (y # ys)))"

lemma foldR_invariant:
  assumes "foldR f xs s = Inr t" and "P s"
    and "\<And>x s s'. x \<in> set xs \<Longrightarrow> P s \<Longrightarrow> f x s = Inr s' \<Longrightarrow> P s'"
  shows "P t"
  using assms
proof (induction xs arbitrary: s)
  case Nil
  then show ?case by simp
next
  case (Cons x xs)
  from Cons.prems(1) obtain s' where s': "f x s = Inr s'" and t: "foldR f xs s' = Inr t"
    by (auto simp: bindR_eq_Inr)
  have "P s'" using Cons.prems(2,3) s' by auto
  with t show ?case using Cons.IH Cons.prems(3) by auto
qed

lemma mapR_length: "mapR f xs = Inr ys \<Longrightarrow> length ys = length xs"
  by (induction xs arbitrary: ys) (auto simp: bindR_eq_Inr)

lemma mapR_nth: "mapR f xs = Inr ys \<Longrightarrow> i < length xs \<Longrightarrow> f (xs ! i) = Inr (ys ! i)"
proof (induction xs arbitrary: ys i)
  case Nil
  then show ?case by simp
next
  case (Cons x xs)
  then show ?case by (cases i) (auto simp: bindR_eq_Inr)
qed

section \<open>Machine integers\<close>

type_synonym u8 = nat
type_synonym u16 = nat
type_synonym u32 = nat
type_synonym u64 = nat
type_synonym i32 = int
type_synonym i64 = int

definition u8_max :: nat where "u8_max = 255"
definition u16_max :: nat where "u16_max = 65535"
definition u32_max :: nat where "u32_max = 4294967295"
definition u64_max :: nat where "u64_max = 18446744073709551615"

definition in_i64 :: "int \<Rightarrow> bool" where
  "in_i64 z \<longleftrightarrow> - 9223372036854775808 \<le> z \<and> z \<le> 9223372036854775807"

definition sat_i64 :: "int \<Rightarrow> int" where
  "sat_i64 z = max (- 9223372036854775808) (min 9223372036854775807 z)"

definition sat_i32 :: "int \<Rightarrow> int" where
  "sat_i32 z = max (- 2147483648) (min 2147483647 z)"

definition sat_u8 :: "nat \<Rightarrow> nat" where "sat_u8 n = min u8_max n"
definition sat_u16 :: "nat \<Rightarrow> nat" where "sat_u16 n = min u16_max n"
definition sat_u32 :: "nat \<Rightarrow> nat" where "sat_u32 n = min u32_max n"

definition checked_add_u64 :: "nat \<Rightarrow> nat \<Rightarrow> nat option" where
  "checked_add_u64 a b = (if a + b \<le> u64_max then Some (a + b) else None)"

definition checked_sub_nat :: "nat \<Rightarrow> nat \<Rightarrow> nat option" where
  "checked_sub_nat a b = (if b \<le> a then Some (a - b) else None)"

lemma sat_i64_in: "in_i64 (sat_i64 z)"
  by (auto simp: in_i64_def sat_i64_def)

lemma sat_i64_id: "in_i64 z \<Longrightarrow> sat_i64 z = z"
  by (auto simp: in_i64_def sat_i64_def)

section \<open>Bit flags\<close>

text \<open>
  The interface of a single-bit flag set: \<open>isset\<close> reads a flag, \<open>put\<close> and
  \<open>clear\<close> change it, and the operations on two disjoint flags do not interfere. The
  flag words of accounts, banks, groups, health caches and pause states provide it.
\<close>

locale flag_word =
  fixes get :: "'s \<Rightarrow> 'f \<Rightarrow> bool"
    and put :: "'f \<Rightarrow> 's \<Rightarrow> 's"
    and clear :: "'f \<Rightarrow> 's \<Rightarrow> 's"
    and single :: "'f \<Rightarrow> bool"
    and disjoint :: "'f \<Rightarrow> 'f \<Rightarrow> bool"
  assumes get_put: "single f \<Longrightarrow> get (put f s) f"
    and get_clear: "single f \<Longrightarrow> \<not> get (clear f s) f"
    and get_put_other: "disjoint f g \<Longrightarrow> get (put f s) g = get s g"
    and get_clear_other: "disjoint f g \<Longrightarrow> get (clear f s) g = get s g"
begin

lemma get_put_clear_other: "disjoint f g \<Longrightarrow> get (clear f (put f s)) g = get s g"
  by (simp add: get_put_other get_clear_other)

lemma put_clear_off: "single f \<Longrightarrow> \<not> get (clear f (put f s)) f"
  by (simp add: get_clear)

end

unbundle bit_operations_syntax

definition flag_get :: "'w::len word \<Rightarrow> 'w word \<Rightarrow> bool" where
  "flag_get s f \<longleftrightarrow> s AND f \<noteq> 0"

definition flag_put :: "'w::len word \<Rightarrow> 'w word \<Rightarrow> 'w word" where
  "flag_put f s = s OR f"

definition flag_clear :: "'w::len word \<Rightarrow> 'w word \<Rightarrow> 'w word" where
  "flag_clear f s = s AND NOT f"

lemma flag_get_put: "f \<noteq> 0 \<Longrightarrow> flag_get (flag_put f s) f"
  by (simp add: flag_get_def flag_put_def bit.conj_disj_distrib2)

lemma flag_get_clear: "\<not> flag_get (flag_clear f s) f"
  by (simp add: flag_get_def flag_clear_def and.assoc)

lemma flag_get_put_other: "f AND g = 0 \<Longrightarrow> flag_get (flag_put f s) g = flag_get s g"
  by (simp add: flag_get_def flag_put_def bit.conj_disj_distrib2)

lemma flag_get_clear_other: "f AND g = 0 \<Longrightarrow> flag_get (flag_clear f s) g = flag_get s g"
proof -
  assume fg: "f AND g = 0"
  have "NOT f AND g = (NOT f AND g) OR (f AND g)" by (simp add: fg)
  also have "\<dots> = g" by (simp flip: bit.conj_disj_distrib2)
  finally have g: "NOT f AND g = g" .
  show ?thesis by (simp add: flag_get_def flag_clear_def and.assoc g)
qed

interpretation word_flags: flag_word flag_get flag_put flag_clear "\<lambda>f. f \<noteq> 0" "\<lambda>f g. f AND g = 0"
  by unfold_locales
    (auto simp: flag_get_put flag_get_clear flag_get_put_other flag_get_clear_other)

section \<open>Lists\<close>

text \<open>The position of the first element with a property, Rust's \<open>iter().position\<close>.\<close>

fun position :: "('a \<Rightarrow> bool) \<Rightarrow> 'a list \<Rightarrow> nat option" where
  "position p [] = None"
| "position p (x # xs) = (if p x then Some 0 else map_option Suc (position p xs))"

lemma position_Some: "position p xs = Some i \<Longrightarrow> i < length xs \<and> p (xs ! i)"
  by (induction xs arbitrary: i) (auto split: if_splits)

lemma position_None: "position p xs = None \<longleftrightarrow> (\<forall>x \<in> set xs. \<not> p x)"
  by (induction xs) auto

lemma position_Some_least: "position p xs = Some i \<Longrightarrow> j < i \<Longrightarrow> \<not> p (xs ! j)"
proof (induction xs arbitrary: i j)
  case Nil
  then show ?case by simp
next
  case (Cons x xs)
  then show ?case by (cases j) (auto split: if_splits)
qed

lemma sum_list_update:
  fixes f :: "'a \<Rightarrow> int"
  assumes "i < length xs"
  shows "(\<Sum>x\<leftarrow>xs[i := y]. f x) = (\<Sum>x\<leftarrow>xs. f x) - f (xs ! i) + f y"
  using assms
proof (induction xs arbitrary: i)
  case Nil
  then show ?case by simp
next
  case (Cons x xs)
  then show ?case by (cases i) auto
qed

lemma filter_update_length:
  assumes "i < length xs" and "\<not> p (xs ! i)"
  shows "length (filter p (xs[i := y])) = length (filter p xs) + (if p y then 1 else 0)"
  using assms
proof (induction xs arbitrary: i)
  case Nil
  then show ?case by simp
next
  case (Cons x xs)
  then show ?case by (cases i) auto
qed

end
