(* ===== verification/Errors.thy ===== *)
theory Errors
  imports Prelude
begin

text \<open>
  The program's error codes (\<open>errors.rs\<close>) and the result type of every model function.
  A \<open>marginfi_error\<close> carries its Anchor code: the source compares two errors by their codes
  (\<open>impl PartialEq\<close>), so the code is the error. Each variant is an abbreviation for its code;
  the enum restarts its numbering at 200, 300 and 400 for the integrations, and Anchor adds 6000.
  A failure is an error value (\<open>Err\<close>), a \<open>None\<close> that the question mark passed on
  (\<open>NoneValue\<close>), or a panic (\<open>Panic\<close>: a failed \<open>assert!\<close>, \<open>unwrap\<close>,
  an index out of range, or an arithmetic overflow, which the release profile checks). All three
  abort the transaction and leave the accounts as they were.
\<close>

datatype marginfi_error = MarginfiError nat

primrec error_number :: "marginfi_error \<Rightarrow> nat" where
  "error_number (MarginfiError c) = c"

abbreviation InternalLogicError :: marginfi_error where "InternalLogicError \<equiv> MarginfiError 6000"
abbreviation BankNotFound :: marginfi_error where "BankNotFound \<equiv> MarginfiError 6001"
abbreviation LendingAccountBalanceNotFound :: marginfi_error where "LendingAccountBalanceNotFound \<equiv> MarginfiError 6002"
abbreviation BankAssetCapacityExceeded :: marginfi_error where "BankAssetCapacityExceeded \<equiv> MarginfiError 6003"
abbreviation InvalidTransfer :: marginfi_error where "InvalidTransfer \<equiv> MarginfiError 6004"
abbreviation MissingPythOrBankAccount :: marginfi_error where "MissingPythOrBankAccount \<equiv> MarginfiError 6005"
abbreviation MissingPythAccount :: marginfi_error where "MissingPythAccount \<equiv> MarginfiError 6006"
abbreviation MissingBankAccount :: marginfi_error where "MissingBankAccount \<equiv> MarginfiError 6007"
abbreviation InvalidBankAccount :: marginfi_error where "InvalidBankAccount \<equiv> MarginfiError 6008"
abbreviation RiskEngineInitRejected :: marginfi_error where "RiskEngineInitRejected \<equiv> MarginfiError 6009"
abbreviation LendingAccountBalanceSlotsFull :: marginfi_error where "LendingAccountBalanceSlotsFull \<equiv> MarginfiError 6010"
abbreviation BankAlreadyExists :: marginfi_error where "BankAlreadyExists \<equiv> MarginfiError 6011"
abbreviation ZeroLiquidationAmount :: marginfi_error where "ZeroLiquidationAmount \<equiv> MarginfiError 6012"
abbreviation AccountNotBankrupt :: marginfi_error where "AccountNotBankrupt \<equiv> MarginfiError 6013"
abbreviation BalanceNotBadDebt :: marginfi_error where "BalanceNotBadDebt \<equiv> MarginfiError 6014"
abbreviation InvalidConfig :: marginfi_error where "InvalidConfig \<equiv> MarginfiError 6015"
abbreviation BankPaused :: marginfi_error where "BankPaused \<equiv> MarginfiError 6016"
abbreviation BankReduceOnly :: marginfi_error where "BankReduceOnly \<equiv> MarginfiError 6017"
abbreviation BankAccountNotFound :: marginfi_error where "BankAccountNotFound \<equiv> MarginfiError 6018"
abbreviation OperationDepositOnly :: marginfi_error where "OperationDepositOnly \<equiv> MarginfiError 6019"
abbreviation OperationWithdrawOnly :: marginfi_error where "OperationWithdrawOnly \<equiv> MarginfiError 6020"
abbreviation OperationBorrowOnly :: marginfi_error where "OperationBorrowOnly \<equiv> MarginfiError 6021"
abbreviation OperationRepayOnly :: marginfi_error where "OperationRepayOnly \<equiv> MarginfiError 6022"
abbreviation NoAssetFound :: marginfi_error where "NoAssetFound \<equiv> MarginfiError 6023"
abbreviation NoLiabilityFound :: marginfi_error where "NoLiabilityFound \<equiv> MarginfiError 6024"
abbreviation InvalidOracleSetup :: marginfi_error where "InvalidOracleSetup \<equiv> MarginfiError 6025"
abbreviation IllegalUtilizationRatio :: marginfi_error where "IllegalUtilizationRatio \<equiv> MarginfiError 6026"
abbreviation BankLiabilityCapacityExceeded :: marginfi_error where "BankLiabilityCapacityExceeded \<equiv> MarginfiError 6027"
abbreviation InvalidPrice :: marginfi_error where "InvalidPrice \<equiv> MarginfiError 6028"
abbreviation IsolatedAccountIllegalState :: marginfi_error where "IsolatedAccountIllegalState \<equiv> MarginfiError 6029"
abbreviation EmissionsAlreadySetup :: marginfi_error where "EmissionsAlreadySetup \<equiv> MarginfiError 6030"
abbreviation OracleNotSetup :: marginfi_error where "OracleNotSetup \<equiv> MarginfiError 6031"
abbreviation InvalidSwitchboardDecimalConversion :: marginfi_error where "InvalidSwitchboardDecimalConversion \<equiv> MarginfiError 6032"
abbreviation CannotCloseOutstandingEmissions :: marginfi_error where "CannotCloseOutstandingEmissions \<equiv> MarginfiError 6033"
abbreviation EmissionsUpdateError :: marginfi_error where "EmissionsUpdateError \<equiv> MarginfiError 6034"
abbreviation AccountDisabled :: marginfi_error where "AccountDisabled \<equiv> MarginfiError 6035"
abbreviation AccountTempActiveBalanceLimitExceeded :: marginfi_error where "AccountTempActiveBalanceLimitExceeded \<equiv> MarginfiError 6036"
abbreviation AccountInFlashloan :: marginfi_error where "AccountInFlashloan \<equiv> MarginfiError 6037"
abbreviation IllegalFlashloan :: marginfi_error where "IllegalFlashloan \<equiv> MarginfiError 6038"
abbreviation IllegalFlag :: marginfi_error where "IllegalFlag \<equiv> MarginfiError 6039"
abbreviation IllegalBalanceState :: marginfi_error where "IllegalBalanceState \<equiv> MarginfiError 6040"
abbreviation IllegalAccountAuthorityTransfer :: marginfi_error where "IllegalAccountAuthorityTransfer \<equiv> MarginfiError 6041"
abbreviation Unauthorized :: marginfi_error where "Unauthorized \<equiv> MarginfiError 6042"
abbreviation IllegalAction :: marginfi_error where "IllegalAction \<equiv> MarginfiError 6043"
abbreviation T22MintRequired :: marginfi_error where "T22MintRequired \<equiv> MarginfiError 6044"
abbreviation InvalidFeeAta :: marginfi_error where "InvalidFeeAta \<equiv> MarginfiError 6045"
abbreviation AddedStakedPoolManually :: marginfi_error where "AddedStakedPoolManually \<equiv> MarginfiError 6046"
abbreviation AssetTagMismatch :: marginfi_error where "AssetTagMismatch \<equiv> MarginfiError 6047"
abbreviation StakePoolValidationFailed :: marginfi_error where "StakePoolValidationFailed \<equiv> MarginfiError 6048"
abbreviation SwitchboardStalePrice :: marginfi_error where "SwitchboardStalePrice \<equiv> MarginfiError 6049"
abbreviation PythPushStalePrice :: marginfi_error where "PythPushStalePrice \<equiv> MarginfiError 6050"
abbreviation WrongNumberOfOracleAccounts :: marginfi_error where "WrongNumberOfOracleAccounts \<equiv> MarginfiError 6051"
abbreviation WrongOracleAccountKeys :: marginfi_error where "WrongOracleAccountKeys \<equiv> MarginfiError 6052"
abbreviation PythPushWrongAccountOwner :: marginfi_error where "PythPushWrongAccountOwner \<equiv> MarginfiError 6053"
abbreviation StakedPythPushWrongAccountOwner :: marginfi_error where "StakedPythPushWrongAccountOwner \<equiv> MarginfiError 6054"
abbreviation OracleMaxConfidenceExceeded :: marginfi_error where "OracleMaxConfidenceExceeded \<equiv> MarginfiError 6055"
abbreviation PythPushInsufficientVerificationLevel :: marginfi_error where "PythPushInsufficientVerificationLevel \<equiv> MarginfiError 6056"
abbreviation ZeroAssetPrice :: marginfi_error where "ZeroAssetPrice \<equiv> MarginfiError 6057"
abbreviation ZeroLiabilityPrice :: marginfi_error where "ZeroLiabilityPrice \<equiv> MarginfiError 6058"
abbreviation SwitchboardWrongAccountOwner :: marginfi_error where "SwitchboardWrongAccountOwner \<equiv> MarginfiError 6059"
abbreviation PythPushInvalidAccount :: marginfi_error where "PythPushInvalidAccount \<equiv> MarginfiError 6060"
abbreviation SwitchboardInvalidAccount :: marginfi_error where "SwitchboardInvalidAccount \<equiv> MarginfiError 6061"
abbreviation MathError :: marginfi_error where "MathError \<equiv> MarginfiError 6062"
abbreviation InvalidEmissionsDestinationAccount :: marginfi_error where "InvalidEmissionsDestinationAccount \<equiv> MarginfiError 6063"
abbreviation SameAssetAndLiabilityBanks :: marginfi_error where "SameAssetAndLiabilityBanks \<equiv> MarginfiError 6064"
abbreviation OverliquidationAttempt :: marginfi_error where "OverliquidationAttempt \<equiv> MarginfiError 6065"
abbreviation NoLiabilitiesInLiabilityBank :: marginfi_error where "NoLiabilitiesInLiabilityBank \<equiv> MarginfiError 6066"
abbreviation AssetsInLiabilityBank :: marginfi_error where "AssetsInLiabilityBank \<equiv> MarginfiError 6067"
abbreviation HealthyAccount :: marginfi_error where "HealthyAccount \<equiv> MarginfiError 6068"
abbreviation ExhaustedLiability :: marginfi_error where "ExhaustedLiability \<equiv> MarginfiError 6069"
abbreviation TooSeverePayoff :: marginfi_error where "TooSeverePayoff \<equiv> MarginfiError 6070"
abbreviation TooSevereLiquidation :: marginfi_error where "TooSevereLiquidation \<equiv> MarginfiError 6071"
abbreviation WorseHealthPostLiquidation :: marginfi_error where "WorseHealthPostLiquidation \<equiv> MarginfiError 6072"
abbreviation Vacated0 :: marginfi_error where "Vacated0 \<equiv> MarginfiError 6073"
abbreviation Vacated1 :: marginfi_error where "Vacated1 \<equiv> MarginfiError 6074"
abbreviation BadEmodeConfig :: marginfi_error where "BadEmodeConfig \<equiv> MarginfiError 6075"
abbreviation PythPushInvalidWindowSize :: marginfi_error where "PythPushInvalidWindowSize \<equiv> MarginfiError 6076"
abbreviation InvalidFeesDestinationAccount :: marginfi_error where "InvalidFeesDestinationAccount \<equiv> MarginfiError 6077"
abbreviation BankCannotClose :: marginfi_error where "BankCannotClose \<equiv> MarginfiError 6078"
abbreviation AccountAlreadyMigrated :: marginfi_error where "AccountAlreadyMigrated \<equiv> MarginfiError 6079"
abbreviation ProtocolPaused :: marginfi_error where "ProtocolPaused \<equiv> MarginfiError 6080"
abbreviation MetadataTooLong :: marginfi_error where "MetadataTooLong \<equiv> MarginfiError 6081"
abbreviation PauseLimitExceeded :: marginfi_error where "PauseLimitExceeded \<equiv> MarginfiError 6082"
abbreviation ProtocolNotPaused :: marginfi_error where "ProtocolNotPaused \<equiv> MarginfiError 6083"
abbreviation BankKilledByBankruptcy :: marginfi_error where "BankKilledByBankruptcy \<equiv> MarginfiError 6084"
abbreviation UnexpectedLiquidationState :: marginfi_error where "UnexpectedLiquidationState \<equiv> MarginfiError 6085"
abbreviation StartNotFirst :: marginfi_error where "StartNotFirst \<equiv> MarginfiError 6086"
abbreviation StartRepeats :: marginfi_error where "StartRepeats \<equiv> MarginfiError 6087"
abbreviation EndNotLast :: marginfi_error where "EndNotLast \<equiv> MarginfiError 6088"
abbreviation ForbiddenIx :: marginfi_error where "ForbiddenIx \<equiv> MarginfiError 6089"
abbreviation LiquidationPremiumTooHigh :: marginfi_error where "LiquidationPremiumTooHigh \<equiv> MarginfiError 6090"
abbreviation NotAllowedInCPI :: marginfi_error where "NotAllowedInCPI \<equiv> MarginfiError 6091"
abbreviation ZeroSupplyInStakePool :: marginfi_error where "ZeroSupplyInStakePool \<equiv> MarginfiError 6092"
abbreviation InvalidGroup :: marginfi_error where "InvalidGroup \<equiv> MarginfiError 6093"
abbreviation InvalidLiquidityVault :: marginfi_error where "InvalidLiquidityVault \<equiv> MarginfiError 6094"
abbreviation InvalidLiquidationRecord :: marginfi_error where "InvalidLiquidationRecord \<equiv> MarginfiError 6095"
abbreviation InvalidLiquidationReceiver :: marginfi_error where "InvalidLiquidationReceiver \<equiv> MarginfiError 6096"
abbreviation InvalidEmissionsMint :: marginfi_error where "InvalidEmissionsMint \<equiv> MarginfiError 6097"
abbreviation InvalidMint :: marginfi_error where "InvalidMint \<equiv> MarginfiError 6098"
abbreviation InvalidFeeWallet :: marginfi_error where "InvalidFeeWallet \<equiv> MarginfiError 6099"
abbreviation FixedOraclePriceNegative :: marginfi_error where "FixedOraclePriceNegative \<equiv> MarginfiError 6100"
abbreviation DailyWithdrawalLimitExceeded :: marginfi_error where "DailyWithdrawalLimitExceeded \<equiv> MarginfiError 6101"
abbreviation ZeroWithdrawalLimit :: marginfi_error where "ZeroWithdrawalLimit \<equiv> MarginfiError 6102"
abbreviation AccountFrozen :: marginfi_error where "AccountFrozen \<equiv> MarginfiError 6103"
abbreviation WrongAssetTagForStandardInstructions :: marginfi_error where "WrongAssetTagForStandardInstructions \<equiv> MarginfiError 6200"
abbreviation WrongAssetTagForKaminoInstructions :: marginfi_error where "WrongAssetTagForKaminoInstructions \<equiv> MarginfiError 6201"
abbreviation CantAddPool :: marginfi_error where "CantAddPool \<equiv> MarginfiError 6202"
abbreviation KaminoReserveMintAddressMismatch :: marginfi_error where "KaminoReserveMintAddressMismatch \<equiv> MarginfiError 6203"
abbreviation KaminoDepositFailed :: marginfi_error where "KaminoDepositFailed \<equiv> MarginfiError 6204"
abbreviation KaminoWithdrawFailed :: marginfi_error where "KaminoWithdrawFailed \<equiv> MarginfiError 6205"
abbreviation ReserveStale :: marginfi_error where "ReserveStale \<equiv> MarginfiError 6206"
abbreviation InvalidObligationDepositCount :: marginfi_error where "InvalidObligationDepositCount \<equiv> MarginfiError 6207"
abbreviation ObligationDepositReserveMismatch :: marginfi_error where "ObligationDepositReserveMismatch \<equiv> MarginfiError 6208"
abbreviation ObligationInitDepositInsufficient :: marginfi_error where "ObligationInitDepositInsufficient \<equiv> MarginfiError 6209"
abbreviation KaminoReserveValidationFailed :: marginfi_error where "KaminoReserveValidationFailed \<equiv> MarginfiError 6210"
abbreviation KaminoInvalidOracleSetup :: marginfi_error where "KaminoInvalidOracleSetup \<equiv> MarginfiError 6211"
abbreviation IntegrationPositionLimitExceeded :: marginfi_error where "IntegrationPositionLimitExceeded \<equiv> MarginfiError 6212"
abbreviation InvalidKaminoReserve :: marginfi_error where "InvalidKaminoReserve \<equiv> MarginfiError 6213"
abbreviation InvalidKaminoObligation :: marginfi_error where "InvalidKaminoObligation \<equiv> MarginfiError 6214"
abbreviation DriftInvalidOracleSetup :: marginfi_error where "DriftInvalidOracleSetup \<equiv> MarginfiError 6300"
abbreviation DriftSpotMarketMintMismatch :: marginfi_error where "DriftSpotMarketMintMismatch \<equiv> MarginfiError 6301"
abbreviation WrongBankAssetTagForDriftOperation :: marginfi_error where "WrongBankAssetTagForDriftOperation \<equiv> MarginfiError 6302"
abbreviation CantUseStandardOperationsOnDriftAssets :: marginfi_error where "CantUseStandardOperationsOnDriftAssets \<equiv> MarginfiError 6303"
abbreviation DriftSpotMarketValidationFailed :: marginfi_error where "DriftSpotMarketValidationFailed \<equiv> MarginfiError 6304"
abbreviation DriftInvalidSpotPositions :: marginfi_error where "DriftInvalidSpotPositions \<equiv> MarginfiError 6305"
abbreviation DriftSpotPositionMarketMismatch :: marginfi_error where "DriftSpotPositionMarketMismatch \<equiv> MarginfiError 6306"
abbreviation DriftInvalidPositionType :: marginfi_error where "DriftInvalidPositionType \<equiv> MarginfiError 6307"
abbreviation DriftScaledBalanceMismatch :: marginfi_error where "DriftScaledBalanceMismatch \<equiv> MarginfiError 6308"
abbreviation DriftWithdrawFailed :: marginfi_error where "DriftWithdrawFailed \<equiv> MarginfiError 6309"
abbreviation DriftUserInitDepositInsufficient :: marginfi_error where "DriftUserInitDepositInsufficient \<equiv> MarginfiError 6310"
abbreviation InvalidDriftAccount :: marginfi_error where "InvalidDriftAccount \<equiv> MarginfiError 6311"
abbreviation DriftAuthorityMismatch :: marginfi_error where "DriftAuthorityMismatch \<equiv> MarginfiError 6312"
abbreviation DriftInvalidHarvestPositionIndex :: marginfi_error where "DriftInvalidHarvestPositionIndex \<equiv> MarginfiError 6313"
abbreviation DriftPositionEmpty :: marginfi_error where "DriftPositionEmpty \<equiv> MarginfiError 6314"
abbreviation DriftInvalidBalanceType :: marginfi_error where "DriftInvalidBalanceType \<equiv> MarginfiError 6315"
abbreviation DriftNoAdminDeposit :: marginfi_error where "DriftNoAdminDeposit \<equiv> MarginfiError 6316"
abbreviation DriftHarvestSameMarket :: marginfi_error where "DriftHarvestSameMarket \<equiv> MarginfiError 6317"
abbreviation DriftBrickedAccount :: marginfi_error where "DriftBrickedAccount \<equiv> MarginfiError 6318"
abbreviation DriftMissingRewardOracle :: marginfi_error where "DriftMissingRewardOracle \<equiv> MarginfiError 6319"
abbreviation DriftMissingRewardSpotMarket :: marginfi_error where "DriftMissingRewardSpotMarket \<equiv> MarginfiError 6320"
abbreviation DriftMissingRewardAccounts :: marginfi_error where "DriftMissingRewardAccounts \<equiv> MarginfiError 6321"
abbreviation DriftSpotMarketStale :: marginfi_error where "DriftSpotMarketStale \<equiv> MarginfiError 6322"
abbreviation InvalidDriftSpotMarket :: marginfi_error where "InvalidDriftSpotMarket \<equiv> MarginfiError 6323"
abbreviation InvalidDriftUser :: marginfi_error where "InvalidDriftUser \<equiv> MarginfiError 6324"
abbreviation InvalidDriftUserStats :: marginfi_error where "InvalidDriftUserStats \<equiv> MarginfiError 6325"
abbreviation DriftUnsupportedTokenDecimals :: marginfi_error where "DriftUnsupportedTokenDecimals \<equiv> MarginfiError 6326"
abbreviation SolendInvalidOracleSetup :: marginfi_error where "SolendInvalidOracleSetup \<equiv> MarginfiError 6400"
abbreviation SolendReserveValidationFailed :: marginfi_error where "SolendReserveValidationFailed \<equiv> MarginfiError 6401"
abbreviation SolendObligationOwnerMismatch :: marginfi_error where "SolendObligationOwnerMismatch \<equiv> MarginfiError 6402"
abbreviation WrongBankAssetTagForSolendOperation :: marginfi_error where "WrongBankAssetTagForSolendOperation \<equiv> MarginfiError 6403"
abbreviation CantUseStandardOperationsOnSolendAssets :: marginfi_error where "CantUseStandardOperationsOnSolendAssets \<equiv> MarginfiError 6404"
abbreviation SolendReserveMismatch :: marginfi_error where "SolendReserveMismatch \<equiv> MarginfiError 6405"
abbreviation SolendReserveMintMismatch :: marginfi_error where "SolendReserveMintMismatch \<equiv> MarginfiError 6406"
abbreviation SolendInvalidDepositPositions :: marginfi_error where "SolendInvalidDepositPositions \<equiv> MarginfiError 6407"
abbreviation SolendDepositPositionReserveMismatch :: marginfi_error where "SolendDepositPositionReserveMismatch \<equiv> MarginfiError 6408"
abbreviation SolendCTokenBalanceMismatch :: marginfi_error where "SolendCTokenBalanceMismatch \<equiv> MarginfiError 6409"
abbreviation SolendWithdrawFailed :: marginfi_error where "SolendWithdrawFailed \<equiv> MarginfiError 6410"
abbreviation SolendReserveStale :: marginfi_error where "SolendReserveStale \<equiv> MarginfiError 6411"
abbreviation SolendDepositFailed :: marginfi_error where "SolendDepositFailed \<equiv> MarginfiError 6412"
abbreviation InvalidSolendAccount :: marginfi_error where "InvalidSolendAccount \<equiv> MarginfiError 6413"
abbreviation InvalidSolendAccountVersion :: marginfi_error where "InvalidSolendAccountVersion \<equiv> MarginfiError 6414"
abbreviation InvalidSolendReserve :: marginfi_error where "InvalidSolendReserve \<equiv> MarginfiError 6415"
abbreviation InvalidSolendObligation :: marginfi_error where "InvalidSolendObligation \<equiv> MarginfiError 6416"

section \<open>Codes back to errors\<close>

text \<open>
  \<open>impl From<u32> for MarginfiError\<close> lists one arm per code and sends every other number to
  \<open>InternalLogicError\<close>. The arms map each listed code to the variant with that code; the
  lists are the codes that have an arm.
\<close>

definition from_u32_core_arms :: "nat list" where
  "from_u32_core_arms = [6001..<6103]"

definition from_u32_integration_arms :: "nat list" where
  "from_u32_integration_arms = [6200..<6215] @ [6300..<6327] @ [6400..<6417]"

definition error_from_u32 :: "nat \<Rightarrow> marginfi_error" where
  "error_from_u32 c =
     (if c \<in> set (from_u32_core_arms @ from_u32_integration_arms) then MarginfiError c
      else InternalLogicError)"

text \<open>The variants of the enum, in its order.\<close>

definition core_variants :: "marginfi_error list" where
  "core_variants =
          [InternalLogicError, BankNotFound, LendingAccountBalanceNotFound,
      BankAssetCapacityExceeded, InvalidTransfer, MissingPythOrBankAccount, MissingPythAccount,
      MissingBankAccount, InvalidBankAccount, RiskEngineInitRejected,
      LendingAccountBalanceSlotsFull, BankAlreadyExists, ZeroLiquidationAmount, AccountNotBankrupt,
      BalanceNotBadDebt, InvalidConfig, BankPaused, BankReduceOnly, BankAccountNotFound,
      OperationDepositOnly, OperationWithdrawOnly, OperationBorrowOnly, OperationRepayOnly,
      NoAssetFound, NoLiabilityFound, InvalidOracleSetup, IllegalUtilizationRatio,
      BankLiabilityCapacityExceeded, InvalidPrice, IsolatedAccountIllegalState,
      EmissionsAlreadySetup, OracleNotSetup, InvalidSwitchboardDecimalConversion,
      CannotCloseOutstandingEmissions, EmissionsUpdateError, AccountDisabled,
      AccountTempActiveBalanceLimitExceeded, AccountInFlashloan, IllegalFlashloan, IllegalFlag,
      IllegalBalanceState, IllegalAccountAuthorityTransfer, Unauthorized, IllegalAction,
      T22MintRequired, InvalidFeeAta, AddedStakedPoolManually, AssetTagMismatch,
      StakePoolValidationFailed, SwitchboardStalePrice, PythPushStalePrice,
      WrongNumberOfOracleAccounts, WrongOracleAccountKeys, PythPushWrongAccountOwner,
      StakedPythPushWrongAccountOwner, OracleMaxConfidenceExceeded,
      PythPushInsufficientVerificationLevel, ZeroAssetPrice, ZeroLiabilityPrice,
      SwitchboardWrongAccountOwner, PythPushInvalidAccount, SwitchboardInvalidAccount, MathError,
      InvalidEmissionsDestinationAccount, SameAssetAndLiabilityBanks, OverliquidationAttempt,
      NoLiabilitiesInLiabilityBank, AssetsInLiabilityBank, HealthyAccount, ExhaustedLiability,
      TooSeverePayoff, TooSevereLiquidation, WorseHealthPostLiquidation, Vacated0, Vacated1,
      BadEmodeConfig, PythPushInvalidWindowSize, InvalidFeesDestinationAccount, BankCannotClose,
      AccountAlreadyMigrated, ProtocolPaused, MetadataTooLong, PauseLimitExceeded,
      ProtocolNotPaused, BankKilledByBankruptcy, UnexpectedLiquidationState, StartNotFirst,
      StartRepeats, EndNotLast, ForbiddenIx, LiquidationPremiumTooHigh, NotAllowedInCPI,
      ZeroSupplyInStakePool, InvalidGroup, InvalidLiquidityVault, InvalidLiquidationRecord,
      InvalidLiquidationReceiver, InvalidEmissionsMint, InvalidMint, InvalidFeeWallet,
      FixedOraclePriceNegative, DailyWithdrawalLimitExceeded, ZeroWithdrawalLimit, AccountFrozen]"

definition integration_variants :: "marginfi_error list" where
  "integration_variants =
          [WrongAssetTagForStandardInstructions, WrongAssetTagForKaminoInstructions, CantAddPool,
      KaminoReserveMintAddressMismatch, KaminoDepositFailed, KaminoWithdrawFailed, ReserveStale,
      InvalidObligationDepositCount, ObligationDepositReserveMismatch,
      ObligationInitDepositInsufficient, KaminoReserveValidationFailed, KaminoInvalidOracleSetup,
      IntegrationPositionLimitExceeded, InvalidKaminoReserve, InvalidKaminoObligation,
      DriftInvalidOracleSetup, DriftSpotMarketMintMismatch, WrongBankAssetTagForDriftOperation,
      CantUseStandardOperationsOnDriftAssets, DriftSpotMarketValidationFailed,
      DriftInvalidSpotPositions, DriftSpotPositionMarketMismatch, DriftInvalidPositionType,
      DriftScaledBalanceMismatch, DriftWithdrawFailed, DriftUserInitDepositInsufficient,
      InvalidDriftAccount, DriftAuthorityMismatch, DriftInvalidHarvestPositionIndex,
      DriftPositionEmpty, DriftInvalidBalanceType, DriftNoAdminDeposit, DriftHarvestSameMarket,
      DriftBrickedAccount, DriftMissingRewardOracle, DriftMissingRewardSpotMarket,
      DriftMissingRewardAccounts, DriftSpotMarketStale, InvalidDriftSpotMarket, InvalidDriftUser,
      InvalidDriftUserStats, DriftUnsupportedTokenDecimals, SolendInvalidOracleSetup,
      SolendReserveValidationFailed, SolendObligationOwnerMismatch,
      WrongBankAssetTagForSolendOperation, CantUseStandardOperationsOnSolendAssets,
      SolendReserveMismatch, SolendReserveMintMismatch, SolendInvalidDepositPositions,
      SolendDepositPositionReserveMismatch, SolendCTokenBalanceMismatch, SolendWithdrawFailed,
      SolendReserveStale, SolendDepositFailed, InvalidSolendAccount, InvalidSolendAccountVersion,
      InvalidSolendReserve, InvalidSolendObligation]"

definition is_oracle_error :: "marginfi_error \<Rightarrow> bool" where
  "is_oracle_error e \<longleftrightarrow> e \<in> {
     WrongNumberOfOracleAccounts, SwitchboardInvalidAccount, PythPushInvalidAccount,
     SwitchboardWrongAccountOwner, PythPushInsufficientVerificationLevel,
     StakedPythPushWrongAccountOwner, PythPushWrongAccountOwner, WrongOracleAccountKeys,
     PythPushStalePrice, SwitchboardStalePrice, StakePoolValidationFailed, InvalidBankAccount,
     MissingBankAccount, MissingPythAccount, MissingPythOrBankAccount, PythPushInvalidWindowSize,
     OracleMaxConfidenceExceeded, ZeroSupplyInStakePool}"

definition is_risk_engine_rejection :: "marginfi_error \<Rightarrow> bool" where
  "is_risk_engine_rejection e \<longleftrightarrow> e = RiskEngineInitRejected"

section \<open>Failures and results\<close>

datatype failure = Err marginfi_error | NoneValue | Panic | ProgramError string

type_synonym 'a res = "failure + 'a"

text \<open>Rust's question mark on an \<open>Option\<close> inside a function that returns an \<open>Option\<close>.\<close>

definition opt :: "'a option \<Rightarrow> 'a res" where
  "opt v = (case v of None \<Rightarrow> Inl NoneValue | Some x \<Rightarrow> Inr x)"

text \<open>\<open>ok_or\<close> and \<open>ok_or_else(math_error!())\<close>.\<close>

definition ok_or :: "marginfi_error \<Rightarrow> 'a option \<Rightarrow> 'a res" where
  "ok_or e v = (case v of None \<Rightarrow> Inl (Err e) | Some x \<Rightarrow> Inr x)"

abbreviation math :: "'a option \<Rightarrow> 'a res" where
  "math v \<equiv> ok_or MathError v"

text \<open>\<open>unwrap\<close>, and operators that panic on overflow.\<close>

definition unwrap :: "'a option \<Rightarrow> 'a res" where
  "unwrap v = (case v of None \<Rightarrow> Inl Panic | Some x \<Rightarrow> Inr x)"

text \<open>\<open>ok_or_else(math_error!())\<close> on the result of a function that returns an \<open>Option\<close>.\<close>

definition none_to :: "marginfi_error \<Rightarrow> 'a res \<Rightarrow> 'a res" where
  "none_to e r = (case r of Inl NoneValue \<Rightarrow> Inl (Err e) | _ \<Rightarrow> r)"

definition i64_op :: "int \<Rightarrow> int res" where
  "i64_op z = (if in_i64 z then Inr z else Inl Panic)"

lemma opt_simps [simp, res_simps]: "opt None = Inl NoneValue" "opt (Some x) = Inr x"
  by (simp_all add: opt_def)

lemma ok_or_simps [simp, res_simps]: "ok_or e None = Inl (Err e)" "ok_or e (Some x) = Inr x"
  by (simp_all add: ok_or_def)

lemma unwrap_simps [simp, res_simps]: "unwrap None = Inl Panic" "unwrap (Some x) = Inr x"
  by (simp_all add: unwrap_def)

lemma opt_eq_Inr [res_simps]: "opt v = Inr x \<longleftrightarrow> v = Some x"
  by (cases v) simp_all

lemma ok_or_eq_Inr [res_simps]: "ok_or e v = Inr x \<longleftrightarrow> v = Some x"
  by (cases v) simp_all

lemma unwrap_eq_Inr [res_simps]: "unwrap v = Inr x \<longleftrightarrow> v = Some x"
  by (cases v) simp_all

lemma none_to_Inr [simp, res_simps]: "none_to e (Inr x) = Inr x"
  by (simp add: none_to_def)

lemma none_to_eq_Inr [res_simps]: "none_to e r = Inr x \<longleftrightarrow> r = Inr x"
  by (auto simp: none_to_def split: sum.splits failure.splits)

lemma i64_op_eq_Inr [res_simps]: "i64_op z = Inr x \<longleftrightarrow> in_i64 z \<and> x = z"
  by (auto simp: i64_op_def)

section \<open>Properties of the codes\<close>

lemma error_from_u32_listed:
  "c \<in> set (from_u32_core_arms @ from_u32_integration_arms) \<Longrightarrow>
     error_number (error_from_u32 c) = c"
  by (simp add: error_from_u32_def)

end
