(* ===== verification/Fixed.thy ===== *)
theory Fixed
  imports Errors
begin

text \<open>
  The interface of the fixed-point numbers. The program computes with \<open>I80F48\<close> of the
  \<open>fixed\<close> crate, which is not part of the repository, so its operations are a parameter:
  a record \<open>fixed_ops\<close> that every definition which computes takes as its first argument.
  A value is its 128-bit two's complement bit pattern read as an \<open>int\<close>, which is what
  \<open>WrappedI80F48\<close> stores (its conversions are \<open>to_le_bytes\<close> and \<open>from_le_bytes\<close>);
  48 of the bits are the fraction, so \<open>ONE\<close> is \<open>2 ^ 48\<close> and comparing two values
  compares their bits.

  The locale \<open>fixed_arith\<close> states the documented behaviour the program relies on: addition
  and subtraction are exact or overflow, multiplication and division of non-negative values drop
  the fraction bits that do not fit, and any other product or quotient is within one unit of the
  last place. \<open>fx_ref\<close> is a concrete instance, on which the witnesses evaluate.
\<close>

type_synonym I80F48 = int

definition ONE :: I80F48 where "ONE = 281474976710656"

abbreviation (input) ZERO :: I80F48 where "ZERO \<equiv> 0"

definition fx_limit :: int where "fx_limit = 170141183460469231731687303715884105728"

definition in_fx :: "int \<Rightarrow> bool" where
  "in_fx z \<longleftrightarrow> - fx_limit \<le> z \<and> z < fx_limit"

record fixed_ops =
  checked_add :: "I80F48 \<Rightarrow> I80F48 \<Rightarrow> I80F48 option"
  checked_sub :: "I80F48 \<Rightarrow> I80F48 \<Rightarrow> I80F48 option"
  checked_mul :: "I80F48 \<Rightarrow> I80F48 \<Rightarrow> I80F48 option"
  checked_div :: "I80F48 \<Rightarrow> I80F48 \<Rightarrow> I80F48 option"
  checked_floor :: "I80F48 \<Rightarrow> I80F48 option"
  checked_ceil :: "I80F48 \<Rightarrow> I80F48 option"
  saturating_add :: "I80F48 \<Rightarrow> I80F48 \<Rightarrow> I80F48"
  saturating_sub :: "I80F48 \<Rightarrow> I80F48 \<Rightarrow> I80F48"
  op_add :: "I80F48 \<Rightarrow> I80F48 \<Rightarrow> I80F48 option"
  op_sub :: "I80F48 \<Rightarrow> I80F48 \<Rightarrow> I80F48 option"
  op_mul :: "I80F48 \<Rightarrow> I80F48 \<Rightarrow> I80F48 option"
  op_div :: "I80F48 \<Rightarrow> I80F48 \<Rightarrow> I80F48 option"
  op_neg :: "I80F48 \<Rightarrow> I80F48 option"
  op_abs :: "I80F48 \<Rightarrow> I80F48 option"
  from_num :: "int \<Rightarrow> I80F48 option"
  checked_to_u64 :: "I80F48 \<Rightarrow> nat option"
  checked_to_i64 :: "I80F48 \<Rightarrow> int option"
  checked_to_i128 :: "I80F48 \<Rightarrow> int option"
  to_u32 :: "I80F48 \<Rightarrow> nat option"
  to_f64 :: "I80F48 \<Rightarrow> 64 word"
  decimal :: "int \<Rightarrow> nat \<Rightarrow> I80F48"

text \<open>
  The operators (\<open>op_add\<close> and so on), \<open>from_num\<close> and \<open>to_u32\<close> give \<open>None\<close>
  where they panic. \<open>decimal n k\<close> is the literal \<open>n / 10 ^ k\<close> of the \<open>I80F48!\<close>
  macro and of \<open>from_num\<close> on a float constant.
\<close>

locale fixed_arith =
  fixes fx :: fixed_ops
  assumes add: "checked_add fx a b = (if in_fx (a + b) then Some (a + b) else None)"
    and sub: "checked_sub fx a b = (if in_fx (a - b) then Some (a - b) else None)"
    and mul: "0 \<le> a \<Longrightarrow> 0 \<le> b \<Longrightarrow>
      checked_mul fx a b = (if in_fx (a * b div ONE) then Some (a * b div ONE) else None)"
    and mul_near: "checked_mul fx a b = Some c \<Longrightarrow> \<bar>c * ONE - a * b\<bar> < ONE"
    and div_zero: "checked_div fx a 0 = None"
    and div: "0 \<le> a \<Longrightarrow> 0 < b \<Longrightarrow>
      checked_div fx a b = (if in_fx (a * ONE div b) then Some (a * ONE div b) else None)"
    and div_near: "0 < b \<Longrightarrow> checked_div fx a b = Some c \<Longrightarrow> \<bar>c * b - a * ONE\<bar> < b"
    and floor: "in_fx a \<Longrightarrow> checked_floor fx a = Some (a div ONE * ONE)"
    and ceil: "checked_ceil fx a =
      (if in_fx (- (- a div ONE) * ONE) then Some (- (- a div ONE) * ONE) else None)"
    and sat_add: "saturating_add fx a b = max (- fx_limit) (min (fx_limit - 1) (a + b))"
    and sat_sub: "saturating_sub fx a b = max (- fx_limit) (min (fx_limit - 1) (a - b))"
    and plus: "in_fx (a + b) \<Longrightarrow> op_add fx a b = Some (a + b)"
    and minus: "in_fx (a - b) \<Longrightarrow> op_sub fx a b = Some (a - b)"
    and times: "0 \<le> a \<Longrightarrow> 0 \<le> b \<Longrightarrow> in_fx (a * b div ONE) \<Longrightarrow>
      op_mul fx a b = Some (a * b div ONE)"
    and over: "0 \<le> a \<Longrightarrow> 0 < b \<Longrightarrow> in_fx (a * ONE div b) \<Longrightarrow>
      op_div fx a b = Some (a * ONE div b)"
    and neg: "in_fx (- a) \<Longrightarrow> op_neg fx a = Some (- a)"
    and abs: "in_fx \<bar>a\<bar> \<Longrightarrow> op_abs fx a = Some \<bar>a\<bar>"
    and of_int: "in_fx (n * ONE) \<Longrightarrow> from_num fx n = Some (n * ONE)"
    and to_u64: "0 \<le> a \<Longrightarrow> checked_to_u64 fx a =
      (if a div ONE \<le> int u64_max then Some (nat (a div ONE)) else None)"
    and to_u64_neg: "a \<le> - ONE \<Longrightarrow> checked_to_u64 fx a = None"
    and to_u32_small: "0 \<le> a \<Longrightarrow> a div ONE \<le> int u32_max \<Longrightarrow>
      to_u32 fx a = Some (nat (a div ONE))"
    and decimal_near: "\<bar>decimal fx n k * 10 ^ k - n * ONE\<bar> \<le> 10 ^ k"
    and decimal_int: "decimal fx n 0 = n * ONE"
    and to_i64: "checked_to_i64 fx a = (if in_i64 (a div ONE) then Some (a div ONE) else None)"
    and to_i128: "in_fx a \<Longrightarrow> checked_to_i128 fx a = Some (a div ONE)"
begin

lemma add_SomeD: "checked_add fx a b = Some c \<Longrightarrow> c = a + b \<and> in_fx c"
  by (auto simp: add split: if_splits)

lemma sub_SomeD: "checked_sub fx a b = Some c \<Longrightarrow> c = a - b \<and> in_fx c"
  by (auto simp: sub split: if_splits)

lemma mul_SomeD:
  "checked_mul fx a b = Some c \<Longrightarrow> 0 \<le> a \<Longrightarrow> 0 \<le> b \<Longrightarrow> c = a * b div ONE \<and> 0 \<le> c \<and> in_fx c"
  by (auto simp: mul ONE_def pos_imp_zdiv_nonneg_iff split: if_splits)

lemma div_SomeD:
  "checked_div fx a b = Some c \<Longrightarrow> 0 \<le> a \<Longrightarrow> 0 < b \<Longrightarrow> c = a * ONE div b \<and> 0 \<le> c \<and> in_fx c"
  by (auto simp: div ONE_def pos_imp_zdiv_nonneg_iff split: if_splits)

lemma to_u64_SomeD:
  "checked_to_u64 fx a = Some n \<Longrightarrow> 0 \<le> a \<Longrightarrow> int n = a div ONE \<and> n \<le> u64_max"
  by (auto simp: to_u64 ONE_def pos_imp_zdiv_nonneg_iff split: if_splits)

end

lemma ONE_pos [simp]: "0 < ONE" by (simp add: ONE_def)
lemma ONE_nonneg [simp]: "0 \<le> ONE" by (simp add: ONE_def)
lemma ONE_neq_0 [simp]: "ONE \<noteq> 0" by (simp add: ONE_def)
lemma fx_limit_pos [simp]: "0 < fx_limit" by (simp add: fx_limit_def)

lemma in_fx_mono: "in_fx b \<Longrightarrow> 0 \<le> a \<Longrightarrow> a \<le> b \<Longrightarrow> in_fx a"
  by (auto simp: in_fx_def fx_limit_def)

lemma in_fx_neg: "in_fx a \<Longrightarrow> 0 \<le> a \<Longrightarrow> in_fx (- a)"
  by (auto simp: in_fx_def)

lemma in_fx_diff: "in_fx a \<Longrightarrow> in_fx b \<Longrightarrow> 0 \<le> a \<Longrightarrow> 0 \<le> b \<Longrightarrow> in_fx (a - b)"
  by (auto simp: in_fx_def)

lemma in_fx_zero [simp]: "in_fx 0" by (simp add: in_fx_def fx_limit_def)

lemma in_fx_ONE [simp]: "in_fx ONE" by (simp add: in_fx_def ONE_def fx_limit_def)

section \<open>A concrete instance\<close>

definition trunc_div :: "int \<Rightarrow> int \<Rightarrow> int" where
  "trunc_div a b = sgn a * sgn b * (\<bar>a\<bar> div \<bar>b\<bar>)"

definition if_fx :: "int \<Rightarrow> int option" where
  "if_fx z = (if in_fx z then Some z else None)"

definition fx_ref :: fixed_ops where
  "fx_ref = \<lparr>
     checked_add = (\<lambda>a b. if_fx (a + b)),
     checked_sub = (\<lambda>a b. if_fx (a - b)),
     checked_mul = (\<lambda>a b. if_fx (a * b div ONE)),
     checked_div = (\<lambda>a b. if b = 0 then None else if_fx (trunc_div (a * ONE) b)),
     checked_floor = (\<lambda>a. if_fx (a div ONE * ONE)),
     checked_ceil = (\<lambda>a. if_fx (- (- a div ONE) * ONE)),
     saturating_add = (\<lambda>a b. max (- fx_limit) (min (fx_limit - 1) (a + b))),
     saturating_sub = (\<lambda>a b. max (- fx_limit) (min (fx_limit - 1) (a - b))),
     op_add = (\<lambda>a b. if_fx (a + b)),
     op_sub = (\<lambda>a b. if_fx (a - b)),
     op_mul = (\<lambda>a b. if_fx (a * b div ONE)),
     op_div = (\<lambda>a b. if b = 0 then None else if_fx (trunc_div (a * ONE) b)),
     op_neg = (\<lambda>a. if_fx (- a)),
     op_abs = (\<lambda>a. if_fx \<bar>a\<bar>),
     from_num = (\<lambda>n. if_fx (n * ONE)),
     checked_to_u64 = (\<lambda>a. if 0 \<le> a div ONE \<and> a div ONE \<le> int u64_max
                            then Some (nat (a div ONE)) else None),
     checked_to_i64 = (\<lambda>a. if in_i64 (a div ONE) then Some (a div ONE) else None),
     checked_to_i128 = (\<lambda>a. Some (a div ONE)),
     to_u32 = (\<lambda>a. if 0 \<le> a div ONE \<and> a div ONE \<le> int u32_max
                    then Some (nat (a div ONE)) else None),
     to_f64 = (\<lambda>a. word_of_int (a div ONE)),
     decimal = (\<lambda>n k. n * ONE div 10 ^ k)\<rparr>"

lemma trunc_div_nonneg: "0 \<le> a \<Longrightarrow> 0 < b \<Longrightarrow> trunc_div a b = a div b"
  by (cases "a = 0") (auto simp: trunc_div_def sgn_if)

lemma trunc_div_near: "0 < b \<Longrightarrow> \<bar>trunc_div a b * b - a\<bar> < b"
proof -
  assume b: "0 < b"
  have m: "\<bar>a\<bar> div b * b - \<bar>a\<bar> = - (\<bar>a\<bar> mod b)"
    using div_mult_mod_eq [of "\<bar>a\<bar>" b] by linarith
  have "trunc_div a b * b - a = sgn a * (\<bar>a\<bar> div b * b - \<bar>a\<bar>)"
    using b mult_sgn_abs [of a] by (simp add: trunc_div_def algebra_simps)
  then have "\<bar>trunc_div a b * b - a\<bar> = \<bar>sgn a\<bar> * (\<bar>a\<bar> mod b)"
    using b by (simp add: m abs_mult)
  also have "\<dots> \<le> \<bar>a\<bar> mod b" using b by (simp add: abs_sgn_eq)
  also have "\<dots> < b" using b by simp
  finally show ?thesis .
qed

lemma floor_mul_near: "\<bar>z div ONE * ONE - z\<bar> < ONE"
proof -
  have "z div ONE * ONE - z = - (z mod ONE)" using div_mult_mod_eq [of z ONE] by linarith
  then show ?thesis using pos_mod_bound [of ONE z] pos_mod_sign [of ONE z] by simp
qed

lemma floor_in_fx: "in_fx a \<Longrightarrow> in_fx (a div ONE * ONE)"
proof -
  assume a: "in_fx a"
  have le: "a div ONE * ONE \<le> a"
    using div_mult_mod_eq [of a ONE] pos_mod_sign [of ONE a] ONE_pos by linarith
  have "(- fx_limit) div ONE \<le> a div ONE"
    using a by (intro zdiv_mono1) (auto simp: in_fx_def)
  then have "(- fx_limit) div ONE * ONE \<le> a div ONE * ONE" by (simp add: mult_right_mono)
  then have "- fx_limit \<le> a div ONE * ONE" by (simp add: fx_limit_def ONE_def)
  with a le show ?thesis by (auto simp: in_fx_def)
qed

interpretation ref: fixed_arith fx_ref
proof (unfold_locales, goal_cases)
  case (4 a b c)
  then show ?case using floor_mul_near [of "a * b"] by (auto simp: fx_ref_def if_fx_def split: if_splits)
next
  case (7 b a c)
  then show ?case using trunc_div_near [of b "a * ONE"]
    by (auto simp: fx_ref_def if_fx_def split: if_splits)
next
  case (8 a)
  then show ?case by (simp add: fx_ref_def if_fx_def floor_in_fx)
next
  case (20 a)
  then have "a div ONE \<le> - ONE div ONE" by (intro zdiv_mono1) auto
  then have "a div ONE < 0" by (simp add: ONE_def)
  then show ?case by (simp add: fx_ref_def)
next
  case (22 n k)
  have "n * ONE div 10 ^ k * 10 ^ k - n * ONE = - (n * ONE mod 10 ^ k)"
    using div_mult_mod_eq [of "n * ONE" "10 ^ k"] by linarith
  moreover have "n * ONE mod 10 ^ k \<le> 10 ^ k"
    by (rule less_imp_le) simp
  ultimately show ?case by (simp add: fx_ref_def)
qed (simp_all add: fx_ref_def if_fx_def trunc_div_nonneg pos_imp_zdiv_nonneg_iff)

end
