(* ===== verification/Constants.thy ===== *)
theory Constants
  imports Fixed
begin

text \<open>
  The constants of \<open>type-crate/src/constants.rs\<close> and of the flag words of an account. Decimal
  literals go through the parameter \<open>decimal\<close>, since the macro that rounds them is not part of
  the repository; integer literals are multiples of \<open>ONE\<close>.
\<close>

definition LIQUIDATION_LIQUIDATOR_FEE :: "fixed_ops \<Rightarrow> I80F48" where
  "LIQUIDATION_LIQUIDATOR_FEE fx = decimal fx 25 3"
definition LIQUIDATION_INSURANCE_FEE :: "fixed_ops \<Rightarrow> I80F48" where
  "LIQUIDATION_INSURANCE_FEE fx = decimal fx 25 3"
definition SECONDS_PER_YEAR :: I80F48 where "SECONDS_PER_YEAR = 31536000 * ONE"
definition DAILY_RESET_INTERVAL :: i64 where "DAILY_RESET_INTERVAL = 24 * 60 * 60"
definition ORACLE_MIN_AGE :: u16 where "ORACLE_MIN_AGE = 10"
definition MAX_PYTH_ORACLE_AGE :: u64 where "MAX_PYTH_ORACLE_AGE = 60"
definition CONF_INTERVAL_MULTIPLE :: "fixed_ops \<Rightarrow> I80F48" where
  "CONF_INTERVAL_MULTIPLE fx = decimal fx 212 2"
definition STD_DEV_MULTIPLE :: "fixed_ops \<Rightarrow> I80F48" where
  "STD_DEV_MULTIPLE fx = decimal fx 196 2"
definition MAX_CONF_INTERVAL :: "fixed_ops \<Rightarrow> I80F48" where
  "MAX_CONF_INTERVAL fx = decimal fx 5 2"
definition U32_MAX_FX :: I80F48 where "U32_MAX_FX = 4294967295 * ONE"
definition U32_MAX_DIV_10 :: I80F48 where "U32_MAX_DIV_10 = 429496730 * ONE"
definition MAX_ORACLE_KEYS :: nat where "MAX_ORACLE_KEYS = 5"
definition EMPTY_BALANCE_THRESHOLD :: I80F48 where "EMPTY_BALANCE_THRESHOLD = 1 * ONE"
definition BANKRUPT_THRESHOLD :: "fixed_ops \<Rightarrow> I80F48" where
  "BANKRUPT_THRESHOLD fx = decimal fx 1 1"
definition ZERO_AMOUNT_THRESHOLD :: "fixed_ops \<Rightarrow> I80F48" where
  "ZERO_AMOUNT_THRESHOLD fx = decimal fx 1 4"

definition EMISSIONS_FLAG_BORROW_ACTIVE :: "64 word" where "EMISSIONS_FLAG_BORROW_ACTIVE = 1"
definition EMISSIONS_FLAG_LENDING_ACTIVE :: "64 word" where "EMISSIONS_FLAG_LENDING_ACTIVE = 2"
definition PERMISSIONLESS_BAD_DEBT_SETTLEMENT_FLAG :: "64 word" where
  "PERMISSIONLESS_BAD_DEBT_SETTLEMENT_FLAG = 4"
definition FREEZE_SETTINGS :: "64 word" where "FREEZE_SETTINGS = 8"
definition CLOSE_ENABLED_FLAG :: "64 word" where "CLOSE_ENABLED_FLAG = 16"
definition TOKENLESS_REPAYMENTS_ALLOWED :: "64 word" where "TOKENLESS_REPAYMENTS_ALLOWED = 32"
definition TOKENLESS_REPAYMENTS_COMPLETE :: "64 word" where "TOKENLESS_REPAYMENTS_COMPLETE = 64"
definition PYTH_PUSH_MIGRATED_DEPRECATED :: "8 word" where "PYTH_PUSH_MIGRATED_DEPRECATED = 1"

definition EMISSION_FLAGS :: "64 word" where
  "EMISSION_FLAGS = EMISSIONS_FLAG_BORROW_ACTIVE OR EMISSIONS_FLAG_LENDING_ACTIVE"

definition GROUP_FLAGS :: "64 word" where
  "GROUP_FLAGS = ((PERMISSIONLESS_BAD_DEBT_SETTLEMENT_FLAG OR FREEZE_SETTINGS)
     OR TOKENLESS_REPAYMENTS_ALLOWED) OR TOKENLESS_REPAYMENTS_COMPLETE"

definition MIN_EMISSIONS_START_TIME :: u64 where "MIN_EMISSIONS_START_TIME = 1681989983"

definition MAX_EXP_10_I80F48 :: nat where "MAX_EXP_10_I80F48 = 24"

text \<open>
  Reading the table of powers of ten: an index past its end panics (\<open>EXP_10_I80F48[i]\<close>), and
  \<open>get\<close> gives \<open>None\<close> there.
\<close>

definition exp_10_get :: "nat \<Rightarrow> I80F48 option" where
  "exp_10_get i = (if i < MAX_EXP_10_I80F48 then Some (10 ^ i * ONE) else None)"

definition TOTAL_ASSET_VALUE_INIT_LIMIT_INACTIVE :: u64 where
  "TOTAL_ASSET_VALUE_INIT_LIMIT_INACTIVE = 0"

definition ASSET_TAG_DEFAULT :: u8 where "ASSET_TAG_DEFAULT = 0"
definition ASSET_TAG_SOL :: u8 where "ASSET_TAG_SOL = 1"
definition ASSET_TAG_STAKED :: u8 where "ASSET_TAG_STAKED = 2"
definition ASSET_TAG_KAMINO :: u8 where "ASSET_TAG_KAMINO = 3"
definition ASSET_TAG_DRIFT :: u8 where "ASSET_TAG_DRIFT = 4"
definition ASSET_TAG_SOLEND :: u8 where "ASSET_TAG_SOLEND = 5"

definition MAX_INTEGRATION_POSITIONS :: nat where "MAX_INTEGRATION_POSITIONS = 8"

lemmas asset_tag_defs = ASSET_TAG_DEFAULT_def ASSET_TAG_SOL_def ASSET_TAG_STAKED_def
  ASSET_TAG_KAMINO_def ASSET_TAG_DRIFT_def ASSET_TAG_SOLEND_def

text \<open>The flags of a marginfi account (\<open>types/user_account.rs\<close>).\<close>

definition ACCOUNT_DISABLED :: "64 word" where "ACCOUNT_DISABLED = 1"
definition ACCOUNT_IN_FLASHLOAN :: "64 word" where "ACCOUNT_IN_FLASHLOAN = 2"
definition ACCOUNT_IN_RECEIVERSHIP :: "64 word" where "ACCOUNT_IN_RECEIVERSHIP = 16"
definition ACCOUNT_IN_DELEVERAGE :: "64 word" where "ACCOUNT_IN_DELEVERAGE = 32"
definition ACCOUNT_FROZEN :: "64 word" where "ACCOUNT_FROZEN = 64"
definition MAX_LENDING_ACCOUNT_BALANCES :: nat where "MAX_LENDING_ACCOUNT_BALANCES = 16"

lemmas account_flag_defs = ACCOUNT_DISABLED_def ACCOUNT_IN_FLASHLOAN_def
  ACCOUNT_IN_RECEIVERSHIP_def ACCOUNT_IN_DELEVERAGE_def ACCOUNT_FROZEN_def

text \<open>The instruction discriminators the flash-loan and liquidation checks compare.\<close>

definition START_LIQUIDATION :: "u8 list" where
  "START_LIQUIDATION = [244, 93, 90, 214, 192, 166, 191, 21]"
definition END_LIQUIDATION :: "u8 list" where
  "END_LIQUIDATION = [110, 11, 244, 54, 229, 181, 22, 184]"
definition START_FLASHLOAN :: "u8 list" where
  "START_FLASHLOAN = [14, 131, 33, 220, 81, 186, 180, 107]"
definition END_FLASHLOAN :: "u8 list" where
  "END_FLASHLOAN = [105, 124, 201, 106, 153, 2, 8, 156]"

lemma SECONDS_PER_YEAR_pos [simp]: "0 < SECONDS_PER_YEAR"
  by (simp add: SECONDS_PER_YEAR_def)

lemma exp_10_get_pos: "exp_10_get i = Some s \<Longrightarrow> ONE \<le> s"
  by (auto simp: exp_10_get_def split: if_splits)

context fixed_arith
begin

lemma zero_amount_pos: "0 < ZERO_AMOUNT_THRESHOLD fx"
  using decimal_near [of 1 4] by (simp add: ZERO_AMOUNT_THRESHOLD_def ONE_def)

lemma zero_amount_lt_one: "ZERO_AMOUNT_THRESHOLD fx < ONE"
  using decimal_near [of 1 4] by (simp add: ZERO_AMOUNT_THRESHOLD_def ONE_def)

lemma max_conf_interval_bounds:
  "0 < MAX_CONF_INTERVAL fx" "MAX_CONF_INTERVAL fx < ONE"
  using decimal_near [of 5 2] by (simp_all add: MAX_CONF_INTERVAL_def ONE_def)

end

end
