(* ===== verification/Types.thy ===== *)
theory Types
  imports Constants
begin

text \<open>
  The account data of the program (\<open>type-crate/src/types\<close>): groups, banks and their
  configuration, user accounts and their balances, fee and health caches. Every struct is a
  record with the source's fields in the source's order; padding is left out, and a field name
  that several structs use carries a prefix. Keys are 32 bytes read as a big-endian number, so
  that comparing keys byte by byte is comparing numbers; \<open>Pubkey::default()\<close> is 0. Booleans
  stored in a byte keep their byte.
\<close>

type_synonym pubkey = nat

abbreviation (input) default_key :: pubkey where "default_key \<equiv> 0"

section \<open>Interest rate configuration\<close>

record RatePoint =
  util :: u32
  rate :: u32

definition INTEREST_CURVE_LEGACY :: u8 where "INTEREST_CURVE_LEGACY = 0"
definition INTEREST_CURVE_SEVEN_POINT :: u8 where "INTEREST_CURVE_SEVEN_POINT = 1"
definition CURVE_POINTS :: nat where "CURVE_POINTS = 5"

record InterestRateConfig =
  optimal_utilization_rate :: I80F48
  plateau_interest_rate :: I80F48
  max_interest_rate :: I80F48
  insurance_fee_fixed_apr :: I80F48
  insurance_ir_fee :: I80F48
  protocol_fixed_fee_apr :: I80F48
  protocol_ir_fee :: I80F48
  protocol_origination_fee :: I80F48
  zero_util_rate :: u32
  hundred_util_rate :: u32
  points :: "RatePoint list"
  curve_type :: u8

definition zero_point :: RatePoint where "zero_point = \<lparr>util = 0, rate = 0\<rparr>"

definition InterestRateConfig_default :: InterestRateConfig where
  "InterestRateConfig_default = \<lparr>
     optimal_utilization_rate = 0, plateau_interest_rate = 0, max_interest_rate = 0,
     insurance_fee_fixed_apr = 0, insurance_ir_fee = 0, protocol_fixed_fee_apr = 0,
     protocol_ir_fee = 0, protocol_origination_fee = 0, zero_util_rate = 0,
     hundred_util_rate = 0, points = replicate CURVE_POINTS zero_point, curve_type = 0\<rparr>"

text \<open>\<open>make_points\<close>: pads with zeros, or keeps the first \<open>CURVE_POINTS\<close>.\<close>

definition make_points :: "RatePoint list \<Rightarrow> RatePoint list" where
  "make_points ps =
     take CURVE_POINTS ps @ replicate (CURVE_POINTS - length ps) zero_point"

record InterestRateConfigOpt =
  o_insurance_fee_fixed_apr :: "I80F48 option"
  o_insurance_ir_fee :: "I80F48 option"
  o_protocol_fixed_fee_apr :: "I80F48 option"
  o_protocol_ir_fee :: "I80F48 option"
  o_protocol_origination_fee :: "I80F48 option"
  o_zero_util_rate :: "u32 option"
  o_hundred_util_rate :: "u32 option"
  o_points :: "RatePoint list option"

record InterestRateConfigCompact =
  c_insurance_fee_fixed_apr :: I80F48
  c_insurance_ir_fee :: I80F48
  c_protocol_fixed_fee_apr :: I80F48
  c_protocol_ir_fee :: I80F48
  c_protocol_origination_fee :: I80F48
  c_zero_util_rate :: u32
  c_hundred_util_rate :: u32
  c_points :: "RatePoint list"

definition ir_from_compact :: "InterestRateConfigCompact \<Rightarrow> InterestRateConfig" where
  "ir_from_compact c = \<lparr>
     optimal_utilization_rate = 0, plateau_interest_rate = 0, max_interest_rate = 0,
     insurance_fee_fixed_apr = c_insurance_fee_fixed_apr c,
     insurance_ir_fee = c_insurance_ir_fee c,
     protocol_fixed_fee_apr = c_protocol_fixed_fee_apr c,
     protocol_ir_fee = c_protocol_ir_fee c,
     protocol_origination_fee = c_protocol_origination_fee c,
     zero_util_rate = c_zero_util_rate c, hundred_util_rate = c_hundred_util_rate c,
     points = c_points c, curve_type = INTEREST_CURVE_SEVEN_POINT\<rparr>"

definition ir_to_compact :: "InterestRateConfig \<Rightarrow> InterestRateConfigCompact" where
  "ir_to_compact c = \<lparr>
     c_insurance_fee_fixed_apr = insurance_fee_fixed_apr c,
     c_insurance_ir_fee = insurance_ir_fee c,
     c_protocol_fixed_fee_apr = protocol_fixed_fee_apr c,
     c_protocol_ir_fee = protocol_ir_fee c,
     c_protocol_origination_fee = protocol_origination_fee c,
     c_zero_util_rate = zero_util_rate c, c_hundred_util_rate = hundred_util_rate c,
     c_points = points c\<rparr>"

section \<open>Emode settings\<close>

record EmodeEntry =
  collateral_bank_emode_tag :: u16
  entry_flags :: u8
  e_asset_weight_init :: I80F48
  e_asset_weight_maint :: I80F48

record EmodeConfig =
  entries :: "EmodeEntry list"

record EmodeSettings =
  emode_tag :: u16
  emode_timestamp :: i64
  emode_flags :: "64 word"
  emode_config :: EmodeConfig

definition MAX_EMODE_ENTRIES :: nat where "MAX_EMODE_ENTRIES = 10"
definition EMODE_TAG_EMPTY :: u16 where "EMODE_TAG_EMPTY = 0"
definition EMODE_ON :: "64 word" where "EMODE_ON = 1"

definition EmodeEntry_zeroed :: EmodeEntry where
  "EmodeEntry_zeroed = \<lparr>collateral_bank_emode_tag = 0, entry_flags = 0,
     e_asset_weight_init = 0, e_asset_weight_maint = 0\<rparr>"

definition EmodeConfig_zeroed :: EmodeConfig where
  "EmodeConfig_zeroed = \<lparr>entries = replicate MAX_EMODE_ENTRIES EmodeEntry_zeroed\<rparr>"

definition EmodeSettings_zeroed :: EmodeSettings where
  "EmodeSettings_zeroed = \<lparr>emode_tag = 0, emode_timestamp = 0, emode_flags = 0,
     emode_config = EmodeConfig_zeroed\<rparr>"

section \<open>Bank configuration\<close>

datatype RiskTier = Collateral | Isolated

datatype BankOperationalState = Paused | Operational | ReduceOnly | KilledByBankruptcy

datatype OracleSetup =
    OracleNone
  | PythLegacy
  | SwitchboardV2
  | PythPushOracle
  | SwitchboardPull
  | StakedWithPythPush
  | KaminoPythPush
  | KaminoSwitchboardPull
  | OracleFixed
  | DriftPythPull
  | DriftSwitchboardPull
  | SolendPythPull
  | SolendSwitchboardPull

definition OracleSetup_from_u8 :: "u8 \<Rightarrow> OracleSetup option" where
  "OracleSetup_from_u8 v =
     (if v = 0 then Some OracleNone
      else if v = 1 then Some PythLegacy
      else if v = 2 then Some SwitchboardV2
      else if v = 3 then Some PythPushOracle
      else if v = 4 then Some SwitchboardPull
      else if v = 5 then Some StakedWithPythPush
      else if v = 6 then Some KaminoPythPush
      else if v = 7 then Some KaminoSwitchboardPull
      else if v = 8 then Some OracleFixed
      else if v = 9 then Some DriftPythPull
      else if v = 10 then Some DriftSwitchboardPull
      else if v = 11 then Some SolendPythPull
      else if v = 12 then Some SolendSwitchboardPull
      else None)"

record BankConfig =
  asset_weight_init :: I80F48
  asset_weight_maint :: I80F48
  liability_weight_init :: I80F48
  liability_weight_maint :: I80F48
  deposit_limit :: u64
  interest_rate_config :: InterestRateConfig
  operational_state :: BankOperationalState
  oracle_setup :: OracleSetup
  oracle_keys :: "pubkey list"
  borrow_limit :: u64
  risk_tier :: RiskTier
  asset_tag :: u8
  config_flags :: "8 word"
  total_asset_value_init_limit :: u64
  oracle_max_age :: u16
  oracle_max_confidence :: u32
  fixed_price :: I80F48

definition BankConfig_default :: BankConfig where
  "BankConfig_default = \<lparr>
     asset_weight_init = 0, asset_weight_maint = 0,
     liability_weight_init = ONE, liability_weight_maint = ONE,
     deposit_limit = 0, interest_rate_config = InterestRateConfig_default,
     operational_state = Paused, oracle_setup = OracleNone,
     oracle_keys = replicate MAX_ORACLE_KEYS default_key, borrow_limit = 0,
     risk_tier = Isolated, asset_tag = ASSET_TAG_DEFAULT, config_flags = 0,
     total_asset_value_init_limit = TOTAL_ASSET_VALUE_INIT_LIMIT_INACTIVE,
     oracle_max_age = 0, oracle_max_confidence = 0, fixed_price = 0\<rparr>"

record BankConfigOpt =
  o_asset_weight_init :: "I80F48 option"
  o_asset_weight_maint :: "I80F48 option"
  o_liability_weight_init :: "I80F48 option"
  o_liability_weight_maint :: "I80F48 option"
  o_deposit_limit :: "u64 option"
  o_borrow_limit :: "u64 option"
  o_operational_state :: "BankOperationalState option"
  o_interest_rate_config :: "InterestRateConfigOpt option"
  o_risk_tier :: "RiskTier option"
  o_asset_tag :: "u8 option"
  o_total_asset_value_init_limit :: "u64 option"
  o_oracle_max_confidence :: "u32 option"
  o_oracle_max_age :: "u16 option"
  o_permissionless_bad_debt_settlement :: "bool option"
  o_freeze_settings :: "bool option"
  o_tokenless_repayments_allowed :: "bool option"

record BankConfigCompact =
  c_asset_weight_init :: I80F48
  c_asset_weight_maint :: I80F48
  c_liability_weight_init :: I80F48
  c_liability_weight_maint :: I80F48
  c_deposit_limit :: u64
  c_interest_rate_config :: InterestRateConfigCompact
  c_operational_state :: BankOperationalState
  c_borrow_limit :: u64
  c_risk_tier :: RiskTier
  c_asset_tag :: u8
  c_config_flags :: "8 word"
  c_total_asset_value_init_limit :: u64
  c_oracle_max_age :: u16
  c_oracle_max_confidence :: u32

definition config_from_compact :: "BankConfigCompact \<Rightarrow> BankConfig" where
  "config_from_compact c = \<lparr>
     asset_weight_init = c_asset_weight_init c, asset_weight_maint = c_asset_weight_maint c,
     liability_weight_init = c_liability_weight_init c,
     liability_weight_maint = c_liability_weight_maint c,
     deposit_limit = c_deposit_limit c,
     interest_rate_config = ir_from_compact (c_interest_rate_config c),
     operational_state = c_operational_state c, oracle_setup = OracleNone,
     oracle_keys = [default_key, default_key, default_key, default_key, default_key],
     borrow_limit = c_borrow_limit c, risk_tier = c_risk_tier c, asset_tag = c_asset_tag c,
     config_flags = c_config_flags c,
     total_asset_value_init_limit = c_total_asset_value_init_limit c,
     oracle_max_age = c_oracle_max_age c, oracle_max_confidence = c_oracle_max_confidence c,
     fixed_price = 0\<rparr>"

definition config_to_compact :: "BankConfig \<Rightarrow> BankConfigCompact" where
  "config_to_compact c = \<lparr>
     c_asset_weight_init = asset_weight_init c, c_asset_weight_maint = asset_weight_maint c,
     c_liability_weight_init = liability_weight_init c,
     c_liability_weight_maint = liability_weight_maint c,
     c_deposit_limit = deposit_limit c,
     c_interest_rate_config = ir_to_compact (interest_rate_config c),
     c_operational_state = operational_state c, c_borrow_limit = borrow_limit c,
     c_risk_tier = risk_tier c, c_asset_tag = asset_tag c,
     c_config_flags = PYTH_PUSH_MIGRATED_DEPRECATED,
     c_total_asset_value_init_limit = total_asset_value_init_limit c,
     c_oracle_max_age = oracle_max_age c, c_oracle_max_confidence = oracle_max_confidence c\<rparr>"

section \<open>Banks\<close>

record BankCache =
  base_rate :: u32
  lending_rate :: u32
  borrowing_rate :: u32
  interest_accumulated_for :: u32
  accumulated_since_last_update :: I80F48
  last_oracle_price :: I80F48
  last_oracle_price_timestamp :: i64
  last_oracle_price_confidence :: I80F48

definition BankCache_default :: BankCache where
  "BankCache_default = \<lparr>base_rate = 0, lending_rate = 0, borrowing_rate = 0,
     interest_accumulated_for = 0, accumulated_since_last_update = 0, last_oracle_price = 0,
     last_oracle_price_timestamp = 0, last_oracle_price_confidence = 0\<rparr>"

definition reset_preserving_oracle_price :: "BankCache \<Rightarrow> BankCache" where
  "reset_preserving_oracle_price c = BankCache_default\<lparr>
     last_oracle_price := last_oracle_price c,
     last_oracle_price_timestamp := last_oracle_price_timestamp c,
     last_oracle_price_confidence := last_oracle_price_confidence c\<rparr>"

record Bank =
  mint :: pubkey
  mint_decimals :: u8
  bank_group :: pubkey
  asset_share_value :: I80F48
  liability_share_value :: I80F48
  liquidity_vault :: pubkey
  liquidity_vault_bump :: u8
  liquidity_vault_authority_bump :: u8
  insurance_vault :: pubkey
  insurance_vault_bump :: u8
  insurance_vault_authority_bump :: u8
  collected_insurance_fees_outstanding :: I80F48
  fee_vault :: pubkey
  fee_vault_bump :: u8
  fee_vault_authority_bump :: u8
  collected_group_fees_outstanding :: I80F48
  total_liability_shares :: I80F48
  total_asset_shares :: I80F48
  bank_last_update :: i64
  config :: BankConfig
  bank_flags :: "64 word"
  emissions_rate :: u64
  emissions_remaining :: I80F48
  emissions_mint :: pubkey
  collected_program_fees_outstanding :: I80F48
  emode :: EmodeSettings
  fees_destination_account :: pubkey
  cache :: BankCache
  lending_position_count :: i32
  borrowing_position_count :: i32
  integration_acc_1 :: pubkey
  integration_acc_2 :: pubkey
  integration_acc_3 :: pubkey

end
