(* ===== verification/Accounts.thy ===== *)
theory Accounts
  imports Types
begin

text \<open>
  User accounts (\<open>types/user_account.rs\<close>, \<open>types/health_cache.rs\<close>): a balance per bank in
  one of sixteen slots, the account with its flag word, and the cache of the risk engine's last
  result. The methods of these structs and the \<open>MarginfiAccountImpl\<close> and
  \<open>LendingAccountImpl\<close> traits of \<open>state/marginfi_account.rs\<close>.
\<close>

section \<open>Balances\<close>

record Balance =
  active :: u8
  bank_pk :: pubkey
  bank_asset_tag :: u8
  asset_shares :: I80F48
  liability_shares :: I80F48
  emissions_outstanding :: I80F48
  bal_last_update :: u64

datatype BalanceSide = Assets | Liabilities

definition is_active :: "Balance \<Rightarrow> bool" where
  "is_active b \<longleftrightarrow> active b \<noteq> 0"

definition set_active :: "bool \<Rightarrow> Balance \<Rightarrow> Balance" where
  "set_active v b = b\<lparr>active := (if v then 1 else 0)\<rparr>"

definition is_empty :: "Balance \<Rightarrow> BalanceSide \<Rightarrow> bool" where
  "is_empty b side =
     ((case side of Assets \<Rightarrow> asset_shares b | Liabilities \<Rightarrow> liability_shares b)
        < EMPTY_BALANCE_THRESHOLD)"

definition get_side :: "Balance \<Rightarrow> BalanceSide option res" where
  "get_side b =
     (if \<not> (asset_shares b < EMPTY_BALANCE_THRESHOLD \<or> liability_shares b < EMPTY_BALANCE_THRESHOLD)
      then Inl Panic
      else if liability_shares b \<ge> EMPTY_BALANCE_THRESHOLD then Inr (Some Liabilities)
      else if asset_shares b \<ge> EMPTY_BALANCE_THRESHOLD then Inr (Some Assets)
      else Inr None)"

definition empty_deactivated :: Balance where
  "empty_deactivated = \<lparr>active = 0, bank_pk = default_key, bank_asset_tag = ASSET_TAG_DEFAULT,
     asset_shares = 0, liability_shares = 0, emissions_outstanding = 0, bal_last_update = 0\<rparr>"

record LendingAccount =
  balances :: "Balance list"

definition get_balance :: "LendingAccount \<Rightarrow> pubkey \<Rightarrow> Balance option" where
  "get_balance la pk = List.find (\<lambda>b. is_active b \<and> bank_pk b = pk) (balances la)"

definition get_active_balances :: "LendingAccount \<Rightarrow> Balance list" where
  "get_active_balances la = filter is_active (balances la)"

definition get_first_empty_balance :: "LendingAccount \<Rightarrow> nat option" where
  "get_first_empty_balance la = position (\<lambda>b. \<not> is_active b) (balances la)"

text \<open>
  \<open>sort_by(|a, b| b.bank_pk.cmp(&a.bank_pk))\<close> is stable and descending: sorting by the key
  descending is sorting by the negated key.
\<close>

definition sort_balances :: "LendingAccount \<Rightarrow> LendingAccount" where
  "sort_balances la = la\<lparr>balances := sort_key (\<lambda>b. - int (bank_pk b)) (balances la)\<rparr>"

section \<open>The health cache\<close>

record HealthCache =
  asset_value :: I80F48
  liability_value :: I80F48
  asset_value_maint :: I80F48
  liability_value_maint :: I80F48
  asset_value_equity :: I80F48
  liability_value_equity :: I80F48
  hc_timestamp :: i64
  hc_flags :: "32 word"
  mrgn_err :: u32
  prices :: "64 word list"
  internal_err :: u32
  err_index :: u8
  program_version :: u8
  internal_liq_err :: u32
  internal_bankruptcy_err :: u32

definition HEALTHY :: "32 word" where "HEALTHY = 1"
definition ENGINE_OK :: "32 word" where "ENGINE_OK = 2"
definition ORACLE_OK :: "32 word" where "ORACLE_OK = 4"

definition HealthCache_zeroed :: HealthCache where
  "HealthCache_zeroed = \<lparr>asset_value = 0, liability_value = 0, asset_value_maint = 0,
     liability_value_maint = 0, asset_value_equity = 0, liability_value_equity = 0,
     hc_timestamp = 0, hc_flags = 0, mrgn_err = 0,
     prices = replicate MAX_LENDING_ACCOUNT_BALANCES 0, internal_err = 0, err_index = 0,
     program_version = 0, internal_liq_err = 0, internal_bankruptcy_err = 0\<rparr>"

definition hc_get :: "HealthCache \<Rightarrow> 32 word \<Rightarrow> bool" where
  "hc_get c f = flag_get (hc_flags c) f"

definition is_healthy :: "HealthCache \<Rightarrow> bool" where "is_healthy c = hc_get c HEALTHY"
definition is_engine_ok :: "HealthCache \<Rightarrow> bool" where "is_engine_ok c = hc_get c ENGINE_OK"
definition is_oracle_ok :: "HealthCache \<Rightarrow> bool" where "is_oracle_ok c = hc_get c ORACLE_OK"

definition hc_set :: "32 word \<Rightarrow> bool \<Rightarrow> HealthCache \<Rightarrow> HealthCache" where
  "hc_set f v c = c\<lparr>hc_flags := (if v then flag_put f (hc_flags c) else flag_clear f (hc_flags c))\<rparr>"

definition set_healthy :: "bool \<Rightarrow> HealthCache \<Rightarrow> HealthCache" where
  "set_healthy v c = hc_set HEALTHY v c"

definition set_engine_ok :: "bool \<Rightarrow> HealthCache \<Rightarrow> HealthCache" where
  "set_engine_ok v c = hc_set ENGINE_OK v c"

definition set_oracle_ok :: "bool \<Rightarrow> HealthCache \<Rightarrow> HealthCache" where
  "set_oracle_ok v c = hc_set ORACLE_OK v c"

section \<open>Accounts\<close>

record MarginfiAccount =
  acc_group :: pubkey
  authority :: pubkey
  lending_account :: LendingAccount
  account_flags :: "64 word"
  emissions_destination_account :: pubkey
  health_cache :: HealthCache
  migrated_from :: pubkey
  migrated_to :: pubkey
  acc_last_update :: u64
  account_index :: u16
  third_party_index :: u16
  acc_bump :: u8
  liquidation_record :: pubkey

definition MarginfiAccount_zeroed :: MarginfiAccount where
  "MarginfiAccount_zeroed = \<lparr>acc_group = default_key, authority = default_key,
     lending_account = \<lparr>balances = replicate MAX_LENDING_ACCOUNT_BALANCES empty_deactivated\<rparr>,
     account_flags = 0, emissions_destination_account = default_key,
     health_cache = HealthCache_zeroed, migrated_from = default_key, migrated_to = default_key,
     acc_last_update = 0, account_index = 0, third_party_index = 0, acc_bump = 0,
     liquidation_record = default_key\<rparr>"

definition account_initialize :: "pubkey \<Rightarrow> pubkey \<Rightarrow> u64 \<Rightarrow> MarginfiAccount \<Rightarrow> MarginfiAccount" where
  "account_initialize grp auth now a = a\<lparr>authority := auth, acc_group := grp,
     emissions_destination_account := default_key, migrated_from := default_key,
     acc_last_update := now, migrated_to := default_key\<rparr>"

definition acc_set_flag :: "64 word \<Rightarrow> MarginfiAccount \<Rightarrow> MarginfiAccount" where
  "acc_set_flag f a = a\<lparr>account_flags := flag_put f (account_flags a)\<rparr>"

definition acc_unset_flag :: "64 word \<Rightarrow> MarginfiAccount \<Rightarrow> MarginfiAccount" where
  "acc_unset_flag f a = a\<lparr>account_flags := flag_clear f (account_flags a)\<rparr>"

definition acc_get_flag :: "MarginfiAccount \<Rightarrow> 64 word \<Rightarrow> bool" where
  "acc_get_flag a f = flag_get (account_flags a) f"

text \<open>
  \<open>can_be_closed\<close>: the balances are scanned until one has a side; \<open>get_side\<close> panics on a
  balance that is both an asset and a liability.
\<close>

fun all_empty :: "Balance list \<Rightarrow> bool res" where
  "all_empty [] = Inr True"
| "all_empty (b # bs) = bindR (get_side b) (\<lambda>s. if s = None then all_empty bs else Inr False)"

definition can_be_closed :: "MarginfiAccount \<Rightarrow> bool res" where
  "can_be_closed a =
     (let is_disabled = acc_get_flag a ACCOUNT_DISABLED;
          is_in_flashloan = acc_get_flag a ACCOUNT_IN_FLASHLOAN;
          is_in_receivership = acc_get_flag a ACCOUNT_IN_RECEIVERSHIP
      in bindR (all_empty (balances (lending_account a))) (\<lambda>only_has_empty_balances.
         Inr (\<not> is_disabled \<and> only_has_empty_balances \<and> \<not> is_in_flashloan
              \<and> \<not> is_in_receivership)))"

definition is_signer_authorized :: "MarginfiAccount \<Rightarrow> pubkey \<Rightarrow> pubkey \<Rightarrow> bool \<Rightarrow> bool" where
  "is_signer_authorized a group_admin signer allow_receivership =
     (if allow_receivership \<and> acc_get_flag a ACCOUNT_IN_RECEIVERSHIP then True
      else if acc_get_flag a ACCOUNT_FROZEN then group_admin = signer
      else authority a = signer)"

definition account_not_frozen_for_authority :: "MarginfiAccount \<Rightarrow> pubkey \<Rightarrow> bool" where
  "account_not_frozen_for_authority a signer =
     (\<not> (acc_get_flag a ACCOUNT_FROZEN \<and> authority a = signer))"

interpretation acc_flags: flag_word acc_get_flag acc_set_flag acc_unset_flag
    "\<lambda>f. f \<noteq> 0" "\<lambda>f g. f AND g = 0"
  by unfold_locales (simp_all add: acc_get_flag_def acc_set_flag_def acc_unset_flag_def
      word_flags.get_put word_flags.get_clear word_flags.get_put_other word_flags.get_clear_other)

interpretation hc_flags: flag_word hc_get "\<lambda>f. hc_set f True" "\<lambda>f. hc_set f False"
    "\<lambda>f. f \<noteq> 0" "\<lambda>f g. f AND g = 0"
  by unfold_locales (simp_all add: hc_get_def hc_set_def
      word_flags.get_put word_flags.get_clear word_flags.get_put_other word_flags.get_clear_other)

section \<open>Facts on balances and slots\<close>

lemma is_active_empty [simp]: "\<not> is_active empty_deactivated"
  by (simp add: is_active_def empty_deactivated_def)

lemma set_sort_balances [simp]: "set (balances (sort_balances la)) = set (balances la)"
  by (simp add: sort_balances_def)

lemma mset_sort_balances [simp]: "mset (balances (sort_balances la)) = mset (balances la)"
  by (simp add: sort_balances_def)

lemma length_sort_balances [simp]: "length (balances (sort_balances la)) = length (balances la)"
  by (simp add: sort_balances_def)

lemma sort_balances_descending:
  "sorted_wrt (\<lambda>a b. bank_pk b \<le> bank_pk a) (balances (sort_balances la))"
proof -
  have "sorted (map (\<lambda>b. - int (bank_pk b)) (balances (sort_balances la)))"
    by (simp add: sort_balances_def)
  then show ?thesis by (simp add: sorted_wrt_map)
qed

lemma get_balance_Some:
  "get_balance la pk = Some b \<Longrightarrow> b \<in> set (balances la) \<and> is_active b \<and> bank_pk b = pk"
  by (auto simp: get_balance_def find_Some_iff)

lemma get_balance_None:
  "get_balance la pk = None \<longleftrightarrow> (\<forall>b \<in> set (balances la). is_active b \<longrightarrow> bank_pk b \<noteq> pk)"
  by (auto simp: get_balance_def find_None_iff)

lemma all_empty_True: "all_empty bs = Inr True \<longleftrightarrow> (\<forall>b \<in> set bs. get_side b = Inr None)"
  by (induction bs) (auto simp: bindR_eq_Inr)

text \<open>
  A balance is one-sided when at most one of its sides holds a whole token unit: the condition
  \<open>get_side\<close> asserts.
\<close>

definition one_sided :: "Balance \<Rightarrow> bool" where
  "one_sided b \<longleftrightarrow>
     asset_shares b < EMPTY_BALANCE_THRESHOLD \<or> liability_shares b < EMPTY_BALANCE_THRESHOLD"

lemma get_side_total: "one_sided b \<Longrightarrow> \<exists>s. get_side b = Inr s"
  by (auto simp: get_side_def one_sided_def)

lemma get_side_Some_iff:
  "get_side b = Inr (Some Assets) \<longleftrightarrow>
     \<not> is_empty b Assets \<and> is_empty b Liabilities"
  "get_side b = Inr (Some Liabilities) \<longleftrightarrow>
     \<not> is_empty b Liabilities \<and> is_empty b Assets"
  by (auto simp: get_side_def is_empty_def)

end
