(* ===== verification/PauseState.thy ===== *)
theory PauseState
  imports Accounts
begin

text \<open>
  The emergency pause (\<open>types/panic_state_cache.rs\<close>, \<open>state/panic_state.rs\<close>) and the
  copy of it that a group caches. The pause is a small state machine; its reachable states are an
  inductive predicate, and its limits are an invariant of it.
\<close>

section \<open>The pause state\<close>

record PanicState =
  pause_flags :: "8 word"
  daily_pause_count :: u8
  consecutive_pause_count :: u8
  pause_start_timestamp :: i64
  last_daily_reset_timestamp :: i64

definition PanicState_default :: PanicState where
  "PanicState_default = \<lparr>pause_flags = 0, daily_pause_count = 0, consecutive_pause_count = 0,
     pause_start_timestamp = 0, last_daily_reset_timestamp = 0\<rparr>"

definition FLAG_PAUSED :: "8 word" where "FLAG_PAUSED = 1"
definition PAUSE_DURATION_SECONDS :: i64 where "PAUSE_DURATION_SECONDS = 30 * 60"
definition MAX_CONSECUTIVE_PAUSES :: u8 where "MAX_CONSECUTIVE_PAUSES = 2"
definition MAX_DAILY_PAUSES :: u8 where "MAX_DAILY_PAUSES = 3"

definition is_paused_flag :: "PanicState \<Rightarrow> bool" where
  "is_paused_flag s = flag_get (pause_flags s) FLAG_PAUSED"

text \<open>
  \<open>can_pause\<close> subtracts two timestamps with a plain minus, which panics on overflow;
  \<open>is_expired\<close> only subtracts when the difference is not negative.
\<close>

definition can_pause :: "PanicState \<Rightarrow> i64 \<Rightarrow> bool res" where
  "can_pause s now =
     bindR (i64_op (now - last_daily_reset_timestamp s)) (\<lambda>elapsed.
       (let needs_daily_reset = elapsed \<ge> DAILY_RESET_INTERVAL;
            daily_count = (if needs_daily_reset then 0 else daily_pause_count s)
        in Inr (consecutive_pause_count s < MAX_CONSECUTIVE_PAUSES
                \<and> daily_count < MAX_DAILY_PAUSES)))"

definition is_expired :: "PanicState \<Rightarrow> i64 \<Rightarrow> bool res" where
  "is_expired s now =
     (if \<not> is_paused_flag s then Inr True
      else if now < pause_start_timestamp s then Inr False
      else bindR (i64_op (now - pause_start_timestamp s)) (\<lambda>elapsed.
             Inr (elapsed \<ge> PAUSE_DURATION_SECONDS)))"

definition unpause :: "PanicState \<Rightarrow> PanicState" where
  "unpause s = s\<lparr>pause_flags := flag_clear FLAG_PAUSED (pause_flags s),
     pause_start_timestamp := 0, consecutive_pause_count := 0\<rparr>"

definition unpause_if_expired :: "PanicState \<Rightarrow> i64 \<Rightarrow> PanicState res" where
  "unpause_if_expired s now =
     (if is_paused_flag s
      then bindR (is_expired s now) (\<lambda>expired. Inr (if expired then unpause s else s))
      else Inr s)"

definition daily_reset :: "PanicState \<Rightarrow> i64 \<Rightarrow> PanicState" where
  "daily_reset s now =
     (if sat_i64 (now - last_daily_reset_timestamp s) \<ge> DAILY_RESET_INTERVAL
      then s\<lparr>daily_pause_count := 0, last_daily_reset_timestamp := now\<rparr> else s)"

definition begin_or_extend :: "PanicState \<Rightarrow> i64 \<Rightarrow> PanicState res" where
  "begin_or_extend s now =
     (if is_paused_flag s
      then bindR (is_expired s now) (\<lambda>expired.
             Inr (if \<not> expired
                  then s\<lparr>pause_start_timestamp :=
                           sat_i64 (pause_start_timestamp s + PAUSE_DURATION_SECONDS)\<rparr>
                  else s\<lparr>pause_start_timestamp := now\<rparr>))
      else Inr (s\<lparr>pause_start_timestamp := now\<rparr>))"

definition pause :: "PanicState \<Rightarrow> i64 \<Rightarrow> PanicState res" where
  "pause s0 now =
     bindR (unpause_if_expired s0 now) (\<lambda>s1.
     (let s2 = daily_reset s1 now
      in bindR (can_pause s2 now) (\<lambda>ok.
         if \<not> ok then Inl (Err PauseLimitExceeded)
         else bindR (begin_or_extend s2 now) (\<lambda>s3.
              Inr (s3\<lparr>pause_flags := flag_put FLAG_PAUSED (pause_flags s3),
                     daily_pause_count := sat_u8 (daily_pause_count s3 + 1),
                     consecutive_pause_count := sat_u8 (consecutive_pause_count s3 + 1)\<rparr>)))))"

subsection \<open>The cached copy in the group\<close>

record PanicStateCache =
  pc_pause_flags :: "8 word"
  pc_pause_start_timestamp :: i64
  pc_last_cache_update :: i64

definition pc_is_paused_flag :: "PanicStateCache \<Rightarrow> bool" where
  "pc_is_paused_flag c = flag_get (pc_pause_flags c) FLAG_PAUSED"

definition pc_is_expired :: "PanicStateCache \<Rightarrow> i64 \<Rightarrow> bool res" where
  "pc_is_expired c now =
     (if \<not> pc_is_paused_flag c then Inr True
      else if now < pc_pause_start_timestamp c then Inr False
      else bindR (i64_op (now - pc_pause_start_timestamp c)) (\<lambda>elapsed.
             Inr (elapsed \<ge> PAUSE_DURATION_SECONDS)))"

definition update_from_panic_state :: "PanicState \<Rightarrow> i64 \<Rightarrow> PanicStateCache \<Rightarrow> PanicStateCache" where
  "update_from_panic_state p now c = c\<lparr>pc_pause_flags := pause_flags p,
     pc_pause_start_timestamp := pause_start_timestamp p, pc_last_cache_update := now\<rparr>"

lemma cache_matches_state:
  "pc_is_paused_flag (update_from_panic_state p now c) = is_paused_flag p"
  "pc_is_expired (update_from_panic_state p now c) t = is_expired p t"
  by (simp_all add: pc_is_paused_flag_def pc_is_expired_def is_expired_def is_paused_flag_def
      update_from_panic_state_def)

section \<open>Reachable pause states\<close>

text \<open>
  One step of the pause state: an admin pauses, an admin unpauses, or anybody unpauses an expired
  pause (\<open>panic_pause.rs\<close>, \<open>panic_unpause.rs\<close>, \<open>panic_unpause_permissionless.rs\<close>),
  at a clock that never runs backwards and stays far from the end of the \<open>i64\<close> range.
\<close>

definition CLOCK_LIMIT :: i64 where "CLOCK_LIMIT = 4611686018427387904"

inductive panic_reach :: "PanicState \<Rightarrow> i64 \<Rightarrow> bool" where
  genesis: "0 \<le> now \<Longrightarrow> now \<le> CLOCK_LIMIT \<Longrightarrow> panic_reach PanicState_default now"
| tick: "panic_reach s now \<Longrightarrow> now \<le> later \<Longrightarrow> later \<le> CLOCK_LIMIT \<Longrightarrow> panic_reach s later"
| admin_pause: "panic_reach s now \<Longrightarrow> pause s now = Inr t \<Longrightarrow> panic_reach t now"
| admin_unpause: "panic_reach s now \<Longrightarrow> panic_reach (unpause s) now"
| crank_unpause: "panic_reach s now \<Longrightarrow> unpause_if_expired s now = Inr t \<Longrightarrow> panic_reach t now"

text \<open>
  The invariant: both counters within their limits, timestamps in the past or a bounded time in
  the future, and an unpaused state has no consecutive pauses.
\<close>

definition panic_inv :: "PanicState \<Rightarrow> i64 \<Rightarrow> bool" where
  "panic_inv s now \<longleftrightarrow>
     consecutive_pause_count s \<le> MAX_CONSECUTIVE_PAUSES
   \<and> daily_pause_count s \<le> MAX_DAILY_PAUSES
   \<and> (\<not> is_paused_flag s \<longrightarrow> consecutive_pause_count s = 0)
   \<and> (is_paused_flag s \<longrightarrow> 1 \<le> consecutive_pause_count s)
   \<and> 0 \<le> pause_start_timestamp s
   \<and> pause_start_timestamp s + PAUSE_DURATION_SECONDS
       \<le> now + int (consecutive_pause_count s) * PAUSE_DURATION_SECONDS
         + (if is_paused_flag s then 0 else PAUSE_DURATION_SECONDS)
   \<and> 0 \<le> last_daily_reset_timestamp s \<and> last_daily_reset_timestamp s \<le> now
   \<and> 0 \<le> now \<and> now \<le> CLOCK_LIMIT"

lemmas panic_consts = FLAG_PAUSED_def PAUSE_DURATION_SECONDS_def MAX_CONSECUTIVE_PAUSES_def
  MAX_DAILY_PAUSES_def DAILY_RESET_INTERVAL_def CLOCK_LIMIT_def

lemma is_paused_unpause [simp]: "\<not> is_paused_flag (unpause s)"
  by (simp add: is_paused_flag_def unpause_def flag_get_clear)

lemma unpause_fields [simp]:
  "consecutive_pause_count (unpause s) = 0" "pause_start_timestamp (unpause s) = 0"
  "daily_pause_count (unpause s) = daily_pause_count s"
  "last_daily_reset_timestamp (unpause s) = last_daily_reset_timestamp s"
  by (simp_all add: unpause_def)

lemma panic_inv_unpause [inv_intros]: "panic_inv s now \<Longrightarrow> panic_inv (unpause s) now"
  by (auto simp: panic_inv_def panic_consts)

lemma panic_inv_unpause_if_expired [inv_intros]:
  "panic_inv s now \<Longrightarrow> unpause_if_expired s now = Inr t \<Longrightarrow> panic_inv t now"
  by (auto simp: unpause_if_expired_def res_simps intro: panic_inv_unpause split: if_splits)

lemma panic_inv_daily_reset [inv_intros]: "panic_inv s now \<Longrightarrow> panic_inv (daily_reset s now) now"
  by (auto simp: panic_inv_def daily_reset_def is_paused_flag_def)

lemma panic_inv_tick: "panic_inv s now \<Longrightarrow> now \<le> later \<Longrightarrow> later \<le> CLOCK_LIMIT \<Longrightarrow> panic_inv s later"
  by (auto simp: panic_inv_def)

lemma is_expired_total:
  assumes "panic_inv s now"
  shows "is_expired s now =
    Inr (\<not> is_paused_flag s \<or> pause_start_timestamp s + PAUSE_DURATION_SECONDS \<le> now)"
proof -
  have "in_i64 (now - pause_start_timestamp s)"
    if "\<not> now < pause_start_timestamp s"
    using assms that by (auto simp: panic_inv_def in_i64_def panic_consts)
  then show ?thesis
    by (auto simp: is_expired_def i64_op_def panic_consts)
qed

lemma can_pause_total:
  assumes "panic_inv s now"
  shows "can_pause s now = Inr (consecutive_pause_count s < MAX_CONSECUTIVE_PAUSES
     \<and> (now - last_daily_reset_timestamp s \<ge> DAILY_RESET_INTERVAL
        \<or> daily_pause_count s < MAX_DAILY_PAUSES))"
  using assms
  by (auto simp: can_pause_def i64_op_def in_i64_def panic_inv_def panic_consts Let_def)

lemma pause_start_small:
  "panic_inv s now \<Longrightarrow> in_i64 (pause_start_timestamp s + PAUSE_DURATION_SECONDS)"
  by (auto simp: panic_inv_def in_i64_def panic_consts split: if_splits)

lemma is_paused_put:
  "is_paused_flag (s\<lparr>pause_flags := flag_put FLAG_PAUSED w, daily_pause_count := d,
     consecutive_pause_count := c\<rparr>)"
  by (simp add: is_paused_flag_def flag_get_put FLAG_PAUSED_def)

lemma pause_cases:
  assumes inv: "panic_inv s now" and p: "pause s now = Inr t"
  obtains s2 where "panic_inv s2 now"
    and "consecutive_pause_count s2 < MAX_CONSECUTIVE_PAUSES"
    and "daily_pause_count s2 < MAX_DAILY_PAUSES"
    and "is_paused_flag s2 \<longrightarrow> now < pause_start_timestamp s2 + PAUSE_DURATION_SECONDS"
    and "t = s2\<lparr>pause_flags := flag_put FLAG_PAUSED (pause_flags s2),
           daily_pause_count := daily_pause_count s2 + 1,
           consecutive_pause_count := consecutive_pause_count s2 + 1,
           pause_start_timestamp := (if is_paused_flag s2
             then pause_start_timestamp s2 + PAUSE_DURATION_SECONDS else now)\<rparr>"
proof -
  from p obtain s1 s3 ok where s1: "unpause_if_expired s now = Inr s1"
    and ok: "can_pause (daily_reset s1 now) now = Inr ok" "ok"
    and s3: "begin_or_extend (daily_reset s1 now) now = Inr s3"
    and t: "t = s3\<lparr>pause_flags := flag_put FLAG_PAUSED (pause_flags s3),
              daily_pause_count := sat_u8 (daily_pause_count s3 + 1),
              consecutive_pause_count := sat_u8 (consecutive_pause_count s3 + 1)\<rparr>"
    by (auto simp: pause_def res_simps Let_def split: if_splits)
  define s2 where "s2 = daily_reset s1 now"
  have inv1: "panic_inv s1 now" using inv s1 by (rule panic_inv_unpause_if_expired)
  have inv2: "panic_inv s2 now" unfolding s2_def using inv1 by (rule panic_inv_daily_reset)
  have unexp: "is_paused_flag s1 \<longrightarrow> now < pause_start_timestamp s1 + PAUSE_DURATION_SECONDS"
    using s1 inv
    by (auto simp: unpause_if_expired_def is_expired_total res_simps split: if_splits)
  then have unexp2: "is_paused_flag s2 \<longrightarrow> now < pause_start_timestamp s2 + PAUSE_DURATION_SECONDS"
    by (auto simp: s2_def daily_reset_def is_paused_flag_def)
  have fresh: "now - last_daily_reset_timestamp s2 < DAILY_RESET_INTERVAL"
    using inv1 sat_i64_id [of "now - last_daily_reset_timestamp s1"]
    by (auto simp: s2_def daily_reset_def panic_inv_def in_i64_def panic_consts)
  have c: "consecutive_pause_count s2 < MAX_CONSECUTIVE_PAUSES" "daily_pause_count s2 < MAX_DAILY_PAUSES"
    using ok inv2 fresh by (auto simp: can_pause_total simp flip: s2_def)
  have s3': "s3 = s2\<lparr>pause_start_timestamp := (if is_paused_flag s2
             then pause_start_timestamp s2 + PAUSE_DURATION_SECONDS else now)\<rparr>"
    using s3 inv2 unexp2 pause_start_small [OF inv2]
    by (auto simp: begin_or_extend_def is_expired_total sat_i64_id res_simps simp flip: s2_def
        split: if_splits)
  show thesis
  proof (rule that [OF inv2 c unexp2])
    show "t = s2\<lparr>pause_flags := flag_put FLAG_PAUSED (pause_flags s2),
           daily_pause_count := daily_pause_count s2 + 1,
           consecutive_pause_count := consecutive_pause_count s2 + 1,
           pause_start_timestamp := (if is_paused_flag s2
             then pause_start_timestamp s2 + PAUSE_DURATION_SECONDS else now)\<rparr>"
      using c by (simp add: t s3' sat_u8_def u8_max_def panic_consts)
  qed
qed

lemma panic_inv_pause [inv_intros]:
  assumes "panic_inv s now" and "pause s now = Inr t"
  shows "panic_inv t now"
  using assms
proof (rule pause_cases)
  fix s2
  assume "panic_inv s2 now" "consecutive_pause_count s2 < MAX_CONSECUTIVE_PAUSES"
    "daily_pause_count s2 < MAX_DAILY_PAUSES"
    "t = s2\<lparr>pause_flags := flag_put FLAG_PAUSED (pause_flags s2),
           daily_pause_count := daily_pause_count s2 + 1,
           consecutive_pause_count := consecutive_pause_count s2 + 1,
           pause_start_timestamp := (if is_paused_flag s2
             then pause_start_timestamp s2 + PAUSE_DURATION_SECONDS else now)\<rparr>"
  then show "panic_inv t now"
    by (auto simp: panic_inv_def panic_consts is_paused_flag_def flag_get_put split: if_splits)
qed

lemma panic_reach_inv: "panic_reach s now \<Longrightarrow> panic_inv s now"
proof (induction rule: panic_reach.induct)
  case (genesis now)
  then show ?case
    by (simp add: panic_inv_def PanicState_default_def is_paused_flag_def flag_get_def panic_consts)
next
  case (tick s now later)
  then show ?case by (blast intro: panic_inv_tick)
qed (blast intro: inv_intros)+

section \<open>How often the protocol is paused\<close>

text \<open>The same steps with the times of the pauses that succeeded, the latest first.\<close>

inductive panic_trace :: "i64 list \<Rightarrow> PanicState \<Rightarrow> i64 \<Rightarrow> bool" where
  genesis: "0 \<le> now \<Longrightarrow> now \<le> CLOCK_LIMIT \<Longrightarrow> panic_trace [] PanicState_default now"
| tick: "panic_trace ts s now \<Longrightarrow> now \<le> later \<Longrightarrow> later \<le> CLOCK_LIMIT \<Longrightarrow> panic_trace ts s later"
| admin_pause: "panic_trace ts s now \<Longrightarrow> pause s now = Inr t \<Longrightarrow> panic_trace (now # ts) t now"
| admin_unpause: "panic_trace ts s now \<Longrightarrow> panic_trace ts (unpause s) now"
| crank_unpause: "panic_trace ts s now \<Longrightarrow> unpause_if_expired s now = Inr t \<Longrightarrow> panic_trace ts t now"

lemma panic_trace_reach: "panic_trace ts s now \<Longrightarrow> panic_reach s now"
  by (induction rule: panic_trace.induct) (blast intro: panic_reach.intros)+

lemma panic_reach_trace: "panic_reach s now \<Longrightarrow> \<exists>ts. panic_trace ts s now"
  by (induction rule: panic_reach.induct) (blast intro: panic_trace.intros)+

text \<open>A pause counts for the day, or begins a new one.\<close>

lemma pause_days:
  assumes inv: "panic_inv s now" and p: "pause s now = Inr t"
  shows "now - last_daily_reset_timestamp s < DAILY_RESET_INTERVAL
      \<and> last_daily_reset_timestamp t = last_daily_reset_timestamp s \<and> daily_pause_count t = daily_pause_count s + 1
    \<or> DAILY_RESET_INTERVAL \<le> now - last_daily_reset_timestamp s
      \<and> last_daily_reset_timestamp t = now \<and> daily_pause_count t = 1"
proof -
  obtain s1 s3 ok where s1: "unpause_if_expired s now = Inr s1"
    and s3: "begin_or_extend (daily_reset s1 now) now = Inr s3"
    and ok: "can_pause (daily_reset s1 now) now = Inr ok" "ok"
    and t: "t = s3\<lparr>pause_flags := flag_put FLAG_PAUSED (pause_flags s3),
              daily_pause_count := sat_u8 (daily_pause_count s3 + 1),
              consecutive_pause_count := sat_u8 (consecutive_pause_count s3 + 1)\<rparr>"
    using p by (auto simp: pause_def res_simps Let_def split: if_splits)
  have same: "daily_pause_count s1 = daily_pause_count s"
      "last_daily_reset_timestamp s1 = last_daily_reset_timestamp s"
    using s1 by (auto simp: unpause_if_expired_def res_simps split: if_splits)
  have kept: "daily_pause_count s3 = daily_pause_count (daily_reset s1 now)"
      "last_daily_reset_timestamp s3 = last_daily_reset_timestamp (daily_reset s1 now)"
    using s3 by (auto simp: begin_or_extend_def res_simps split: if_splits)
  have "panic_inv t now" using inv p by (rule panic_inv_pause)
  then have "daily_pause_count t \<le> MAX_DAILY_PAUSES" by (simp add: panic_inv_def)
  then have "daily_pause_count t = daily_pause_count s3 + 1"
    by (simp add: t sat_u8_def u8_max_def panic_consts min_def split: if_splits)
  moreover have "sat_i64 (now - last_daily_reset_timestamp s) = now - last_daily_reset_timestamp s"
    using inv by (intro sat_i64_id) (auto simp: panic_inv_def in_i64_def panic_consts)
  ultimately show ?thesis using kept same by (auto simp: t daily_reset_def)
qed

definition pauses_in :: "i64 \<Rightarrow> i64 \<Rightarrow> i64 list \<Rightarrow> nat" where
  "pauses_in from until ts = length (filter (\<lambda>t. from \<le> t \<and> t < until) ts)"

lemma pauses_in_mono: "a' \<le> a \<Longrightarrow> b \<le> b' \<Longrightarrow> pauses_in a b ts \<le> pauses_in a' b' ts"
  unfolding pauses_in_def by (induction ts) auto

lemma pauses_in_split: "a \<le> m \<Longrightarrow> m \<le> b \<Longrightarrow> pauses_in a b ts = pauses_in a m ts + pauses_in m b ts"
  unfolding pauses_in_def by (induction ts) auto

lemma pauses_in_Cons: "pauses_in a b (t # ts) = (if a \<le> t \<and> t < b then Suc (pauses_in a b ts) else pauses_in a b ts)"
  by (simp add: pauses_in_def)

lemma pauses_in_early: "(\<forall>t \<in> set ts. t < c) \<Longrightarrow> pauses_in a b ts \<le> pauses_in a c ts"
  unfolding pauses_in_def by (induction ts) auto

text \<open>
  The counter of the day counts the pauses since the day began; what it has forgotten was within the
  limit too, and twenty-four hours touch at most two days.
\<close>

definition trace_inv :: "i64 list \<Rightarrow> PanicState \<Rightarrow> bool" where
  "trace_inv ts s \<longleftrightarrow> (let r = last_daily_reset_timestamp s in
     (\<forall>t \<in> set ts. t < r + DAILY_RESET_INTERVAL)
     \<and> daily_pause_count s = pauses_in r (r + DAILY_RESET_INTERVAL) ts
     \<and> (\<forall>x. r - DAILY_RESET_INTERVAL < x \<longrightarrow> pauses_in x r ts \<le> MAX_DAILY_PAUSES)
     \<and> (\<forall>x. pauses_in x (x + DAILY_RESET_INTERVAL) ts \<le> 2 * MAX_DAILY_PAUSES))"

lemma trace_inv_pause:
  assumes inv: "trace_inv ts s" "panic_inv s now" and p: "pause s now = Inr t"
  shows "trace_inv (now # ts) t"
proof -
  let ?r = "last_daily_reset_timestamp s" and ?r' = "last_daily_reset_timestamp t"
  let ?D = DAILY_RESET_INTERVAL and ?M = MAX_DAILY_PAUSES
  have tinv: "panic_inv t now" using inv(2) p by (rule panic_inv_pause)
  have D: "0 < ?D" by (simp add: DAILY_RESET_INTERVAL_def)
  have old: "\<And>t. t \<in> set ts \<Longrightarrow> t < ?r + ?D" "daily_pause_count s = pauses_in ?r (?r + ?D) ts"
    "\<And>x. ?r - ?D < x \<Longrightarrow> pauses_in x ?r ts \<le> ?M" "\<And>x. pauses_in x (x + ?D) ts \<le> 2 * ?M"
    using inv(1) unfolding trace_inv_def Let_def by blast+
  have le: "daily_pause_count s \<le> ?M" "daily_pause_count t \<le> ?M" "?r \<le> now" "?r' \<le> now"
    using inv(2) tinv by (simp_all add: panic_inv_def)
  from pause_days [OF inv(2) p] consider
    (same) "?r' = ?r" "daily_pause_count t = daily_pause_count s + 1" "now - ?r < ?D"
    | (day) "?r' = now" "daily_pause_count t = 1" "?D \<le> now - ?r" by blast
  then have new: "(\<forall>t \<in> set (now # ts). t < ?r' + ?D)
      \<and> daily_pause_count t = pauses_in ?r' (?r' + ?D) (now # ts)
      \<and> (\<forall>x. ?r' - ?D < x \<longrightarrow> pauses_in x ?r' (now # ts) \<le> ?M)"
  proof cases
    case same
    then show ?thesis using old(1-3) le(3) by (auto simp: pauses_in_Cons)
  next
    case day
    have before: "\<forall>t \<in> set ts. t < now" using old(1) day(3) by fastforce
    have "pauses_in now (now + ?D) ts = 0" using before by (auto simp: pauses_in_def filter_empty_conv)
    moreover have "pauses_in x now ts \<le> ?M" if "now - ?D < x" for x
    proof -
      have "pauses_in x now ts \<le> pauses_in ?r now ts" using that day(3) by (intro pauses_in_mono) simp_all
      also have "\<dots> \<le> pauses_in ?r (?r + ?D) ts" using old(1) by (intro pauses_in_early) blast
      finally show ?thesis using old(2) le(1) by simp
    qed
    ultimately show ?thesis using day before D by (auto simp: pauses_in_Cons)
  qed
  have "pauses_in x (x + ?D) (now # ts) \<le> 2 * ?M" for x
  proof -
    consider (after) "?r' \<le> x" | (before) "x + ?D \<le> ?r'" | (across) "x < ?r'" "?r' < x + ?D" by linarith
    then show ?thesis
    proof cases
      case after
      have "pauses_in x (x + ?D) (now # ts) \<le> pauses_in ?r' (x + ?D) (now # ts)"
        using after by (intro pauses_in_mono) simp_all
      also have "\<dots> \<le> pauses_in ?r' (?r' + ?D) (now # ts)" using new by (intro pauses_in_early) blast
      finally show ?thesis using new le(2) by simp
    next
      case before
      then show ?thesis using old(4) [of x] le(4) by (simp add: pauses_in_Cons)
    next
      case across
      have "pauses_in ?r' (x + ?D) (now # ts) \<le> pauses_in ?r' (?r' + ?D) (now # ts)"
        using across by (intro pauses_in_mono) simp_all
      also have "\<dots> \<le> ?M" using new le(2) by simp
      finally have "pauses_in ?r' (x + ?D) (now # ts) \<le> ?M" .
      moreover have "pauses_in x ?r' (now # ts) \<le> ?M" using new across by simp
      moreover have "pauses_in x (x + ?D) (now # ts) = pauses_in x ?r' (now # ts) + pauses_in ?r' (x + ?D) (now # ts)"
        using across by (intro pauses_in_split) simp_all
      ultimately show ?thesis by linarith
    qed
  qed
  then show ?thesis using new unfolding trace_inv_def Let_def by blast
qed

lemma unpause_if_expired_days:
  "unpause_if_expired s now = Inr t \<Longrightarrow> daily_pause_count t = daily_pause_count s
     \<and> last_daily_reset_timestamp t = last_daily_reset_timestamp s"
  by (auto simp: unpause_if_expired_def res_simps split: if_splits)

lemma panic_trace_inv: "panic_trace ts s now \<Longrightarrow> trace_inv ts s"
proof (induction rule: panic_trace.induct)
  case (genesis now)
  then show ?case by (simp add: trace_inv_def PanicState_default_def pauses_in_def)
next
  case (admin_pause ts s now t)
  then show ?case using trace_inv_pause panic_reach_inv [OF panic_trace_reach] by blast
next
  case (crank_unpause ts s now t)
  then show ?case using unpause_if_expired_days [of s now t] by (simp add: trace_inv_def)
qed (simp_all add: trace_inv_def)

end
