(* ===== verification/GroupState.thy ===== *)
theory GroupState
  imports PauseState
begin

text \<open>
  The conversions between rates and their 32-bit caches (\<open>types/interest_rate.rs\<close>), and the
  group account (\<open>types/group.rs\<close>, \<open>types/fee_state.rs\<close>, \<open>state/marginfi_group.rs\<close>):
  its admins, its flag word, the cached program fees, the cached pause and the daily window that
  limits what a forced deleverage may withdraw.
\<close>

section \<open>Rates as 32-bit numbers\<close>

text \<open>
  \<open>milli_to_u32\<close>, \<open>centi_to_u32\<close> and \<open>basis_to_u32\<close> differ in their maximum only
  (10, 1 and 100); so do their inverses.
\<close>

definition scale_to_u32 :: "fixed_ops \<Rightarrow> I80F48 \<Rightarrow> I80F48 \<Rightarrow> u32 res" where
  "scale_to_u32 fx max_value v =
     (let clamped = max (min v max_value) 0
      in bindR (unwrap (op_div fx clamped max_value)) (\<lambda>ratio.
         bindR (unwrap (from_num fx (int u32_max))) (\<lambda>m.
         bindR (unwrap (op_mul fx ratio m)) (\<lambda>scaled.
         unwrap (to_u32 fx scaled)))))"

definition milli_to_u32 :: "fixed_ops \<Rightarrow> I80F48 \<Rightarrow> u32 res" where
  "milli_to_u32 fx v = scale_to_u32 fx (decimal fx 10 0) v"

definition centi_to_u32 :: "fixed_ops \<Rightarrow> I80F48 \<Rightarrow> u32 res" where
  "centi_to_u32 fx v = scale_to_u32 fx (decimal fx 1 0) v"

definition basis_to_u32 :: "fixed_ops \<Rightarrow> I80F48 \<Rightarrow> u32 res" where
  "basis_to_u32 fx v = scale_to_u32 fx (decimal fx 100 0) v"

definition u32_ratio :: "fixed_ops \<Rightarrow> u32 \<Rightarrow> I80F48 res" where
  "u32_ratio fx n =
     bindR (unwrap (from_num fx (int n))) (\<lambda>a.
     bindR (unwrap (from_num fx (int u32_max))) (\<lambda>m. unwrap (op_div fx a m)))"

definition u32_to_milli :: "fixed_ops \<Rightarrow> u32 \<Rightarrow> I80F48 res" where
  "u32_to_milli fx n = bindR (u32_ratio fx n) (\<lambda>r. unwrap (op_mul fx r (decimal fx 10 0)))"

definition u32_to_centi :: "fixed_ops \<Rightarrow> u32 \<Rightarrow> I80F48 res" where
  "u32_to_centi fx n = u32_ratio fx n"

definition u32_to_basis :: "fixed_ops \<Rightarrow> u32 \<Rightarrow> I80F48 res" where
  "u32_to_basis fx n = bindR (u32_ratio fx n) (\<lambda>r. unwrap (op_mul fx r (decimal fx 100 0)))"

section \<open>The group account\<close>

record FeeStateCache =
  global_fee_wallet_cached :: pubkey
  fsc_program_fee_fixed :: I80F48
  fsc_program_fee_rate :: I80F48
  fsc_last_update :: i64

record WithdrawWindowCache =
  daily_limit :: u32
  withdrawn_today :: u32
  window_last_daily_reset_timestamp :: i64

record MarginfiGroup =
  admin :: pubkey
  group_flags :: "64 word"
  fee_state_cache :: FeeStateCache
  banks :: u16
  emode_admin :: pubkey
  delegate_curve_admin :: pubkey
  delegate_limit_admin :: pubkey
  delegate_emissions_admin :: pubkey
  panic_state_cache :: PanicStateCache
  deleverage_withdraw_window_cache :: WithdrawWindowCache
  risk_admin :: pubkey
  metadata_admin :: pubkey
  emode_max_init_leverage :: u32
  emode_max_maint_leverage :: u32

record FeeState =
  fee_key :: pubkey
  global_fee_admin :: pubkey
  global_fee_wallet :: pubkey
  bank_init_flat_sol_fee :: u32
  bump_seed :: u8
  liquidation_max_fee :: I80F48
  program_fee_fixed :: I80F48
  program_fee_rate :: I80F48
  panic_state :: PanicState
  liquidation_flat_sol_fee :: u32

definition PROGRAM_FEES_ENABLED :: "64 word" where "PROGRAM_FEES_ENABLED = 1"
definition DEFAULT_INIT_MAX_EMODE_LEVERAGE :: I80F48 where
  "DEFAULT_INIT_MAX_EMODE_LEVERAGE = 15 * ONE"
definition DEFAULT_MAINT_MAX_EMODE_LEVERAGE :: I80F48 where
  "DEFAULT_MAINT_MAX_EMODE_LEVERAGE = 20 * ONE"

definition update_admin :: "pubkey \<Rightarrow> MarginfiGroup \<Rightarrow> MarginfiGroup" where
  "update_admin k g = (if admin g = k then g else g\<lparr>admin := k\<rparr>)"

definition update_emode_admin :: "pubkey \<Rightarrow> MarginfiGroup \<Rightarrow> MarginfiGroup" where
  "update_emode_admin k g = (if emode_admin g = k then g else g\<lparr>emode_admin := k\<rparr>)"

definition update_curve_admin :: "pubkey \<Rightarrow> MarginfiGroup \<Rightarrow> MarginfiGroup" where
  "update_curve_admin k g =
     (if delegate_curve_admin g = k then g else g\<lparr>delegate_curve_admin := k\<rparr>)"

definition update_limit_admin :: "pubkey \<Rightarrow> MarginfiGroup \<Rightarrow> MarginfiGroup" where
  "update_limit_admin k g =
     (if delegate_limit_admin g = k then g else g\<lparr>delegate_limit_admin := k\<rparr>)"

definition update_emissions_admin :: "pubkey \<Rightarrow> MarginfiGroup \<Rightarrow> MarginfiGroup" where
  "update_emissions_admin k g =
     (if delegate_emissions_admin g = k then g else g\<lparr>delegate_emissions_admin := k\<rparr>)"

definition update_metadata_admin :: "pubkey \<Rightarrow> MarginfiGroup \<Rightarrow> MarginfiGroup" where
  "update_metadata_admin k g = (if metadata_admin g = k then g else g\<lparr>metadata_admin := k\<rparr>)"

definition update_risk_admin :: "pubkey \<Rightarrow> MarginfiGroup \<Rightarrow> MarginfiGroup" where
  "update_risk_admin k g = (if risk_admin g = k then g else g\<lparr>risk_admin := k\<rparr>)"

definition program_fees_enabled :: "MarginfiGroup \<Rightarrow> bool" where
  "program_fees_enabled g = flag_get (group_flags g) PROGRAM_FEES_ENABLED"

definition set_program_fee_enabled :: "bool \<Rightarrow> MarginfiGroup \<Rightarrow> MarginfiGroup" where
  "set_program_fee_enabled v g = g\<lparr>group_flags :=
     (if v then flag_put PROGRAM_FEES_ENABLED (group_flags g)
      else flag_clear PROGRAM_FEES_ENABLED (group_flags g))\<rparr>"

definition set_initial_configuration ::
  "fixed_ops \<Rightarrow> pubkey \<Rightarrow> MarginfiGroup \<Rightarrow> MarginfiGroup res" where
  "set_initial_configuration fx admin_pk g =
     bindR (basis_to_u32 fx DEFAULT_INIT_MAX_EMODE_LEVERAGE) (\<lambda>i.
     bindR (basis_to_u32 fx DEFAULT_MAINT_MAX_EMODE_LEVERAGE) (\<lambda>m.
     Inr ((set_program_fee_enabled True (g\<lparr>admin := admin_pk\<rparr>))
            \<lparr>emode_max_init_leverage := i, emode_max_maint_leverage := m\<rparr>)))"

record GroupBankConfig =
  program_fees :: bool

definition get_group_bank_config :: "MarginfiGroup \<Rightarrow> GroupBankConfig" where
  "get_group_bank_config g = \<lparr>program_fees = program_fees_enabled g\<rparr>"

definition add_bank :: "i64 \<Rightarrow> MarginfiGroup \<Rightarrow> MarginfiGroup" where
  "add_bank now g = g\<lparr>banks := sat_u16 (banks g + 1),
     fee_state_cache := (fee_state_cache g)\<lparr>fsc_last_update := now\<rparr>\<rparr>"

definition is_protocol_paused :: "MarginfiGroup \<Rightarrow> i64 \<Rightarrow> bool res" where
  "is_protocol_paused g now =
     (if \<not> pc_is_paused_flag (panic_state_cache g) then Inr False
      else bindR (pc_is_expired (panic_state_cache g) now) (\<lambda>expired. Inr (\<not> expired)))"

text \<open>
  \<open>update_withdrawn_equity\<close>: rolls the daily window over, adds what is withdrawn (converted to
  whole dollars, which panics past \<open>u32::MAX\<close>) and refuses to go over the limit.
\<close>

definition reset_window :: "i64 \<Rightarrow> WithdrawWindowCache \<Rightarrow> WithdrawWindowCache" where
  "reset_window now w =
     (if sat_i64 (now - window_last_daily_reset_timestamp w) \<ge> DAILY_RESET_INTERVAL
      then w\<lparr>withdrawn_today := 0, window_last_daily_reset_timestamp := now\<rparr> else w)"

definition update_withdrawn_equity ::
  "fixed_ops \<Rightarrow> I80F48 \<Rightarrow> i64 \<Rightarrow> MarginfiGroup \<Rightarrow> MarginfiGroup res" where
  "update_withdrawn_equity fx withdrawn_equity now g =
     (let w = reset_window now (deleverage_withdraw_window_cache g)
      in bindR (unwrap (to_u32 fx withdrawn_equity)) (\<lambda>n.
         (let w' = w\<lparr>withdrawn_today := sat_u32 (withdrawn_today w + n)\<rparr>
          in if daily_limit w' \<noteq> 0 \<and> withdrawn_today w' > daily_limit w'
             then Inl (Err DailyWithdrawalLimitExceeded)
             else Inr (g\<lparr>deleverage_withdraw_window_cache := w'\<rparr>))))"

text \<open>A sequence of deleverage withdrawals, each at its own time.\<close>

fun withdraw_equities ::
  "fixed_ops \<Rightarrow> (I80F48 \<times> i64) list \<Rightarrow> MarginfiGroup \<Rightarrow> MarginfiGroup res" where
  "withdraw_equities fx [] g = Inr g"
| "withdraw_equities fx ((e, now) # ws) g =
     bindR (update_withdrawn_equity fx e now g) (withdraw_equities fx ws)"

section \<open>Facts on the conversions\<close>

context fixed_arith
begin

lemma from_u32: "n \<le> u32_max \<Longrightarrow> from_num fx (int n) = Some (int n * ONE)"
  by (intro of_int) (auto simp: u32_max_def in_fx_def fx_limit_def ONE_def)

lemma u32_ratio_eq:
  assumes "n \<le> u32_max"
  shows "u32_ratio fx n = Inr (int n * ONE div int u32_max)"
    and "0 \<le> int n * ONE div int u32_max" and "int n * ONE div int u32_max \<le> ONE"
proof -
  have pos: "0 < int u32_max" by (simp add: u32_max_def)
  have eq: "int n * ONE * ONE div (int u32_max * ONE) = int n * ONE div int u32_max"
    by (simp add: mult.assoc)
  show nonneg: "0 \<le> int n * ONE div int u32_max"
    using pos by (simp add: pos_imp_zdiv_nonneg_iff)
  have "int n * ONE div int u32_max \<le> int u32_max * ONE div int u32_max"
    using assms by (intro zdiv_mono1 mult_right_mono) (auto simp: u32_max_def)
  then show le: "int n * ONE div int u32_max \<le> ONE"
    using pos by simp
  have "in_fx (int n * ONE div int u32_max)" using in_fx_ONE nonneg le by (rule in_fx_mono)
  with eq have "op_div fx (int n * ONE) (int u32_max * ONE) = Some (int n * ONE div int u32_max)"
    using pos over [of "int n * ONE" "int u32_max * ONE"] by simp
  then show "u32_ratio fx n = Inr (int n * ONE div int u32_max)"
    using assms by (simp add: u32_ratio_def from_u32)
qed

lemma scale_to_u32_total:
  assumes "0 < k" and "k \<le> 1000"
  shows "\<exists>n. scale_to_u32 fx (k * ONE) v = Inr n \<and> n \<le> u32_max
    \<and> int n = (max (min v (k * ONE)) 0 * ONE div (k * ONE)) * (int u32_max * ONE) div ONE div ONE"
proof -
  define c where "c = max (min v (k * ONE)) 0"
  define r where "r = c * ONE div (k * ONE)"
  define s where "s = r * (int u32_max * ONE) div ONE"
  have c: "0 \<le> c" "c \<le> k * ONE" using assms by (auto simp: c_def)
  have r0: "0 \<le> r" using c assms by (simp add: r_def pos_imp_zdiv_nonneg_iff)
  have "r \<le> k * ONE * ONE div (k * ONE)"
    unfolding r_def using c assms by (intro zdiv_mono1 mult_right_mono) auto
  then have r1: "r \<le> ONE" using assms by simp
  have s_eq: "s = r * int u32_max" unfolding s_def by (simp flip: mult.assoc)
  have s0: "0 \<le> s" using r0 by (simp add: s_eq)
  have "r * int u32_max \<le> ONE * int u32_max" using r1 by (intro mult_right_mono) auto
  then have s1: "s \<le> int u32_max * ONE" by (simp add: s_eq mult.commute)
  have "s div ONE \<le> int u32_max * ONE div ONE" using s1 by (intro zdiv_mono1) auto
  then have sd: "s div ONE \<le> int u32_max" by simp
  have infx: "in_fx (int u32_max * ONE)" by (simp add: u32_max_def in_fx_def fx_limit_def ONE_def)
  have "op_div fx c (k * ONE) = Some r"
    unfolding r_def using c assms in_fx_mono [OF in_fx_ONE r0 r1, unfolded r_def]
    by (intro over) auto
  moreover have "op_mul fx r (int u32_max * ONE) = Some s"
    unfolding s_def using r0 in_fx_mono [OF infx s0 s1, unfolded s_def] by (intro times) auto
  moreover have "to_u32 fx s = Some (nat (s div ONE))" using s0 sd by (rule to_u32_small)
  ultimately have "scale_to_u32 fx (k * ONE) v = Inr (nat (s div ONE))"
    by (simp add: scale_to_u32_def from_u32 Let_def c_def)
  moreover have "0 \<le> s div ONE" using s0 by (simp add: pos_imp_zdiv_nonneg_iff)
  ultimately show ?thesis using sd by (auto simp: s_def r_def c_def)
qed

lemma scale_to_u32_mono:
  assumes k: "0 < k" "k \<le> 1000" and vw: "v \<le> w"
    and "scale_to_u32 fx (k * ONE) v = Inr m" and "scale_to_u32 fx (k * ONE) w = Inr n"
  shows "m \<le> n"
proof -
  have "int m \<le> int n"
    using scale_to_u32_total [OF k, of v] scale_to_u32_total [OF k, of w] assms(4,5) k vw
    by (auto intro!: zdiv_mono1 mult_right_mono)
  then show ?thesis by simp
qed

end

lemma withdrawn_today_reset:
  "withdrawn_today (reset_window now w) \<le> withdrawn_today w"
  by (simp add: reset_window_def)

lemma daily_limit_reset [simp]: "daily_limit (reset_window now w) = daily_limit w"
  by (simp add: reset_window_def)

text \<open>The window invariant: what was withdrawn today is within a limit that is not zero.\<close>

definition window_ok :: "MarginfiGroup \<Rightarrow> bool" where
  "window_ok g \<longleftrightarrow>
     (let w = deleverage_withdraw_window_cache g
      in daily_limit w \<noteq> 0 \<longrightarrow> withdrawn_today w \<le> daily_limit w)"

lemma update_withdrawn_equity_ok [inv_intros]:
  "update_withdrawn_equity fx e now g = Inr g' \<Longrightarrow> window_ok g'"
  by (auto simp: update_withdrawn_equity_def window_ok_def Let_def res_simps split: if_splits)

lemma withdraw_equities_ok:
  "withdraw_equities fx ws g = Inr g' \<Longrightarrow> window_ok g \<Longrightarrow> window_ok g'"
  by (induction fx ws g rule: withdraw_equities.induct)
    (auto simp: res_simps intro: update_withdrawn_equity_ok)

end
