(* ===== verification/Interest.thy ===== *)
theory Interest
  imports GroupState
begin

text \<open>
  Interest rates (\<open>state/interest_rate.rs\<close>, \<open>state/bank_cache.rs\<close>): validation of a bank's
  rate curve, the curve itself (the legacy three-point form and the seven-point form, evaluated by
  linear interpolation), the rates charged and paid, and the share values and fees after a period.
  A Rust function that returns \<open>Option\<close> gives \<open>NoneValue\<close> for \<open>None\<close>; the plain
  operators on fixed-point values panic on overflow.
\<close>

section \<open>Validation of the configuration\<close>

definition validate_legacy :: "InterestRateConfig \<Rightarrow> unit res" where
  "validate_legacy c =
     (let optimal_ur = optimal_utilization_rate c;
          plateau_ir = plateau_interest_rate c;
          max_ir = max_interest_rate c
      in if \<not> (optimal_ur > 0 \<and> optimal_ur < ONE) then Inl (Err InvalidConfig)
         else if \<not> plateau_ir > 0 then Inl (Err InvalidConfig)
         else if \<not> max_ir > 0 then Inl (Err InvalidConfig)
         else if \<not> plateau_ir < max_ir then Inl (Err InvalidConfig)
         else Inr ())"

text \<open>The scan that collects the used points and enforces trailing padding.\<close>

fun collect_points :: "RatePoint list \<Rightarrow> bool \<Rightarrow> RatePoint list \<Rightarrow> RatePoint list res" where
  "collect_points [] seen_padding used = Inr used"
| "collect_points (p # ps) seen_padding used =
     (if util p = 0
      then (if rate p \<noteq> 0 then Inl (Err InvalidConfig) else collect_points ps True used)
      else if seen_padding then Inl (Err InvalidConfig)
      else collect_points ps seen_padding (used @ [p]))"

fun check_ascending :: "RatePoint list \<Rightarrow> unit res" where
  "check_ascending (p # q # ps) =
     (if util p \<ge> util q then Inl (Err InvalidConfig)
      else if rate p > rate q then Inl (Err InvalidConfig)
      else check_ascending (q # ps))"
| "check_ascending _ = Inr ()"

definition validate_seven_point :: "InterestRateConfig \<Rightarrow> unit res" where
  "validate_seven_point c =
     (let zero = zero_util_rate c; hundred = hundred_util_rate c
      in bindR (collect_points (points c) False []) (\<lambda>used.
         bindR (check_ascending used) (\<lambda>_.
         if \<not> zero \<le> hundred then Inl (Err InvalidConfig)
         else if \<not> list_all (\<lambda>p. zero \<le> rate p \<and> rate p \<le> hundred) used
         then Inl (Err InvalidConfig)
         else Inr ())))"

definition ir_validate :: "InterestRateConfig \<Rightarrow> unit res" where
  "ir_validate c =
     (if curve_type c = INTEREST_CURVE_LEGACY then validate_legacy c
      else if curve_type c = INTEREST_CURVE_SEVEN_POINT then validate_seven_point c
      else Inl Panic)"

definition set_if_some :: "'a option \<Rightarrow> 'a \<Rightarrow> 'a" where
  "set_if_some v old = (case v of None \<Rightarrow> old | Some new \<Rightarrow> new)"

lemma set_if_some_simps [simp]: "set_if_some None x = x" "set_if_some (Some y) x = y"
  by (simp_all add: set_if_some_def)

definition ir_update :: "InterestRateConfigOpt \<Rightarrow> InterestRateConfig \<Rightarrow> InterestRateConfig" where
  "ir_update oc c = c\<lparr>
     insurance_fee_fixed_apr := set_if_some (o_insurance_fee_fixed_apr oc) (insurance_fee_fixed_apr c),
     insurance_ir_fee := set_if_some (o_insurance_ir_fee oc) (insurance_ir_fee c),
     protocol_fixed_fee_apr := set_if_some (o_protocol_fixed_fee_apr oc) (protocol_fixed_fee_apr c),
     protocol_ir_fee := set_if_some (o_protocol_ir_fee oc) (protocol_ir_fee c),
     protocol_origination_fee :=
       set_if_some (o_protocol_origination_fee oc) (protocol_origination_fee c),
     zero_util_rate := set_if_some (o_zero_util_rate oc) (zero_util_rate c),
     hundred_util_rate := set_if_some (o_hundred_util_rate oc) (hundred_util_rate c),
     points := set_if_some (o_points oc) (points c),
     curve_type := INTEREST_CURVE_SEVEN_POINT\<rparr>"

section \<open>The calculator\<close>

record InterestRateCalc =
  k_optimal_utilization_rate :: I80F48
  k_plateau_interest_rate :: I80F48
  k_max_interest_rate :: I80F48
  insurance_fixed_fee :: I80F48
  insurance_rate_fee :: I80F48
  protocol_fixed_fee :: I80F48
  protocol_rate_fee :: I80F48
  k_program_fee_fixed :: I80F48
  k_program_fee_rate :: I80F48
  add_program_fees :: bool
  k_zero_util_rate :: u32
  k_hundred_util_rate :: u32
  k_points :: "RatePoint list"
  k_curve_type :: u8

definition create_interest_rate_calculator ::
  "InterestRateConfig \<Rightarrow> MarginfiGroup \<Rightarrow> InterestRateCalc" where
  "create_interest_rate_calculator c g = \<lparr>
     k_optimal_utilization_rate = optimal_utilization_rate c,
     k_plateau_interest_rate = plateau_interest_rate c,
     k_max_interest_rate = max_interest_rate c,
     insurance_fixed_fee = insurance_fee_fixed_apr c,
     insurance_rate_fee = insurance_ir_fee c,
     protocol_fixed_fee = protocol_fixed_fee_apr c,
     protocol_rate_fee = protocol_ir_fee c,
     k_program_fee_fixed = fsc_program_fee_fixed (fee_state_cache g),
     k_program_fee_rate = fsc_program_fee_rate (fee_state_cache g),
     add_program_fees = program_fees (get_group_bank_config g),
     k_zero_util_rate = zero_util_rate c,
     k_hundred_util_rate = hundred_util_rate c,
     k_points = points c,
     k_curve_type = curve_type c\<rparr>"

record Fees =
  insurance_fee_rate :: I80F48
  insurance_fee_fixed :: I80F48
  group_fee_rate :: I80F48
  group_fee_fixed :: I80F48
  protocol_fee_rate :: I80F48
  protocol_fee_fixed :: I80F48

definition get_fees :: "InterestRateCalc \<Rightarrow> Fees" where
  "get_fees k =
     (let (pr, pf) = (if add_program_fees k then (k_program_fee_rate k, k_program_fee_fixed k)
                      else (0, 0))
      in \<lparr>insurance_fee_rate = insurance_rate_fee k, insurance_fee_fixed = insurance_fixed_fee k,
          group_fee_rate = protocol_rate_fee k, group_fee_fixed = protocol_fixed_fee k,
          protocol_fee_rate = pr, protocol_fee_fixed = pf\<rparr>)"

definition interest_rate_curve :: "fixed_ops \<Rightarrow> InterestRateCalc \<Rightarrow> I80F48 \<Rightarrow> I80F48 res" where
  "interest_rate_curve fx k ur =
     (let optimal_ur = k_optimal_utilization_rate k;
          plateau_ir = k_plateau_interest_rate k;
          max_ir = k_max_interest_rate k
      in if ur \<le> optimal_ur
         then bindR (opt (checked_div fx ur optimal_ur)) (\<lambda>q. opt (checked_mul fx q plateau_ir))
         else bindR (unwrap (op_sub fx ur optimal_ur)) (\<lambda>over_ur.
              bindR (unwrap (op_sub fx ONE optimal_ur)) (\<lambda>room.
              bindR (opt (checked_div fx over_ur room)) (\<lambda>q.
              bindR (unwrap (op_sub fx max_ir plateau_ir)) (\<lambda>rise.
              bindR (opt (checked_mul fx q rise)) (\<lambda>m.
              opt (checked_add fx m plateau_ir)))))))"

definition lerp ::
  "fixed_ops \<Rightarrow> I80F48 \<Rightarrow> I80F48 \<Rightarrow> I80F48 \<Rightarrow> I80F48 \<Rightarrow> I80F48 \<Rightarrow> I80F48 res" where
  "lerp fx start_x start_y end_x end_y target_x =
     (if end_x \<le> start_x then Inr start_y
      else if target_x < start_x then Inl NoneValue
      else if target_x > end_x then Inl NoneValue
      else if end_y < start_y then Inl NoneValue
      else bindR (unwrap (op_sub fx end_x start_x)) (\<lambda>delta_x.
           if delta_x = 0 then Inr start_y
           else bindR (unwrap (op_sub fx target_x start_x)) (\<lambda>offset.
                bindR (unwrap (op_div fx offset delta_x)) (\<lambda>proportion.
                bindR (unwrap (op_sub fx end_y start_y)) (\<lambda>delta_y.
                bindR (opt (checked_mul fx delta_y proportion)) (\<lambda>scaled_delta.
                unwrap (op_add fx start_y scaled_delta)))))))"

definition rate_from_u32 :: "fixed_ops \<Rightarrow> u32 \<Rightarrow> I80F48 res" where
  "rate_from_u32 fx n =
     bindR (u32_ratio fx n) (\<lambda>ratio.
     bindR (unwrap (from_num fx 10)) (\<lambda>ten. unwrap (op_mul fx ratio ten)))"

definition util_from_u32 :: "fixed_ops \<Rightarrow> u32 \<Rightarrow> I80F48 res" where
  "util_from_u32 fx n = u32_ratio fx n"

text \<open>The loop over the used points; the last segment ends at 100\% utilization.\<close>

fun curve_loop ::
  "fixed_ops \<Rightarrow> I80F48 \<Rightarrow> I80F48 \<Rightarrow> I80F48 \<Rightarrow> I80F48 \<Rightarrow> RatePoint list \<Rightarrow> I80F48 res" where
  "curve_loop fx ur hundred_rate prev_util prev_rate [] =
     lerp fx prev_util prev_rate ONE hundred_rate ur"
| "curve_loop fx ur hundred_rate prev_util prev_rate (p # ps) =
     (if util p = 0 then curve_loop fx ur hundred_rate prev_util prev_rate ps
      else bindR (util_from_u32 fx (util p)) (\<lambda>point_util.
           bindR (rate_from_u32 fx (rate p)) (\<lambda>point_rate.
           if ur \<le> point_util then lerp fx prev_util prev_rate point_util point_rate ur
           else curve_loop fx ur hundred_rate point_util point_rate ps)))"

definition interest_rate_multipoint_curve ::
  "fixed_ops \<Rightarrow> InterestRateCalc \<Rightarrow> I80F48 \<Rightarrow> I80F48 res" where
  "interest_rate_multipoint_curve fx k ur0 =
     bindR (rate_from_u32 fx (k_zero_util_rate k)) (\<lambda>zero_rate.
     bindR (rate_from_u32 fx (k_hundred_util_rate k)) (\<lambda>hundred_rate.
     (let ur = min (max ur0 0) ONE
      in curve_loop fx ur hundred_rate 0 zero_rate (k_points k))))"

definition calc_fee_rate :: "fixed_ops \<Rightarrow> I80F48 \<Rightarrow> I80F48 \<Rightarrow> I80F48 \<Rightarrow> I80F48 res" where
  "calc_fee_rate fx base rate_fees fixed_fees =
     (if rate_fees = 0 then Inr fixed_fees
      else bindR (opt (checked_mul fx base rate_fees)) (\<lambda>m. opt (checked_add fx m fixed_fees)))"

record ComputedInterestRates =
  base_rate_apr :: I80F48
  lending_rate_apr :: I80F48
  borrowing_rate_apr :: I80F48
  group_fee_apr :: I80F48
  insurance_fee_apr :: I80F48
  protocol_fee_apr :: I80F48

definition base_rate_of :: "fixed_ops \<Rightarrow> InterestRateCalc \<Rightarrow> I80F48 \<Rightarrow> I80F48 res" where
  "base_rate_of fx k ur =
     (if k_curve_type k = INTEREST_CURVE_LEGACY then interest_rate_curve fx k ur
      else if k_curve_type k = INTEREST_CURVE_SEVEN_POINT
      then interest_rate_multipoint_curve fx k ur
      else Inl Panic)"

definition calc_interest_rate ::
  "fixed_ops \<Rightarrow> InterestRateCalc \<Rightarrow> I80F48 \<Rightarrow> ComputedInterestRates res" where
  "calc_interest_rate fx k ur =
     (let f = get_fees k in
      bindR (unwrap (op_add fx (insurance_fee_rate f) (group_fee_rate f))) (\<lambda>ir1.
      bindR (unwrap (op_add fx ir1 (protocol_fee_rate f))) (\<lambda>fee_ir.
      bindR (unwrap (op_add fx (insurance_fee_fixed f) (group_fee_fixed f))) (\<lambda>fi1.
      bindR (unwrap (op_add fx fi1 (protocol_fee_fixed f))) (\<lambda>fee_fixed.
      bindR (base_rate_of fx k ur) (\<lambda>base.
      bindR (opt (checked_mul fx base ur)) (\<lambda>lending.
      bindR (opt (checked_add fx ONE fee_ir)) (\<lambda>one_plus.
      bindR (opt (checked_mul fx base one_plus)) (\<lambda>scaled.
      bindR (opt (checked_add fx scaled fee_fixed)) (\<lambda>borrowing.
      bindR (calc_fee_rate fx base (group_fee_rate f) (group_fee_fixed f)) (\<lambda>group_apr.
      bindR (calc_fee_rate fx base (insurance_fee_rate f) (insurance_fee_fixed f)) (\<lambda>insurance_apr.
      bindR (calc_fee_rate fx base (protocol_fee_rate f) (protocol_fee_fixed f)) (\<lambda>protocol_apr.
      if lending \<ge> 0 \<and> borrowing \<ge> 0 \<and> group_apr \<ge> 0 \<and> insurance_apr \<ge> 0 \<and> protocol_apr \<ge> 0
      then Inr \<lparr>base_rate_apr = base, lending_rate_apr = lending, borrowing_rate_apr = borrowing,
                group_fee_apr = group_apr, insurance_fee_apr = insurance_apr,
                protocol_fee_apr = protocol_apr\<rparr>
      else Inl Panic)))))))))))))"

definition update_interest_rates ::
  "fixed_ops \<Rightarrow> ComputedInterestRates \<Rightarrow> BankCache \<Rightarrow> BankCache res" where
  "update_interest_rates fx r c =
     bindR (milli_to_u32 fx (base_rate_apr r)) (\<lambda>b.
     bindR (milli_to_u32 fx (lending_rate_apr r)) (\<lambda>l.
     bindR (milli_to_u32 fx (borrowing_rate_apr r)) (\<lambda>w.
     Inr (c\<lparr>base_rate := b, lending_rate := l, borrowing_rate := w\<rparr>))))"

section \<open>Accrual over a period\<close>

definition calc_accrued_interest_payment_per_period ::
  "fixed_ops \<Rightarrow> I80F48 \<Rightarrow> u64 \<Rightarrow> I80F48 \<Rightarrow> I80F48 res" where
  "calc_accrued_interest_payment_per_period fx apr time_delta v =
     bindR (unwrap (from_num fx (int time_delta))) (\<lambda>td.
     bindR (opt (checked_mul fx apr td)) (\<lambda>m.
     bindR (opt (checked_div fx m SECONDS_PER_YEAR)) (\<lambda>ir_per_period.
     bindR (opt (checked_add fx ONE ir_per_period)) (\<lambda>factor.
     opt (checked_mul fx v factor)))))"

definition calc_interest_payment_for_period ::
  "fixed_ops \<Rightarrow> I80F48 \<Rightarrow> u64 \<Rightarrow> I80F48 \<Rightarrow> I80F48 res" where
  "calc_interest_payment_for_period fx apr time_delta v =
     (if apr = 0 then Inr 0
      else bindR (opt (checked_mul fx v apr)) (\<lambda>m.
           bindR (unwrap (from_num fx (int time_delta))) (\<lambda>td.
           bindR (opt (checked_mul fx m td)) (\<lambda>mt. opt (checked_div fx mt SECONDS_PER_YEAR)))))"

record InterestRateStateChanges =
  new_asset_share_value :: I80F48
  new_liability_share_value :: I80F48
  insurance_fees_collected :: I80F48
  group_fees_collected :: I80F48
  protocol_fees_collected :: I80F48

definition calc_interest_rate_accrual_state_changes ::
  "fixed_ops \<Rightarrow> u64 \<Rightarrow> I80F48 \<Rightarrow> I80F48 \<Rightarrow> InterestRateCalc \<Rightarrow> I80F48 \<Rightarrow> I80F48
     \<Rightarrow> InterestRateStateChanges res" where
  "calc_interest_rate_accrual_state_changes fx time_delta total_assets total_liabs k asv lsv =
     bindR (opt (checked_div fx total_liabs total_assets)) (\<lambda>utilization_rate.
     bindR (calc_interest_rate fx k utilization_rate) (\<lambda>r.
     bindR (calc_accrued_interest_payment_per_period fx (lending_rate_apr r) time_delta asv) (\<lambda>a.
     bindR (calc_accrued_interest_payment_per_period fx (borrowing_rate_apr r) time_delta lsv) (\<lambda>l.
     bindR (calc_interest_payment_for_period fx (insurance_fee_apr r) time_delta total_liabs) (\<lambda>i.
     bindR (calc_interest_payment_for_period fx (group_fee_apr r) time_delta total_liabs) (\<lambda>g.
     bindR (calc_interest_payment_for_period fx (protocol_fee_apr r) time_delta total_liabs) (\<lambda>p.
     Inr \<lparr>new_asset_share_value = a, new_liability_share_value = l,
          insurance_fees_collected = i, group_fees_collected = g,
          protocol_fees_collected = p\<rparr>)))))))"

end
