(* ===== verification/InterestFacts.thy ===== *)
theory InterestFacts
  imports Interest
begin

text \<open>
  Correctness of the interest component: validation decides a declarative specification of a
  well-formed curve; on a validated curve the interpolation always returns, stays between the rates
  at its two ends and is monotone in the utilization; the rates paid to lenders never exceed what
  borrowers are charged; and share values never decrease.
\<close>

section \<open>Validation decides the specification\<close>

definition points_spec :: "u32 \<Rightarrow> u32 \<Rightarrow> RatePoint list \<Rightarrow> RatePoint list \<Rightarrow> bool" where
  "points_spec zero hundred ps used \<longleftrightarrow>
     (\<exists>n. ps = used @ replicate n zero_point)
   \<and> (\<forall>p \<in> set used. util p \<noteq> 0 \<and> zero \<le> rate p \<and> rate p \<le> hundred)
   \<and> sorted_wrt (\<lambda>p q. util p < util q \<and> rate p \<le> rate q) used
   \<and> zero \<le> hundred"

definition seven_point_spec :: "InterestRateConfig \<Rightarrow> bool" where
  "seven_point_spec c \<longleftrightarrow>
     (\<exists>used. points_spec (zero_util_rate c) (hundred_util_rate c) (points c) used)"

lemma zero_point_eq: "util (p :: RatePoint) = 0 \<Longrightarrow> rate p = 0 \<Longrightarrow> p = zero_point"
  by (simp add: zero_point_def)

lemma collect_points_padding:
  "collect_points ps True used = Inr u \<longleftrightarrow> u = used \<and> (\<exists>n. ps = replicate n zero_point)"
proof (induction ps)
  case (Cons p ps)
  have "(\<exists>n. p # ps = replicate n zero_point) \<longleftrightarrow> p = zero_point \<and> (\<exists>n. ps = replicate n zero_point)"
    by (metis Cons_replicate_eq replicate_Suc list.inject)
  moreover have "p = zero_point \<longleftrightarrow> util p = 0 \<and> rate p = 0"
    by (auto simp: zero_point_def)
  ultimately show ?case using Cons.IH by simp
qed auto

lemma used_prefix_Cons:
  "(\<exists>vs n. u = used @ vs \<and> p # ps = vs @ replicate n zero_point \<and> (\<forall>p \<in> set vs. util p \<noteq> 0))
   \<longleftrightarrow> (p = zero_point \<and> u = used \<and> (\<exists>n. ps = replicate n zero_point))
     \<or> (util p \<noteq> 0 \<and> (\<exists>vs n. u = (used @ [p]) @ vs \<and> ps = vs @ replicate n zero_point
          \<and> (\<forall>p \<in> set vs. util p \<noteq> 0)))" (is "?L \<longleftrightarrow> ?R1 \<or> ?R2")
proof
  assume ?L
  then obtain vs n where vs: "u = used @ vs" "p # ps = vs @ replicate n zero_point"
    "\<forall>p \<in> set vs. util p \<noteq> 0" by blast
  show "?R1 \<or> ?R2"
  proof (cases vs)
    case Nil
    with vs have "u = used" and "p # ps = replicate n zero_point" by simp_all
    then have "p = zero_point" and "ps = replicate (n - 1) zero_point"
      by (cases n; simp)+
    with \<open>u = used\<close> have ?R1 by (intro conjI exI)
    then show ?thesis ..
  next
    case (Cons w ws)
    with vs show ?thesis by auto
  qed
next
  assume "?R1 \<or> ?R2"
  then show ?L
  proof
    assume ?R1
    then obtain n where "u = used" "p = zero_point" "ps = replicate n zero_point" by blast
    then have "u = used @ [] \<and> p # ps = [] @ replicate (Suc n) zero_point
      \<and> (\<forall>p \<in> set []. util p \<noteq> 0)" by simp
    then show ?L by (intro exI)
  next
    assume ?R2
    then obtain vs n where "u = used @ p # vs \<and> p # ps = (p # vs) @ replicate n zero_point
      \<and> (\<forall>q \<in> set (p # vs). util q \<noteq> 0)" by auto
    then show ?L by blast
  qed
qed

lemma collect_points_eq:
  "collect_points ps False used = Inr u \<longleftrightarrow>
     (\<exists>vs n. u = used @ vs \<and> ps = vs @ replicate n zero_point \<and> (\<forall>p \<in> set vs. util p \<noteq> 0))"
proof (induction ps arbitrary: used)
  case (Cons p ps)
  have "p = zero_point \<longleftrightarrow> util p = 0 \<and> rate p = 0"
    by (auto simp: zero_point_def)
  then show ?case
    unfolding used_prefix_Cons using Cons.IH [of "used @ [p]"] by (simp add: collect_points_padding)
qed auto

lemma check_ascending_eq:
  "check_ascending ps = Inr () \<longleftrightarrow> sorted_wrt (\<lambda>p q. util p < util q \<and> rate p \<le> rate q) ps"
proof (induction ps rule: check_ascending.induct)
  case (1 p q ps)
  then show ?case by (fastforce split: if_splits)
qed auto

lemma validate_seven_point_used:
  "validate_seven_point c = Inr () \<longleftrightarrow>
     (\<exists>used. collect_points (points c) False [] = Inr used
        \<and> points_spec (zero_util_rate c) (hundred_util_rate c) (points c) used)"
  by (auto simp: validate_seven_point_def points_spec_def res_simps Let_def list_all_iff
      check_ascending_eq collect_points_eq)

lemma validate_seven_point_spec_iff: "validate_seven_point c = Inr () \<longleftrightarrow> seven_point_spec c"
  by (auto simp: validate_seven_point_used seven_point_spec_def collect_points_eq points_spec_def)

section \<open>Interpolation\<close>

definition lerp_val :: "int \<Rightarrow> int \<Rightarrow> int \<Rightarrow> int \<Rightarrow> int \<Rightarrow> int" where
  "lerp_val sx sy ex ey tx =
     (if ex \<le> sx then sy else sy + (ey - sy) * ((tx - sx) * ONE div (ex - sx)) div ONE)"

text \<open>The values \<open>util_from_u32\<close> and \<open>rate_from_u32\<close> compute.\<close>

definition util_val :: "u32 \<Rightarrow> int" where "util_val n = int n * ONE div int u32_max"
definition rate_val :: "u32 \<Rightarrow> int" where "rate_val n = util_val n * 10"

lemma util_val_mono: "m \<le> n \<Longrightarrow> util_val m \<le> util_val n"
  unfolding util_val_def by (intro zdiv_mono1 mult_right_mono) (auto simp: u32_max_def)

lemma rate_val_mono: "m \<le> n \<Longrightarrow> rate_val m \<le> rate_val n"
  using util_val_mono by (simp add: rate_val_def)

lemma util_val_nonneg: "0 \<le> util_val n"
  by (simp add: util_val_def pos_imp_zdiv_nonneg_iff u32_max_def)

lemma util_val_le_one: "n \<le> u32_max \<Longrightarrow> util_val n \<le> ONE"
  using util_val_mono [of n u32_max] by (simp add: util_val_def u32_max_def)

lemma rate_val_bounds: "n \<le> u32_max \<Longrightarrow> 0 \<le> rate_val n \<and> rate_val n \<le> 10 * ONE"
  using util_val_nonneg util_val_le_one by (simp add: rate_val_def)

lemma ratio_bounds:
  fixes sx tx ex :: int
  assumes "sx \<le> tx" and "tx \<le> ex" and "sx < ex"
  shows "0 \<le> (tx - sx) * ONE div (ex - sx)" and "(tx - sx) * ONE div (ex - sx) \<le> ONE"
proof -
  show "0 \<le> (tx - sx) * ONE div (ex - sx)"
    using assms by (simp add: pos_imp_zdiv_nonneg_iff)
  have "(tx - sx) * ONE div (ex - sx) \<le> (ex - sx) * ONE div (ex - sx)"
    using assms by (intro zdiv_mono1 mult_right_mono) auto
  then show "(tx - sx) * ONE div (ex - sx) \<le> ONE" using assms by simp
qed

lemma scaled_bounds:
  fixes d p :: int
  assumes "0 \<le> d" and "0 \<le> p" and "p \<le> ONE"
  shows "0 \<le> d * p div ONE" and "d * p div ONE \<le> d"
proof -
  show "0 \<le> d * p div ONE" using assms by (simp add: pos_imp_zdiv_nonneg_iff)
  have "d * p div ONE \<le> d * ONE div ONE"
    using assms by (intro zdiv_mono1 mult_left_mono) auto
  then show "d * p div ONE \<le> d" by simp
qed

lemma lerp_val_bounds:
  assumes "sx \<le> tx" and "tx \<le> ex \<or> ex \<le> sx" and "sy \<le> ey"
  shows "sy \<le> lerp_val sx sy ex ey tx" and "lerp_val sx sy ex ey tx \<le> ey"
  using assms ratio_bounds [of sx tx ex]
    scaled_bounds [of "ey - sy" "(tx - sx) * ONE div (ex - sx)"]
  by (auto simp: lerp_val_def)

lemma lerp_val_mono:
  assumes "sy \<le> ey" and "t \<le> u"
  shows "lerp_val sx sy ex ey t \<le> lerp_val sx sy ex ey u"
  using assms
  by (auto simp: lerp_val_def intro!: zdiv_mono1 mult_left_mono mult_right_mono)

context fixed_arith
begin

lemma util_from_u32_eq: "n \<le> u32_max \<Longrightarrow> util_from_u32 fx n = Inr (util_val n)"
  by (simp add: util_from_u32_def util_val_def u32_ratio_eq)

lemma rate_from_u32_eq:
  assumes "n \<le> u32_max"
  shows "rate_from_u32 fx n = Inr (rate_val n)"
proof -
  have ten: "from_num fx 10 = Some (10 * ONE)"
    by (intro of_int) (simp add: in_fx_def fx_limit_def ONE_def)
  have eq: "util_val n * (10 * ONE) div ONE = util_val n * 10" by (simp flip: mult.assoc)
  have "in_fx (util_val n * 10)"
    using util_val_nonneg [of n] util_val_le_one [OF assms]
    by (auto simp: in_fx_def fx_limit_def ONE_def)
  then have "op_mul fx (util_val n) (10 * ONE) = Some (util_val n * 10)"
    using times [of "util_val n" "10 * ONE"] util_val_nonneg [of n] by (simp add: eq)
  then show ?thesis
    using assms by (simp add: rate_from_u32_def u32_ratio_eq ten rate_val_def flip: util_val_def)
qed

lemma lerp_eq:
  assumes "0 \<le> sx" and "sx \<le> tx" and "tx \<le> ex \<or> ex \<le> sx" and "ex \<le> ONE"
    and "0 \<le> sy" and "sy \<le> ey" and "in_fx ey"
  shows "lerp fx sx sy ex ey tx = Inr (lerp_val sx sy ex ey tx)"
proof (cases "ex \<le> sx")
  case True
  then show ?thesis by (simp add: lerp_def lerp_val_def)
next
  case False
  define p where "p = (tx - sx) * ONE div (ex - sx)"
  define s where "s = (ey - sy) * p div ONE"
  have p: "0 \<le> p" "p \<le> ONE" using ratio_bounds [of sx tx ex] assms False by (auto simp: p_def)
  have s: "0 \<le> s" "s \<le> ey - sy" using scaled_bounds [of "ey - sy" p] p assms by (auto simp: s_def)
  have one: "in_fx z" if "0 \<le> z" "z \<le> ONE" for z using in_fx_ONE that by (rule in_fx_mono)
  have ey: "in_fx z" if "0 \<le> z" "z \<le> ey" for z using \<open>in_fx ey\<close> that by (rule in_fx_mono)
  have 1: "op_sub fx ex sx = Some (ex - sx)" using assms False by (intro minus one) auto
  have 2: "op_sub fx tx sx = Some (tx - sx)" using assms False by (intro minus one) auto
  have 3: "op_div fx (tx - sx) (ex - sx) = Some p"
    unfolding p_def using assms False one [OF p] by (intro over) (auto simp: p_def)
  have 4: "op_sub fx ey sy = Some (ey - sy)" using assms by (intro minus ey) auto
  have 5: "checked_mul fx (ey - sy) p = Some s"
    using assms p s ey [of s] mul [of "ey - sy" p] by (simp add: s_def)
  have 6: "op_add fx sy s = Some (sy + s)" using assms s by (intro plus ey) auto
  show ?thesis
    using assms False unfolding lerp_def lerp_val_def p_def [symmetric] s_def [symmetric]
    by (simp add: 1 2 3 4 5 6)
qed

end

section \<open>The seven-point curve\<close>

text \<open>What a validated list of points says of a suffix of it, from a starting point on.\<close>

fun curve_ok :: "int \<Rightarrow> int \<Rightarrow> RatePoint list \<Rightarrow> bool" where
  "curve_ok prev_rate hundred [] \<longleftrightarrow> prev_rate \<le> hundred"
| "curve_ok prev_rate hundred (p # ps) \<longleftrightarrow>
     util p \<noteq> 0 \<and> util p \<le> u32_max \<and> rate p \<le> u32_max
     \<and> prev_rate \<le> rate_val (rate p) \<and> curve_ok (rate_val (rate p)) hundred ps"

text \<open>The curve as a function of exact values.\<close>

fun curve_val :: "int \<Rightarrow> int \<Rightarrow> int \<Rightarrow> int \<Rightarrow> RatePoint list \<Rightarrow> int" where
  "curve_val ur hundred prev_util prev_rate [] = lerp_val prev_util prev_rate ONE hundred ur"
| "curve_val ur hundred prev_util prev_rate (p # ps) =
     (if ur \<le> util_val (util p)
      then lerp_val prev_util prev_rate (util_val (util p)) (rate_val (rate p)) ur
      else curve_val ur hundred (util_val (util p)) (rate_val (rate p)) ps)"

lemma curve_ok_le: "curve_ok r h ps \<Longrightarrow> r \<le> h"
  by (induction r h ps rule: curve_ok.induct) auto

lemma curve_val_bounds:
  assumes "curve_ok pr h ps" and "pu \<le> ur" and "ur \<le> ONE"
  shows "pr \<le> curve_val ur h pu pr ps \<and> curve_val ur h pu pr ps \<le> h"
  using assms
proof (induction ps arbitrary: pu pr)
  case Nil
  then show ?case using lerp_val_bounds [of pu ur ONE pr h] by simp
next
  case (Cons p ps)
  let ?r = "rate_val (rate p)"
  have le: "pr \<le> ?r" "?r \<le> h" and ok: "curve_ok ?r h ps"
    using Cons.prems(1) curve_ok_le [of ?r h ps] by auto
  show ?case
  proof (cases "ur \<le> util_val (util p)")
    case True
    then show ?thesis
      using lerp_val_bounds [of pu ur "util_val (util p)" pr ?r] Cons.prems(2) le by simp
  next
    case False
    then have "?r \<le> curve_val ur h (util_val (util p)) ?r ps
        \<and> curve_val ur h (util_val (util p)) ?r ps \<le> h"
      using Cons.IH [OF ok, of "util_val (util p)"] Cons.prems(3) by simp
    with False le show ?thesis by simp
  qed
qed

lemma curve_val_mono:
  assumes "curve_ok pr h ps" and "pu \<le> t" and "t \<le> u" and "u \<le> ONE"
  shows "curve_val t h pu pr ps \<le> curve_val u h pu pr ps"
  using assms
proof (induction ps arbitrary: pu pr)
  case Nil
  then show ?case by (simp add: lerp_val_mono)
next
  case (Cons p ps)
  show ?case
  proof (cases "t \<le> util_val (util p)")
    case True
    then show ?thesis
      using Cons.prems lerp_val_mono [of pr "rate_val (rate p)" t u pu "util_val (util p)"]
        lerp_val_bounds [of pu t "util_val (util p)" pr "rate_val (rate p)"]
        curve_val_bounds [of "rate_val (rate p)" h ps "util_val (util p)" u]
      by auto
  next
    case False
    then show ?thesis using Cons by auto
  qed
qed

lemma curve_loop_filter:
  "curve_loop fx ur h pu pr ps = curve_loop fx ur h pu pr (filter (\<lambda>p. util p \<noteq> 0) ps)"
  by (induction fx ur h pu pr ps rule: curve_loop.induct) (auto simp: bindR_def split: sum.splits)

lemma points_spec_filter:
  "points_spec z h ps used \<Longrightarrow> filter (\<lambda>p. util p \<noteq> 0) ps = used"
  by (auto simp: points_spec_def zero_point_def filter_empty_conv)

lemma curve_ok_used:
  assumes "sorted_wrt (\<lambda>p q. util p < util q \<and> rate p \<le> rate q) used"
    and "\<forall>p \<in> set used. util p \<noteq> 0 \<and> util p \<le> u32_max \<and> z \<le> rate p \<and> rate p \<le> h"
    and "z \<le> h" and "h \<le> u32_max"
  shows "curve_ok (rate_val z) (rate_val h) used"
  using assms
proof (induction used arbitrary: z)
  case Nil
  then show ?case by (simp add: rate_val_mono)
next
  case (Cons p used)
  then show ?case by (auto intro!: rate_val_mono)
qed

context fixed_arith
begin

lemma curve_loop_eq:
  assumes "curve_ok pr h ps" and "0 \<le> pu" and "pu \<le> ur" and "ur \<le> ONE" and "0 \<le> pr" and "in_fx h"
  shows "curve_loop fx ur h pu pr ps = Inr (curve_val ur h pu pr ps)"
  using assms
proof (induction ps arbitrary: pu pr)
  case Nil
  then show ?case using lerp_eq [of pu ur ONE pr h] by simp
next
  case (Cons p ps)
  have p: "util p \<noteq> 0" "util p \<le> u32_max" "rate p \<le> u32_max" using Cons.prems(1) by auto
  have le: "rate_val (rate p) \<le> h" using Cons.prems(1) curve_ok_le by auto
  have "in_fx (rate_val (rate p))"
    using Cons.prems le rate_val_bounds [OF p(3)] by (auto intro: in_fx_mono)
  then show ?case
    using Cons p util_val_le_one [OF p(2)] util_val_nonneg [of "util p"] rate_val_bounds [OF p(3)]
      lerp_eq [of pu ur "util_val (util p)" pr "rate_val (rate p)"]
    by (simp add: util_from_u32_eq rate_from_u32_eq)
qed

lemma multipoint_curve_eq:
  assumes "points_spec (k_zero_util_rate k) (k_hundred_util_rate k) (k_points k) used"
    and "\<forall>p \<in> set used. util p \<le> u32_max" and "k_hundred_util_rate k \<le> u32_max"
  shows "interest_rate_multipoint_curve fx k ur =
      Inr (curve_val (min (max ur 0) ONE) (rate_val (k_hundred_util_rate k)) 0
             (rate_val (k_zero_util_rate k)) used)"
    and "curve_ok (rate_val (k_zero_util_rate k)) (rate_val (k_hundred_util_rate k)) used"
proof -
  let ?z = "k_zero_util_rate k" and ?h = "k_hundred_util_rate k"
  have z: "?z \<le> u32_max" using assms by (auto simp: points_spec_def)
  show ok: "curve_ok (rate_val ?z) (rate_val ?h) used"
    using assms by (intro curve_ok_used) (auto simp: points_spec_def)
  have "in_fx (rate_val ?h)"
    using rate_val_bounds [OF assms(3)] by (auto simp: in_fx_def fx_limit_def ONE_def)
  then have "curve_loop fx (min (max ur 0) ONE) (rate_val ?h) 0 (rate_val ?z) used =
      Inr (curve_val (min (max ur 0) ONE) (rate_val ?h) 0 (rate_val ?z) used)"
    using ok rate_val_bounds [OF z] by (intro curve_loop_eq) auto
  moreover have "curve_loop fx v (rate_val ?h) 0 (rate_val ?z) (k_points k) =
      curve_loop fx v (rate_val ?h) 0 (rate_val ?z) used" for v
    using curve_loop_filter [of fx v "rate_val ?h" 0 "rate_val ?z" "k_points k"]
      points_spec_filter [OF assms(1)] by simp
  ultimately show "interest_rate_multipoint_curve fx k ur =
      Inr (curve_val (min (max ur 0) ONE) (rate_val ?h) 0 (rate_val ?z) used)"
    using z assms(3) by (simp add: interest_rate_multipoint_curve_def rate_from_u32_eq Let_def)
qed

end

section \<open>Rates charged and paid\<close>

definition fees_ok :: "Fees \<Rightarrow> bool" where
  "fees_ok f \<longleftrightarrow>
     0 \<le> insurance_fee_rate f \<and> 0 \<le> group_fee_rate f \<and> 0 \<le> protocol_fee_rate f
   \<and> 0 \<le> insurance_fee_fixed f \<and> 0 \<le> group_fee_fixed f \<and> 0 \<le> protocol_fee_fixed f
   \<and> in_fx (insurance_fee_rate f + group_fee_rate f + protocol_fee_rate f)
   \<and> in_fx (insurance_fee_fixed f + group_fee_fixed f + protocol_fee_fixed f)"

text \<open>The calculator of a validated legacy curve, and of a validated seven-point curve.\<close>

definition legacy_calc_ok :: "InterestRateCalc \<Rightarrow> bool" where
  "legacy_calc_ok k \<longleftrightarrow> k_curve_type k = INTEREST_CURVE_LEGACY
     \<and> 0 < k_optimal_utilization_rate k \<and> k_optimal_utilization_rate k < ONE
     \<and> 0 < k_plateau_interest_rate k \<and> k_plateau_interest_rate k < k_max_interest_rate k
     \<and> in_fx (k_max_interest_rate k)"

definition seven_calc_ok :: "InterestRateCalc \<Rightarrow> bool" where
  "seven_calc_ok k \<longleftrightarrow> k_curve_type k = INTEREST_CURVE_SEVEN_POINT
     \<and> k_hundred_util_rate k \<le> u32_max
     \<and> (\<exists>used. points_spec (k_zero_util_rate k) (k_hundred_util_rate k) (k_points k) used
          \<and> (\<forall>p \<in> set used. util p \<le> u32_max))"

definition calc_ok :: "InterestRateCalc \<Rightarrow> bool" where
  "calc_ok k \<longleftrightarrow> (legacy_calc_ok k \<or> seven_calc_ok k) \<and> fees_ok (get_fees k)"

lemma curve_types_differ [simp]: "INTEREST_CURVE_LEGACY \<noteq> INTEREST_CURVE_SEVEN_POINT"
  by (simp add: INTEREST_CURVE_LEGACY_def INTEREST_CURVE_SEVEN_POINT_def)

text \<open>Rounding down is superadditive.\<close>

lemma div_mult_le: "0 < b \<Longrightarrow> (a::int) div b * b \<le> a"
  using div_mult_mod_eq [of a b] pos_mod_sign [of b a] by linarith

lemma div_ONE_le: "(a::int) div ONE * ONE \<le> a"
  by (simp add: div_mult_le)

lemma floor_superadd: "(a::int) div ONE + b div ONE \<le> (a + b) div ONE"
proof -
  have "(a div ONE + b div ONE) * ONE \<le> a + b"
    using div_ONE_le [of a] div_ONE_le [of b] by (simp add: distrib_right)
  then have "(a div ONE + b div ONE) * ONE div ONE \<le> (a + b) div ONE"
    by (intro zdiv_mono1) auto
  then show ?thesis by simp
qed

context fixed_arith
begin

lemma interest_rate_curve_nonneg:
  assumes k: "legacy_calc_ok k" and "interest_rate_curve fx k ur = Inr b" and "0 \<le> ur" and "in_fx ur"
  shows "0 \<le> b"
proof (cases "ur \<le> k_optimal_utilization_rate k")
  case True
  then obtain q where "checked_div fx ur (k_optimal_utilization_rate k) = Some q"
    and "checked_mul fx q (k_plateau_interest_rate k) = Some b"
    using assms by (auto simp: interest_rate_curve_def res_simps Let_def)
  then show ?thesis using k assms(3) div_SomeD mul_SomeD
    by (metis legacy_calc_ok_def less_imp_le)
next
  case False
  have in1: "in_fx (ur - k_optimal_utilization_rate k)"
    using k False assms by (auto simp: legacy_calc_ok_def intro: in_fx_mono [OF \<open>in_fx ur\<close>])
  have in2: "in_fx (ONE - k_optimal_utilization_rate k)"
    using k by (auto simp: legacy_calc_ok_def intro: in_fx_mono [OF in_fx_ONE])
  have in3: "in_fx (k_max_interest_rate k - k_plateau_interest_rate k)"
    using k by (auto simp: legacy_calc_ok_def intro: in_fx_mono)
  obtain q m where q: "checked_div fx (ur - k_optimal_utilization_rate k)
      (ONE - k_optimal_utilization_rate k) = Some q"
    and m: "checked_mul fx q (k_max_interest_rate k - k_plateau_interest_rate k) = Some m"
    and b: "checked_add fx m (k_plateau_interest_rate k) = Some b"
    using assms(2) False
    by (auto simp: interest_rate_curve_def res_simps Let_def minus [OF in1]
        minus [OF in2] minus [OF in3])
  have "0 \<le> q" using div_SomeD [OF q] k False by (simp add: legacy_calc_ok_def)
  then have "0 \<le> m" using mul_SomeD [OF m] k by (simp add: legacy_calc_ok_def)
  then show ?thesis using add_SomeD [OF b] k by (simp add: legacy_calc_ok_def)
qed

lemma base_rate_nonneg:
  assumes "calc_ok k" and "base_rate_of fx k ur = Inr b" and "0 \<le> ur" and "in_fx ur"
  shows "0 \<le> b"
proof (cases "legacy_calc_ok k")
  case True
  then show ?thesis
    using assms interest_rate_curve_nonneg by (auto simp: base_rate_of_def legacy_calc_ok_def)
next
  case False
  then have sk: "seven_calc_ok k" using assms by (simp add: calc_ok_def)
  then obtain used where u: "points_spec (k_zero_util_rate k) (k_hundred_util_rate k) (k_points k) used"
    "\<forall>p \<in> set used. util p \<le> u32_max" and h: "k_hundred_util_rate k \<le> u32_max"
    by (auto simp: seven_calc_ok_def)
  have "b = curve_val (min (max ur 0) ONE) (rate_val (k_hundred_util_rate k)) 0
      (rate_val (k_zero_util_rate k)) used"
    using assms(2) sk multipoint_curve_eq(1) [OF u h] curve_types_differ
    by (simp add: base_rate_of_def seven_calc_ok_def del: curve_types_differ split: if_splits)
  then show ?thesis
    using curve_val_bounds [OF multipoint_curve_eq(2) [OF u h], of 0 "min (max ur 0) ONE"]
      util_val_nonneg [of "k_zero_util_rate k"] by (simp add: rate_val_def)
qed

lemma calc_fee_rate_eq:
  assumes "calc_fee_rate fx b r f = Inr a" and "0 \<le> b" and "0 \<le> r"
  shows "a = b * r div ONE + f"
  using assms mul_SomeD [of b r]
  by (auto simp: calc_fee_rate_def res_simps dest!: add_SomeD split: if_splits)

lemma calc_interest_rate_split:
  assumes k: "calc_ok k" and r: "calc_interest_rate fx k ur = Inr r" and "0 \<le> ur" and "in_fx ur"
  shows "0 \<le> base_rate_apr r"
    and "lending_rate_apr r = base_rate_apr r * ur div ONE"
    and "base_rate_apr r + group_fee_apr r + insurance_fee_apr r + protocol_fee_apr r
           \<le> borrowing_rate_apr r"
proof -
  define f where "f = get_fees k"
  have f: "fees_ok f" using k by (simp add: calc_ok_def f_def)
  have mono: "in_fx z" if "in_fx s" "0 \<le> z" "z \<le> s" for z s using that by (rule in_fx_mono)
  have sums: "op_add fx (insurance_fee_rate f) (group_fee_rate f)
        = Some (insurance_fee_rate f + group_fee_rate f)"
    "op_add fx (insurance_fee_rate f + group_fee_rate f) (protocol_fee_rate f)
        = Some (insurance_fee_rate f + group_fee_rate f + protocol_fee_rate f)"
    "op_add fx (insurance_fee_fixed f) (group_fee_fixed f)
        = Some (insurance_fee_fixed f + group_fee_fixed f)"
    "op_add fx (insurance_fee_fixed f + group_fee_fixed f) (protocol_fee_fixed f)
        = Some (insurance_fee_fixed f + group_fee_fixed f + protocol_fee_fixed f)"
    using f by (auto simp: fees_ok_def intro!: plus intro: mono)
  let ?ir = "insurance_fee_rate f + group_fee_rate f + protocol_fee_rate f"
  let ?fi = "insurance_fee_fixed f + group_fee_fixed f + protocol_fee_fixed f"
  obtain b l t s w g i p where
    b: "base_rate_of fx k ur = Inr b" and l: "checked_mul fx b ur = Some l"
    and t: "checked_add fx ONE ?ir = Some t" and s: "checked_mul fx b t = Some s" and w: "checked_add fx s ?fi = Some w"
    and g: "calc_fee_rate fx b (group_fee_rate f) (group_fee_fixed f) = Inr g"
    and i: "calc_fee_rate fx b (insurance_fee_rate f) (insurance_fee_fixed f) = Inr i"
    and p: "calc_fee_rate fx b (protocol_fee_rate f) (protocol_fee_fixed f) = Inr p"
    and r': "r = \<lparr>base_rate_apr = b, lending_rate_apr = l, borrowing_rate_apr = w,
                group_fee_apr = g, insurance_fee_apr = i, protocol_fee_apr = p\<rparr>"
    using r unfolding calc_interest_rate_def Let_def f_def [symmetric]
    by (auto simp: sums res_simps)
  show b0: "0 \<le> base_rate_apr r" using base_rate_nonneg [OF k b assms(3,4)] r' by simp
  then have b0': "0 \<le> b" by (simp add: r')
  show "lending_rate_apr r = base_rate_apr r * ur div ONE"
    using mul_SomeD [OF l b0' assms(3)] by (simp add: r')
  have gip: "g = b * group_fee_rate f div ONE + group_fee_fixed f"
      "i = b * insurance_fee_rate f div ONE + insurance_fee_fixed f"
      "p = b * protocol_fee_rate f div ONE + protocol_fee_fixed f"
    using calc_fee_rate_eq [OF g b0'] calc_fee_rate_eq [OF i b0'] calc_fee_rate_eq [OF p b0'] f
    by (auto simp: fees_ok_def)
  have sv: "s = b * (ONE + ?ir) div ONE"
    using mul_SomeD [OF s b0'] add_SomeD [OF t] f by (simp add: fees_ok_def)
  have "b * (ONE + ?ir) = b * ONE + (b * insurance_fee_rate f + (b * group_fee_rate f
      + b * protocol_fee_rate f))" by (simp add: algebra_simps)
  moreover have "b + (b * insurance_fee_rate f + (b * group_fee_rate f + b * protocol_fee_rate f)) div ONE
      \<le> (b * ONE + (b * insurance_fee_rate f + (b * group_fee_rate f + b * protocol_fee_rate f))) div ONE"
    using floor_superadd [of "b * ONE"] by simp
  moreover note floor_superadd [of "b * insurance_fee_rate f"
      "b * group_fee_rate f + b * protocol_fee_rate f"]
    floor_superadd [of "b * group_fee_rate f" "b * protocol_fee_rate f"]
  ultimately show "base_rate_apr r + group_fee_apr r + insurance_fee_apr r + protocol_fee_apr r
           \<le> borrowing_rate_apr r"
    using add_SomeD [OF w] by (simp add: r' gip sv)
qed

lemma interest_covers_lenders_and_fees:
  assumes k: "calc_ok k" and "0 < total_assets" and "0 \<le> total_liabs"
    and ur: "checked_div fx total_liabs total_assets = Some ur"
    and r: "calc_interest_rate fx k ur = Inr r"
  shows "lending_rate_apr r * total_assets
       + (group_fee_apr r + insurance_fee_apr r + protocol_fee_apr r) * total_liabs
       \<le> borrowing_rate_apr r * total_liabs"
proof -
  have u: "ur = total_liabs * ONE div total_assets" "0 \<le> ur" "in_fx ur"
    using div_SomeD [OF ur] assms by auto
  note split = calc_interest_rate_split [OF k r u(2,3)]
  let ?b = "base_rate_apr r"
  have "lending_rate_apr r * ONE \<le> ?b * ur"
    using split(2) div_ONE_le [of "?b * ur"] by simp
  then have "lending_rate_apr r * ONE * total_assets \<le> ?b * ur * total_assets"
    using assms by (intro mult_right_mono) auto
  moreover have "ur * total_assets \<le> total_liabs * ONE"
    using u(1) div_mult_le [of total_assets "total_liabs * ONE"] assms by simp
  then have "?b * (ur * total_assets) \<le> ?b * (total_liabs * ONE)"
    using split(1) by (rule mult_left_mono)
  ultimately have "lending_rate_apr r * ONE * total_assets \<le> ?b * (total_liabs * ONE)"
    by (simp only: mult.assoc)
  then have "ONE * (lending_rate_apr r * total_assets) \<le> ONE * (?b * total_liabs)"
    by (simp only: mult_ac)
  then have "lending_rate_apr r * total_assets \<le> ?b * total_liabs"
    using mult_le_cancel_left_pos [OF ONE_pos] by blast
  moreover have "(?b + group_fee_apr r + insurance_fee_apr r + protocol_fee_apr r) * total_liabs
      \<le> borrowing_rate_apr r * total_liabs"
    using split(3) assms by (intro mult_right_mono) auto
  ultimately show ?thesis by (simp add: algebra_simps)
qed

section \<open>Accrual\<close>

lemma from_num_u64: "n \<le> u64_max \<Longrightarrow> from_num fx (int n) = Some (int n * ONE)"
  by (rule of_int) (auto simp: in_fx_def fx_limit_def ONE_def u64_max_def)

lemma accrued_payment_ge:
  assumes v': "calc_accrued_interest_payment_per_period fx apr dt v = Inr v'"
    and "0 \<le> apr" and "0 \<le> v" and "dt \<le> u64_max"
  shows "v \<le> v'" and "in_fx v'"
proof -
  obtain m q f where m: "checked_mul fx apr (int dt * ONE) = Some m"
    and q: "checked_div fx m SECONDS_PER_YEAR = Some q"
    and f: "checked_add fx ONE q = Some f" and v: "checked_mul fx v f = Some v'"
    using v' assms(4)
    by (auto simp: calc_accrued_interest_payment_per_period_def res_simps from_num_u64)
  have "0 \<le> m" using mul_SomeD [OF m] assms by simp
  then have "0 \<le> q" using div_SomeD [OF q] by simp
  then have "ONE \<le> f" using add_SomeD [OF f] by simp
  then have "v * ONE div ONE \<le> v * f div ONE"
    using assms by (intro zdiv_mono1 mult_left_mono) auto
  moreover have "0 \<le> f" using \<open>ONE \<le> f\<close> ONE_pos by linarith
  moreover note mul_SomeD [OF v assms(3)]
  ultimately show "v \<le> v'" and "in_fx v'" by auto
qed

lemma interest_payment_nonneg:
  assumes "calc_interest_payment_for_period fx apr dt v = Inr z"
    and "0 \<le> apr" and "0 \<le> v" and "dt \<le> u64_max"
  shows "0 \<le> z"
proof (cases "apr = 0")
  case True
  then show ?thesis using assms by (simp add: calc_interest_payment_for_period_def)
next
  case False
  then obtain m mt where m: "checked_mul fx v apr = Some m"
    and mt: "checked_mul fx m (int dt * ONE) = Some mt"
    and z: "checked_div fx mt SECONDS_PER_YEAR = Some z"
    using assms by (auto simp: calc_interest_payment_for_period_def res_simps from_num_u64)
  have "0 \<le> m" using mul_SomeD [OF m] assms by simp
  then have "0 \<le> mt" using mul_SomeD [OF mt] by simp
  then show ?thesis using div_SomeD [OF z] by simp
qed

lemma calc_interest_rate_nonneg:
  "calc_interest_rate fx k ur = Inr r \<Longrightarrow> 0 \<le> lending_rate_apr r \<and> 0 \<le> borrowing_rate_apr r
     \<and> 0 \<le> group_fee_apr r \<and> 0 \<le> insurance_fee_apr r \<and> 0 \<le> protocol_fee_apr r"
  by (auto simp: calc_interest_rate_def res_simps Let_def)

lemma accrual_monotone:
  assumes "calc_interest_rate_accrual_state_changes fx dt assets liabs k asv lsv = Inr ch"
    and "0 \<le> liabs" and "0 \<le> asv" and "0 \<le> lsv" and "dt \<le> u64_max"
  shows "asv \<le> new_asset_share_value ch" and "lsv \<le> new_liability_share_value ch"
    and "0 \<le> insurance_fees_collected ch" and "0 \<le> group_fees_collected ch"
    and "0 \<le> protocol_fees_collected ch"
proof -
  obtain ur r where r: "calc_interest_rate fx k ur = Inr r"
    and p: "calc_accrued_interest_payment_per_period fx (lending_rate_apr r) dt asv
        = Inr (new_asset_share_value ch)"
      "calc_accrued_interest_payment_per_period fx (borrowing_rate_apr r) dt lsv
        = Inr (new_liability_share_value ch)"
      "calc_interest_payment_for_period fx (insurance_fee_apr r) dt liabs
        = Inr (insurance_fees_collected ch)"
      "calc_interest_payment_for_period fx (group_fee_apr r) dt liabs
        = Inr (group_fees_collected ch)"
      "calc_interest_payment_for_period fx (protocol_fee_apr r) dt liabs
        = Inr (protocol_fees_collected ch)"
    using assms(1) by (auto simp: calc_interest_rate_accrual_state_changes_def res_simps)
  note nn = calc_interest_rate_nonneg [OF r]
  show "asv \<le> new_asset_share_value ch" using accrued_payment_ge(1) [OF p(1)] nn assms by simp
  show "lsv \<le> new_liability_share_value ch" using accrued_payment_ge(1) [OF p(2)] nn assms by simp
  show "0 \<le> insurance_fees_collected ch" using interest_payment_nonneg [OF p(3)] nn assms by simp
  show "0 \<le> group_fees_collected ch" using interest_payment_nonneg [OF p(4)] nn assms by simp
  show "0 \<le> protocol_fees_collected ch" using interest_payment_nonneg [OF p(5)] nn assms by simp
qed

end

end
