(* ===== verification/BankOps.thy ===== *)
theory BankOps
  imports InterestFacts
begin

text \<open>
  The bank (\<open>state/bank_config.rs\<close>, \<open>state/bank.rs\<close>): its configuration with the risk
  weights, the conversions between shares and amounts, the limits that a change of the total
  shares is checked against, interest accrual, loss socialisation and the flag word. Also the
  conversions between amounts and values (\<open>calc_value\<close>, \<open>calc_amount\<close>) and the scaling of a
  Drift deposit limit. A method that changes the bank returns the new bank.
\<close>

section \<open>Configuration\<close>

datatype RequirementType = Initial | Maintenance | Equity

definition get_weights :: "BankConfig \<Rightarrow> RequirementType \<Rightarrow> I80F48 \<times> I80F48" where
  "get_weights c req = (case req of
      Initial \<Rightarrow> (asset_weight_init c, liability_weight_init c)
    | Maintenance \<Rightarrow> (asset_weight_maint c, liability_weight_maint c)
    | Equity \<Rightarrow> (ONE, ONE))"

definition get_weight :: "BankConfig \<Rightarrow> RequirementType \<Rightarrow> BalanceSide \<Rightarrow> I80F48" where
  "get_weight c req side = (case (req, side) of
      (Initial, Assets) \<Rightarrow> asset_weight_init c
    | (Initial, Liabilities) \<Rightarrow> liability_weight_init c
    | (Maintenance, Assets) \<Rightarrow> asset_weight_maint c
    | (Maintenance, Liabilities) \<Rightarrow> liability_weight_maint c
    | (Equity, _) \<Rightarrow> ONE)"

definition config_validate :: "BankConfig \<Rightarrow> unit res" where
  "config_validate c =
     (let asset_init_w = asset_weight_init c; asset_maint_w = asset_weight_maint c;
          liab_init_w = liability_weight_init c; liab_maint_w = liability_weight_maint c
      in if \<not> (asset_init_w \<ge> 0 \<and> asset_init_w \<le> ONE) then Inl (Err InvalidConfig)
         else if \<not> asset_maint_w \<le> ONE + ONE then Inl (Err InvalidConfig)
         else if \<not> asset_maint_w \<ge> asset_init_w then Inl (Err InvalidConfig)
         else if \<not> liab_init_w \<ge> ONE then Inl (Err InvalidConfig)
         else if \<not> (liab_maint_w \<le> liab_init_w \<and> liab_maint_w \<ge> ONE) then Inl (Err InvalidConfig)
         else bindR (ir_validate (interest_rate_config c)) (\<lambda>_.
           if risk_tier c = Isolated \<and> asset_init_w \<noteq> 0 then Inl (Err InvalidConfig)
           else if risk_tier c = Isolated \<and> asset_maint_w \<noteq> 0 then Inl (Err InvalidConfig)
           else if \<not> oracle_max_age c \<ge> ORACLE_MIN_AGE then Inl (Err InvalidOracleSetup)
           else Inr ()))"

definition is_deposit_limit_active :: "BankConfig \<Rightarrow> bool" where
  "is_deposit_limit_active c = (deposit_limit c \<noteq> u64_max)"

definition is_borrow_limit_active :: "BankConfig \<Rightarrow> bool" where
  "is_borrow_limit_active c = (borrow_limit c \<noteq> u64_max)"

definition update_config_flag :: "bool \<Rightarrow> 8 word \<Rightarrow> BankConfig \<Rightarrow> BankConfig" where
  "update_config_flag v f c = c\<lparr>config_flags :=
     (if v then flag_put f (config_flags c) else flag_clear f (config_flags c))\<rparr>"

definition usd_init_limit_active :: "BankConfig \<Rightarrow> bool" where
  "usd_init_limit_active c =
     (total_asset_value_init_limit c \<noteq> TOTAL_ASSET_VALUE_INIT_LIMIT_INACTIVE)"

definition get_oracle_max_age :: "BankConfig \<Rightarrow> u64" where
  "get_oracle_max_age c =
     (if oracle_max_age c = 0 \<and> oracle_setup c = PythPushOracle then MAX_PYTH_ORACLE_AGE
      else oracle_max_age c)"

section \<open>Amounts and values\<close>

text \<open>An index past the end of the table of powers of ten panics.\<close>

definition exp_10_index :: "nat \<Rightarrow> I80F48 res" where
  "exp_10_index i = unwrap (exp_10_get i)"

definition calc_value ::
  "fixed_ops \<Rightarrow> I80F48 \<Rightarrow> I80F48 \<Rightarrow> u8 \<Rightarrow> I80F48 option \<Rightarrow> I80F48 res" where
  "calc_value fx amount price decimals weight =
     (if amount = 0 then Inr 0
      else bindR (exp_10_index decimals) (\<lambda>scaling_factor.
           bindR (case weight of Some w \<Rightarrow> unwrap (checked_mul fx amount w) | None \<Rightarrow> Inr amount)
             (\<lambda>weighted_asset_amount.
           bindR (math (checked_mul fx weighted_asset_amount price)) (\<lambda>v.
           math (checked_div fx v scaling_factor)))))"

definition calc_amount :: "fixed_ops \<Rightarrow> I80F48 \<Rightarrow> I80F48 \<Rightarrow> u8 \<Rightarrow> I80F48 res" where
  "calc_amount fx v price decimals =
     bindR (exp_10_index decimals) (\<lambda>scaling_factor.
     bindR (math (checked_mul fx v scaling_factor)) (\<lambda>s.
     math (checked_div fx s price)))"

definition DRIFT_SCALED_BALANCE_DECIMALS :: u8 where "DRIFT_SCALED_BALANCE_DECIMALS = 9"

text \<open>\<open>DriftMocksError::MathError\<close> is the fifth error of its own enumeration.\<close>

abbreviation DriftMathError :: marginfi_error where "DriftMathError \<equiv> MarginfiError 6004"

definition scale_drift_deposit_limit :: "fixed_ops \<Rightarrow> u64 \<Rightarrow> u8 \<Rightarrow> I80F48 res" where
  "scale_drift_deposit_limit fx dlimit decimals =
     bindR (unwrap (from_num fx (int dlimit))) (\<lambda>limit.
     if decimals = DRIFT_SCALED_BALANCE_DECIMALS then Inr limit
     else if decimals < DRIFT_SCALED_BALANCE_DECIMALS
     then bindR (exp_10_index (DRIFT_SCALED_BALANCE_DECIMALS - decimals)) (\<lambda>scale.
          ok_or DriftMathError (checked_mul fx limit scale))
     else bindR (exp_10_index (decimals - DRIFT_SCALED_BALANCE_DECIMALS)) (\<lambda>scale.
          ok_or DriftMathError (checked_div fx limit scale)))"

section \<open>Shares\<close>

definition Bank_default :: Bank where
  "Bank_default = \<lparr>mint = default_key, mint_decimals = 0, bank_group = default_key,
     asset_share_value = 0, liability_share_value = 0, liquidity_vault = default_key,
     liquidity_vault_bump = 0, liquidity_vault_authority_bump = 0, insurance_vault = default_key,
     insurance_vault_bump = 0, insurance_vault_authority_bump = 0,
     collected_insurance_fees_outstanding = 0, fee_vault = default_key, fee_vault_bump = 0,
     fee_vault_authority_bump = 0, collected_group_fees_outstanding = 0,
     total_liability_shares = 0, total_asset_shares = 0, bank_last_update = 0,
     config = BankConfig_default, bank_flags = 0, emissions_rate = 0, emissions_remaining = 0,
     emissions_mint = default_key, collected_program_fees_outstanding = 0,
     emode = EmodeSettings_zeroed, fees_destination_account = default_key,
     cache = BankCache_default, lending_position_count = 0, borrowing_position_count = 0,
     integration_acc_1 = default_key, integration_acc_2 = default_key,
     integration_acc_3 = default_key\<rparr>"

definition bank_new ::
  "pubkey \<Rightarrow> BankConfig \<Rightarrow> pubkey \<Rightarrow> u8 \<Rightarrow> pubkey \<Rightarrow> pubkey \<Rightarrow> pubkey \<Rightarrow> i64
     \<Rightarrow> u8 \<Rightarrow> u8 \<Rightarrow> u8 \<Rightarrow> u8 \<Rightarrow> u8 \<Rightarrow> u8 \<Rightarrow> Bank" where
  "bank_new grp cfg mint_pk decimals liq_vault ins_vault f_vault now
     liq_bump liq_auth_bump ins_bump ins_auth_bump fee_bump fee_auth_bump =
     Bank_default\<lparr>
       mint := mint_pk, mint_decimals := decimals, bank_group := grp,
       asset_share_value := ONE, liability_share_value := ONE,
       liquidity_vault := liq_vault, liquidity_vault_bump := liq_bump,
       liquidity_vault_authority_bump := liq_auth_bump,
       insurance_vault := ins_vault, insurance_vault_bump := ins_bump,
       insurance_vault_authority_bump := ins_auth_bump,
       collected_insurance_fees_outstanding := 0,
       fee_vault := f_vault, fee_vault_bump := fee_bump, fee_vault_authority_bump := fee_auth_bump,
       collected_group_fees_outstanding := 0,
       total_liability_shares := 0, total_asset_shares := 0,
       bank_last_update := now, config := cfg, bank_flags := CLOSE_ENABLED_FLAG,
       emissions_rate := 0, emissions_remaining := 0, emissions_mint := default_key,
       collected_program_fees_outstanding := 0, emode := EmodeSettings_zeroed,
       fees_destination_account := default_key,
       lending_position_count := 0, borrowing_position_count := 0,
       integration_acc_1 := default_key, integration_acc_2 := default_key\<rparr>"

definition get_liability_amount :: "fixed_ops \<Rightarrow> Bank \<Rightarrow> I80F48 \<Rightarrow> I80F48 res" where
  "get_liability_amount fx b shares = math (checked_mul fx shares (liability_share_value b))"

definition get_asset_amount :: "fixed_ops \<Rightarrow> Bank \<Rightarrow> I80F48 \<Rightarrow> I80F48 res" where
  "get_asset_amount fx b shares = math (checked_mul fx shares (asset_share_value b))"

definition get_liability_shares :: "fixed_ops \<Rightarrow> Bank \<Rightarrow> I80F48 \<Rightarrow> I80F48 res" where
  "get_liability_shares fx b v = math (checked_div fx v (liability_share_value b))"

definition get_asset_shares :: "fixed_ops \<Rightarrow> Bank \<Rightarrow> I80F48 \<Rightarrow> I80F48 res" where
  "get_asset_shares fx b v =
     (if asset_share_value b = 0 then Inr 0 else math (checked_div fx v (asset_share_value b)))"

definition get_balance_decimals :: "Bank \<Rightarrow> u8" where
  "get_balance_decimals b =
     (if asset_tag (config b) = ASSET_TAG_DRIFT then DRIFT_SCALED_BALANCE_DECIMALS
      else mint_decimals b)"

text \<open>The deposit limit in the units of the bank's balances.\<close>

definition scaled_deposit_limit :: "fixed_ops \<Rightarrow> Bank \<Rightarrow> I80F48 res" where
  "scaled_deposit_limit fx b =
     (if asset_tag (config b) = ASSET_TAG_DRIFT
      then scale_drift_deposit_limit fx (deposit_limit (config b)) (mint_decimals b)
      else unwrap (from_num fx (int (deposit_limit (config b)))))"

definition get_remaining_deposit_capacity :: "fixed_ops \<Rightarrow> Bank \<Rightarrow> u64 res" where
  "get_remaining_deposit_capacity fx b =
     (if \<not> is_deposit_limit_active (config b) then Inr u64_max
      else bindR (get_asset_amount fx b (total_asset_shares b)) (\<lambda>current_assets.
           bindR (scaled_deposit_limit fx b) (\<lambda>limit.
           if current_assets \<ge> limit then Inr 0
           else bindR (math (checked_sub fx limit current_assets)) (\<lambda>r1.
                bindR (math (checked_sub fx r1 ONE)) (\<lambda>r2.
                bindR (math (checked_floor fx r2)) (\<lambda>r3.
                math (checked_to_u64 fx r3)))))))"

definition change_asset_shares :: "fixed_ops \<Rightarrow> I80F48 \<Rightarrow> bool \<Rightarrow> Bank \<Rightarrow> Bank res" where
  "change_asset_shares fx shares bypass_deposit_limit b =
     bindR (math (checked_add fx (total_asset_shares b) shares)) (\<lambda>total.
     (let b' = b\<lparr>total_asset_shares := total\<rparr>
      in if shares > 0 \<and> is_deposit_limit_active (config b') \<and> \<not> bypass_deposit_limit
         then bindR (get_asset_amount fx b' (total_asset_shares b')) (\<lambda>total_deposits_amount.
              bindR (scaled_deposit_limit fx b') (\<lambda>limit.
              if total_deposits_amount \<ge> limit then Inl (Err BankAssetCapacityExceeded)
              else Inr b'))
         else Inr b'))"

definition maybe_get_asset_weight_init_discount ::
  "fixed_ops \<Rightarrow> Bank \<Rightarrow> I80F48 \<Rightarrow> I80F48 option res" where
  "maybe_get_asset_weight_init_discount fx b price =
     (if usd_init_limit_active (config b)
      then bindR (get_asset_amount fx b (total_asset_shares b)) (\<lambda>amount.
           bindR (calc_value fx amount price (get_balance_decimals b) None) (\<lambda>bank_total_assets_value.
           bindR (unwrap (from_num fx (int (total_asset_value_init_limit (config b))))) (\<lambda>limit.
           if bank_total_assets_value > limit
           then bindR (math (checked_div fx limit bank_total_assets_value)) (\<lambda>d. Inr (Some d))
           else Inr None)))
      else Inr None)"

definition change_liability_shares :: "fixed_ops \<Rightarrow> I80F48 \<Rightarrow> bool \<Rightarrow> Bank \<Rightarrow> Bank res" where
  "change_liability_shares fx shares bypass_borrow_limit b =
     bindR (math (checked_add fx (total_liability_shares b) shares)) (\<lambda>total.
     (let b' = b\<lparr>total_liability_shares := total\<rparr>
      in if \<not> bypass_borrow_limit \<and> shares > 0 \<and> is_borrow_limit_active (config b')
         then bindR (get_liability_amount fx b' (total_liability_shares b')) (\<lambda>total_amount.
              bindR (unwrap (from_num fx (int (borrow_limit (config b'))))) (\<lambda>limit.
              if total_amount \<ge> limit then Inl (Err BankLiabilityCapacityExceeded)
              else Inr b'))
         else Inr b'))"

definition check_utilization_ratio :: "fixed_ops \<Rightarrow> Bank \<Rightarrow> unit res" where
  "check_utilization_ratio fx b =
     bindR (get_asset_amount fx b (total_asset_shares b)) (\<lambda>total_assets.
     bindR (get_liability_amount fx b (total_liability_shares b)) (\<lambda>total_liabilities.
     if total_assets < total_liabilities then Inl (Err IllegalUtilizationRatio) else Inr ()))"

section \<open>Flags and position counts\<close>

definition bank_get_flag :: "Bank \<Rightarrow> 64 word \<Rightarrow> bool" where
  "bank_get_flag b f \<longleftrightarrow> bank_flags b AND f = f"

definition verify_emissions_flags :: "64 word \<Rightarrow> bool" where
  "verify_emissions_flags f \<longleftrightarrow> f AND EMISSION_FLAGS = f"

definition verify_group_flags :: "64 word \<Rightarrow> bool" where
  "verify_group_flags f \<longleftrightarrow> f AND GROUP_FLAGS = f"

definition override_emissions_flag :: "64 word \<Rightarrow> Bank \<Rightarrow> Bank res" where
  "override_emissions_flag f b =
     (if verify_emissions_flags f then Inr (b\<lparr>bank_flags := f\<rparr>) else Inl Panic)"

definition update_flag :: "bool \<Rightarrow> 64 word \<Rightarrow> Bank \<Rightarrow> Bank res" where
  "update_flag v f b =
     (if verify_group_flags f
      then Inr (b\<lparr>bank_flags := (if v then flag_put f (bank_flags b) else flag_clear f (bank_flags b))\<rparr>)
      else Inl Panic)"

definition increment_lending_position_count :: "Bank \<Rightarrow> Bank" where
  "increment_lending_position_count b =
     b\<lparr>lending_position_count := sat_i32 (lending_position_count b + 1)\<rparr>"
definition decrement_lending_position_count :: "Bank \<Rightarrow> Bank" where
  "decrement_lending_position_count b =
     b\<lparr>lending_position_count := sat_i32 (lending_position_count b - 1)\<rparr>"
definition increment_borrowing_position_count :: "Bank \<Rightarrow> Bank" where
  "increment_borrowing_position_count b =
     b\<lparr>borrowing_position_count := sat_i32 (borrowing_position_count b + 1)\<rparr>"
definition decrement_borrowing_position_count :: "Bank \<Rightarrow> Bank" where
  "decrement_borrowing_position_count b =
     b\<lparr>borrowing_position_count := sat_i32 (borrowing_position_count b - 1)\<rparr>"

section \<open>Configuring a bank\<close>

definition update_flag_if_some :: "bool option \<Rightarrow> 64 word \<Rightarrow> Bank \<Rightarrow> Bank res" where
  "update_flag_if_some v f b = (case v of None \<Rightarrow> Inr b | Some flag \<Rightarrow> update_flag flag f b)"

definition apply_config_opt :: "BankConfigOpt \<Rightarrow> BankConfig \<Rightarrow> BankConfig" where
  "apply_config_opt oc c = c\<lparr>
     asset_weight_init := set_if_some (o_asset_weight_init oc) (asset_weight_init c),
     asset_weight_maint := set_if_some (o_asset_weight_maint oc) (asset_weight_maint c),
     liability_weight_init := set_if_some (o_liability_weight_init oc) (liability_weight_init c),
     liability_weight_maint := set_if_some (o_liability_weight_maint oc) (liability_weight_maint c),
     deposit_limit := set_if_some (o_deposit_limit oc) (deposit_limit c),
     borrow_limit := set_if_some (o_borrow_limit oc) (borrow_limit c),
     operational_state := set_if_some (o_operational_state oc) (operational_state c),
     interest_rate_config := (case o_interest_rate_config oc of
         None \<Rightarrow> interest_rate_config c
       | Some ir \<Rightarrow> ir_update ir (interest_rate_config c)),
     risk_tier := set_if_some (o_risk_tier oc) (risk_tier c),
     asset_tag := set_if_some (o_asset_tag oc) (asset_tag c),
     total_asset_value_init_limit :=
       set_if_some (o_total_asset_value_init_limit oc) (total_asset_value_init_limit c),
     oracle_max_confidence := set_if_some (o_oracle_max_confidence oc) (oracle_max_confidence c),
     oracle_max_age := set_if_some (o_oracle_max_age oc) (oracle_max_age c)\<rparr>"

definition bank_configure :: "BankConfigOpt \<Rightarrow> Bank \<Rightarrow> Bank res" where
  "bank_configure oc b =
     (if o_operational_state oc = Some KilledByBankruptcy then Inl (Err Unauthorized)
      else bindR (update_flag_if_some (o_permissionless_bad_debt_settlement oc)
                    PERMISSIONLESS_BAD_DEBT_SETTLEMENT_FLAG
                    (b\<lparr>config := apply_config_opt oc (config b)\<rparr>)) (\<lambda>b1.
           bindR (update_flag_if_some (o_freeze_settings oc) FREEZE_SETTINGS b1) (\<lambda>b2.
           bindR (update_flag_if_some (o_tokenless_repayments_allowed oc)
                    TOKENLESS_REPAYMENTS_ALLOWED b2) (\<lambda>b3.
           bindR (config_validate (config b3)) (\<lambda>_. Inr b3)))))"

definition configure_unfrozen_fields_only :: "BankConfigOpt \<Rightarrow> Bank \<Rightarrow> Bank" where
  "configure_unfrozen_fields_only oc b = b\<lparr>config := (config b)\<lparr>
     deposit_limit := set_if_some (o_deposit_limit oc) (deposit_limit (config b)),
     borrow_limit := set_if_some (o_borrow_limit oc) (borrow_limit (config b))\<rparr>\<rparr>"

section \<open>Interest accrual and the cache\<close>

text \<open>The seconds since the last update; a negative difference does not fit a \<open>u64\<close>.\<close>

definition time_delta_of :: "i64 \<Rightarrow> Bank \<Rightarrow> u64 res" where
  "time_delta_of now b =
     bindR (i64_op (now - bank_last_update b)) (\<lambda>d. if d < 0 then Inl Panic else Inr (nat d))"

definition collect_fee :: "fixed_ops \<Rightarrow> I80F48 \<Rightarrow> I80F48 \<Rightarrow> I80F48 res" where
  "collect_fee fx collected outstanding =
     (if collected > 0 then math (checked_add fx collected outstanding) else Inr outstanding)"

definition accrue_interest :: "fixed_ops \<Rightarrow> i64 \<Rightarrow> MarginfiGroup \<Rightarrow> Bank \<Rightarrow> Bank res" where
  "accrue_interest fx now g b =
     bindR (time_delta_of now b) (\<lambda>time_delta.
     if time_delta = 0 then Inr b
     else bindR (get_asset_amount fx b (total_asset_shares b)) (\<lambda>total_assets.
          bindR (get_liability_amount fx b (total_liability_shares b)) (\<lambda>total_liabilities.
          (let b1 = b\<lparr>bank_last_update := now\<rparr> in
           if total_assets = 0 \<or> total_liabilities = 0 then Inr b1
           else bindR (none_to MathError (calc_interest_rate_accrual_state_changes fx time_delta
                  total_assets total_liabilities
                  (create_interest_rate_calculator (interest_rate_config (config b1)) g)
                  (asset_share_value b1) (liability_share_value b1))) (\<lambda>ch.
                bindR (math (checked_sub fx (new_asset_share_value ch) (asset_share_value b1))) (\<lambda>d.
                bindR (math (checked_mul fx d (total_asset_shares b1))) (\<lambda>accumulated.
                bindR (collect_fee fx (group_fees_collected ch)
                         (collected_group_fees_outstanding b1)) (\<lambda>gf.
                bindR (collect_fee fx (insurance_fees_collected ch)
                         (collected_insurance_fees_outstanding b1)) (\<lambda>inf.
                bindR (collect_fee fx (protocol_fees_collected ch)
                         (collected_program_fees_outstanding b1)) (\<lambda>pf.
                Inr (b1\<lparr>
                  cache := (cache b1)\<lparr>accumulated_since_last_update := accumulated,
                                      interest_accumulated_for := min time_delta u32_max\<rparr>,
                  asset_share_value := new_asset_share_value ch,
                  liability_share_value := new_liability_share_value ch,
                  collected_group_fees_outstanding := gf,
                  collected_insurance_fees_outstanding := inf,
                  collected_program_fees_outstanding := pf\<rparr>)))))))))))"

definition update_bank_cache :: "fixed_ops \<Rightarrow> i64 \<Rightarrow> MarginfiGroup \<Rightarrow> Bank \<Rightarrow> Bank res" where
  "update_bank_cache fx now g b =
     bindR (get_asset_amount fx b (total_asset_shares b)) (\<lambda>total_assets_amount.
     bindR (get_liability_amount fx b (total_liability_shares b)) (\<lambda>total_liabilities_amount.
     if total_assets_amount = 0 \<or> total_liabilities_amount = 0
     then Inr (b\<lparr>cache := reset_preserving_oracle_price (cache b)\<rparr>)
     else bindR (math (checked_div fx total_liabilities_amount total_assets_amount)) (\<lambda>ur.
          bindR (none_to MathError (calc_interest_rate fx
                   (create_interest_rate_calculator (interest_rate_config (config b)) g) ur)) (\<lambda>r.
          bindR (update_interest_rates fx r (cache b)) (\<lambda>c.
          Inr (b\<lparr>cache := c, bank_last_update := now\<rparr>))))))"

record OraclePriceWithConfidence =
  opc_price :: I80F48
  opc_confidence :: I80F48

definition update_cache_price :: "i64 \<Rightarrow> OraclePriceWithConfidence option \<Rightarrow> Bank \<Rightarrow> Bank" where
  "update_cache_price now oracle_price b = (case oracle_price of
      None \<Rightarrow> b
    | Some p \<Rightarrow> b\<lparr>cache := (cache b)\<lparr>last_oracle_price := opc_price p,
        last_oracle_price_confidence := opc_confidence p, last_oracle_price_timestamp := now\<rparr>\<rparr>)"

section \<open>Losses\<close>

text \<open>The result's flag says that the bank is wiped out.\<close>

definition socialize_loss :: "fixed_ops \<Rightarrow> I80F48 \<Rightarrow> Bank \<Rightarrow> (Bank \<times> bool) res" where
  "socialize_loss fx loss_amount b =
     bindR (math (checked_mul fx (total_asset_shares b) (asset_share_value b))) (\<lambda>total_value.
     if total_value \<le> loss_amount then Inr (b\<lparr>asset_share_value := 0\<rparr>, True)
     else bindR (unwrap (op_sub fx total_value loss_amount)) (\<lambda>rest.
          bindR (math (checked_div fx rest (total_asset_shares b))) (\<lambda>new_share_value.
          Inr (b\<lparr>asset_share_value := new_share_value\<rparr>, new_share_value = 0))))"

section \<open>Vault seeds\<close>

datatype BankVaultType = LiquidityVault | InsuranceVault | FeeVault

definition get_seed :: "BankVaultType \<Rightarrow> string" where
  "get_seed t = (case t of LiquidityVault \<Rightarrow> ''liquidity_vault''
    | InsuranceVault \<Rightarrow> ''insurance_vault'' | FeeVault \<Rightarrow> ''fee_vault'')"

definition get_authority_seed :: "BankVaultType \<Rightarrow> string" where
  "get_authority_seed t = (case t of LiquidityVault \<Rightarrow> ''liquidity_vault_auth''
    | InsuranceVault \<Rightarrow> ''insurance_vault_auth'' | FeeVault \<Rightarrow> ''fee_vault_auth'')"

end
