(* ===== verification/BankFacts.thy ===== *)
theory BankFacts
  imports BankOps
begin

text \<open>
  Correctness of the bank: what its configuration guarantees once validated, the rounding of the
  conversions between shares and amounts, the limits as postconditions of the share changes, the
  capacity offered to a capped deposit, and that accrual and loss socialisation keep the bank
  well-formed and move the share values the right way.
\<close>

section \<open>Well-formed banks\<close>

definition bank_ok :: "Bank \<Rightarrow> bool" where
  "bank_ok b \<longleftrightarrow> 0 \<le> asset_share_value b \<and> 0 < liability_share_value b
     \<and> 0 \<le> total_asset_shares b \<and> 0 \<le> total_liability_shares b
     \<and> in_fx (total_asset_shares b) \<and> in_fx (total_liability_shares b)
     \<and> 0 \<le> collected_group_fees_outstanding b \<and> 0 \<le> collected_insurance_fees_outstanding b
     \<and> 0 \<le> collected_program_fees_outstanding b"

lemma bank_new_ok [inv_intros]:
  "bank_ok (bank_new grp cfg m d lv iv fv now b1 b2 b3 b4 b5 b6)"
  by (simp add: bank_ok_def bank_new_def)

lemma update_flag_ok [inv_intros]: "update_flag v f b = Inr b' \<Longrightarrow> bank_ok b \<Longrightarrow> bank_ok b'"
  by (auto simp: update_flag_def bank_ok_def split: if_splits)

lemma update_flag_if_some_ok [inv_intros]:
  "update_flag_if_some v f b = Inr b' \<Longrightarrow> bank_ok b \<Longrightarrow> bank_ok b'"
  by (auto simp: update_flag_if_some_def intro: update_flag_ok split: option.splits)

lemma update_cache_price_ok [inv_intros]: "bank_ok b \<Longrightarrow> bank_ok (update_cache_price now p b)"
  by (auto simp: update_cache_price_def bank_ok_def split: option.splits)

lemma position_counts_ok [inv_intros]:
  "bank_ok b \<Longrightarrow> bank_ok (increment_lending_position_count b)"
  "bank_ok b \<Longrightarrow> bank_ok (decrement_lending_position_count b)"
  "bank_ok b \<Longrightarrow> bank_ok (increment_borrowing_position_count b)"
  "bank_ok b \<Longrightarrow> bank_ok (decrement_borrowing_position_count b)"
  by (simp_all add: bank_ok_def increment_lending_position_count_def
      decrement_lending_position_count_def increment_borrowing_position_count_def
      decrement_borrowing_position_count_def)

lemma update_bank_cache_shape:
  assumes "update_bank_cache fx now g b = Inr b'"
  shows "(\<exists>c. b' = b\<lparr>cache := c\<rparr>) \<or> (\<exists>c. b' = b\<lparr>cache := c, bank_last_update := now\<rparr>)"
proof -
  obtain x y where "get_asset_amount fx b (total_asset_shares b) = Inr x"
    and "get_liability_amount fx b (total_liability_shares b) = Inr y"
    using assms unfolding update_bank_cache_def by (elim bindR_InrE)
  with assms show ?thesis
    unfolding update_bank_cache_def
    by (cases "x = 0 \<or> y = 0") (simp, blast, simp, elim bindR_InrE, simp, blast)
qed

lemma update_bank_cache_ok [inv_intros]:
  "update_bank_cache fx now g b = Inr b' \<Longrightarrow> bank_ok b \<Longrightarrow> bank_ok b'"
  by (drule update_bank_cache_shape) (auto simp: bank_ok_def)

lemma update_bank_cache_frame:
  assumes "update_bank_cache fx now g b = Inr b'"
  shows "asset_share_value b' = asset_share_value b"
    and "liability_share_value b' = liability_share_value b"
    and "total_asset_shares b' = total_asset_shares b"
    and "total_liability_shares b' = total_liability_shares b"
    and "config b' = config b" and "bank_flags b' = bank_flags b"
  using update_bank_cache_shape [OF assms] by auto

section \<open>Validated configurations\<close>

text \<open>The declarative specification that \<open>config_validate\<close> decides.\<close>

definition weights_spec :: "BankConfig \<Rightarrow> bool" where
  "weights_spec c \<longleftrightarrow>
     0 \<le> asset_weight_init c \<and> asset_weight_init c \<le> ONE
   \<and> asset_weight_init c \<le> asset_weight_maint c \<and> asset_weight_maint c \<le> 2 * ONE
   \<and> ONE \<le> liability_weight_maint c \<and> liability_weight_maint c \<le> liability_weight_init c
   \<and> (risk_tier c = Isolated \<longrightarrow> asset_weight_init c = 0 \<and> asset_weight_maint c = 0)"

lemma config_validate_iff:
  "config_validate c = Inr () \<longleftrightarrow>
     weights_spec c \<and> ir_validate (interest_rate_config c) = Inr () \<and> ORACLE_MIN_AGE \<le> oracle_max_age c"
  by (auto simp: config_validate_def weights_spec_def res_simps Let_def)

text \<open>
  With validated weights, a stricter requirement never counts an asset for more nor a liability
  for less.
\<close>

lemma get_weight_order:
  assumes "weights_spec c"
  shows "get_weight c Initial Assets \<le> get_weight c Maintenance Assets"
    and "get_weight c Maintenance Liabilities \<le> get_weight c Initial Liabilities"
    and "get_weight c Equity Liabilities \<le> get_weight c Maintenance Liabilities"
    and "0 \<le> get_weight c req side"
  using assms order.trans [OF ONE_nonneg, of "liability_weight_init c"]
    order.trans [OF ONE_nonneg, of "liability_weight_maint c"]
  by (auto simp: weights_spec_def get_weight_def split: RequirementType.splits BalanceSide.splits)

lemma get_weights_eq: "get_weights c req = (get_weight c req Assets, get_weight c req Liabilities)"
  by (simp add: get_weights_def get_weight_def split: RequirementType.splits)

lemma bank_configure_validated:
  assumes "bank_configure oc b = Inr b'"
  shows "config_validate (config b') = Inr ()"
    and "config b' = apply_config_opt oc (config b)"
    and "o_operational_state oc \<noteq> Some KilledByBankruptcy"
  using assms
  by (auto simp: bank_configure_def update_flag_if_some_def update_flag_def res_simps
      split: if_splits option.splits)

lemma bank_configure_ok [inv_intros]: "bank_configure oc b = Inr b' \<Longrightarrow> bank_ok b \<Longrightarrow> bank_ok b'"
proof -
  assume "bank_configure oc b = Inr b'" and "bank_ok b"
  moreover have "bank_ok (b\<lparr>config := c\<rparr>)" for c
    using \<open>bank_ok b\<close> by (simp add: bank_ok_def)
  ultimately show ?thesis
    by (auto simp: bank_configure_def res_simps split: if_splits dest!: update_flag_if_some_ok)
qed

lemma frozen_configure_frame:
  "config (configure_unfrozen_fields_only oc b) =
     (config b)\<lparr>deposit_limit := set_if_some (o_deposit_limit oc) (deposit_limit (config b)),
                borrow_limit := set_if_some (o_borrow_limit oc) (borrow_limit (config b))\<rparr>"
  by (simp add: configure_unfrozen_fields_only_def)

section \<open>Rounding of the share conversions\<close>

context fixed_arith
begin

lemma asset_amount_eq:
  "get_asset_amount fx b s = Inr a \<Longrightarrow> 0 \<le> s \<Longrightarrow> 0 \<le> asset_share_value b \<Longrightarrow>
     a = s * asset_share_value b div ONE \<and> 0 \<le> a \<and> in_fx a"
  by (auto simp: get_asset_amount_def res_simps dest!: mul_SomeD)

lemma liability_amount_eq:
  "get_liability_amount fx b s = Inr a \<Longrightarrow> 0 \<le> s \<Longrightarrow> 0 \<le> liability_share_value b \<Longrightarrow>
     a = s * liability_share_value b div ONE \<and> 0 \<le> a \<and> in_fx a"
  by (auto simp: get_liability_amount_def res_simps dest!: mul_SomeD)

lemma asset_shares_eq:
  "get_asset_shares fx b v = Inr s \<Longrightarrow> 0 \<le> v \<Longrightarrow> 0 < asset_share_value b \<Longrightarrow>
     s = v * ONE div asset_share_value b \<and> 0 \<le> s \<and> in_fx s"
  by (auto simp: get_asset_shares_def res_simps dest!: div_SomeD)

lemma liability_shares_eq:
  "get_liability_shares fx b v = Inr s \<Longrightarrow> 0 \<le> v \<Longrightarrow> 0 < liability_share_value b \<Longrightarrow>
     s = v * ONE div liability_share_value b \<and> 0 \<le> s \<and> in_fx s"
  by (auto simp: get_liability_shares_def res_simps dest!: div_SomeD)

lemma asset_shares_nonneg:
  "get_asset_shares fx b v = Inr s \<Longrightarrow> 0 \<le> v \<Longrightarrow> 0 \<le> asset_share_value b \<Longrightarrow> 0 \<le> s"
  using asset_shares_eq [of b v s]
  by (cases "asset_share_value b = 0") (auto simp: get_asset_shares_def)

end

text \<open>
  Converting a value into shares and back rounds down, and loses less than one unit plus the
  value of one unit of a share.
\<close>

lemma shares_round_trip:
  fixes v sv :: int
  assumes "0 < sv"
  shows "(v * ONE div sv) * sv div ONE \<le> v"
    and "v - (v * ONE div sv) * sv div ONE \<le> sv div ONE + 1"
proof -
  have m: "(v * ONE div sv) * sv = v * ONE - v * ONE mod sv"
    by (simp add: minus_mod_eq_div_mult)
  have "(v * ONE div sv) * sv div ONE \<le> v * ONE div ONE"
    using assms by (intro zdiv_mono1) (auto simp: div_mult_le)
  then show "(v * ONE div sv) * sv div ONE \<le> v" by simp
  have lt: "v * ONE - (v * ONE div sv) * sv \<le> sv"
    using m pos_mod_bound [OF assms, of "v * ONE"] by linarith
  have "v = v * ONE div ONE" by simp
  also have "\<dots> \<le> ((v * ONE div sv) * sv + sv) div ONE"
    using lt by (intro zdiv_mono1) auto
  also have "\<dots> \<le> (v * ONE div sv) * sv div ONE + sv div ONE + 1"
  proof -
    have "(x + y) div ONE \<le> x div ONE + y div ONE + 1" for x y :: int
    proof -
      have "x mod ONE + y mod ONE < ONE + ONE" by (intro add_strict_mono) auto
      then have "(x + y) div ONE * ONE < (x div ONE + y div ONE + 2) * ONE"
        using div_ONE_le [of "x + y"] div_mult_mod_eq [of x ONE] div_mult_mod_eq [of y ONE]
        by (simp only: distrib_right)
      then have "(x + y) div ONE < x div ONE + y div ONE + 2"
        by (rule mult_right_less_imp_less) simp
      then show ?thesis by simp
    qed
    then show ?thesis .
  qed
  finally show "v - (v * ONE div sv) * sv div ONE \<le> sv div ONE + 1" by linarith
qed

section \<open>Limits\<close>

lemma change_asset_shares_frame:
  assumes "change_asset_shares fx s bp b = Inr b'"
  shows "b' = b\<lparr>total_asset_shares := total_asset_shares b'\<rparr>"
    and "checked_add fx (total_asset_shares b) s = Some (total_asset_shares b')"
  using assms by (auto simp: change_asset_shares_def res_simps Let_def split: if_splits)

lemma change_liability_shares_frame:
  assumes "change_liability_shares fx s bp b = Inr b'"
  shows "b' = b\<lparr>total_liability_shares := total_liability_shares b'\<rparr>"
    and "checked_add fx (total_liability_shares b) s = Some (total_liability_shares b')"
  using assms by (auto simp: change_liability_shares_def res_simps Let_def split: if_splits)

lemma change_asset_shares_limit:
  assumes "change_asset_shares fx s False b = Inr b'" and "0 < s"
    and "is_deposit_limit_active (config b)"
  shows "\<exists>a l. get_asset_amount fx b' (total_asset_shares b') = Inr a
     \<and> scaled_deposit_limit fx b' = Inr l \<and> a < l"
  using assms by (auto simp: change_asset_shares_def res_simps Let_def not_le split: if_splits)

lemma change_liability_shares_limit:
  assumes "change_liability_shares fx s False b = Inr b'" and "0 < s"
    and "is_borrow_limit_active (config b)"
  shows "\<exists>a l. get_liability_amount fx b' (total_liability_shares b') = Inr a
     \<and> from_num fx (int (borrow_limit (config b))) = Some l \<and> a < l"
  using assms by (auto simp: change_liability_shares_def res_simps Let_def not_le split: if_splits)

context fixed_arith
begin

text \<open>
  A deposit of the offered capacity leaves the total strictly below the limit.
\<close>

lemma remaining_capacity_below_limit:
  assumes "get_remaining_deposit_capacity fx b = Inr n" and "is_deposit_limit_active (config b)"
    and "get_asset_amount fx b (total_asset_shares b) = Inr a" and "scaled_deposit_limit fx b = Inr l"
    and "0 < n"
  shows "a + int n * ONE + ONE \<le> l"
proof -
  have lt: "a < l" using assms by (auto simp: get_remaining_deposit_capacity_def split: if_splits)
  then obtain r1 r2 r3 where r1: "checked_sub fx l a = Some r1" and r2: "checked_sub fx r1 ONE = Some r2"
    and r3: "checked_floor fx r2 = Some r3" and n: "checked_to_u64 fx r3 = Some n"
    using assms by (auto simp: get_remaining_deposit_capacity_def res_simps split: if_splits)
  have r: "r2 = l - a - ONE" "in_fx r2" using sub_SomeD [OF r1] sub_SomeD [OF r2] by auto
  have f: "r3 = r2 div ONE * ONE" using r3 floor [OF r(2)] by simp
  have "0 \<le> r2 div ONE"
  proof (rule ccontr)
    assume "\<not> 0 \<le> r2 div ONE"
    then have "r2 div ONE * ONE \<le> - 1 * ONE" by (intro mult_right_mono) auto
    then show False using to_u64_neg [of r3] n f by simp
  qed
  then have "0 \<le> r3" using f by simp
  then have "int n * ONE = r3" using to_u64_SomeD [OF n] f by simp
  then show ?thesis using r f div_ONE_le [of r2] by simp
qed

text \<open>
  The capacity is an error, not zero, when less than one unit is left below the limit.
\<close>

lemma remaining_capacity_below_one_fails:
  assumes "is_deposit_limit_active (config b)"
    and "get_asset_amount fx b (total_asset_shares b) = Inr a" and "scaled_deposit_limit fx b = Inr l"
    and "0 \<le> a" and "a < l" and "l < a + ONE"
  shows "get_remaining_deposit_capacity fx b = Inl (Err MathError)"
proof -
  have in1: "in_fx (l - a)" and in2: "in_fx (l - a - ONE)"
    using assms by (auto simp: in_fx_def fx_limit_def ONE_def)
  have "(l - a - ONE) div ONE * ONE \<le> l - a - ONE" by (rule div_ONE_le)
  then have "(l - a - ONE) div ONE * ONE < 0 * ONE" using assms by simp
  then have "(l - a - ONE) div ONE < 0" by (rule mult_right_less_imp_less) simp
  then have "(l - a - ONE) div ONE * ONE \<le> - 1 * ONE" by (intro mult_right_mono) auto
  then have "checked_to_u64 fx ((l - a - ONE) div ONE * ONE) = None" by (intro to_u64_neg) simp
  then show ?thesis
    using assms in1 in2 floor [OF in2]
    by (simp add: get_remaining_deposit_capacity_def sub)
qed

section \<open>Accrual\<close>

lemma time_delta_of_eq:
  "time_delta_of now b = Inr d \<Longrightarrow> int d = now - bank_last_update b \<and> d \<le> u64_max"
  by (auto simp: time_delta_of_def res_simps in_i64_def u64_max_def split: if_splits)

lemma accrue_interest_same_time:
  "in_i64 0 \<Longrightarrow> accrue_interest fx (bank_last_update b) g b = Inr b"
  by (simp add: accrue_interest_def time_delta_of_def i64_op_def)

lemma collect_fee_mono:
  "collect_fee fx c old = Inr new \<Longrightarrow> 0 \<le> old \<Longrightarrow> old \<le> new \<and> new = old + max c 0"
  by (auto simp: collect_fee_def res_simps dest!: add_SomeD split: if_splits)

lemma accrue_interest_cases:
  assumes "accrue_interest fx now g b = Inr b'" and "bank_ok b"
  obtains (same) "b' = b" "bank_last_update b = now"
    | (idle) "b' = b\<lparr>bank_last_update := now\<rparr>" "bank_last_update b < now"
    | (charged) a l d ch gf inf pf where
        "int d = now - bank_last_update b" "0 < d" "d \<le> u64_max"
        "get_asset_amount fx b (total_asset_shares b) = Inr a" "a \<noteq> 0"
        "get_liability_amount fx b (total_liability_shares b) = Inr l" "l \<noteq> 0"
        "calc_interest_rate_accrual_state_changes fx d a l
           (create_interest_rate_calculator (interest_rate_config (config b)) g)
           (asset_share_value b) (liability_share_value b) = Inr ch"
        "collect_fee fx (group_fees_collected ch) (collected_group_fees_outstanding b) = Inr gf"
        "collect_fee fx (insurance_fees_collected ch)
           (collected_insurance_fees_outstanding b) = Inr inf"
        "collect_fee fx (protocol_fees_collected ch)
           (collected_program_fees_outstanding b) = Inr pf"
        "asset_share_value b' = new_asset_share_value ch"
        "liability_share_value b' = new_liability_share_value ch"
        "total_asset_shares b' = total_asset_shares b"
        "total_liability_shares b' = total_liability_shares b"
        "collected_group_fees_outstanding b' = gf"
        "collected_insurance_fees_outstanding b' = inf"
        "collected_program_fees_outstanding b' = pf"
        "bank_last_update b' = now" "config b' = config b" "bank_flags b' = bank_flags b"
        "mint_decimals b' = mint_decimals b"
proof -
  obtain d where d: "time_delta_of now b = Inr d"
    using assms(1) by (auto simp: accrue_interest_def res_simps)
  note dd = time_delta_of_eq [OF d]
  show thesis
  proof (cases "d = 0")
    case True
    with assms(1) d dd show thesis by (intro same) (auto simp: accrue_interest_def)
  next
    case False
    then obtain a l where a: "get_asset_amount fx b (total_asset_shares b) = Inr a"
      and l: "get_liability_amount fx b (total_liability_shares b) = Inr l"
      using assms(1) d by (auto simp: accrue_interest_def res_simps)
    show thesis
    proof (cases "a = 0 \<or> l = 0")
      case True
      with False assms(1) d dd a l show thesis
        by (intro idle) (auto simp: accrue_interest_def Let_def)
    next
      case nz: False
      with False assms(1) d a l obtain ch x y gf inf pf where
        ch: "calc_interest_rate_accrual_state_changes fx d a l
           (create_interest_rate_calculator (interest_rate_config (config b)) g)
           (asset_share_value b) (liability_share_value b) = Inr ch"
        and f: "collect_fee fx (group_fees_collected ch) (collected_group_fees_outstanding b) = Inr gf"
          "collect_fee fx (insurance_fees_collected ch)
             (collected_insurance_fees_outstanding b) = Inr inf"
          "collect_fee fx (protocol_fees_collected ch)
             (collected_program_fees_outstanding b) = Inr pf"
        and b': "b' = b\<lparr>bank_last_update := now,
                  cache := (cache b)\<lparr>accumulated_since_last_update := x,
                                      interest_accumulated_for := y\<rparr>,
                  asset_share_value := new_asset_share_value ch,
                  liability_share_value := new_liability_share_value ch,
                  collected_group_fees_outstanding := gf,
                  collected_insurance_fees_outstanding := inf,
                  collected_program_fees_outstanding := pf\<rparr>"
        by (auto simp: accrue_interest_def res_simps Let_def)
      show thesis
        by (rule charged [OF _ _ _ a _ l _ ch f]) (use nz False dd b' in auto)
    qed
  qed
qed

lemma accrue_interest_monotone:
  assumes acc: "accrue_interest fx now g b = Inr b'" and ok: "bank_ok b"
  shows "asset_share_value b \<le> asset_share_value b'"
    and "liability_share_value b \<le> liability_share_value b'"
    and "collected_group_fees_outstanding b \<le> collected_group_fees_outstanding b'"
    and "collected_insurance_fees_outstanding b \<le> collected_insurance_fees_outstanding b'"
    and "collected_program_fees_outstanding b \<le> collected_program_fees_outstanding b'"
    and "total_asset_shares b' = total_asset_shares b"
    and "total_liability_shares b' = total_liability_shares b"
    and "bank_last_update b' = now"
    and "config b' = config b" and "bank_flags b' = bank_flags b"
    and "mint_decimals b' = mint_decimals b"
proof -
  have "asset_share_value b \<le> asset_share_value b'
      \<and> liability_share_value b \<le> liability_share_value b'
      \<and> collected_group_fees_outstanding b \<le> collected_group_fees_outstanding b'
      \<and> collected_insurance_fees_outstanding b \<le> collected_insurance_fees_outstanding b'
      \<and> collected_program_fees_outstanding b \<le> collected_program_fees_outstanding b'
      \<and> total_asset_shares b' = total_asset_shares b
      \<and> total_liability_shares b' = total_liability_shares b
      \<and> bank_last_update b' = now \<and> config b' = config b \<and> bank_flags b' = bank_flags b
      \<and> mint_decimals b' = mint_decimals b" (is ?P)
    using acc ok
  proof (cases rule: accrue_interest_cases)
    case (charged a l d ch gf inf pf)
    have "0 \<le> l" using liability_amount_eq [OF charged(6)] ok by (simp add: bank_ok_def)
    note m = accrual_monotone [OF charged(8) this _ _ charged(3)]
    have "asset_share_value b \<le> asset_share_value b'
        \<and> liability_share_value b \<le> liability_share_value b'"
      using m(1,2) ok charged(12,13) by (simp add: bank_ok_def)
    moreover have "collected_group_fees_outstanding b \<le> collected_group_fees_outstanding b'"
      using collect_fee_mono [OF charged(9)] ok charged(16) by (simp add: bank_ok_def)
    moreover have "collected_insurance_fees_outstanding b \<le> collected_insurance_fees_outstanding b'"
      using collect_fee_mono [OF charged(10)] ok charged(17) by (simp add: bank_ok_def)
    moreover have "collected_program_fees_outstanding b \<le> collected_program_fees_outstanding b'"
      using collect_fee_mono [OF charged(11)] ok charged(18) by (simp add: bank_ok_def)
    ultimately show ?P using charged(14,15,19-22) by simp
  qed simp_all
  then show "asset_share_value b \<le> asset_share_value b'"
    "liability_share_value b \<le> liability_share_value b'"
    "collected_group_fees_outstanding b \<le> collected_group_fees_outstanding b'"
    "collected_insurance_fees_outstanding b \<le> collected_insurance_fees_outstanding b'"
    "collected_program_fees_outstanding b \<le> collected_program_fees_outstanding b'"
    "total_asset_shares b' = total_asset_shares b"
    "total_liability_shares b' = total_liability_shares b"
    "bank_last_update b' = now" "config b' = config b" "bank_flags b' = bank_flags b"
    "mint_decimals b' = mint_decimals b"
    by simp_all
qed

lemma accrue_interest_ok:
  assumes "accrue_interest fx now g b = Inr b'" and "bank_ok b"
  shows "bank_ok b'"
proof -
  note m = accrue_interest_monotone(1-7) [OF assms]
  show ?thesis using m(1-5) assms(2) unfolding bank_ok_def m(6,7) by linarith
qed

section \<open>Losses\<close>

lemma socialize_loss_frame:
  "socialize_loss fx loss b = Inr (b', killed) \<Longrightarrow>
     b' = b\<lparr>asset_share_value := asset_share_value b'\<rparr>"
  by (auto simp: socialize_loss_def res_simps split: if_splits)

text \<open>
  Depositors lose at least the loss and never more than it plus the rounding of one share; the
  bank is killed exactly when nothing is left, and the value of a share does not increase.
\<close>

lemma socialize_loss_value:
  assumes sl: "socialize_loss fx loss b = Inr (b', killed)" and ok: "bank_ok b" and "0 \<le> loss"
  defines "old \<equiv> total_asset_shares b * asset_share_value b div ONE"
    and "new \<equiv> total_asset_shares b' * asset_share_value b' div ONE"
  shows "killed \<longleftrightarrow> asset_share_value b' = 0"
    and "new \<le> max 0 (old - loss)"
    and "loss < old \<Longrightarrow> old - loss - new \<le> total_asset_shares b div ONE + 1"
    and "0 \<le> asset_share_value b'" and "asset_share_value b' \<le> asset_share_value b"
proof -
  have nn: "0 \<le> asset_share_value b" "0 \<le> total_asset_shares b" using ok by (auto simp: bank_ok_def)
  obtain tv where tv: "checked_mul fx (total_asset_shares b) (asset_share_value b) = Some tv"
    using sl by (auto simp: socialize_loss_def res_simps)
  have old: "tv = old" "0 \<le> old" "in_fx old" using mul_SomeD [OF tv] nn by (auto simp: old_def)
  have "(killed \<longleftrightarrow> asset_share_value b' = 0) \<and> new \<le> max 0 (old - loss)
      \<and> (loss < old \<longrightarrow> old - loss - new \<le> total_asset_shares b div ONE + 1)
      \<and> 0 \<le> asset_share_value b' \<and> asset_share_value b' \<le> asset_share_value b"
  proof (cases "old \<le> loss")
    case True
    then show ?thesis using sl tv old nn by (auto simp: socialize_loss_def new_def)
  next
    case False
    have "in_fx (old - loss)" using False old assms(3) by (auto intro: in_fx_mono [OF \<open>in_fx old\<close>])
    then have s: "op_sub fx old loss = Some (old - loss)" by (rule minus)
    have tpos: "0 < total_asset_shares b" using False old nn assms(3)
      by (cases "total_asset_shares b = 0") (auto simp: old_def)
    obtain nv where nv: "checked_div fx (old - loss) (total_asset_shares b) = Some nv"
      and b': "b' = b\<lparr>asset_share_value := nv\<rparr>" and k: "killed = (nv = 0)"
      using sl tv old False s by (auto simp: socialize_loss_def res_simps)
    have e: "nv = (old - loss) * ONE div total_asset_shares b" "0 \<le> nv"
      using div_SomeD [OF nv] False tpos by auto
    have "(old - loss) * ONE \<le> old * ONE" using assms(3) by simp
    also have "\<dots> \<le> total_asset_shares b * asset_share_value b"
      unfolding old_def by (rule div_ONE_le)
    finally have "nv \<le> total_asset_shares b * asset_share_value b div total_asset_shares b"
      unfolding e using tpos by (intro zdiv_mono1)
    then have le: "nv \<le> asset_share_value b" using tpos by simp
    have new: "new = nv * total_asset_shares b div ONE" by (simp add: new_def b' mult.commute)
    show ?thesis
      using shares_round_trip [OF tpos, of "old - loss"] False b' k e le by (auto simp: new)
  qed
  then show "killed \<longleftrightarrow> asset_share_value b' = 0" "new \<le> max 0 (old - loss)"
    "loss < old \<Longrightarrow> old - loss - new \<le> total_asset_shares b div ONE + 1"
    "0 \<le> asset_share_value b'" "asset_share_value b' \<le> asset_share_value b" by blast+
qed

end

end
