(* ===== verification/Guards.thy ===== *)
theory Guards
  imports BankFacts
begin

text \<open>
  The checks the instructions share (\<open>utils/general.rs\<close>): comparisons with a tolerance, the
  asset tags that may be held together, the operational states that refuse an instruction, and the
  arithmetic of Token-2022 transfer fees.
\<close>

section \<open>Tolerances\<close>

definition is_zero_with_tolerance :: "fixed_ops \<Rightarrow> I80F48 \<Rightarrow> I80F48 \<Rightarrow> bool res" where
  "is_zero_with_tolerance fx v t = bindR (unwrap (op_abs fx v)) (\<lambda>a. Inr (a < t))"

definition is_positive_with_tolerance :: "I80F48 \<Rightarrow> I80F48 \<Rightarrow> bool" where
  "is_positive_with_tolerance v t \<longleftrightarrow> v > t"

text \<open>\<open>check!(cond, e)\<close>.\<close>

definition check :: "bool \<Rightarrow> marginfi_error \<Rightarrow> unit res" where
  "check c e = (if c then Inr () else Inl (Err e))"

definition check_zero :: "fixed_ops \<Rightarrow> I80F48 \<Rightarrow> marginfi_error \<Rightarrow> unit res" where
  "check_zero fx v e =
     bindR (is_zero_with_tolerance fx v (ZERO_AMOUNT_THRESHOLD fx)) (\<lambda>z. check z e)"

lemma check_eq_Inr [res_simps]: "check c e = Inr u \<longleftrightarrow> c"
  by (simp add: check_def)

section \<open>Asset tags\<close>

definition is_default_like :: "u8 \<Rightarrow> bool" where
  "is_default_like t \<longleftrightarrow> t = ASSET_TAG_DEFAULT \<or> t = ASSET_TAG_KAMINO \<or> t = ASSET_TAG_DRIFT
     \<or> t = ASSET_TAG_SOLEND"

definition is_marginfi_asset_tag :: "u8 \<Rightarrow> bool" where
  "is_marginfi_asset_tag t \<longleftrightarrow> t = ASSET_TAG_DEFAULT \<or> t = ASSET_TAG_SOL \<or> t = ASSET_TAG_STAKED"

definition is_kamino_asset_tag :: "u8 \<Rightarrow> bool" where
  "is_kamino_asset_tag t \<longleftrightarrow> t = ASSET_TAG_KAMINO"

definition is_drift_asset_tag :: "u8 \<Rightarrow> bool" where
  "is_drift_asset_tag t \<longleftrightarrow> t = ASSET_TAG_DRIFT"

definition is_solend_asset_tag :: "u8 \<Rightarrow> bool" where
  "is_solend_asset_tag t \<longleftrightarrow> t = ASSET_TAG_SOLEND"

definition is_integration_asset_tag :: "u8 \<Rightarrow> bool" where
  "is_integration_asset_tag t \<longleftrightarrow> t = ASSET_TAG_KAMINO \<or> t = ASSET_TAG_DRIFT \<or> t = ASSET_TAG_SOLEND"

text \<open>The scan of the balances: which kinds of assets are held; an unknown tag panics.\<close>

fun scan_tags :: "Balance list \<Rightarrow> bool \<Rightarrow> bool \<Rightarrow> (bool \<times> bool) res" where
  "scan_tags [] has_default has_staked = Inr (has_default, has_staked)"
| "scan_tags (b # bs) has_default has_staked =
     (if is_active b
      then (if bank_asset_tag b = ASSET_TAG_DEFAULT then scan_tags bs True has_staked
            else if bank_asset_tag b = ASSET_TAG_SOL then scan_tags bs has_default has_staked
            else if bank_asset_tag b = ASSET_TAG_STAKED then scan_tags bs has_default True
            else if is_integration_asset_tag (bank_asset_tag b) then scan_tags bs True has_staked
            else Inl Panic)
      else scan_tags bs has_default has_staked)"

definition validate_asset_tags :: "Bank \<Rightarrow> MarginfiAccount \<Rightarrow> unit res" where
  "validate_asset_tags b a =
     bindR (scan_tags (balances (lending_account a)) False False) (\<lambda>(has_default, has_staked).
     if is_default_like (asset_tag (config b)) \<and> has_staked then Inl (Err AssetTagMismatch)
     else if asset_tag (config b) = ASSET_TAG_STAKED \<and> has_default then Inl (Err AssetTagMismatch)
     else Inr ())"

definition validate_bank_asset_tags :: "Bank \<Rightarrow> Bank \<Rightarrow> unit res" where
  "validate_bank_asset_tags a b =
     (let a_default = is_default_like (asset_tag (config a));
          a_staked = (asset_tag (config a) = ASSET_TAG_STAKED);
          b_default = is_default_like (asset_tag (config b));
          b_staked = (asset_tag (config b) = ASSET_TAG_STAKED)
      in if a_default \<and> b_staked then Inl (Err AssetTagMismatch)
         else if a_staked \<and> b_default then Inl (Err AssetTagMismatch)
         else Inr ())"

section \<open>Operational states\<close>

datatype InstructionKind =
  Unrestricted | FailsInReduceState | FailsInPausedState | FailsIfPausedOrReduceState

definition validate_bank_state :: "Bank \<Rightarrow> InstructionKind \<Rightarrow> unit res" where
  "validate_bank_state b kind =
     (let st = operational_state (config b)
      in if st = KilledByBankruptcy then Inl (Err BankKilledByBankruptcy)
         else (case kind of
             FailsInReduceState \<Rightarrow> if st = ReduceOnly then Inl (Err BankReduceOnly) else Inr ()
           | FailsInPausedState \<Rightarrow> if st = Paused then Inl (Err BankPaused) else Inr ()
           | FailsIfPausedOrReduceState \<Rightarrow>
               (case st of Paused \<Rightarrow> Inl (Err BankPaused)
                         | ReduceOnly \<Rightarrow> Inl (Err BankReduceOnly) | _ \<Rightarrow> Inr ())
           | Unrestricted \<Rightarrow> Inr ()))"

section \<open>Transfer fees\<close>

text \<open>
  \<open>TransferFee\<close> of the Token-2022 program: the fee of an epoch in basis points and its cap.
  The functions that pick the fee of an epoch and compute it belong to that program: a mint with
  the extension carries them as \<open>get_epoch_fee\<close> and \<open>calculate_epoch_fee\<close>.
\<close>

record TransferFee =
  maximum_fee :: u64
  transfer_fee_basis_points :: u16

record TransferFeeConfig =
  get_epoch_fee :: "u64 \<Rightarrow> TransferFee"
  calculate_epoch_fee :: "u64 \<Rightarrow> u64 \<Rightarrow> u64 option"

text \<open>
  A mint: owned by the classic token program, or owned by Token-2022 with or without the fee
  extension, or not readable.
\<close>

datatype MintAi = TokenMint | Token2022Mint "TransferFeeConfig option" | UnreadableMint

definition u128_max :: nat where "u128_max = 340282366920938463463374607431768211455"

definition checked_add_u128 :: "nat \<Rightarrow> nat \<Rightarrow> nat option" where
  "checked_add_u128 a b = (if a + b \<le> u128_max then Some (a + b) else None)"

definition checked_mul_u128 :: "nat \<Rightarrow> nat \<Rightarrow> nat option" where
  "checked_mul_u128 a b = (if a * b \<le> u128_max then Some (a * b) else None)"

definition checked_div_u128 :: "nat \<Rightarrow> nat \<Rightarrow> nat option" where
  "checked_div_u128 a b = (if b = 0 then None else Some (a div b))"

definition ceil_div :: "nat \<Rightarrow> nat \<Rightarrow> nat res" where
  "ceil_div numerator denominator =
     bindR (opt (checked_add_u128 numerator denominator)) (\<lambda>s.
     bindR (opt (checked_sub_nat s 1)) (\<lambda>s1.
     opt (checked_div_u128 s1 denominator)))"

definition ONE_IN_BASIS_POINTS :: nat where "ONE_IN_BASIS_POINTS = 10000"

definition calculate_pre_fee_amount :: "TransferFee \<Rightarrow> u64 \<Rightarrow> u64 res" where
  "calculate_pre_fee_amount tf post_fee_amount =
     (if transfer_fee_basis_points tf = 0 then Inr post_fee_amount
      else if post_fee_amount = 0 then Inr 0
      else if transfer_fee_basis_points tf = ONE_IN_BASIS_POINTS
      then opt (checked_add_u64 (maximum_fee tf) post_fee_amount)
      else bindR (opt (checked_mul_u128 post_fee_amount ONE_IN_BASIS_POINTS)) (\<lambda>numerator.
           bindR (opt (checked_sub_nat ONE_IN_BASIS_POINTS (transfer_fee_basis_points tf)))
             (\<lambda>denominator.
           bindR (ceil_div numerator denominator) (\<lambda>raw_pre_fee_amount.
           bindR (opt (checked_sub_nat raw_pre_fee_amount post_fee_amount)) (\<lambda>d.
           if d \<ge> maximum_fee tf then opt (checked_add_u64 post_fee_amount (maximum_fee tf))
           else if raw_pre_fee_amount \<le> u64_max then Inr raw_pre_fee_amount
           else Inl NoneValue)))))"

text \<open>\<open>unwrap\<close> of a computation that may give \<open>None\<close>.\<close>

definition none_panics :: "'a res \<Rightarrow> 'a res" where
  "none_panics r = (case r of Inl NoneValue \<Rightarrow> Inl Panic | _ \<Rightarrow> r)"

definition calculate_pre_fee_spl_deposit_amount :: "MintAi \<Rightarrow> u64 \<Rightarrow> u64 \<Rightarrow> u64 res" where
  "calculate_pre_fee_spl_deposit_amount m post_fee_amount epoch = (case m of
      TokenMint \<Rightarrow> Inr post_fee_amount
    | UnreadableMint \<Rightarrow> Inl (ProgramError ''InvalidAccountData'')
    | Token2022Mint None \<Rightarrow> Inr post_fee_amount
    | Token2022Mint (Some c) \<Rightarrow>
        none_panics (calculate_pre_fee_amount (get_epoch_fee c epoch) post_fee_amount))"

definition calculate_post_fee_spl_deposit_amount :: "MintAi \<Rightarrow> u64 \<Rightarrow> u64 \<Rightarrow> u64 res" where
  "calculate_post_fee_spl_deposit_amount m input_amount epoch = (case m of
      TokenMint \<Rightarrow> Inr input_amount
    | UnreadableMint \<Rightarrow> Inl (ProgramError ''InvalidAccountData'')
    | Token2022Mint c \<Rightarrow>
        bindR (case c of Some c \<Rightarrow> unwrap (calculate_epoch_fee c epoch input_amount) | None \<Rightarrow> Inr 0)
          (\<lambda>fee. ok_or MathError (checked_sub_nat input_amount fee)))"

definition nonzero_fee :: "MintAi \<Rightarrow> u64 \<Rightarrow> bool res" where
  "nonzero_fee m epoch = (case m of
      TokenMint \<Rightarrow> Inr False
    | UnreadableMint \<Rightarrow> Inl (ProgramError ''InvalidAccountData'')
    | Token2022Mint None \<Rightarrow> Inr False
    | Token2022Mint (Some c) \<Rightarrow> Inr (transfer_fee_basis_points (get_epoch_fee c epoch) \<noteq> 0))"

section \<open>Facts on the checks\<close>

lemma is_integration_default_like: "is_integration_asset_tag t \<Longrightarrow> is_default_like t"
  by (auto simp: is_integration_asset_tag_def is_default_like_def)

definition tags_known :: "Balance list \<Rightarrow> bool" where
  "tags_known bs \<longleftrightarrow> (\<forall>b \<in> set bs. is_active b \<longrightarrow> bank_asset_tag b \<le> 5)"

lemma scan_tags_eq:
  "tags_known bs \<Longrightarrow> scan_tags bs d s =
     Inr (d \<or> (\<exists>b \<in> set bs. is_active b \<and> is_default_like (bank_asset_tag b)),
          s \<or> (\<exists>b \<in> set bs. is_active b \<and> bank_asset_tag b = ASSET_TAG_STAKED))"
proof (induction bs arbitrary: d s)
  case Nil
  then show ?case by simp
next
  case (Cons b bs)
  have tag: "bank_asset_tag b \<in> {0, 1, 2, 3, 4, 5}" if "is_active b"
    using Cons.prems that by (force simp: tags_known_def)
  have "tags_known bs" using Cons.prems by (simp add: tags_known_def)
  note IH = Cons.IH [OF this]
  show ?case
  proof (cases "is_active b")
    case True
    consider "bank_asset_tag b = 0" | "bank_asset_tag b = 1" | "bank_asset_tag b = 2"
      | "bank_asset_tag b = 3" | "bank_asset_tag b = 4" | "bank_asset_tag b = 5"
      using tag [OF True] by auto
    then show ?thesis
      using True by cases
        (simp_all add: IH is_default_like_def is_integration_asset_tag_def asset_tag_defs)
  qed (simp add: IH)
qed

text \<open>Assets that may stand in one account: no staked asset beside a default-like one.\<close>

definition tags_compatible :: "u8 set \<Rightarrow> bool" where
  "tags_compatible ts \<longleftrightarrow> \<not> (ASSET_TAG_STAKED \<in> ts \<and> (\<exists>t \<in> ts. is_default_like t))"

definition held_tags :: "LendingAccount \<Rightarrow> u8 set" where
  "held_tags la = {bank_asset_tag b | b. b \<in> set (balances la) \<and> is_active b}"

lemma staked_not_default_like [simp]: "\<not> is_default_like ASSET_TAG_STAKED"
  by (simp add: is_default_like_def asset_tag_defs)

lemma scan_tags_unknown: "\<not> tags_known bs \<Longrightarrow> scan_tags bs d s = Inl Panic"
proof (induction bs arbitrary: d s)
  case Nil
  then show ?case by (simp add: tags_known_def)
next
  case (Cons b bs)
  show ?case
  proof (cases "is_active b \<and> \<not> bank_asset_tag b \<le> 5")
    case True
    then show ?thesis by (simp add: is_integration_asset_tag_def asset_tag_defs)
  next
    case False
    then have "\<not> tags_known bs" using Cons.prems by (auto simp: tags_known_def)
    then show ?thesis using Cons.IH by simp
  qed
qed

lemma validate_asset_tags_decides:
  assumes "tags_compatible (held_tags (lending_account a))"
  shows "validate_asset_tags b a =
    (if \<not> tags_known (balances (lending_account a)) then Inl Panic
     else if tags_compatible (insert (asset_tag (config b)) (held_tags (lending_account a))) then Inr ()
     else Inl (Err AssetTagMismatch))"
  using assms
  by (auto simp: validate_asset_tags_def scan_tags_unknown scan_tags_eq tags_compatible_def held_tags_def)

lemma validate_bank_asset_tags_iff:
  "validate_bank_asset_tags a b = Inr () \<longleftrightarrow>
     tags_compatible {asset_tag (config a), asset_tag (config b)}"
  by (auto simp: validate_bank_asset_tags_def tags_compatible_def Let_def)

lemma validate_bank_state_ok:
  "validate_bank_state b kind = Inr () \<longleftrightarrow>
     operational_state (config b) \<noteq> KilledByBankruptcy
   \<and> (kind \<in> {FailsInPausedState, FailsIfPausedOrReduceState} \<longrightarrow> operational_state (config b) \<noteq> Paused)
   \<and> (kind \<in> {FailsInReduceState, FailsIfPausedOrReduceState} \<longrightarrow>
        operational_state (config b) \<noteq> ReduceOnly)"
  by (auto simp: validate_bank_state_def Let_def
      split: InstructionKind.splits BankOperationalState.splits)

context fixed_arith
begin

lemma check_zero_iff:
  assumes "0 \<le> v" and "in_fx v"
  shows "check_zero fx v e = Inr () \<longleftrightarrow> v < ZERO_AMOUNT_THRESHOLD fx"
  using assms by (simp add: check_zero_def is_zero_with_tolerance_def abs check_def)

end

section \<open>Facts on transfer fees\<close>

lemma ceil_div_eq:
  assumes "n + d \<le> u128_max" and "0 < d"
  shows "ceil_div n d = Inr ((n + d - 1) div d)"
  using assms by (simp add: ceil_div_def checked_add_u128_def checked_sub_nat_def checked_div_u128_def)

text \<open>The fee the token program documents: the rounded-up share, capped.\<close>

definition documented_fee :: "TransferFee \<Rightarrow> nat \<Rightarrow> nat" where
  "documented_fee tf n =
     min ((n * transfer_fee_basis_points tf + 9999) div 10000) (maximum_fee tf)"

lemma nat_ceil_bounds:
  fixes a d :: nat
  assumes "0 < d"
  shows "a \<le> (a + d - 1) div d * d" and "(a + d - 1) div d * d \<le> a + d - 1"
proof -
  let ?q = "(a + d - 1) div d"
  have e: "?q * d + (a + d - 1) mod d = a + d - 1" by (rule div_mult_mod_eq)
  have "(a + d - 1) mod d < d" using assms by simp
  with e show "a \<le> ?q * d" using assms by linarith
  from e show "?q * d \<le> a + d - 1" by linarith
qed

text \<open>
  The computed gross amount covers the net one: what is left of it after the fee is at least what
  is asked for, and at most one unit more.
\<close>

lemma uncapped_fee_covers:
  fixes p g bps :: nat
  assumes "bps < 10000" and g: "g = (p * 10000 + (10000 - bps) - 1) div (10000 - bps)"
  shows "p + (g * bps + 9999) div 10000 \<le> g" and "g \<le> p + (g * bps + 9999) div 10000 + 1"
proof -
  let ?d = "10000 - bps"
  have d: "0 < ?d" and bps: "bps = 10000 - ?d" using assms by auto
  note gb = nat_ceil_bounds [OF d, of "p * 10000", folded g]
  have gd: "g * bps + g * ?d = g * 10000"
    using assms by (simp flip: distrib_left)
  have "g * bps + 9999 < (g - p + 1) * 10000"
  proof -
    have "p \<le> g"
    proof (rule ccontr)
      assume "\<not> p \<le> g"
      then have "g * ?d < p * 10000" using mult_le_mono [of g "p - 1" ?d 10000] by (cases p) auto
      with gb show False by simp
    qed
    then show ?thesis using gb gd by (simp add: diff_mult_distrib distrib_right)
  qed
  then have "(g * bps + 9999) div 10000 < g - p + 1"
    by (simp add: less_mult_imp_div_less)
  moreover have "p \<le> g" 
  proof (rule ccontr)
    assume "\<not> p \<le> g"
    then have "g * ?d < p * 10000" using mult_le_mono [of g "p - 1" ?d 10000] by (cases p) auto
    with gb show False by simp
  qed
  ultimately show "p + (g * bps + 9999) div 10000 \<le> g" by simp
  have "(g - p - 1) * 10000 \<le> g * bps + 9999"
    using gb gd \<open>p \<le> g\<close> by (simp add: diff_mult_distrib)
  then have "(g - p - 1) * 10000 div 10000 \<le> (g * bps + 9999) div 10000" by (rule div_le_mono)
  then show "g \<le> p + (g * bps + 9999) div 10000 + 1" by simp
qed

end
