(* ===== verification/BalanceOps.thy ===== *)
theory BalanceOps
  imports Guards
begin

text \<open>
  Balances and the bank together (\<open>BalanceImpl\<close> and \<open>BankAccountWrapper\<close> of
  \<open>state/marginfi_account.rs\<close>): the wrapper holds a balance of the account and the bank it
  belongs to, and every deposit, withdrawal, borrow, repayment and claim of emissions is one of its
  methods. Here the wrapper is a pair; \<open>find\<close> and \<open>find_or_create\<close> give the index of the
  balance, and \<open>at_balance\<close> runs a method on it and writes both parts back.
\<close>

type_synonym wrapper = "Balance \<times> Bank"

section \<open>Balances\<close>

definition bal_change_asset_shares :: "fixed_ops \<Rightarrow> I80F48 \<Rightarrow> Balance \<Rightarrow> Balance res" where
  "bal_change_asset_shares fx delta b =
     bindR (math (checked_add fx (asset_shares b) delta)) (\<lambda>s. Inr (b\<lparr>asset_shares := s\<rparr>))"

definition bal_change_liability_shares :: "fixed_ops \<Rightarrow> I80F48 \<Rightarrow> Balance \<Rightarrow> Balance res" where
  "bal_change_liability_shares fx delta b =
     bindR (math (checked_add fx (liability_shares b) delta)) (\<lambda>s. Inr (b\<lparr>liability_shares := s\<rparr>))"

definition bal_close :: "bool \<Rightarrow> Balance \<Rightarrow> Balance res" where
  "bal_close check_emissions b =
     (if check_emissions \<and> \<not> emissions_outstanding b < ONE
      then Inl (Err CannotCloseOutstandingEmissions) else Inr empty_deactivated)"

section \<open>Finding a balance\<close>

definition wrapper_find :: "pubkey \<Rightarrow> LendingAccount \<Rightarrow> nat res" where
  "wrapper_find pk la =
     ok_or BankAccountNotFound (position (\<lambda>b. is_active b \<and> bank_pk b = pk) (balances la))"

text \<open>\<open>unix_timestamp as u64\<close> keeps the 64 bits.\<close>

definition as_u64 :: "i64 \<Rightarrow> u64" where "as_u64 z = nat (z mod 18446744073709551616)"

definition new_balance :: "pubkey \<Rightarrow> u8 \<Rightarrow> i64 \<Rightarrow> Balance" where
  "new_balance pk tag now = \<lparr>active = 1, bank_pk = pk, bank_asset_tag = tag, asset_shares = 0,
     liability_shares = 0, emissions_outstanding = 0, bal_last_update = as_u64 now\<rparr>"

definition integration_count :: "LendingAccount \<Rightarrow> nat" where
  "integration_count la =
     length (filter (\<lambda>b. is_active b \<and> is_integration_asset_tag (bank_asset_tag b)) (balances la))"

definition find_or_create ::
  "i64 \<Rightarrow> pubkey \<Rightarrow> Bank \<Rightarrow> LendingAccount \<Rightarrow> (nat \<times> LendingAccount) res" where
  "find_or_create now pk bank la =
     (case position (\<lambda>b. is_active b \<and> bank_pk b = pk) (balances la) of
        Some i \<Rightarrow> Inr (i, la)
      | None \<Rightarrow>
          if is_integration_asset_tag (asset_tag (config bank))
             \<and> \<not> integration_count la < MAX_INTEGRATION_POSITIONS
          then Inl (Err IntegrationPositionLimitExceeded)
          else bindR (ok_or LendingAccountBalanceSlotsFull (get_first_empty_balance la)) (\<lambda>i.
               Inr (i, la\<lparr>balances :=
                 (balances la)[i := new_balance pk (asset_tag (config bank)) now]\<rparr>)))"

definition at_balance ::
  "nat \<Rightarrow> (wrapper \<Rightarrow> ('a \<times> wrapper) res) \<Rightarrow> LendingAccount \<times> Bank \<Rightarrow> ('a \<times> LendingAccount \<times> Bank) res" where
  "at_balance i f s =
     bindR (f (balances (fst s) ! i, snd s)) (\<lambda>(r, bal, bank).
     Inr (r, (fst s)\<lparr>balances := (balances (fst s))[i := bal]\<rparr>, bank))"

section \<open>Emissions\<close>

definition calc_emissions ::
  "fixed_ops \<Rightarrow> I80F48 \<Rightarrow> I80F48 \<Rightarrow> nat \<Rightarrow> I80F48 \<Rightarrow> I80F48 res" where
  "calc_emissions fx period balance_amount decimals emi_rate =
     bindR (exp_10_index decimals) (\<lambda>exponent.
     bindR (math (checked_div fx balance_amount exponent)) (\<lambda>balance_amount_ui.
     bindR (math (checked_mul fx period balance_amount_ui)) (\<lambda>m.
     bindR (math (checked_div fx m SECONDS_PER_YEAR)) (\<lambda>d.
     math (checked_mul fx d emi_rate)))))"

definition emissions_base :: "fixed_ops \<Rightarrow> wrapper \<Rightarrow> I80F48 option res" where
  "emissions_base fx w =
     bindR (get_side (fst w)) (\<lambda>side.
     (if side = Some Assets \<and> bank_get_flag (snd w) EMISSIONS_FLAG_LENDING_ACTIVE
      then bindR (get_asset_amount fx (snd w) (asset_shares (fst w))) (\<lambda>a. Inr (Some a))
      else if side = Some Liabilities \<and> bank_get_flag (snd w) EMISSIONS_FLAG_BORROW_ACTIVE
      then bindR (get_liability_amount fx (snd w) (liability_shares (fst w))) (\<lambda>a. Inr (Some a))
      else Inr None))"

definition claim_emissions :: "fixed_ops \<Rightarrow> u64 \<Rightarrow> wrapper \<Rightarrow> wrapper res" where
  "claim_emissions fx current_timestamp w =
     bindR (emissions_base fx w) (\<lambda>base.
     bindR (case base of
         None \<Rightarrow> Inr w
       | Some balance_amount \<Rightarrow>
           (let bal = fst w; bank = snd w;
                last_update = (if bal_last_update bal < MIN_EMISSIONS_START_TIME
                               then current_timestamp else bal_last_update bal)
            in bindR (math (checked_sub_nat current_timestamp last_update)) (\<lambda>elapsed.
               bindR (unwrap (from_num fx (int elapsed))) (\<lambda>period.
               bindR (unwrap (from_num fx (int (emissions_rate bank)))) (\<lambda>emi_rate.
               bindR (calc_emissions fx period balance_amount (get_balance_decimals bank) emi_rate) (\<lambda>e.
               (let emissions_real = min e (emissions_remaining bank)
                in bindR (math (checked_add fx (emissions_outstanding bal) emissions_real)) (\<lambda>out.
                   bindR (math (checked_sub fx (emissions_remaining bank) emissions_real)) (\<lambda>rem.
                   Inr (bal\<lparr>emissions_outstanding := out\<rparr>,
                        bank\<lparr>emissions_remaining := rem\<rparr>)))))))))) (\<lambda>(bal, bank).
     Inr (bal\<lparr>bal_last_update := current_timestamp\<rparr>, bank)))"

definition settle_emissions_and_get_transfer_amount ::
  "fixed_ops \<Rightarrow> i64 \<Rightarrow> wrapper \<Rightarrow> (u64 \<times> wrapper) res" where
  "settle_emissions_and_get_transfer_amount fx now w =
     bindR (claim_emissions fx (as_u64 now) w) (\<lambda>(bal, bank).
     bindR (math (checked_floor fx (emissions_outstanding bal))) (\<lambda>floored.
     bindR (math (checked_sub fx (emissions_outstanding bal) floored)) (\<lambda>rest.
     bindR (math (checked_to_u64 fx floored)) (\<lambda>n.
     Inr (n, bal\<lparr>emissions_outstanding := rest\<rparr>, bank)))))"

section \<open>Changing a balance\<close>

datatype BalanceIncreaseType = AnyIncrease | RepayOnly | DepositOnly | BypassDepositLimit

datatype BalanceDecreaseType = WithdrawOnly | BorrowOnly | BypassBorrowLimit

definition has_assets :: "fixed_ops \<Rightarrow> Balance \<Rightarrow> bool" where
  "has_assets fx b = is_positive_with_tolerance (asset_shares b) (ZERO_AMOUNT_THRESHOLD fx)"

definition has_liabs :: "fixed_ops \<Rightarrow> Balance \<Rightarrow> bool" where
  "has_liabs fx b = is_positive_with_tolerance (liability_shares b) (ZERO_AMOUNT_THRESHOLD fx)"

definition update_position_counts :: "fixed_ops \<Rightarrow> Balance \<Rightarrow> Balance \<Rightarrow> Bank \<Rightarrow> Bank" where
  "update_position_counts fx before after bank =
     (let b1 = (if \<not> has_assets fx before \<and> has_assets fx after
                then increment_lending_position_count bank else bank);
          b2 = (if has_assets fx before \<and> \<not> has_assets fx after
                then decrement_lending_position_count b1 else b1);
          b3 = (if \<not> has_liabs fx before \<and> has_liabs fx after
                then increment_borrowing_position_count b2 else b2)
      in if has_liabs fx before \<and> \<not> has_liabs fx after
         then decrement_borrowing_position_count b3 else b3)"

definition increase_balance_internal ::
  "fixed_ops \<Rightarrow> i64 \<Rightarrow> I80F48 \<Rightarrow> BalanceIncreaseType \<Rightarrow> wrapper \<Rightarrow> wrapper res" where
  "increase_balance_internal fx now balance_delta operation_type w =
     bindR (claim_emissions fx (as_u64 now) w) (\<lambda>(bal, bank).
     bindR (get_liability_amount fx bank (liability_shares bal)) (\<lambda>current_liability_amount.
     (let liability_amount_decrease = min current_liability_amount balance_delta in
     bindR (math (checked_sub fx balance_delta current_liability_amount)) (\<lambda>d.
     (let asset_amount_increase = max d 0 in
     bindR (case operation_type of
         RepayOnly \<Rightarrow> check_zero fx asset_amount_increase OperationRepayOnly
       | DepositOnly \<Rightarrow> check_zero fx liability_amount_decrease OperationDepositOnly
       | _ \<Rightarrow> Inr ()) (\<lambda>_.
     bindR (get_asset_shares fx bank asset_amount_increase) (\<lambda>asset_shares_increase.
     bindR (bal_change_asset_shares fx asset_shares_increase bal) (\<lambda>bal1.
     bindR (change_asset_shares fx asset_shares_increase (operation_type = BypassDepositLimit) bank)
       (\<lambda>bank1.
     bindR (get_liability_shares fx bank1 liability_amount_decrease) (\<lambda>liability_shares_decrease.
     bindR (unwrap (op_neg fx liability_shares_decrease)) (\<lambda>minus_shares.
     bindR (bal_change_liability_shares fx minus_shares bal1) (\<lambda>bal2.
     bindR (change_liability_shares fx minus_shares True bank1) (\<lambda>bank2.
     Inr (bal2, update_position_counts fx bal bal2 bank2))))))))))))))"

definition decrease_balance_internal ::
  "fixed_ops \<Rightarrow> i64 \<Rightarrow> I80F48 \<Rightarrow> BalanceDecreaseType \<Rightarrow> wrapper \<Rightarrow> wrapper res" where
  "decrease_balance_internal fx now balance_delta operation_type w =
     bindR (claim_emissions fx (as_u64 now) w) (\<lambda>(bal, bank).
     bindR (get_asset_amount fx bank (asset_shares bal)) (\<lambda>current_asset_amount.
     (let asset_amount_decrease = min current_asset_amount balance_delta in
     bindR (math (checked_sub fx balance_delta current_asset_amount)) (\<lambda>d.
     (let liability_amount_increase = max d 0 in
     bindR (case operation_type of
         WithdrawOnly \<Rightarrow> check_zero fx liability_amount_increase OperationWithdrawOnly
       | BorrowOnly \<Rightarrow> check_zero fx asset_amount_decrease OperationBorrowOnly
       | _ \<Rightarrow> Inr ()) (\<lambda>_.
     bindR (get_asset_shares fx bank asset_amount_decrease) (\<lambda>asset_shares_decrease.
     bindR (unwrap (op_neg fx asset_shares_decrease)) (\<lambda>minus_shares.
     bindR (bal_change_asset_shares fx minus_shares bal) (\<lambda>bal1.
     bindR (change_asset_shares fx minus_shares False bank) (\<lambda>bank1.
     bindR (get_liability_shares fx bank1 liability_amount_increase) (\<lambda>liability_shares_increase.
     bindR (bal_change_liability_shares fx liability_shares_increase bal1) (\<lambda>bal2.
     bindR (change_liability_shares fx liability_shares_increase
              (operation_type = BypassBorrowLimit) bank1) (\<lambda>bank2.
     bindR (if operation_type \<noteq> BypassBorrowLimit then check_utilization_ratio fx bank2 else Inr ())
       (\<lambda>_.
     Inr (bal2, update_position_counts fx bal bal2 bank2)))))))))))))))"

definition deposit :: "fixed_ops \<Rightarrow> i64 \<Rightarrow> I80F48 \<Rightarrow> wrapper \<Rightarrow> wrapper res" where
  "deposit fx now amount w = increase_balance_internal fx now amount DepositOnly w"
definition deposit_no_repay :: "fixed_ops \<Rightarrow> i64 \<Rightarrow> I80F48 \<Rightarrow> wrapper \<Rightarrow> wrapper res" where
  "deposit_no_repay fx now amount w = increase_balance_internal fx now amount DepositOnly w"
definition repay :: "fixed_ops \<Rightarrow> i64 \<Rightarrow> I80F48 \<Rightarrow> wrapper \<Rightarrow> wrapper res" where
  "repay fx now amount w = increase_balance_internal fx now amount RepayOnly w"
definition withdraw :: "fixed_ops \<Rightarrow> i64 \<Rightarrow> I80F48 \<Rightarrow> wrapper \<Rightarrow> wrapper res" where
  "withdraw fx now amount w = decrease_balance_internal fx now amount WithdrawOnly w"
definition borrow :: "fixed_ops \<Rightarrow> i64 \<Rightarrow> I80F48 \<Rightarrow> wrapper \<Rightarrow> wrapper res" where
  "borrow fx now amount w = decrease_balance_internal fx now amount BorrowOnly w"
definition deposit_ignore_deposit_cap ::
  "fixed_ops \<Rightarrow> i64 \<Rightarrow> I80F48 \<Rightarrow> wrapper \<Rightarrow> wrapper res" where
  "deposit_ignore_deposit_cap fx now amount w =
     increase_balance_internal fx now amount BypassDepositLimit w"
definition withdraw_ignore_borrow_cap ::
  "fixed_ops \<Rightarrow> i64 \<Rightarrow> I80F48 \<Rightarrow> wrapper \<Rightarrow> wrapper res" where
  "withdraw_ignore_borrow_cap fx now amount w =
     decrease_balance_internal fx now amount BypassBorrowLimit w"

definition withdraw_all :: "fixed_ops \<Rightarrow> i64 \<Rightarrow> wrapper \<Rightarrow> (u64 \<times> wrapper) res" where
  "withdraw_all fx now w =
     bindR (claim_emissions fx (as_u64 now) w) (\<lambda>(bal, bank).
     bindR (get_asset_amount fx bank (asset_shares bal)) (\<lambda>current_asset_amount.
     bindR (get_liability_amount fx bank (liability_shares bal)) (\<lambda>current_liability_amount.
     bindR (check (is_positive_with_tolerance current_asset_amount (ZERO_AMOUNT_THRESHOLD fx))
              NoAssetFound) (\<lambda>_.
     bindR (check_zero fx current_liability_amount NoAssetFound) (\<lambda>_.
     bindR (bal_close True bal) (\<lambda>bal1.
     bindR (unwrap (op_neg fx (asset_shares bal))) (\<lambda>minus_shares.
     bindR (change_asset_shares fx minus_shares False (decrement_lending_position_count bank))
       (\<lambda>bank1.
     bindR (check_utilization_ratio fx bank1) (\<lambda>_.
     bindR (math (checked_floor fx current_asset_amount)) (\<lambda>spl_withdraw_amount.
     bindR (math (checked_sub fx current_asset_amount spl_withdraw_amount)) (\<lambda>dust.
     bindR (math (checked_add fx dust (collected_insurance_fees_outstanding bank1))) (\<lambda>fees.
     bindR (math (checked_to_u64 fx spl_withdraw_amount)) (\<lambda>n.
     Inr (n, bal1, bank1\<lparr>collected_insurance_fees_outstanding := fees\<rparr>))))))))))))))"

definition repay_all :: "fixed_ops \<Rightarrow> i64 \<Rightarrow> wrapper \<Rightarrow> (u64 \<times> wrapper) res" where
  "repay_all fx now w =
     bindR (claim_emissions fx (as_u64 now) w) (\<lambda>(bal, bank).
     bindR (get_liability_amount fx bank (liability_shares bal)) (\<lambda>current_liability_amount.
     bindR (get_asset_amount fx bank (asset_shares bal)) (\<lambda>current_asset_amount.
     bindR (check (is_positive_with_tolerance current_liability_amount (ZERO_AMOUNT_THRESHOLD fx))
              NoLiabilityFound) (\<lambda>_.
     bindR (check_zero fx current_asset_amount NoLiabilityFound) (\<lambda>_.
     bindR (bal_close True bal) (\<lambda>bal1.
     bindR (unwrap (op_neg fx (liability_shares bal))) (\<lambda>minus_shares.
     bindR (change_liability_shares fx minus_shares False (decrement_borrowing_position_count bank))
       (\<lambda>bank1.
     bindR (math (checked_ceil fx current_liability_amount)) (\<lambda>spl_deposit_amount.
     bindR (math (checked_sub fx spl_deposit_amount current_liability_amount)) (\<lambda>dust.
     bindR (math (checked_add fx dust (collected_insurance_fees_outstanding bank1))) (\<lambda>fees.
     bindR (math (checked_to_u64 fx spl_deposit_amount)) (\<lambda>n.
     Inr (n, bal1, bank1\<lparr>collected_insurance_fees_outstanding := fees\<rparr>)))))))))))))"

definition close_balance :: "fixed_ops \<Rightarrow> i64 \<Rightarrow> wrapper \<Rightarrow> wrapper res" where
  "close_balance fx now w =
     bindR (claim_emissions fx (as_u64 now) w) (\<lambda>(bal, bank).
     bindR (get_liability_amount fx bank (liability_shares bal)) (\<lambda>current_liability_amount.
     bindR (get_asset_amount fx bank (asset_shares bal)) (\<lambda>current_asset_amount.
     bindR (check_zero fx current_liability_amount IllegalBalanceState) (\<lambda>_.
     bindR (check_zero fx current_asset_amount IllegalBalanceState) (\<lambda>_.
     bindR (bal_close True bal) (\<lambda>bal1. Inr (bal1, bank)))))))"

end
