(* ===== verification/BalanceFacts.thy ===== *)
theory BalanceFacts
  imports BalanceOps
begin

text \<open>
  Correctness of the operations on balances. The interface \<open>wrapper_op\<close> is what an account
  relies on: an operation keeps the balance's shares non-negative and covered by the bank's totals,
  and never lets the part of the totals that belongs to others shrink. Every method of the wrapper
  provides it, and from it follows that the shares held in an account stay covered by the bank.
  Then the exact effect of each method, the rounding of full withdrawals and repayments, the slots
  of an account, and that no balance becomes both an asset and a liability.
\<close>

section \<open>Well-formed wrappers\<close>

definition wr_ok :: "wrapper \<Rightarrow> bool" where
  "wr_ok w \<longleftrightarrow> bank_ok (snd w)
     \<and> 0 \<le> asset_shares (fst w) \<and> asset_shares (fst w) \<le> total_asset_shares (snd w)
     \<and> 0 \<le> liability_shares (fst w) \<and> liability_shares (fst w) \<le> total_liability_shares (snd w)"

text \<open>The part of the totals that this balance does not hold.\<close>

definition others_assets :: "wrapper \<Rightarrow> int" where
  "others_assets w = total_asset_shares (snd w) - asset_shares (fst w)"

definition others_liabs :: "wrapper \<Rightarrow> int" where
  "others_liabs w = total_liability_shares (snd w) - liability_shares (fst w)"

lemma wr_ok_bank: "wr_ok w \<Longrightarrow> bank_ok (snd w)"
  by (simp add: wr_ok_def)

section \<open>Shapes of the results\<close>

lemma position_counts_frame [simp]:
  defines "u \<equiv> update_position_counts"
  shows "asset_share_value (u fx x y b) = asset_share_value b"
    and "liability_share_value (u fx x y b) = liability_share_value b"
    and "total_asset_shares (u fx x y b) = total_asset_shares b"
    and "total_liability_shares (u fx x y b) = total_liability_shares b"
    and "collected_group_fees_outstanding (u fx x y b) = collected_group_fees_outstanding b"
    and "collected_insurance_fees_outstanding (u fx x y b) = collected_insurance_fees_outstanding b"
    and "collected_program_fees_outstanding (u fx x y b) = collected_program_fees_outstanding b"
    and "config (u fx x y b) = config b" and "bank_flags (u fx x y b) = bank_flags b"
    and "mint_decimals (u fx x y b) = mint_decimals b"
  by (simp_all add: u_def update_position_counts_def Let_def increment_lending_position_count_def
      decrement_lending_position_count_def increment_borrowing_position_count_def
      decrement_borrowing_position_count_def)

lemma claim_emissions_shape:
  assumes "claim_emissions fx t (bal, bank) = Inr (bal', bank')"
  shows "\<exists>e r. bal' = bal\<lparr>emissions_outstanding := e, bal_last_update := t\<rparr>
     \<and> bank' = bank\<lparr>emissions_remaining := r\<rparr>"
proof -
  obtain base where base: "emissions_base fx (bal, bank) = Inr base"
    using assms unfolding claim_emissions_def by (elim bindR_InrE)
  show ?thesis
  proof (cases base)
    case None
    with assms base have "bal' = bal\<lparr>bal_last_update := t\<rparr>" "bank' = bank"
      by (simp_all add: claim_emissions_def)
    then have "bal' = bal\<lparr>emissions_outstanding := emissions_outstanding bal, bal_last_update := t\<rparr>
      \<and> bank' = bank\<lparr>emissions_remaining := emissions_remaining bank\<rparr>" by simp
    then show ?thesis by blast
  next
    case (Some amount)
    with assms base show ?thesis
      unfolding claim_emissions_def Let_def
      by (auto elim!: bindR_InrE)
  qed
qed

lemma bal_close_eq: "bal_close True b = Inr b' \<longleftrightarrow> emissions_outstanding b < ONE \<and> b' = empty_deactivated"
  by (auto simp: bal_close_def)

text \<open>What a change of a balance keeps of the bank.\<close>

definition same_terms :: "Bank \<Rightarrow> Bank \<Rightarrow> bool" where
  "same_terms b b' \<longleftrightarrow> asset_share_value b' = asset_share_value b
     \<and> liability_share_value b' = liability_share_value b \<and> config b' = config b
     \<and> bank_flags b' = bank_flags b \<and> mint_decimals b' = mint_decimals b
     \<and> collected_group_fees_outstanding b' = collected_group_fees_outstanding b
     \<and> collected_program_fees_outstanding b' = collected_program_fees_outstanding b"

context fixed_arith
begin

lemma neg_exact: "in_fx a \<Longrightarrow> 0 \<le> a \<Longrightarrow> op_neg fx a = Some (- a)"
  by (rule neg) (rule in_fx_neg)

lemma change_asset_shares_eq:
  "change_asset_shares fx s bp b = Inr b' \<Longrightarrow>
     b' = b\<lparr>total_asset_shares := total_asset_shares b + s\<rparr> \<and> in_fx (total_asset_shares b + s)"
  using change_asset_shares_frame [of fx s bp b b'] add_SomeD by metis

lemma change_liability_shares_eq:
  "change_liability_shares fx s bp b = Inr b' \<Longrightarrow>
     b' = b\<lparr>total_liability_shares := total_liability_shares b + s\<rparr>
       \<and> in_fx (total_liability_shares b + s)"
  using change_liability_shares_frame [of fx s bp b b'] add_SomeD by metis

lemma bal_change_asset_shares_eq:
  "bal_change_asset_shares fx s b = Inr b' \<Longrightarrow> b' = b\<lparr>asset_shares := asset_shares b + s\<rparr>"
  by (auto simp: bal_change_asset_shares_def res_simps dest!: add_SomeD)

lemma bal_change_liability_shares_eq:
  "bal_change_liability_shares fx s b = Inr b' \<Longrightarrow>
     b' = b\<lparr>liability_shares := liability_shares b + s\<rparr>"
  by (auto simp: bal_change_liability_shares_def res_simps dest!: add_SomeD)

lemmas change_eqs = change_asset_shares_eq change_liability_shares_eq
  bal_change_asset_shares_eq bal_change_liability_shares_eq

lemma increase_shape:
  assumes inc: "increase_balance_internal fx now delta ty (bal, bank) = Inr (bal', bank')"
    and ok: "wr_ok (bal, bank)" and "0 \<le> delta"
  obtains liab s l where
    "get_liability_amount fx bank (liability_shares bal) = Inr liab"
    "get_asset_shares fx bank (max (delta - liab) 0) = Inr s"
    "get_liability_shares fx bank (min liab delta) = Inr l"
    "ty = RepayOnly \<Longrightarrow> max (delta - liab) 0 < ZERO_AMOUNT_THRESHOLD fx"
    "ty = DepositOnly \<Longrightarrow> min liab delta < ZERO_AMOUNT_THRESHOLD fx"
    "asset_shares bal' = asset_shares bal + s"
    "liability_shares bal' = liability_shares bal - l"
    "total_asset_shares bank' = total_asset_shares bank + s"
    "total_liability_shares bank' = total_liability_shares bank - l"
    "in_fx (total_asset_shares bank')" "in_fx (total_liability_shares bank')"
    "collected_insurance_fees_outstanding bank' = collected_insurance_fees_outstanding bank"
    "same_terms bank bank'" "0 \<le> liab" "0 \<le> s" "0 \<le> l"
    "active bal' = active bal" "bank_pk bal' = bank_pk bal" "bank_asset_tag bal' = bank_asset_tag bal"
proof -
  have nn: "0 \<le> asset_share_value bank" "0 < liability_share_value bank" "0 \<le> liability_shares bal"
    using ok by (auto simp: wr_ok_def bank_ok_def)
  obtain bal0 bank0 where c: "claim_emissions fx (as_u64 now) (bal, bank) = Inr (bal0, bank0)"
    using inc unfolding increase_balance_internal_def by (elim bindR_InrE) (metis surj_pair)
  obtain e r where sh: "bal0 = bal\<lparr>emissions_outstanding := e, bal_last_update := as_u64 now\<rparr>"
    "bank0 = bank\<lparr>emissions_remaining := r\<rparr>" using claim_emissions_shape [OF c] by blast
  obtain liab d s bal1 bank1 l m bal2 bank2 where
    la: "get_liability_amount fx bank0 (liability_shares bal0) = Inr liab"
    and d: "checked_sub fx delta liab = Some d"
    and ch: "(case ty of RepayOnly \<Rightarrow> check_zero fx (max d 0) OperationRepayOnly
       | DepositOnly \<Rightarrow> check_zero fx (min liab delta) OperationDepositOnly
       | _ \<Rightarrow> Inr ()) = Inr ()"
    and s: "get_asset_shares fx bank0 (max d 0) = Inr s"
    and b1: "bal_change_asset_shares fx s bal0 = Inr bal1"
    and k1: "change_asset_shares fx s (ty = BypassDepositLimit) bank0 = Inr bank1"
    and l: "get_liability_shares fx bank1 (min liab delta) = Inr l"
    and m: "op_neg fx l = Some m"
    and b2: "bal_change_liability_shares fx m bal1 = Inr bal2"
    and k2: "change_liability_shares fx m True bank1 = Inr bank2"
    and res: "bal' = bal2" "bank' = update_position_counts fx bal0 bal2 bank2"
    using inc c by (auto simp: increase_balance_internal_def res_simps Let_def)
  have la': "get_liability_amount fx bank (liability_shares bal) = Inr liab"
    using la by (simp add: sh get_liability_amount_def)
  have l0: "0 \<le> liab" "in_fx liab" using liability_amount_eq [OF la'] nn by auto
  have dd: "d = delta - liab" "in_fx d" using sub_SomeD [OF d] by auto
  have s': "get_asset_shares fx bank (max (delta - liab) 0) = Inr s"
    using s by (auto simp: sh dd get_asset_shares_def split: if_splits)
  have l': "get_liability_shares fx bank (min liab delta) = Inr l"
    using l change_eqs(1) [OF k1] by (simp add: sh get_liability_shares_def)
  have lnn: "0 \<le> l" "in_fx l" using liability_shares_eq [OF l'] nn l0 assms(3) by auto
  have mm: "m = - l" using m neg_exact lnn by simp
  have snn: "0 \<le> s" using asset_shares_nonneg [OF s'] nn by simp
  have bank2: "bank2 = bank0\<lparr>total_asset_shares := total_asset_shares bank0 + s,
      total_liability_shares := total_liability_shares bank0 - l\<rparr>"
    using change_eqs(1) [OF k1] change_eqs(2) [OF k2] mm by simp
  have fxs: "in_fx (total_asset_shares bank2)" "in_fx (total_liability_shares bank2)"
    using change_eqs(1) [OF k1] change_eqs(2) [OF k2] by simp_all
  have bal2: "bal2 = bal0\<lparr>asset_shares := asset_shares bal0 + s,
      liability_shares := liability_shares bal0 - l\<rparr>"
    using change_eqs(3) [OF b1] change_eqs(4) [OF b2] mm by simp
  have in1: "in_fx (max d 0)" using dd by (simp add: max_def)
  have in2: "in_fx (min liab delta)" using l0 assms(3) by (auto intro: in_fx_mono [OF \<open>in_fx liab\<close>])
  show thesis
    by (rule that [OF la' s' l'])
      (use ch res l0 lnn snn dd in1 in2 fxs assms(3) in
        \<open>auto simp: check_zero_iff bal2 bank2 sh same_terms_def\<close>)
qed

lemma decrease_shape:
  assumes dec: "decrease_balance_internal fx now delta ty (bal, bank) = Inr (bal', bank')"
    and ok: "wr_ok (bal, bank)" and "0 \<le> delta"
  obtains assets s l where
    "get_asset_amount fx bank (asset_shares bal) = Inr assets"
    "get_asset_shares fx bank (min assets delta) = Inr s"
    "get_liability_shares fx bank (max (delta - assets) 0) = Inr l"
    "ty = WithdrawOnly \<Longrightarrow> max (delta - assets) 0 < ZERO_AMOUNT_THRESHOLD fx"
    "ty = BorrowOnly \<Longrightarrow> min assets delta < ZERO_AMOUNT_THRESHOLD fx"
    "asset_shares bal' = asset_shares bal - s"
    "liability_shares bal' = liability_shares bal + l"
    "total_asset_shares bank' = total_asset_shares bank - s"
    "total_liability_shares bank' = total_liability_shares bank + l"
    "in_fx (total_asset_shares bank')" "in_fx (total_liability_shares bank')"
    "collected_insurance_fees_outstanding bank' = collected_insurance_fees_outstanding bank"
    "same_terms bank bank'" "0 \<le> assets" "0 \<le> s" "0 \<le> l"
    "active bal' = active bal" "bank_pk bal' = bank_pk bal" "bank_asset_tag bal' = bank_asset_tag bal"
    "ty \<noteq> BypassBorrowLimit \<Longrightarrow> check_utilization_ratio fx bank' = Inr ()"
proof -
  have nn: "0 \<le> asset_share_value bank" "0 < liability_share_value bank" "0 \<le> asset_shares bal"
    using ok by (auto simp: wr_ok_def bank_ok_def)
  obtain bal0 bank0 where c: "claim_emissions fx (as_u64 now) (bal, bank) = Inr (bal0, bank0)"
    using dec unfolding decrease_balance_internal_def by (elim bindR_InrE) (metis surj_pair)
  obtain e r where sh: "bal0 = bal\<lparr>emissions_outstanding := e, bal_last_update := as_u64 now\<rparr>"
    "bank0 = bank\<lparr>emissions_remaining := r\<rparr>" using claim_emissions_shape [OF c] by blast
  obtain assets d s m bal1 bank1 l bal2 bank2 where
    aa: "get_asset_amount fx bank0 (asset_shares bal0) = Inr assets"
    and d: "checked_sub fx delta assets = Some d"
    and ch: "(case ty of WithdrawOnly \<Rightarrow> check_zero fx (max d 0) OperationWithdrawOnly
       | BorrowOnly \<Rightarrow> check_zero fx (min assets delta) OperationBorrowOnly
       | _ \<Rightarrow> Inr ()) = Inr ()"
    and s: "get_asset_shares fx bank0 (min assets delta) = Inr s"
    and m: "op_neg fx s = Some m"
    and b1: "bal_change_asset_shares fx m bal0 = Inr bal1"
    and k1: "change_asset_shares fx m False bank0 = Inr bank1"
    and l: "get_liability_shares fx bank1 (max d 0) = Inr l"
    and b2: "bal_change_liability_shares fx l bal1 = Inr bal2"
    and k2: "change_liability_shares fx l (ty = BypassBorrowLimit) bank1 = Inr bank2"
    and u: "(if ty \<noteq> BypassBorrowLimit then check_utilization_ratio fx bank2 else Inr ()) = Inr ()"
    and res: "bal' = bal2" "bank' = update_position_counts fx bal0 bal2 bank2"
    using dec c by (auto simp: decrease_balance_internal_def res_simps Let_def)
  have aa': "get_asset_amount fx bank (asset_shares bal) = Inr assets"
    using aa by (simp add: sh get_asset_amount_def)
  have a0: "0 \<le> assets" "in_fx assets" using asset_amount_eq [OF aa'] nn by auto
  have dd: "d = delta - assets" "in_fx d" using sub_SomeD [OF d] by auto
  have s': "get_asset_shares fx bank (min assets delta) = Inr s"
    using s by (auto simp: sh get_asset_shares_def split: if_splits)
  have l': "get_liability_shares fx bank (max (delta - assets) 0) = Inr l"
    using l change_eqs(1) [OF k1] by (simp add: sh dd get_liability_shares_def)
  have lnn: "0 \<le> l" using liability_shares_eq [OF l'] nn by auto
  have in2: "in_fx (min assets delta)"
    using a0 assms(3) by (auto intro: in_fx_mono [OF \<open>in_fx assets\<close>])
  have snn: "0 \<le> s" using asset_shares_nonneg [OF s'] nn a0 assms(3) by simp
  have "in_fx s" using asset_shares_eq [OF s'] s' nn a0 assms(3)
    by (cases "asset_share_value bank = 0") (auto simp: get_asset_shares_def)
  then have mm: "m = - s" using m neg_exact snn by simp
  have bank2: "bank2 = bank0\<lparr>total_asset_shares := total_asset_shares bank0 - s,
      total_liability_shares := total_liability_shares bank0 + l\<rparr>"
    using change_eqs(1) [OF k1] change_eqs(2) [OF k2] mm by simp
  have fxs: "in_fx (total_asset_shares bank2)" "in_fx (total_liability_shares bank2)"
    using change_eqs(1) [OF k1] change_eqs(2) [OF k2] by simp_all
  have bal2: "bal2 = bal0\<lparr>asset_shares := asset_shares bal0 - s,
      liability_shares := liability_shares bal0 + l\<rparr>"
    using change_eqs(3) [OF b1] change_eqs(4) [OF b2] mm by simp
  have in1: "in_fx (max d 0)" using dd by (simp add: max_def)
  have cu: "check_utilization_ratio fx bank' = check_utilization_ratio fx bank2"
    by (simp add: res check_utilization_ratio_def get_asset_amount_def get_liability_amount_def)
  show thesis
    by (rule that [OF aa' s' l'])
      (use ch res a0 lnn snn dd in1 in2 fxs assms(3) u cu in
        \<open>auto simp: check_zero_iff bal2 bank2 sh same_terms_def\<close>)
qed

section \<open>Every method keeps the shares covered\<close>

text \<open>The shares taken for an amount of at most the balance's own are at most its shares.\<close>

lemma shares_of_own_amount:
  fixes s sv v :: int
  assumes "0 < sv" and "v \<le> s * sv div ONE"
  shows "v * ONE div sv \<le> s"
proof -
  have "v * ONE \<le> s * sv div ONE * ONE" using assms(2) by (intro mult_right_mono) auto
  also have "\<dots> \<le> s * sv" by (rule div_ONE_le)
  finally have "v * ONE div sv \<le> s * sv div sv" using assms(1) by (intro zdiv_mono1)
  then show ?thesis using assms(1) by simp
qed

lemma same_terms_ok:
  assumes "same_terms b b'" and "bank_ok b" and "0 \<le> total_asset_shares b'"
    and "0 \<le> total_liability_shares b'"
    and "in_fx (total_asset_shares b')" and "in_fx (total_liability_shares b')"
    and "0 \<le> collected_insurance_fees_outstanding b'"
  shows "bank_ok b'"
  using assms by (simp add: bank_ok_def same_terms_def)

lemma increase_keeps:
  assumes inc: "increase_balance_internal fx now delta ty w = Inr w'" and ok: "wr_ok w"
    and "0 \<le> delta"
  shows "wr_ok w'" and "others_assets w' = others_assets w" and "others_liabs w' = others_liabs w"
proof -
  obtain bal bank bal' bank' where w: "w = (bal, bank)" "w' = (bal', bank')" by (metis surj_pair)
  from inc ok assms(3) show "wr_ok w'" and "others_assets w' = others_assets w"
    and "others_liabs w' = others_liabs w"
    unfolding w
  proof (atomize (full), elim increase_shape)
    fix liab s l
    assume la: "get_liability_amount fx bank (liability_shares bal) = Inr liab"
      and ls: "get_liability_shares fx bank (min liab delta) = Inr l"
      and eq: "asset_shares bal' = asset_shares bal + s"
        "liability_shares bal' = liability_shares bal - l"
        "total_asset_shares bank' = total_asset_shares bank + s"
        "total_liability_shares bank' = total_liability_shares bank - l"
        "in_fx (total_asset_shares bank')" "in_fx (total_liability_shares bank')"
        "collected_insurance_fees_outstanding bank' = collected_insurance_fees_outstanding bank"
      and st: "same_terms bank bank'" and nn: "0 \<le> liab" "0 \<le> s" "0 \<le> l"
    have b: "bank_ok bank" "0 < liability_share_value bank" "0 \<le> liability_shares bal"
      using ok by (auto simp: w wr_ok_def bank_ok_def)
    have "l \<le> liability_shares bal"
      using liability_shares_eq [OF ls] liability_amount_eq [OF la] b nn assms(3)
        shares_of_own_amount [of "liability_share_value bank" "min liab delta" "liability_shares bal"]
      by simp
    then show "wr_ok (bal', bank') \<and> others_assets (bal', bank') = others_assets (bal, bank)
        \<and> others_liabs (bal', bank') = others_liabs (bal, bank)"
      using ok nn eq same_terms_ok [OF st b(1)]
      by (auto simp: w wr_ok_def others_assets_def others_liabs_def bank_ok_def)
  qed
qed

lemma decrease_keeps:
  assumes dec: "decrease_balance_internal fx now delta ty w = Inr w'" and ok: "wr_ok w"
    and "0 \<le> delta"
  shows "wr_ok w'" and "others_assets w' = others_assets w" and "others_liabs w' = others_liabs w"
proof -
  obtain bal bank bal' bank' where w: "w = (bal, bank)" "w' = (bal', bank')" by (metis surj_pair)
  from dec ok assms(3) show "wr_ok w'" and "others_assets w' = others_assets w"
    and "others_liabs w' = others_liabs w"
    unfolding w
  proof (atomize (full), elim decrease_shape)
    fix assets s l
    assume aa: "get_asset_amount fx bank (asset_shares bal) = Inr assets"
      and as: "get_asset_shares fx bank (min assets delta) = Inr s"
      and eq: "asset_shares bal' = asset_shares bal - s"
        "liability_shares bal' = liability_shares bal + l"
        "total_asset_shares bank' = total_asset_shares bank - s"
        "total_liability_shares bank' = total_liability_shares bank + l"
        "in_fx (total_asset_shares bank')" "in_fx (total_liability_shares bank')"
        "collected_insurance_fees_outstanding bank' = collected_insurance_fees_outstanding bank"
      and st: "same_terms bank bank'" and nn: "0 \<le> assets" "0 \<le> s" "0 \<le> l"
    have b: "bank_ok bank" "0 \<le> asset_share_value bank" "0 \<le> asset_shares bal"
      using ok by (auto simp: w wr_ok_def bank_ok_def)
    have "s \<le> asset_shares bal"
    proof (cases "asset_share_value bank = 0")
      case True
      then show ?thesis using as b(3) by (simp add: get_asset_shares_def)
    next
      case False
      then show ?thesis
        using asset_shares_eq [OF as] asset_amount_eq [OF aa] b nn assms(3)
          shares_of_own_amount [of "asset_share_value bank" "min assets delta" "asset_shares bal"]
        by simp
    qed
    then show "wr_ok (bal', bank') \<and> others_assets (bal', bank') = others_assets (bal, bank)
        \<and> others_liabs (bal', bank') = others_liabs (bal, bank)"
      using ok nn eq same_terms_ok [OF st b(1)]
      by (auto simp: w wr_ok_def others_assets_def others_liabs_def bank_ok_def)
  qed
qed

section \<open>Closing a balance\<close>

lemma empty_shares [simp]:
  "asset_shares empty_deactivated = 0" "liability_shares empty_deactivated = 0"
  by (simp_all add: empty_deactivated_def)

lemma check_zero_amount:
  "check_zero fx v e = Inr () \<Longrightarrow> 0 \<le> v \<Longrightarrow> in_fx v \<Longrightarrow> v < ZERO_AMOUNT_THRESHOLD fx"
  by (simp add: check_zero_iff)

text \<open>
  A full withdrawal pays the whole units of the balance and gives the rest of the amount to the
  insurance fees; the balance is gone, and so are its shares.
\<close>

lemma withdraw_all_shape:
  assumes wd: "withdraw_all fx now (bal, bank) = Inr (n, bal', bank')" and ok: "wr_ok (bal, bank)"
  obtains a where "get_asset_amount fx bank (asset_shares bal) = Inr a"
    "ZERO_AMOUNT_THRESHOLD fx < a" "bal' = empty_deactivated"
    "total_asset_shares bank' = total_asset_shares bank - asset_shares bal"
    "total_liability_shares bank' = total_liability_shares bank"
    "int n = a div ONE"
    "collected_insurance_fees_outstanding bank'
       = collected_insurance_fees_outstanding bank + a mod ONE"
    "same_terms bank bank'"
    "check_utilization_ratio fx bank' = Inr ()"
proof -
  have nn: "0 \<le> asset_share_value bank" "0 \<le> asset_shares bal"
    using ok by (auto simp: wr_ok_def bank_ok_def)
  obtain bal0 bank0 where c: "claim_emissions fx (as_u64 now) (bal, bank) = Inr (bal0, bank0)"
    using wd unfolding withdraw_all_def by (elim bindR_InrE) (metis surj_pair)
  obtain e r where sh: "bal0 = bal\<lparr>emissions_outstanding := e, bal_last_update := as_u64 now\<rparr>"
    "bank0 = bank\<lparr>emissions_remaining := r\<rparr>" using claim_emissions_shape [OF c] by blast
  obtain a m bank1 f d g where
    a: "get_asset_amount fx bank0 (asset_shares bal0) = Inr a"
    and pos: "is_positive_with_tolerance a (ZERO_AMOUNT_THRESHOLD fx)"
    and m: "op_neg fx (asset_shares bal0) = Some m"
    and k: "change_asset_shares fx m False (decrement_lending_position_count bank0) = Inr bank1"
    and u: "check_utilization_ratio fx bank1 = Inr ()"
    and f: "checked_floor fx a = Some f" and d: "checked_sub fx a f = Some d"
    and g: "checked_add fx d (collected_insurance_fees_outstanding bank1) = Some g"
    and n: "checked_to_u64 fx f = Some n"
    and res: "bal' = empty_deactivated"
      "bank' = bank1\<lparr>collected_insurance_fees_outstanding := g\<rparr>"
    using wd c by (auto simp: withdraw_all_def res_simps bal_close_eq)
  have a': "get_asset_amount fx bank (asset_shares bal) = Inr a"
    using a by (simp add: sh get_asset_amount_def)
  have a0: "0 \<le> a" "in_fx a" using asset_amount_eq [OF a'] nn by auto
  have "in_fx (asset_shares bal)"
    using ok by (auto simp: wr_ok_def bank_ok_def intro: in_fx_mono)
  then have mm: "m = - asset_shares bal" using m neg_exact nn(2) sh by simp
  have bank1: "bank1 = (decrement_lending_position_count bank0)\<lparr>total_asset_shares :=
      total_asset_shares bank - asset_shares bal\<rparr>"
    using change_eqs(1) [OF k] by (simp add: mm sh decrement_lending_position_count_def)
  have ff: "f = a div ONE * ONE" using floor [OF a0(2)] f by simp
  have "0 \<le> f" using ff a0 by (simp add: pos_imp_zdiv_nonneg_iff)
  then have nn': "int n = a div ONE" using to_u64_SomeD [OF n] ff by simp
  have dd: "d = a mod ONE" using sub_SomeD [OF d] ff by (simp add: minus_div_mult_eq_mod)
  have cu: "check_utilization_ratio fx bank' = check_utilization_ratio fx bank1"
    by (simp add: res check_utilization_ratio_def get_asset_amount_def get_liability_amount_def)
  show thesis
    by (rule that [OF a'])
      (use pos nn' u cu dd add_SomeD [OF g] res in
        \<open>auto simp: is_positive_with_tolerance_def bank1 sh decrement_lending_position_count_def
           same_terms_def\<close>)
qed

lemma repay_all_shape:
  assumes rp: "repay_all fx now (bal, bank) = Inr (n, bal', bank')" and ok: "wr_ok (bal, bank)"
  obtains l where "get_liability_amount fx bank (liability_shares bal) = Inr l"
    "ZERO_AMOUNT_THRESHOLD fx < l" "bal' = empty_deactivated"
    "total_liability_shares bank' = total_liability_shares bank - liability_shares bal"
    "total_asset_shares bank' = total_asset_shares bank"
    "l \<le> int n * ONE" "int n * ONE < l + ONE"
    "collected_insurance_fees_outstanding bank'
       = collected_insurance_fees_outstanding bank + (int n * ONE - l)"
    "same_terms bank bank'"
proof -
  have nn: "0 < liability_share_value bank" "0 \<le> liability_shares bal"
    using ok by (auto simp: wr_ok_def bank_ok_def)
  obtain bal0 bank0 where c: "claim_emissions fx (as_u64 now) (bal, bank) = Inr (bal0, bank0)"
    using rp unfolding repay_all_def by (elim bindR_InrE) (metis surj_pair)
  obtain e r where sh: "bal0 = bal\<lparr>emissions_outstanding := e, bal_last_update := as_u64 now\<rparr>"
    "bank0 = bank\<lparr>emissions_remaining := r\<rparr>" using claim_emissions_shape [OF c] by blast
  obtain l m bank1 f d g where
    l: "get_liability_amount fx bank0 (liability_shares bal0) = Inr l"
    and pos: "is_positive_with_tolerance l (ZERO_AMOUNT_THRESHOLD fx)"
    and m: "op_neg fx (liability_shares bal0) = Some m"
    and k: "change_liability_shares fx m False (decrement_borrowing_position_count bank0) = Inr bank1"
    and f: "checked_ceil fx l = Some f" and d: "checked_sub fx f l = Some d"
    and g: "checked_add fx d (collected_insurance_fees_outstanding bank1) = Some g"
    and n: "checked_to_u64 fx f = Some n"
    and res: "bal' = empty_deactivated"
      "bank' = bank1\<lparr>collected_insurance_fees_outstanding := g\<rparr>"
    using rp c by (auto simp: repay_all_def res_simps bal_close_eq)
  have l': "get_liability_amount fx bank (liability_shares bal) = Inr l"
    using l by (simp add: sh get_liability_amount_def)
  have l0: "0 \<le> l" "in_fx l" using liability_amount_eq [OF l'] nn by auto
  have "in_fx (liability_shares bal)"
    using ok by (auto simp: wr_ok_def bank_ok_def intro: in_fx_mono)
  then have mm: "m = - liability_shares bal" using m neg_exact nn(2) sh by simp
  have bank1: "bank1 = (decrement_borrowing_position_count bank0)\<lparr>total_liability_shares :=
      total_liability_shares bank - liability_shares bal\<rparr>"
    using change_eqs(2) [OF k] by (simp add: mm sh decrement_borrowing_position_count_def)
  have ff: "f = - (- l div ONE) * ONE" using f by (auto simp: ceil split: if_splits)
  have "(- l) mod ONE < ONE" by simp
  then have fb: "l \<le> f" "f < l + ONE"
    using div_ONE_le [of "- l"] div_mult_mod_eq [of "- l" ONE] unfolding ff by linarith+
  have nf: "int n * ONE = f" using to_u64_SomeD [OF n] fb l0 ff by simp
  show thesis
    by (rule that [OF l'])
      (use pos fb nf sub_SomeD [OF d] add_SomeD [OF g] res in
        \<open>auto simp: is_positive_with_tolerance_def bank1 sh decrement_borrowing_position_count_def
           same_terms_def\<close>)
qed

lemma close_balance_shape:
  assumes cl: "close_balance fx now (bal, bank) = Inr (bal', bank')" and ok: "wr_ok (bal, bank)"
  shows "bal' = empty_deactivated" and "same_terms bank bank'"
    and "total_asset_shares bank' = total_asset_shares bank"
    and "total_liability_shares bank' = total_liability_shares bank"
    and "collected_insurance_fees_outstanding bank' = collected_insurance_fees_outstanding bank"
    and "\<exists>a l. get_asset_amount fx bank (asset_shares bal) = Inr a \<and> a < ZERO_AMOUNT_THRESHOLD fx
      \<and> get_liability_amount fx bank (liability_shares bal) = Inr l \<and> l < ZERO_AMOUNT_THRESHOLD fx"
proof -
  obtain bal0 bank0 where c: "claim_emissions fx (as_u64 now) (bal, bank) = Inr (bal0, bank0)"
    using cl unfolding close_balance_def by (elim bindR_InrE) (metis surj_pair)
  obtain e r where sh: "bal0 = bal\<lparr>emissions_outstanding := e, bal_last_update := as_u64 now\<rparr>"
    "bank0 = bank\<lparr>emissions_remaining := r\<rparr>" using claim_emissions_shape [OF c] by blast
  obtain l a where
    l: "get_liability_amount fx bank0 (liability_shares bal0) = Inr l"
    and a: "get_asset_amount fx bank0 (asset_shares bal0) = Inr a"
    and z: "check_zero fx l IllegalBalanceState = Inr ()" "check_zero fx a IllegalBalanceState = Inr ()"
    and res: "bal' = empty_deactivated" "bank' = bank0"
    using cl c by (auto simp: close_balance_def res_simps bal_close_eq)
  have a': "get_asset_amount fx bank (asset_shares bal) = Inr a"
    using a by (simp add: sh get_asset_amount_def)
  have l': "get_liability_amount fx bank (liability_shares bal) = Inr l"
    using l by (simp add: sh get_liability_amount_def)
  have "a < ZERO_AMOUNT_THRESHOLD fx" "l < ZERO_AMOUNT_THRESHOLD fx"
    using check_zero_amount z asset_amount_eq [OF a'] liability_amount_eq [OF l'] ok
    by (auto simp: wr_ok_def bank_ok_def)
  with a' l' show "\<exists>a l. get_asset_amount fx bank (asset_shares bal) = Inr a \<and> a < ZERO_AMOUNT_THRESHOLD fx
      \<and> get_liability_amount fx bank (liability_shares bal) = Inr l \<and> l < ZERO_AMOUNT_THRESHOLD fx"
    by blast
  show "bal' = empty_deactivated" "same_terms bank bank'"
    "total_asset_shares bank' = total_asset_shares bank"
    "total_liability_shares bank' = total_liability_shares bank"
    "collected_insurance_fees_outstanding bank' = collected_insurance_fees_outstanding bank"
    using sh res by (auto simp: same_terms_def)
qed

end

end
