(* ===== verification/Ledger.thy ===== *)
theory Ledger
  imports BalanceFacts
begin

text \<open>
  The account and the bank as a ledger. The interface \<open>wrapper_op\<close> is what an account relies
  on: a method keeps the balance's shares non-negative and covered by the bank's totals, never lets
  the part of the totals that belongs to others shrink, and either keeps the balance's identity or
  empties its slot. From it follow, once for all methods, that the shares an account holds stay
  covered by the bank's totals next to any holdings elsewhere, and that the slots stay well-formed.
  Every method of the wrapper provides the interface.
\<close>

section \<open>The ledger and the slots\<close>

definition held :: "(Balance \<Rightarrow> int) \<Rightarrow> pubkey \<Rightarrow> LendingAccount \<Rightarrow> int" where
  "held f pk la = (\<Sum>b\<leftarrow>balances la. if is_active b \<and> bank_pk b = pk then f b else 0)"

text \<open>
  \<open>ra\<close> and \<open>rl\<close> are the asset and liability shares that all other accounts hold.
\<close>

definition ledger :: "pubkey \<Rightarrow> int \<Rightarrow> int \<Rightarrow> LendingAccount \<times> Bank \<Rightarrow> bool" where
  "ledger pk ra rl s \<longleftrightarrow> bank_ok (snd s) \<and> 0 \<le> ra \<and> 0 \<le> rl
   \<and> (\<forall>b \<in> set (balances (fst s)). is_active b \<and> bank_pk b = pk \<longrightarrow>
        0 \<le> asset_shares b \<and> 0 \<le> liability_shares b)
   \<and> ra + held asset_shares pk (fst s) \<le> total_asset_shares (snd s)
   \<and> rl + held liability_shares pk (fst s) \<le> total_liability_shares (snd s)"

definition unique_banks :: "LendingAccount \<Rightarrow> bool" where
  "unique_banks la \<longleftrightarrow> (\<forall>i < length (balances la). \<forall>j < length (balances la).
     is_active (balances la ! i) \<and> is_active (balances la ! j)
     \<and> bank_pk (balances la ! i) = bank_pk (balances la ! j) \<longrightarrow> i = j)"

definition slots_ok :: "LendingAccount \<Rightarrow> bool" where
  "slots_ok la \<longleftrightarrow> length (balances la) = MAX_LENDING_ACCOUNT_BALANCES \<and> unique_banks la
     \<and> integration_count la \<le> MAX_INTEGRATION_POSITIONS"

definition same_identity :: "Balance \<Rightarrow> Balance \<Rightarrow> bool" where
  "same_identity b b' \<longleftrightarrow> b' = empty_deactivated
     \<or> (active b' = active b \<and> bank_pk b' = bank_pk b \<and> bank_asset_tag b' = bank_asset_tag b)"

lemma held_update:
  assumes "i < length (balances la)"
  shows "held f pk (la\<lparr>balances := (balances la)[i := b]\<rparr>) = held f pk la
     - (if is_active (balances la ! i) \<and> bank_pk (balances la ! i) = pk then f (balances la ! i) else 0)
     + (if is_active b \<and> bank_pk b = pk then f b else 0)"
  using assms by (simp add: held_def sum_list_update)

lemma held_nonneg:
  "(\<And>b. b \<in> set (balances la) \<Longrightarrow> is_active b \<Longrightarrow> bank_pk b = pk \<Longrightarrow> 0 \<le> f b) \<Longrightarrow> 0 \<le> held f pk la"
  unfolding held_def by (intro sum_list_nonneg) auto

lemma held_ge:
  assumes "i < length (balances la)" and "is_active (balances la ! i)"
    and "bank_pk (balances la ! i) = pk"
    and "\<And>b. b \<in> set (balances la) \<Longrightarrow> is_active b \<Longrightarrow> bank_pk b = pk \<Longrightarrow> 0 \<le> f b"
  shows "f (balances la ! i) \<le> held f pk la"
proof -
  have "0 \<le> held f pk (la\<lparr>balances := (balances la)[i := empty_deactivated]\<rparr>)"
    using assms(4) by (intro held_nonneg) (auto dest!: set_update_subset_insert [THEN subsetD])
  then show ?thesis using assms(1-3) by (simp add: held_update)
qed

lemma filter_update_le:
  assumes "i < length xs" and "p y \<Longrightarrow> p (xs ! i)"
  shows "length (filter p (xs[i := y])) \<le> length (filter p xs)"
  using assms
proof (induction xs arbitrary: i)
  case (Cons x xs)
  then show ?case
  proof (cases i)
    case (Suc j)
    then show ?thesis using Cons.IH [of j] Cons.prems by auto
  qed auto
qed simp

lemma slots_ok_update:
  assumes "slots_ok la" and "i < length (balances la)" and "same_identity (balances la ! i) b"
  shows "slots_ok (la\<lparr>balances := (balances la)[i := b]\<rparr>)"
proof -
  have act: "is_active b \<Longrightarrow> is_active (balances la ! i) \<and> bank_pk b = bank_pk (balances la ! i)
      \<and> bank_asset_tag b = bank_asset_tag (balances la ! i)"
    using assms(3) by (auto simp: same_identity_def is_active_def empty_deactivated_def)
  have "length (filter (\<lambda>b. is_active b \<and> is_integration_asset_tag (bank_asset_tag b))
      ((balances la)[i := b])) \<le> integration_count la"
    unfolding integration_count_def using assms(2) act by (intro filter_update_le) auto
  then have "integration_count (la\<lparr>balances := (balances la)[i := b]\<rparr>) \<le> MAX_INTEGRATION_POSITIONS"
    using assms(1) by (simp add: integration_count_def slots_ok_def)
  moreover have "unique_banks (la\<lparr>balances := (balances la)[i := b]\<rparr>)"
    using assms(1,2) act unfolding slots_ok_def unique_banks_def
    by (simp add: nth_list_update) metis
  ultimately show ?thesis using assms(1) by (simp add: slots_ok_def)
qed

section \<open>The interface of the methods\<close>

locale wrapper_op =
  fixes enabled :: bool
    and meth :: "wrapper \<Rightarrow> ('a \<times> wrapper) res"
  assumes meth_ok: "enabled \<Longrightarrow> wr_ok w \<Longrightarrow> meth w = Inr (r, w') \<Longrightarrow> wr_ok w'"
    and meth_others: "enabled \<Longrightarrow> wr_ok w \<Longrightarrow> meth w = Inr (r, w') \<Longrightarrow>
      others_assets w \<le> others_assets w' \<and> others_liabs w \<le> others_liabs w'"
    and meth_identity: "enabled \<Longrightarrow> wr_ok w \<Longrightarrow> meth w = Inr (r, w') \<Longrightarrow>
      same_identity (fst w) (fst w')"
begin

lemma ledger_kept:
  assumes "enabled" and "at_balance i meth s = Inr (r, s')" and L: "ledger pk ra rl s"
    and i: "i < length (balances (fst s))" "is_active (balances (fst s) ! i)"
      "bank_pk (balances (fst s) ! i) = pk"
  shows "ledger pk ra rl s'"
proof -
  obtain la bank where s: "s = (la, bank)" by (cases s)
  obtain bal' bank' where op: "meth (balances la ! i, bank) = Inr (r, bal', bank')"
    and s': "s' = (la\<lparr>balances := (balances la)[i := bal']\<rparr>, bank')"
    using assms(2) by (auto simp: at_balance_def s res_simps)
  have mem: "balances la ! i \<in> set (balances la)" using i s by simp
  have nn: "0 \<le> asset_shares (balances la ! i)" "0 \<le> liability_shares (balances la ! i)"
    using L i mem by (auto simp: ledger_def s)
  have "asset_shares (balances la ! i) \<le> held asset_shares pk la"
    "liability_shares (balances la ! i) \<le> held liability_shares pk la"
    using L i by (auto intro!: held_ge simp: ledger_def s)
  then have ok: "wr_ok (balances la ! i, bank)"
    using L nn by (auto simp: wr_ok_def ledger_def s)
  note facts = meth_ok [OF assms(1) ok op] meth_others [OF assms(1) ok op]
  have id: "same_identity (balances la ! i) bal'" using meth_identity [OF assms(1) ok op] by simp
  have b': "\<not> is_active bal' \<and> bal' = empty_deactivated \<or> is_active bal' \<and> bank_pk bal' = pk"
    using id i s by (auto simp: same_identity_def is_active_def empty_deactivated_def)
  show ?thesis
    using b'
  proof
    assume e: "\<not> is_active bal' \<and> bal' = empty_deactivated"
    then show ?thesis
      using L facts i by (auto simp: ledger_def s s' held_update wr_ok_def others_assets_def
          others_liabs_def dest!: set_update_subset_insert [THEN subsetD])
  next
    assume e: "is_active bal' \<and> bank_pk bal' = pk"
    then show ?thesis
      using L facts i by (auto simp: ledger_def s s' held_update wr_ok_def others_assets_def
          others_liabs_def dest!: set_update_subset_insert [THEN subsetD])
  qed
qed

lemma slots_kept:
  assumes "enabled" and "at_balance i meth s = Inr (r, s')" and "slots_ok (fst s)"
    and "i < length (balances (fst s))" and "wr_ok (balances (fst s) ! i, snd s)"
  shows "slots_ok (fst s')"
proof -
  obtain la bank where s: "s = (la, bank)" by (cases s)
  obtain bal' bank' where op: "meth (balances la ! i, bank) = Inr (r, bal', bank')"
    and s': "s' = (la\<lparr>balances := (balances la)[i := bal']\<rparr>, bank')"
    using assms(2) by (auto simp: at_balance_def s res_simps)
  have "same_identity (balances la ! i) bal'"
    using meth_identity [OF assms(1) _ op] assms(5) by (simp add: s)
  then show ?thesis using slots_ok_update assms(3,4) by (simp add: s s')
qed

end

text \<open>A method without a result.\<close>

definition unit_meth :: "(wrapper \<Rightarrow> wrapper res) \<Rightarrow> wrapper \<Rightarrow> (unit \<times> wrapper) res" where
  "unit_meth f w = bindR (f w) (\<lambda>w'. Inr ((), w'))"

lemma unit_meth_eq [res_simps]: "unit_meth f w = Inr (u, w') \<longleftrightarrow> f w = Inr w'"
  by (cases "f w") (auto simp: unit_meth_def)

section \<open>Every method provides the interface\<close>

context fixed_arith
begin

lemma increase_identity:
  assumes "increase_balance_internal fx now delta ty w = Inr w'" and "wr_ok w" and "0 \<le> delta"
  shows "same_identity (fst w) (fst w')"
proof -
  obtain bal bank bal' bank' where w: "w = (bal, bank)" "w' = (bal', bank')" by (metis surj_pair)
  show ?thesis using increase_shape [OF assms(1,2) [unfolded w] assms(3)]
    by (simp add: w same_identity_def) metis
qed

lemma decrease_identity:
  assumes "decrease_balance_internal fx now delta ty w = Inr w'" and "wr_ok w" and "0 \<le> delta"
  shows "same_identity (fst w) (fst w')"
proof -
  obtain bal bank bal' bank' where w: "w = (bal, bank)" "w' = (bal', bank')" by (metis surj_pair)
  show ?thesis using decrease_shape [OF assms(1,2) [unfolded w] assms(3)]
    by (simp add: w same_identity_def) metis
qed

lemma withdraw_all_keeps:
  assumes "withdraw_all fx now w = Inr (n, w')" and ok: "wr_ok w"
  shows "wr_ok w'" and "others_assets w' = others_assets w"
    and "others_liabs w \<le> others_liabs w'" and "fst w' = empty_deactivated"
proof -
  obtain bal bank bal' bank' where w: "w = (bal, bank)" "w' = (bal', bank')" by (metis surj_pair)
  obtain a where r: "bal' = empty_deactivated"
    "total_asset_shares bank' = total_asset_shares bank - asset_shares bal"
    "total_liability_shares bank' = total_liability_shares bank"
    "collected_insurance_fees_outstanding bank'
       = collected_insurance_fees_outstanding bank + a mod ONE"
    "same_terms bank bank'"
    using withdraw_all_shape [OF assms [unfolded w]] by metis
  have "0 \<le> a mod ONE" by simp
  then have "bank_ok bank'"
    using r ok by (intro same_terms_ok [OF r(5)]) (auto simp: w wr_ok_def bank_ok_def intro: in_fx_mono)
  then show "wr_ok w'" and "others_assets w' = others_assets w"
    and "others_liabs w \<le> others_liabs w'" and "fst w' = empty_deactivated"
    using r ok by (auto simp: w wr_ok_def others_assets_def others_liabs_def bank_ok_def)
qed

lemma repay_all_keeps:
  assumes "repay_all fx now w = Inr (n, w')" and ok: "wr_ok w"
  shows "wr_ok w'" and "others_assets w \<le> others_assets w'"
    and "others_liabs w' = others_liabs w" and "fst w' = empty_deactivated"
proof -
  obtain bal bank bal' bank' where w: "w = (bal, bank)" "w' = (bal', bank')" by (metis surj_pair)
  obtain l where r: "bal' = empty_deactivated"
    "total_liability_shares bank' = total_liability_shares bank - liability_shares bal"
    "total_asset_shares bank' = total_asset_shares bank"
    "collected_insurance_fees_outstanding bank'
       = collected_insurance_fees_outstanding bank + (int n * ONE - l)"
    "same_terms bank bank'" "l \<le> int n * ONE"
    using repay_all_shape [OF assms [unfolded w]] by metis
  have "bank_ok bank'"
    using r ok by (intro same_terms_ok [OF r(5)]) (auto simp: w wr_ok_def bank_ok_def intro: in_fx_mono)
  then show "wr_ok w'" and "others_assets w \<le> others_assets w'"
    and "others_liabs w' = others_liabs w" and "fst w' = empty_deactivated"
    using r ok by (auto simp: w wr_ok_def others_assets_def others_liabs_def bank_ok_def)
qed

lemma close_balance_keeps:
  assumes "close_balance fx now w = Inr w'" and ok: "wr_ok w"
  shows "wr_ok w'" and "others_assets w \<le> others_assets w'"
    and "others_liabs w \<le> others_liabs w'" and "fst w' = empty_deactivated"
proof -
  obtain bal bank bal' bank' where w: "w = (bal, bank)" "w' = (bal', bank')" by (metis surj_pair)
  note r = close_balance_shape(1-5) [OF assms [unfolded w]]
  have "bank_ok bank'"
    using r ok by (intro same_terms_ok [OF r(2)]) (auto simp: w wr_ok_def bank_ok_def)
  then show "wr_ok w'" and "others_assets w \<le> others_assets w'"
    and "others_liabs w \<le> others_liabs w'" and "fst w' = empty_deactivated"
    using r ok by (auto simp: w wr_ok_def others_assets_def others_liabs_def)
qed

lemma claim_emissions_keeps:
  assumes "claim_emissions fx t w = Inr w'" and ok: "wr_ok w"
  shows "wr_ok w'" and "others_assets w' = others_assets w" and "others_liabs w' = others_liabs w"
    and "active (fst w') = active (fst w)" and "bank_pk (fst w') = bank_pk (fst w)"
    and "bank_asset_tag (fst w') = bank_asset_tag (fst w)"
proof -
  obtain bal bank bal' bank' where w: "w = (bal, bank)" "w' = (bal', bank')" by (metis surj_pair)
  show "wr_ok w'" and "others_assets w' = others_assets w" and "others_liabs w' = others_liabs w"
    and "active (fst w') = active (fst w)" and "bank_pk (fst w') = bank_pk (fst w)"
    and "bank_asset_tag (fst w') = bank_asset_tag (fst w)"
    using claim_emissions_shape [OF assms(1) [unfolded w]] ok
    by (auto simp: w wr_ok_def bank_ok_def others_assets_def others_liabs_def)
qed

lemma settle_emissions_keeps:
  assumes "settle_emissions_and_get_transfer_amount fx now w = Inr (n, w')" and ok: "wr_ok w"
  shows "wr_ok w'" and "others_assets w' = others_assets w" and "others_liabs w' = others_liabs w"
    and "same_identity (fst w) (fst w')"
proof -
  obtain bal bank x where c: "claim_emissions fx (as_u64 now) w = Inr (bal, bank)"
    and w': "w' = (bal\<lparr>emissions_outstanding := x\<rparr>, bank)"
    using assms(1) by (auto simp: settle_emissions_and_get_transfer_amount_def res_simps)
  show "wr_ok w'" and "others_assets w' = others_assets w" and "others_liabs w' = others_liabs w"
    and "same_identity (fst w) (fst w')"
    using claim_emissions_keeps [OF c ok]
    by (auto simp: w' wr_ok_def others_assets_def others_liabs_def same_identity_def)
qed

end

sublocale fixed_arith < increase: wrapper_op "0 \<le> delta"
    "unit_meth (increase_balance_internal fx now delta ty)" for now delta ty
  by unfold_locales
    (auto simp: res_simps dest: increase_keeps(2,3) intro: increase_keeps(1) increase_identity)

sublocale fixed_arith < decrease: wrapper_op "0 \<le> delta"
    "unit_meth (decrease_balance_internal fx now delta ty)" for now delta ty
  by unfold_locales
    (auto simp: res_simps dest: decrease_keeps(2,3) intro: decrease_keeps(1) decrease_identity)

sublocale fixed_arith < withdraw_all: wrapper_op True "withdraw_all fx now" for now
  by unfold_locales (auto simp: same_identity_def intro: withdraw_all_keeps dest: withdraw_all_keeps)

sublocale fixed_arith < repay_all: wrapper_op True "repay_all fx now" for now
  by unfold_locales (auto simp: same_identity_def intro: repay_all_keeps dest: repay_all_keeps)

sublocale fixed_arith < close_balance: wrapper_op True "unit_meth (close_balance fx now)" for now
  by unfold_locales
    (auto simp: same_identity_def res_simps intro: close_balance_keeps dest: close_balance_keeps)

sublocale fixed_arith < claim: wrapper_op True "unit_meth (claim_emissions fx t)" for t
  by unfold_locales (auto simp: res_simps same_identity_def dest: claim_emissions_keeps)

sublocale fixed_arith < settle: wrapper_op True "settle_emissions_and_get_transfer_amount fx now"
  for now
  by unfold_locales (auto intro: settle_emissions_keeps dest: settle_emissions_keeps)

section \<open>Creating a balance\<close>

lemma find_or_create_cases:
  assumes "find_or_create now pk bank la = Inr (i, la')"
  obtains (found) "position (\<lambda>b. is_active b \<and> bank_pk b = pk) (balances la) = Some i" "la' = la"
    | (created) "position (\<lambda>b. is_active b \<and> bank_pk b = pk) (balances la) = None"
        "is_integration_asset_tag (asset_tag (config bank)) \<Longrightarrow>
           integration_count la < MAX_INTEGRATION_POSITIONS"
        "i < length (balances la)" "\<not> is_active (balances la ! i)"
        "la' = la\<lparr>balances := (balances la)[i := new_balance pk (asset_tag (config bank)) now]\<rparr>"
proof (cases "position (\<lambda>b. is_active b \<and> bank_pk b = pk) (balances la)")
  case None
  have lim: "\<not> (is_integration_asset_tag (asset_tag (config bank))
      \<and> \<not> integration_count la < MAX_INTEGRATION_POSITIONS)"
    and e: "get_first_empty_balance la = Some i"
    and la': "la' = la\<lparr>balances := (balances la)[i := new_balance pk (asset_tag (config bank)) now]\<rparr>"
    using assms unfolding find_or_create_def None option.case if_Inl_eq_Inr bindR_eq_Inr ok_or_eq_Inr
    by simp_all
  from position_Some [OF e [unfolded get_first_empty_balance_def]]
  have i: "i < length (balances la)" "\<not> is_active (balances la ! i)" by simp_all
  show thesis
  proof (rule created [OF None _ i la'])
    assume "is_integration_asset_tag (asset_tag (config bank))"
    with lim show "integration_count la < MAX_INTEGRATION_POSITIONS" by simp
  qed
next
  case (Some j)
  with assms have "j = i" and "la' = la" by (simp_all add: find_or_create_def)
  with Some show thesis by (intro found) simp_all
qed

lemma new_balance_simps [simp]:
  "is_active (new_balance pk tag now)" "bank_pk (new_balance pk tag now) = pk"
  "bank_asset_tag (new_balance pk tag now) = tag"
  "asset_shares (new_balance pk tag now) = 0" "liability_shares (new_balance pk tag now) = 0"
  by (simp_all add: new_balance_def is_active_def)

lemma find_or_create_index:
  assumes "find_or_create now pk bank la = Inr (i, la')"
  shows "i < length (balances la')" and "is_active (balances la' ! i)"
    and "bank_pk (balances la' ! i) = pk"
  using assms
proof (atomize (full), cases rule: find_or_create_cases)
  case found
  then show "i < length (balances la') \<and> is_active (balances la' ! i) \<and> bank_pk (balances la' ! i) = pk"
    using position_Some [OF found(1)] by simp
qed auto

lemma find_or_create_slots:
  assumes "find_or_create now pk bank la = Inr (i, la')" and ok: "slots_ok la"
  shows "slots_ok la'"
  using assms(1)
proof (cases rule: find_or_create_cases)
  case created
  let ?n = "new_balance pk (asset_tag (config bank)) now"
  have none: "\<And>b. b \<in> set (balances la) \<Longrightarrow> is_active b \<Longrightarrow> bank_pk b \<noteq> pk"
    using created(1) by (simp add: position_None)
  have "integration_count la' = integration_count la
      + (if is_integration_asset_tag (asset_tag (config bank)) then 1 else 0)"
    using created(3,4) unfolding integration_count_def created(5)
    by (simp add: filter_update_length)
  then have "integration_count la' \<le> MAX_INTEGRATION_POSITIONS"
    using created(2) ok by (auto simp: slots_ok_def)
  moreover have "unique_banks la'"
  proof -
    have "pk \<noteq> bank_pk (balances la ! j) \<and> bank_pk (balances la ! j) \<noteq> pk" if "j < length (balances la)" "is_active (balances la ! j)" for j
      using none [of "balances la ! j"] that by auto
    then show ?thesis using ok created(3) unfolding created(5) slots_ok_def unique_banks_def
      by (simp add: nth_list_update)
  qed
  ultimately show ?thesis using ok by (simp add: slots_ok_def created(5))
qed (use ok in simp)

lemma find_or_create_held:
  assumes "find_or_create now pk bank la = Inr (i, la')" and "f (new_balance pk (asset_tag (config bank)) now) = 0"
  shows "held f pk' la' = held f pk' la"
  using assms(1)
proof (cases rule: find_or_create_cases)
  case created
  then show ?thesis using assms(2) by (auto simp: held_update)
qed simp

lemma find_or_create_ledger:
  assumes f: "find_or_create now pk bank la = Inr (i, la')" and "ledger pk ra rl (la, bank)"
  shows "ledger pk ra rl (la', bank)"
proof -
  have "set (balances la') \<subseteq> insert (new_balance pk (asset_tag (config bank)) now) (set (balances la))"
    using f by (cases rule: find_or_create_cases) (auto dest!: set_update_subset_insert [THEN subsetD])
  then have "b = new_balance pk (asset_tag (config bank)) now \<or> b \<in> set (balances la)"
    if "b \<in> set (balances la')" for b using that by blast
  then have "0 \<le> asset_shares b \<and> 0 \<le> liability_shares b"
    if "b \<in> set (balances la')" "is_active b" "bank_pk b = pk" for b
    using that assms(2) unfolding ledger_def fst_conv by (metis new_balance_simps(4,5) order_refl)
  then show ?thesis
    using assms(2) find_or_create_held [OF f, of asset_shares pk]
      find_or_create_held [OF f, of liability_shares pk]
    by (auto simp: ledger_def)
qed

section \<open>No balance is both an asset and a liability\<close>

lemma residual_small:
  fixes s sv :: int
  assumes "2 \<le> sv"
  shows "s - (s * sv div ONE) * ONE div sv < ONE"
proof (rule ccontr)
  let ?q = "(s * sv div ONE) * ONE div sv"
  assume "\<not> s - ?q < ONE"
  then have "ONE * sv \<le> (s - ?q) * sv" using assms by (intro mult_right_mono) auto
  moreover have "(s * sv div ONE) * ONE - sv < ?q * sv"
    using div_mult_mod_eq [of "(s * sv div ONE) * ONE" sv]
      pos_mod_bound [of sv "(s * sv div ONE) * ONE"] assms by linarith
  moreover have "s * sv - ONE < (s * sv div ONE) * ONE"
    using div_mult_mod_eq [of "s * sv" ONE] pos_mod_bound [of ONE "s * sv"] ONE_pos by linarith
  ultimately have "ONE * sv < ONE + sv" by (simp add: left_diff_distrib)
  moreover have "ONE + sv \<le> ONE * sv" using assms by (simp add: ONE_def)
  ultimately show False by simp
qed

context fixed_arith
begin

lemma increase_one_sided:
  assumes inc: "increase_balance_internal fx now delta ty w = Inr w'" and ok: "wr_ok w"
    and "0 \<le> delta" and os: "one_sided (fst w)"
    and sv: "2 \<le> asset_share_value (snd w)" "2 \<le> liability_share_value (snd w)"
  shows "one_sided (fst w')"
proof -
  obtain bal bank bal' bank' where w: "w = (bal, bank)" "w' = (bal', bank')" by (metis surj_pair)
  from inc ok assms(3) show ?thesis
    unfolding w
  proof (elim increase_shape)
    fix liab s l
    assume la: "get_liability_amount fx bank (liability_shares bal) = Inr liab"
      and as: "get_asset_shares fx bank (max (delta - liab) 0) = Inr s"
      and ls: "get_liability_shares fx bank (min liab delta) = Inr l"
      and eq: "asset_shares bal' = asset_shares bal + s"
        "liability_shares bal' = liability_shares bal - l"
      and nn: "0 \<le> liab" "0 \<le> s" "0 \<le> l"
    show "one_sided (fst (bal', bank'))"
    proof (cases "delta \<le> liab")
      case True
      then have "s = 0" using asset_shares_eq [OF as] sv by (simp add: w)
      then show ?thesis using os nn eq by (auto simp: one_sided_def w)
    next
      case False
      have "0 \<le> liability_shares bal" using ok by (simp add: wr_ok_def w)
      then have "liability_shares bal' < ONE"
        using liability_shares_eq [OF ls] liability_amount_eq [OF la] False nn sv eq
          residual_small [of "liability_share_value bank" "liability_shares bal"] by (simp add: w)
      then show ?thesis by (simp add: one_sided_def EMPTY_BALANCE_THRESHOLD_def)
    qed
  qed
qed

lemma decrease_one_sided:
  assumes dec: "decrease_balance_internal fx now delta ty w = Inr w'" and ok: "wr_ok w"
    and "0 \<le> delta" and os: "one_sided (fst w)"
    and sv: "2 \<le> asset_share_value (snd w)" "2 \<le> liability_share_value (snd w)"
  shows "one_sided (fst w')"
proof -
  obtain bal bank bal' bank' where w: "w = (bal, bank)" "w' = (bal', bank')" by (metis surj_pair)
  from dec ok assms(3) show ?thesis
    unfolding w
  proof (elim decrease_shape)
    fix assets s l
    assume aa: "get_asset_amount fx bank (asset_shares bal) = Inr assets"
      and as: "get_asset_shares fx bank (min assets delta) = Inr s"
      and ls: "get_liability_shares fx bank (max (delta - assets) 0) = Inr l"
      and eq: "asset_shares bal' = asset_shares bal - s"
        "liability_shares bal' = liability_shares bal + l"
      and nn: "0 \<le> assets" "0 \<le> s" "0 \<le> l"
    show "one_sided (fst (bal', bank'))"
    proof (cases "delta \<le> assets")
      case True
      then have "l = 0" using liability_shares_eq [OF ls] sv by (simp add: w)
      then show ?thesis using os nn eq by (auto simp: one_sided_def w)
    next
      case False
      have "0 \<le> asset_shares bal" using ok by (simp add: wr_ok_def w)
      then have "asset_shares bal' < ONE"
        using asset_shares_eq [OF as] asset_amount_eq [OF aa] False nn sv eq
          residual_small [of "asset_share_value bank" "asset_shares bal"] by (simp add: w)
      then show ?thesis by (simp add: one_sided_def EMPTY_BALANCE_THRESHOLD_def)
    qed
  qed
qed

text \<open>A deposit into a fresh balance followed by a full withdrawal pays back at most the deposit.\<close>

lemma deposit_withdraw_no_gain:
  assumes d: "deposit fx now (int d * ONE) (bal, bank) = Inr w1" and wd: "withdraw_all fx later w1 = Inr (n, w2)"
    and ok: "wr_ok (bal, bank)" and z: "asset_shares bal = 0" "liability_shares bal = 0"
  shows "n \<le> d"
proof -
  obtain bal1 bank1 where w1: "w1 = (bal1, bank1)" by (cases w1)
  have inc: "increase_balance_internal fx now (int d * ONE) DepositOnly (bal, bank) = Inr (bal1, bank1)"
    using d by (simp add: deposit_def w1)
  have d0: "0 \<le> int d * ONE" by simp
  have ok1: "wr_ok (bal1, bank1)" using increase_keeps(1) [OF inc ok d0] .
  obtain liab s where la: "get_liability_amount fx bank (liability_shares bal) = Inr liab"
    and as: "get_asset_shares fx bank (max (int d * ONE - liab) 0) = Inr s"
    and eq: "asset_shares bal1 = asset_shares bal + s" and st: "same_terms bank bank1"
    using increase_shape [OF inc ok d0] by metis
  have "liab = 0" using liability_amount_eq [OF la] z ok by (simp add: wr_ok_def bank_ok_def)
  obtain bal2 bank2 where w2: "w2 = (bal2, bank2)" by (cases w2)
  obtain a where a: "get_asset_amount fx bank1 (asset_shares bal1) = Inr a"
    and apos: "ZERO_AMOUNT_THRESHOLD fx < a" and n: "int n = a div ONE"
    using withdraw_all_shape [OF wd [unfolded w1 w2] ok1] by metis
  have sv1: "asset_share_value bank1 = asset_share_value bank" using st by (simp add: same_terms_def)
  have sv0: "0 \<le> asset_share_value bank" using ok by (simp add: wr_ok_def bank_ok_def)
  have s0: "0 \<le> asset_shares bal1" using ok1 by (simp add: wr_ok_def)
  have av: "a = asset_shares bal1 * asset_share_value bank div ONE"
    using asset_amount_eq [OF a s0] sv0 sv1 by simp
  have "asset_share_value bank \<noteq> 0" using av apos zero_amount_pos by auto
  then have pos: "0 < asset_share_value bank" using sv0 by simp
  have "asset_shares bal1 = int d * ONE * ONE div asset_share_value bank"
    using asset_shares_eq [OF as] pos \<open>liab = 0\<close> eq z by simp
  then have "a \<le> int d * ONE" using shares_round_trip(1) [OF pos, of "int d * ONE"] av by simp
  then have "a div ONE \<le> int d * ONE div ONE" by (intro zdiv_mono1) auto
  then show ?thesis using n by simp
qed

end

end
