(* ===== verification/AccountSteps.thy ===== *)
theory AccountSteps
  imports Ledger
begin

text \<open>
  The life of one account's balances with one bank as a step relation: the instructions open a
  balance, run a method of the wrapper on it, accrue the bank's interest and sort the balances, in
  any order. The ledger and the slots are invariants of every sequence of steps.
\<close>

inductive acct_step ::
  "fixed_ops \<Rightarrow> pubkey \<Rightarrow> LendingAccount \<times> Bank \<Rightarrow> LendingAccount \<times> Bank \<Rightarrow> bool"
  for fx :: fixed_ops and pk :: pubkey where
  open_balance: "find_or_create now pk bank la = Inr (i, la') \<Longrightarrow> acct_step fx pk (la, bank) (la', bank)"
| increase: "wrapper_find pk la = Inr i \<Longrightarrow> 0 \<le> delta \<Longrightarrow>
    at_balance i (unit_meth (increase_balance_internal fx now delta ty)) (la, bank) = Inr (u, s') \<Longrightarrow>
    acct_step fx pk (la, bank) s'"
| decrease: "wrapper_find pk la = Inr i \<Longrightarrow> 0 \<le> delta \<Longrightarrow>
    at_balance i (unit_meth (decrease_balance_internal fx now delta ty')) (la, bank) = Inr (u, s') \<Longrightarrow>
    acct_step fx pk (la, bank) s'"
| withdraw_all: "wrapper_find pk la = Inr i \<Longrightarrow>
    at_balance i (withdraw_all fx now) (la, bank) = Inr (n, s') \<Longrightarrow> acct_step fx pk (la, bank) s'"
| repay_all: "wrapper_find pk la = Inr i \<Longrightarrow>
    at_balance i (repay_all fx now) (la, bank) = Inr (n, s') \<Longrightarrow> acct_step fx pk (la, bank) s'"
| close: "wrapper_find pk la = Inr i \<Longrightarrow>
    at_balance i (unit_meth (close_balance fx now)) (la, bank) = Inr (u, s') \<Longrightarrow>
    acct_step fx pk (la, bank) s'"
| claim: "wrapper_find pk la = Inr i \<Longrightarrow>
    at_balance i (unit_meth (claim_emissions fx t)) (la, bank) = Inr (u, s') \<Longrightarrow>
    acct_step fx pk (la, bank) s'"
| settle: "wrapper_find pk la = Inr i \<Longrightarrow>
    at_balance i (settle_emissions_and_get_transfer_amount fx now) (la, bank) = Inr (n, s') \<Longrightarrow>
    acct_step fx pk (la, bank) s'"
| accrue: "accrue_interest fx now g bank = Inr bank' \<Longrightarrow> acct_step fx pk (la, bank) (la, bank')"
| refresh_cache: "update_bank_cache fx now g bank = Inr bank' \<Longrightarrow> acct_step fx pk (la, bank) (la, bank')"
| sort: "acct_step fx pk (la, bank) (sort_balances la, bank)"

text \<open>The active balances with other banks: no operation with this bank touches them.\<close>

definition elsewhere :: "pubkey \<Rightarrow> LendingAccount \<Rightarrow> Balance multiset" where
  "elsewhere pk la = {#b \<in># mset (balances la). is_active b \<and> bank_pk b \<noteq> pk#}"

definition account_inv ::
  "pubkey \<Rightarrow> int \<Rightarrow> int \<Rightarrow> Balance multiset \<Rightarrow> LendingAccount \<times> Bank \<Rightarrow> bool" where
  "account_inv pk ra rl others s \<longleftrightarrow>
     ledger pk ra rl s \<and> slots_ok (fst s) \<and> elsewhere pk (fst s) = others"

lemma elsewhere_sort [simp]: "elsewhere pk (sort_balances la) = elsewhere pk la"
  by (simp add: elsewhere_def)

lemma elsewhere_update:
  assumes "i < length (balances la)"
    and "is_active (balances la ! i) \<Longrightarrow> bank_pk (balances la ! i) = pk"
    and "is_active b \<Longrightarrow> bank_pk b = pk"
  shows "elsewhere pk (la\<lparr>balances := (balances la)[i := b]\<rparr>) = elsewhere pk la"
proof -
  have "mset (balances la) = add_mset (balances la ! i) (mset (balances la) - {#balances la ! i#})"
    using assms(1) by simp
  then have "elsewhere pk la
      = {#b \<in># mset (balances la) - {#balances la ! i#}. is_active b \<and> bank_pk b \<noteq> pk#}"
    unfolding elsewhere_def by (metis (mono_tags, lifting) assms(2) filter_mset_add_mset)
  then show ?thesis using assms(1,3) by (auto simp: elsewhere_def mset_update)
qed

lemma find_or_create_elsewhere:
  assumes "find_or_create now pk bank la = Inr (i, la')"
  shows "elsewhere pk la' = elsewhere pk la"
  using assms
proof (cases rule: find_or_create_cases)
  case created
  show ?thesis
    unfolding created(5) by (rule elsewhere_update) (use created(3,4) in simp_all)
qed simp

lemma held_sort [simp]: "held f pk (sort_balances la) = held f pk la"
proof -
  have "held f pk la' = sum_mset (image_mset (\<lambda>b. if is_active b \<and> bank_pk b = pk then f b else 0)
      (mset (balances la')))" for la'
    by (simp add: held_def flip: sum_mset_sum_list)
  then show ?thesis by simp
qed

text \<open>Uniqueness of the active banks, in terms of the multiset of balances.\<close>

lemma unique_banks_distinct:
  "unique_banks la \<longleftrightarrow> distinct (map bank_pk (filter is_active (balances la)))"
proof -
  let ?P = "\<lambda>a b. is_active a \<and> is_active b \<longrightarrow> bank_pk a \<noteq> bank_pk b"
  have "unique_banks la \<longleftrightarrow> sorted_wrt ?P (balances la)"
  proof
    assume u: "unique_banks la"
    show "sorted_wrt ?P (balances la)"
      unfolding sorted_wrt_iff_nth_less
    proof (intro allI impI notI, elim conjE)
      fix i j
      assume "i < j" "j < length (balances la)" "is_active (balances la ! i)"
        "is_active (balances la ! j)" "bank_pk (balances la ! i) = bank_pk (balances la ! j)"
      moreover from this have "i < length (balances la)" by simp
      ultimately have "i = j" using u unfolding unique_banks_def by blast
      with \<open>i < j\<close> show False by simp
    qed
  next
    assume s: "sorted_wrt ?P (balances la)"
    have lt: False if "i < j" "j < length (balances la)" "is_active (balances la ! i)"
        "is_active (balances la ! j)" "bank_pk (balances la ! i) = bank_pk (balances la ! j)" for i j
      using s that unfolding sorted_wrt_iff_nth_less by blast
    show "unique_banks la"
      unfolding unique_banks_def
    proof (intro allI impI, elim conjE)
      fix i j
      assume a: "i < length (balances la)" "j < length (balances la)" "is_active (balances la ! i)"
        "is_active (balances la ! j)" "bank_pk (balances la ! i) = bank_pk (balances la ! j)"
      show "i = j"
        using lt [of i j] lt [of j i] a by (cases i j rule: linorder_cases) auto
    qed
  qed
  moreover have "sorted_wrt ?P bs \<longleftrightarrow> distinct (map bank_pk (filter is_active bs))" for bs
    by (induction bs) auto
  ultimately show ?thesis by simp
qed

lemma slots_sort:
  assumes "slots_ok la"
  shows "slots_ok (sort_balances la)"
proof -
  have m: "mset (filter P (balances (sort_balances la))) = mset (filter P (balances la))" for P
    by simp
  have "distinct (map bank_pk (filter is_active (balances (sort_balances la))))
      = distinct (map bank_pk (filter is_active (balances la)))"
    by (rule mset_eq_imp_distinct_iff) simp
  moreover have "integration_count (sort_balances la) = integration_count la"
    unfolding integration_count_def by (rule mset_eq_length [OF m])
  ultimately show ?thesis using assms by (simp add: slots_ok_def unique_banks_distinct)
qed

lemma wrapper_find_index:
  assumes "wrapper_find pk la = Inr i"
  shows "i < length (balances la)" and "is_active (balances la ! i)"
    and "bank_pk (balances la ! i) = pk"
  using position_Some [of "\<lambda>b. is_active b \<and> bank_pk b = pk" "balances la" i] assms
  by (auto simp: wrapper_find_def res_simps)

lemma ledger_wr_ok:
  assumes L: "ledger pk ra rl (la, bank)" and i: "i < length (balances la)"
    "is_active (balances la ! i)" "bank_pk (balances la ! i) = pk"
  shows "wr_ok (balances la ! i, bank)"
proof -
  have mem: "balances la ! i \<in> set (balances la)" using i by simp
  have "asset_shares (balances la ! i) \<le> held asset_shares pk la"
    "liability_shares (balances la ! i) \<le> held liability_shares pk la"
    using L i by (auto intro!: held_ge simp: ledger_def)
  then show ?thesis using L i mem by (auto simp: wr_ok_def ledger_def)
qed

context wrapper_op
begin

lemma elsewhere_kept:
  assumes "enabled" and "at_balance i meth s = Inr (r, s')"
    and i: "i < length (balances (fst s))" "is_active (balances (fst s) ! i)"
      "bank_pk (balances (fst s) ! i) = pk" and "wr_ok (balances (fst s) ! i, snd s)"
  shows "elsewhere pk (fst s') = elsewhere pk (fst s)"
proof -
  obtain la bank where s: "s = (la, bank)" by (cases s)
  obtain bal' bank' where op: "meth (balances la ! i, bank) = Inr (r, bal', bank')"
    and s': "s' = (la\<lparr>balances := (balances la)[i := bal']\<rparr>, bank')"
    using assms(2) by (auto simp: at_balance_def s res_simps)
  have "same_identity (balances la ! i) bal'"
    using meth_identity [OF assms(1) _ op] assms(6) by (simp add: s)
  then have "is_active bal' \<Longrightarrow> bank_pk bal' = pk"
    using i by (auto simp: s same_identity_def is_active_def empty_deactivated_def)
  then show ?thesis using i by (simp add: s s' elsewhere_update)
qed

lemma inv_kept:
  assumes "enabled" and "at_balance i meth (la, bank) = Inr (r, s')"
    and f: "wrapper_find pk la = Inr i" and "account_inv pk ra rl others (la, bank)"
  shows "account_inv pk ra rl others s'"
proof -
  note i = wrapper_find_index [OF f]
  have L: "ledger pk ra rl (la, bank)" "slots_ok la" "elsewhere pk la = others"
    using assms(4) by (auto simp: account_inv_def)
  note ok = ledger_wr_ok [OF L(1) i]
  have "ledger pk ra rl s'" using ledger_kept [OF assms(1,2) L(1)] i by simp
  moreover have "slots_ok (fst s')" using slots_kept [OF assms(1,2)] L(2) i ok by simp
  moreover have "elsewhere pk (fst s') = others" using elsewhere_kept [OF assms(1,2)] L(3) i ok by simp
  ultimately show ?thesis by (simp add: account_inv_def)
qed

end

context fixed_arith
begin

lemma acct_step_inv:
  assumes "acct_step fx pk s s'" and "account_inv pk ra rl others s"
  shows "account_inv pk ra rl others s'"
  using assms
proof (induction rule: acct_step.induct)
  case (open_balance now bank la i la')
  then show ?case
    using find_or_create_ledger find_or_create_slots find_or_create_elsewhere
    by (auto simp: account_inv_def)
next
  case (increase la i delta now ty bank u s')
  then show ?case using increase.inv_kept by blast
next
  case (decrease la i delta now ty' bank u s')
  then show ?case using decrease.inv_kept by blast
next
  case (withdraw_all la i now bank n s')
  then show ?case using withdraw_all.inv_kept by blast
next
  case (repay_all la i now bank n s')
  then show ?case using repay_all.inv_kept by blast
next
  case (close la i now bank u s')
  then show ?case using close_balance.inv_kept by blast
next
  case (claim la i t bank u s')
  then show ?case using claim.inv_kept by blast
next
  case (settle la i now bank n s')
  then show ?case using settle.inv_kept by blast
next
  case (accrue now g bank bank' la)
  then have "bank_ok bank" by (simp add: account_inv_def ledger_def)
  with accrue show ?case
    using accrue_interest_monotone(6,7) accrue_interest_ok
    by (auto simp: account_inv_def ledger_def)
next
  case (refresh_cache now g bank bank' la)
  then show ?case
    using update_bank_cache_frame [OF refresh_cache(1)] update_bank_cache_ok [OF refresh_cache(1)]
    by (auto simp: account_inv_def ledger_def)
next
  case (sort la bank)
  then show ?case by (simp add: account_inv_def ledger_def slots_sort)
qed

lemma acct_steps_inv:
  "(acct_step fx pk)\<^sup>*\<^sup>* s s' \<Longrightarrow> account_inv pk ra rl others s \<Longrightarrow> account_inv pk ra rl others s'"
  by (induction rule: rtranclp_induct) (auto intro: acct_step_inv)

end

end
