(* ===== verification/Samples.thy ===== *)
theory Samples
  imports AccountSteps
begin

text \<open>
  Concrete states for the witnesses, and bundles of the definitions that evaluate the operations on
  them with the concrete fixed-point instance \<open>fx_ref\<close>.
\<close>

lemma fx_ref_ops:
  "checked_add fx_ref = (\<lambda>a b. if_fx (a + b))"
  "checked_sub fx_ref = (\<lambda>a b. if_fx (a - b))"
  "checked_mul fx_ref = (\<lambda>a b. if_fx (a * b div ONE))"
  "checked_div fx_ref = (\<lambda>a b. if b = 0 then None else if_fx (trunc_div (a * ONE) b))"
  "checked_floor fx_ref = (\<lambda>a. if_fx (a div ONE * ONE))"
  "checked_ceil fx_ref = (\<lambda>a. if_fx (- (- a div ONE) * ONE))"
  "op_add fx_ref = (\<lambda>a b. if_fx (a + b))"
  "op_sub fx_ref = (\<lambda>a b. if_fx (a - b))"
  "op_mul fx_ref = (\<lambda>a b. if_fx (a * b div ONE))"
  "op_div fx_ref = (\<lambda>a b. if b = 0 then None else if_fx (trunc_div (a * ONE) b))"
  "op_neg fx_ref = (\<lambda>a. if_fx (- a))"
  "op_abs fx_ref = (\<lambda>a. if_fx \<bar>a\<bar>)"
  "from_num fx_ref = (\<lambda>n. if_fx (n * ONE))"
  "checked_to_u64 fx_ref = (\<lambda>a. if 0 \<le> a div ONE \<and> a div ONE \<le> int u64_max
                            then Some (nat (a div ONE)) else None)"
  "checked_to_i64 fx_ref = (\<lambda>a. if in_i64 (a div ONE) then Some (a div ONE) else None)"
  "checked_to_i128 fx_ref = (\<lambda>a. Some (a div ONE))"
  "to_u32 fx_ref = (\<lambda>a. if 0 \<le> a div ONE \<and> a div ONE \<le> int u32_max
                    then Some (nat (a div ONE)) else None)"
  "decimal fx_ref = (\<lambda>n k. n * ONE div 10 ^ k)"
  by (simp_all add: fx_ref_def)

lemmas fx_eval = fx_ref_ops if_fx_def in_fx_def fx_limit_def ONE_def trunc_div_def
  u8_max_def u16_max_def u32_max_def u64_max_def in_i64_def i64_op_def sat_i64_def sat_i32_def
  sat_u8_def sat_u16_def sat_u32_def checked_add_u64_def checked_sub_nat_def Let_def

lemmas flag_eval = flag_get_def flag_put_def flag_clear_def

lemmas const_eval = SECONDS_PER_YEAR_def ZERO_AMOUNT_THRESHOLD_def EMPTY_BALANCE_THRESHOLD_def
  exp_10_index_def exp_10_get_def MAX_EXP_10_I80F48_def asset_tag_defs MIN_EMISSIONS_START_TIME_def
  EMISSIONS_FLAG_LENDING_ACTIVE_def EMISSIONS_FLAG_BORROW_ACTIVE_def
  MAX_LENDING_ACCOUNT_BALANCES_def MAX_INTEGRATION_POSITIONS_def
  TOTAL_ASSET_VALUE_INIT_LIMIT_INACTIVE_def CLOSE_ENABLED_FLAG_def

lemmas bank_eval = get_asset_amount_def get_liability_amount_def get_asset_shares_def
  get_liability_shares_def get_balance_decimals_def scaled_deposit_limit_def
  is_deposit_limit_active_def is_borrow_limit_active_def change_asset_shares_def
  change_liability_shares_def check_utilization_ratio_def get_remaining_deposit_capacity_def
  bank_get_flag_def update_position_counts_def has_assets_def has_liabs_def
  increment_lending_position_count_def decrement_lending_position_count_def
  increment_borrowing_position_count_def decrement_borrowing_position_count_def

lemmas wrapper_eval = deposit_def repay_def withdraw_def borrow_def increase_balance_internal_def
  decrease_balance_internal_def withdraw_all_def repay_all_def close_balance_def
  claim_emissions_def emissions_base_def get_side_def bal_change_asset_shares_def
  bal_change_liability_shares_def bal_close_def is_zero_with_tolerance_def
  is_positive_with_tolerance_def check_zero_def check_def as_u64_def at_balance_def unit_meth_def

lemmas interest_eval = calc_interest_rate_accrual_state_changes_def calc_interest_rate_def
  base_rate_of_def interest_rate_multipoint_curve_def interest_rate_curve_def get_fees_def
  rate_from_u32_def util_from_u32_def u32_ratio_def lerp_def calc_fee_rate_def
  calc_accrued_interest_payment_per_period_def calc_interest_payment_for_period_def
  create_interest_rate_calculator_def get_group_bank_config_def program_fees_enabled_def
  INTEREST_CURVE_LEGACY_def INTEREST_CURVE_SEVEN_POINT_def

text \<open>A seven-point curve: 1\% at rest, 5\% at half, 100\% at full utilization.\<close>

definition sample_ir :: InterestRateConfig where
  "sample_ir = InterestRateConfig_default\<lparr>
     zero_util_rate := 4294967, hundred_util_rate := 429496729,
     points := [\<lparr>util = 2147483647, rate = 21474836\<rparr>, zero_point, zero_point, zero_point, zero_point],
     protocol_ir_fee := ONE div 10, insurance_fee_fixed_apr := ONE div 100,
     curve_type := INTEREST_CURVE_SEVEN_POINT\<rparr>"

definition sample_config :: BankConfig where
  "sample_config = BankConfig_default\<lparr>
     asset_weight_init := ONE div 2, asset_weight_maint := ONE div 2,
     liability_weight_init := ONE + ONE div 4, liability_weight_maint := ONE + ONE div 8,
     deposit_limit := 2000, borrow_limit := 2000, interest_rate_config := sample_ir,
     operational_state := Operational, risk_tier := Collateral, oracle_max_age := 60\<rparr>"

text \<open>A bank with deposits of 1000 and debts of 500, whose deposit shares are worth 2 each.\<close>

definition sample_bank :: Bank where
  "sample_bank = (bank_new 1 sample_config 2 6 3 4 5 100 0 0 0 0 0 0)\<lparr>
     asset_share_value := 2 * ONE, total_asset_shares := 500 * ONE,
     total_liability_shares := 500 * ONE\<rparr>"

definition sample_balance :: Balance where
  "sample_balance = (new_balance 7 ASSET_TAG_DEFAULT 100)\<lparr>asset_shares := 10 * ONE + ONE div 4\<rparr>"

definition sample_debt :: Balance where
  "sample_debt = (new_balance 7 ASSET_TAG_DEFAULT 100)\<lparr>liability_shares := 10 * ONE + ONE div 4\<rparr>"

definition sample_fee_cache :: FeeStateCache where
  "sample_fee_cache = \<lparr>global_fee_wallet_cached = 9, fsc_program_fee_fixed = ONE div 100,
     fsc_program_fee_rate = ONE div 40, fsc_last_update = 0\<rparr>"

definition sample_group :: MarginfiGroup where
  "sample_group = \<lparr>admin = 1, group_flags = 1, fee_state_cache = sample_fee_cache, banks = 0,
     emode_admin = 1, delegate_curve_admin = 1, delegate_limit_admin = 1,
     delegate_emissions_admin = 1,
     panic_state_cache = \<lparr>pc_pause_flags = 0, pc_pause_start_timestamp = 0,
       pc_last_cache_update = 0\<rparr>,
     deleverage_withdraw_window_cache = \<lparr>daily_limit = 1000, withdrawn_today = 0,
       window_last_daily_reset_timestamp = 0\<rparr>,
     risk_admin = 1, metadata_admin = 1, emode_max_init_leverage = 0,
     emode_max_maint_leverage = 0\<rparr>"

definition sample_account :: LendingAccount where
  "sample_account = \<lparr>balances = sample_balance # replicate 15 empty_deactivated\<rparr>"

lemmas sample_defs = sample_bank_def sample_config_def sample_ir_def sample_balance_def
  sample_debt_def sample_group_def sample_fee_cache_def bank_new_def Bank_default_def
  BankConfig_default_def InterestRateConfig_default_def new_balance_def zero_point_def

lemma sample_bank_ok: "bank_ok sample_bank"
  by (simp add: bank_ok_def sample_defs fx_eval)

lemma sample_wr_ok: "wr_ok (sample_balance, sample_bank)"
  using sample_bank_ok by (simp add: wr_ok_def) (simp add: sample_defs fx_eval)

lemma sample_debt_wr_ok: "wr_ok (sample_debt, sample_bank)"
  using sample_bank_ok by (simp add: wr_ok_def) (simp add: sample_defs fx_eval)

end
