(* ===== verification/LedgerProps.thy ===== *)
theory LedgerProps
  imports Samples
begin

text \<open>
  The properties of banks, balances and the ledger, each with a witness that applies it to a
  concrete state.
\<close>

text \<open>C15: Every sequence of the operations on an account's balance with a bank (opening a balance,
  deposits, repayments, withdrawals, borrows, full withdrawals and repayments, closing, emission
  claims, interest accrual, cache updates, sorting) keeps the bank's share totals at least the shares
  held by this account plus those held by all others, keeps every holding non-negative, keeps at
  most one active balance per bank and at most eight integration positions in sixteen slots, and
  leaves the balances with other banks as they are.\<close>

theorem ledger_invariant:
  assumes "fixed_arith fx" and "(acct_step fx pk)\<^sup>*\<^sup>* s s'" and "account_inv pk ra rl others s"
  shows "ra + held asset_shares pk (fst s') \<le> total_asset_shares (snd s')
    \<and> rl + held liability_shares pk (fst s') \<le> total_liability_shares (snd s')
    \<and> (\<forall>b \<in> set (balances (fst s')). is_active b \<and> bank_pk b = pk \<longrightarrow>
         0 \<le> asset_shares b \<and> 0 \<le> liability_shares b)
    \<and> distinct (map bank_pk (filter is_active (balances (fst s'))))
    \<and> {#b \<in># mset (balances (fst s')). is_active b \<and> bank_pk b \<noteq> pk#} = others
    \<and> length (balances (fst s')) = MAX_LENDING_ACCOUNT_BALANCES
    \<and> integration_count (fst s') \<le> MAX_INTEGRATION_POSITIONS"
  using fixed_arith.acct_steps_inv [OF assms]
  by (auto simp: account_inv_def ledger_def slots_ok_def unique_banks_distinct elsewhere_def)

lemma sample_account_inv: "account_inv 7 (489 * ONE) (500 * ONE) {#} (sample_account, sample_bank)"
  using sample_bank_ok
  by (auto simp: account_inv_def ledger_def slots_ok_def held_def unique_banks_distinct
      elsewhere_def sample_account_def integration_count_def is_active_def empty_deactivated_def sample_defs
      const_eval is_integration_asset_tag_def ONE_def sum_list_replicate)

definition emptied_account :: LendingAccount where
  "emptied_account = \<lparr>balances = empty_deactivated # replicate 15 empty_deactivated\<rparr>"

definition emptied_bank :: Bank where
  "emptied_bank = (decrement_lending_position_count sample_bank)\<lparr>
     total_asset_shares := 489 * ONE + 3 * (ONE div 4),
     collected_insurance_fees_outstanding := ONE div 2\<rparr>"

lemma sample_withdraw_all:
  "withdraw_all fx_ref 200 (sample_balance, sample_bank) = Inr (20, empty_deactivated, emptied_bank)"
  by (simp add: emptied_bank_def wrapper_eval sample_defs bank_eval const_eval fx_eval)

lemma sample_withdraw_step: "acct_step fx_ref 7 (sample_account, sample_bank) (emptied_account, emptied_bank)"
proof (rule acct_step.withdraw_all)
  show "wrapper_find 7 sample_account = Inr 0"
    by (simp add: wrapper_find_def sample_account_def sample_defs is_active_def)
  show "at_balance 0 (withdraw_all fx_ref 200) (sample_account, sample_bank)
      = Inr (20, emptied_account, emptied_bank)"
    by (simp add: at_balance_def sample_account_def emptied_account_def sample_withdraw_all)
qed

theorem ledger_invariant_witness:
  "489 * ONE + held asset_shares 7 emptied_account \<le> total_asset_shares emptied_bank"
  using ledger_invariant [OF ref.fixed_arith_axioms r_into_rtranclp sample_account_inv]
    sample_withdraw_step by force

text \<open>C18: A full withdrawal pays exactly the whole units of the balance's amount (its shares times the
  share value, rounded down), moves the fraction that is left to the insurance fees, removes exactly
  the balance's shares from the bank's total and empties the slot; nothing else of the ledger
  changes.\<close>

theorem withdraw_all_exact:
  assumes "fixed_arith fx" and "withdraw_all fx now (bal, bank) = Inr (n, bal', bank')"
    and "wr_ok (bal, bank)"
  shows "let amount = asset_shares bal * asset_share_value bank div ONE
    in int n = amount div ONE
     \<and> collected_insurance_fees_outstanding bank'
         = collected_insurance_fees_outstanding bank + amount mod ONE
     \<and> total_asset_shares bank' = total_asset_shares bank - asset_shares bal
     \<and> total_liability_shares bank' = total_liability_shares bank
     \<and> bal' = empty_deactivated
     \<and> asset_share_value bank' = asset_share_value bank"
proof -
  obtain a where a: "get_asset_amount fx bank (asset_shares bal) = Inr a"
    and r: "bal' = empty_deactivated"
      "total_asset_shares bank' = total_asset_shares bank - asset_shares bal"
      "total_liability_shares bank' = total_liability_shares bank" "int n = a div ONE"
      "collected_insurance_fees_outstanding bank'
        = collected_insurance_fees_outstanding bank + a mod ONE" "same_terms bank bank'"
    using fixed_arith.withdraw_all_shape [OF assms] by metis
  have "a = asset_shares bal * asset_share_value bank div ONE"
    using fixed_arith.asset_amount_eq [OF assms(1) a] assms(3) by (simp add: wr_ok_def bank_ok_def)
  then show ?thesis using r by (simp add: same_terms_def)
qed

theorem withdraw_all_exact_witness:
  "collected_insurance_fees_outstanding emptied_bank = (20 * ONE + ONE div 2) mod ONE"
  using withdraw_all_exact [OF ref.fixed_arith_axioms sample_withdraw_all sample_wr_ok]
  by (simp add: Let_def sample_defs ONE_def)

text \<open>A full repayment charges the debt rounded up to whole units, never less than the debt and
  less than one unit more; the surplus goes to the insurance fees, exactly the balance's liability
  shares leave the bank's total and the slot is emptied.\<close>

theorem repay_all_exact:
  assumes "fixed_arith fx" and "repay_all fx now (bal, bank) = Inr (n, bal', bank')"
    and "wr_ok (bal, bank)"
  shows "let debt = liability_shares bal * liability_share_value bank div ONE
    in debt \<le> int n * ONE \<and> int n * ONE < debt + ONE
     \<and> collected_insurance_fees_outstanding bank'
         = collected_insurance_fees_outstanding bank + (int n * ONE - debt)
     \<and> total_liability_shares bank' = total_liability_shares bank - liability_shares bal
     \<and> total_asset_shares bank' = total_asset_shares bank
     \<and> bal' = empty_deactivated"
proof -
  obtain l where l: "get_liability_amount fx bank (liability_shares bal) = Inr l"
    and r: "bal' = empty_deactivated"
      "total_liability_shares bank' = total_liability_shares bank - liability_shares bal"
      "total_asset_shares bank' = total_asset_shares bank" "l \<le> int n * ONE" "int n * ONE < l + ONE"
      "collected_insurance_fees_outstanding bank'
        = collected_insurance_fees_outstanding bank + (int n * ONE - l)"
    using fixed_arith.repay_all_shape [OF assms] by metis
  have "l = liability_shares bal * liability_share_value bank div ONE"
    using fixed_arith.liability_amount_eq [OF assms(1) l] assms(3) by (simp add: wr_ok_def bank_ok_def)
  then show ?thesis using r by (simp add: Let_def)
qed

lemma sample_repay_all:
  "repay_all fx_ref 200 (sample_debt, sample_bank) = Inr (11, empty_deactivated,
     (decrement_borrowing_position_count sample_bank)\<lparr>
       total_liability_shares := 489 * ONE + 3 * (ONE div 4),
       collected_insurance_fees_outstanding := 3 * (ONE div 4)\<rparr>)"
  by (simp add: wrapper_eval sample_defs bank_eval const_eval fx_eval)

theorem repay_all_exact_witness:
  "liability_shares sample_debt * liability_share_value sample_bank div ONE \<le> int 11 * ONE"
  using repay_all_exact [OF ref.fixed_arith_axioms sample_repay_all sample_debt_wr_ok]
  unfolding Let_def by blast

text \<open>C19: A user cannot gain from rounding: depositing an amount into an empty balance and
  withdrawing everything before interest accrues pays back at most what was deposited.\<close>

theorem deposit_withdraw_all_no_gain:
  assumes "fixed_arith fx" and "deposit fx now (int d * ONE) (bal, bank) = Inr w1"
    and "withdraw_all fx later w1 = Inr (n, w2)" and "wr_ok (bal, bank)"
    and "asset_shares bal = 0" and "liability_shares bal = 0"
  shows "n \<le> d"
  using fixed_arith.deposit_withdraw_no_gain [OF assms] .

definition deposited :: wrapper where
  "deposited = ((new_balance 7 ASSET_TAG_DEFAULT 100)\<lparr>asset_shares := 5 * (ONE div 2), bal_last_update := 200\<rparr>,
     (increment_lending_position_count sample_bank)\<lparr>total_asset_shares := 502 * ONE + ONE div 2\<rparr>)"

lemma sample_deposit:
  "deposit fx_ref 200 (int 5 * ONE) (new_balance 7 ASSET_TAG_DEFAULT 100, sample_bank) = Inr deposited"
  by (simp add: deposited_def wrapper_eval sample_defs bank_eval const_eval fx_eval)

lemma sample_withdraw_deposited: "\<exists>w2. withdraw_all fx_ref 300 deposited = Inr (5, w2)"
  by (simp add: deposited_def wrapper_eval sample_defs bank_eval const_eval fx_eval)

theorem deposit_withdraw_all_no_gain_witness: "(5 :: nat) \<le> 5"
proof -
  obtain w2 where "withdraw_all fx_ref 300 deposited = Inr (5, w2)"
    using sample_withdraw_deposited by blast
  moreover have "wr_ok (new_balance 7 ASSET_TAG_DEFAULT 100, sample_bank)"
    using sample_wr_ok by (simp add: wr_ok_def bank_ok_def)
  ultimately show ?thesis
    using deposit_withdraw_all_no_gain [OF ref.fixed_arith_axioms sample_deposit] by simp
qed

text \<open>No deposit, repayment, withdrawal, borrow or forced liquidation transfer makes a balance
  hold a whole unit of both assets and liabilities, so reading the side of a balance never panics
  afterwards, as long as a share is worth at least two bits.\<close>

theorem balance_stays_one_sided:
  assumes "fixed_arith fx" and "wr_ok w" and "0 \<le> delta" and "one_sided (fst w)"
    and "2 \<le> asset_share_value (snd w)" and "2 \<le> liability_share_value (snd w)"
    and "increase_balance_internal fx now delta it w = Inr w'
       \<or> decrease_balance_internal fx now delta dt w = Inr w'"
  shows "one_sided (fst w') \<and> (\<exists>side. get_side (fst w') = Inr side)"
  using assms(7) fixed_arith.increase_one_sided [OF assms(1) _ assms(2-6)]
    fixed_arith.decrease_one_sided [OF assms(1) _ assms(2-6)] get_side_total by blast

theorem balance_stays_one_sided_witness: "\<exists>side. get_side (fst deposited) = Inr side"
proof -
  have inc: "increase_balance_internal fx_ref 200 (int 5 * ONE) DepositOnly
      (new_balance 7 ASSET_TAG_DEFAULT 100, sample_bank) = Inr deposited"
    using sample_deposit by (simp only: deposit_def)
  have ok: "wr_ok (new_balance 7 ASSET_TAG_DEFAULT 100, sample_bank)"
    using sample_wr_ok by (simp add: wr_ok_def bank_ok_def)
  have os: "one_sided (fst (new_balance 7 ASSET_TAG_DEFAULT 100, sample_bank))"
    by (simp add: one_sided_def const_eval ONE_def)
  have sv: "2 \<le> asset_share_value sample_bank" "2 \<le> liability_share_value sample_bank"
    by (simp_all add: sample_bank_def bank_new_def Bank_default_def ONE_def)
  show ?thesis
    using balance_stays_one_sided [OF ref.fixed_arith_axioms ok _ os _ _ disjI1 [OF inc]] sv by simp
qed

section \<open>Position counts\<close>

text \<open>
  The counts of positions are not exact: an operation that leaves less than a ten-thousandth of a
  share counts the position as gone, but \<open>withdraw_all\<close> looks at the amount, counts down whatever it
  empties, and so counts the same position down again. Here the only lender of a bank withdraws
  20 of 20.00018 tokens and then the rest.
\<close>

definition dusty_balance :: Balance where
  "dusty_balance = sample_balance\<lparr>asset_shares := 10 * ONE + 9 * ONE div 100000\<rparr>"

definition single_lender_bank :: Bank where
  "single_lender_bank = sample_bank\<lparr>lending_position_count := 1\<rparr>"

lemma position_count_drifts:
  "\<exists>bal b bal' b'. withdraw fx_ref 200 (20 * ONE) (dusty_balance, single_lender_bank) = Inr (bal, b)
     \<and> lending_position_count b = 0
     \<and> withdraw_all fx_ref 200 (bal, b) = Inr (0, bal', b') \<and> lending_position_count b' = -1"
  by (simp add: dusty_balance_def single_lender_bank_def wrapper_eval sample_defs bank_eval const_eval fx_eval
      withdraw_def decrease_balance_internal_def update_position_counts_def has_assets_def has_liabs_def
      decrement_lending_position_count_def sat_i32_def)

end
