(* ===== verification/PauseProps.thy ===== *)
theory PauseProps
  imports Samples
begin

text \<open>
  The properties of the protocol pause and of the group's daily deleverage window.
\<close>

text \<open>C24: Whatever sequence of pauses, extensions, unpauses and permissionless unpauses runs, at most two
  pauses are chained and a pause ends at most one hour from now; the daily counter counts exactly the
  pauses of its day and is at most three, so no twenty-four hours have seen more than six.\<close>

theorem pause_bounded:
  assumes "panic_trace ts s now"
  shows "consecutive_pause_count s \<le> 2 \<and> daily_pause_count s \<le> 3
    \<and> (is_paused_flag s \<longrightarrow> pause_start_timestamp s + PAUSE_DURATION_SECONDS \<le> now + 3600)
    \<and> daily_pause_count s = pauses_in (last_daily_reset_timestamp s)
        (last_daily_reset_timestamp s + DAILY_RESET_INTERVAL) ts
    \<and> (\<forall>x. pauses_in x (x + DAILY_RESET_INTERVAL) ts \<le> 6)"
  using panic_trace_inv [OF assms] panic_reach_inv [OF panic_trace_reach [OF assms]]
  by (auto simp: panic_inv_def trace_inv_def Let_def panic_consts)

definition paused_once :: PanicState where
  "paused_once = PanicState_default\<lparr>pause_flags := 1, pause_start_timestamp := 100000,
     daily_pause_count := 1, consecutive_pause_count := 1, last_daily_reset_timestamp := 100000\<rparr>"

definition paused_twice :: PanicState where
  "paused_twice = paused_once\<lparr>pause_start_timestamp := 101800,
     daily_pause_count := 2, consecutive_pause_count := 2\<rparr>"

lemmas pause_eval = pause_def unpause_if_expired_def daily_reset_def can_pause_def
  begin_or_extend_def is_expired_def is_paused_flag_def PanicState_default_def unpause_def
  panic_consts flag_eval

lemma pause_once: "pause PanicState_default 100000 = Inr paused_once"
  by (simp add: paused_once_def pause_eval fx_eval)

lemma pause_twice: "pause paused_once 100000 = Inr paused_twice"
  by (simp add: paused_twice_def paused_once_def pause_eval fx_eval)

lemma paused_twice_reach: "panic_reach paused_twice 100000"
proof -
  have "panic_reach PanicState_default 100000" by (rule panic_reach.genesis) (simp_all add: CLOCK_LIMIT_def)
  from panic_reach.admin_pause [OF panic_reach.admin_pause [OF this pause_once] pause_twice] show ?thesis .
qed

lemma paused_twice_trace: "panic_trace [100000, 100000] paused_twice 100000"
proof -
  have "panic_trace [] PanicState_default 100000" by (rule panic_trace.genesis) (simp_all add: CLOCK_LIMIT_def)
  from panic_trace.admin_pause [OF panic_trace.admin_pause [OF this pause_once] pause_twice] show ?thesis .
qed

theorem pause_bounded_witness:
  "pause_start_timestamp paused_twice + PAUSE_DURATION_SECONDS \<le> 100000 + 3600
   \<and> pauses_in 50000 (50000 + DAILY_RESET_INTERVAL) [100000, 100000] \<le> 6"
proof
  note bounds = pause_bounded [OF paused_twice_trace]
  then have "is_paused_flag paused_twice \<longrightarrow> pause_start_timestamp paused_twice + PAUSE_DURATION_SECONDS \<le> 100000 + 3600"
    by blast
  then show "pause_start_timestamp paused_twice + PAUSE_DURATION_SECONDS \<le> 100000 + 3600"
    by (simp add: paused_twice_def paused_once_def is_paused_flag_def flag_eval panic_consts)
  show "pauses_in 50000 (50000 + DAILY_RESET_INTERVAL) [100000, 100000] \<le> 6" using bounds by blast
qed

text \<open>The pause cannot be held open: from every reachable state, an hour later anybody can
  unpause the protocol, and the call succeeds and clears the pause.\<close>

theorem pause_can_be_lifted:
  assumes "panic_reach s now" and "later \<ge> now + 3600" and "later \<le> CLOCK_LIMIT"
  shows "\<exists>t. unpause_if_expired s later = Inr t \<and> \<not> is_paused_flag t"
proof -
  have "panic_inv s later"
    using panic_inv_tick [OF panic_reach_inv [OF assms(1)]] assms(2,3) by simp
  moreover have "is_paused_flag s \<longrightarrow> pause_start_timestamp s + PAUSE_DURATION_SECONDS \<le> later"
    using panic_reach_inv [OF assms(1)] assms(2) by (auto simp: panic_inv_def panic_consts)
  ultimately show ?thesis
    by (cases "is_paused_flag s") (auto simp: unpause_if_expired_def is_expired_total)
qed

theorem pause_can_be_lifted_witness:
  "\<exists>t. unpause_if_expired paused_twice 103600 = Inr t \<and> \<not> is_paused_flag t"
  using pause_can_be_lifted [OF paused_twice_reach, of 103600] by (simp add: CLOCK_LIMIT_def)

text \<open>Pausing never panics in a reachable state: it succeeds exactly when, after lifting an
  expired pause and starting a new day if one has passed, fewer than two pauses are chained and
  fewer than three are counted for the day, and otherwise fails with \<open>PauseLimitExceeded\<close>.\<close>

theorem pause_refused_only_at_limits:
  assumes "panic_reach s now"
  shows "let active = is_paused_flag s \<and> now < pause_start_timestamp s + PAUSE_DURATION_SECONDS;
             chained = (if active then consecutive_pause_count s else 0);
             counted = (if now - last_daily_reset_timestamp s \<ge> DAILY_RESET_INTERVAL then 0
                        else daily_pause_count s)
         in if chained < 2 \<and> counted < 3 then \<exists>t. pause s now = Inr t \<and> is_paused_flag t
            else pause s now = Inl (Err PauseLimitExceeded)"
proof -
  have inv: "panic_inv s now" using panic_reach_inv [OF assms] .
  let ?active = "is_paused_flag s \<and> now < pause_start_timestamp s + PAUSE_DURATION_SECONDS"
  define s1 where "s1 = (if is_paused_flag s \<and> \<not> ?active then unpause s else s)"
  define s2 where "s2 = daily_reset s1 now"
  have u: "unpause_if_expired s now = Inr s1"
    using inv by (auto simp: unpause_if_expired_def is_expired_total s1_def)
  have inv1: "panic_inv s1 now" using panic_inv_unpause_if_expired [OF inv u] .
  have inv2: "panic_inv s2 now" unfolding s2_def using inv1 by (rule panic_inv_daily_reset)
  have sat: "sat_i64 (now - last_daily_reset_timestamp s1) = now - last_daily_reset_timestamp s1"
    using inv1 by (intro sat_i64_id) (auto simp: panic_inv_def in_i64_def panic_consts)
  have same: "last_daily_reset_timestamp s1 = last_daily_reset_timestamp s"
    "daily_pause_count s1 = daily_pause_count s" by (simp_all add: s1_def)
  have chained: "consecutive_pause_count s2 = (if ?active then consecutive_pause_count s else 0)"
    using inv by (auto simp: s2_def s1_def daily_reset_def panic_inv_def)
  have counted: "now - last_daily_reset_timestamp s2 < DAILY_RESET_INTERVAL"
    "daily_pause_count s2 = (if now - last_daily_reset_timestamp s \<ge> DAILY_RESET_INTERVAL then 0
        else daily_pause_count s)"
    using sat same by (auto simp: s2_def daily_reset_def panic_consts)
  have can: "can_pause s2 now = Inr (consecutive_pause_count s2 < 2 \<and> daily_pause_count s2 < 3)"
    using can_pause_total [OF inv2] counted(1) by (simp add: panic_consts)
  have "\<exists>s3. begin_or_extend s2 now = Inr s3"
    using is_expired_total [OF inv2] by (simp add: begin_or_extend_def)
  then have "if consecutive_pause_count s2 < 2 \<and> daily_pause_count s2 < 3
      then \<exists>t. pause s now = Inr t \<and> is_paused_flag t else pause s now = Inl (Err PauseLimitExceeded)"
    using u can by (auto simp: pause_def is_paused_put simp flip: s2_def)
  then show ?thesis unfolding Let_def chained counted(2) .
qed

theorem pause_refused_only_at_limits_witness: "pause paused_twice 100000 = Inl (Err PauseLimitExceeded)"
  using pause_refused_only_at_limits [OF paused_twice_reach]
  by (simp add: paused_twice_def paused_once_def is_paused_flag_def flag_eval panic_consts)

text \<open>One withdrawal in the middle of a day: what it records when it goes through.\<close>

lemma withdrawn_equity_same_day:
  assumes "fixed_arith fx" and "update_withdrawn_equity fx e now g = Inr g'"
    and c: "c = deleverage_withdraw_window_cache g" and "daily_limit c \<noteq> 0"
    and "daily_limit c < u32_max" and "0 \<le> e" and "e div ONE \<le> int u32_max"
    and "sat_i64 (now - window_last_daily_reset_timestamp c) < DAILY_RESET_INTERVAL"
  shows "deleverage_withdraw_window_cache g' = c\<lparr>withdrawn_today := withdrawn_today c + nat (e div ONE)\<rparr>
    \<and> withdrawn_today c + nat (e div ONE) \<le> daily_limit c"
proof -
  have n: "to_u32 fx e = Some (nat (e div ONE))"
    using fixed_arith.to_u32_small [OF assms(1,6,7)] .
  have r: "reset_window now c = c" using assms(8) by (simp add: reset_window_def)
  define k where "k = withdrawn_today c + nat (e div ONE)"
  have u: "(let w' = c\<lparr>withdrawn_today := sat_u32 k\<rparr>
      in if daily_limit w' \<noteq> 0 \<and> daily_limit w' < withdrawn_today w'
         then Inl (Err DailyWithdrawalLimitExceeded)
         else Inr (g\<lparr>deleverage_withdraw_window_cache := w'\<rparr>)) = Inr g'"
    using assms(2) by (simp add: update_withdrawn_equity_def n r k_def flip: c)
  then have "\<not> daily_limit c < sat_u32 k"
    and g': "g' = g\<lparr>deleverage_withdraw_window_cache := c\<lparr>withdrawn_today := sat_u32 k\<rparr>\<rparr>"
    using assms(4) by (auto simp: Let_def split: if_splits)
  then have "sat_u32 k = k" and "k \<le> daily_limit c"
    using assms(5) by (auto simp: sat_u32_def min_def split: if_splits)
  then show ?thesis by (simp add: g' k_def)
qed

text \<open>The daily window of forced deleverages: while no new day begins, the whole dollars of all
  withdrawals that went through add up to what the window records, and never exceed the limit.\<close>

theorem deleverage_window_sum:
  assumes "fixed_arith fx" and "withdraw_equities fx ws g = Inr g'"
    and "c = deleverage_withdraw_window_cache g" and "daily_limit c \<noteq> 0" and "daily_limit c < u32_max"
    and "withdrawn_today c \<le> daily_limit c"
    and "\<forall>(e, t) \<in> set ws. 0 \<le> e \<and> e div ONE \<le> int u32_max
      \<and> sat_i64 (t - window_last_daily_reset_timestamp c) < DAILY_RESET_INTERVAL"
  shows "int (withdrawn_today (deleverage_withdraw_window_cache g'))
      = int (withdrawn_today c) + (\<Sum>(e, t)\<leftarrow>ws. e div ONE)
    \<and> withdrawn_today (deleverage_withdraw_window_cache g') \<le> daily_limit c"
  using assms(2-7)
proof (induction ws arbitrary: g c)
  case Nil
  then show ?case by simp
next
  case (Cons w ws)
  obtain e t where w: "w = (e, t)" by (cases w)
  from Cons.prems(1) obtain g1 where g1: "update_withdrawn_equity fx e t g = Inr g1"
    and rest: "withdraw_equities fx ws g1 = Inr g'" by (auto simp: w res_simps)
  have et: "0 \<le> e" "e div ONE \<le> int u32_max"
    "sat_i64 (t - window_last_daily_reset_timestamp c) < DAILY_RESET_INTERVAL"
    using Cons.prems(6) by (auto simp: w)
  define c1 where "c1 = c\<lparr>withdrawn_today := withdrawn_today c + nat (e div ONE)\<rparr>"
  have c1: "c1 = deleverage_withdraw_window_cache g1" "withdrawn_today c1 \<le> daily_limit c1"
    using withdrawn_equity_same_day [OF assms(1) g1 Cons.prems(2-4) et] by (simp_all add: c1_def)
  have "int (withdrawn_today (deleverage_withdraw_window_cache g'))
      = int (withdrawn_today c1) + (\<Sum>(e, t)\<leftarrow>ws. e div ONE)
    \<and> withdrawn_today (deleverage_withdraw_window_cache g') \<le> daily_limit c1"
    using Cons.prems(3,4,6) by (intro Cons.IH [OF rest c1(1) _ _ c1(2)]) (auto simp: c1_def w)
  moreover have "0 \<le> e div ONE" using et(1) by (simp add: pos_imp_zdiv_nonneg_iff)
  ultimately show ?case by (simp add: w c1_def)
qed

definition sample_withdrawn :: MarginfiGroup where
  "sample_withdrawn = sample_group\<lparr>deleverage_withdraw_window_cache :=
     \<lparr>daily_limit = 1000, withdrawn_today = 700, window_last_daily_reset_timestamp = 0\<rparr>\<rparr>"

lemma sample_withdrawals:
  "withdraw_equities fx_ref [(300 * ONE, 50), (400 * ONE + 1, 60)] sample_group = Inr sample_withdrawn"
  by (simp add: update_withdrawn_equity_def reset_window_def sample_withdrawn_def sample_group_def
      fx_eval DAILY_RESET_INTERVAL_def)

theorem deleverage_window_sum_witness:
  "int (withdrawn_today (deleverage_withdraw_window_cache sample_withdrawn)) = 0 + (300 + 400)"
  using deleverage_window_sum [OF ref.fixed_arith_axioms sample_withdrawals refl]
  by (simp add: sample_group_def fx_eval DAILY_RESET_INTERVAL_def)

end
