(* ===== verification/InterestProps.thy ===== *)
theory InterestProps
  imports Samples
begin

text \<open>
  The properties of the interest component: what validation accepts, what a validated curve
  computes, who pays whom, and that accrual only moves share values up.
\<close>

text \<open>The values of an on-chain configuration fit their fields.\<close>

definition ir_in_range :: "InterestRateConfig \<Rightarrow> bool" where
  "ir_in_range c \<longleftrightarrow> zero_util_rate c \<le> u32_max \<and> hundred_util_rate c \<le> u32_max
     \<and> (\<forall>p \<in> set (points c). util p \<le> u32_max \<and> rate p \<le> u32_max)
     \<and> in_fx (max_interest_rate c)"

lemma seven_point_used:
  assumes "ir_validate c = Inr ()" and "curve_type c = INTEREST_CURVE_SEVEN_POINT"
  obtains used where "points_spec (zero_util_rate c) (hundred_util_rate c) (points c) used"
proof -
  have "seven_point_spec c"
    using assms curve_types_differ
    by (simp add: ir_validate_def validate_seven_point_spec_iff del: curve_types_differ split: if_splits)
  then show thesis using that by (auto simp: seven_point_spec_def)
qed

lemma points_spec_subset: "points_spec z h ps used \<Longrightarrow> set used \<subseteq> set ps"
  by (auto simp: points_spec_def)

lemma calc_fields [simp]:
  "k_zero_util_rate (create_interest_rate_calculator c g) = zero_util_rate c"
  "k_hundred_util_rate (create_interest_rate_calculator c g) = hundred_util_rate c"
  "k_points (create_interest_rate_calculator c g) = points c"
  "k_curve_type (create_interest_rate_calculator c g) = curve_type c"
  "k_optimal_utilization_rate (create_interest_rate_calculator c g) = optimal_utilization_rate c"
  "k_plateau_interest_rate (create_interest_rate_calculator c g) = plateau_interest_rate c"
  "k_max_interest_rate (create_interest_rate_calculator c g) = max_interest_rate c"
  by (simp_all add: create_interest_rate_calculator_def)

lemma validated_calc_ok:
  assumes v: "ir_validate c = Inr ()" and r: "ir_in_range c"
    and f: "fees_ok (get_fees (create_interest_rate_calculator c g))"
  shows "calc_ok (create_interest_rate_calculator c g)"
proof (cases "curve_type c = INTEREST_CURVE_LEGACY")
  case True
  then have "validate_legacy c = Inr ()" using v by (simp add: ir_validate_def)
  then show ?thesis
    using True r f
    by (auto simp: validate_legacy_def Let_def calc_ok_def legacy_calc_ok_def ir_in_range_def
        split: if_splits)
next
  case False
  then have s: "curve_type c = INTEREST_CURVE_SEVEN_POINT"
    using v by (auto simp: ir_validate_def split: if_splits)
  obtain used where u: "points_spec (zero_util_rate c) (hundred_util_rate c) (points c) used"
    using seven_point_used [OF v s] .
  then have "\<forall>p \<in> set used. util p \<le> u32_max"
    using points_spec_subset [OF u] r by (auto simp: ir_in_range_def)
  with u s r f show ?thesis
    by (auto simp: calc_ok_def seven_calc_ok_def ir_in_range_def)
qed

text \<open>The documented curve: its points lie strictly below full utilization, and the rate at rest is
  strictly below the one at full utilization.\<close>

definition documented_curve :: "InterestRateConfig \<Rightarrow> bool" where
  "documented_curve c \<longleftrightarrow> seven_point_spec c \<and> zero_util_rate c < hundred_util_rate c
     \<and> list_all (\<lambda>p. util p < u32_max) (points c)"

text \<open>C28: The validation of a seven-point curve accepts exactly the curves of used points with strictly
  ascending utilization and non-descending rates between the rate at rest and the rate at full
  utilization, followed by zero padding only. Next to the documented curves, these are the ones whose
  two end rates are equal and the ones with a point at full utilization itself, which the
  documentation of the fields and of the check excludes.\<close>

theorem validate_seven_point_decides:
  "(validate_seven_point c = Inr () \<longleftrightarrow> seven_point_spec c)
   \<and> (validate_seven_point c = Inr () \<longleftrightarrow> documented_curve c
        \<or> seven_point_spec c \<and> (zero_util_rate c = hundred_util_rate c \<or> list_ex (\<lambda>p. u32_max \<le> util p) (points c)))"
proof -
  have "zero_util_rate c \<le> hundred_util_rate c" if "seven_point_spec c"
    using that by (auto simp: seven_point_spec_def points_spec_def)
  then have "seven_point_spec c \<longleftrightarrow> documented_curve c
      \<or> seven_point_spec c \<and> (zero_util_rate c = hundred_util_rate c \<or> list_ex (\<lambda>p. u32_max \<le> util p) (points c))"
    by (auto simp: documented_curve_def list_all_iff list_ex_iff not_less)
  then show ?thesis unfolding validate_seven_point_spec_iff by blast
qed

text \<open>Both undocumented kinds are accepted.\<close>

lemma undocumented_curves:
  "validate_seven_point (sample_ir\<lparr>zero_util_rate := 7, hundred_util_rate := 7, 
     points := [zero_point, zero_point, zero_point, zero_point, zero_point]\<rparr>)
     = Inr ()"
  "validate_seven_point (sample_ir\<lparr>zero_util_rate := 7, hundred_util_rate := 9,
     points := [\<lparr>util = u32_max, rate = 8\<rparr>, zero_point, zero_point, zero_point, zero_point]\<rparr>) = Inr ()"
  by (simp_all add: validate_seven_point_def zero_point_def u32_max_def)

text \<open>C26: A validated seven-point curve is total: at every utilization, in or out of range, the base
  rate is computed without error or panic, and lies between the rates at its two ends.\<close>

theorem seven_point_curve_total:
  assumes "fixed_arith fx" and "ir_validate c = Inr ()"
    and "curve_type c = INTEREST_CURVE_SEVEN_POINT" and "ir_in_range c"
  shows "\<exists>r. base_rate_of fx (create_interest_rate_calculator c g) ur = Inr r
     \<and> rate_val (zero_util_rate c) \<le> r \<and> r \<le> rate_val (hundred_util_rate c)"
proof -
  let ?k = "create_interest_rate_calculator c g"
  obtain used where u: "points_spec (k_zero_util_rate ?k) (k_hundred_util_rate ?k) (k_points ?k) used"
    using seven_point_used [OF assms(2,3)] by auto
  have b: "\<forall>p \<in> set used. util p \<le> u32_max" "k_hundred_util_rate ?k \<le> u32_max"
    using points_spec_subset [OF u] assms(4) by (auto simp: ir_in_range_def)
  note m = fixed_arith.multipoint_curve_eq [OF assms(1) u b]
  have "base_rate_of fx ?k ur = interest_rate_multipoint_curve fx ?k ur"
    using assms(3) curve_types_differ by (simp add: base_rate_of_def del: curve_types_differ)
  then show ?thesis
    using m(1) [of ur] curve_val_bounds [OF m(2), of 0 "min (max ur 0) ONE"] by auto
qed

lemma sample_ir_ok: "ir_validate sample_ir = Inr ()" "ir_in_range sample_ir"
  "curve_type sample_ir = INTEREST_CURVE_SEVEN_POINT"
  by (simp_all add: ir_validate_def validate_seven_point_def ir_in_range_def sample_defs
      INTEREST_CURVE_LEGACY_def INTEREST_CURVE_SEVEN_POINT_def CURVE_POINTS_def fx_eval)

theorem seven_point_curve_total_witness:
  "\<exists>r. base_rate_of fx_ref (create_interest_rate_calculator sample_ir sample_group) (ONE div 3) = Inr r
     \<and> rate_val 4294967 \<le> r \<and> r \<le> rate_val 429496729"
  using seven_point_curve_total [OF ref.fixed_arith_axioms sample_ir_ok(1,3,2),
      of sample_group "ONE div 3"]
  by (simp add: sample_ir_def)

text \<open>C27: A validated seven-point curve is monotone: a higher utilization never has a lower base
  rate, across segments and rounding.\<close>

theorem seven_point_curve_monotone:
  assumes "fixed_arith fx" and "ir_validate c = Inr ()"
    and "curve_type c = INTEREST_CURVE_SEVEN_POINT" and "ir_in_range c" and "ur \<le> ur'"
    and "base_rate_of fx (create_interest_rate_calculator c g) ur = Inr r"
    and "base_rate_of fx (create_interest_rate_calculator c g) ur' = Inr r'"
  shows "r \<le> r'"
proof -
  let ?k = "create_interest_rate_calculator c g"
  obtain used where u: "points_spec (k_zero_util_rate ?k) (k_hundred_util_rate ?k) (k_points ?k) used"
    using seven_point_used [OF assms(2,3)] by auto
  have b: "\<forall>p \<in> set used. util p \<le> u32_max" "k_hundred_util_rate ?k \<le> u32_max"
    using points_spec_subset [OF u] assms(4) by (auto simp: ir_in_range_def)
  note m = fixed_arith.multipoint_curve_eq [OF assms(1) u b]
  have "base_rate_of fx ?k v = interest_rate_multipoint_curve fx ?k v" for v
    using assms(3) curve_types_differ by (simp add: base_rate_of_def del: curve_types_differ)
  then show ?thesis
    using m(1) assms(5-7)
      curve_val_mono [OF m(2), of 0 "min (max ur 0) ONE" "min (max ur' 0) ONE"] by auto
qed

lemma sample_rates:
  "base_rate_of fx_ref (create_interest_rate_calculator sample_ir sample_group) (ONE div 4)
     = Inr 8444249050310"
  "base_rate_of fx_ref (create_interest_rate_calculator sample_ir sample_group) (ONE div 2)
     = Inr 14073748586490"
  by (simp_all add: interest_eval sample_defs fx_eval)

theorem seven_point_curve_monotone_witness: "(8444249050310 :: int) \<le> 14073748586490"
  by (rule seven_point_curve_monotone [OF ref.fixed_arith_axioms sample_ir_ok(1,3,2) _ sample_rates])
    (simp add: ONE_def)

text \<open>C16: Interest is covered: with a validated curve, what borrowers are charged on the total debt is
  at least what lenders are paid on the total deposits plus the group, insurance and program fees on
  the debt, whatever the rounding.\<close>

theorem borrowers_cover_lenders_and_fees:
  assumes "fixed_arith fx" and "ir_validate c = Inr ()" and "ir_in_range c"
    and "fees_ok (get_fees (create_interest_rate_calculator c g))"
    and "0 < total_assets" and "0 \<le> total_liabs"
    and "checked_div fx total_liabs total_assets = Some ur"
    and "calc_interest_rate fx (create_interest_rate_calculator c g) ur = Inr r"
  shows "lending_rate_apr r * total_assets
       + (group_fee_apr r + insurance_fee_apr r + protocol_fee_apr r) * total_liabs
       \<le> borrowing_rate_apr r * total_liabs"
  using fixed_arith.interest_covers_lenders_and_fees
    [OF assms(1) validated_calc_ok [OF assms(2-4)] assms(5-8)] .

lemma sample_calc_rate: "\<exists>r. calc_interest_rate fx_ref
    (create_interest_rate_calculator sample_ir sample_group) (ONE div 2) = Inr r
    \<and> lending_rate_apr r = 7036874293245"
  by (simp add: interest_eval sample_defs fx_eval)

lemma sample_fees_ok: "fees_ok (get_fees (create_interest_rate_calculator sample_ir sample_group))"
  by (simp add: fees_ok_def interest_eval sample_defs fx_eval flag_eval PROGRAM_FEES_ENABLED_def)

theorem borrowers_cover_lenders_and_fees_witness:
  "\<exists>r :: ComputedInterestRates. lending_rate_apr r = 7036874293245 \<and>
     lending_rate_apr r * (1000 * ONE)
       + (group_fee_apr r + insurance_fee_apr r + protocol_fee_apr r) * (500 * ONE)
       \<le> borrowing_rate_apr r * (500 * ONE)"
proof -
  obtain r where r: "calc_interest_rate fx_ref
    (create_interest_rate_calculator sample_ir sample_group) (ONE div 2) = Inr r"
    and l: "lending_rate_apr r = 7036874293245"
    using sample_calc_rate by blast
  have "checked_div fx_ref (500 * ONE) (1000 * ONE) = Some (ONE div 2)" by (simp add: fx_eval)
  then have "lending_rate_apr r * (1000 * ONE)
       + (group_fee_apr r + insurance_fee_apr r + protocol_fee_apr r) * (500 * ONE)
       \<le> borrowing_rate_apr r * (500 * ONE)"
    by (intro borrowers_cover_lenders_and_fees [OF ref.fixed_arith_axioms sample_ir_ok(1,2)
          sample_fees_ok _ _ _ r]) simp_all
  with l show ?thesis by blast
qed

text \<open>C17: Accruing interest never lowers the value of an asset share, the value of a liability share or
  any of the three outstanding fees, keeps the share totals and the configuration, and brings the
  bank's clock to the current time.\<close>

theorem accrual_monotone_bank:
  assumes "fixed_arith fx" and "accrue_interest fx now g b = Inr b'" and "bank_ok b"
  shows "asset_share_value b \<le> asset_share_value b'
    \<and> liability_share_value b \<le> liability_share_value b'
    \<and> collected_group_fees_outstanding b \<le> collected_group_fees_outstanding b'
    \<and> collected_insurance_fees_outstanding b \<le> collected_insurance_fees_outstanding b'
    \<and> collected_program_fees_outstanding b \<le> collected_program_fees_outstanding b'
    \<and> total_asset_shares b' = total_asset_shares b
    \<and> total_liability_shares b' = total_liability_shares b
    \<and> config b' = config b \<and> bank_last_update b' = now"
  using fixed_arith.accrue_interest_monotone [OF assms] by blast

lemma sample_accrual: "\<exists>b'. accrue_interest fx_ref 31536100 sample_group sample_bank = Inr b'
    \<and> asset_share_value b' = 577023702007802"
  by (simp add: accrue_interest_def time_delta_of_def collect_fee_def bank_eval interest_eval
      sample_defs fx_eval const_eval flag_eval PROGRAM_FEES_ENABLED_def)

theorem accrual_monotone_bank_witness: "2 * ONE \<le> (577023702007802 :: int)"
proof -
  obtain b' where b': "accrue_interest fx_ref 31536100 sample_group sample_bank = Inr b'"
    "asset_share_value b' = 577023702007802" using sample_accrual by blast
  have "asset_share_value sample_bank = 2 * ONE" by (simp add: sample_bank_def)
  then show ?thesis
    using accrual_monotone_bank [OF ref.fixed_arith_axioms b'(1) sample_bank_ok] b'(2) by simp
qed

end
