(* ===== verification/BankProps.thy ===== *)
theory BankProps
  imports Samples
begin

text \<open>
  The properties of a bank's configuration, limits and losses, of the shared checks, and of the
  error codes.
\<close>

text \<open>A bank can only be configured into a state whose weights are sound: asset weights between 0
  and 1 initially and at most 2 for maintenance, liability weights at least 1 and stricter
  initially than for maintenance, no collateral value for isolated assets, a validated rate curve, a
  usable oracle age, and never the bankruptcy state.\<close>

theorem configure_keeps_config_sound:
  assumes "bank_configure oc b = Inr b'"
  shows "weights_spec (config b') \<and> ir_validate (interest_rate_config (config b')) = Inr ()
    \<and> ORACLE_MIN_AGE \<le> oracle_max_age (config b')
    \<and> (operational_state (config b) \<noteq> KilledByBankruptcy \<longrightarrow>
         operational_state (config b') \<noteq> KilledByBankruptcy)"
proof -
  note c = bank_configure_validated [OF assms]
  have "operational_state (config b') = set_if_some (o_operational_state oc) (operational_state (config b))"
    by (simp add: c(2) apply_config_opt_def)
  then have "operational_state (config b) \<noteq> KilledByBankruptcy \<Longrightarrow>
      operational_state (config b') \<noteq> KilledByBankruptcy"
    using c(3) by (cases "o_operational_state oc") auto
  then show ?thesis using c(1) by (auto simp: config_validate_iff)
qed

definition sample_opt :: BankConfigOpt where
  "sample_opt = \<lparr>o_asset_weight_init = Some (ONE div 4), o_asset_weight_maint = None,
     o_liability_weight_init = None, o_liability_weight_maint = None, o_deposit_limit = Some 5000,
     o_borrow_limit = None, o_operational_state = Some ReduceOnly, o_interest_rate_config = None,
     o_risk_tier = None, o_asset_tag = None, o_total_asset_value_init_limit = None,
     o_oracle_max_confidence = None, o_oracle_max_age = None,
     o_permissionless_bad_debt_settlement = None, o_freeze_settings = None,
     o_tokenless_repayments_allowed = None\<rparr>"

lemma sample_configure: "\<exists>b'. bank_configure sample_opt sample_bank = Inr b'
    \<and> asset_weight_init (config b') = ONE div 4"
  by (simp add: bank_configure_def apply_config_opt_def sample_opt_def update_flag_if_some_def
      config_validate_def sample_defs ir_validate_def validate_seven_point_def
      INTEREST_CURVE_LEGACY_def INTEREST_CURVE_SEVEN_POINT_def CURVE_POINTS_def ORACLE_MIN_AGE_def
      fx_eval)

theorem configure_keeps_config_sound_witness:
  "\<exists>b' :: Bank. asset_weight_init (config b') = ONE div 4 \<and> weights_spec (config b')"
  using sample_configure configure_keeps_config_sound by blast

text \<open>The capacity offered to a capped deposit is safe: if a positive capacity is offered, a
  deposit of that amount leaves the bank's total deposits strictly below its limit, with a whole
  unit to spare.\<close>

theorem remaining_capacity_safe:
  assumes "fixed_arith fx" and "get_remaining_deposit_capacity fx b = Inr n"
    and "is_deposit_limit_active (config b)" and "0 < n"
    and "get_asset_amount fx b (total_asset_shares b) = Inr deposits"
    and "scaled_deposit_limit fx b = Inr limit"
  shows "deposits + int n * ONE + ONE \<le> limit"
  using fixed_arith.remaining_capacity_below_limit [OF assms(1-3,5,6,4)] .

lemma sample_capacity:
  "get_remaining_deposit_capacity fx_ref sample_bank = Inr 999"
  "get_asset_amount fx_ref sample_bank (total_asset_shares sample_bank) = Inr (1000 * ONE)"
  "scaled_deposit_limit fx_ref sample_bank = Inr (2000 * ONE)"
  "is_deposit_limit_active (config sample_bank)"
  by (simp_all add: bank_eval sample_defs fx_eval const_eval)

theorem remaining_capacity_safe_witness: "1000 * ONE + int 999 * ONE + ONE \<le> 2000 * ONE"
  by (rule remaining_capacity_safe [OF ref.fixed_arith_axioms sample_capacity(1,4) _ sample_capacity(2,3)])
    simp

text \<open>When less than one unit is left below the deposit limit, the remaining capacity is not zero
  but a \<open>MathError\<close>, so a capped deposit fails instead of depositing nothing.\<close>

theorem remaining_capacity_fails_near_limit:
  assumes "fixed_arith fx" and "is_deposit_limit_active (config b)"
    and "get_asset_amount fx b (total_asset_shares b) = Inr deposits"
    and "scaled_deposit_limit fx b = Inr limit"
    and "0 \<le> deposits" and "deposits < limit" and "limit < deposits + ONE"
  shows "get_remaining_deposit_capacity fx b = Inl (Err MathError)"
  using fixed_arith.remaining_capacity_below_one_fails [OF assms] .

definition nearly_full_bank :: Bank where
  "nearly_full_bank = sample_bank\<lparr>total_asset_shares := 999 * ONE + 3 * (ONE div 4)\<rparr>"

theorem remaining_capacity_fails_near_limit_witness:
  "get_remaining_deposit_capacity fx_ref nearly_full_bank = Inl (Err MathError)"
proof (rule remaining_capacity_fails_near_limit [OF ref.fixed_arith_axioms])
  show "get_asset_amount fx_ref nearly_full_bank (total_asset_shares nearly_full_bank)
      = Inr (1999 * ONE + ONE div 2)"
    "scaled_deposit_limit fx_ref nearly_full_bank = Inr (2000 * ONE)"
    "is_deposit_limit_active (config nearly_full_bank)"
    by (simp_all add: nearly_full_bank_def bank_eval sample_defs fx_eval const_eval)
qed (simp_all add: ONE_def)

text \<open>C20: Socialising a loss takes it from all depositors: the value of all deposits drops by at least
  the loss (to zero when the loss is larger), by at most the loss plus the rounding of one share,
  the value of a share never rises or turns negative, and the bank is declared dead exactly when
  nothing is left.\<close>

theorem socialize_loss_exact:
  assumes "fixed_arith fx" and "socialize_loss fx loss b = Inr (b', killed)" and "bank_ok b"
    and "0 \<le> loss"
  shows "let old = total_asset_shares b * asset_share_value b div ONE;
             new = total_asset_shares b' * asset_share_value b' div ONE
         in new \<le> max 0 (old - loss)
          \<and> (loss < old \<longrightarrow> old - loss - new \<le> total_asset_shares b div ONE + 1)
          \<and> (killed \<longleftrightarrow> asset_share_value b' = 0)
          \<and> 0 \<le> asset_share_value b' \<and> asset_share_value b' \<le> asset_share_value b
          \<and> b' = b\<lparr>asset_share_value := asset_share_value b'\<rparr>"
  using fixed_arith.socialize_loss_value [OF assms] fixed_arith.socialize_loss_frame [OF assms(1,2)]
  unfolding Let_def by blast

lemma sample_loss: "socialize_loss fx_ref (100 * ONE) sample_bank =
    Inr (sample_bank\<lparr>asset_share_value := 506654958079180\<rparr>, False)"
  by (simp add: socialize_loss_def sample_defs fx_eval)

theorem socialize_loss_exact_witness: "(500 * ONE) * 506654958079180 div ONE \<le> 900 * ONE"
  using socialize_loss_exact [OF ref.fixed_arith_axioms sample_loss sample_bank_ok]
  by (simp add: Let_def sample_defs ONE_def)

text \<open>C37: Accounts never mix staked assets with default-like ones: for an account whose active
  balances are compatible, the check before a new position succeeds exactly when they stay
  compatible with the bank's tag and fails with AssetTagMismatch when they would not; and it panics
  exactly when an active balance carries a tag above the five known ones, which nothing keeps an
  admin from giving to a bank (\<open>unknown_tag_configured\<close>).\<close>

theorem asset_tags_never_mix:
  assumes "tags_compatible (held_tags (lending_account a))"
  shows "validate_asset_tags b a =
    (if \<not> tags_known (balances (lending_account a)) then Inl Panic
     else if tags_compatible (insert (asset_tag (config b)) (held_tags (lending_account a))) then Inr ()
     else Inl (Err AssetTagMismatch))"
  using assms by (rule validate_asset_tags_decides)

lemma held_tags_image: "held_tags la = bank_asset_tag ` set (filter is_active (balances la))"
  by (auto simp: held_tags_def)

definition staked_account :: MarginfiAccount where
  "staked_account = MarginfiAccount_zeroed\<lparr>lending_account :=
     \<lparr>balances = [new_balance 7 ASSET_TAG_STAKED 0, new_balance 8 ASSET_TAG_SOL 0]\<rparr>\<rparr>"

definition odd_account :: MarginfiAccount where
  "odd_account = MarginfiAccount_zeroed\<lparr>lending_account := \<lparr>balances = [new_balance 7 6 0]\<rparr>\<rparr>"

theorem asset_tags_never_mix_witness:
  "validate_asset_tags sample_bank staked_account = Inl (Err AssetTagMismatch)
   \<and> validate_asset_tags sample_bank odd_account = Inl Panic"
proof
  have held: "held_tags (lending_account staked_account) = {ASSET_TAG_STAKED, ASSET_TAG_SOL}"
    by (simp add: held_tags_image staked_account_def)
  have known: "tags_known (balances (lending_account staked_account))"
    by (simp add: tags_known_def staked_account_def asset_tag_defs)
  have comp: "tags_compatible (held_tags (lending_account staked_account))"
    by (simp add: held tags_compatible_def is_default_like_def asset_tag_defs)
  show "validate_asset_tags sample_bank staked_account = Inl (Err AssetTagMismatch)"
    using asset_tags_never_mix [OF comp, of sample_bank] known
    by (auto simp: held tags_compatible_def is_default_like_def asset_tag_defs sample_bank_def
        bank_new_def Bank_default_def sample_config_def BankConfig_default_def)
  have "tags_compatible (held_tags (lending_account odd_account))"
    by (auto simp: held_tags_image odd_account_def tags_compatible_def is_default_like_def asset_tag_defs)
  moreover have "\<not> tags_known (balances (lending_account odd_account))"
    by (simp add: tags_known_def odd_account_def)
  ultimately show "validate_asset_tags sample_bank odd_account = Inl Panic"
    using asset_tags_never_mix by simp
qed

text \<open>The configuration of a bank takes any tag.\<close>

lemma unknown_tag_configured:
  "\<exists>b'. bank_configure (sample_opt\<lparr>o_asset_tag := Some 6\<rparr>) sample_bank = Inr b' \<and> asset_tag (config b') = 6"
  by (simp add: bank_configure_def apply_config_opt_def sample_opt_def update_flag_if_some_def
      config_validate_def sample_defs ir_validate_def validate_seven_point_def
      INTEREST_CURVE_LEGACY_def INTEREST_CURVE_SEVEN_POINT_def CURVE_POINTS_def ORACLE_MIN_AGE_def
      fx_eval)

text \<open>The gross amount computed for a net deposit under a Token-2022 transfer fee covers it: what
  arrives after the documented fee is at least the net amount asked for, and at most one unit more
  unless the fee is capped.\<close>

theorem pre_fee_amount_covers:
  assumes "calculate_pre_fee_amount tf net = Inr gross"
    and "transfer_fee_basis_points tf \<le> 10000" and "net \<le> u64_max" and "maximum_fee tf \<le> u64_max"
  shows "net \<le> gross - documented_fee tf gross \<and> gross \<le> net + maximum_fee tf"
proof -
  let ?b = "transfer_fee_basis_points tf"
  consider "?b = 0" | "net = 0" | "?b = 10000" "0 < net" | "0 < ?b" "?b < 10000" "0 < net"
    using assms(2) by fastforce
  then show ?thesis
  proof cases
    case 1
    then show ?thesis using assms(1) by (simp add: calculate_pre_fee_amount_def documented_fee_def)
  next
    case 2
    then show ?thesis using assms(1)
      by (auto simp: calculate_pre_fee_amount_def documented_fee_def split: if_splits)
  next
    case 3
    then have "gross = net + maximum_fee tf"
      using assms(1)
      by (auto simp: calculate_pre_fee_amount_def ONE_IN_BASIS_POINTS_def res_simps
          checked_add_u64_def split: if_splits)
    then show ?thesis by (simp add: documented_fee_def)
  next
    case 4
    define raw where "raw = (net * 10000 + (10000 - ?b) - 1) div (10000 - ?b)"
    have "net * 10000 + (10000 - ?b) \<le> u128_max"
      using assms(3) by (simp add: u64_max_def u128_max_def)
    then have cd: "ceil_div (net * 10000) (10000 - ?b) = Inr raw"
      unfolding raw_def using 4 by (intro ceil_div_eq) auto
    note cover = uncapped_fee_covers [OF 4(2) raw_def]
    have le: "net \<le> raw" using cover(1) by linarith
    have "net * 10000 \<le> u128_max" using assms(3) by (simp add: u64_max_def u128_max_def)
    then have g: "(if raw - net \<ge> maximum_fee tf then opt (checked_add_u64 net (maximum_fee tf))
        else if raw \<le> u64_max then Inr raw else Inl NoneValue) = Inr gross"
      using assms(1) 4 cd le
      by (simp add: calculate_pre_fee_amount_def ONE_IN_BASIS_POINTS_def checked_mul_u128_def
          checked_sub_nat_def)
    show ?thesis
    proof (cases "raw - net \<ge> maximum_fee tf")
      case True
      then have "gross = net + maximum_fee tf"
        using g by (auto simp: res_simps checked_add_u64_def split: if_splits)
      then show ?thesis by (simp add: documented_fee_def)
    next
      case False
      then have "gross = raw" using g by (auto split: if_splits)
      then show ?thesis using cover(1) False le by (auto simp: documented_fee_def)
    qed
  qed
qed

theorem pre_fee_amount_covers_witness:
  "1000 \<le> 1011 - documented_fee \<lparr>maximum_fee = 50, transfer_fee_basis_points = 100\<rparr> 1011"
  using pre_fee_amount_covers [of "\<lparr>maximum_fee = 50, transfer_fee_basis_points = 100\<rparr>" 1000 1011]
  by (simp add: calculate_pre_fee_amount_def ceil_div_def checked_add_u128_def checked_mul_u128_def
      checked_div_u128_def ONE_IN_BASIS_POINTS_def u128_max_def fx_eval)

text \<open>Decoding an error code inverts encoding for every declared error except \<open>AccountFrozen\<close>,
  whose code 6103 has no arm and decodes to the internal logic error.\<close>

theorem error_codes_round_trip:
  "\<forall>e \<in> set (core_variants @ integration_variants).
     error_from_u32 (error_number e) = (if e = AccountFrozen then InternalLogicError else e)"
  by (simp add: core_variants_def integration_variants_def error_from_u32_def
      from_u32_core_arms_def from_u32_integration_arms_def)

theorem error_codes_round_trip_witness:
  "error_from_u32 (error_number BankPaused) = BankPaused
    \<and> error_from_u32 (error_number AccountFrozen) = InternalLogicError"
  using error_codes_round_trip
  by (auto simp: core_variants_def integration_variants_def)

end
