(* ===== verification/Reserves.thy ===== *)
theory Reserves
  imports BankOps
begin

text \<open>
  The accounts of the integrated lending programs as far as the program reads them
  (\<open>kamino-mocks/src/state.rs\<close>, \<open>solend-mocks/src/state.rs\<close>,
  \<open>drift-mocks/src/state.rs\<close>) and the conversions between their collateral and liquidity
  tokens (\<open>type-crate/src/types/price.rs\<close>). Fixed-point numbers stored as 16 bytes are the
  unsigned number the bytes encode. The crates have error enums of their own: their errors are
  identified by their Anchor codes, as the program sees them.
\<close>

abbreviation MocksMathError :: marginfi_error where "MocksMathError \<equiv> MarginfiError 6000"
abbreviation DriftMocksInvalidBalanceType :: marginfi_error where
  "DriftMocksInvalidBalanceType \<equiv> MarginfiError 6001"
abbreviation DriftMocksMathError :: marginfi_error where "DriftMocksMathError \<equiv> MarginfiError 6004"
abbreviation DriftMocksInvalidPositionIndex :: marginfi_error where
  "DriftMocksInvalidPositionIndex \<equiv> MarginfiError 6005"
abbreviation DriftMocksInvalidPositionState :: marginfi_error where
  "DriftMocksInvalidPositionState \<equiv> MarginfiError 6006"
abbreviation DriftMocksNoAdminDeposit :: marginfi_error where
  "DriftMocksNoAdminDeposit \<equiv> MarginfiError 6007"
abbreviation DriftMocksTooManyActiveDeposits :: marginfi_error where
  "DriftMocksTooManyActiveDeposits \<equiv> MarginfiError 6008"
abbreviation DriftMocksMissingRewardAccounts :: marginfi_error where
  "DriftMocksMissingRewardAccounts \<equiv> MarginfiError 6009"

definition u128_limit :: nat where "u128_limit = 340282366920938463463374607431768211455"

definition u128_mul :: "nat \<Rightarrow> nat \<Rightarrow> nat option" where
  "u128_mul a b = (if a * b \<le> u128_limit then Some (a * b) else None)"

definition u128_div :: "nat \<Rightarrow> nat \<Rightarrow> nat option" where
  "u128_div a b = (if b = 0 then None else Some (a div b))"

section \<open>Conversions\<close>

definition i80_from_i128_checked :: "int \<Rightarrow> I80F48 option" where
  "i80_from_i128_checked x =
     (if - 604462909807314587353088 \<le> x \<and> x \<le> 604462909807314587353087 then Some (x * ONE)
      else None)"

definition adjust_i128 :: "fixed_ops \<Rightarrow> int \<Rightarrow> I80F48 \<Rightarrow> int res" where
  "adjust_i128 fx raw liq_to_col_ratio =
     bindR (opt (i80_from_i128_checked raw)) (\<lambda>raw_fx.
     bindR (opt (checked_mul fx raw_fx liq_to_col_ratio)) (\<lambda>adj_fx.
     opt (checked_to_i128 fx adj_fx)))"

definition adjust_i64 :: "fixed_ops \<Rightarrow> i64 \<Rightarrow> I80F48 \<Rightarrow> i64 res" where
  "adjust_i64 fx raw liq_to_col_ratio =
     bindR (unwrap (from_num fx raw)) (\<lambda>r.
     bindR (opt (checked_mul fx r liq_to_col_ratio)) (\<lambda>v. opt (checked_to_i64 fx v)))"

definition adjust_u64 :: "fixed_ops \<Rightarrow> u64 \<Rightarrow> I80F48 \<Rightarrow> u64 res" where
  "adjust_u64 fx raw liq_to_col_ratio =
     bindR (unwrap (from_num fx (int raw))) (\<lambda>r.
     bindR (opt (checked_mul fx r liq_to_col_ratio)) (\<lambda>v. opt (checked_to_u64 fx v)))"

definition collateral_to_liquidity_from_scaled ::
  "fixed_ops \<Rightarrow> u64 \<Rightarrow> I80F48 \<Rightarrow> I80F48 \<Rightarrow> u64 res" where
  "collateral_to_liquidity_from_scaled fx collateral total_liq total_col =
     (if total_col = 0 then Inl NoneValue
      else bindR (unwrap (from_num fx (int collateral))) (\<lambda>c.
           bindR (opt (checked_mul fx c total_liq)) (\<lambda>m.
           bindR (opt (checked_div fx m total_col)) (\<lambda>d. opt (checked_to_u64 fx d)))))"

definition liquidity_to_collateral_from_scaled ::
  "fixed_ops \<Rightarrow> u64 \<Rightarrow> I80F48 \<Rightarrow> I80F48 \<Rightarrow> u64 res" where
  "liquidity_to_collateral_from_scaled fx liquidity total_liq total_col =
     (if total_liq = 0 then Inl NoneValue
      else bindR (unwrap (from_num fx (int liquidity))) (\<lambda>l.
           bindR (opt (checked_mul fx l total_col)) (\<lambda>m.
           bindR (opt (checked_div fx m total_liq)) (\<lambda>d. opt (checked_to_u64 fx d)))))"

definition liq_to_col_ratio :: "fixed_ops \<Rightarrow> I80F48 \<Rightarrow> I80F48 \<Rightarrow> I80F48 option" where
  "liq_to_col_ratio fx total_liq total_col =
     (if total_col = 0 then None else checked_div fx total_liq total_col)"

definition col_to_liq_ratio :: "fixed_ops \<Rightarrow> I80F48 \<Rightarrow> I80F48 \<Rightarrow> I80F48 option" where
  "col_to_liq_ratio fx total_liq total_col =
     (if total_liq = 0 then None else checked_div fx total_col total_liq)"

definition scale_supplies ::
  "fixed_ops \<Rightarrow> I80F48 \<Rightarrow> u64 \<Rightarrow> u8 \<Rightarrow> (I80F48 \<times> I80F48) res" where
  "scale_supplies fx total_liq_raw total_col_raw decimals =
     bindR (opt (exp_10_get decimals)) (\<lambda>scale.
     bindR (opt (checked_div fx total_liq_raw scale)) (\<lambda>total_liq.
     bindR (unwrap (from_num fx (int total_col_raw))) (\<lambda>c.
     bindR (opt (checked_div fx c scale)) (\<lambda>total_col.
     Inr (total_liq, total_col)))))"

definition convert_decimals :: "fixed_ops \<Rightarrow> I80F48 \<Rightarrow> u8 \<Rightarrow> u8 \<Rightarrow> I80F48 res" where
  "convert_decimals fx n from_dec to_dec =
     (if from_dec = to_dec then Inr n
      else let diff = int to_dec - int from_dec; abs = nat \<bar>diff\<bar>
        in if abs > 23 then Inl NoneValue
           else bindR (exp_10_index abs) (\<lambda>scale.
             if diff > 0 then opt (checked_mul fx n scale) else opt (checked_div fx n scale)))"

section \<open>Kamino reserves and obligations\<close>

record MinimalReserve =
  kr_version :: u64
  kr_slot :: u64
  kr_stale :: u8
  kr_price_status :: u8
  kr_lending_market :: pubkey
  kr_farm_collateral :: pubkey
  kr_farm_debt :: pubkey
  kr_mint_pubkey :: pubkey
  kr_supply_vault :: pubkey
  kr_fee_vault :: pubkey
  kr_available_amount :: u64
  kr_borrowed_amount_sf :: nat
  kr_market_price_sf :: nat
  kr_market_price_last_updated_ts :: u64
  kr_mint_decimals :: u64
  kr_accumulated_protocol_fees_sf :: nat
  kr_accumulated_referrer_fees_sf :: nat
  kr_pending_referrer_fees_sf :: nat
  kr_absolute_referral_rate_sf :: nat
  kr_token_program :: pubkey
  kr_collateral_mint_pubkey :: pubkey
  kr_mint_total_supply :: u64
  kr_collateral_supply_vault :: pubkey

definition u68f60_to_i80f48 :: "nat \<Rightarrow> I80F48" where
  "u68f60_to_i80f48 raw = int (raw div 2 ^ 12)"

definition kamino_total_supply :: "fixed_ops \<Rightarrow> MinimalReserve \<Rightarrow> I80F48 res" where
  "kamino_total_supply fx r =
     bindR (unwrap (from_num fx (int (kr_available_amount r)))) (\<lambda>available_amount.
     bindR (unwrap (op_add fx available_amount (u68f60_to_i80f48 (kr_borrowed_amount_sf r)))) (\<lambda>a.
     bindR (unwrap (op_sub fx a (u68f60_to_i80f48 (kr_accumulated_protocol_fees_sf r)))) (\<lambda>b.
     bindR (unwrap (op_sub fx b (u68f60_to_i80f48 (kr_accumulated_referrer_fees_sf r)))) (\<lambda>c.
     unwrap (op_sub fx c (u68f60_to_i80f48 (kr_pending_referrer_fees_sf r)))))))"

definition kamino_scaled_supplies :: "fixed_ops \<Rightarrow> MinimalReserve \<Rightarrow> (I80F48 \<times> I80F48) res" where
  "kamino_scaled_supplies fx r =
     bindR (kamino_total_supply fx r) (\<lambda>total_liq_raw.
     none_to MocksMathError (scale_supplies fx total_liq_raw (kr_mint_total_supply r)
       (kr_mint_decimals r mod 256)))"

definition kamino_collateral_to_liquidity :: "fixed_ops \<Rightarrow> u64 \<Rightarrow> MinimalReserve \<Rightarrow> u64 res" where
  "kamino_collateral_to_liquidity fx collateral r =
     bindR (kamino_scaled_supplies fx r) (\<lambda>(total_liq, total_col).
     none_to MocksMathError (collateral_to_liquidity_from_scaled fx collateral total_liq total_col))"

definition kamino_liquidity_to_collateral :: "fixed_ops \<Rightarrow> u64 \<Rightarrow> MinimalReserve \<Rightarrow> u64 res" where
  "kamino_liquidity_to_collateral fx liquidity r =
     bindR (kamino_scaled_supplies fx r) (\<lambda>(total_liq, total_col).
     none_to MocksMathError (liquidity_to_collateral_from_scaled fx liquidity total_liq total_col))"

definition kamino_is_stale :: "u64 \<Rightarrow> MinimalReserve \<Rightarrow> bool" where
  "kamino_is_stale current_slot r \<longleftrightarrow> kr_slot r < current_slot"

section \<open>Solend reserves\<close>

record SolendMinimalReserve =
  sr_last_update_slot :: u64
  sr_last_update_stale :: u8
  sr_lending_market :: pubkey
  sr_liquidity_mint_pubkey :: pubkey
  sr_liquidity_mint_decimals :: u8
  sr_liquidity_supply_pubkey :: pubkey
  sr_liquidity_pyth_oracle_pubkey :: pubkey
  sr_liquidity_switchboard_oracle_pubkey :: pubkey
  sr_liquidity_available_amount :: u64
  sr_liquidity_borrowed_amount_wads :: nat
  sr_liquidity_cumulative_borrow_rate_wads :: nat
  sr_liquidity_market_price :: nat
  sr_collateral_mint_pubkey :: pubkey
  sr_collateral_mint_total_supply :: u64
  sr_collateral_supply_pubkey :: pubkey
  sr_liquidity_accumulated_protocol_fees_wads :: nat

definition WAD :: nat where "WAD = 1000000000000000000"

text \<open>The integer part is shifted by 48 bits and the fraction is below \<open>2 ^ 48\<close>: or is plus.\<close>

definition decimal_to_i80f48 :: "nat \<Rightarrow> I80F48 res" where
  "decimal_to_i80f48 raw =
     (let int_part = raw div WAD; rem = raw mod WAD
      in if int_part > 604462909807314587353087 then Inl (Err MocksMathError)
         else if rem * 281474976710656 > u128_limit then Inl Panic
         else let frac_bits = rem * 281474976710656 div WAD
              in Inr (int int_part * ONE + int frac_bits))"

definition solend_total_liquidity :: "fixed_ops \<Rightarrow> SolendMinimalReserve \<Rightarrow> I80F48 res" where
  "solend_total_liquidity fx r =
     bindR (unwrap (from_num fx (int (sr_liquidity_available_amount r)))) (\<lambda>available.
     bindR (decimal_to_i80f48 (sr_liquidity_borrowed_amount_wads r)) (\<lambda>borrowed.
     bindR (decimal_to_i80f48 (sr_liquidity_accumulated_protocol_fees_wads r)) (\<lambda>fees.
     bindR (unwrap (op_add fx available borrowed)) (\<lambda>s. unwrap (op_sub fx s fees)))))"

definition solend_scaled_supplies ::
  "fixed_ops \<Rightarrow> SolendMinimalReserve \<Rightarrow> (I80F48 \<times> I80F48) res" where
  "solend_scaled_supplies fx r =
     bindR (solend_total_liquidity fx r) (\<lambda>total_liq_raw.
     none_to MocksMathError (scale_supplies fx total_liq_raw (sr_collateral_mint_total_supply r)
       (sr_liquidity_mint_decimals r)))"

definition solend_collateral_to_liquidity ::
  "fixed_ops \<Rightarrow> u64 \<Rightarrow> SolendMinimalReserve \<Rightarrow> u64 res" where
  "solend_collateral_to_liquidity fx collateral r =
     bindR (solend_scaled_supplies fx r) (\<lambda>(total_liq, total_col).
     none_to MocksMathError (collateral_to_liquidity_from_scaled fx collateral total_liq total_col))"

definition solend_liquidity_to_collateral ::
  "fixed_ops \<Rightarrow> u64 \<Rightarrow> SolendMinimalReserve \<Rightarrow> u64 res" where
  "solend_liquidity_to_collateral fx liquidity r =
     bindR (solend_scaled_supplies fx r) (\<lambda>(total_liq, total_col).
     none_to MocksMathError (liquidity_to_collateral_from_scaled fx liquidity total_liq total_col))"

definition solend_is_stale :: "u64 \<Rightarrow> SolendMinimalReserve \<Rightarrow> bool" where
  "solend_is_stale clock_slot r \<longleftrightarrow> sr_last_update_slot r < clock_slot"

section \<open>Drift spot markets and users\<close>

datatype SpotBalanceType = Deposit | Borrow

record SpotPosition =
  scaled_balance :: u64
  open_bids :: i64
  open_asks :: i64
  cumulative_deposits :: i64
  pos_market_index :: u16
  balance_type :: SpotBalanceType
  open_orders :: u8

record MinimalSpotMarket =
  sm_pubkey :: pubkey
  sm_oracle :: pubkey
  sm_mint :: pubkey
  sm_vault :: pubkey
  deposit_balance :: nat
  borrow_balance :: nat
  cumulative_deposit_interest :: nat
  cumulative_borrow_interest :: nat
  last_interest_ts :: u64
  sm_decimals :: u32
  sm_market_index :: u16
  pool_id :: u8

datatype UserStatus = UserActive | BeingLiquidated | Bankrupt | UserReduceOnly | AdvancedLp
  | ProtectedMakerOrders

record MinimalUser =
  du_authority :: pubkey
  du_delegate :: pubkey
  spot_positions :: "SpotPosition list"
  sub_account_id :: u16
  du_status :: UserStatus

definition SPOT_CUMULATIVE_INTEREST_PRECISION :: nat where
  "SPOT_CUMULATIVE_INTEREST_PRECISION = 10000000000"

definition DRIFT_PRECISION_EXP :: u32 where "DRIFT_PRECISION_EXP = 19"

definition get_precision_increase :: "u32 \<Rightarrow> nat res" where
  "get_precision_increase token_decimals =
     (if token_decimals > DRIFT_PRECISION_EXP then Inl (Err DriftMocksMathError)
      else Inr (10 ^ (DRIFT_PRECISION_EXP - token_decimals)))"

definition get_scaled_balance :: "u64 \<Rightarrow> bool \<Rightarrow> MinimalSpotMarket \<Rightarrow> u64 res" where
  "get_scaled_balance amount round_up m =
     bindR (get_precision_increase (sm_decimals m)) (\<lambda>precision_increase.
     bindR (ok_or DriftMocksMathError (u128_mul amount precision_increase)) (\<lambda>x.
     bindR (ok_or DriftMocksMathError (u128_div x (cumulative_deposit_interest m))) (\<lambda>balance.
     if balance > u64_max then Inl (ProgramError ''TryFromIntError'')
     else if round_up \<and> balance \<noteq> 0
       then ok_or DriftMocksMathError (checked_add_u64 balance 1)
     else Inr balance)))"

definition get_scaled_balance_decrement :: "u64 \<Rightarrow> MinimalSpotMarket \<Rightarrow> u64 res" where
  "get_scaled_balance_decrement amount m = get_scaled_balance amount True m"

definition get_scaled_balance_increment :: "u64 \<Rightarrow> MinimalSpotMarket \<Rightarrow> u64 res" where
  "get_scaled_balance_increment amount m = get_scaled_balance amount False m"

definition get_withdraw_token_amount :: "u64 \<Rightarrow> MinimalSpotMarket \<Rightarrow> u64 res" where
  "get_withdraw_token_amount balance m =
     bindR (get_precision_increase (sm_decimals m)) (\<lambda>precision_increase.
     bindR (ok_or DriftMocksMathError (u128_mul balance (cumulative_deposit_interest m))) (\<lambda>x.
     bindR (ok_or DriftMocksMathError (u128_div x precision_increase)) (\<lambda>floored.
     if floored > u64_max then Inl (Err DriftMocksMathError) else Inr floored)))"

definition adjust_oracle_value_u128 :: "nat \<Rightarrow> MinimalSpotMarket \<Rightarrow> nat res" where
  "adjust_oracle_value_u128 raw m =
     bindR (ok_or DriftMocksMathError (u128_mul raw (cumulative_deposit_interest m))) (\<lambda>x.
     ok_or DriftMocksMathError (u128_div x SPOT_CUMULATIVE_INTEREST_PRECISION))"

definition drift_adjust_i64 :: "i64 \<Rightarrow> MinimalSpotMarket \<Rightarrow> i64 res" where
  "drift_adjust_i64 raw m =
     (if raw < 0 then Inl (Err DriftMocksMathError)
      else bindR (adjust_oracle_value_u128 (nat raw) m) (\<lambda>adjusted.
        if \<not> in_i64 (int adjusted) then Inl (Err DriftMocksMathError) else Inr (int adjusted)))"

definition drift_adjust_u64 :: "u64 \<Rightarrow> MinimalSpotMarket \<Rightarrow> u64 res" where
  "drift_adjust_u64 raw m =
     bindR (adjust_oracle_value_u128 raw m) (\<lambda>adjusted.
       if adjusted > u64_max then Inl (Err DriftMocksMathError) else Inr adjusted)"

definition drift_adjust_i128 :: "int \<Rightarrow> MinimalSpotMarket \<Rightarrow> int res" where
  "drift_adjust_i128 raw m =
     (if raw < 0 then Inl (Err DriftMocksMathError)
      else bindR (adjust_oracle_value_u128 (nat raw) m) (\<lambda>adjusted.
        if int adjusted \<ge> fx_limit then Inl (Err DriftMocksMathError) else Inr (int adjusted)))"

text \<open>The cast of the stored \<open>u64\<close> to \<open>i64\<close> wraps.\<close>

definition drift_is_stale :: "i64 \<Rightarrow> MinimalSpotMarket \<Rightarrow> bool" where
  "drift_is_stale current_timestamp m \<longleftrightarrow>
     (let t = int (last_interest_ts m)
      in (if in_i64 t then t else t - 18446744073709551616) < current_timestamp)"

definition is_being_liquidated :: "MinimalUser \<Rightarrow> bool" where
  "is_being_liquidated u \<longleftrightarrow> du_status u = BeingLiquidated \<or> du_status u = Bankrupt"

definition is_active_deposit :: "SpotPosition \<Rightarrow> bool" where
  "is_active_deposit p \<longleftrightarrow> scaled_balance p > 0 \<and> balance_type p = Deposit"

definition count_active_deposits :: "MinimalUser \<Rightarrow> nat" where
  "count_active_deposits u = length (filter is_active_deposit (spot_positions u))"

definition validate_not_bricked_by_admin_deposits :: "MinimalUser \<Rightarrow> unit res" where
  "validate_not_bricked_by_admin_deposits u =
     (if count_active_deposits u > 3 then Inl (Err DriftMocksTooManyActiveDeposits) else Inr ())"

definition validate_reward_accounts :: "bool \<Rightarrow> bool \<Rightarrow> MinimalUser \<Rightarrow> unit res" where
  "validate_reward_accounts reward_spot_market_is_none reward_spot_market_2_is_none u =
     (let active_deposits = count_active_deposits u
      in if active_deposits \<ge> 2 \<and> reward_spot_market_is_none
           then Inl (Err DriftMocksMissingRewardAccounts)
         else if active_deposits \<ge> 3 \<and> reward_spot_market_2_is_none
           then Inl (Err DriftMocksMissingRewardAccounts)
         else Inr ())"

definition position_index :: "u16 \<Rightarrow> nat" where
  "position_index market_index = (if market_index = 0 then 0 else 1)"

text \<open>A user has eight positions; an index past their end panics.\<close>

definition position_at :: "nat \<Rightarrow> MinimalUser \<Rightarrow> SpotPosition res" where
  "position_at i u = (if i < length (spot_positions u) then Inr (spot_positions u ! i) else Inl Panic)"

definition validate_spot_position :: "u16 \<Rightarrow> MinimalUser \<Rightarrow> unit res" where
  "validate_spot_position market_index u =
     bindR (position_at (position_index market_index) u) (\<lambda>position.
       if scaled_balance position > 0 then
         (if pos_market_index position \<noteq> market_index then Inl (Err DriftMocksInvalidPositionIndex)
          else if balance_type position \<noteq> Deposit then Inl (Err DriftMocksInvalidBalanceType)
          else Inr ())
       else if cumulative_deposits position \<noteq> 0 then Inl (Err DriftMocksInvalidPositionState)
       else Inr ())"

definition user_scaled_balance :: "u16 \<Rightarrow> MinimalUser \<Rightarrow> u64 res" where
  "user_scaled_balance market_index u =
     bindR (position_at (position_index market_index) u) (\<lambda>p. Inr (scaled_balance p))"

fun has_admin_deposit_from :: "nat list \<Rightarrow> u16 \<Rightarrow> MinimalUser \<Rightarrow> unit res" where
  "has_admin_deposit_from [] market_index u = Inl (Err DriftMocksNoAdminDeposit)"
| "has_admin_deposit_from (i # is) market_index u =
     bindR (position_at i u) (\<lambda>p.
       if pos_market_index p = market_index \<and> scaled_balance p > 0 \<and> balance_type p = Deposit
       then Inr () else has_admin_deposit_from is market_index u)"

definition has_admin_deposit :: "u16 \<Rightarrow> MinimalUser \<Rightarrow> unit res" where
  "has_admin_deposit market_index u = has_admin_deposit_from [2..<8] market_index u"

section \<open>Rounding\<close>

lemma u128_mul_Some [res_simps]: "u128_mul a b = Some c \<longleftrightarrow> c = a * b \<and> a * b \<le> u128_limit"
  by (auto simp: u128_mul_def)

lemma u128_div_Some [res_simps]: "u128_div a b = Some c \<longleftrightarrow> b \<noteq> 0 \<and> c = a div b"
  by (auto simp: u128_div_def)

lemma floor_round_trip_nat:
  fixes a p c :: nat
  assumes "0 < p" and "0 < c"
  shows "(a * p div c) * c div p \<le> a"
proof -
  have "(a * p div c) * c \<le> a * p" by simp
  then have "(a * p div c) * c div p \<le> a * p div p" by (rule div_le_mono)
  then show ?thesis using assms(1) by simp
qed

lemma drift_scaled_amount:
  assumes "get_scaled_balance amount up m = Inr b"
  obtains p where "get_precision_increase (sm_decimals m) = Inr p" and "0 < p"
    and "cumulative_deposit_interest m \<noteq> 0"
    and "b = amount * p div cumulative_deposit_interest m
          + (if up \<and> amount * p div cumulative_deposit_interest m \<noteq> 0 then 1 else 0)"
  using assms
  by (auto simp: get_scaled_balance_def bindR_eq_Inr res_simps get_precision_increase_def
      checked_add_u64_def split: if_splits)

theorem drift_deposit_no_gain:
  assumes "get_scaled_balance_increment amount m = Inr b" and "get_withdraw_token_amount b m = Inr a"
  shows "a \<le> amount"
proof -
  obtain p where p: "get_precision_increase (sm_decimals m) = Inr p" "0 < p"
    "cumulative_deposit_interest m \<noteq> 0" "b = amount * p div cumulative_deposit_interest m"
    using assms(1) unfolding get_scaled_balance_increment_def by (elim drift_scaled_amount) simp
  have "a = b * cumulative_deposit_interest m div p"
    using assms(2) p(1) by (auto simp: get_withdraw_token_amount_def bindR_eq_Inr res_simps split: if_splits)
  then show ?thesis using floor_round_trip_nat [of p "cumulative_deposit_interest m" amount] p by simp
qed

theorem drift_withdraw_covered:
  assumes "get_scaled_balance_decrement amount m = Inr b" and "get_withdraw_token_amount b m = Inr a"
    and "b \<noteq> 0"
  shows "amount \<le> a"
proof -
  let ?c = "cumulative_deposit_interest m"
  obtain p where p: "get_precision_increase (sm_decimals m) = Inr p" "0 < p" "?c \<noteq> 0"
    "b = amount * p div ?c + (if amount * p div ?c \<noteq> 0 then 1 else 0)"
    using assms(1) unfolding get_scaled_balance_decrement_def by (elim drift_scaled_amount) simp
  have a: "a = b * ?c div p"
    using assms(2) p(1) by (auto simp: get_withdraw_token_amount_def bindR_eq_Inr res_simps split: if_splits)
  have "b = amount * p div ?c + 1" using p(4) assms(3) by (auto split: if_splits)
  then have "amount * p \<le> b * ?c"
    using p(3) dividend_less_div_times [of ?c "amount * p"] by (simp add: algebra_simps)
  then have "amount * p div p \<le> b * ?c div p" by (rule div_le_mono)
  then show ?thesis using a p(2) by simp
qed

context fixed_arith
begin

lemma reserve_round_trip:
  assumes "liquidity_to_collateral_from_scaled fx n lq cl = Inr c"
    and "collateral_to_liquidity_from_scaled fx c lq cl = Inr n'"
    and "0 \<le> lq" "0 \<le> cl" "n \<le> u64_max"
  shows "n' \<le> n"
proof -
  have lq: "0 < lq" using assms(1,3) by (auto simp: liquidity_to_collateral_from_scaled_def split: if_splits)
  have cl: "0 < cl" using assms(2,4) by (auto simp: collateral_to_liquidity_from_scaled_def split: if_splits)
  have c64: "c \<le> u64_max"
    using assms(1,4) lq
    by (auto simp: liquidity_to_collateral_from_scaled_def bindR_eq_Inr res_simps
        from_num_u64 [OF assms(5)] split: if_splits
        dest!: mul_SomeD div_SomeD to_u64_SomeD)
  have one: "int n * ONE * cl div ONE = int n * cl" "int c * ONE * lq div ONE = int c * lq"
    using ONE_neq_0 by (metis mult.assoc mult.commute nonzero_mult_div_cancel_left)+
  have c: "int c = int n * cl * ONE div lq div ONE"
    using assms(1,4) lq
    by (auto simp: liquidity_to_collateral_from_scaled_def bindR_eq_Inr res_simps one
        from_num_u64 [OF assms(5)] split: if_splits
        dest!: mul_SomeD div_SomeD to_u64_SomeD)
  have n': "int n' = int c * lq * ONE div cl div ONE"
    using assms(2,3) cl
    by (auto simp: collateral_to_liquidity_from_scaled_def bindR_eq_Inr res_simps one
        from_num_u64 [OF c64] split: if_splits
        dest!: mul_SomeD div_SomeD to_u64_SomeD)
  have cancel: "x * ONE div y div ONE = x div y" if "0 < y" for x y :: int
    using that by (metis ONE_nonneg ONE_neq_0 zdiv_zmult2_eq less_imp_le mult.commute
        nonzero_mult_div_cancel_right)
  have "int c = int n * cl div lq" using c cancel [OF lq] by simp
  moreover have "int n * cl div lq * lq \<le> int n * cl"
    using div_mult_mod_eq [of "int n * cl" lq] pos_mod_sign [OF lq, of "int n * cl"] by linarith
  ultimately have "int c * lq \<le> int n * cl" by (simp only:)
  then have "int c * lq div cl \<le> int n * cl div cl" using cl by (rule zdiv_mono1)
  then show ?thesis using n' cancel [OF cl] cl by simp
qed

end

end
