(* ===== verification/Price.thy ===== *)
theory Price
  imports Reserves Guards
begin

text \<open>
  Oracle prices (\<open>state/price.rs\<close>). A price feed is one of three adapters; each gives a price,
  a confidence interval, and prices biased low or high by that interval. A bank's oracle accounts
  are turned into an adapter by \<open>try_from_bank\<close>, which scales the price of staked and integrated
  assets by their exchange rate.

  Reading the accounts of other programs is code of the Pyth, Switchboard, Solana and Anchor crates:
  the record \<open>oracle_lib\<close> has one field per such call. The feature flags of the build (\<open>live!\<close>)
  and the program ids they choose are fields too.
\<close>

section \<open>Feeds\<close>

datatype PriceBias = Low | High

datatype OraclePriceType = TimeWeighted | RealTime

record PythPrice =
  pp_price :: i64
  pp_conf :: u64
  pp_exponent :: i32
  pp_publish_time :: i64

record PythPushOraclePriceFeed =
  ema_price :: PythPrice
  feed_price :: PythPrice

record SwitchboardPullPriceFeed =
  sw_value :: int
  sw_std_dev :: int

datatype OraclePriceFeedAdapter =
    PythPushFeed PythPushOraclePriceFeed
  | SwitchboardFeed SwitchboardPullPriceFeed
  | FixedFeed I80F48

record Clock =
  clock_slot :: u64
  unix_timestamp :: i64
  clock_epoch :: u64

record AccountInfo =
  ai_key :: pubkey
  ai_owner :: pubkey

datatype GetPriceError = PriceTooOld | MismatchedFeedId | InsufficientVerificationLevel
  | FeedIdMustBe32Bytes | FeedIdNonHexCharacter | InvalidWindowSize

datatype StakeState = Stake u64 | OtherStakeState

record PriceFeedMessage =
  msg_exponent :: i32
  msg_publish_time :: i64
  msg_ema_price :: i64
  msg_ema_conf :: u64

record oracle_lib =
  is_live :: bool
  PYTH_ID :: pubkey
  pyth_receiver_id :: pubkey
  SWITCHBOARD_PULL_ID :: pubkey
  swb_precision :: nat
  pyth_discriminator_ok :: "AccountInfo \<Rightarrow> bool res"
  read_price_update :: "AccountInfo \<Rightarrow> PriceFeedMessage res"
  get_price_no_older_than :: "AccountInfo \<Rightarrow> Clock \<Rightarrow> u64 \<Rightarrow> GetPriceError + PythPrice"
  parse_swb :: "AccountInfo \<Rightarrow> (int \<times> int \<times> i64) res"
  mint_supply :: "AccountInfo \<Rightarrow> u64 option"
  stake_state :: "AccountInfo \<Rightarrow> StakeState res"
  read_kamino_reserve :: "AccountInfo \<Rightarrow> MinimalReserve option"
  read_drift_market :: "AccountInfo \<Rightarrow> MinimalSpotMarket option"
  read_solend_reserve :: "AccountInfo \<Rightarrow> SolendMinimalReserve option"

definition from_get_price_error :: "GetPriceError \<Rightarrow> marginfi_error" where
  "from_get_price_error e = (case e of
      PriceTooOld \<Rightarrow> PythPushStalePrice
    | InsufficientVerificationLevel \<Rightarrow> PythPushInsufficientVerificationLevel
    | InvalidWindowSize \<Rightarrow> PythPushInvalidWindowSize
    | MismatchedFeedId \<Rightarrow> PythPushInvalidAccount
    | FeedIdMustBe32Bytes \<Rightarrow> PythPushInvalidAccount
    | FeedIdNonHexCharacter \<Rightarrow> PythPushInvalidAccount)"

section \<open>Prices of a feed\<close>

definition pyth_price_components_to_i80f48 :: "fixed_ops \<Rightarrow> I80F48 \<Rightarrow> i32 \<Rightarrow> I80F48 res" where
  "pyth_price_components_to_i80f48 fx p exponent =
     bindR (exp_10_index (nat \<bar>exponent\<bar>)) (\<lambda>scaling_factor.
       if exponent = 0 then Inr p
       else if exponent < 0 then math (checked_div fx p scaling_factor)
       else math (checked_mul fx p scaling_factor))"

text \<open>
  The second half of both \<open>get_confidence_interval\<close> functions: the interval must not exceed the
  bank's maximum fraction of the price (10\% by default), and is clamped to 5\% of the price.
\<close>

definition clamp_confidence :: "fixed_ops \<Rightarrow> I80F48 \<Rightarrow> I80F48 \<Rightarrow> u32 \<Rightarrow> I80F48 res" where
  "clamp_confidence fx p conf_interval max_conf_cfg =
     bindR (if max_conf_cfg > 0 then unwrap (from_num fx (int max_conf_cfg))
            else Inr U32_MAX_DIV_10) (\<lambda>max_confidence.
     bindR (math (checked_mul fx p max_confidence)) (\<lambda>x.
     bindR (math (checked_div fx x U32_MAX_FX)) (\<lambda>max_conf.
     if conf_interval > max_conf then Inl (Err OracleMaxConfidenceExceeded)
     else bindR (math (checked_mul fx p (MAX_CONF_INTERVAL fx))) (\<lambda>capped.
       if \<not> capped \<ge> 0 then Inl Panic
       else if \<not> conf_interval \<ge> 0 then Inl Panic
       else Inr (min conf_interval capped)))))"

definition pyth_price_value :: "fixed_ops \<Rightarrow> PythPrice \<Rightarrow> I80F48 res" where
  "pyth_price_value fx p =
     bindR (unwrap (from_num fx (pp_price p))) (\<lambda>v.
     pyth_price_components_to_i80f48 fx v (pp_exponent p))"

definition get_ema_price :: "fixed_ops \<Rightarrow> PythPushOraclePriceFeed \<Rightarrow> I80F48 res" where
  "get_ema_price fx f = pyth_price_value fx (ema_price f)"

definition get_unweighted_price :: "fixed_ops \<Rightarrow> PythPushOraclePriceFeed \<Rightarrow> I80F48 res" where
  "get_unweighted_price fx f = pyth_price_value fx (feed_price f)"

definition pyth_get_confidence_interval ::
  "fixed_ops \<Rightarrow> PythPushOraclePriceFeed \<Rightarrow> bool \<Rightarrow> u32 \<Rightarrow> I80F48 res" where
  "pyth_get_confidence_interval fx f use_ema max_conf_cfg =
     (let p = (if use_ema then ema_price f else feed_price f)
      in bindR (unwrap (from_num fx (int (pp_conf p)))) (\<lambda>c.
         bindR (pyth_price_components_to_i80f48 fx c (pp_exponent p)) (\<lambda>conf.
         bindR (math (checked_mul fx conf (CONF_INTERVAL_MULTIPLE fx))) (\<lambda>conf_interval.
         bindR (pyth_price_value fx p) (\<lambda>v.
         clamp_confidence fx v conf_interval max_conf_cfg)))))"

definition swb_get_price :: "fixed_ops \<Rightarrow> oracle_lib \<Rightarrow> SwitchboardPullPriceFeed \<Rightarrow> I80F48 res" where
  "swb_get_price fx lib f =
     bindR (unwrap (from_num fx (sw_value f))) (\<lambda>v.
     bindR (exp_10_index (swb_precision lib)) (\<lambda>scale. math (checked_div fx v scale)))"

definition swb_get_confidence_interval ::
  "fixed_ops \<Rightarrow> oracle_lib \<Rightarrow> SwitchboardPullPriceFeed \<Rightarrow> u32 \<Rightarrow> I80F48 res" where
  "swb_get_confidence_interval fx lib f max_conf_cfg =
     bindR (unwrap (from_num fx (sw_std_dev f))) (\<lambda>s.
     bindR (exp_10_index (swb_precision lib)) (\<lambda>scale.
     bindR (math (checked_div fx s scale)) (\<lambda>d.
     bindR (math (checked_mul fx d (STD_DEV_MULTIPLE fx))) (\<lambda>conf_interval.
     bindR (swb_get_price fx lib f) (\<lambda>p.
     clamp_confidence fx p conf_interval max_conf_cfg)))))"

definition apply_bias :: "fixed_ops \<Rightarrow> PriceBias \<Rightarrow> I80F48 \<Rightarrow> I80F48 \<Rightarrow> I80F48 res" where
  "apply_bias fx bias p confidence_interval = (case bias of
      Low \<Rightarrow> math (checked_sub fx p confidence_interval)
    | High \<Rightarrow> math (checked_add fx p confidence_interval))"

definition raw_price_of_type ::
  "fixed_ops \<Rightarrow> oracle_lib \<Rightarrow> OraclePriceFeedAdapter \<Rightarrow> OraclePriceType \<Rightarrow> I80F48 res" where
  "raw_price_of_type fx lib adapter ty = (case adapter of
      PythPushFeed f \<Rightarrow> (case ty of
          TimeWeighted \<Rightarrow> get_ema_price fx f
        | RealTime \<Rightarrow> get_unweighted_price fx f)
    | SwitchboardFeed f \<Rightarrow> swb_get_price fx lib f
    | FixedFeed p \<Rightarrow> Inr p)"

definition confidence_interval_of_type ::
  "fixed_ops \<Rightarrow> oracle_lib \<Rightarrow> OraclePriceFeedAdapter \<Rightarrow> OraclePriceType \<Rightarrow> u32 \<Rightarrow> I80F48 res" where
  "confidence_interval_of_type fx lib adapter ty max_conf_cfg = (case adapter of
      PythPushFeed f \<Rightarrow> pyth_get_confidence_interval fx f (ty = TimeWeighted) max_conf_cfg
    | SwitchboardFeed f \<Rightarrow> swb_get_confidence_interval fx lib f max_conf_cfg
    | FixedFeed p \<Rightarrow> Inr 0)"

definition get_price_of_type ::
  "fixed_ops \<Rightarrow> oracle_lib \<Rightarrow> OraclePriceFeedAdapter \<Rightarrow> OraclePriceType \<Rightarrow> PriceBias option \<Rightarrow> u32
    \<Rightarrow> I80F48 res" where
  "get_price_of_type fx lib adapter ty bias max_conf_cfg =
     bindR (raw_price_of_type fx lib adapter ty) (\<lambda>p.
     case adapter of FixedFeed _ \<Rightarrow> Inr p | _ \<Rightarrow>
       (case bias of
          None \<Rightarrow> Inr p
        | Some price_bias \<Rightarrow>
            bindR (confidence_interval_of_type fx lib adapter ty max_conf_cfg) (\<lambda>c.
            apply_bias fx price_bias p c)))"

definition get_price_and_confidence_of_type ::
  "fixed_ops \<Rightarrow> oracle_lib \<Rightarrow> OraclePriceFeedAdapter \<Rightarrow> OraclePriceType \<Rightarrow> u32
    \<Rightarrow> OraclePriceWithConfidence res" where
  "get_price_and_confidence_of_type fx lib adapter ty max_conf_cfg =
     bindR (confidence_interval_of_type fx lib adapter ty max_conf_cfg) (\<lambda>c.
     bindR (get_price_of_type fx lib adapter ty None max_conf_cfg) (\<lambda>p.
     Inr \<lparr>opc_price = p, opc_confidence = c\<rparr>))"

definition get_price_of_type_ignore_conf ::
  "fixed_ops \<Rightarrow> oracle_lib \<Rightarrow> OraclePriceFeedAdapter \<Rightarrow> OraclePriceType \<Rightarrow> PriceBias option
    \<Rightarrow> I80F48 res" where
  "get_price_of_type_ignore_conf fx lib adapter ty bias =
     get_price_of_type fx lib adapter ty bias u32_max"

section \<open>Loading a feed from a bank's oracle accounts\<close>

definition load_price_update_v2_checked :: "oracle_lib \<Rightarrow> AccountInfo \<Rightarrow> PriceFeedMessage res" where
  "load_price_update_v2_checked lib ai =
     (if \<not> (if is_live lib then ai_owner ai = pyth_receiver_id lib
             else ai_owner ai = PYTH_ID lib \<or> ai_owner ai = pyth_receiver_id lib)
      then Inl (Err PythPushWrongAccountOwner)
      else bindR (pyth_discriminator_ok lib ai) (\<lambda>ok.
        if \<not> ok then Inl (Err PythPushInvalidAccount) else read_price_update lib ai))"

definition pyth_load_checked ::
  "oracle_lib \<Rightarrow> AccountInfo \<Rightarrow> Clock \<Rightarrow> u64 \<Rightarrow> PythPushOraclePriceFeed res" where
  "pyth_load_checked lib ai clock max_age =
     bindR (load_price_update_v2_checked lib ai) (\<lambda>m.
     case get_price_no_older_than lib ai clock max_age of
       Inl e \<Rightarrow> Inl (Err (from_get_price_error e))
     | Inr p \<Rightarrow> Inr \<lparr>ema_price = \<lparr>pp_price = msg_ema_price m, pp_conf = msg_ema_conf m,
                   pp_exponent = msg_exponent m, pp_publish_time = msg_publish_time m\<rparr>,
                 feed_price = p\<rparr>)"

definition swb_load_checked ::
  "oracle_lib \<Rightarrow> AccountInfo \<Rightarrow> i64 \<Rightarrow> u64 \<Rightarrow> SwitchboardPullPriceFeed res" where
  "swb_load_checked lib ai now max_age =
     (if ai_owner ai \<noteq> SWITCHBOARD_PULL_ID lib then Inl (Err SwitchboardWrongAccountOwner)
      else bindR (parse_swb lib ai) (\<lambda>(v, sd, last_updated).
        if sat_i64 (now - last_updated) > int max_age then Inl (Err SwitchboardStalePrice)
        else Inr \<lparr>sw_value = v, sw_std_dev = sd\<rparr>))"

definition swb_check_ais :: "oracle_lib \<Rightarrow> AccountInfo \<Rightarrow> unit res" where
  "swb_check_ais lib ai =
     (if ai_owner ai \<noteq> SWITCHBOARD_PULL_ID lib then Inl (Err SwitchboardWrongAccountOwner)
      else bindR (parse_swb lib ai) (\<lambda>_. Inr ()))"

text \<open>\<open>bank_config.oracle_keys[i]\<close>: an index past the array panics.\<close>

definition oracle_key :: "BankConfig \<Rightarrow> nat \<Rightarrow> pubkey res" where
  "oracle_key c i = (if i < length (oracle_keys c) then Inr (oracle_keys c ! i) else Inl Panic)"

definition check_key :: "BankConfig \<Rightarrow> nat \<Rightarrow> AccountInfo \<Rightarrow> marginfi_error \<Rightarrow> unit res" where
  "check_key c i ai e = bindR (oracle_key c i) (\<lambda>k. check (ai_key ai = k) e)"

text \<open>The owner check of a Pyth account, relaxed on localnet.\<close>

definition check_pyth_owner :: "oracle_lib \<Rightarrow> AccountInfo \<Rightarrow> marginfi_error \<Rightarrow> unit res" where
  "check_pyth_owner lib ai e =
     check (if is_live lib then ai_owner ai = pyth_receiver_id lib
            else ai_owner ai = PYTH_ID lib \<or> ai_owner ai = pyth_receiver_id lib) e"

text \<open>Scaling a feed by the liquidity per collateral of a reserve, when it has collateral.\<close>

definition adjust_pyth_feed ::
  "fixed_ops \<Rightarrow> I80F48 \<Rightarrow> I80F48 \<Rightarrow> PythPushOraclePriceFeed \<Rightarrow> PythPushOraclePriceFeed res" where
  "adjust_pyth_feed fx total_liq total_col f =
     (if total_col > 0 then
        bindR (unwrap (op_div fx total_liq total_col)) (\<lambda>ratio.
        bindR (none_to MathError (adjust_i64 fx (pp_price (feed_price f)) ratio)) (\<lambda>p.
        bindR (none_to MathError (adjust_i64 fx (pp_price (ema_price f)) ratio)) (\<lambda>e.
        bindR (none_to MathError (adjust_u64 fx (pp_conf (feed_price f)) ratio)) (\<lambda>pc.
        bindR (none_to MathError (adjust_u64 fx (pp_conf (ema_price f)) ratio)) (\<lambda>ec.
        Inr (f\<lparr>feed_price := (feed_price f)\<lparr>pp_price := p, pp_conf := pc\<rparr>,
               ema_price := (ema_price f)\<lparr>pp_price := e, pp_conf := ec\<rparr>\<rparr>))))))
      else Inr f)"

definition adjust_swb_feed ::
  "fixed_ops \<Rightarrow> I80F48 \<Rightarrow> I80F48 \<Rightarrow> SwitchboardPullPriceFeed \<Rightarrow> SwitchboardPullPriceFeed res" where
  "adjust_swb_feed fx total_liq total_col f =
     (if total_col > 0 then
        bindR (unwrap (op_div fx total_liq total_col)) (\<lambda>ratio.
        bindR (none_to MathError (adjust_i128 fx (sw_value f) ratio)) (\<lambda>v.
        bindR (none_to MathError (adjust_i128 fx (sw_std_dev f) ratio)) (\<lambda>d.
        Inr \<lparr>sw_value = v, sw_std_dev = d\<rparr>)))
      else Inr f)"

definition adjust_pyth_feed_drift ::
  "MinimalSpotMarket \<Rightarrow> PythPushOraclePriceFeed \<Rightarrow> PythPushOraclePriceFeed res" where
  "adjust_pyth_feed_drift m f =
     bindR (drift_adjust_i64 (pp_price (feed_price f)) m) (\<lambda>p.
     bindR (drift_adjust_i64 (pp_price (ema_price f)) m) (\<lambda>e.
     bindR (drift_adjust_u64 (pp_conf (feed_price f)) m) (\<lambda>pc.
     bindR (drift_adjust_u64 (pp_conf (ema_price f)) m) (\<lambda>ec.
     Inr (f\<lparr>feed_price := (feed_price f)\<lparr>pp_price := p, pp_conf := pc\<rparr>,
            ema_price := (ema_price f)\<lparr>pp_price := e, pp_conf := ec\<rparr>\<rparr>)))))"

text \<open>
  The price of a staked asset: the pool's stake, less the lamports that stay in it for ever, per
  token. The products fit an \<open>i128\<close>; the division truncates; a result that is no \<open>i64\<close> panics.
\<close>

definition stake_price :: "i64 \<Rightarrow> u64 \<Rightarrow> u64 \<Rightarrow> i64 res" where
  "stake_price p sol_pool_adjusted_balance lst_supply =
     i64_op (trunc_div (p * int sol_pool_adjusted_balance) (int lst_supply))"

definition try_from_staked ::
  "oracle_lib \<Rightarrow> Bank \<Rightarrow> AccountInfo \<Rightarrow> AccountInfo \<Rightarrow> AccountInfo \<Rightarrow> Clock \<Rightarrow> u64
    \<Rightarrow> OraclePriceFeedAdapter res" where
  "try_from_staked lib bank oracle lst_mint sol_pool clock max_age =
     (let c = config bank in
      bindR (check_key c 1 lst_mint WrongOracleAccountKeys) (\<lambda>_.
      bindR (check_key c 2 sol_pool WrongOracleAccountKeys) (\<lambda>_.
      bindR (unwrap (mint_supply lib lst_mint)) (\<lambda>lst_supply.
      bindR (check (lst_supply > 0) ZeroSupplyInStakePool) (\<lambda>_.
      bindR (stake_state lib sol_pool) (\<lambda>state.
      case state of OtherStakeState \<Rightarrow> Inl Panic | Stake sol_pool_balance \<Rightarrow>
      bindR (math (checked_sub_nat sol_pool_balance 1000000000)) (\<lambda>adjusted_balance.
      bindR (check_key c 0 oracle WrongOracleAccountKeys) (\<lambda>_.
      bindR (check_pyth_owner lib oracle StakedPythPushWrongAccountOwner) (\<lambda>_.
      bindR (pyth_load_checked lib oracle clock max_age) (\<lambda>f.
      bindR (stake_price (pp_price (feed_price f)) adjusted_balance lst_supply) (\<lambda>p.
      bindR (stake_price (pp_price (ema_price f)) adjusted_balance lst_supply) (\<lambda>e.
      Inr (PythPushFeed (f\<lparr>feed_price := (feed_price f)\<lparr>pp_price := p\<rparr>,
             ema_price := (ema_price f)\<lparr>pp_price := e\<rparr>\<rparr>))))))))))))))"

definition try_from_kamino ::
  "fixed_ops \<Rightarrow> oracle_lib \<Rightarrow> Bank \<Rightarrow> AccountInfo \<Rightarrow> AccountInfo \<Rightarrow> Clock \<Rightarrow> u64
    \<Rightarrow> OraclePriceFeedAdapter res" where
  "try_from_kamino fx lib bank oracle reserve_info clock max_age =
     (let c = config bank in
      bindR (check_key c 0 oracle WrongOracleAccountKeys) (\<lambda>_.
      bindR (check_key c 1 reserve_info KaminoReserveValidationFailed) (\<lambda>_.
      bindR (ok_or KaminoReserveValidationFailed (read_kamino_reserve lib reserve_info)) (\<lambda>reserve.
      if kamino_is_stale (clock_slot clock) reserve then Inl (Err ReserveStale)
      else if oracle_setup c = KaminoPythPush then
        bindR (check_pyth_owner lib oracle PythPushWrongAccountOwner) (\<lambda>_.
        bindR (pyth_load_checked lib oracle clock max_age) (\<lambda>f.
        bindR (kamino_scaled_supplies fx reserve) (\<lambda>(total_liq, total_col).
        bindR (adjust_pyth_feed fx total_liq total_col f) (\<lambda>f'. Inr (PythPushFeed f')))))
      else
        bindR (swb_load_checked lib oracle (unix_timestamp clock) max_age) (\<lambda>f.
        bindR (kamino_scaled_supplies fx reserve) (\<lambda>(total_liq, total_col).
        bindR (adjust_swb_feed fx total_liq total_col f) (\<lambda>f'. Inr (SwitchboardFeed f'))))))))"

definition try_from_drift ::
  "oracle_lib \<Rightarrow> Bank \<Rightarrow> AccountInfo \<Rightarrow> AccountInfo \<Rightarrow> Clock \<Rightarrow> u64 \<Rightarrow> OraclePriceFeedAdapter res" where
  "try_from_drift lib bank oracle market_info clock max_age =
     (let c = config bank in
      bindR (check_key c 0 oracle WrongOracleAccountKeys) (\<lambda>_.
      bindR (check_key c 1 market_info DriftSpotMarketValidationFailed) (\<lambda>_.
      bindR (ok_or DriftSpotMarketValidationFailed (read_drift_market lib market_info)) (\<lambda>market.
      bindR (check (\<not> drift_is_stale (unix_timestamp clock) market) DriftSpotMarketStale) (\<lambda>_.
      if oracle_setup c = DriftPythPull then
        bindR (check_pyth_owner lib oracle PythPushWrongAccountOwner) (\<lambda>_.
        bindR (pyth_load_checked lib oracle clock max_age) (\<lambda>f.
        bindR (adjust_pyth_feed_drift market f) (\<lambda>f'. Inr (PythPushFeed f'))))
      else
        bindR (swb_load_checked lib oracle (unix_timestamp clock) max_age) (\<lambda>f.
        bindR (drift_adjust_i128 (sw_value f) market) (\<lambda>v.
        bindR (drift_adjust_i128 (sw_std_dev f) market) (\<lambda>d.
        Inr (SwitchboardFeed \<lparr>sw_value = v, sw_std_dev = d\<rparr>)))))))))"

definition try_from_solend ::
  "fixed_ops \<Rightarrow> oracle_lib \<Rightarrow> Bank \<Rightarrow> AccountInfo \<Rightarrow> AccountInfo \<Rightarrow> Clock \<Rightarrow> u64
    \<Rightarrow> OraclePriceFeedAdapter res" where
  "try_from_solend fx lib bank oracle reserve_info clock max_age =
     (let c = config bank; pyth = (oracle_setup c = SolendPythPull) in
      bindR (if pyth then Inr () else check_key c 0 oracle WrongOracleAccountKeys) (\<lambda>_.
      bindR (check_key c 1 reserve_info SolendReserveValidationFailed) (\<lambda>_.
      bindR (ok_or SolendReserveValidationFailed (read_solend_reserve lib reserve_info)) (\<lambda>reserve.
      bindR (check (\<not> solend_is_stale (clock_slot clock) reserve) SolendReserveStale) (\<lambda>_.
      if pyth then
        bindR (check_key c 0 oracle WrongOracleAccountKeys) (\<lambda>_.
        bindR (check_pyth_owner lib oracle PythPushWrongAccountOwner) (\<lambda>_.
        bindR (pyth_load_checked lib oracle clock max_age) (\<lambda>f.
        bindR (solend_scaled_supplies fx reserve) (\<lambda>(total_liq, total_col).
        bindR (adjust_pyth_feed fx total_liq total_col f) (\<lambda>f'. Inr (PythPushFeed f'))))))
      else
        bindR (swb_load_checked lib oracle (unix_timestamp clock) max_age) (\<lambda>f.
        bindR (solend_scaled_supplies fx reserve) (\<lambda>(total_liq, total_col).
        bindR (adjust_swb_feed fx total_liq total_col f) (\<lambda>f'. Inr (SwitchboardFeed f')))))))))"

definition try_from_bank_with_max_age ::
  "fixed_ops \<Rightarrow> oracle_lib \<Rightarrow> Bank \<Rightarrow> AccountInfo list \<Rightarrow> Clock \<Rightarrow> u64
    \<Rightarrow> OraclePriceFeedAdapter res" where
  "try_from_bank_with_max_age fx lib bank ais clock max_age =
     (let c = config bank in case oracle_setup c of
        OracleNone \<Rightarrow> Inl (Err OracleNotSetup)
      | PythLegacy \<Rightarrow> Inl Panic
      | SwitchboardV2 \<Rightarrow> Inl Panic
      | PythPushOracle \<Rightarrow> (case ais of
            [ai] \<Rightarrow>
              bindR (check_pyth_owner lib ai PythPushWrongAccountOwner) (\<lambda>_.
              bindR (check_key c 0 ai WrongOracleAccountKeys) (\<lambda>_.
              bindR (pyth_load_checked lib ai clock max_age) (\<lambda>f. Inr (PythPushFeed f))))
          | _ \<Rightarrow> Inl (Err WrongNumberOfOracleAccounts))
      | SwitchboardPull \<Rightarrow> (case ais of
            [ai] \<Rightarrow>
              bindR (check_key c 0 ai WrongOracleAccountKeys) (\<lambda>_.
              bindR (swb_load_checked lib ai (unix_timestamp clock) max_age) (\<lambda>f.
              Inr (SwitchboardFeed f)))
          | _ \<Rightarrow> Inl (Err WrongNumberOfOracleAccounts))
      | StakedWithPythPush \<Rightarrow> (case ais of
            [a0, a1, a2] \<Rightarrow> try_from_staked lib bank a0 a1 a2 clock max_age
          | _ \<Rightarrow> Inl (Err WrongNumberOfOracleAccounts))
      | OracleFixed \<Rightarrow> (case ais of
            [] \<Rightarrow> if \<not> fixed_price c \<ge> 0 then Inl (Err FixedOraclePriceNegative)
                  else Inr (FixedFeed (fixed_price c))
          | _ \<Rightarrow> Inl (Err WrongNumberOfOracleAccounts))
      | setup \<Rightarrow> (case ais of
            [a0, a1] \<Rightarrow>
              if setup = KaminoPythPush \<or> setup = KaminoSwitchboardPull
                then try_from_kamino fx lib bank a0 a1 clock max_age
              else if setup = DriftPythPull \<or> setup = DriftSwitchboardPull
                then try_from_drift lib bank a0 a1 clock max_age
              else try_from_solend fx lib bank a0 a1 clock max_age
          | _ \<Rightarrow> Inl (Err WrongNumberOfOracleAccounts)))"

definition try_from_bank ::
  "fixed_ops \<Rightarrow> oracle_lib \<Rightarrow> Clock \<Rightarrow> Bank \<Rightarrow> AccountInfo list \<Rightarrow> OraclePriceFeedAdapter res" where
  "try_from_bank fx lib clock bank ais =
     try_from_bank_with_max_age fx lib bank ais clock (get_oracle_max_age (config bank))"

section \<open>Facts\<close>

text \<open>
  The interface of a price source for the risk engine: a low and a high price around a mid price.
\<close>

locale price_band =
  fixes mid :: "I80F48 res" and biased :: "PriceBias \<Rightarrow> I80F48 res"
  assumes low_le: "mid = Inr p \<Longrightarrow> 0 \<le> p \<Longrightarrow> biased Low = Inr l \<Longrightarrow> 0 \<le> l \<and> l \<le> p"
    and le_high: "mid = Inr p \<Longrightarrow> 0 \<le> p \<Longrightarrow> biased High = Inr h \<Longrightarrow> p \<le> h"
    and biased_mid: "biased b = Inr q \<Longrightarrow> \<exists>p. mid = Inr p"
begin

lemma band: "mid = Inr p \<Longrightarrow> 0 \<le> p \<Longrightarrow> biased Low = Inr l \<Longrightarrow> biased High = Inr h \<Longrightarrow>
    0 \<le> l \<and> l \<le> h"
  by (meson low_le le_high order_trans)

lemma high_nonneg: "mid = Inr p \<Longrightarrow> 0 \<le> p \<Longrightarrow> biased High = Inr h \<Longrightarrow> 0 \<le> h"
  by (meson le_high order_trans)

end

context fixed_arith
begin

lemma clamp_confidence_bounds:
  assumes "clamp_confidence fx p conf m = Inr c"
  shows "0 \<le> c" and "0 \<le> p \<Longrightarrow> c \<le> p" and "0 \<le> p \<Longrightarrow> 20 * c * ONE \<le> p * (ONE + 20)"
proof -
  obtain capped where k: "checked_mul fx p (MAX_CONF_INTERVAL fx) = Some capped" "0 \<le> capped"
      "0 \<le> conf" "c = min conf capped"
    using assms by (auto simp: clamp_confidence_def ok_or_eq_Inr elim!: bindR_InrE split: if_splits)
  show "0 \<le> c" using k by simp
  have d: "0 < MAX_CONF_INTERVAL fx" "MAX_CONF_INTERVAL fx < ONE"
    by (rule max_conf_interval_bounds)+
  have d20: "20 * MAX_CONF_INTERVAL fx \<le> ONE + 20"
    using decimal_near [of 5 2] by (simp add: MAX_CONF_INTERVAL_def)
  {
    assume p: "0 \<le> p"
    have "capped = p * MAX_CONF_INTERVAL fx div ONE" using mul_SomeD k(1) p d by simp
    then have cc: "capped * ONE \<le> p * MAX_CONF_INTERVAL fx" by (simp add: div_mult_le)
    have c: "c * ONE \<le> p * MAX_CONF_INTERVAL fx"
      by (rule order_trans [OF mult_right_mono cc]) (use k(4) in auto)
    also have "\<dots> \<le> p * ONE" using p d by (intro mult_left_mono) auto
    finally show "c \<le> p" by simp
    have "20 * (c * ONE) \<le> p * (20 * MAX_CONF_INTERVAL fx)" using c by simp
    also have "\<dots> \<le> p * (ONE + 20)" using p d20 by (intro mult_left_mono) auto
    finally show "20 * c * ONE \<le> p * (ONE + 20)" by simp
  }
qed

lemma confidence_bounds:
  assumes "confidence_interval_of_type fx lib a ty m = Inr c" and "raw_price_of_type fx lib a ty = Inr p"
  shows "0 \<le> c" and "0 \<le> p \<Longrightarrow> c \<le> p" and "0 \<le> p \<Longrightarrow> 20 * c * ONE \<le> p * (ONE + 20)"
proof -
  have "(\<exists>conf. clamp_confidence fx p conf m = Inr c) \<or> c = 0"
    using assms
    by (auto simp: confidence_interval_of_type_def raw_price_of_type_def get_ema_price_def
        get_unweighted_price_def pyth_get_confidence_interval_def swb_get_confidence_interval_def
        Let_def elim!: bindR_InrE split: OraclePriceFeedAdapter.splits OraclePriceType.splits)
  then show "0 \<le> c" and "0 \<le> p \<Longrightarrow> c \<le> p" and "0 \<le> p \<Longrightarrow> 20 * c * ONE \<le> p * (ONE + 20)"
    using clamp_confidence_bounds by auto
qed

lemma price_of_type_cases:
  assumes "get_price_of_type fx lib a ty bias m = Inr q"
  obtains p where "raw_price_of_type fx lib a ty = Inr p" and "bias = None \<or> q = p" and "q = p"
  | p c b where "bias = Some b" and "raw_price_of_type fx lib a ty = Inr p"
      and "confidence_interval_of_type fx lib a ty m = Inr c"
      and "q = (case b of Low \<Rightarrow> p - c | High \<Rightarrow> p + c)"
proof (cases bias)
  case None
  then show ?thesis using assms that(1)
    by (cases a) (auto simp: get_price_of_type_def elim!: bindR_InrE)
next
  case (Some b)
  then show ?thesis using assms that
    by (cases a; cases b)
      (auto simp: get_price_of_type_def apply_bias_def ok_or_eq_Inr elim!: bindR_InrE
        dest!: add_SomeD sub_SomeD)
qed

lemma mid_price: "get_price_of_type fx lib a ty None m = raw_price_of_type fx lib a ty"
  by (cases a) (simp_all add: get_price_of_type_def)

lemma biased_within:
  assumes "get_price_of_type fx lib a ty (Some b) m = Inr q" and "raw_price_of_type fx lib a ty = Inr p"
    and "0 \<le> p"
  shows "b = Low \<Longrightarrow> 0 \<le> q \<and> q \<le> p" and "b = High \<Longrightarrow> p \<le> q"
    and "20 * \<bar>q - p\<bar> * ONE \<le> p * (ONE + 20)"
  using assms confidence_bounds
  by (auto elim!: price_of_type_cases split: PriceBias.splits)

sublocale feed: price_band "get_price_of_type fx lib a ty None m"
    "\<lambda>b. get_price_of_type fx lib a ty (Some b) m"
  for lib :: oracle_lib and a :: OraclePriceFeedAdapter and ty :: OraclePriceType and m :: u32
proof (unfold_locales, goal_cases)
  case (1 p l)
  then show ?case using biased_within(1) by (auto simp: mid_price)
next
  case (2 p h)
  then show ?case using biased_within(2) by (auto simp: mid_price)
next
  case (3 b q)
  then show ?case by (auto simp: mid_price elim: price_of_type_cases)
qed

end

end
