(* ===== verification/Emode.thy ===== *)
theory Emode
  imports BankFacts
begin

text \<open>
  E-mode (\<open>type-crate/src/types/emode.rs\<close>, \<open>state/emode.rs\<close>): a bank lists collateral tags
  that get better weights when they back a loan from it. The configurations of all banks an account
  borrows from are reconciled into their intersection, and the entries of a bank are validated
  against its liability weights. A \<open>BTreeMap\<close> is an association list sorted by key, which is
  the order it is iterated in.
\<close>

section \<open>Entries and configurations\<close>

definition entry_is_empty :: "EmodeEntry \<Rightarrow> bool" where
  "entry_is_empty e \<longleftrightarrow> collateral_bank_emode_tag e = EMODE_TAG_EMPTY"

definition tag_equals :: "EmodeEntry \<Rightarrow> u16 \<Rightarrow> bool" where
  "tag_equals e tag \<longleftrightarrow> collateral_bank_emode_tag e = tag"

definition from_entries :: "EmodeEntry list \<Rightarrow> EmodeConfig res" where
  "from_entries es =
     (if length es > MAX_EMODE_ENTRIES then Inl Panic
      else Inr \<lparr>entries = sort_key collateral_bank_emode_tag es
                 @ replicate (MAX_EMODE_ENTRIES - length es) EmodeEntry_zeroed\<rparr>)"

definition find_with_tag :: "EmodeConfig \<Rightarrow> u16 \<Rightarrow> EmodeEntry option" where
  "find_with_tag c tag =
     (if tag = EMODE_TAG_EMPTY then None else List.find (\<lambda>e. tag_equals e tag) (entries c))"

definition has_entries :: "EmodeConfig \<Rightarrow> bool" where
  "has_entries c \<longleftrightarrow> (\<exists>e \<in> set (entries c). \<not> entry_is_empty e)"

definition emode_is_enabled :: "EmodeSettings \<Rightarrow> bool" where
  "emode_is_enabled s \<longleftrightarrow> flag_get (emode_flags s) EMODE_ON"

definition update_emode_enabled :: "EmodeSettings \<Rightarrow> EmodeSettings" where
  "update_emode_enabled s = s\<lparr>emode_flags :=
     (if has_entries (emode_config s) then flag_put EMODE_ON (emode_flags s)
      else flag_clear EMODE_ON (emode_flags s))\<rparr>"

section \<open>Reconciling configurations\<close>

text \<open>The \<open>and_modify\<close> closure: the lesser flags and the lesser of both weights.\<close>

definition merge_into :: "EmodeEntry \<Rightarrow> EmodeEntry \<Rightarrow> EmodeEntry" where
  "merge_into merged entry = merged\<lparr>
     entry_flags := min (entry_flags merged) (entry_flags entry),
     e_asset_weight_init :=
       (if e_asset_weight_init entry < e_asset_weight_init merged
        then e_asset_weight_init entry else e_asset_weight_init merged),
     e_asset_weight_maint :=
       (if e_asset_weight_maint entry < e_asset_weight_maint merged
        then e_asset_weight_maint entry else e_asset_weight_maint merged)\<rparr>"

type_synonym merged_entries = "(u16 \<times> EmodeEntry \<times> nat) list"

fun merge_entry :: "EmodeEntry \<Rightarrow> merged_entries \<Rightarrow> merged_entries" where
  "merge_entry e [] = [(collateral_bank_emode_tag e, e, 1)]"
| "merge_entry e ((t, m, cnt) # rest) =
     (if collateral_bank_emode_tag e < t
      then (collateral_bank_emode_tag e, e, 1) # (t, m, cnt) # rest
      else if collateral_bank_emode_tag e = t then (t, merge_into m e, cnt + 1) # rest
      else (t, m, cnt) # merge_entry e rest)"

definition merge_cfg :: "EmodeConfig \<Rightarrow> merged_entries \<Rightarrow> merged_entries" where
  "merge_cfg c m = fold (\<lambda>e m. if entry_is_empty e then m else merge_entry e m) (entries c) m"

definition reconcile_emode_configs :: "EmodeConfig list \<Rightarrow> EmodeConfig res" where
  "reconcile_emode_configs configs = (case configs of
      [] \<Rightarrow> Inr EmodeConfig_zeroed
    | first # rest \<Rightarrow>
        (let merged = fold merge_cfg rest (merge_cfg first []);
             num_configs = 1 + length rest;
             buf = map (\<lambda>(_, e, _). e) (filter (\<lambda>(_, _, cnt). cnt = num_configs) merged)
         in if length buf > MAX_EMODE_ENTRIES then Inl Panic else from_entries buf))"

definition reconcile_emode_configs_classic :: "EmodeConfig list \<Rightarrow> EmodeConfig res" where
  "reconcile_emode_configs_classic configs =
     (if configs = [] then Inr EmodeConfig_zeroed
      else if length configs = 1 then Inr (hd configs)
      else let num_configs = length configs;
               merged = fold merge_cfg configs [];
               final_entries =
                 map (\<lambda>(_, e, _). e) (filter (\<lambda>(_, _, cnt). cnt = num_configs) merged)
           in from_entries final_entries)"

section \<open>Validation\<close>

definition calculate_max_leverage :: "fixed_ops \<Rightarrow> I80F48 \<Rightarrow> I80F48 \<Rightarrow> I80F48 res" where
  "calculate_max_leverage fx collateral_weight liability_weight =
     (if \<not> liability_weight > 0 then Inl (Err BadEmodeConfig)
      else if \<not> collateral_weight < liability_weight then Inl (Err BadEmodeConfig)
      else bindR (math (checked_div fx collateral_weight liability_weight)) (\<lambda>ratio.
           bindR (unwrap (op_sub fx ONE ratio)) (\<lambda>denominator.
           if \<not> denominator > 0 then Inl (Err BadEmodeConfig)
           else math (checked_div fx ONE denominator))))"

text \<open>\<open>windows(2).any(|w| w[0] == w[1])\<close>.\<close>

fun adjacent_equal :: "nat list \<Rightarrow> bool" where
  "adjacent_equal (x # y # zs) \<longleftrightarrow> x = y \<or> adjacent_equal (y # zs)"
| "adjacent_equal _ \<longleftrightarrow> False"

definition nonempty_tags :: "EmodeConfig \<Rightarrow> u16 list" where
  "nonempty_tags c =
     map collateral_bank_emode_tag (filter (\<lambda>e. \<not> entry_is_empty e) (entries c))"

definition check_dupes :: "EmodeSettings \<Rightarrow> unit res" where
  "check_dupes s =
     (if adjacent_equal (nonempty_tags (emode_config s)) then Inl (Err BadEmodeConfig) else Inr ())"

definition validate_entry ::
  "fixed_ops \<Rightarrow> I80F48 \<Rightarrow> I80F48 \<Rightarrow> I80F48 \<Rightarrow> I80F48 \<Rightarrow> EmodeEntry \<Rightarrow> unit res" where
  "validate_entry fx liab_init_w liab_maint_w max_init max_maint e =
     (if entry_is_empty e then Inr ()
      else let asset_init_w = e_asset_weight_init e; asset_maint_w = e_asset_weight_maint e in
        if \<not> asset_init_w \<ge> 0 then Inl (Err BadEmodeConfig)
        else if \<not> asset_maint_w \<ge> asset_init_w then Inl (Err BadEmodeConfig)
        else bindR (calculate_max_leverage fx asset_init_w liab_init_w) (\<lambda>li.
          if \<not> li \<le> max_init then Inl (Err BadEmodeConfig)
          else bindR (calculate_max_leverage fx asset_maint_w liab_maint_w) (\<lambda>lm.
            if \<not> lm \<le> max_maint then Inl (Err BadEmodeConfig) else Inr ())))"

definition validate_entries_with_liability_weights ::
  "fixed_ops \<Rightarrow> BankConfig \<Rightarrow> u32 \<Rightarrow> u32 \<Rightarrow> EmodeSettings \<Rightarrow> unit res" where
  "validate_entries_with_liability_weights fx c max_init_leverage max_maint_leverage s =
     (let liab_init_w = get_weight c Initial Liabilities;
          liab_maint_w = get_weight c Maintenance Liabilities
      in bindR (u32_to_basis fx max_init_leverage) (\<lambda>max_init.
         bindR (u32_to_basis fx max_maint_leverage) (\<lambda>max_maint.
         bindR (foldR (\<lambda>e _. validate_entry fx liab_init_w liab_maint_w max_init max_maint e)
                  (entries (emode_config s)) ()) (\<lambda>_.
         check_dupes s))))"

section \<open>Facts\<close>

text \<open>A configuration with at most ten entries whose non-empty tags are distinct.\<close>

definition emode_unique :: "EmodeConfig \<Rightarrow> bool" where
  "emode_unique c \<longleftrightarrow> length (entries c) \<le> MAX_EMODE_ENTRIES \<and> distinct (nonempty_tags c)"

text \<open>What reconciling means: the entry that a tag gets from several configurations.\<close>

definition least_entry :: "u16 \<Rightarrow> EmodeEntry list \<Rightarrow> EmodeEntry" where
  "least_entry t es = \<lparr>collateral_bank_emode_tag = t, entry_flags = Min (entry_flags ` set es),
     e_asset_weight_init = Min (e_asset_weight_init ` set es),
     e_asset_weight_maint = Min (e_asset_weight_maint ` set es)\<rparr>"

definition emode_intersection :: "EmodeConfig list \<Rightarrow> u16 \<Rightarrow> EmodeEntry option" where
  "emode_intersection cs t =
     (if cs \<noteq> [] \<and> list_all (\<lambda>c. find_with_tag c t \<noteq> None) cs
      then Some (least_entry t (map (\<lambda>c. the (find_with_tag c t)) cs)) else None)"

lemma adjacent_equal_sorted: "sorted xs \<Longrightarrow> adjacent_equal xs \<longleftrightarrow> \<not> distinct xs"
proof (induction xs rule: adjacent_equal.induct)
  case (1 x y zs)
  then show ?case by (cases "x = y") auto
qed simp_all

lemma find_distinct:
  assumes "distinct (map f (filter p xs))" and "e \<in> set xs" and "p e"
    and "\<And>x. f x = f e \<Longrightarrow> p x"
  shows "List.find (\<lambda>x. f x = f e) xs = Some e"
  using assms
proof (induction xs)
  case Nil
  then show ?case by simp
next
  case (Cons x xs)
  show ?case
  proof (cases "f x = f e")
    case True
    then have "p x" using Cons.prems(4) by blast
    then have "x = e" using Cons.prems(1,2,3) True by auto
    then show ?thesis by simp
  next
    case False
    then show ?thesis using Cons by (auto split: if_splits)
  qed
qed

lemma find_with_tag_Some_iff:
  assumes "emode_unique c"
  shows "find_with_tag c t = Some e \<longleftrightarrow>
    e \<in> set (entries c) \<and> collateral_bank_emode_tag e = t \<and> t \<noteq> EMODE_TAG_EMPTY"
proof
  assume "find_with_tag c t = Some e"
  then show "e \<in> set (entries c) \<and> collateral_bank_emode_tag e = t \<and> t \<noteq> EMODE_TAG_EMPTY"
    by (auto simp: find_with_tag_def tag_equals_def find_Some_iff split: if_splits)
next
  assume e: "e \<in> set (entries c) \<and> collateral_bank_emode_tag e = t \<and> t \<noteq> EMODE_TAG_EMPTY"
  have "List.find (\<lambda>x. collateral_bank_emode_tag x = collateral_bank_emode_tag e) (entries c)
      = Some e"
    by (rule find_distinct [where p = "\<lambda>e. \<not> entry_is_empty e"])
      (use assms e in \<open>auto simp: emode_unique_def nonempty_tags_def entry_is_empty_def\<close>)
  then show "find_with_tag c t = Some e" using e by (simp add: find_with_tag_def tag_equals_def)
qed

lemma find_with_tag_None_iff:
  "find_with_tag c t = None \<longleftrightarrow>
     t = EMODE_TAG_EMPTY \<or> t \<notin> collateral_bank_emode_tag ` set (entries c)"
  by (auto simp: find_with_tag_def tag_equals_def find_None_iff)

subsection \<open>The merged map\<close>

definition keyed :: "merged_entries \<Rightarrow> bool" where
  "keyed m \<longleftrightarrow> sorted_wrt (<) (map fst m)"

lemma keyed_distinct: "keyed m \<Longrightarrow> distinct (map fst m)"
  by (simp add: keyed_def strict_sorted_iff)

lemma merge_entry_keys: "fst ` set (merge_entry e m) = insert (collateral_bank_emode_tag e) (fst ` set m)"
  by (induction e m rule: merge_entry.induct) auto

lemma keyed_tail: "keyed (x # m) \<longleftrightarrow> (\<forall>k \<in> fst ` set m. fst x < k) \<and> keyed m"
  by (auto simp: keyed_def)

lemma merge_entry_keyed: "keyed m \<Longrightarrow> keyed (merge_entry e m)"
proof (induction e m rule: merge_entry.induct)
  case (1 e)
  then show ?case by (simp add: keyed_def)
next
  case (2 e t m cnt rest)
  have r: "keyed rest" and lt: "\<forall>k \<in> fst ` set rest. t < k"
    using "2.prems" by (auto simp: keyed_tail)
  show ?case
  proof (cases "collateral_bank_emode_tag e \<le> t")
    case True
    then show ?thesis using r lt by (auto simp: keyed_tail)
  next
    case False
    then have "keyed (merge_entry e rest)" using "2.IH" r by simp
    then show ?thesis using False lt by (simp add: keyed_tail merge_entry_keys)
  qed
qed

lemma merge_entry_lookup:
  "keyed m \<Longrightarrow> map_of (merge_entry e m) t =
     (if t = collateral_bank_emode_tag e
      then Some (case map_of m t of None \<Rightarrow> (e, 1) | Some (m0, n) \<Rightarrow> (merge_into m0 e, n + 1))
      else map_of m t)"
proof (induction e m rule: merge_entry.induct)
  case (1 e)
  then show ?case by simp
next
  case (2 e t' m0 cnt rest)
  have r: "keyed rest" and lt: "\<forall>k \<in> fst ` set rest. t' < k"
    using "2.prems" by (auto simp: keyed_tail)
  show ?case
  proof (cases "collateral_bank_emode_tag e < t'")
    case True
    then have "map_of ((t', m0, cnt) # rest) (collateral_bank_emode_tag e) = None"
      using lt by (force simp: map_of_eq_None_iff)
    then show ?thesis using True by auto
  next
    case False
    then show ?thesis using "2.IH" r by auto
  qed
qed

lemma merge_into_least:
  assumes "l \<noteq> []" and "collateral_bank_emode_tag e = t"
  shows "merge_into (least_entry t l) e = least_entry t (l @ [e])"
proof -
  have 1: "Min (f ` set (l @ [e])) = min (Min (f ` set l)) (f e)" for f :: "EmodeEntry \<Rightarrow> 'x::linorder"
    using assms(1) by (simp add: min.commute)
  have 2: "(if b < a then b else a) = min a b" for a b :: "'y::linorder" by (auto simp: min_def)
  show ?thesis unfolding merge_into_def least_entry_def 1 2 by simp
qed

lemma least_entry_single: "collateral_bank_emode_tag e = t \<Longrightarrow> least_entry t [e] = e"
  by (cases e) (simp add: least_entry_def)

lemma merged_lookup:
  "keyed (fold merge_entry es []) \<and>
   map_of (fold merge_entry es []) t =
     (let l = filter (\<lambda>e. collateral_bank_emode_tag e = t) es
      in if l = [] then None else Some (least_entry t l, length l))"
proof (induction es rule: rev_induct)
  case Nil
  then show ?case by (simp add: keyed_def)
next
  case (snoc e es)
  then have k: "keyed (fold merge_entry es [])" by blast
  let ?l = "filter (\<lambda>e. collateral_bank_emode_tag e = t) es"
  have "map_of (merge_entry e (fold merge_entry es [])) t =
     (let l = filter (\<lambda>e. collateral_bank_emode_tag e = t) (es @ [e])
      in if l = [] then None else Some (least_entry t l, length l))"
    using snoc by (cases "?l = []")
      (auto simp: merge_entry_lookup [OF k] Let_def merge_into_least least_entry_single)
  then show ?case using merge_entry_keyed [OF k] by simp
qed

lemma merge_cfg_filter:
  "merge_cfg c m = fold merge_entry (filter (\<lambda>e. \<not> entry_is_empty e) (entries c)) m"
proof -
  have "fold (\<lambda>e m. if entry_is_empty e then m else merge_entry e m) es m
      = fold merge_entry (filter (\<lambda>e. \<not> entry_is_empty e) es) m" for es
    by (induction es arbitrary: m) auto
  then show ?thesis by (simp add: merge_cfg_def)
qed

definition all_entries :: "EmodeConfig list \<Rightarrow> EmodeEntry list" where
  "all_entries cs = concat (map (\<lambda>c. filter (\<lambda>e. \<not> entry_is_empty e) (entries c)) cs)"

lemma fold_merge_cfg: "fold merge_cfg cs m = fold merge_entry (all_entries cs) m"
  by (induction cs arbitrary: m) (simp_all add: merge_cfg_filter all_entries_def)

text \<open>The occurrences of a tag in configurations with unique tags: one per configuration that has it.\<close>

lemma filter_tag_unique:
  assumes "emode_unique c" and "t \<noteq> EMODE_TAG_EMPTY"
  shows "filter (\<lambda>e. collateral_bank_emode_tag e = t) (filter (\<lambda>e. \<not> entry_is_empty e) (entries c))
    = (case find_with_tag c t of None \<Rightarrow> [] | Some e \<Rightarrow> [e])"
proof -
  let ?l = "filter (\<lambda>e. \<not> entry_is_empty e) (entries c)"
  have d: "distinct (map collateral_bank_emode_tag ?l)"
    using assms by (simp add: emode_unique_def nonempty_tags_def)
  have one: "filter (\<lambda>e. f e = f x) xs = [x]"
    if "distinct (map f xs)" "x \<in> set xs" for f :: "EmodeEntry \<Rightarrow> nat" and x xs
    using that by (induction xs) (auto simp: filter_empty_conv, metis imageI)
  show ?thesis
  proof (cases "find_with_tag c t")
    case None
    then have "t \<notin> collateral_bank_emode_tag ` set (entries c)"
      using assms(2) by (simp add: find_with_tag_None_iff)
    with None show ?thesis by (auto simp: filter_empty_conv)
  next
    case (Some e)
    then have "e \<in> set ?l" and t: "collateral_bank_emode_tag e = t"
      using assms by (auto simp: find_with_tag_Some_iff entry_is_empty_def)
    then show ?thesis using one [OF d] Some by auto
  qed
qed

lemma all_entries_tag:
  assumes "\<forall>c \<in> set cs. emode_unique c" and "t \<noteq> EMODE_TAG_EMPTY"
  shows "filter (\<lambda>e. collateral_bank_emode_tag e = t) (all_entries cs)
    = map (\<lambda>c. the (find_with_tag c t)) (filter (\<lambda>c. find_with_tag c t \<noteq> None) cs)"
  using assms(1)
proof (induction cs)
  case Nil
  then show ?case by (simp add: all_entries_def)
next
  case (Cons c cs)
  then show ?case using filter_tag_unique [of c t] assms(2)
    by (auto simp: all_entries_def split: option.splits)
qed

subsection \<open>The reconciled configuration\<close>

definition common_entries :: "EmodeConfig list \<Rightarrow> EmodeEntry list" where
  "common_entries cs = map (\<lambda>(_, e, _). e)
     (filter (\<lambda>(_, _, cnt). cnt = length cs) (fold merge_entry (all_entries cs) []))"

lemma reconcile_common:
  "cs \<noteq> [] \<Longrightarrow> reconcile_emode_configs cs = from_entries (common_entries cs)"
  by (cases cs) (simp_all add: reconcile_emode_configs_def common_entries_def from_entries_def Let_def
      flip: fold_merge_cfg)

lemma classic_common:
  "1 < length cs \<Longrightarrow> reconcile_emode_configs_classic cs = from_entries (common_entries cs)"
  by (cases cs) (auto simp: reconcile_emode_configs_classic_def common_entries_def Let_def
      simp flip: fold_merge_cfg)

lemma merged_member:
  "(t, e, n) \<in> set (fold merge_entry (all_entries cs) []) \<longleftrightarrow>
     (let l = filter (\<lambda>e. collateral_bank_emode_tag e = t) (all_entries cs)
      in l \<noteq> [] \<and> e = least_entry t l \<and> n = length l)"
proof -
  let ?m = "fold merge_entry (all_entries cs) []"
  have "distinct (map fst ?m)" using merged_lookup keyed_distinct by blast
  then have "(t, e, n) \<in> set ?m \<longleftrightarrow> map_of ?m t = Some (e, n)" by (simp add: map_of_eq_Some_iff)
  also have "\<dots> \<longleftrightarrow> (let l = filter (\<lambda>e. collateral_bank_emode_tag e = t) (all_entries cs)
      in l \<noteq> [] \<and> e = least_entry t l \<and> n = length l)"
    using merged_lookup [of "all_entries cs" t] by (auto simp: Let_def)
  finally show ?thesis .
qed

lemma common_entries_tags: "distinct (map collateral_bank_emode_tag (common_entries cs))"
proof -
  let ?m = "filter (\<lambda>(_, _, cnt). cnt = length cs) (fold merge_entry (all_entries cs) [])"
  have "map collateral_bank_emode_tag (common_entries cs) = map fst ?m"
    by (auto simp: common_entries_def merged_member Let_def least_entry_def split_beta)
  moreover have "distinct (map fst (fold merge_entry (all_entries cs) []))"
    using merged_lookup keyed_distinct by blast
  then have "distinct (map fst ?m)" by (rule distinct_map_filter)
  ultimately show ?thesis by simp
qed

lemma all_entries_nonempty: "e \<in> set (all_entries cs) \<Longrightarrow> collateral_bank_emode_tag e \<noteq> EMODE_TAG_EMPTY"
  by (auto simp: all_entries_def entry_is_empty_def)

lemma common_entries_member:
  assumes "\<forall>c \<in> set cs. emode_unique c" and "cs \<noteq> []"
  shows "e \<in> set (common_entries cs) \<longleftrightarrow>
    (\<exists>t. t \<noteq> EMODE_TAG_EMPTY \<and> emode_intersection cs t = Some e)"
proof -
  have occ: "(let l = filter (\<lambda>e. collateral_bank_emode_tag e = t) (all_entries cs)
      in l \<noteq> [] \<and> e = least_entry t l \<and> length cs = length l)
    \<longleftrightarrow> t \<noteq> EMODE_TAG_EMPTY \<and> emode_intersection cs t = Some e" for t
  proof (cases "t = EMODE_TAG_EMPTY")
    case True
    then show ?thesis using all_entries_nonempty by (auto simp: filter_empty_conv)
  next
    case False
    let ?has = "filter (\<lambda>c. find_with_tag c t \<noteq> None) cs"
    have l: "filter (\<lambda>e. collateral_bank_emode_tag e = t) (all_entries cs)
        = map (\<lambda>c. the (find_with_tag c t)) ?has"
      by (rule all_entries_tag [OF assms(1) False])
    have all: "length cs = length ?has \<longleftrightarrow> list_all (\<lambda>c. find_with_tag c t \<noteq> None) cs"
    proof
      assume "length cs = length ?has"
      then show "list_all (\<lambda>c. find_with_tag c t \<noteq> None) cs"
        unfolding list_all_iff using length_filter_less [of _ cs "\<lambda>c. find_with_tag c t \<noteq> None"]
        by (metis less_irrefl)
    next
      assume "list_all (\<lambda>c. find_with_tag c t \<noteq> None) cs"
      then have "?has = cs" unfolding list_all_iff by (rule filter_True)
      then show "length cs = length ?has" by (rule arg_cong [OF sym])
    qed
    show ?thesis
    proof (cases "list_all (\<lambda>c. find_with_tag c t \<noteq> None) cs")
      case True
      then have "?has = cs" by (simp add: list_all_iff)
      with True show ?thesis using assms(2) False
        by (simp only: l Let_def emode_intersection_def) auto
    next
      case False
      then have "length cs \<noteq> length ?has" using all by blast
      with False show ?thesis by (simp only: l Let_def emode_intersection_def) auto
    qed
  qed
  have "e \<in> set (common_entries cs) \<longleftrightarrow>
      (\<exists>t. (t, e, length cs) \<in> set (fold merge_entry (all_entries cs) []))"
    by (force simp: common_entries_def)
  then show ?thesis by (simp only: merged_member occ)
qed

lemma intersection_tag: "emode_intersection cs t = Some e \<Longrightarrow> collateral_bank_emode_tag e = t"
  by (auto simp: emode_intersection_def least_entry_def split: if_splits)

lemma common_entries_length:
  assumes "\<forall>c \<in> set cs. emode_unique c" and "cs \<noteq> []"
  shows "length (common_entries cs) \<le> MAX_EMODE_ENTRIES"
proof -
  obtain c rest where cs: "cs = c # rest" using assms(2) by (cases cs) auto
  have "set (map collateral_bank_emode_tag (common_entries cs))
      \<subseteq> set (map collateral_bank_emode_tag (entries c))"
  proof
    fix t assume "t \<in> set (map collateral_bank_emode_tag (common_entries cs))"
    then obtain e where "e \<in> set (common_entries cs)" and t: "collateral_bank_emode_tag e = t" by auto
    then obtain t' where "t' \<noteq> EMODE_TAG_EMPTY" "emode_intersection cs t' = Some e"
      using common_entries_member [OF assms] by blast
    then have "emode_intersection cs t = Some e" "t \<noteq> EMODE_TAG_EMPTY"
      using intersection_tag t by auto
    then show "t \<in> set (map collateral_bank_emode_tag (entries c))"
      by (auto simp: cs emode_intersection_def find_with_tag_None_iff split: if_splits)
  qed
  then have "card (set (map collateral_bank_emode_tag (common_entries cs)))
      \<le> card (set (map collateral_bank_emode_tag (entries c)))" by (intro card_mono) auto
  also have "\<dots> \<le> length (entries c)" by (metis card_length length_map)
  also have "\<dots> \<le> MAX_EMODE_ENTRIES" using assms(1) cs by (simp add: emode_unique_def)
  finally show ?thesis using distinct_card [OF common_entries_tags [of cs]] by simp
qed

lemma zeroed_is_empty [simp]: "entry_is_empty EmodeEntry_zeroed"
  by (simp add: entry_is_empty_def EmodeEntry_zeroed_def EMODE_TAG_EMPTY_def)

lemma from_entries_find:
  assumes "from_entries es = Inr r" and "distinct (map collateral_bank_emode_tag es)"
  shows "emode_unique r \<and> length (entries r) = MAX_EMODE_ENTRIES
    \<and> (find_with_tag r t = Some e \<longleftrightarrow>
         e \<in> set es \<and> collateral_bank_emode_tag e = t \<and> t \<noteq> EMODE_TAG_EMPTY)"
proof -
  have len: "length es \<le> MAX_EMODE_ENTRIES" and r: "entries r =
      sort_key collateral_bank_emode_tag es @ replicate (MAX_EMODE_ENTRIES - length es) EmodeEntry_zeroed"
    using assms(1) by (auto simp: from_entries_def split: if_splits)
  have "distinct (map collateral_bank_emode_tag (sort_key collateral_bank_emode_tag es))"
    using assms(2) by (simp add: distinct_map)
  then have "distinct (nonempty_tags r)"
    by (simp add: nonempty_tags_def r distinct_map_filter)
  then have u: "emode_unique r" using len by (simp add: emode_unique_def r)
  have z: "collateral_bank_emode_tag EmodeEntry_zeroed = EMODE_TAG_EMPTY"
    using zeroed_is_empty by (simp add: entry_is_empty_def)
  show ?thesis
    using u len z by (auto simp: find_with_tag_Some_iff [OF u] r)
qed

theorem reconcile_intersection:
  assumes "\<forall>c \<in> set cs. emode_unique c"
  shows "\<exists>r. reconcile_emode_configs cs = Inr r \<and> emode_unique r
    \<and> length (entries r) = MAX_EMODE_ENTRIES \<and> (\<forall>t. find_with_tag r t = emode_intersection cs t)"
proof (cases "cs = []")
  case True
  have "find_with_tag EmodeConfig_zeroed t = None" for t
    using zeroed_is_empty
    by (auto simp: find_with_tag_None_iff EmodeConfig_zeroed_def entry_is_empty_def)
  then show ?thesis using True
    by (auto simp: reconcile_emode_configs_def EmodeConfig_zeroed_def emode_unique_def
        nonempty_tags_def emode_intersection_def)
next
  case False
  obtain r where r: "from_entries (common_entries cs) = Inr r"
    using common_entries_length [OF assms False] by (simp add: from_entries_def)
  note f = from_entries_find [OF r common_entries_tags]
  have "find_with_tag r t = Some e \<longleftrightarrow> emode_intersection cs t = Some e" for t e
  proof
    assume "find_with_tag r t = Some e"
    then show "emode_intersection cs t = Some e"
      using f common_entries_member [OF assms False] intersection_tag by fastforce
  next
    assume e: "emode_intersection cs t = Some e"
    then have "t \<noteq> EMODE_TAG_EMPTY"
      by (cases cs) (auto simp: emode_intersection_def find_with_tag_def split: if_splits)
    with e show "find_with_tag r t = Some e"
      using f common_entries_member [OF assms False] intersection_tag by blast
  qed
  then have "\<forall>t. find_with_tag r t = emode_intersection cs t"
    by (metis not_None_eq)
  then show ?thesis using f reconcile_common [OF False] r by auto
qed

lemma foldR_check: "foldR (\<lambda>x _. g x) xs () = Inr () \<longleftrightarrow> (\<forall>x \<in> set xs. g x = Inr ())"
  by (induction xs) (auto simp: bindR_eq_Inr)

lemma validate_entries_ok:
  assumes "validate_entries_with_liability_weights fx c il ml s = Inr ()"
  shows "\<not> adjacent_equal (nonempty_tags (emode_config s))"
    and "\<And>e. e \<in> set (entries (emode_config s)) \<Longrightarrow> \<not> entry_is_empty e \<Longrightarrow>
      0 \<le> e_asset_weight_init e \<and> e_asset_weight_init e \<le> e_asset_weight_maint e
      \<and> e_asset_weight_init e < liability_weight_init c
      \<and> e_asset_weight_maint e < liability_weight_maint c"
proof -
  show "\<not> adjacent_equal (nonempty_tags (emode_config s))"
    using assms by (auto simp: validate_entries_with_liability_weights_def check_dupes_def
        bindR_eq_Inr split: if_splits)
  obtain mi mm where "foldR (\<lambda>e _. validate_entry fx (get_weight c Initial Liabilities)
      (get_weight c Maintenance Liabilities) mi mm e) (entries (emode_config s)) () = Inr ()"
    using assms by (auto simp: validate_entries_with_liability_weights_def bindR_eq_Inr Let_def)
  then have v: "\<forall>e \<in> set (entries (emode_config s)). validate_entry fx (liability_weight_init c)
      (liability_weight_maint c) mi mm e = Inr ()"
    by (simp add: foldR_check get_weight_def)
  show "0 \<le> e_asset_weight_init e \<and> e_asset_weight_init e \<le> e_asset_weight_maint e
      \<and> e_asset_weight_init e < liability_weight_init c
      \<and> e_asset_weight_maint e < liability_weight_maint c"
    if "e \<in> set (entries (emode_config s))" "\<not> entry_is_empty e" for e
    using v that by (auto simp: validate_entry_def calculate_max_leverage_def Let_def bindR_eq_Inr
        split: if_splits)
qed

text \<open>
  The leverage that recursive borrowing reaches with weights \<open>cw < lw\<close> is \<open>1 / (1 - cw / lw)\<close>; it
  stays within \<open>cap\<close>, up to the last bit of the ratio and of the leverage.
\<close>

definition leverage_within :: "I80F48 \<Rightarrow> I80F48 \<Rightarrow> I80F48 \<Rightarrow> bool" where
  "leverage_within cap cw lw \<longleftrightarrow> cw < lw \<and> lw * ONE * ONE < (cap + 1) * ((lw - cw) * ONE + lw)"

lemma validate_entries_each:
  assumes "validate_entries_with_liability_weights fx c il ml s = Inr ()"
  obtains mi mm where "u32_to_basis fx il = Inr mi" and "u32_to_basis fx ml = Inr mm"
    and "\<And>e. e \<in> set (entries (emode_config s)) \<Longrightarrow> \<not> entry_is_empty e \<Longrightarrow>
      0 \<le> e_asset_weight_init e \<and> e_asset_weight_init e \<le> e_asset_weight_maint e
      \<and> (\<exists>li lm. calculate_max_leverage fx (e_asset_weight_init e) (liability_weight_init c) = Inr li \<and> li \<le> mi
           \<and> calculate_max_leverage fx (e_asset_weight_maint e) (liability_weight_maint c) = Inr lm \<and> lm \<le> mm)"
proof -
  obtain mi mm where m: "u32_to_basis fx il = Inr mi" "u32_to_basis fx ml = Inr mm"
    and f: "foldR (\<lambda>e _. validate_entry fx (get_weight c Initial Liabilities)
      (get_weight c Maintenance Liabilities) mi mm e) (entries (emode_config s)) () = Inr ()"
    using assms by (auto simp: validate_entries_with_liability_weights_def bindR_eq_Inr Let_def)
  then have v: "\<forall>e \<in> set (entries (emode_config s)). validate_entry fx (liability_weight_init c)
      (liability_weight_maint c) mi mm e = Inr ()"
    by (simp add: foldR_check get_weight_def)
  show thesis
    by (rule that [OF m]) (use v in \<open>auto simp: validate_entry_def Let_def bindR_eq_Inr split: if_splits\<close>)
qed

context fixed_arith
begin

lemma max_leverage_within:
  assumes "calculate_max_leverage fx cw lw = Inr l" and "l \<le> cap" and "0 \<le> cw"
  shows "leverage_within cap cw lw"
proof -
  obtain r d where w: "0 < lw" "cw < lw" and r: "checked_div fx cw lw = Some r"
    and d: "op_sub fx ONE r = Some d" "0 < d" and l: "checked_div fx ONE d = Some l"
    using assms(1) by (auto simp: calculate_max_leverage_def bindR_eq_Inr res_simps unwrap_def split: if_splits option.splits)
  have r': "r = cw * ONE div lw" "0 \<le> r" using div_SomeD [OF r assms(3) w(1)] by auto
  have "cw * ONE \<le> lw * ONE" using w(2) by (intro mult_right_mono) simp_all
  then have "cw * ONE div lw \<le> lw * ONE div lw" using w(1) by (intro zdiv_mono1)
  then have "r \<le> ONE" using w(1) r'(1) by simp
  then have "in_fx (ONE - r)" using r'(2) in_fx_mono [OF in_fx_ONE, of "ONE - r"] by simp
  then have d': "d = ONE - r" using minus [of ONE r] d(1) by simp
  have l': "l = ONE * ONE div d" "0 \<le> l" using div_SomeD [OF l _ d(2)] by simp_all
  have "ONE * ONE = l * d + ONE * ONE mod d" unfolding l'(1) by (rule div_mult_mod_eq [symmetric])
  also have "\<dots> < l * d + d" using pos_mod_bound [OF d(2)] by (rule add_strict_left_mono)
  also have "\<dots> = (l + 1) * d" by (simp add: distrib_right)
  also have "\<dots> \<le> (cap + 1) * d" using assms(2) d(2) by (intro mult_right_mono) simp_all
  finally have one: "ONE * ONE < (cap + 1) * d" .
  have "cw * ONE = r * lw + cw * ONE mod lw" unfolding r'(1) by (rule div_mult_mod_eq [symmetric])
  also have "\<dots> < r * lw + lw" using pos_mod_bound [OF w(1)] by (rule add_strict_left_mono)
  finally have "cw * ONE < r * lw + lw" .
  then have dl: "d * lw \<le> (lw - cw) * ONE + lw" by (simp add: d' algebra_simps)
  have "lw * ONE * ONE = ONE * ONE * lw" by (simp add: ac_simps)
  also have "\<dots> < (cap + 1) * d * lw" using one w(1) by (intro mult_strict_right_mono)
  also have "\<dots> = (cap + 1) * (d * lw)" by (simp only: mult.assoc)
  also have "\<dots> \<le> (cap + 1) * ((lw - cw) * ONE + lw)" using dl assms(2) l'(2) by (intro mult_left_mono) simp_all
  finally show ?thesis using w(2) by (simp add: leverage_within_def)
qed

end

end
