(* ===== verification/GroupIx.thy ===== *)
theory GroupIx
  imports PauseState GroupState Guards
begin

text \<open>
  The instructions on the global fee state and on a group (\<open>instructions/marginfi_group/\<close>:
  initialisation, configuration, fees, withdrawal limit, pausing and propagation). The account
  constraints of an instruction are its first checks: the signer's key is compared with the admin
  the account stores. The last part runs any of them in any order on the one fee state of the
  program and one group that caches it.
\<close>

section \<open>The fee state\<close>

definition initialize_fee_state ::
  "pubkey \<Rightarrow> u8 \<Rightarrow> pubkey \<Rightarrow> pubkey \<Rightarrow> u32 \<Rightarrow> u32 \<Rightarrow> I80F48 \<Rightarrow> I80F48 \<Rightarrow> I80F48 \<Rightarrow> FeeState" where
  "initialize_fee_state key bump admin_key fee_wallet bank_flat liq_flat fee_fixed fee_rate liq_max =
     \<lparr>fee_key = key, global_fee_admin = admin_key, global_fee_wallet = fee_wallet,
      bank_init_flat_sol_fee = bank_flat, bump_seed = bump, liquidation_max_fee = liq_max,
      program_fee_fixed = fee_fixed, program_fee_rate = fee_rate,
      panic_state = PanicState_default, liquidation_flat_sol_fee = liq_flat\<rparr>"

definition fee_admin_only :: "pubkey \<Rightarrow> FeeState \<Rightarrow> unit res" where
  "fee_admin_only signer fs = check (global_fee_admin fs = signer) Unauthorized"

definition edit_fee_state ::
  "pubkey \<Rightarrow> pubkey \<Rightarrow> pubkey \<Rightarrow> u32 \<Rightarrow> u32 \<Rightarrow> I80F48 \<Rightarrow> I80F48 \<Rightarrow> I80F48 \<Rightarrow> FeeState \<Rightarrow> FeeState res" where
  "edit_fee_state signer new_admin fee_wallet bank_flat liq_flat fee_fixed fee_rate liq_max fs =
     bindR (fee_admin_only signer fs) (\<lambda>_.
     Inr (fs\<lparr>global_fee_admin := new_admin, global_fee_wallet := fee_wallet,
        bank_init_flat_sol_fee := bank_flat, program_fee_fixed := fee_fixed,
        program_fee_rate := fee_rate, liquidation_max_fee := liq_max,
        liquidation_flat_sol_fee := liq_flat\<rparr>))"

definition panic_pause :: "pubkey \<Rightarrow> i64 \<Rightarrow> FeeState \<Rightarrow> FeeState res" where
  "panic_pause signer now fs =
     bindR (fee_admin_only signer fs) (\<lambda>_.
     bindR (unpause_if_expired (panic_state fs) now) (\<lambda>p.
     bindR (pause p now) (\<lambda>p'. Inr (fs\<lparr>panic_state := p'\<rparr>))))"

definition panic_unpause :: "pubkey \<Rightarrow> i64 \<Rightarrow> FeeState \<Rightarrow> FeeState res" where
  "panic_unpause signer now fs =
     bindR (fee_admin_only signer fs) (\<lambda>_.
     bindR (check (is_paused_flag (panic_state fs)) ProtocolNotPaused) (\<lambda>_.
     bindR (unpause_if_expired (panic_state fs) now) (\<lambda>p.
     Inr (fs\<lparr>panic_state := (if is_paused_flag p then unpause p else p)\<rparr>))))"

text \<open>The log line subtracts the start of the pause from the clock, with overflow checks.\<close>

definition panic_unpause_permissionless :: "i64 \<Rightarrow> FeeState \<Rightarrow> FeeState res" where
  "panic_unpause_permissionless now fs =
     bindR (check (is_paused_flag (panic_state fs)) ProtocolNotPaused) (\<lambda>_.
     bindR (is_expired (panic_state fs) now) (\<lambda>expired.
     bindR (check expired PauseLimitExceeded) (\<lambda>_.
     bindR (i64_op (now - pause_start_timestamp (panic_state fs))) (\<lambda>_.
     Inr (fs\<lparr>panic_state := unpause (panic_state fs)\<rparr>)))))"

section \<open>The group\<close>

text \<open>A new group starts from a zeroed account.\<close>

definition MarginfiGroup_zeroed :: MarginfiGroup where
  "MarginfiGroup_zeroed = \<lparr>admin = default_key, group_flags = 0,
     fee_state_cache = \<lparr>global_fee_wallet_cached = default_key, fsc_program_fee_fixed = 0,
       fsc_program_fee_rate = 0, fsc_last_update = 0\<rparr>,
     banks = 0, emode_admin = default_key, delegate_curve_admin = default_key,
     delegate_limit_admin = default_key, delegate_emissions_admin = default_key,
     panic_state_cache = \<lparr>pc_pause_flags = 0, pc_pause_start_timestamp = 0, pc_last_cache_update = 0\<rparr>,
     deleverage_withdraw_window_cache = \<lparr>daily_limit = 0, withdrawn_today = 0,
       window_last_daily_reset_timestamp = 0\<rparr>,
     risk_admin = default_key, metadata_admin = default_key, emode_max_init_leverage = 0,
     emode_max_maint_leverage = 0\<rparr>"

definition copy_fees :: "FeeState \<Rightarrow> i64 \<Rightarrow> FeeStateCache \<Rightarrow> FeeStateCache" where
  "copy_fees fs now c = c\<lparr>global_fee_wallet_cached := global_fee_wallet fs,
     fsc_program_fee_fixed := program_fee_fixed fs, fsc_program_fee_rate := program_fee_rate fs,
     fsc_last_update := now\<rparr>"

definition initialize_group :: "fixed_ops \<Rightarrow> pubkey \<Rightarrow> i64 \<Rightarrow> FeeState \<Rightarrow> MarginfiGroup res" where
  "initialize_group fx admin_pk now fs =
     bindR (set_initial_configuration fx admin_pk MarginfiGroup_zeroed) (\<lambda>g.
     Inr (g\<lparr>fee_state_cache := copy_fees fs now (fee_state_cache g), banks := 0\<rparr>))"

definition group_admin_only :: "pubkey \<Rightarrow> MarginfiGroup \<Rightarrow> unit res" where
  "group_admin_only signer g = check (admin g = signer) Unauthorized"

record new_admins =
  na_admin :: pubkey
  na_emode_admin :: pubkey
  na_curve_admin :: pubkey
  na_limit_admin :: pubkey
  na_emissions_admin :: pubkey
  na_metadata_admin :: pubkey
  na_risk_admin :: pubkey

definition update_admins :: "new_admins \<Rightarrow> MarginfiGroup \<Rightarrow> MarginfiGroup" where
  "update_admins n g =
     update_risk_admin (na_risk_admin n) (update_metadata_admin (na_metadata_admin n)
       (update_emissions_admin (na_emissions_admin n) (update_limit_admin (na_limit_admin n)
       (update_curve_admin (na_curve_admin n) (update_emode_admin (na_emode_admin n)
       (update_admin (na_admin n) g))))))"

definition configure ::
  "fixed_ops \<Rightarrow> pubkey \<Rightarrow> new_admins \<Rightarrow> I80F48 option \<Rightarrow> I80F48 option \<Rightarrow> i64 \<Rightarrow> MarginfiGroup
    \<Rightarrow> MarginfiGroup res" where
  "configure fx signer n emode_init emode_maint now g =
     bindR (group_admin_only signer g) (\<lambda>_.
     let g1 = update_admins n g;
         init_leverage = (case emode_init of Some v \<Rightarrow> v | None \<Rightarrow> DEFAULT_INIT_MAX_EMODE_LEVERAGE);
         maint_leverage = (case emode_maint of Some v \<Rightarrow> v | None \<Rightarrow> DEFAULT_MAINT_MAX_EMODE_LEVERAGE)
     in bindR (check (init_leverage \<ge> ONE) BadEmodeConfig) (\<lambda>_.
        bindR (check (init_leverage \<le> 100 * ONE) BadEmodeConfig) (\<lambda>_.
        bindR (check (maint_leverage \<ge> ONE) BadEmodeConfig) (\<lambda>_.
        bindR (check (maint_leverage \<le> 100 * ONE) BadEmodeConfig) (\<lambda>_.
        bindR (check (init_leverage < maint_leverage) BadEmodeConfig) (\<lambda>_.
        bindR (basis_to_u32 fx init_leverage) (\<lambda>i.
        bindR (basis_to_u32 fx maint_leverage) (\<lambda>m.
        Inr (g1\<lparr>emode_max_init_leverage := i, emode_max_maint_leverage := m,
             fee_state_cache := (fee_state_cache g1)\<lparr>fsc_last_update := now\<rparr>\<rparr>)))))))))"

definition config_group_fee ::
  "pubkey \<Rightarrow> bool \<Rightarrow> i64 \<Rightarrow> FeeState \<Rightarrow> MarginfiGroup \<Rightarrow> MarginfiGroup res" where
  "config_group_fee signer enable_program_fee now fs g =
     bindR (fee_admin_only signer fs) (\<lambda>_.
     let g1 = set_program_fee_enabled enable_program_fee g
     in Inr (g1\<lparr>fee_state_cache := (fee_state_cache g1)\<lparr>fsc_last_update := now\<rparr>\<rparr>))"

definition configure_deleverage_withdrawal_limit ::
  "pubkey \<Rightarrow> u32 \<Rightarrow> i64 \<Rightarrow> MarginfiGroup \<Rightarrow> MarginfiGroup res" where
  "configure_deleverage_withdrawal_limit signer limit now g =
     bindR (group_admin_only signer g) (\<lambda>_.
     bindR (check (limit > 0) ZeroWithdrawalLimit) (\<lambda>_.
     Inr (g\<lparr>deleverage_withdraw_window_cache := (deleverage_withdraw_window_cache g)
        \<lparr>daily_limit := limit, window_last_daily_reset_timestamp := now\<rparr>\<rparr>)))"

text \<open>Anybody may propagate; the log line evaluates \<open>is_expired\<close> when the cache says paused.\<close>

definition propagate_fee :: "i64 \<Rightarrow> FeeState \<Rightarrow> MarginfiGroup \<Rightarrow> MarginfiGroup res" where
  "propagate_fee now fs g =
     (let c = update_from_panic_state (panic_state fs) now (panic_state_cache g);
          g' = g\<lparr>fee_state_cache := copy_fees fs now (fee_state_cache g), panic_state_cache := c\<rparr>
      in if pc_is_paused_flag c then bindR (pc_is_expired c now) (\<lambda>_. Inr g') else Inr g')"

section \<open>The fee state and one group over time\<close>

text \<open>
  From their initialisation on, the fee state and a group change by these instructions, at a clock
  that never runs backwards. An instruction that fails changes nothing.
\<close>

text \<open>Every step but the pause itself.\<close>

inductive calm_step :: "FeeState \<Rightarrow> MarginfiGroup \<Rightarrow> i64 \<Rightarrow> FeeState \<Rightarrow> MarginfiGroup \<Rightarrow> i64 \<Rightarrow> bool" where
  tick: "now \<le> later \<Longrightarrow> later \<le> CLOCK_LIMIT \<Longrightarrow> calm_step fs g now fs g later"
| edit: "edit_fee_state signer a w bf lf ff fr lm fs = Inr fs' \<Longrightarrow> calm_step fs g now fs' g now"
| panic_off: "panic_unpause signer now fs = Inr fs' \<Longrightarrow> calm_step fs g now fs' g now"
| panic_crank: "panic_unpause_permissionless now fs = Inr fs' \<Longrightarrow> calm_step fs g now fs' g now"
| propagate: "propagate_fee now fs g = Inr g' \<Longrightarrow> calm_step fs g now fs g' now"
| configure: "configure fx signer n ei em now g = Inr g' \<Longrightarrow> calm_step fs g now fs g' now"
| fee_flag: "config_group_fee signer on now fs g = Inr g' \<Longrightarrow> calm_step fs g now fs g' now"
| limit: "configure_deleverage_withdrawal_limit signer l now g = Inr g' \<Longrightarrow> calm_step fs g now fs g' now"
| withdrawn: "update_withdrawn_equity fx e now g = Inr g' \<Longrightarrow> calm_step fs g now fs g' now"
| new_bank: "calm_step fs g now fs (add_bank now g) now"

inductive sys_step :: "FeeState \<Rightarrow> MarginfiGroup \<Rightarrow> i64 \<Rightarrow> FeeState \<Rightarrow> MarginfiGroup \<Rightarrow> i64 \<Rightarrow> bool" where
  calm: "calm_step fs g now fs' g' now' \<Longrightarrow> sys_step fs g now fs' g' now'"
| panic_on: "panic_pause signer now fs = Inr fs' \<Longrightarrow> sys_step fs g now fs' g now"

inductive sys_reach :: "FeeState \<Rightarrow> MarginfiGroup \<Rightarrow> i64 \<Rightarrow> bool" where
  init: "fs = initialize_fee_state key bump a w bf lf ff fr lm \<Longrightarrow>
    initialize_group fx admin_pk now fs = Inr g \<Longrightarrow> 0 \<le> now \<Longrightarrow> now \<le> CLOCK_LIMIT \<Longrightarrow> sys_reach fs g now"
| step: "sys_reach fs g now \<Longrightarrow> sys_step fs g now fs' g' now' \<Longrightarrow> sys_reach fs' g' now'"

text \<open>What may follow while nobody pauses again.\<close>

inductive calm_run :: "FeeState \<Rightarrow> MarginfiGroup \<Rightarrow> i64 \<Rightarrow> FeeState \<Rightarrow> MarginfiGroup \<Rightarrow> i64 \<Rightarrow> bool" where
  stay: "calm_run fs g now fs g now"
| go: "calm_run fs g now fs' g' now' \<Longrightarrow> calm_step fs' g' now' fs'' g'' now'' \<Longrightarrow> calm_run fs g now fs'' g'' now''"

definition cache_inv :: "PanicStateCache \<Rightarrow> i64 \<Rightarrow> bool" where
  "cache_inv c now \<longleftrightarrow> (pc_is_paused_flag c \<longrightarrow> 0 \<le> pc_pause_start_timestamp c
     \<and> pc_pause_start_timestamp c + PAUSE_DURATION_SECONDS \<le> now + 2 * PAUSE_DURATION_SECONDS)"

definition sys_inv :: "FeeState \<Rightarrow> MarginfiGroup \<Rightarrow> i64 \<Rightarrow> bool" where
  "sys_inv fs g now \<longleftrightarrow> panic_reach (panic_state fs) now \<and> cache_inv (panic_state_cache g) now
     \<and> 0 \<le> now \<and> now \<le> CLOCK_LIMIT"

lemma cache_inv_updated: "panic_reach p now \<Longrightarrow> cache_inv (update_from_panic_state p now c) now"
  using panic_reach_inv [of p now]
  by (auto simp: cache_inv_def cache_matches_state panic_inv_def panic_consts update_from_panic_state_def)

lemma update_admins_cache [simp]: "panic_state_cache (update_admins n g) = panic_state_cache g"
  by (simp add: update_admins_def update_admin_def update_emode_admin_def update_curve_admin_def
      update_limit_admin_def update_emissions_admin_def update_metadata_admin_def update_risk_admin_def)

lemma update_admins_fee_cache [simp]: "fee_state_cache (update_admins n g) = fee_state_cache g"
  by (simp add: update_admins_def update_admin_def update_emode_admin_def update_curve_admin_def
      update_limit_admin_def update_emissions_admin_def update_metadata_admin_def update_risk_admin_def)

lemma group_steps_keep_cache:
  "configure fx signer n ei em now g = Inr g' \<Longrightarrow> panic_state_cache g' = panic_state_cache g"
  "config_group_fee signer on now fs g = Inr g' \<Longrightarrow> panic_state_cache g' = panic_state_cache g"
  "configure_deleverage_withdrawal_limit signer l now g = Inr g' \<Longrightarrow>
     panic_state_cache g' = panic_state_cache g"
  "update_withdrawn_equity fx e now g = Inr g' \<Longrightarrow> panic_state_cache g' = panic_state_cache g"
  "panic_state_cache (add_bank now g) = panic_state_cache g"
  by (auto simp: configure_def config_group_fee_def set_program_fee_enabled_def add_bank_def
      configure_deleverage_withdrawal_limit_def update_withdrawn_equity_def Let_def
      elim!: bindR_InrE split: if_splits)

lemma panic_steps_reach:
  assumes "panic_reach (panic_state fs) now"
  shows "edit_fee_state signer a w bf lf ff fr lm fs = Inr fs' \<Longrightarrow> panic_reach (panic_state fs') now"
    and "panic_pause signer now fs = Inr fs' \<Longrightarrow> panic_reach (panic_state fs') now"
    and "panic_unpause signer now fs = Inr fs' \<Longrightarrow> panic_reach (panic_state fs') now"
    and "panic_unpause_permissionless now fs = Inr fs' \<Longrightarrow> panic_reach (panic_state fs') now"
  using assms
  by (auto simp: edit_fee_state_def panic_pause_def panic_unpause_def panic_unpause_permissionless_def
        elim!: bindR_InrE)
    (meson panic_reach.crank_unpause panic_reach.admin_pause panic_reach.admin_unpause)+

lemma propagated_cache:
  "propagate_fee now fs g = Inr g' \<Longrightarrow>
     panic_state_cache g' = update_from_panic_state (panic_state fs) now (panic_state_cache g)"
  by (auto simp: propagate_fee_def Let_def elim!: bindR_InrE split: if_splits)

lemma calm_step_inv: "calm_step fs g now fs' g' now' \<Longrightarrow> sys_inv fs g now \<Longrightarrow> sys_inv fs' g' now'"
proof (induction rule: calm_step.induct)
  case (tick now later fs g)
  then show ?case by (auto simp: sys_inv_def cache_inv_def intro: panic_reach.tick)
next
  case (propagate now fs g g')
  then show ?case by (simp add: sys_inv_def cache_inv_updated propagated_cache)
qed (auto simp: sys_inv_def dest: panic_steps_reach group_steps_keep_cache(1-4)
       simp: group_steps_keep_cache(5))

lemma sys_inv_step: "sys_step fs g now fs' g' now' \<Longrightarrow> sys_inv fs g now \<Longrightarrow> sys_inv fs' g' now'"
  by (induction rule: sys_step.induct) (auto simp: sys_inv_def dest: panic_steps_reach calm_step_inv)

text \<open>While nobody pauses again, the pause ends, in the fee state and in the group, when it was due.\<close>

definition ends_by :: "i64 \<Rightarrow> FeeState \<Rightarrow> MarginfiGroup \<Rightarrow> bool" where
  "ends_by t fs g \<longleftrightarrow>
     (is_paused_flag (panic_state fs) \<longrightarrow> pause_start_timestamp (panic_state fs) + PAUSE_DURATION_SECONDS \<le> t)
   \<and> (pc_is_paused_flag (panic_state_cache g) \<longrightarrow>
        pc_pause_start_timestamp (panic_state_cache g) + PAUSE_DURATION_SECONDS \<le> t)"

lemma sys_inv_ends: "sys_inv fs g now \<Longrightarrow> ends_by (now + 2 * PAUSE_DURATION_SECONDS) fs g"
  using panic_reach_inv [of "panic_state fs" now]
  by (auto simp: sys_inv_def ends_by_def cache_inv_def panic_inv_def panic_consts)

lemma calm_step_ends:
  assumes "calm_step fs g now fs' g' now'" and "ends_by t fs g"
  shows "ends_by t fs' g'"
  using assms
proof (induction rule: calm_step.induct)
  case (edit signer a w bf lf ff fr lm fs fs' g now)
  then show ?case by (auto simp: ends_by_def edit_fee_state_def elim!: bindR_InrE)
next
  case (panic_off signer now fs fs' g)
  then show ?case by (auto simp: ends_by_def panic_unpause_def elim!: bindR_InrE)
next
  case (panic_crank now fs fs' g)
  then show ?case
    by (auto simp: ends_by_def panic_unpause_permissionless_def unpause_if_expired_def elim!: bindR_InrE split: if_splits)
next
  case (propagate now fs g g')
  then show ?case
    by (simp add: ends_by_def propagated_cache cache_matches_state) (simp add: update_from_panic_state_def)
qed (auto simp: ends_by_def dest: group_steps_keep_cache(1-4) simp: group_steps_keep_cache(5))

lemma calm_run_ends:
  assumes "calm_run fs g now fs' g' now'" and "sys_inv fs g now" and "ends_by t fs g"
  shows "sys_inv fs' g' now' \<and> ends_by t fs' g'"
  using assms by (induction rule: calm_run.induct) (blast intro: calm_step_inv calm_step_ends)+

lemma sys_reach_inv: "sys_reach fs g now \<Longrightarrow> sys_inv fs g now"
proof (induction rule: sys_reach.induct)
  case (init fs key bump a w bf lf ff fr lm fx admin_pk now g)
  then have "panic_state_cache g = panic_state_cache MarginfiGroup_zeroed"
    by (auto simp: initialize_group_def set_initial_configuration_def set_program_fee_enabled_def
        elim!: bindR_InrE)
  with init show ?case
    by (simp add: sys_inv_def initialize_fee_state_def panic_reach.genesis cache_inv_def
        MarginfiGroup_zeroed_def pc_is_paused_flag_def flag_get_def)
qed (rule sys_inv_step)

lemma cache_inv_expired:
  assumes "cache_inv (panic_state_cache g) now" and "0 \<le> now" and "now \<le> t" and "t \<le> CLOCK_LIMIT"
  shows "is_protocol_paused g t = Inr (pc_is_paused_flag (panic_state_cache g)
     \<and> t < pc_pause_start_timestamp (panic_state_cache g) + PAUSE_DURATION_SECONDS)"
  using assms
  by (auto simp: is_protocol_paused_def cache_inv_def pc_is_expired_def i64_op_def in_i64_def panic_consts)

end
