(* ===== verification/IxBase.thy ===== *)
theory IxBase
  imports Price Emode GroupIx
begin

text \<open>
  What the instruction handlers share: the token transfers they ask for, the mint account that
  Token-2022 transfers need, and the account constraints on a bank and its group.

  A handler is a function from the accounts it may change to their new contents. Moving tokens is
  the token programs' business, so a handler returns the transfers it makes, in order; a transfer
  that the token program refuses fails the whole transaction.
\<close>

record Transfer =
  tr_from :: pubkey
  tr_to :: pubkey
  tr_authority :: pubkey
  tr_amount :: u64

text \<open>\<open>deposit_spl_transfer\<close> and \<open>withdraw_spl_transfer\<close> of a bank.\<close>

definition deposit_spl_transfer :: "Bank \<Rightarrow> u64 \<Rightarrow> pubkey \<Rightarrow> pubkey \<Rightarrow> pubkey \<Rightarrow> Transfer res" where
  "deposit_spl_transfer b amount src dst auth =
     bindR (check (dst = liquidity_vault b) InvalidTransfer) (\<lambda>_.
     Inr \<lparr>tr_from = src, tr_to = dst, tr_authority = auth, tr_amount = amount\<rparr>)"

definition withdraw_spl_transfer :: "u64 \<Rightarrow> pubkey \<Rightarrow> pubkey \<Rightarrow> pubkey \<Rightarrow> Transfer" where
  "withdraw_spl_transfer amount src dst auth =
     \<lparr>tr_from = src, tr_to = dst, tr_authority = auth, tr_amount = amount\<rparr>"

text \<open>
  The token program of an instruction. With Token-2022 the first remaining account must be the
  bank's mint; parsing it is Anchor's.
\<close>

datatype TokenProgram = Tokenkeg | Token2022 | OtherTokenProgram

definition maybe_take_bank_mint ::
  "(AccountInfo \<Rightarrow> MintAi option) \<Rightarrow> AccountInfo list \<Rightarrow> Bank \<Rightarrow> TokenProgram
    \<Rightarrow> (MintAi option \<times> AccountInfo list) res" where
  "maybe_take_bank_mint parse_mint ais b tp = (case tp of
      Tokenkeg \<Rightarrow> Inr (None, ais)
    | Token2022 \<Rightarrow> (case ais of
          [] \<Rightarrow> Inl (Err T22MintRequired)
        | ai # rest \<Rightarrow>
            if mint b \<noteq> ai_key ai then Inl (Err T22MintRequired)
            else bindR (ok_or T22MintRequired (parse_mint ai)) (\<lambda>m. Inr (Some m, rest)))
    | OtherTokenProgram \<Rightarrow> Inl Panic)"

text \<open>Fees of an optional mint; without one the amount is the amount.\<close>

definition pre_fee :: "MintAi option \<Rightarrow> u64 \<Rightarrow> u64 \<Rightarrow> u64 res" where
  "pre_fee m amount epoch = (case m of
      None \<Rightarrow> Inr amount
    | Some ai \<Rightarrow> calculate_pre_fee_spl_deposit_amount ai amount epoch)"

definition post_fee :: "MintAi option \<Rightarrow> u64 \<Rightarrow> u64 \<Rightarrow> u64 res" where
  "post_fee m amount epoch = (case m of
      None \<Rightarrow> Inr amount
    | Some ai \<Rightarrow> calculate_post_fee_spl_deposit_amount ai amount epoch)"

text \<open>The account constraints that most instructions have.\<close>

definition not_paused :: "MarginfiGroup \<Rightarrow> i64 \<Rightarrow> unit res" where
  "not_paused g now = bindR (is_protocol_paused g now) (\<lambda>p. check (\<not> p) ProtocolPaused)"

definition bank_in_group :: "pubkey \<Rightarrow> Bank \<Rightarrow> unit res" where
  "bank_in_group group_key b = check (bank_group b = group_key) InvalidGroup"

definition account_in_group :: "pubkey \<Rightarrow> MarginfiAccount \<Rightarrow> unit res" where
  "account_in_group group_key a = check (acc_group a = group_key) InvalidGroup"

text \<open>An anchor constraint without an error of its own.\<close>

definition constraint :: "bool \<Rightarrow> unit res" where
  "constraint c = (if c then Inr () else Inl (ProgramError ''Constraint''))"

text \<open>The integer part of a fixed-point number (\<open>int()\<close> clears the fractional bits).\<close>

definition fx_int :: "I80F48 \<Rightarrow> I80F48" where
  "fx_int v = v div ONE * ONE"

lemma constraint_eq_Inr [res_simps]: "constraint c = Inr u \<longleftrightarrow> c"
  by (simp add: constraint_def)

lemma fx_int_bounds: "fx_int v \<le> v" "v < fx_int v + ONE" "0 \<le> v \<Longrightarrow> 0 \<le> fx_int v"
proof -
  have m: "fx_int v + v mod ONE = v" by (simp add: fx_int_def)
  show "fx_int v \<le> v" using m pos_mod_sign [OF ONE_pos, of v] by linarith
  show "v < fx_int v + ONE" using m pos_mod_bound [OF ONE_pos, of v] by linarith
  show "0 \<le> v \<Longrightarrow> 0 \<le> fx_int v"
    using ONE_pos by (simp add: fx_int_def pos_imp_zdiv_nonneg_iff)
qed

end
