(* ===== verification/RiskEngine.thy ===== *)
theory RiskEngine
  imports Price Emode
begin

text \<open>
  The risk engine (\<open>state/marginfi_account.rs\<close>): it loads the bank and the oracle of every active
  balance from the accounts passed to an instruction, values the balances with the weights of a
  requirement, and decides whether the account is healthy, liquidatable or bankrupt. The results of
  the last run are recorded in a health cache, which keeps what was recorded before a failure: the
  functions that write it return it beside their result.

  Reading a bank out of an account is Anchor's \<open>AccountLoader\<close>, a parameter.
\<close>

section \<open>Accounts per bank\<close>

definition get_remaining_accounts_per_asset_tag :: "u8 \<Rightarrow> nat res" where
  "get_remaining_accounts_per_asset_tag tag =
     (if tag = ASSET_TAG_DEFAULT \<or> tag = ASSET_TAG_SOL then Inr 2
      else if tag = ASSET_TAG_KAMINO \<or> tag = ASSET_TAG_DRIFT \<or> tag = ASSET_TAG_SOLEND then Inr 3
      else if tag = ASSET_TAG_STAKED then Inr 4
      else Inl (Err AssetTagMismatch))"

definition get_remaining_accounts_per_bank :: "Bank \<Rightarrow> nat res" where
  "get_remaining_accounts_per_bank bank =
     (if oracle_setup (config bank) = OracleFixed then Inr 1
      else get_remaining_accounts_per_asset_tag (asset_tag (config bank)))"

definition oracle_accounts_for_bank :: "pubkey \<Rightarrow> Bank \<Rightarrow> AccountInfo list \<Rightarrow> AccountInfo list res" where
  "oracle_accounts_for_bank bank_key bank ais =
     bindR (get_remaining_accounts_per_bank bank) (\<lambda>n.
     bindR (ok_or BankAccountNotFound (position (\<lambda>ai. ai_key ai = bank_key) ais)) (\<lambda>bank_idx.
       let start = bank_idx + 1; end_idx = start + (n - 1)
       in if \<not> end_idx \<le> length ais then Inl (Err WrongNumberOfOracleAccounts)
          else Inr (take (end_idx - start) (drop start ais))))"

definition fetch_asset_price_for_bank_low_bias ::
  "fixed_ops \<Rightarrow> oracle_lib \<Rightarrow> Clock \<Rightarrow> pubkey \<Rightarrow> Bank \<Rightarrow> AccountInfo list \<Rightarrow> I80F48 res" where
  "fetch_asset_price_for_bank_low_bias fx lib clock bank_key bank ais =
     bindR (oracle_accounts_for_bank bank_key bank ais) (\<lambda>oracle_ais.
     bindR (try_from_bank fx lib clock bank oracle_ais) (\<lambda>pf.
     get_price_of_type fx lib pf RealTime (Some Low) (oracle_max_confidence (config bank))))"

definition fetch_unbiased_price_for_bank ::
  "fixed_ops \<Rightarrow> oracle_lib \<Rightarrow> Clock \<Rightarrow> pubkey \<Rightarrow> Bank \<Rightarrow> AccountInfo list
    \<Rightarrow> OraclePriceWithConfidence res" where
  "fetch_unbiased_price_for_bank fx lib clock bank_key bank ais =
     bindR (oracle_accounts_for_bank bank_key bank ais) (\<lambda>oracle_ais.
     bindR (try_from_bank fx lib clock bank oracle_ais) (\<lambda>pf.
     get_price_and_confidence_of_type fx lib pf RealTime (oracle_max_confidence (config bank))))"

section \<open>Balances with their bank and price feed\<close>

record BankAccountWithPriceFeed =
  bap_bank :: Bank
  price_feed :: "OraclePriceFeedAdapter res"
  bap_balance :: Balance

text \<open>A failed feed is kept for later; a panic while loading it aborts.\<close>

definition keep_result :: "'a res \<Rightarrow> 'a res res" where
  "keep_result r = (if r = Inl Panic then Inl Panic else Inr r)"

fun load_from ::
  "fixed_ops \<Rightarrow> oracle_lib \<Rightarrow> (AccountInfo \<Rightarrow> Bank res) \<Rightarrow> Clock \<Rightarrow> AccountInfo list \<Rightarrow> nat
    \<Rightarrow> Balance list \<Rightarrow> BankAccountWithPriceFeed list res" where
  "load_from fx lib load_bank clock ais idx [] = Inr []"
| "load_from fx lib load_bank clock ais idx (b # bs) =
     (if \<not> idx < length ais then Inl (Err InvalidBankAccount)
      else let bank_ai = ais ! idx in
        bindR (load_bank bank_ai) (\<lambda>bank.
        bindR (get_remaining_accounts_per_bank bank) (\<lambda>num_accounts.
        bindR (check (bank_pk b = ai_key bank_ai) InvalidBankAccount) (\<lambda>_.
          let oracle_ai_idx = idx + 1; end_idx = oracle_ai_idx + num_accounts - 1
          in if \<not> length ais \<ge> end_idx then Inl (Err WrongNumberOfOracleAccounts)
             else let oracle_ais = take (end_idx - oracle_ai_idx) (drop oracle_ai_idx ais) in
               bindR (keep_result (try_from_bank fx lib clock bank oracle_ais)) (\<lambda>feed.
               bindR (load_from fx lib load_bank clock ais (idx + num_accounts) bs) (\<lambda>rest.
               Inr (\<lparr>bap_bank = bank, price_feed = feed, bap_balance = b\<rparr> # rest)))))))"

definition load_accounts ::
  "fixed_ops \<Rightarrow> oracle_lib \<Rightarrow> (AccountInfo \<Rightarrow> Bank res) \<Rightarrow> Clock \<Rightarrow> LendingAccount
    \<Rightarrow> AccountInfo list \<Rightarrow> BankAccountWithPriceFeed list res" where
  "load_accounts fx lib load_bank clock la ais =
     load_from fx lib load_bank clock ais 0 (filter is_active (balances la))"

text \<open>
  Only the code of a failure survives. An error that is no Anchor error gives the code of
  \<open>InternalLogicError as u32\<close>, which is the bare discriminant 0.
\<close>

definition try_get_price_feed :: "BankAccountWithPriceFeed \<Rightarrow> OraclePriceFeedAdapter res \<times> u32" where
  "try_get_price_feed b = (case price_feed b of
      Inr a \<Rightarrow> (Inr a, 0)
    | Inl (Err e) \<Rightarrow> (Inl (Err (error_from_u32 (error_number e))), error_number e)
    | Inl _ \<Rightarrow> (Inl (Err InternalLogicError), 0))"

section \<open>Weighted values\<close>

definition get_oracle_price_type :: "RequirementType \<Rightarrow> OraclePriceType" where
  "get_oracle_price_type req = (case req of
      Initial \<Rightarrow> TimeWeighted | Equity \<Rightarrow> TimeWeighted | Maintenance \<Rightarrow> RealTime)"

definition emode_asset_weight :: "EmodeConfig \<Rightarrow> RequirementType \<Rightarrow> Bank \<Rightarrow> I80F48" where
  "emode_asset_weight ec req bank = (case find_with_tag ec (emode_tag (emode bank)) of
      Some entry \<Rightarrow> max (get_weight (config bank) req Assets)
        (case req of
           Initial \<Rightarrow> e_asset_weight_init entry
         | Maintenance \<Rightarrow> e_asset_weight_maint entry
         | Equity \<Rightarrow> ONE)
    | None \<Rightarrow> get_weight (config bank) req Assets)"

definition calc_weighted_asset_value ::
  "fixed_ops \<Rightarrow> oracle_lib \<Rightarrow> RequirementType \<Rightarrow> EmodeConfig \<Rightarrow> BankAccountWithPriceFeed
    \<Rightarrow> (I80F48 \<times> I80F48 \<times> u32) res" where
  "calc_weighted_asset_value fx lib req ec b =
     (let bank = bap_bank b; c = config bank in
      case risk_tier c of
        Isolated \<Rightarrow> Inr (0, 0, 0)
      | Collateral \<Rightarrow>
          if operational_state c = ReduceOnly \<and> req = Initial then Inr (0, 0, 0)
          else (case try_get_price_feed b of (feed, err_code) \<Rightarrow>
            if (case feed of Inl _ \<Rightarrow> True | Inr _ \<Rightarrow> False) \<and> req = Initial then Inr (0, 0, err_code)
            else bindR feed (\<lambda>pf.
              bindR (get_price_of_type fx lib pf (get_oracle_price_type req) (Some Low)
                       (oracle_max_confidence c)) (\<lambda>lower_price.
              bindR (if req = Initial
                     then bindR (maybe_get_asset_weight_init_discount fx bank lower_price) (\<lambda>d.
                       case d of
                         Some discount \<Rightarrow> math (checked_mul fx (emode_asset_weight ec req bank) discount)
                       | None \<Rightarrow> Inr (emode_asset_weight ec req bank))
                     else Inr (emode_asset_weight ec req bank)) (\<lambda>asset_weight.
              bindR (get_asset_amount fx bank (asset_shares (bap_balance b))) (\<lambda>amount.
              bindR (calc_value fx amount lower_price (get_balance_decimals bank) (Some asset_weight))
                (\<lambda>value. Inr (value, lower_price, 0))))))))"

definition calc_weighted_liab_value ::
  "fixed_ops \<Rightarrow> oracle_lib \<Rightarrow> RequirementType \<Rightarrow> BankAccountWithPriceFeed \<Rightarrow> (I80F48 \<times> I80F48) res" where
  "calc_weighted_liab_value fx lib req b =
     (let bank = bap_bank b; c = config bank in
      bindR (fst (try_get_price_feed b)) (\<lambda>pf.
      bindR (get_price_of_type fx lib pf (get_oracle_price_type req) (Some High)
               (oracle_max_confidence c)) (\<lambda>higher_price.
      bindR (get_liability_amount fx bank (liability_shares (bap_balance b))) (\<lambda>amount.
      bindR (calc_value fx amount higher_price (get_balance_decimals bank)
               (Some (get_weight c req Liabilities))) (\<lambda>value.
      Inr (value, higher_price))))))"

definition calc_weighted_value ::
  "fixed_ops \<Rightarrow> oracle_lib \<Rightarrow> RequirementType \<Rightarrow> EmodeConfig \<Rightarrow> BankAccountWithPriceFeed
    \<Rightarrow> (I80F48 \<times> I80F48 \<times> I80F48 \<times> u32) res" where
  "calc_weighted_value fx lib req ec b =
     bindR (get_side (bap_balance b)) (\<lambda>s. case s of
       None \<Rightarrow> Inr (0, 0, 0, 0)
     | Some Assets \<Rightarrow> bindR (calc_weighted_asset_value fx lib req ec b) (\<lambda>(value, p, err_code).
         Inr (value, 0, p, err_code))
     | Some Liabilities \<Rightarrow> bindR (calc_weighted_liab_value fx lib req b) (\<lambda>(value, p).
         Inr (0, value, p, 0)))"

section \<open>The engine\<close>

record RiskEngine =
  re_account :: MarginfiAccount
  bank_accounts_with_price :: "BankAccountWithPriceFeed list"
  re_emode_config :: EmodeConfig

definition has_liability :: "BankAccountWithPriceFeed \<Rightarrow> bool" where
  "has_liability b \<longleftrightarrow> \<not> is_empty (bap_balance b) Liabilities"

definition new_no_flashloan_check ::
  "fixed_ops \<Rightarrow> oracle_lib \<Rightarrow> (AccountInfo \<Rightarrow> Bank res) \<Rightarrow> Clock \<Rightarrow> MarginfiAccount
    \<Rightarrow> AccountInfo list \<Rightarrow> RiskEngine res" where
  "new_no_flashloan_check fx lib load_bank clock a ais =
     bindR (load_accounts fx lib load_bank clock (lending_account a) ais) (\<lambda>bs.
     bindR (reconcile_emode_configs
              (map (\<lambda>b. emode_config (emode (bap_bank b))) (filter has_liability bs))) (\<lambda>ec.
     Inr \<lparr>re_account = a, bank_accounts_with_price = bs, re_emode_config = ec\<rparr>))"

definition risk_engine_new ::
  "fixed_ops \<Rightarrow> oracle_lib \<Rightarrow> (AccountInfo \<Rightarrow> Bank res) \<Rightarrow> Clock \<Rightarrow> MarginfiAccount
    \<Rightarrow> AccountInfo list \<Rightarrow> RiskEngine res" where
  "risk_engine_new fx lib load_bank clock a ais =
     bindR (check (\<not> acc_get_flag a ACCOUNT_IN_FLASHLOAN) AccountInFlashloan) (\<lambda>_.
     new_no_flashloan_check fx lib load_bank clock a ais)"

fun health_loop ::
  "fixed_ops \<Rightarrow> oracle_lib \<Rightarrow> RequirementType \<Rightarrow> EmodeConfig \<Rightarrow> nat \<Rightarrow> BankAccountWithPriceFeed list
    \<Rightarrow> I80F48 \<Rightarrow> I80F48 \<Rightarrow> bool \<Rightarrow> HealthCache option
    \<Rightarrow> (I80F48 \<times> I80F48) res \<times> HealthCache option" where
  "health_loop fx lib req ec i [] total_assets total_liabs found hc =
     (Inr (total_assets, total_liabs), hc)"
| "health_loop fx lib req ec i (b # bs) total_assets total_liabs found hc =
     (case calc_weighted_value fx lib req ec b of
        Inl e \<Rightarrow> (Inl e, hc)
      | Inr (asset_val, liab_val, p, err_code) \<Rightarrow>
          (let first_err = err_code \<noteq> 0 \<and> \<not> found;
               hc1 = (if first_err
                      then map_option (\<lambda>c. c\<lparr>err_index := i mod 256, internal_err := err_code\<rparr>) hc
                      else hc);
               hc2 = (if req = Initial
                      then map_option (\<lambda>c. c\<lparr>prices := (prices c)[i := to_f64 fx p]\<rparr>) hc1 else hc1)
           in if req = Initial \<and> (\<exists>c. hc1 = Some c \<and> \<not> i < length (prices c)) then (Inl Panic, hc1)
              else (case checked_add fx total_assets asset_val of
                None \<Rightarrow> (Inl (Err MathError), hc2)
              | Some tot_a \<Rightarrow> (case checked_add fx total_liabs liab_val of
                  None \<Rightarrow> (Inl (Err MathError), hc2)
                | Some tot_l \<Rightarrow> health_loop fx lib req ec (i + 1) bs tot_a tot_l (found \<or> err_code \<noteq> 0) hc2))))"

definition record_totals :: "RequirementType \<Rightarrow> I80F48 \<Rightarrow> I80F48 \<Rightarrow> HealthCache \<Rightarrow> HealthCache" where
  "record_totals req total_assets total_liabs c = (case req of
      Initial \<Rightarrow> c\<lparr>asset_value := total_assets, liability_value := total_liabs\<rparr>
    | Maintenance \<Rightarrow> c\<lparr>asset_value_maint := total_assets, liability_value_maint := total_liabs\<rparr>
    | Equity \<Rightarrow> c\<lparr>asset_value_equity := total_assets, liability_value_equity := total_liabs\<rparr>)"

definition get_account_health_components ::
  "fixed_ops \<Rightarrow> oracle_lib \<Rightarrow> RequirementType \<Rightarrow> RiskEngine \<Rightarrow> HealthCache option
    \<Rightarrow> (I80F48 \<times> I80F48) res \<times> HealthCache option" where
  "get_account_health_components fx lib req e hc =
     (case health_loop fx lib req (re_emode_config e) 0 (bank_accounts_with_price e) 0 0 False hc of
        (Inl err, hc') \<Rightarrow> (Inl err, hc')
      | (Inr (tot_a, tot_l), hc') \<Rightarrow> (Inr (tot_a, tot_l), map_option (record_totals req tot_a tot_l) hc'))"

text \<open>The loop stops as soon as a second isolated liability is found.\<close>

fun risk_tier_loop :: "BankAccountWithPriceFeed list \<Rightarrow> nat \<Rightarrow> nat \<Rightarrow> nat \<times> nat" where
  "risk_tier_loop [] iso_cnt cnt = (iso_cnt, cnt)"
| "risk_tier_loop (b # bs) iso_cnt cnt =
     (if \<not> has_liability b then risk_tier_loop bs iso_cnt cnt
      else if risk_tier (config (bap_bank b)) = Isolated then
        (if iso_cnt + 1 > 1 then (iso_cnt + 1, cnt + 1)
         else risk_tier_loop bs (iso_cnt + 1) (cnt + 1))
      else risk_tier_loop bs iso_cnt (cnt + 1))"

definition check_account_risk_tiers :: "RiskEngine \<Rightarrow> unit res" where
  "check_account_risk_tiers e =
     (case risk_tier_loop (bank_accounts_with_price e) 0 0 of (isolated_risk_count, cnt) \<Rightarrow>
        check (isolated_risk_count = 0 \<or> cnt = 1) IsolatedAccountIllegalState)"

definition check_account_health ::
  "fixed_ops \<Rightarrow> oracle_lib \<Rightarrow> RequirementType \<Rightarrow> RiskEngine \<Rightarrow> HealthCache option
    \<Rightarrow> unit res \<times> HealthCache option" where
  "check_account_health fx lib req e hc =
     (case get_account_health_components fx lib req e hc of
        (Inl err, hc') \<Rightarrow> (Inl err, hc')
      | (Inr (tot_a, tot_l), hc') \<Rightarrow>
          (let healthy = tot_a \<ge> tot_l; hc2 = map_option (set_healthy healthy) hc'
           in (if \<not> healthy then Inl (Err RiskEngineInitRejected) else check_account_risk_tiers e, hc2)))"

definition check_account_init_health ::
  "fixed_ops \<Rightarrow> oracle_lib \<Rightarrow> (AccountInfo \<Rightarrow> Bank res) \<Rightarrow> Clock \<Rightarrow> MarginfiAccount
    \<Rightarrow> AccountInfo list \<Rightarrow> HealthCache option
    \<Rightarrow> unit res \<times> RiskEngine option \<times> HealthCache option" where
  "check_account_init_health fx lib load_bank clock a ais hc =
     (if acc_get_flag a ACCOUNT_IN_FLASHLOAN then (Inr (), None, hc)
      else (case new_no_flashloan_check fx lib load_bank clock a ais of
        Inl e \<Rightarrow> (Inl e, None, hc)
      | Inr e \<Rightarrow> (case check_account_health fx lib Initial e hc of (r, hc') \<Rightarrow> (r, Some e, hc'))))"

definition find_bank_account :: "pubkey \<Rightarrow> RiskEngine \<Rightarrow> BankAccountWithPriceFeed option" where
  "find_bank_account pk e = List.find (\<lambda>b. bank_pk (bap_balance b) = pk) (bank_accounts_with_price e)"

definition get_unbiased_price_for_bank ::
  "fixed_ops \<Rightarrow> oracle_lib \<Rightarrow> pubkey \<Rightarrow> RiskEngine \<Rightarrow> OraclePriceWithConfidence res" where
  "get_unbiased_price_for_bank fx lib pk e =
     bindR (ok_or BankAccountNotFound (find_bank_account pk e)) (\<lambda>b.
     bindR (fst (try_get_price_feed b)) (\<lambda>pf.
     get_price_and_confidence_of_type fx lib pf RealTime (oracle_max_confidence (config (bap_bank b)))))"

section \<open>Liquidation and bankruptcy conditions\<close>

definition check_pre_liquidation_condition_and_get_account_health ::
  "fixed_ops \<Rightarrow> oracle_lib \<Rightarrow> pubkey option \<Rightarrow> bool \<Rightarrow> RiskEngine \<Rightarrow> HealthCache option
    \<Rightarrow> (I80F48 \<times> I80F48 \<times> I80F48) res \<times> HealthCache option" where
  "check_pre_liquidation_condition_and_get_account_health fx lib bank_pk_opt ignore_healthy e hc =
     (let guard =
        bindR (check (\<not> acc_get_flag (re_account e) ACCOUNT_IN_FLASHLOAN) AccountInFlashloan) (\<lambda>_.
        case bank_pk_opt of None \<Rightarrow> Inr () | Some pk \<Rightarrow>
          bindR (ok_or LendingAccountBalanceNotFound (find_bank_account pk e)) (\<lambda>b.
          bindR (check (\<not> is_empty (bap_balance b) Liabilities) NoLiabilitiesInLiabilityBank) (\<lambda>_.
          check (is_empty (bap_balance b) Assets) AssetsInLiabilityBank)))
      in case guard of
        Inl err \<Rightarrow> (Inl err, hc)
      | Inr _ \<Rightarrow> (case get_account_health_components fx lib Maintenance e hc of
          (Inl err, hc') \<Rightarrow> (Inl err, hc')
        | (Inr (assets, liabs), hc') \<Rightarrow> (case checked_sub fx assets liabs of
            None \<Rightarrow> (Inl (Err MathError), hc')
          | Some account_health \<Rightarrow>
              (let healthy = account_health > 0; hc2 = map_option (set_healthy healthy) hc'
               in (if healthy \<and> \<not> ignore_healthy then Inl (Err HealthyAccount)
                   else Inr (account_health, assets, liabs), hc2)))))"

definition check_post_liquidation_condition_and_get_account_health ::
  "fixed_ops \<Rightarrow> oracle_lib \<Rightarrow> pubkey \<Rightarrow> I80F48 \<Rightarrow> RiskEngine \<Rightarrow> I80F48 res" where
  "check_post_liquidation_condition_and_get_account_health fx lib pk pre_liquidation_health e =
     bindR (check (\<not> acc_get_flag (re_account e) ACCOUNT_IN_FLASHLOAN) AccountInFlashloan) (\<lambda>_.
     bindR (unwrap (find_bank_account pk e)) (\<lambda>b.
     bindR (check (\<not> is_empty (bap_balance b) Liabilities) ExhaustedLiability) (\<lambda>_.
     bindR (check (is_empty (bap_balance b) Assets) TooSeverePayoff) (\<lambda>_.
     bindR (fst (get_account_health_components fx lib Maintenance e None)) (\<lambda>(assets, liabs).
     bindR (math (checked_sub fx assets liabs)) (\<lambda>account_health.
     bindR (check (account_health \<le> 0) TooSevereLiquidation) (\<lambda>_.
     if account_health \<le> pre_liquidation_health then Inl (Err WorseHealthPostLiquidation)
     else Inr account_health)))))))"

definition check_account_bankrupt ::
  "fixed_ops \<Rightarrow> oracle_lib \<Rightarrow> RiskEngine \<Rightarrow> HealthCache option
    \<Rightarrow> (I80F48 \<times> I80F48) res \<times> HealthCache option" where
  "check_account_bankrupt fx lib e hc =
     (case get_account_health_components fx lib Equity e hc of
        (Inl err, hc') \<Rightarrow> (Inl err, hc')
      | (Inr (total_assets, total_liabs), hc') \<Rightarrow>
          (bindR (check (\<not> acc_get_flag (re_account e) ACCOUNT_IN_FLASHLOAN) AccountInFlashloan) (\<lambda>_.
           bindR (check (total_assets < total_liabs) AccountNotBankrupt) (\<lambda>_.
           bindR (check (total_assets < BANKRUPT_THRESHOLD fx
                         \<and> total_liabs > ZERO_AMOUNT_THRESHOLD fx) AccountNotBankrupt) (\<lambda>_.
           Inr (total_assets, total_liabs)))), hc'))"

section \<open>Facts\<close>

text \<open>What the engine computes, as sums over the balances.\<close>

definition asset_worth ::
  "fixed_ops \<Rightarrow> oracle_lib \<Rightarrow> RequirementType \<Rightarrow> EmodeConfig \<Rightarrow> BankAccountWithPriceFeed \<Rightarrow> I80F48" where
  "asset_worth fx lib req ec b =
     (case calc_weighted_value fx lib req ec b of Inr (a, _, _, _) \<Rightarrow> a | Inl _ \<Rightarrow> 0)"

definition liab_worth ::
  "fixed_ops \<Rightarrow> oracle_lib \<Rightarrow> RequirementType \<Rightarrow> EmodeConfig \<Rightarrow> BankAccountWithPriceFeed \<Rightarrow> I80F48" where
  "liab_worth fx lib req ec b =
     (case calc_weighted_value fx lib req ec b of Inr (_, l, _, _) \<Rightarrow> l | Inl _ \<Rightarrow> 0)"

definition valued :: "fixed_ops \<Rightarrow> oracle_lib \<Rightarrow> RequirementType \<Rightarrow> EmodeConfig \<Rightarrow> BankAccountWithPriceFeed \<Rightarrow> bool" where
  "valued fx lib req ec b \<longleftrightarrow> (\<exists>v. calc_weighted_value fx lib req ec b = Inr v)"

text \<open>The worth of a balance means something only when the balance could be valued.\<close>

definition all_valued :: "fixed_ops \<Rightarrow> oracle_lib \<Rightarrow> RequirementType \<Rightarrow> RiskEngine \<Rightarrow> bool" where
  "all_valued fx lib req e \<longleftrightarrow> (\<forall>b \<in> set (bank_accounts_with_price e). valued fx lib req (re_emode_config e) b)"

text \<open>The engine looks at every active balance of its account, once.\<close>

definition complete :: "RiskEngine \<Rightarrow> bool" where
  "complete e \<longleftrightarrow> map bap_balance (bank_accounts_with_price e)
     = filter is_active (balances (lending_account (re_account e)))"

text \<open>Adding up one after the other never leaves the range of the numbers.\<close>

fun adds_up :: "int \<Rightarrow> int list \<Rightarrow> bool" where
  "adds_up s [] \<longleftrightarrow> True"
| "adds_up s (x # xs) \<longleftrightarrow> in_fx (s + x) \<and> adds_up (s + x) xs"

text \<open>The health cache has room for the prices of \<open>n\<close> balances (it has sixteen slots).\<close>

definition cache_room :: "RequirementType \<Rightarrow> nat \<Rightarrow> HealthCache option \<Rightarrow> bool" where
  "cache_room req n hc \<longleftrightarrow> (\<forall>c. req = Initial \<and> hc = Some c \<longrightarrow> n \<le> length (prices c))"

lemma load_from_balances:
  "load_from fx lib load_bank clock ais idx bs = Inr xs \<Longrightarrow> map bap_balance xs = bs"
  by (induction bs arbitrary: idx xs) (auto simp: Let_def elim!: bindR_InrE split: if_splits)

lemma engine_complete:
  assumes "new_no_flashloan_check fx lib load_bank clock a ais = Inr e"
  shows "re_account e = a" and "complete e"
  using assms load_from_balances
  by (auto simp: new_no_flashloan_check_def load_accounts_def complete_def elim!: bindR_InrE)

lemma risk_tier_loop_spec:
  "iso_cnt \<le> cnt \<Longrightarrow>
   (case risk_tier_loop bs iso_cnt cnt of (i, t) \<Rightarrow> i = 0 \<or> t = 1) \<longleftrightarrow>
   (let liabs = filter has_liability bs;
        iso = filter (\<lambda>b. risk_tier (config (bap_bank b)) = Isolated) liabs
    in iso_cnt + length iso = 0 \<or> cnt + length liabs = 1)"
proof (induction bs iso_cnt cnt rule: risk_tier_loop.induct)
  case (1 iso_cnt cnt)
  then show ?case by simp
next
  case (2 b bs iso_cnt cnt)
  consider "\<not> has_liability b" | "has_liability b" "risk_tier (config (bap_bank b)) \<noteq> Isolated"
    | "has_liability b" "risk_tier (config (bap_bank b)) = Isolated" "iso_cnt = 0"
    | "has_liability b" "risk_tier (config (bap_bank b)) = Isolated" "0 < iso_cnt" by blast
  then show ?case using 2 by cases (auto simp: Let_def)
qed

lemma check_account_risk_tiers_iff:
  "check_account_risk_tiers e = Inr () \<longleftrightarrow>
   (let liabs = filter has_liability (bank_accounts_with_price e)
    in length liabs = 1 \<or> (\<forall>b \<in> set liabs. risk_tier (config (bap_bank b)) \<noteq> Isolated))"
proof -
  have "check_account_risk_tiers e = Inr () \<longleftrightarrow>
      (case risk_tier_loop (bank_accounts_with_price e) 0 0 of (i, t) \<Rightarrow> i = 0 \<or> t = 1)"
    by (auto simp: check_account_risk_tiers_def check_def split: prod.splits)
  also have "\<dots> \<longleftrightarrow> (let liabs = filter has_liability (bank_accounts_with_price e)
    in length liabs = 1 \<or> (\<forall>b \<in> set liabs. risk_tier (config (bap_bank b)) \<noteq> Isolated))"
    unfolding risk_tier_loop_spec [OF order_refl] by (auto simp: Let_def filter_empty_conv)
  finally show ?thesis .
qed

context fixed_arith
begin

lemma health_loop_sums:
  assumes "health_loop fx lib req ec i bs ta tll found hc = (Inr (a, l), hc')"
  shows "(\<forall>b \<in> set bs. valued fx lib req ec b)
    \<and> a = ta + (\<Sum>b\<leftarrow>bs. asset_worth fx lib req ec b)
    \<and> l = tll + (\<Sum>b\<leftarrow>bs. liab_worth fx lib req ec b)"
  using assms
proof (induction bs arbitrary: i ta tll found hc)
  case Nil
  then show ?case by simp
next
  case (Cons b bs)
  obtain av lv p err where v: "calc_weighted_value fx lib req ec b = Inr (av, lv, p, err)"
    using Cons.prems by (auto split: sum.splits)
  obtain ta' tll' i' found' hc'' where r: "checked_add fx ta av = Some ta'" "checked_add fx tll lv = Some tll'"
    "health_loop fx lib req ec i' bs ta' tll' found' hc'' = (Inr (a, l), hc')"
    using Cons.prems v by (auto simp: Let_def split: option.splits if_splits)
  show ?case using Cons.IH [OF r(3)] v add_SomeD [OF r(1)] add_SomeD [OF r(2)]
    by (simp add: valued_def asset_worth_def liab_worth_def)
qed

lemma health_loop_ends:
  assumes "cache_room req (i + length bs) hc" and "\<forall>b \<in> set bs. valued fx lib req ec b"
    and "adds_up ta (map (asset_worth fx lib req ec) bs)" and "adds_up tll (map (liab_worth fx lib req ec) bs)"
  shows "\<exists>t hc'. health_loop fx lib req ec i bs ta tll found hc = (Inr t, hc')"
  using assms
proof (induction bs arbitrary: i ta tll found hc)
  case Nil
  then show ?case by simp
next
  case (Cons b bs)
  obtain av lv p err where v: "calc_weighted_value fx lib req ec b = Inr (av, lv, p, err)"
    using Cons.prems(2) by (auto simp: valued_def)
  then have w: "asset_worth fx lib req ec b = av" "liab_worth fx lib req ec b = lv"
    by (simp_all add: asset_worth_def liab_worth_def)
  define first_err where "first_err \<longleftrightarrow> err \<noteq> 0 \<and> \<not> found"
  define hc1 where "hc1 = (if first_err
      then map_option (\<lambda>c. c\<lparr>err_index := i mod 256, internal_err := err\<rparr>) hc else hc)"
  define hc2 where "hc2 = (if req = Initial
      then map_option (\<lambda>c. c\<lparr>prices := (prices c)[i := to_f64 fx p]\<rparr>) hc1 else hc1)"
  have room: "cache_room req (Suc i + length bs) hc2"
    using Cons.prems(1) by (auto simp: cache_room_def hc2_def hc1_def)
  have no: "\<not> (req = Initial \<and> (\<exists>c. hc1 = Some c \<and> \<not> i < length (prices c)))"
    using Cons.prems(1) by (auto simp: cache_room_def hc1_def split: if_splits)
  have c: "checked_add fx ta av = Some (ta + av)" "checked_add fx tll lv = Some (tll + lv)"
    using Cons.prems(3,4) w by (simp_all add: add)
  have "health_loop fx lib req ec i (b # bs) ta tll found hc
      = health_loop fx lib req ec (Suc i) bs (ta + av) (tll + lv) (found \<or> err \<noteq> 0) hc2"
    unfolding health_loop.simps v sum.case prod.case Let_def
      first_err_def [symmetric] hc1_def [symmetric] hc2_def [symmetric]
    using no c by auto
  moreover have "\<exists>t hc'. health_loop fx lib req ec (Suc i) bs (ta + av) (tll + lv) (found \<or> err \<noteq> 0) hc2
      = (Inr t, hc')"
    by (rule Cons.IH [OF room]) (use Cons.prems(2-4) w in simp_all)
  ultimately show ?case by simp
qed

lemma health_loop_added:
  assumes "health_loop fx lib req ec i bs ta tll found hc = (Inr t, hc')"
  shows "adds_up ta (map (asset_worth fx lib req ec) bs) \<and> adds_up tll (map (liab_worth fx lib req ec) bs)"
  using assms
proof (induction bs arbitrary: i ta tll found hc)
  case Nil
  then show ?case by simp
next
  case (Cons b bs)
  obtain av lv p err where v: "calc_weighted_value fx lib req ec b = Inr (av, lv, p, err)"
    using Cons.prems by (auto split: sum.splits)
  obtain ta' tll' i' found' hc'' where r: "checked_add fx ta av = Some ta'" "checked_add fx tll lv = Some tll'"
    "health_loop fx lib req ec i' bs ta' tll' found' hc'' = (Inr t, hc')"
    using Cons.prems v by (auto simp: Let_def split: option.splits if_splits)
  have "ta' = ta + av" "in_fx (ta + av)" "tll' = tll + lv" "in_fx (tll + lv)"
    using add_SomeD [OF r(1)] add_SomeD [OF r(2)] by auto
  then show ?case using Cons.IH [OF r(3)] v by (simp add: asset_worth_def liab_worth_def)
qed

lemma health_components_sums:
  assumes "get_account_health_components fx lib req e hc = (Inr (a, l), hc')"
  shows "all_valued fx lib req e
    \<and> a = (\<Sum>b\<leftarrow>bank_accounts_with_price e. asset_worth fx lib req (re_emode_config e) b)
    \<and> l = (\<Sum>b\<leftarrow>bank_accounts_with_price e. liab_worth fx lib req (re_emode_config e) b)"
  using assms health_loop_sums [of lib req "re_emode_config e" 0 "bank_accounts_with_price e" 0 0 False hc a l]
  by (auto simp: get_account_health_components_def all_valued_def split: prod.splits sum.splits)

lemma health_components_iff:
  assumes "cache_room req (length (bank_accounts_with_price e)) hc"
  shows "(\<exists>t hc'. get_account_health_components fx lib req e hc = (Inr t, hc')) \<longleftrightarrow>
    all_valued fx lib req e
    \<and> adds_up 0 (map (asset_worth fx lib req (re_emode_config e)) (bank_accounts_with_price e))
    \<and> adds_up 0 (map (liab_worth fx lib req (re_emode_config e)) (bank_accounts_with_price e))"
    (is "?runs \<longleftrightarrow> ?sums")
proof
  assume ?runs
  then obtain a l hc' where g: "get_account_health_components fx lib req e hc = (Inr (a, l), hc')" by force
  then obtain hc'' where "health_loop fx lib req (re_emode_config e) 0 (bank_accounts_with_price e) 0 0 False hc
      = (Inr (a, l), hc'')"
    by (auto simp: get_account_health_components_def split: prod.splits sum.splits)
  then show ?sums using health_loop_added health_components_sums [OF g] by blast
next
  assume ?sums
  then have "\<exists>t hc'. health_loop fx lib req (re_emode_config e) 0 (bank_accounts_with_price e) 0 0 False hc
      = (Inr t, hc')"
    using assms by (intro health_loop_ends) (simp_all add: all_valued_def)
  then show ?runs by (auto simp: get_account_health_components_def)
qed

lemma check_account_health_iff:
  assumes "cache_room req (length (bank_accounts_with_price e)) hc"
  shows "fst (check_account_health fx lib req e hc) = Inr () \<longleftrightarrow>
      all_valued fx lib req e
      \<and> adds_up 0 (map (asset_worth fx lib req (re_emode_config e)) (bank_accounts_with_price e))
      \<and> adds_up 0 (map (liab_worth fx lib req (re_emode_config e)) (bank_accounts_with_price e))
      \<and> (\<Sum>b\<leftarrow>bank_accounts_with_price e. liab_worth fx lib req (re_emode_config e) b)
        \<le> (\<Sum>b\<leftarrow>bank_accounts_with_price e. asset_worth fx lib req (re_emode_config e) b)
      \<and> (let liabs = filter has_liability (bank_accounts_with_price e)
         in length liabs = 1 \<or> (\<forall>b \<in> set liabs. risk_tier (config (bap_bank b)) \<noteq> Isolated))"
proof (cases "\<exists>t hc'. get_account_health_components fx lib req e hc = (Inr t, hc')")
  case True
  then obtain a l hc' where g: "get_account_health_components fx lib req e hc = (Inr (a, l), hc')" by force
  have "fst (check_account_health fx lib req e hc) = Inr () \<longleftrightarrow> l \<le> a \<and> check_account_risk_tiers e = Inr ()"
    by (auto simp: check_account_health_def g Let_def)
  then show ?thesis
    using health_components_sums [OF g] True health_components_iff [OF assms]
    unfolding check_account_risk_tiers_iff by blast
next
  case False
  then have "fst (check_account_health fx lib req e hc) \<noteq> Inr ()"
    by (auto simp: check_account_health_def split: sum.splits prod.splits)
  then show ?thesis using False health_components_iff [OF assms] by blast
qed

lemma check_account_health_sums:
  assumes "fst (check_account_health fx lib req e hc) = Inr ()"
  shows "all_valued fx lib req e
      \<and> (\<Sum>b\<leftarrow>bank_accounts_with_price e. liab_worth fx lib req (re_emode_config e) b)
        \<le> (\<Sum>b\<leftarrow>bank_accounts_with_price e. asset_worth fx lib req (re_emode_config e) b)
      \<and> (let liabs = filter has_liability (bank_accounts_with_price e)
         in length liabs = 1 \<or> (\<forall>b \<in> set liabs. risk_tier (config (bap_bank b)) \<noteq> Isolated))"
proof -
  obtain a l hc' where g: "get_account_health_components fx lib req e hc = (Inr (a, l), hc')"
    using assms by (auto simp: check_account_health_def split: sum.splits prod.splits)
  then show ?thesis
    using assms health_components_sums [OF g]
    by (auto simp: check_account_health_def check_account_risk_tiers_iff Let_def split: if_splits)
qed

end

text \<open>
  What a passed check at initial weights means: every active balance of the account could be
  valued, the debts are covered by the assets, and an isolated debt is the only debt.
\<close>

definition covered :: "fixed_ops \<Rightarrow> oracle_lib \<Rightarrow> RiskEngine \<Rightarrow> bool" where
  "covered fx lib e \<longleftrightarrow> complete e \<and> all_valued fx lib Initial e
     \<and> (\<Sum>b\<leftarrow>bank_accounts_with_price e. liab_worth fx lib Initial (re_emode_config e) b)
       \<le> (\<Sum>b\<leftarrow>bank_accounts_with_price e. asset_worth fx lib Initial (re_emode_config e) b)
     \<and> (let liabs = filter has_liability (bank_accounts_with_price e)
        in length liabs = 1 \<or> (\<forall>b \<in> set liabs. risk_tier (config (bap_bank b)) \<noteq> Isolated))"

end
