(* ===== verification/TokenIx.thy ===== *)
theory TokenIx
  imports IxBase RiskEngine AccountSteps
begin

text \<open>
  The instructions that move a user's tokens (\<open>deposit.rs\<close>, \<open>withdraw.rs\<close>, \<open>borrow.rs\<close>,
  \<open>repay.rs\<close>, \<open>close_balance.rs\<close>, \<open>close.rs\<close> of \<open>instructions/marginfi_account/\<close>). Each is the
  account constraints in the order Anchor checks them, followed by the body of the handler.

  \<open>ix_env\<close> is what surrounds an instruction: the libraries, the clock, the banks the remaining
  accounts hold. \<open>ix_accounts\<close> are the keys of the accounts passed to it. A handler takes the
  account and the bank and returns them changed, with the token transfers it makes.
\<close>

record ix_env =
  e_fx :: fixed_ops
  e_lib :: oracle_lib
  e_load_bank :: "AccountInfo \<Rightarrow> Bank res"
  e_parse_mint :: "AccountInfo \<Rightarrow> MintAi option"
  e_clock :: Clock

record token_accounts =
  ta_group :: pubkey
  ta_bank :: pubkey
  ta_authority :: pubkey
  ta_user_tokens :: pubkey
  ta_liquidity_vault :: pubkey
  ta_vault_authority :: pubkey
  ta_vault_amount :: u64
  ta_token_program :: TokenProgram

definition e_now :: "ix_env \<Rightarrow> i64" where "e_now env = unix_timestamp (e_clock env)"

definition PROGRAM_VERSION :: u8 where "PROGRAM_VERSION = 3"

section \<open>Shared steps\<close>

text \<open>The constraints on the account: its group, the freeze, and who may sign.\<close>

definition account_constraints ::
  "bool \<Rightarrow> pubkey \<Rightarrow> pubkey \<Rightarrow> MarginfiGroup \<Rightarrow> MarginfiAccount \<Rightarrow> unit res" where
  "account_constraints allow_receivership group_key signer g a =
     bindR (account_in_group group_key a) (\<lambda>_.
     bindR (check (account_not_frozen_for_authority a signer) AccountFrozen) (\<lambda>_.
     check (is_signer_authorized a (admin g) signer allow_receivership) Unauthorized))"

definition bank_constraints :: "token_accounts \<Rightarrow> Bank \<Rightarrow> unit res" where
  "bank_constraints ta b =
     bindR (bank_in_group (ta_group ta) b) (\<lambda>_.
     bindR (check (liquidity_vault b = ta_liquidity_vault ta) InvalidLiquidityVault) (\<lambda>_.
     check (is_marginfi_asset_tag (asset_tag (config b))) WrongAssetTagForStandardInstructions))"

text \<open>\<open>.ok()\<close>: an error is dropped, a panic is not.\<close>

definition ok_of :: "'a res \<Rightarrow> 'a option res" where
  "ok_of r = (case r of Inr x \<Rightarrow> Inr (Some x) | Inl Panic \<Rightarrow> Inl Panic | Inl _ \<Rightarrow> Inr None)"

text \<open>
  The bank being changed is the one the risk engine loads at its key; the other banks are read from
  their accounts.
\<close>

definition with_bank :: "pubkey \<Rightarrow> Bank \<Rightarrow> (AccountInfo \<Rightarrow> Bank res) \<Rightarrow> AccountInfo \<Rightarrow> Bank res" where
  "with_bank key b load_bank ai = (if ai_key ai = key then Inr b else load_bank ai)"

text \<open>
  The check at the end of a withdrawal or a borrow. It gives the new health cache and, outside flash
  loans, the price to cache in the bank.
\<close>

definition final_health ::
  "ix_env \<Rightarrow> pubkey \<Rightarrow> Bank \<Rightarrow> MarginfiAccount \<Rightarrow> AccountInfo list
    \<Rightarrow> (HealthCache \<times> OraclePriceWithConfidence option) res" where
  "final_health env bank_key b a ais =
     (case check_account_init_health (e_fx env) (e_lib env) (with_bank bank_key b (e_load_bank env))
             (e_clock env) a ais (Some (HealthCache_zeroed\<lparr>hc_timestamp := e_now env\<rparr>)) of
        (risk_result, risk_engine, hc) \<Rightarrow>
          bindR risk_result (\<lambda>_.
          bindR (case risk_engine of
              None \<Rightarrow> Inr None
            | Some e \<Rightarrow> ok_of (get_unbiased_price_for_bank (e_fx env) (e_lib env) bank_key e)) (\<lambda>price.
          bindR (unwrap hc) (\<lambda>c.
          Inr (set_engine_ok True (c\<lparr>program_version := PROGRAM_VERSION\<rparr>), price)))))"

text \<open>A change of the balance at an index, by a method without a result.\<close>

definition run_at ::
  "nat \<Rightarrow> (wrapper \<Rightarrow> wrapper res) \<Rightarrow> LendingAccount \<Rightarrow> Bank \<Rightarrow> (LendingAccount \<times> Bank) res" where
  "run_at i f la b =
     bindR (at_balance i (\<lambda>w. bindR (f w) (\<lambda>w'. Inr ((), w'))) (la, b)) (\<lambda>(_, la', b'). Inr (la', b'))"

text \<open>\<open>I80F48::from_num\<close> of a token amount.\<close>

definition amount_num :: "ix_env \<Rightarrow> u64 \<Rightarrow> I80F48 res" where
  "amount_num env n = unwrap (from_num (e_fx env) (int n))"

text \<open>The account after its balances were changed: the new balances, sorted, and a time stamp.\<close>

definition booked :: "ix_env \<Rightarrow> LendingAccount \<Rightarrow> MarginfiAccount \<Rightarrow> MarginfiAccount" where
  "booked env la a = a\<lparr>lending_account := sort_balances la, acc_last_update := as_u64 (e_now env)\<rparr>"

section \<open>Deposit\<close>

definition deposit_amount_of :: "ix_env \<Rightarrow> u64 \<Rightarrow> bool \<Rightarrow> Bank \<Rightarrow> u64 res" where
  "deposit_amount_of env amount deposit_up_to_limit b =
     (if deposit_up_to_limit
      then bindR (get_remaining_deposit_capacity (e_fx env) b) (\<lambda>c. Inr (min amount c))
      else Inr amount)"

definition deposit_guards ::
  "ix_env \<Rightarrow> token_accounts \<Rightarrow> MarginfiGroup \<Rightarrow> MarginfiAccount \<Rightarrow> Bank \<Rightarrow> unit res" where
  "deposit_guards env ta g a b =
     bindR (not_paused g (e_now env)) (\<lambda>_.
     bindR (account_constraints False (ta_group ta) (ta_authority ta) g a) (\<lambda>_.
     bindR (bank_constraints ta b) (\<lambda>_.
     check (\<not> bank_get_flag b TOKENLESS_REPAYMENTS_ALLOWED) BankReduceOnly)))"

definition lending_account_deposit ::
  "ix_env \<Rightarrow> token_accounts \<Rightarrow> MarginfiGroup \<Rightarrow> AccountInfo list \<Rightarrow> u64 \<Rightarrow> bool option
    \<Rightarrow> MarginfiAccount \<times> Bank \<Rightarrow> (MarginfiAccount \<times> Bank \<times> Transfer list) res" where
  "lending_account_deposit env ta g ais amount up_to_limit s = (case s of (a, b) \<Rightarrow>
     bindR (deposit_guards env ta g a b) (\<lambda>_.
     bindR (maybe_take_bank_mint (e_parse_mint env) ais b (ta_token_program ta)) (\<lambda>(mint_ai, ais).
     bindR (validate_asset_tags b a) (\<lambda>_.
     bindR (validate_bank_state b FailsIfPausedOrReduceState) (\<lambda>_.
     bindR (check (\<not> acc_get_flag a ACCOUNT_DISABLED \<and> \<not> acc_get_flag a ACCOUNT_IN_RECEIVERSHIP)
              AccountDisabled) (\<lambda>_.
     bindR (deposit_amount_of env amount (case up_to_limit of Some v \<Rightarrow> v | None \<Rightarrow> False) b) (\<lambda>n.
     if n = 0 then Inr (a, b, [])
     else
       bindR (accrue_interest (e_fx env) (e_now env) g b) (\<lambda>b1.
       bindR (find_or_create (e_now env) (ta_bank ta) b1 (lending_account a)) (\<lambda>(i, la).
       bindR (amount_num env n) (\<lambda>v.
       bindR (run_at i (deposit (e_fx env) (e_now env) v) la b1) (\<lambda>(la', b2).
       bindR (pre_fee mint_ai n (clock_epoch (e_clock env))) (\<lambda>gross.
       bindR (deposit_spl_transfer b2 gross (ta_user_tokens ta) (ta_liquidity_vault ta) (ta_authority ta))
         (\<lambda>t.
       bindR (update_bank_cache (e_fx env) (e_now env) g b2) (\<lambda>b3.
       Inr (booked env la' a, b3, [t])
       ))))))))))))))"

section \<open>Withdraw\<close>

definition withdraw_guards ::
  "ix_env \<Rightarrow> token_accounts \<Rightarrow> MarginfiGroup \<Rightarrow> MarginfiAccount \<Rightarrow> Bank \<Rightarrow> unit res" where
  "withdraw_guards env ta g a b =
     bindR (not_paused g (e_now env)) (\<lambda>_.
     bindR (account_constraints True (ta_group ta) (ta_authority ta) g a) (\<lambda>_.
     bindR (bank_constraints ta b) (\<lambda>_.
     check (\<not> (acc_get_flag a ACCOUNT_IN_RECEIVERSHIP \<and> asset_weight_init (config b) = 0))
       LiquidationPremiumTooHigh)))"

text \<open>The price that a withdrawal in receivership needs; other withdrawals use zero.\<close>

definition receivership_price ::
  "ix_env \<Rightarrow> pubkey \<Rightarrow> MarginfiAccount \<Rightarrow> Bank \<Rightarrow> AccountInfo list \<Rightarrow> I80F48 res" where
  "receivership_price env bank_key a b ais =
     (if acc_get_flag a ACCOUNT_IN_RECEIVERSHIP
      then bindR (fetch_asset_price_for_bank_low_bias (e_fx env) (e_lib env) (e_clock env) bank_key b ais)
             (\<lambda>price. bindR (check (price > 0) ZeroAssetPrice) (\<lambda>_. Inr price))
      else Inr 0)"

definition withdraw_tokens ::
  "ix_env \<Rightarrow> MintAi option \<Rightarrow> u64 \<Rightarrow> bool \<Rightarrow> nat \<Rightarrow> LendingAccount \<Rightarrow> Bank
    \<Rightarrow> (u64 \<times> LendingAccount \<times> Bank) res" where
  "withdraw_tokens env mint_ai amount everything i la b =
     (if everything then at_balance i (withdraw_all (e_fx env) (e_now env)) (la, b)
      else bindR (pre_fee mint_ai amount (clock_epoch (e_clock env))) (\<lambda>n.
           bindR (amount_num env n) (\<lambda>v.
           bindR (run_at i (withdraw (e_fx env) (e_now env) v) la b) (\<lambda>(la', b'). Inr (n, la', b')))))"

text \<open>The health check at the end, which receivership skips until the end of the transaction.\<close>

definition withdraw_health ::
  "ix_env \<Rightarrow> pubkey \<Rightarrow> Bank \<Rightarrow> MarginfiAccount \<Rightarrow> AccountInfo list
    \<Rightarrow> (MarginfiAccount \<times> OraclePriceWithConfidence option) res" where
  "withdraw_health env bank_key b a ais =
     (if \<not> acc_get_flag a ACCOUNT_IN_RECEIVERSHIP
      then bindR (final_health env bank_key b a ais) (\<lambda>(hc, price). Inr (a\<lparr>health_cache := hc\<rparr>, price))
      else bindR (ok_of (fetch_unbiased_price_for_bank (e_fx env) (e_lib env) (e_clock env) bank_key b ais))
             (\<lambda>price. Inr (a, price)))"

definition lending_account_withdraw ::
  "ix_env \<Rightarrow> token_accounts \<Rightarrow> AccountInfo list \<Rightarrow> u64 \<Rightarrow> bool option
    \<Rightarrow> MarginfiGroup \<times> MarginfiAccount \<times> Bank
    \<Rightarrow> (MarginfiGroup \<times> MarginfiAccount \<times> Bank \<times> Transfer list) res" where
  "lending_account_withdraw env ta ais amount everything s = (case s of (g, a, b) \<Rightarrow>
     bindR (withdraw_guards env ta g a b) (\<lambda>_.
     bindR (check (\<not> acc_get_flag a ACCOUNT_DISABLED) AccountDisabled) (\<lambda>_.
     bindR (validate_bank_state b FailsInPausedState) (\<lambda>_.
     bindR (maybe_take_bank_mint (e_parse_mint env) ais b (ta_token_program ta)) (\<lambda>(mint_ai, ais).
     bindR (receivership_price env (ta_bank ta) a b ais) (\<lambda>price.
     bindR (accrue_interest (e_fx env) (e_now env) g b) (\<lambda>b1.
     bindR (wrapper_find (ta_bank ta) (lending_account a)) (\<lambda>i.
     bindR (withdraw_tokens env mint_ai amount (case everything of Some v \<Rightarrow> v | None \<Rightarrow> False) i
              (lending_account a) b1) (\<lambda>(m, la', b2).
     let n = (if bank_get_flag b2 TOKENLESS_REPAYMENTS_COMPLETE then min m (ta_vault_amount ta) else m)
     in
     bindR (if acc_get_flag a ACCOUNT_IN_DELEVERAGE
            then bindR (amount_num env n) (\<lambda>v.
                 bindR (calc_value (e_fx env) v price (get_balance_decimals b2) None) (\<lambda>equity.
                 update_withdrawn_equity (e_fx env) equity (e_now env) g))
            else Inr g) (\<lambda>g'.
     let t = withdraw_spl_transfer n (ta_liquidity_vault ta) (ta_user_tokens ta) (ta_vault_authority ta)
     in
     bindR (update_bank_cache (e_fx env) (e_now env) g' b2) (\<lambda>b3.
     bindR (withdraw_health env (ta_bank ta) b3 (booked env la' a) ais) (\<lambda>(a', price).
     Inr (g', a', update_cache_price (e_now env) price b3, [t])))))))))))))"

section \<open>Borrow\<close>

definition borrow_guards ::
  "ix_env \<Rightarrow> token_accounts \<Rightarrow> MarginfiGroup \<Rightarrow> MarginfiAccount \<Rightarrow> Bank \<Rightarrow> unit res" where
  "borrow_guards env ta g a b =
     bindR (not_paused g (e_now env)) (\<lambda>_.
     bindR (account_constraints False (ta_group ta) (ta_authority ta) g a) (\<lambda>_.
     bindR (bank_constraints ta b) (\<lambda>_.
     check (\<not> bank_get_flag b TOKENLESS_REPAYMENTS_ALLOWED) ForbiddenIx)))"

text \<open>The origination fee on an amount, and the whole part of it that only the event reports.\<close>

definition origination_fee_of :: "fixed_ops \<Rightarrow> I80F48 \<Rightarrow> I80F48 \<Rightarrow> (I80F48 \<times> u64) res" where
  "origination_fee_of fx origination_fee_rate amount =
     (if origination_fee_rate \<noteq> 0
      then bindR (math (checked_mul fx amount origination_fee_rate)) (\<lambda>fee.
           bindR (math (checked_to_u64 fx fee)) (\<lambda>n. Inr (fee, n)))
      else Inr (0, 0))"

text \<open>What is borrowed: the amount, with the origination fee added when there is one.\<close>

definition borrowed_amount :: "fixed_ops \<Rightarrow> I80F48 \<Rightarrow> I80F48 \<Rightarrow> I80F48 \<Rightarrow> I80F48 res" where
  "borrowed_amount fx origination_fee_rate amount fee =
     (if origination_fee_rate \<noteq> 0 then unwrap (op_add fx amount fee) else Inr amount)"

text \<open>The split of the origination fee between the program and the group.\<close>

definition book_origination_fee :: "fixed_ops \<Rightarrow> I80F48 \<Rightarrow> I80F48 \<Rightarrow> Bank \<Rightarrow> Bank res" where
  "book_origination_fee fx fee_rate origination_fee b =
     (if origination_fee = 0 then Inr b
      else if fee_rate \<noteq> 0 then
        bindR (math (checked_mul fx origination_fee fee_rate)) (\<lambda>program_fee_amount.
        Inr (b\<lparr>collected_program_fees_outstanding :=
                 saturating_add fx (collected_program_fees_outstanding b) program_fee_amount,
               collected_group_fees_outstanding :=
                 saturating_add fx (collected_group_fees_outstanding b)
                   (saturating_sub fx origination_fee program_fee_amount)\<rparr>))
      else Inr (b\<lparr>collected_group_fees_outstanding :=
             saturating_add fx (collected_group_fees_outstanding b) origination_fee\<rparr>))"

definition lending_account_borrow ::
  "ix_env \<Rightarrow> token_accounts \<Rightarrow> MarginfiGroup \<Rightarrow> AccountInfo list \<Rightarrow> u64
    \<Rightarrow> MarginfiAccount \<times> Bank \<Rightarrow> (MarginfiAccount \<times> Bank \<times> Transfer list) res" where
  "lending_account_borrow env ta g ais amount s = (case s of (a, b) \<Rightarrow>
     bindR (borrow_guards env ta g a b) (\<lambda>_.
     bindR (maybe_take_bank_mint (e_parse_mint env) ais b (ta_token_program ta)) (\<lambda>(mint_ai, ais).
     bindR (check (\<not> acc_get_flag a ACCOUNT_DISABLED \<and> \<not> acc_get_flag a ACCOUNT_IN_RECEIVERSHIP)
              AccountDisabled) (\<lambda>_.
     bindR (accrue_interest (e_fx env) (e_now env) g b) (\<lambda>b1.
     bindR (validate_asset_tags b1 a) (\<lambda>_.
     bindR (validate_bank_state b1 FailsIfPausedOrReduceState) (\<lambda>_.
     let fee_rate = protocol_origination_fee (interest_rate_config (config b1)) in
     bindR (find_or_create (e_now env) (ta_bank ta) b1 (lending_account a)) (\<lambda>(i, la).
     bindR (pre_fee mint_ai amount (clock_epoch (e_clock env))) (\<lambda>n.
     bindR (amount_num env n) (\<lambda>v.
     bindR (origination_fee_of (e_fx env) fee_rate v) (\<lambda>(fee, _).
     bindR (borrowed_amount (e_fx env) fee_rate v fee) (\<lambda>debt.
     bindR (run_at i (borrow (e_fx env) (e_now env) debt) la b1) (\<lambda>(la', b2).
     let t = withdraw_spl_transfer n (ta_liquidity_vault ta) (ta_user_tokens ta) (ta_vault_authority ta)
     in
     bindR (book_origination_fee (e_fx env) (fsc_program_fee_rate (fee_state_cache g)) fee b2) (\<lambda>b3.
     let a' = booked env la' a in
     bindR (final_health env (ta_bank ta) b3 a' ais) (\<lambda>(hc, price).
     bindR (update_bank_cache (e_fx env) (e_now env) g b3) (\<lambda>b4.
     Inr (a'\<lparr>health_cache := hc\<rparr>, update_cache_price (e_now env) price b4, [t])
     ))))))))))))))))"

section \<open>Repay\<close>

definition repay_guards ::
  "ix_env \<Rightarrow> token_accounts \<Rightarrow> MarginfiGroup \<Rightarrow> MarginfiAccount \<Rightarrow> Bank \<Rightarrow> unit res" where
  "repay_guards env ta g a b =
     bindR (not_paused g (e_now env)) (\<lambda>_.
     bindR (account_constraints True (ta_group ta) (ta_authority ta) g a) (\<lambda>_.
     bank_constraints ta b))"

definition repay_tokens ::
  "ix_env \<Rightarrow> u64 \<Rightarrow> bool \<Rightarrow> nat \<Rightarrow> LendingAccount \<Rightarrow> Bank \<Rightarrow> (u64 \<times> LendingAccount \<times> Bank) res" where
  "repay_tokens env amount everything i la b =
     (if everything then at_balance i (repay_all (e_fx env) (e_now env)) (la, b)
      else bindR (amount_num env amount) (\<lambda>v.
           bindR (run_at i (repay (e_fx env) (e_now env) v) la b) (\<lambda>(la', b'). Inr (amount, la', b'))))"

text \<open>Once a bank that allows repaying without tokens has no debt left, its repayments are complete.\<close>

definition mark_repayments_complete :: "fixed_ops \<Rightarrow> Bank \<Rightarrow> Bank res" where
  "mark_repayments_complete fx b =
     (if bank_get_flag b TOKENLESS_REPAYMENTS_ALLOWED
      then bindR (unwrap (op_abs fx (total_liability_shares b))) (\<lambda>liabs.
           bindR (unwrap (op_mul fx (ZERO_AMOUNT_THRESHOLD fx) (10 * ONE))) (\<lambda>threshold.
           if liabs < threshold then update_flag True TOKENLESS_REPAYMENTS_COMPLETE b else Inr b))
      else Inr b)"

definition lending_account_repay ::
  "ix_env \<Rightarrow> token_accounts \<Rightarrow> MarginfiGroup \<Rightarrow> AccountInfo list \<Rightarrow> u64 \<Rightarrow> bool option
    \<Rightarrow> MarginfiAccount \<times> Bank \<Rightarrow> (MarginfiAccount \<times> Bank \<times> Transfer list) res" where
  "lending_account_repay env ta g ais amount everything s = (case s of (a, b) \<Rightarrow>
     let repay_everything = (case everything of Some v \<Rightarrow> v | None \<Rightarrow> False) in
     bindR (repay_guards env ta g a b) (\<lambda>_.
     bindR (maybe_take_bank_mint (e_parse_mint env) ais b (ta_token_program ta)) (\<lambda>(mint_ai, ais).
     bindR (check (\<not> acc_get_flag a ACCOUNT_DISABLED) AccountDisabled) (\<lambda>_.
     bindR (validate_bank_state b FailsInPausedState) (\<lambda>_.
     bindR (accrue_interest (e_fx env) (e_now env) g b) (\<lambda>b1.
     bindR (wrapper_find (ta_bank ta) (lending_account a)) (\<lambda>i.
     bindR (repay_tokens env amount repay_everything i (lending_account a) b1) (\<lambda>(n, la', b2).
     bindR (if ta_authority ta = risk_admin g \<and> bank_get_flag b2 TOKENLESS_REPAYMENTS_ALLOWED
               \<and> repay_everything
            then Inr []
            else bindR (pre_fee mint_ai n (clock_epoch (e_clock env))) (\<lambda>gross.
                 bindR (deposit_spl_transfer b2 gross (ta_user_tokens ta) (ta_liquidity_vault ta)
                          (ta_authority ta)) (\<lambda>t. Inr [t]))) (\<lambda>ts.
     bindR (mark_repayments_complete (e_fx env) b2) (\<lambda>b3.
     bindR (update_bank_cache (e_fx env) (e_now env) g b3) (\<lambda>b4.
     Inr (booked env la' a, b4, ts)
     )))))))))))"

section \<open>Closing a balance or an account\<close>

text \<open>The protocol pause does not stop a balance from being closed.\<close>

definition lending_account_close_balance ::
  "ix_env \<Rightarrow> token_accounts \<Rightarrow> MarginfiGroup \<Rightarrow> MarginfiAccount \<times> Bank
    \<Rightarrow> (MarginfiAccount \<times> Bank) res" where
  "lending_account_close_balance env ta g s = (case s of (a, b) \<Rightarrow>
     bindR (account_constraints False (ta_group ta) (ta_authority ta) g a) (\<lambda>_.
     bindR (bank_in_group (ta_group ta) b) (\<lambda>_.
     bindR (check (is_marginfi_asset_tag (asset_tag (config b))) WrongAssetTagForStandardInstructions) (\<lambda>_.
     bindR (check (\<not> acc_get_flag a ACCOUNT_DISABLED) AccountDisabled) (\<lambda>_.
     bindR (accrue_interest (e_fx env) (e_now env) g b) (\<lambda>b1.
     bindR (update_bank_cache (e_fx env) (e_now env) g b1) (\<lambda>b2.
     bindR (wrapper_find (ta_bank ta) (lending_account a)) (\<lambda>i.
     bindR (run_at i (close_balance (e_fx env) (e_now env)) (lending_account a) b2) (\<lambda>(la', b3).
     Inr (booked env la' a, b3))))))))))"

text \<open>Anchor closes the account when the handler succeeds.\<close>

definition close_account :: "pubkey \<Rightarrow> MarginfiAccount \<Rightarrow> unit res" where
  "close_account signer a =
     bindR (check (authority a = signer) Unauthorized) (\<lambda>_.
     if acc_get_flag a ACCOUNT_FROZEN then Inl (Err AccountFrozen)
     else bindR (can_be_closed a) (\<lambda>c. check c IllegalAction))"

end
