(* ===== verification/IxUtils.thy ===== *)
theory IxUtils
  imports Guards
begin

text \<open>
  Introspection of the running transaction (\<open>ix_utils.rs\<close>): its top-level instructions, the
  index of the current one, and how deep in cross-program calls the current code runs. Reading the
  instructions sysvar is Solana's: a record \<open>tx_context\<close> gives what it returns. The loop that
  reads all instructions ends only when the sysvar reports the end, so it is a partial function;
  \<open>list_sysvar\<close> is the documented behaviour for a transaction with given instructions.
\<close>

record AccountMeta =
  am_pubkey :: pubkey
  am_is_signer :: bool
  am_is_writable :: bool

record Instruction =
  program_id :: pubkey
  ix_accounts :: "AccountMeta list"
  ix_data :: "u8 list"

record tx_context =
  current_index :: "nat res"
  instruction_at :: "nat \<Rightarrow> Instruction res"
  stack_height :: nat

definition TRANSACTION_LEVEL_STACK_HEIGHT :: nat where "TRANSACTION_LEVEL_STACK_HEIGHT = 1"

definition list_sysvar :: "Instruction list \<Rightarrow> nat \<Rightarrow> Instruction res" where
  "list_sysvar ixs i = (if i < length ixs then Inr (ixs ! i) else Inl (ProgramError ''InvalidArgument''))"

section \<open>Position checks\<close>

text \<open>\<open>data[0..8]\<close>: a shorter datum panics.\<close>

definition discrim :: "Instruction \<Rightarrow> u8 list" where
  "discrim ix = take 8 (ix_data ix)"

definition is_ix :: "pubkey \<Rightarrow> u8 list \<Rightarrow> Instruction \<Rightarrow> bool" where
  "is_ix pid hash ix \<longleftrightarrow> program_id ix = pid \<and> discrim ix = hash"

fun first_loop ::
  "pubkey \<Rightarrow> pubkey \<Rightarrow> u8 list \<Rightarrow> (pubkey \<times> u8 list) list \<Rightarrow> Instruction list \<Rightarrow> bool \<Rightarrow> bool res" where
  "first_loop compute_budget_key pid hash allowed [] encountered = Inr encountered"
| "first_loop compute_budget_key pid hash allowed (ix # ixs) encountered =
     (if program_id ix = compute_budget_key
        then first_loop compute_budget_key pid hash allowed ixs encountered
      else if length (ix_data ix) < 8 then Inl (Err StartNotFirst)
      else if \<not> encountered then
        (if is_ix pid hash ix then first_loop compute_budget_key pid hash allowed ixs True
         else if (program_id ix, discrim ix) \<notin> set allowed then Inl (Err StartNotFirst)
         else first_loop compute_budget_key pid hash allowed ixs encountered)
      else if is_ix pid hash ix then Inl (Err StartRepeats)
      else first_loop compute_budget_key pid hash allowed ixs encountered)"

definition validate_ix_first ::
  "pubkey \<Rightarrow> Instruction list \<Rightarrow> pubkey \<Rightarrow> u8 list \<Rightarrow> (pubkey \<times> u8 list) list \<Rightarrow> unit res" where
  "validate_ix_first compute_budget_key ixs pid hash allowed =
     bindR (first_loop compute_budget_key pid hash allowed ixs False) (\<lambda>encountered.
     if encountered then Inr () else Inl (Err StartNotFirst))"

definition validate_ix_last :: "Instruction list \<Rightarrow> pubkey \<Rightarrow> u8 list \<Rightarrow> unit res" where
  "validate_ix_last ixs pid hash =
     (if ixs = [] then Inl Panic
      else let last_ix = last ixs in
        if length (ix_data last_ix) < 8 then Inl (Err EndNotLast)
        else bindR (check (program_id last_ix = pid) EndNotLast) (\<lambda>_.
             check (discrim last_ix = hash) EndNotLast))"

fun exclusive_loop :: "u8 list list \<Rightarrow> Instruction list \<Rightarrow> unit res" where
  "exclusive_loop hashes [] = Inr ()"
| "exclusive_loop hashes (ix # ixs) =
     (if length (ix_data ix) < 8 then Inl Panic
      else if discrim ix \<notin> set hashes then Inl (Err ForbiddenIx)
      else exclusive_loop hashes ixs)"

definition validate_ixes_exclusive :: "Instruction list \<Rightarrow> pubkey \<Rightarrow> u8 list list \<Rightarrow> unit res" where
  "validate_ixes_exclusive ixs pid hashes =
     exclusive_loop hashes (filter (\<lambda>ix. program_id ix = pid) ixs)"

section \<open>Cross-program calls\<close>

definition validate_not_cpi_with_sysvar :: "pubkey \<Rightarrow> tx_context \<Rightarrow> nat res" where
  "validate_not_cpi_with_sysvar mrgn_key tx =
     bindR (current_index tx) (\<lambda>i.
     bindR (instruction_at tx i) (\<lambda>current_ix.
     if program_id current_ix \<noteq> mrgn_key then Inl (Err NotAllowedInCPI) else Inr i))"

definition validate_not_cpi_by_stack_height :: "tx_context \<Rightarrow> unit res" where
  "validate_not_cpi_by_stack_height tx =
     check (stack_height tx = TRANSACTION_LEVEL_STACK_HEIGHT) NotAllowedInCPI"

section \<open>Reading all instructions\<close>

definition validate_program_allowed :: "Instruction \<Rightarrow> pubkey list \<Rightarrow> unit res" where
  "validate_program_allowed ix keys =
     (if program_id ix \<notin> set keys then Inl (Err ForbiddenIx) else Inr ())"

partial_function (option) load_loop ::
  "(nat \<Rightarrow> Instruction res) \<Rightarrow> pubkey list option \<Rightarrow> nat \<Rightarrow> Instruction list
    \<Rightarrow> Instruction list res option" where
  "load_loop at allowed ix_count ixes =
     (case at ix_count of
        Inr ix \<Rightarrow>
          (case (case allowed of Some keys \<Rightarrow> validate_program_allowed ix keys | None \<Rightarrow> Inr ()) of
             Inl e \<Rightarrow> Some (Inl e)
           | Inr _ \<Rightarrow> load_loop at allowed (ix_count + 1) (ixes @ [ix]))
      | Inl e \<Rightarrow> if e = ProgramError ''InvalidArgument'' then Some (Inr ixes) else Some (Inl Panic))"

text \<open>A loop that never ends exhausts the compute budget, which fails the transaction.\<close>

definition within_budget :: "'a res option \<Rightarrow> 'a res" where
  "within_budget r = (case r of Some x \<Rightarrow> x | None \<Rightarrow> Inl (ProgramError ''ComputationalBudgetExceeded''))"

definition load_and_validate_instructions :: "tx_context \<Rightarrow> pubkey list option \<Rightarrow> Instruction list res" where
  "load_and_validate_instructions tx allowed = within_budget (load_loop (instruction_at tx) allowed 0 [])"

section \<open>Facts\<close>

lemma load_loop_list:
  "load_loop (list_sysvar ixs) allowed (length pre) pre =
     Some (if \<forall>ix \<in> set post. \<forall>keys. allowed = Some keys \<longrightarrow> program_id ix \<in> set keys
           then Inr ixs else Inl (Err ForbiddenIx))"
  if "ixs = pre @ post"
  using that
proof (induction post arbitrary: pre)
  case Nil
  then show ?case by (subst load_loop.simps) (simp add: list_sysvar_def)
next
  case (Cons ix post)
  have at: "list_sysvar ixs (length pre) = Inr ix" using Cons.prems by (simp add: list_sysvar_def)
  have rec: "load_loop (list_sysvar ixs) allowed (Suc (length pre)) (pre @ [ix]) =
     Some (if \<forall>ix \<in> set post. \<forall>keys. allowed = Some keys \<longrightarrow> program_id ix \<in> set keys
           then Inr ixs else Inl (Err ForbiddenIx))"
    using Cons.IH [of "pre @ [ix]"] Cons.prems by simp
  show ?case
    using rec by (subst load_loop.simps; cases allowed) (auto simp: at validate_program_allowed_def)
qed

lemma load_and_validate_instructions_list:
  assumes "instruction_at tx = list_sysvar ixs"
  shows "load_and_validate_instructions tx allowed =
    (if \<forall>ix \<in> set ixs. \<forall>keys. allowed = Some keys \<longrightarrow> program_id ix \<in> set keys
     then Inr ixs else Inl (Err ForbiddenIx))"
  using load_loop_list [of ixs "[]" ixs allowed] assms
  by (simp add: load_and_validate_instructions_def within_budget_def)

text \<open>The instructions other than those of the compute budget program.\<close>

definition relevant :: "pubkey \<Rightarrow> Instruction list \<Rightarrow> Instruction list" where
  "relevant compute_budget_key ixs = filter (\<lambda>ix. program_id ix \<noteq> compute_budget_key) ixs"

definition first_spec ::
  "pubkey \<Rightarrow> Instruction list \<Rightarrow> pubkey \<Rightarrow> u8 list \<Rightarrow> (pubkey \<times> u8 list) list \<Rightarrow> bool" where
  "first_spec compute_budget_key ixs pid hash allowed \<longleftrightarrow>
     (\<exists>pre start post. relevant compute_budget_key ixs = pre @ start # post
        \<and> is_ix pid hash start \<and> (\<forall>ix \<in> set (pre @ post). \<not> is_ix pid hash ix)
        \<and> (\<forall>ix \<in> set pre. (program_id ix, discrim ix) \<in> set allowed)
        \<and> (\<forall>ix \<in> set (pre @ start # post). 8 \<le> length (ix_data ix)))"

lemma first_loop_relevant:
  "first_loop cb pid hash allowed ixs enc = first_loop cb pid hash allowed (relevant cb ixs) enc"
  by (induction cb pid hash allowed ixs enc rule: first_loop.induct) (simp_all add: relevant_def)

lemma first_loop_after:
  "\<forall>ix \<in> set ixs. program_id ix \<noteq> cb \<Longrightarrow>
   first_loop cb pid hash allowed ixs True = Inr r \<longleftrightarrow>
     r \<and> (\<forall>ix \<in> set ixs. 8 \<le> length (ix_data ix) \<and> \<not> is_ix pid hash ix)"
  by (induction ixs) auto

lemma first_loop_before:
  "\<forall>ix \<in> set ixs. program_id ix \<noteq> cb \<Longrightarrow>
   first_loop cb pid hash allowed ixs False = Inr True \<longleftrightarrow>
     (\<exists>pre start post. ixs = pre @ start # post
        \<and> is_ix pid hash start \<and> (\<forall>ix \<in> set (pre @ post). \<not> is_ix pid hash ix)
        \<and> (\<forall>ix \<in> set pre. (program_id ix, discrim ix) \<in> set allowed)
        \<and> (\<forall>ix \<in> set (pre @ start # post). 8 \<le> length (ix_data ix)))"
    (is "_ \<Longrightarrow> _ \<longleftrightarrow> ?spec ixs")
proof (induction ixs)
  case Nil
  then show ?case by simp
next
  case (Cons ix ixs)
  have split: "?spec (ix # ixs) \<longleftrightarrow> 8 \<le> length (ix_data ix) \<and>
      (if is_ix pid hash ix
       then \<forall>i \<in> set ixs. 8 \<le> length (ix_data i) \<and> \<not> is_ix pid hash i
       else (program_id ix, discrim ix) \<in> set allowed \<and> ?spec ixs)" (is "?l = ?r")
  proof
    assume ?l
    then obtain pre start post where d: "ix # ixs = pre @ start # post"
      "is_ix pid hash start" "\<forall>ix \<in> set (pre @ post). \<not> is_ix pid hash ix"
      "\<forall>ix \<in> set pre. (program_id ix, discrim ix) \<in> set allowed"
      "\<forall>ix \<in> set (pre @ start # post). 8 \<le> length (ix_data ix)" by blast
    show ?r
    proof (cases pre)
      case Nil
      then show ?thesis using d by auto
    next
      case (Cons p pre')
      then show ?thesis using d by (auto intro!: exI [of _ pre'])
    qed
  next
    assume r: ?r
    show ?l
    proof (cases "is_ix pid hash ix")
      case True
      then show ?thesis using r by (intro exI [of _ "[]"] exI [of _ ix] exI [of _ ixs]) auto
    next
      case False
      then obtain pre start post where d: "ixs = pre @ start # post"
        "is_ix pid hash start" "\<forall>ix \<in> set (pre @ post). \<not> is_ix pid hash ix"
        "\<forall>ix \<in> set pre. (program_id ix, discrim ix) \<in> set allowed"
        "\<forall>ix \<in> set (pre @ start # post). 8 \<le> length (ix_data ix)" using r by auto
      show ?thesis using d r False
        by (intro exI [of _ "ix # pre"] exI [of _ start] exI [of _ post]) auto
    qed
  qed
  have cb: "\<forall>ix \<in> set ixs. program_id ix \<noteq> cb" and p: "program_id ix \<noteq> cb"
    using Cons.prems by auto
  show ?case
    unfolding split using Cons.IH [OF cb] first_loop_after [OF cb] p
    by simp
qed

lemma validate_ix_first_iff:
  "validate_ix_first cb ixs pid hash allowed = Inr () \<longleftrightarrow> first_spec cb ixs pid hash allowed"
proof -
  have cb: "\<forall>ix \<in> set (relevant cb ixs). program_id ix \<noteq> cb" by (simp add: relevant_def)
  have "validate_ix_first cb ixs pid hash allowed = Inr () \<longleftrightarrow>
      first_loop cb pid hash allowed (relevant cb ixs) False = Inr True"
    by (auto simp: validate_ix_first_def bindR_eq_Inr simp flip: first_loop_relevant)
  then show ?thesis unfolding first_spec_def first_loop_before [OF cb] .
qed

lemma validate_ix_last_iff:
  "validate_ix_last ixs pid hash = Inr () \<longleftrightarrow>
     ixs \<noteq> [] \<and> is_ix pid hash (last ixs) \<and> 8 \<le> length (ix_data (last ixs))"
  by (auto simp: validate_ix_last_def check_def is_ix_def Let_def split: if_splits)

lemma validate_ixes_exclusive_iff:
  "validate_ixes_exclusive ixs pid hashes = Inr () \<longleftrightarrow>
     (\<forall>ix \<in> set ixs. program_id ix = pid \<longrightarrow> 8 \<le> length (ix_data ix) \<and> discrim ix \<in> set hashes)"
proof -
  have "exclusive_loop hashes l = Inr () \<longleftrightarrow>
      (\<forall>ix \<in> set l. 8 \<le> length (ix_data ix) \<and> discrim ix \<in> set hashes)" for l
    by (induction l) auto
  then show ?thesis by (auto simp: validate_ixes_exclusive_def)
qed

end
