(* ===== verification/AccountIx.thy ===== *)
theory AccountIx
  imports TokenIx IxUtils
begin

text \<open>
  The other instructions on one user account (\<open>instructions/marginfi_account/\<close>): opening, freezing
  and moving it to a new account, refreshing its health cache, purging a balance at the end of a
  deleverage, and its emissions.
\<close>

section \<open>Opening an account\<close>

definition initialize_account :: "pubkey \<Rightarrow> pubkey \<Rightarrow> i64 \<Rightarrow> MarginfiAccount" where
  "initialize_account group_key auth now = account_initialize group_key auth (as_u64 now) MarginfiAccount_zeroed"

text \<open>
  The third-party ids (\<open>constants.rs\<close>). The registered rules pair an id with the one program that
  may use it.
\<close>

definition PDA_FREE_THRESHOLD :: u16 where "PDA_FREE_THRESHOLD = 10000"

definition is_allowed_cpi_for_third_party_id ::
  "pubkey \<Rightarrow> (u16 \<times> pubkey) list \<Rightarrow> tx_context \<Rightarrow> u16 \<Rightarrow> bool res" where
  "is_allowed_cpi_for_third_party_id mrgn_id rules tx third_party_id =
     (if third_party_id < PDA_FREE_THRESHOLD then Inr True
      else case map_of rules third_party_id of
        None \<Rightarrow> Inr False
      | Some allowed_program \<Rightarrow>
          bindR (current_index tx) (\<lambda>i.
          bindR (instruction_at tx i) (\<lambda>ix.
          if program_id ix = mrgn_id then Inr False
          else Inr (program_id ix = allowed_program))))"

definition third_party_allowed ::
  "pubkey \<Rightarrow> (u16 \<times> pubkey) list \<Rightarrow> tx_context \<Rightarrow> u16 option \<Rightarrow> unit res" where
  "third_party_allowed mrgn_id rules tx third_party = (case third_party of
      None \<Rightarrow> Inr ()
    | Some i \<Rightarrow> bindR (is_allowed_cpi_for_third_party_id mrgn_id rules tx i) (\<lambda>ok.
        if \<not> ok then Inl (Err Unauthorized) else Inr ()))"

definition with_pda :: "u16 \<Rightarrow> u16 option \<Rightarrow> u8 \<Rightarrow> MarginfiAccount \<Rightarrow> MarginfiAccount" where
  "with_pda index third_party bump a = a\<lparr>account_index := index,
     third_party_index := (case third_party of Some i \<Rightarrow> i | None \<Rightarrow> 0), acc_bump := bump\<rparr>"

definition initialize_account_pda ::
  "pubkey \<Rightarrow> (u16 \<times> pubkey) list \<Rightarrow> tx_context \<Rightarrow> u8 \<Rightarrow> pubkey \<Rightarrow> pubkey \<Rightarrow> i64 \<Rightarrow> u16
    \<Rightarrow> u16 option \<Rightarrow> MarginfiAccount res" where
  "initialize_account_pda mrgn_id rules tx bump group_key auth now index third_party =
     bindR (third_party_allowed mrgn_id rules tx third_party) (\<lambda>_.
     Inr (with_pda index third_party bump (initialize_account group_key auth now)))"

section \<open>Freezing\<close>

definition set_account_freeze ::
  "pubkey \<Rightarrow> pubkey \<Rightarrow> i64 \<Rightarrow> MarginfiGroup \<Rightarrow> bool \<Rightarrow> MarginfiAccount \<Rightarrow> MarginfiAccount res" where
  "set_account_freeze signer group_key now g frozen a =
     bindR (account_in_group group_key a) (\<lambda>_.
     bindR (check (admin g = signer) Unauthorized) (\<lambda>_.
     let a' = (if frozen then acc_set_flag ACCOUNT_FROZEN a else acc_unset_flag ACCOUNT_FROZEN a)
     in Inr (a'\<lparr>acc_last_update := as_u64 now\<rparr>)))"

section \<open>Moving to a new account\<close>

definition ACCOUNT_TRANSFER_FEE :: u64 where "ACCOUNT_TRANSFER_FEE = 5000000"

definition LendingAccount_zeroed :: LendingAccount where
  "LendingAccount_zeroed = \<lparr>balances = replicate MAX_LENDING_ACCOUNT_BALANCES empty_deactivated\<rparr>"

record transfer_accounts =
  tf_group :: pubkey
  tf_old_account :: pubkey
  tf_new_account :: pubkey
  tf_authority :: pubkey
  tf_new_authority :: pubkey
  tf_fee_payer :: pubkey
  tf_global_fee_wallet :: pubkey

definition transfer_guards ::
  "transfer_accounts \<Rightarrow> i64 \<Rightarrow> MarginfiGroup \<Rightarrow> MarginfiAccount \<Rightarrow> unit res" where
  "transfer_guards tf now g old =
     bindR (not_paused g now) (\<lambda>_.
     bindR (account_constraints False (tf_group tf) (tf_authority tf) g old) (\<lambda>_.
     bindR (check (tf_global_fee_wallet tf = global_fee_wallet_cached (fee_state_cache g)) InvalidFeeAta) (\<lambda>_.
     bindR (check (\<not> acc_get_flag old ACCOUNT_IN_FLASHLOAN) AccountInFlashloan) (\<lambda>_.
     bindR (check (\<not> acc_get_flag old ACCOUNT_IN_RECEIVERSHIP) ForbiddenIx) (\<lambda>_.
     check (migrated_to old = default_key) AccountAlreadyMigrated)))))"

definition moved_account :: "transfer_accounts \<Rightarrow> i64 \<Rightarrow> MarginfiAccount \<Rightarrow> MarginfiAccount" where
  "moved_account tf now old =
     (account_initialize (acc_group old) (tf_new_authority tf) (as_u64 now) MarginfiAccount_zeroed)
       \<lparr>lending_account := lending_account old,
        emissions_destination_account := emissions_destination_account old,
        account_flags := account_flags old, migrated_from := tf_old_account tf\<rparr>"

definition emptied_account :: "transfer_accounts \<Rightarrow> MarginfiAccount \<Rightarrow> MarginfiAccount" where
  "emptied_account tf old = acc_set_flag ACCOUNT_DISABLED
     (old\<lparr>migrated_to := tf_new_account tf, lending_account := LendingAccount_zeroed\<rparr>)"

definition transfer_fee :: "transfer_accounts \<Rightarrow> Transfer" where
  "transfer_fee tf = \<lparr>tr_from = tf_fee_payer tf, tr_to = tf_global_fee_wallet tf,
     tr_authority = tf_fee_payer tf, tr_amount = ACCOUNT_TRANSFER_FEE\<rparr>"

text \<open>The old account, the new one, and the fee in lamports.\<close>

definition transfer_to_new_account ::
  "transfer_accounts \<Rightarrow> i64 \<Rightarrow> MarginfiGroup \<Rightarrow> MarginfiAccount
    \<Rightarrow> (MarginfiAccount \<times> MarginfiAccount \<times> Transfer) res" where
  "transfer_to_new_account tf now g old =
     bindR (transfer_guards tf now g old) (\<lambda>_.
     Inr ((emptied_account tf old)\<lparr>acc_last_update := as_u64 now\<rparr>, moved_account tf now old,
          transfer_fee tf))"

text \<open>Unlike the instruction above, this one leaves the time stamp of the old account as it was.\<close>

definition transfer_to_new_account_pda ::
  "pubkey \<Rightarrow> (u16 \<times> pubkey) list \<Rightarrow> tx_context \<Rightarrow> u8 \<Rightarrow> transfer_accounts \<Rightarrow> i64 \<Rightarrow> MarginfiGroup
    \<Rightarrow> u16 \<Rightarrow> u16 option \<Rightarrow> MarginfiAccount
    \<Rightarrow> (MarginfiAccount \<times> MarginfiAccount \<times> Transfer) res" where
  "transfer_to_new_account_pda mrgn_id rules tx bump tf now g index third_party old =
     bindR (transfer_guards tf now g old) (\<lambda>_.
     bindR (third_party_allowed mrgn_id rules tx third_party) (\<lambda>_.
     Inr (emptied_account tf old, with_pda index third_party bump (moved_account tf now old),
          transfer_fee tf)))"

section \<open>The health cache\<close>

text \<open>What the outcome of the initial check leaves in the cache.\<close>

definition record_engine_result :: "unit res \<Rightarrow> HealthCache \<Rightarrow> HealthCache" where
  "record_engine_result r c = (case r of
      Inr _ \<Rightarrow> set_engine_ok True (set_oracle_ok (internal_err c = 0) c)
    | Inl (Err e) \<Rightarrow>
        (let e_n = error_number e; mfi_err = error_from_u32 e_n
         in set_oracle_ok (\<not> (is_oracle_error mfi_err \<or> internal_err c \<noteq> 0))
              (set_engine_ok (is_risk_engine_rejection mfi_err) (c\<lparr>mrgn_err := e_n\<rparr>)))
    | Inl _ \<Rightarrow> set_engine_ok False c)"

definition record_error :: "'a res \<Rightarrow> (u32 \<Rightarrow> HealthCache \<Rightarrow> HealthCache) \<Rightarrow> HealthCache \<Rightarrow> HealthCache res" where
  "record_error r put c = (case r of
      Inl Panic \<Rightarrow> Inl Panic
    | Inl (Err e) \<Rightarrow> Inr (put (error_number e) c)
    | _ \<Rightarrow> Inr c)"

definition lending_account_pulse_health ::
  "ix_env \<Rightarrow> AccountInfo list \<Rightarrow> MarginfiAccount \<Rightarrow> MarginfiAccount res" where
  "lending_account_pulse_health env ais a =
     (case check_account_init_health (e_fx env) (e_lib env) (e_load_bank env) (e_clock env) a ais
             (Some (HealthCache_zeroed\<lparr>hc_timestamp := e_now env, program_version := PROGRAM_VERSION\<rparr>)) of
        (engine_result, engine, hc) \<Rightarrow>
          if engine_result = Inl Panic then Inl Panic
          else
            bindR (unwrap hc) (\<lambda>c.
            let c1 = record_engine_result engine_result c in
            bindR (case engine of
                None \<Rightarrow> Inr c1
              | Some e \<Rightarrow>
                  (case check_pre_liquidation_condition_and_get_account_health (e_fx env) (e_lib env)
                          None False e (Some c1) of
                     (liq_result, hc2) \<Rightarrow>
                       bindR (unwrap hc2) (\<lambda>c2.
                       bindR (record_error liq_result (\<lambda>n c. c\<lparr>internal_liq_err := n\<rparr>) c2) (\<lambda>c3.
                       case check_account_bankrupt (e_fx env) (e_lib env) e (Some c3) of
                         (bankruptcy_result, hc4) \<Rightarrow>
                           bindR (unwrap hc4) (record_error bankruptcy_result
                             (\<lambda>n c. c\<lparr>internal_bankruptcy_err := n\<rparr>))))))
              (\<lambda>c'. Inr (a\<lparr>health_cache := c'\<rparr>))))"

section \<open>Purging a balance\<close>

text \<open>The asset shares are those of the balance before it is closed.\<close>

definition purge_balance :: "fixed_ops \<Rightarrow> wrapper \<Rightarrow> wrapper res" where
  "purge_balance fx w = (case w of (bal, bank) \<Rightarrow>
     bindR (unwrap (op_abs fx (liability_shares bal))) (\<lambda>liab_shares.
     if liab_shares > ZERO_AMOUNT_THRESHOLD fx then Inl (Err OperationWithdrawOnly)
     else bindR (bal_close False bal) (\<lambda>bal'.
          bindR (unwrap (op_neg fx (asset_shares bal))) (\<lambda>minus_shares.
          bindR (change_asset_shares fx minus_shares False (decrement_lending_position_count bank)) (\<lambda>bank'.
          Inr (bal', bank'))))))"

definition lending_account_purge_delev_balance ::
  "ix_env \<Rightarrow> token_accounts \<Rightarrow> MarginfiGroup \<Rightarrow> MarginfiAccount \<times> Bank
    \<Rightarrow> (MarginfiAccount \<times> Bank) res" where
  "lending_account_purge_delev_balance env ta g s = (case s of (a, b) \<Rightarrow>
     bindR (check (risk_admin g = ta_authority ta) Unauthorized) (\<lambda>_.
     bindR (account_in_group (ta_group ta) a) (\<lambda>_.
     bindR (bank_in_group (ta_group ta) b) (\<lambda>_.
     bindR (check (is_marginfi_asset_tag (asset_tag (config b))) WrongAssetTagForStandardInstructions) (\<lambda>_.
     bindR (check (bank_get_flag b TOKENLESS_REPAYMENTS_COMPLETE) ForbiddenIx) (\<lambda>_.
     bindR (wrapper_find (ta_bank ta) (lending_account a)) (\<lambda>i.
     bindR (run_at i (purge_balance (e_fx env)) (lending_account a) b) (\<lambda>(la, b').
     Inr (booked env la a, b')))))))))"

section \<open>Emissions\<close>

record emissions_accounts =
  ea_mint :: pubkey
  ea_auth :: pubkey
  ea_vault :: pubkey
  ea_destination :: pubkey
  ea_token_program :: TokenProgram

definition bank_emissions_constraints :: "token_accounts \<Rightarrow> emissions_accounts \<Rightarrow> Bank \<Rightarrow> unit res" where
  "bank_emissions_constraints ta ea b =
     bindR (bank_in_group (ta_group ta) b) (\<lambda>_.
     bindR (check (emissions_mint b = ea_mint ea) InvalidEmissionsMint) (\<lambda>_.
     check (is_marginfi_asset_tag (asset_tag (config b))) WrongAssetTagForStandardInstructions))"

text \<open>The settlement both withdrawals end with; nothing is transferred when nothing is owed.\<close>

definition settle_and_pay ::
  "ix_env \<Rightarrow> pubkey \<Rightarrow> emissions_accounts \<Rightarrow> MarginfiAccount \<times> Bank
    \<Rightarrow> (MarginfiAccount \<times> Bank \<times> Transfer list) res" where
  "settle_and_pay env bank_key ea s = (case s of (a, b) \<Rightarrow>
     bindR (wrapper_find bank_key (lending_account a)) (\<lambda>i.
     bindR (at_balance i (settle_emissions_and_get_transfer_amount (e_fx env) (e_now env))
              (lending_account a, b)) (\<lambda>(n, la, b').
     let a' = a\<lparr>lending_account := la\<rparr> in
     Inr (if n > 0
          then (a'\<lparr>acc_last_update := as_u64 (e_now env)\<rparr>, b',
                [\<lparr>tr_from = ea_vault ea, tr_to = ea_destination ea, tr_authority = ea_auth ea,
                  tr_amount = n\<rparr>])
          else (a', b', [])))))"

definition lending_account_withdraw_emissions ::
  "ix_env \<Rightarrow> token_accounts \<Rightarrow> emissions_accounts \<Rightarrow> MarginfiGroup \<Rightarrow> MarginfiAccount \<times> Bank
    \<Rightarrow> (MarginfiAccount \<times> Bank \<times> Transfer list) res" where
  "lending_account_withdraw_emissions env ta ea g s = (case s of (a, b) \<Rightarrow>
     bindR (not_paused g (e_now env)) (\<lambda>_.
     bindR (account_constraints False (ta_group ta) (ta_authority ta) g a) (\<lambda>_.
     bindR (bank_emissions_constraints ta ea b) (\<lambda>_.
     bindR (check (\<not> acc_get_flag a ACCOUNT_DISABLED) AccountDisabled) (\<lambda>_.
     settle_and_pay env (ta_bank ta) ea s)))))"

text \<open>Anybody may settle the emissions of a balance; the group constraint has no error of its own.\<close>

definition lending_account_settle_emissions ::
  "ix_env \<Rightarrow> pubkey \<Rightarrow> MarginfiAccount \<times> Bank \<Rightarrow> (MarginfiAccount \<times> Bank) res" where
  "lending_account_settle_emissions env bank_key s = (case s of (a, b) \<Rightarrow>
     bindR (constraint (acc_group a = bank_group b)) (\<lambda>_.
     bindR (check (is_marginfi_asset_tag (asset_tag (config b))) WrongAssetTagForStandardInstructions) (\<lambda>_.
     bindR (wrapper_find bank_key (lending_account a)) (\<lambda>i.
     bindR (run_at i (claim_emissions (e_fx env) (as_u64 (e_now env))) (lending_account a) b) (\<lambda>(la, b').
     Inr (a\<lparr>lending_account := la, acc_last_update := as_u64 (e_now env)\<rparr>, b'))))))"

definition marginfi_account_update_emissions_destination_account ::
  "pubkey \<Rightarrow> i64 \<Rightarrow> pubkey \<Rightarrow> MarginfiAccount \<Rightarrow> MarginfiAccount res" where
  "marginfi_account_update_emissions_destination_account signer now destination a =
     bindR (check (authority a = signer) Unauthorized) (\<lambda>_.
     bindR (check (\<not> acc_get_flag a ACCOUNT_DISABLED) AccountDisabled) (\<lambda>_.
     bindR (check (\<not> acc_get_flag a ACCOUNT_FROZEN) AccountFrozen) (\<lambda>_.
     Inr (a\<lparr>emissions_destination_account := destination, acc_last_update := as_u64 now\<rparr>))))"

definition lending_account_withdraw_emissions_permissionless ::
  "(pubkey \<Rightarrow> pubkey \<Rightarrow> TokenProgram \<Rightarrow> pubkey) \<Rightarrow> ix_env \<Rightarrow> token_accounts \<Rightarrow> emissions_accounts
    \<Rightarrow> MarginfiGroup \<Rightarrow> MarginfiAccount \<times> Bank \<Rightarrow> (MarginfiAccount \<times> Bank \<times> Transfer list) res" where
  "lending_account_withdraw_emissions_permissionless ata env ta ea g s = (case s of (a, b) \<Rightarrow>
     bindR (not_paused g (e_now env)) (\<lambda>_.
     bindR (account_in_group (ta_group ta) a) (\<lambda>_.
     bindR (bank_emissions_constraints ta ea b) (\<lambda>_.
     bindR (check (\<not> acc_get_flag a ACCOUNT_DISABLED) AccountDisabled) (\<lambda>_.
     bindR (check (\<not> acc_get_flag a ACCOUNT_FROZEN) AccountFrozen) (\<lambda>_.
     bindR (check (emissions_destination_account a \<noteq> default_key) InvalidEmissionsDestinationAccount) (\<lambda>_.
     bindR (check (ata (emissions_destination_account a) (ea_mint ea) (ea_token_program ea)
                     = ea_destination ea) InvalidEmissionsDestinationAccount) (\<lambda>_.
     settle_and_pay env (ta_bank ta) ea s))))))))"

end
