(* ===== verification/Receivership.thy ===== *)
theory Receivership
  imports AccountIx
begin

text \<open>
  Receivership (\<open>liquidate_start.rs\<close>, \<open>liquidate_end.rs\<close>, \<open>init_liquid_record.rs\<close>): a liquidator, or the
  risk admin in a deleverage, takes an account over between the first and the last instruction of a
  transaction. The start records the health and the worth of the account in a liquidation record;
  the end compares.
\<close>

section \<open>The liquidation record\<close>

record LiquidationEntry =
  asset_amount_seized :: "64 word"
  liab_amount_repaid :: "64 word"
  le_timestamp :: i64

record LiquidationCache =
  lc_asset_value_maint :: I80F48
  lc_liability_value_maint :: I80F48
  lc_asset_value_equity :: I80F48
  lc_liability_value_equity :: I80F48

record LiquidationRecord =
  lr_key :: pubkey
  lr_marginfi_account :: pubkey
  lr_record_payer :: pubkey
  lr_liquidation_receiver :: pubkey
  lr_entries :: "LiquidationEntry list"
  lr_cache :: LiquidationCache

definition LiquidationEntry_default :: LiquidationEntry where
  "LiquidationEntry_default = \<lparr>asset_amount_seized = 0, liab_amount_repaid = 0, le_timestamp = 0\<rparr>"

definition LiquidationCache_default :: LiquidationCache where
  "LiquidationCache_default = \<lparr>lc_asset_value_maint = 0, lc_liability_value_maint = 0,
     lc_asset_value_equity = 0, lc_liability_value_equity = 0\<rparr>"

definition LiquidationRecord_default :: LiquidationRecord where
  "LiquidationRecord_default = \<lparr>lr_key = default_key, lr_marginfi_account = default_key,
     lr_record_payer = default_key, lr_liquidation_receiver = default_key,
     lr_entries = replicate 4 LiquidationEntry_default, lr_cache = LiquidationCache_default\<rparr>"

text \<open>The new record starts out zeroed; the account is linked to it.\<close>

definition initialize_liquidation_record ::
  "pubkey \<Rightarrow> pubkey \<Rightarrow> pubkey \<Rightarrow> MarginfiAccount \<Rightarrow> MarginfiAccount \<times> LiquidationRecord" where
  "initialize_liquidation_record record_key payer account_key a =
     (a\<lparr>liquidation_record := record_key\<rparr>,
      LiquidationRecord_default\<lparr>lr_key := record_key, lr_record_payer := payer,
        lr_marginfi_account := account_key, lr_entries := replicate 4 LiquidationEntry_default,
        lr_cache := LiquidationCache_default\<rparr>)"

section \<open>Starting\<close>

text \<open>The programs and instructions of other programs that the introspection knows.\<close>

record program_keys =
  COMPUTE_PROGRAM_KEY :: pubkey
  MARGINFI_ID :: pubkey
  KAMINO_ID :: pubkey
  DRIFT_ID :: pubkey
  JUP_KEY :: pubkey
  TITAN_KEY :: pubkey
  ASSOCIATED_TOKEN_KEY :: pubkey
  REFRESH_RESERVE :: "u8 list"
  REFRESH_OBLIGATION :: "u8 list"
  UPDATE_CUMULATIVE_INTEREST :: "u8 list"

definition INIT_LIQUIDATION_RECORD :: "u8 list" where
  "INIT_LIQUIDATION_RECORD = [236, 213, 238, 126, 147, 251, 164, 8]"
definition LENDING_ACCOUNT_WITHDRAW :: "u8 list" where
  "LENDING_ACCOUNT_WITHDRAW = [36, 72, 74, 19, 210, 210, 192, 192]"
definition LENDING_ACCOUNT_REPAY :: "u8 list" where
  "LENDING_ACCOUNT_REPAY = [79, 209, 172, 177, 222, 51, 173, 151]"
definition KAMINO_WITHDRAW :: "u8 list" where
  "KAMINO_WITHDRAW = [199, 101, 41, 45, 213, 98, 224, 200]"
definition DRIFT_WITHDRAW :: "u8 list" where
  "DRIFT_WITHDRAW = [86, 59, 186, 123, 183, 181, 234, 137]"
definition START_DELEVERAGE :: "u8 list" where
  "START_DELEVERAGE = [10, 138, 10, 57, 40, 232, 182, 193]"
definition END_DELEVERAGE :: "u8 list" where
  "END_DELEVERAGE = [114, 14, 250, 143, 252, 104, 214, 209]"

definition validate_instructions ::
  "program_keys \<Rightarrow> tx_context \<Rightarrow> u8 list \<Rightarrow> u8 list \<Rightarrow> unit res" where
  "validate_instructions pk tx start_ix end_ix =
     bindR (load_and_validate_instructions tx (Some
       [COMPUTE_PROGRAM_KEY pk, MARGINFI_ID pk, KAMINO_ID pk, DRIFT_ID pk, JUP_KEY pk, TITAN_KEY pk,
        ASSOCIATED_TOKEN_KEY pk, DRIFT_ID pk])) (\<lambda>ixes.
     bindR (validate_ix_first (COMPUTE_PROGRAM_KEY pk) ixes (MARGINFI_ID pk) start_ix
       [(KAMINO_ID pk, REFRESH_RESERVE pk), (KAMINO_ID pk, REFRESH_OBLIGATION pk),
        (MARGINFI_ID pk, INIT_LIQUIDATION_RECORD), (DRIFT_ID pk, UPDATE_CUMULATIVE_INTEREST pk)]) (\<lambda>_.
     bindR (validate_ix_last ixes (MARGINFI_ID pk) end_ix) (\<lambda>_.
     bindR (validate_ixes_exclusive ixes (MARGINFI_ID pk)
       [start_ix, end_ix, INIT_LIQUIDATION_RECORD, LENDING_ACCOUNT_WITHDRAW, LENDING_ACCOUNT_REPAY,
        KAMINO_WITHDRAW, DRIFT_WITHDRAW]) (\<lambda>_.
     bindR (validate_not_cpi_by_stack_height tx) (\<lambda>_.
     bindR (validate_not_cpi_with_sysvar (MARGINFI_ID pk) tx) (\<lambda>start.
     bindR (unwrap (checked_sub_nat (length ixes) 1)) (\<lambda>last_ix.
     check (start < last_ix) StartNotFirst)))))))"

text \<open>What both starts do: the maintenance and the equity values are recorded, the flag is set.\<close>

definition snapshot :: "I80F48 \<Rightarrow> I80F48 \<Rightarrow> I80F48 \<Rightarrow> I80F48 \<Rightarrow> LiquidationCache" where
  "snapshot assets liabs assets_equity liabs_equity =
     \<lparr>lc_asset_value_maint = assets, lc_liability_value_maint = liabs,
      lc_asset_value_equity = assets_equity, lc_liability_value_equity = liabs_equity\<rparr>"

definition receivership_values ::
  "ix_env \<Rightarrow> MarginfiAccount \<Rightarrow> AccountInfo list \<Rightarrow> bool
    \<Rightarrow> (I80F48 \<times> LiquidationCache \<times> HealthCache) res" where
  "receivership_values env a ais ignore_healthy =
     bindR (risk_engine_new (e_fx env) (e_lib env) (e_load_bank env) (e_clock env) a ais) (\<lambda>e.
     case check_pre_liquidation_condition_and_get_account_health (e_fx env) (e_lib env) None
            ignore_healthy e (Some HealthCache_zeroed) of
       (r, hc) \<Rightarrow> bindR r (\<lambda>(health, assets, liabs).
         case get_account_health_components (e_fx env) (e_lib env) Equity e hc of
           (r', hc') \<Rightarrow> bindR r' (\<lambda>(assets_equity, liabs_equity).
             bindR (unwrap hc') (\<lambda>c.
             Inr (health, snapshot assets liabs assets_equity liabs_equity, c)))))"

definition start_receivership ::
  "ix_env \<Rightarrow> AccountInfo list \<Rightarrow> bool \<Rightarrow> MarginfiAccount \<times> LiquidationRecord
    \<Rightarrow> (MarginfiAccount \<times> LiquidationRecord) res" where
  "start_receivership env ais ignore_healthy s = (case s of (a, lr) \<Rightarrow>
     bindR (receivership_values env a ais ignore_healthy) (\<lambda>(_, values, hc).
     Inr (acc_set_flag ACCOUNT_IN_RECEIVERSHIP (a\<lparr>health_cache := hc\<rparr>), lr\<lparr>lr_cache := values\<rparr>)))"

text \<open>The state an account must be in to start, and the one it must be in to end.\<close>

definition can_start :: "MarginfiAccount \<Rightarrow> bool" where
  "can_start a \<longleftrightarrow> \<not> acc_get_flag a ACCOUNT_IN_RECEIVERSHIP \<and> \<not> acc_get_flag a ACCOUNT_IN_FLASHLOAN
     \<and> \<not> acc_get_flag a ACCOUNT_DISABLED"

definition can_end :: "MarginfiAccount \<Rightarrow> bool" where
  "can_end a \<longleftrightarrow> acc_get_flag a ACCOUNT_IN_RECEIVERSHIP \<and> \<not> acc_get_flag a ACCOUNT_IN_FLASHLOAN
     \<and> \<not> acc_get_flag a ACCOUNT_DISABLED"

definition start_liquidation ::
  "ix_env \<Rightarrow> program_keys \<Rightarrow> tx_context \<Rightarrow> pubkey \<Rightarrow> pubkey \<Rightarrow> AccountInfo list
    \<Rightarrow> MarginfiAccount \<times> LiquidationRecord \<Rightarrow> (MarginfiAccount \<times> LiquidationRecord) res" where
  "start_liquidation env pk tx record_key receiver ais s = (case s of (a, lr) \<Rightarrow>
     bindR (check (liquidation_record a = record_key) InvalidLiquidationRecord) (\<lambda>_.
     bindR (check (can_start a) UnexpectedLiquidationState) (\<lambda>_.
     bindR (start_receivership env ais False (a, lr\<lparr>lr_liquidation_receiver := receiver\<rparr>)) (\<lambda>s'.
     bindR (validate_instructions pk tx START_LIQUIDATION END_LIQUIDATION) (\<lambda>_. Inr s')))))"

text \<open>Most constraints of a deleverage have no error of their own.\<close>

definition start_deleverage ::
  "ix_env \<Rightarrow> program_keys \<Rightarrow> tx_context \<Rightarrow> pubkey \<Rightarrow> pubkey \<Rightarrow> MarginfiGroup \<Rightarrow> pubkey
    \<Rightarrow> AccountInfo list \<Rightarrow> MarginfiAccount \<times> LiquidationRecord
    \<Rightarrow> (MarginfiAccount \<times> LiquidationRecord) res" where
  "start_deleverage env pk tx record_key group_key g signer ais s = (case s of (a, lr) \<Rightarrow>
     bindR (constraint (liquidation_record a = record_key)) (\<lambda>_.
     bindR (constraint (acc_group a = group_key)) (\<lambda>_.
     bindR (check (can_start a) UnexpectedLiquidationState) (\<lambda>_.
     bindR (constraint (risk_admin g = signer)) (\<lambda>_.
     bindR (start_receivership env ais True
              (acc_set_flag ACCOUNT_IN_DELEVERAGE a, lr\<lparr>lr_liquidation_receiver := signer\<rparr>)) (\<lambda>s'.
     bindR (validate_instructions pk tx START_DELEVERAGE END_DELEVERAGE) (\<lambda>_. Inr s')))))))"

section \<open>Ending\<close>

definition LIQUIDATION_BONUS_FEE_MINIMUM :: "fixed_ops \<Rightarrow> I80F48" where
  "LIQUIDATION_BONUS_FEE_MINIMUM fx = decimal fx 5 2"

definition LIQUIDATION_CLOSEOUT_DOLLAR_THRESHOLD :: "fixed_ops \<Rightarrow> I80F48" where
  "LIQUIDATION_CLOSEOUT_DOLLAR_THRESHOLD fx = decimal fx 5 0"

text \<open>\<open>rotate_left(1)\<close>, then the last of the four entries is overwritten.\<close>

definition push_entry :: "LiquidationEntry \<Rightarrow> LiquidationEntry list \<Rightarrow> LiquidationEntry list" where
  "push_entry e es = (rotate1 es)[3 := e]"

definition end_receivership ::
  "ix_env \<Rightarrow> AccountInfo list \<Rightarrow> bool \<Rightarrow> MarginfiAccount \<times> LiquidationRecord
    \<Rightarrow> (I80F48 \<times> I80F48 \<times> MarginfiAccount \<times> LiquidationRecord) res" where
  "end_receivership env ais ignore_healthy s = (case s of (a, lr) \<Rightarrow>
     let fx = e_fx env; pre = lr_cache lr in
     bindR (unwrap (op_sub fx (lc_asset_value_maint pre) (lc_liability_value_maint pre))) (\<lambda>pre_health.
     bindR (receivership_values env a ais ignore_healthy) (\<lambda>(post_health, post, hc).
     if pre_health > post_health then Inl (Err WorseHealthPostLiquidation)
     else
       bindR (unwrap (op_sub fx (lc_asset_value_equity pre) (lc_asset_value_equity post))) (\<lambda>seized.
       bindR (unwrap (op_sub fx (lc_liability_value_equity pre) (lc_liability_value_equity post))) (\<lambda>repaid.
       Inr (seized, repaid, acc_unset_flag ACCOUNT_IN_RECEIVERSHIP (a\<lparr>health_cache := hc\<rparr>),
         lr\<lparr>lr_liquidation_receiver := default_key,
            lr_entries := push_entry \<lparr>asset_amount_seized = to_f64 fx seized,
              liab_amount_repaid = to_f64 fx repaid, le_timestamp = e_now env\<rparr> (lr_entries lr)\<rparr>))))))"

text \<open>The factor by which what is seized may exceed what is repaid.\<close>

definition max_premium :: "fixed_ops \<Rightarrow> I80F48 \<Rightarrow> I80F48 res" where
  "max_premium fx fee_state_max_fee =
     bindR (unwrap (op_add fx ONE fee_state_max_fee)) (\<lambda>a.
     bindR (unwrap (op_add fx ONE (LIQUIDATION_BONUS_FEE_MINIMUM fx))) (\<lambda>b. Inr (max a b)))"

text \<open>The result has the flat fee in lamports that the receiver pays, when there is one.\<close>

definition end_liquidation ::
  "ix_env \<Rightarrow> tx_context \<Rightarrow> pubkey \<Rightarrow> pubkey \<Rightarrow> FeeState \<Rightarrow> pubkey \<Rightarrow> AccountInfo list
    \<Rightarrow> MarginfiAccount \<times> LiquidationRecord
    \<Rightarrow> (MarginfiAccount \<times> LiquidationRecord \<times> Transfer list) res" where
  "end_liquidation env tx record_key signer fs fee_wallet ais s = (case s of (a, lr) \<Rightarrow>
     bindR (check (liquidation_record a = record_key) InvalidLiquidationRecord) (\<lambda>_.
     bindR (check (can_end a) UnexpectedLiquidationState) (\<lambda>_.
     bindR (check (lr_liquidation_receiver lr = signer) InvalidLiquidationReceiver) (\<lambda>_.
     bindR (check (global_fee_wallet fs = fee_wallet) InvalidFeeWallet) (\<lambda>_.
     bindR (validate_not_cpi_by_stack_height tx) (\<lambda>_.
     let fx = e_fx env;
         ignore_healthy = lc_asset_value_equity (lr_cache lr) < LIQUIDATION_CLOSEOUT_DOLLAR_THRESHOLD fx in
     bindR (end_receivership env ais ignore_healthy s) (\<lambda>(seized, repaid, a', lr').
     bindR (max_premium fx (liquidation_max_fee fs)) (\<lambda>max_fee.
     bindR (if \<not> ignore_healthy
            then bindR (unwrap (op_mul fx repaid max_fee)) (\<lambda>allowed.
                 check (seized \<le> allowed) LiquidationPremiumTooHigh)
            else Inr ()) (\<lambda>_.
     Inr (a', lr',
       if liquidation_flat_sol_fee fs > 0
       then [\<lparr>tr_from = signer, tr_to = fee_wallet, tr_authority = signer,
              tr_amount = liquidation_flat_sol_fee fs\<rparr>] else []))))))))))"

definition end_deleverage ::
  "ix_env \<Rightarrow> tx_context \<Rightarrow> pubkey \<Rightarrow> pubkey \<Rightarrow> MarginfiGroup \<Rightarrow> pubkey \<Rightarrow> AccountInfo list
    \<Rightarrow> MarginfiAccount \<times> LiquidationRecord \<Rightarrow> (MarginfiAccount \<times> LiquidationRecord) res" where
  "end_deleverage env tx record_key group_key g signer ais s = (case s of (a, lr) \<Rightarrow>
     bindR (constraint (liquidation_record a = record_key)) (\<lambda>_.
     bindR (constraint (acc_group a = group_key)) (\<lambda>_.
     bindR (check (can_end a) UnexpectedLiquidationState) (\<lambda>_.
     bindR (check (lr_liquidation_receiver lr = signer) Unauthorized) (\<lambda>_.
     bindR (constraint (risk_admin g = signer)) (\<lambda>_.
     bindR (validate_not_cpi_by_stack_height tx) (\<lambda>_.
     bindR (end_receivership env ais True (acc_unset_flag ACCOUNT_IN_DELEVERAGE a, lr)) (\<lambda>(_, _, a', lr').
     Inr (a', lr')))))))))"

end
