(* ===== verification/LiquidateIx.thy ===== *)
theory LiquidateIx
  imports TokenIx
begin

text \<open>
  Liquidation of an unhealthy account by another one (\<open>liquidate.rs\<close>) and the settlement of an
  account that is bankrupt (\<open>handle_bankruptcy.rs\<close>).
\<close>

section \<open>Liquidation\<close>

record liq_accounts =
  lq_group :: pubkey
  lq_asset_bank :: pubkey
  lq_liab_bank :: pubkey
  lq_liquidator :: pubkey
  lq_liquidatee :: pubkey
  lq_authority :: pubkey
  lq_liquidity_vault :: pubkey
  lq_vault_authority :: pubkey
  lq_insurance_vault :: pubkey
  lq_token_program :: TokenProgram

text \<open>The liquidator's account, the liquidatee's account, the asset bank and the liability bank.\<close>

type_synonym liq_state = "MarginfiAccount \<times> MarginfiAccount \<times> Bank \<times> Bank"

definition liq_constraints :: "ix_env \<Rightarrow> liq_accounts \<Rightarrow> MarginfiGroup \<Rightarrow> liq_state \<Rightarrow> unit res" where
  "liq_constraints env lq g s = (case s of (liquidator, liquidatee, asset_bank, liab_bank) \<Rightarrow>
     bindR (not_paused g (e_now env)) (\<lambda>_.
     bindR (bank_in_group (lq_group lq) asset_bank) (\<lambda>_.
     bindR (bank_in_group (lq_group lq) liab_bank) (\<lambda>_.
     bindR (check (is_marginfi_asset_tag (asset_tag (config liab_bank)))
              WrongAssetTagForStandardInstructions) (\<lambda>_.
     bindR (account_in_group (lq_group lq) liquidator) (\<lambda>_.
     bindR (check (\<not> acc_get_flag liquidator ACCOUNT_IN_RECEIVERSHIP) ForbiddenIx) (\<lambda>_.
     bindR (check (account_not_frozen_for_authority liquidator (lq_authority lq)) AccountFrozen) (\<lambda>_.
     bindR (check (is_signer_authorized liquidator (admin g) (lq_authority lq) False) Unauthorized) (\<lambda>_.
     bindR (account_in_group (lq_group lq) liquidatee) (\<lambda>_.
     check (\<not> acc_get_flag liquidatee ACCOUNT_IN_RECEIVERSHIP) ForbiddenIx))))))))))"

text \<open>The checks the handler starts with. Loading one account twice for writing fails.\<close>

definition liq_guards :: "liq_accounts \<Rightarrow> u64 \<Rightarrow> liq_state \<Rightarrow> unit res" where
  "liq_guards lq amount s = (case s of (liquidator, liquidatee, asset_bank, liab_bank) \<Rightarrow>
     bindR (check (amount > 0) ZeroLiquidationAmount) (\<lambda>_.
     bindR (check (lq_asset_bank lq \<noteq> lq_liab_bank lq) SameAssetAndLiabilityBanks) (\<lambda>_.
     bindR (validate_bank_asset_tags asset_bank liab_bank) (\<lambda>_.
     bindR (validate_bank_state asset_bank FailsInPausedState) (\<lambda>_.
     bindR (validate_bank_state liab_bank FailsInPausedState) (\<lambda>_.
     bindR (validate_asset_tags liab_bank liquidatee) (\<lambda>_.
     bindR (validate_asset_tags liab_bank liquidator) (\<lambda>_.
     bindR (validate_asset_tags asset_bank liquidator) (\<lambda>_.
     if lq_liquidator lq = lq_liquidatee lq then Inl (ProgramError ''AccountBorrowFailed'')
     else Inr ())))))))))"

definition with_banks :: "liq_accounts \<Rightarrow> Bank \<Rightarrow> Bank \<Rightarrow> ix_env \<Rightarrow> AccountInfo \<Rightarrow> Bank res" where
  "with_banks lq asset_bank liab_bank env =
     with_bank (lq_asset_bank lq) asset_bank (with_bank (lq_liab_bank lq) liab_bank (e_load_bank env))"

text \<open>A range of the remaining accounts; one that does not fit panics.\<close>

definition slice :: "nat \<Rightarrow> nat \<Rightarrow> 'a list \<Rightarrow> 'a list res" where
  "slice i j xs = (if i \<le> j \<and> j \<le> length xs then Inr (take (j - i) (drop i xs)) else Inl Panic)"

definition liq_prices ::
  "ix_env \<Rightarrow> liq_accounts \<Rightarrow> AccountInfo list \<Rightarrow> Bank \<Rightarrow> Bank \<Rightarrow> (I80F48 \<times> I80F48) res" where
  "liq_prices env lq ais asset_bank liab_bank =
     bindR (get_remaining_accounts_per_bank asset_bank) (\<lambda>asset_n.
     bindR (fetch_asset_price_for_bank_low_bias (e_fx env) (e_lib env) (e_clock env) (lq_asset_bank lq)
              asset_bank ais) (\<lambda>asset_price.
     bindR (check (asset_price > 0) ZeroAssetPrice) (\<lambda>_.
     bindR (get_remaining_accounts_per_bank liab_bank) (\<lambda>liab_n.
     bindR (slice (asset_n - 1) ((asset_n - 1) + (liab_n - 1)) ais) (\<lambda>oracle_ais.
     bindR (try_from_bank (e_fx env) (e_lib env) (e_clock env) liab_bank oracle_ais) (\<lambda>liab_pf.
     bindR (get_price_of_type (e_fx env) (e_lib env) liab_pf RealTime (Some High)
              (oracle_max_confidence (config liab_bank))) (\<lambda>liab_price.
     bindR (check (liab_price > 0) ZeroLiabilityPrice) (\<lambda>_.
     Inr (asset_price, liab_price)))))))))"

text \<open>The liability tokens that an amount of collateral is worth at a discount.\<close>

definition liab_tokens ::
  "fixed_ops \<Rightarrow> I80F48 \<Rightarrow> I80F48 \<Rightarrow> I80F48 \<Rightarrow> I80F48 \<Rightarrow> Bank \<Rightarrow> Bank \<Rightarrow> I80F48 res" where
  "liab_tokens fx amount asset_price liab_price discount asset_bank liab_bank =
     bindR (calc_value fx amount asset_price (get_balance_decimals asset_bank) (Some discount)) (\<lambda>v.
     calc_amount fx v liab_price (get_balance_decimals liab_bank))"

text \<open>What the liquidator takes on, what the liquidatee is repaid, and the fee between them.\<close>

definition liq_amounts ::
  "fixed_ops \<Rightarrow> I80F48 \<Rightarrow> I80F48 \<Rightarrow> I80F48 \<Rightarrow> Bank \<Rightarrow> Bank \<Rightarrow> (I80F48 \<times> I80F48 \<times> I80F48) res" where
  "liq_amounts fx amount asset_price liab_price asset_bank liab_bank =
     bindR (unwrap (op_add fx (LIQUIDATION_INSURANCE_FEE fx) (LIQUIDATION_LIQUIDATOR_FEE fx))) (\<lambda>fees.
     bindR (unwrap (op_sub fx ONE fees)) (\<lambda>final_discount.
     bindR (unwrap (op_sub fx ONE (LIQUIDATION_LIQUIDATOR_FEE fx))) (\<lambda>liquidator_discount.
     bindR (liab_tokens fx amount asset_price liab_price liquidator_discount asset_bank liab_bank)
       (\<lambda>liab_amount_liquidator.
     bindR (liab_tokens fx amount asset_price liab_price final_discount asset_bank liab_bank)
       (\<lambda>liab_amount_final.
     bindR (unwrap (op_sub fx liab_amount_liquidator liab_amount_final)) (\<lambda>insurance_fund_fee.
     if \<not> insurance_fund_fee \<ge> 0 then Inl Panic
     else Inr (liab_amount_liquidator, liab_amount_final, insurance_fund_fee)))))))"

text \<open>A change of a balance with its amount read before and after, for the event.\<close>

definition liab_measured ::
  "fixed_ops \<Rightarrow> nat \<Rightarrow> (wrapper \<Rightarrow> wrapper res) \<Rightarrow> LendingAccount \<Rightarrow> Bank \<Rightarrow> (LendingAccount \<times> Bank) res" where
  "liab_measured fx i f la b =
     bindR (get_liability_amount fx b (liability_shares (balances la ! i))) (\<lambda>_.
     bindR (run_at i f la b) (\<lambda>(la', b').
     bindR (get_liability_amount fx b' (liability_shares (balances la' ! i))) (\<lambda>_. Inr (la', b'))))"

definition asset_measured ::
  "fixed_ops \<Rightarrow> I80F48 option \<Rightarrow> nat \<Rightarrow> (wrapper \<Rightarrow> wrapper res) \<Rightarrow> LendingAccount \<Rightarrow> Bank
    \<Rightarrow> (LendingAccount \<times> Bank) res" where
  "asset_measured fx at_least i f la b =
     bindR (get_asset_amount fx b (asset_shares (balances la ! i))) (\<lambda>pre_balance.
     bindR (case at_least of None \<Rightarrow> Inr ()
            | Some n \<Rightarrow> check (pre_balance \<ge> n) OverliquidationAttempt) (\<lambda>_.
     bindR (run_at i f la b) (\<lambda>(la', b').
     bindR (get_asset_amount fx b' (asset_shares (balances la' ! i))) (\<lambda>_. Inr (la', b')))))"

text \<open>
  The four changes of the books: the liquidator takes on the debt, the collateral moves from the
  liquidatee to the liquidator, and the liquidatee's debt is repaid. The whole part of the insurance
  fee is what will be transferred.
\<close>

definition liq_books ::
  "fixed_ops \<Rightarrow> i64 \<Rightarrow> pubkey \<Rightarrow> pubkey \<Rightarrow> I80F48 \<Rightarrow> I80F48 \<times> I80F48 \<times> I80F48
    \<Rightarrow> LendingAccount \<times> LendingAccount \<times> Bank \<times> Bank
    \<Rightarrow> (u64 \<times> LendingAccount \<times> LendingAccount \<times> Bank \<times> Bank) res" where
  "liq_books fx now asset_key liab_key amount amounts s =
     (case amounts of (paid, received, insurance_fund_fee) \<Rightarrow> case s of (tor, tee, ab, lb) \<Rightarrow>
     bindR (find_or_create now liab_key lb tor) (\<lambda>(i, tor).
     bindR (liab_measured fx i (withdraw_ignore_borrow_cap fx now paid) tor lb) (\<lambda>(tor, lb).
     bindR (wrapper_find asset_key tee) (\<lambda>j.
     bindR (asset_measured fx (Some amount) j (withdraw_ignore_borrow_cap fx now amount) tee ab)
       (\<lambda>(tee, ab).
     bindR (find_or_create now asset_key ab tor) (\<lambda>(k, tor).
     bindR (asset_measured fx None k (deposit_ignore_deposit_cap fx now amount) tor ab) (\<lambda>(tor, ab).
     bindR (math (checked_to_u64 fx insurance_fund_fee)) (\<lambda>n.
     bindR (wrapper_find liab_key tee) (\<lambda>l.
     bindR (liab_measured fx l (repay fx now received) tee lb) (\<lambda>(tee, lb).
     Inr (n, tor, tee, ab, lb)))))))))))"

text \<open>The engine of the liquidatee before the liquidation, its health, and the prices to cache.\<close>

definition pre_liquidation ::
  "ix_env \<Rightarrow> liq_accounts \<Rightarrow> MarginfiAccount \<Rightarrow> AccountInfo list \<Rightarrow> Bank \<Rightarrow> Bank
    \<Rightarrow> (I80F48 \<times> OraclePriceWithConfidence option \<times> OraclePriceWithConfidence option) res" where
  "pre_liquidation env lq liquidatee ais asset_bank liab_bank =
     bindR (risk_engine_new (e_fx env) (e_lib env) (with_banks lq asset_bank liab_bank env) (e_clock env)
              liquidatee ais) (\<lambda>e.
     bindR (fst (check_pre_liquidation_condition_and_get_account_health (e_fx env) (e_lib env)
                   (Some (lq_liab_bank lq)) False e None)) (\<lambda>(health, _, _).
     bindR (ok_of (get_unbiased_price_for_bank (e_fx env) (e_lib env) (lq_asset_bank lq) e)) (\<lambda>pa.
     bindR (ok_of (get_unbiased_price_for_bank (e_fx env) (e_lib env) (lq_liab_bank lq) e)) (\<lambda>pl.
     Inr (health, pa, pl)))))"

text \<open>The banks after the books: the fraction of the fee is kept, and the caches are updated.\<close>

definition liq_finish_banks ::
  "ix_env \<Rightarrow> MarginfiGroup \<Rightarrow> I80F48 \<Rightarrow> OraclePriceWithConfidence option
    \<Rightarrow> OraclePriceWithConfidence option \<Rightarrow> Bank \<Rightarrow> Bank \<Rightarrow> (Bank \<times> Bank) res" where
  "liq_finish_banks env g insurance_fund_fee pa pl ab lb =
     bindR (math (checked_add (e_fx env) (collected_insurance_fees_outstanding lb)
                    (insurance_fund_fee mod ONE))) (\<lambda>fees.
     bindR (update_bank_cache (e_fx env) (e_now env) g ab) (\<lambda>ab'.
     bindR (update_bank_cache (e_fx env) (e_now env) g (lb\<lparr>collected_insurance_fees_outstanding := fees\<rparr>))
       (\<lambda>lb'.
     Inr (update_cache_price (e_now env) pa ab', update_cache_price (e_now env) pl lb'))))"

text \<open>The health of both accounts afterwards.\<close>

definition liq_final_checks ::
  "ix_env \<Rightarrow> liq_accounts \<Rightarrow> I80F48 \<Rightarrow> AccountInfo list \<Rightarrow> AccountInfo list \<Rightarrow> liq_state \<Rightarrow> unit res" where
  "liq_final_checks env lq pre_health liquidator_ais liquidatee_ais s = (case s of (tor, tee, ab, lb) \<Rightarrow>
     let load = with_banks lq ab lb env in
     bindR (risk_engine_new (e_fx env) (e_lib env) load (e_clock env) tee liquidatee_ais) (\<lambda>e.
     bindR (check_post_liquidation_condition_and_get_account_health (e_fx env) (e_lib env)
              (lq_liab_bank lq) pre_health e) (\<lambda>_.
     fst (check_account_init_health (e_fx env) (e_lib env) load (e_clock env) tor liquidator_ais None))))"

definition lending_account_liquidate ::
  "ix_env \<Rightarrow> liq_accounts \<Rightarrow> MarginfiGroup \<Rightarrow> AccountInfo list \<Rightarrow> u64 \<Rightarrow> u8 \<Rightarrow> u8 \<Rightarrow> liq_state
    \<Rightarrow> (liq_state \<times> Transfer) res" where
  "lending_account_liquidate env lq g ais amount liquidatee_accounts liquidator_accounts s =
     (case s of (tor, tee, ab, lb) \<Rightarrow>
     bindR (liq_constraints env lq g s) (\<lambda>_.
     bindR (liq_guards lq amount s) (\<lambda>_.
     bindR (maybe_take_bank_mint (e_parse_mint env) ais lb (lq_token_program lq)) (\<lambda>(_, ais).
     bindR (accrue_interest (e_fx env) (e_now env) g ab) (\<lambda>ab.
     bindR (accrue_interest (e_fx env) (e_now env) g lb) (\<lambda>lb.
     bindR (unwrap (checked_sub_nat (length ais) liquidatee_accounts)) (\<lambda>tee_start.
     let tee_ais = drop tee_start ais;
         tee = tee\<lparr>lending_account := sort_balances (lending_account tee)\<rparr> in
     bindR (pre_liquidation env lq tee tee_ais ab lb) (\<lambda>(pre_health, pa, pl).
     bindR (amount_num env amount) (\<lambda>v.
     bindR (liq_prices env lq ais ab lb) (\<lambda>(asset_price, liab_price).
     bindR (liq_amounts (e_fx env) v asset_price liab_price ab lb) (\<lambda>amounts.
     bindR (liq_books (e_fx env) (e_now env) (lq_asset_bank lq) (lq_liab_bank lq) v amounts
              (lending_account tor, lending_account tee, ab, lb)) (\<lambda>(n, tor_la, tee_la, ab, lb).
     bindR (liq_finish_banks env g (snd (snd amounts)) pa pl ab lb) (\<lambda>(ab, lb).
     let tee = tee\<lparr>lending_account := tee_la, acc_last_update := as_u64 (e_now env)\<rparr>;
         tor = booked env tor_la tor in
     bindR (unwrap (checked_sub_nat tee_start liquidator_accounts)) (\<lambda>tor_start.
     bindR (slice tor_start tee_start ais) (\<lambda>tor_ais.
     bindR (liq_final_checks env lq pre_health tor_ais tee_ais (tor, tee, ab, lb)) (\<lambda>_.
     Inr ((tor, tee, ab, lb),
          withdraw_spl_transfer n (lq_liquidity_vault lq) (lq_insurance_vault lq)
            (lq_vault_authority lq))))))))))))))))))"

section \<open>Bankruptcy\<close>

record bankruptcy_accounts =
  bk_group :: pubkey
  bk_signer :: pubkey
  bk_bank :: pubkey
  bk_liquidity_vault :: pubkey
  bk_insurance_vault :: pubkey
  bk_insurance_amount :: u64
  bk_insurance_vault_authority :: pubkey
  bk_token_program :: TokenProgram

definition bankruptcy_constraints ::
  "ix_env \<Rightarrow> bankruptcy_accounts \<Rightarrow> MarginfiGroup \<Rightarrow> MarginfiAccount \<Rightarrow> Bank \<Rightarrow> unit res" where
  "bankruptcy_constraints env bk g a b =
     bindR (not_paused g (e_now env)) (\<lambda>_.
     bindR (bank_in_group (bk_group bk) b) (\<lambda>_.
     bindR (check (is_marginfi_asset_tag (asset_tag (config b))) WrongAssetTagForStandardInstructions) (\<lambda>_.
     bindR (account_in_group (bk_group bk) a) (\<lambda>_.
     bindR (check (\<not> acc_get_flag a ACCOUNT_IN_RECEIVERSHIP) UnexpectedLiquidationState) (\<lambda>_.
     check (\<not> acc_get_flag a ACCOUNT_IN_FLASHLOAN) AccountInFlashloan)))))"

text \<open>How a bad debt is split: what the insurance fund covers, and the loss of the depositors.\<close>

definition split_bad_debt :: "fixed_ops \<Rightarrow> I80F48 \<Rightarrow> I80F48 \<Rightarrow> (I80F48 \<times> I80F48) res" where
  "split_bad_debt fx bad_debt available_insurance_fund =
     (let covered = min bad_debt available_insurance_fund
      in bindR (unwrap (op_sub fx bad_debt covered)) (\<lambda>d. Inr (covered, max d 0)))"

text \<open>The risk engine's verdict, with the health cache and the price it leaves.\<close>

definition bankruptcy_verdict ::
  "ix_env \<Rightarrow> pubkey \<Rightarrow> MarginfiAccount \<Rightarrow> Bank \<Rightarrow> AccountInfo list
    \<Rightarrow> (HealthCache \<times> OraclePriceWithConfidence option) res" where
  "bankruptcy_verdict env bank_key a b ais =
     bindR (risk_engine_new (e_fx env) (e_lib env) (with_bank bank_key b (e_load_bank env)) (e_clock env)
              a ais) (\<lambda>e.
     case check_account_bankrupt (e_fx env) (e_lib env) e
            (Some (HealthCache_zeroed\<lparr>hc_timestamp := e_now env, program_version := PROGRAM_VERSION\<rparr>)) of
       (verdict, hc) \<Rightarrow>
         bindR verdict (\<lambda>_.
         bindR (ok_of (get_unbiased_price_for_bank (e_fx env) (e_lib env) bank_key e)) (\<lambda>price.
         bindR (unwrap hc) (\<lambda>c. Inr (set_engine_ok True c, price)))))"

text \<open>The debt settled: the transfer from the insurance vault, the loss socialized, the debt repaid.\<close>

definition settle_bad_debt ::
  "ix_env \<Rightarrow> bankruptcy_accounts \<Rightarrow> MintAi option \<Rightarrow> LendingAccount \<Rightarrow> Bank
    \<Rightarrow> (Transfer \<times> bool \<times> LendingAccount \<times> Bank) res" where
  "settle_bad_debt env bk mint_ai la b =
     bindR (ok_or LendingAccountBalanceNotFound (get_balance la (bk_bank bk))) (\<lambda>bal.
     bindR (get_liability_amount (e_fx env) b (liability_shares bal)) (\<lambda>bad_debt.
     bindR (check (bad_debt > ZERO_AMOUNT_THRESHOLD (e_fx env)) BalanceNotBadDebt) (\<lambda>_.
     bindR (post_fee mint_ai (bk_insurance_amount bk) (clock_epoch (e_clock env))) (\<lambda>available.
     bindR (amount_num env available) (\<lambda>fund.
     bindR (split_bad_debt (e_fx env) bad_debt fund) (\<lambda>(covered, loss).
     bindR (math (checked_ceil (e_fx env) covered)) (\<lambda>c.
     bindR (math (checked_to_u64 (e_fx env) c)) (\<lambda>covered_up.
     bindR (pre_fee mint_ai covered_up (clock_epoch (e_clock env))) (\<lambda>gross.
     bindR (socialize_loss (e_fx env) loss b) (\<lambda>(b1, kill_bank).
     bindR (wrapper_find (bk_bank bk) la) (\<lambda>i.
     bindR (run_at i (repay (e_fx env) (e_now env) bad_debt) la b1) (\<lambda>(la', b2).
     Inr (withdraw_spl_transfer gross (bk_insurance_vault bk) (bk_liquidity_vault bk)
            (bk_insurance_vault_authority bk), kill_bank, la', b2)))))))))))))"

definition lending_pool_handle_bankruptcy ::
  "ix_env \<Rightarrow> bankruptcy_accounts \<Rightarrow> MarginfiGroup \<Rightarrow> AccountInfo list \<Rightarrow> MarginfiAccount \<times> Bank
    \<Rightarrow> (MarginfiAccount \<times> Bank \<times> Transfer) res" where
  "lending_pool_handle_bankruptcy env bk g ais s = (case s of (a, b) \<Rightarrow>
     bindR (bankruptcy_constraints env bk g a b) (\<lambda>_.
     bindR (validate_bank_state b FailsInPausedState) (\<lambda>_.
     bindR (maybe_take_bank_mint (e_parse_mint env) ais b (bk_token_program bk)) (\<lambda>(mint_ai, ais).
     bindR (if \<not> bank_get_flag b PERMISSIONLESS_BAD_DEBT_SETTLEMENT_FLAG
            then check (bk_signer bk = risk_admin g \<or> bk_signer bk = admin g) Unauthorized
            else Inr ()) (\<lambda>_.
     bindR (bankruptcy_verdict env (bk_bank bk) a b ais) (\<lambda>(hc, price).
     bindR (accrue_interest (e_fx env) (e_now env) g b) (\<lambda>b1.
     bindR (settle_bad_debt env bk mint_ai (lending_account a) b1) (\<lambda>(t, kill_bank, la, b2).
     bindR (update_bank_cache (e_fx env) (e_now env) g b2) (\<lambda>b3.
     let b4 = update_cache_price (e_now env) price b3;
         b5 = (if kill_bank then b4\<lparr>config := (config b4)\<lparr>operational_state := KilledByBankruptcy\<rparr>\<rparr>
               else b4)
     in Inr (acc_set_flag ACCOUNT_DISABLED
               (a\<lparr>lending_account := la, health_cache := hc, acc_last_update := as_u64 (e_now env)\<rparr>),
             b5, t))))))))))"

end
