(* ===== verification/TokenFacts.thy ===== *)
theory TokenFacts
  imports Receivership LiquidateIx
begin

text \<open>
  What the user instructions keep: every handler that changes a balance keeps the ledger of the
  account and the bank and the slots of the account. Each step of a handler has a lemma in
  \<open>ledger_intros\<close>; the handlers' lemmas chain them.
\<close>

named_theorems ledger_intros "steps of the handlers that keep the ledger of an account and a bank"

text \<open>The fee rates that a borrow expects; the program never checks them.\<close>

definition fees_sane :: "MarginfiGroup \<Rightarrow> Bank \<Rightarrow> bool" where
  "fees_sane g b \<longleftrightarrow> 0 \<le> protocol_origination_fee (interest_rate_config (config b))
     \<and> 0 \<le> fsc_program_fee_rate (fee_state_cache g) \<and> fsc_program_fee_rate (fee_state_cache g) \<le> ONE"

section \<open>Running a method in a handler\<close>

text \<open>Inverting a handler step by step, with the results taken apart.\<close>

lemma bind2E:
  assumes "bindR m (case_prod f) = Inr z"
  obtains x y where "m = Inr (x, y)" and "f x y = Inr z"
  using assms by (auto simp: bindR_eq_Inr)

lemma bind3E:
  assumes "bindR m (case_prod (\<lambda>x. case_prod (f x))) = Inr z"
  obtains x y w where "m = Inr (x, y, w)" and "f x y w = Inr z"
  using assms by (auto simp: bindR_eq_Inr)

lemma bind4E:
  assumes "bindR m (case_prod (\<lambda>x. case_prod (\<lambda>y. case_prod (f x y)))) = Inr z"
  obtains x y w v where "m = Inr (x, y, w, v)" and "f x y w v = Inr z"
  using assms by (auto simp: bindR_eq_Inr)

lemma bind5E:
  assumes "bindR m (case_prod (\<lambda>x. case_prod (\<lambda>y. case_prod (\<lambda>w. case_prod (f x y w))))) = Inr z"
  obtains x y w v u where "m = Inr (x, y, w, v, u)" and "f x y w v u = Inr z"
  using assms by (auto simp: bindR_eq_Inr)

lemmas bindE = bind5E bind4E bind3E bind2E bindR_InrE

lemma run_at_eq: "run_at i f la b = Inr s \<longleftrightarrow> at_balance i (unit_meth f) (la, b) = Inr ((), s)"
proof -
  have "(\<lambda>w. bindR (f w) (\<lambda>w'. Inr ((), w'))) = unit_meth f" by (simp add: unit_meth_def fun_eq_iff)
  then show ?thesis by (cases s) (auto simp: run_at_def bindR_eq_Inr)
qed

text \<open>An index that holds the active balance of a bank.\<close>

definition index_of :: "pubkey \<Rightarrow> LendingAccount \<Rightarrow> nat \<Rightarrow> bool" where
  "index_of pk la i \<longleftrightarrow> i < length (balances la) \<and> is_active (balances la ! i) \<and> bank_pk (balances la ! i) = pk"

lemma index_of_find: "wrapper_find pk la = Inr i \<Longrightarrow> index_of pk la i"
  using wrapper_find_index by (simp add: index_of_def)

lemma index_of_created: "find_or_create now pk b la = Inr (i, la') \<Longrightarrow> index_of pk la' i"
  using find_or_create_index by (simp add: index_of_def)

context wrapper_op
begin

lemma inv_kept_at:
  assumes "at_balance i meth (la, bank) = Inr (r, s')" and "index_of pk la i"
    and "account_inv pk ra rl others (la, bank)" and "enabled"
  shows "account_inv pk ra rl others s'"
proof -
  have i: "i < length (balances la)" "is_active (balances la ! i)" "bank_pk (balances la ! i) = pk"
    using assms(2) by (auto simp: index_of_def)
  have L: "ledger pk ra rl (la, bank)" "slots_ok la" "elsewhere pk la = others"
    using assms(3) by (auto simp: account_inv_def)
  note ok = ledger_wr_ok [OF L(1) i]
  have "ledger pk ra rl s'" using ledger_kept [OF assms(4,1) L(1)] i by simp
  moreover have "slots_ok (fst s')" using slots_kept [OF assms(4,1)] L(2) i ok by simp
  moreover have "elsewhere pk (fst s') = others" using elsewhere_kept [OF assms(4,1)] L(3) i ok by simp
  ultimately show ?thesis by (simp add: account_inv_def)
qed

end

lemma booked_simps [simp]:
  "lending_account (booked env la a) = sort_balances la"
  "acc_get_flag (booked env la a) f = acc_get_flag a f"
  "lending_account (booked env la a\<lparr>health_cache := hc\<rparr>) = sort_balances la"
  by (simp_all add: booked_def acc_get_flag_def)

context fixed_arith
begin

lemma purge_balance_shape:
  assumes "purge_balance fx (bal, bank) = Inr (bal', bank')" and "wr_ok (bal, bank)"
  shows "bal' = empty_deactivated"
    and "bank' = (decrement_lending_position_count bank)\<lparr>total_asset_shares := total_asset_shares bank - asset_shares bal\<rparr>"
proof -
  have "in_fx (asset_shares bal)" "0 \<le> asset_shares bal"
    using assms(2) in_fx_mono by (auto simp: wr_ok_def bank_ok_def)
  then have "op_neg fx (asset_shares bal) = Some (- asset_shares bal)" by (rule neg_exact)
  then show "bal' = empty_deactivated"
    and "bank' = (decrement_lending_position_count bank)\<lparr>total_asset_shares := total_asset_shares bank - asset_shares bal\<rparr>"
    using assms(1)
    by (auto simp: purge_balance_def bal_close_def bindR_eq_Inr decrement_lending_position_count_def
        split: if_splits dest!: change_asset_shares_eq)
qed

lemma purge_balance_keeps:
  assumes "purge_balance fx w = Inr w'" and ok: "wr_ok w"
  shows "wr_ok w'" and "others_assets w' = others_assets w"
    and "others_liabs w \<le> others_liabs w'" and "fst w' = empty_deactivated"
proof -
  obtain bal bank bal' bank' where w: "w = (bal, bank)" "w' = (bal', bank')" by (metis surj_pair)
  note r = purge_balance_shape [OF assms [unfolded w]]
  have "in_fx (total_asset_shares bank - asset_shares bal)"
    using ok by (auto simp: w wr_ok_def bank_ok_def intro: in_fx_mono)
  then show "wr_ok w'" and "others_assets w' = others_assets w"
    and "others_liabs w \<le> others_liabs w'" and "fst w' = empty_deactivated"
    using r ok by (auto simp: w wr_ok_def bank_ok_def others_assets_def others_liabs_def
        decrement_lending_position_count_def)
qed

end

sublocale fixed_arith < purge: wrapper_op True "unit_meth (purge_balance fx)"
  by unfold_locales
    (auto simp: same_identity_def res_simps intro: purge_balance_keeps dest: purge_balance_keeps)

section \<open>The steps\<close>

lemma inv_same_totals:
  assumes "account_inv pk ra rl others (la, b)" and "bank_ok b'"
    and "total_asset_shares b' = total_asset_shares b"
    and "total_liability_shares b' = total_liability_shares b"
  shows "account_inv pk ra rl others (la, b')"
  using assms by (auto simp: account_inv_def ledger_def)

lemma inv_bank_ok: "account_inv pk ra rl others (la, b) \<Longrightarrow> bank_ok b"
  by (simp add: account_inv_def ledger_def)

lemma inv_sort [ledger_intros]:
  "account_inv pk ra rl others (la, b) \<Longrightarrow> account_inv pk ra rl others (sort_balances la, b)"
  by (simp add: account_inv_def ledger_def slots_sort)

lemma inv_price [ledger_intros]:
  "account_inv pk ra rl others (la, b) \<Longrightarrow> account_inv pk ra rl others (la, update_cache_price now p b)"
  by (auto simp: account_inv_def ledger_def bank_ok_def update_cache_price_def split: option.splits)

lemma inv_cache [ledger_intros]:
  "update_bank_cache fx now g b = Inr b' \<Longrightarrow> account_inv pk ra rl others (la, b) \<Longrightarrow> account_inv pk ra rl others (la, b')"
  using update_bank_cache_frame [of fx now g b b'] update_bank_cache_ok inv_bank_ok
  by (metis inv_same_totals)

lemma inv_open [ledger_intros]:
  "find_or_create now pk b la = Inr (i, la') \<Longrightarrow> account_inv pk ra rl others (la, b) \<Longrightarrow> account_inv pk ra rl others (la', b)"
  using find_or_create_ledger find_or_create_slots find_or_create_elsewhere
  by (auto simp: account_inv_def)

lemma inv_flag [ledger_intros]:
  "update_flag v f b = Inr b' \<Longrightarrow> account_inv pk ra rl others (la, b) \<Longrightarrow> account_inv pk ra rl others (la, b')"
  by (auto simp: account_inv_def ledger_def bank_ok_def update_flag_def split: if_splits)

lemma inv_repayments_complete [ledger_intros]:
  "mark_repayments_complete fx b = Inr b' \<Longrightarrow> account_inv pk ra rl others (la, b) \<Longrightarrow> account_inv pk ra rl others (la, b')"
  by (auto simp: mark_repayments_complete_def bindR_eq_Inr split: if_splits intro: inv_flag)

context fixed_arith
begin

lemma inv_accrue [ledger_intros]:
  "accrue_interest fx now g b = Inr b' \<Longrightarrow> account_inv pk ra rl others (la, b) \<Longrightarrow> account_inv pk ra rl others (la, b')"
  by (rule acct_step_inv [OF acct_step.accrue])

lemma inv_increase [ledger_intros]:
  "run_at i (increase_balance_internal fx now d ty) la b = Inr (la', b') \<Longrightarrow> index_of pk la i \<Longrightarrow>
   account_inv pk ra rl others (la, b) \<Longrightarrow> 0 \<le> d \<Longrightarrow> account_inv pk ra rl others (la', b')"
  unfolding run_at_eq by (rule increase.inv_kept_at)

lemma inv_decrease [ledger_intros]:
  "run_at i (decrease_balance_internal fx now d ty') la b = Inr (la', b') \<Longrightarrow> index_of pk la i \<Longrightarrow>
   account_inv pk ra rl others (la, b) \<Longrightarrow> 0 \<le> d \<Longrightarrow> account_inv pk ra rl others (la', b')"
  unfolding run_at_eq by (rule decrease.inv_kept_at)

lemma inv_withdraw_all [ledger_intros]:
  "at_balance i (withdraw_all fx now) (la, b) = Inr (n, la', b') \<Longrightarrow> index_of pk la i \<Longrightarrow>
   account_inv pk ra rl others (la, b) \<Longrightarrow> account_inv pk ra rl others (la', b')"
  by (rule withdraw_all.inv_kept_at) simp_all

lemma inv_repay_all [ledger_intros]:
  "at_balance i (repay_all fx now) (la, b) = Inr (n, la', b') \<Longrightarrow> index_of pk la i \<Longrightarrow>
   account_inv pk ra rl others (la, b) \<Longrightarrow> account_inv pk ra rl others (la', b')"
  by (rule repay_all.inv_kept_at) simp_all

lemma inv_close [ledger_intros]:
  "run_at i (close_balance fx now) la b = Inr (la', b') \<Longrightarrow> index_of pk la i \<Longrightarrow>
   account_inv pk ra rl others (la, b) \<Longrightarrow> account_inv pk ra rl others (la', b')"
  unfolding run_at_eq by (rule close_balance.inv_kept_at) simp_all

lemma inv_claim [ledger_intros]:
  "run_at i (claim_emissions fx t) la b = Inr (la', b') \<Longrightarrow> index_of pk la i \<Longrightarrow>
   account_inv pk ra rl others (la, b) \<Longrightarrow> account_inv pk ra rl others (la', b')"
  unfolding run_at_eq by (rule claim.inv_kept_at) simp_all

lemma inv_settle [ledger_intros]:
  "at_balance i (settle_emissions_and_get_transfer_amount fx now) (la, b) = Inr (n, la', b') \<Longrightarrow>
   index_of pk la i \<Longrightarrow> account_inv pk ra rl others (la, b) \<Longrightarrow> account_inv pk ra rl others (la', b')"
  by (rule settle.inv_kept_at) simp_all

text \<open>Token amounts are not negative; the origination fee is not when its rate is not.\<close>

lemma token_amount:
  "n \<le> u64_max \<Longrightarrow> from_num fx (int n) = Some (int n * ONE)"
  by (intro of_int) (auto simp: u64_max_def in_fx_def fx_limit_def ONE_def)

lemma book_fee_ok:
  assumes "book_origination_fee fx r fee b = Inr b'" and "0 \<le> fee" and "0 \<le> r" "r \<le> ONE"
    and ok: "bank_ok b"
  shows "bank_ok b'" and "total_asset_shares b' = total_asset_shares b"
    and "total_liability_shares b' = total_liability_shares b"
proof -
  have part: "0 \<le> p \<and> p \<le> fee" if "checked_mul fx fee r = Some p" for p
  proof -
    have p: "p = fee * r div ONE" "0 \<le> p" using mul_SomeD [OF that assms(2,3)] by simp_all
    have "fee * r \<le> fee * ONE" using assms(2,4) by (simp add: mult_left_mono)
    then have "fee * r div ONE \<le> fee * ONE div ONE" by (rule zdiv_mono1) simp
    with p show ?thesis by simp
  qed
  have sat: "0 \<le> saturating_add fx x y" if "0 \<le> x" "0 \<le> y" for x y
    using that by (simp add: sat_add fx_limit_def)
  have sats: "0 \<le> saturating_sub fx x y" if "y \<le> x" for x y
    using that by (simp add: sat_sub fx_limit_def)
  show "bank_ok b'" "total_asset_shares b' = total_asset_shares b"
    "total_liability_shares b' = total_liability_shares b"
    using assms(1,2) ok part
    by (auto simp: book_origination_fee_def bindR_eq_Inr res_simps bank_ok_def sat sats split: if_splits)
qed

lemma inv_book_fee [ledger_intros]:
  "book_origination_fee fx r fee b = Inr b' \<Longrightarrow> 0 \<le> fee \<Longrightarrow> 0 \<le> r \<Longrightarrow> r \<le> ONE \<Longrightarrow>
   account_inv pk ra rl others (la, b) \<Longrightarrow> account_inv pk ra rl others (la, b')"
  using book_fee_ok inv_bank_ok inv_same_totals by metis

section \<open>The handlers\<close>

lemma pre_fee_u64: "pre_fee m n epoch = Inr k \<Longrightarrow> n \<le> u64_max \<Longrightarrow> k \<le> u64_max"
  by (auto simp: pre_fee_def calculate_pre_fee_spl_deposit_amount_def calculate_pre_fee_amount_def
      none_panics_def bindR_eq_Inr checked_add_u64_def opt_def
      split: option.splits MintAi.splits if_splits sum.splits failure.splits)

lemma amount_num_eq: "amount_num env n = Inr v \<Longrightarrow> e_fx env = fx \<Longrightarrow> n \<le> u64_max \<Longrightarrow> v = int n * ONE \<and> 0 \<le> v"
  using token_amount [of n] by (auto simp: amount_num_def)

end

text \<open>What a successful deposit did.\<close>

lemma deposit_cases:
  assumes "lending_account_deposit env ta g ais n up (a, b) = Inr (a', b', ts)"
  obtains (nothing) "a' = a" "b' = b" "ts = []"
    | (moved) mint_ai k b1 i la v la' b2 gross t where
      "deposit_guards env ta g a b = Inr ()"
      "deposit_amount_of env n (case up of Some v \<Rightarrow> v | None \<Rightarrow> False) b = Inr k" "k \<noteq> 0"
      "accrue_interest (e_fx env) (e_now env) g b = Inr b1"
      "find_or_create (e_now env) (ta_bank ta) b1 (lending_account a) = Inr (i, la)"
      "amount_num env k = Inr v"
      "run_at i (deposit (e_fx env) (e_now env) v) la b1 = Inr (la', b2)"
      "pre_fee mint_ai k (clock_epoch (e_clock env)) = Inr gross"
      "deposit_spl_transfer b2 gross (ta_user_tokens ta) (ta_liquidity_vault ta) (ta_authority ta) = Inr t"
      "update_bank_cache (e_fx env) (e_now env) g b2 = Inr b'"
      "a' = booked env la' a" "ts = [t]"
  using assms unfolding lending_account_deposit_def prod.case
proof (elim bindE, goal_cases)
  case (1 u mint_ai ais' u' u'' u3 k)
  show ?case
  proof (cases "k = 0")
    case True
    then show ?thesis using 1 nothing by simp
  next
    case False
    show ?thesis
      using 1 False unfolding if_not_P [OF False]
      by (elim bindE) (rule moved, (assumption | simp)+)
  qed
qed

lemma withdraw_cases:
  assumes "lending_account_withdraw env ta ais n all (g, a, b) = Inr (g', a', b', ts)"
  obtains mint_ai ais' price b1 i m la b2 b3 p where
    "withdraw_guards env ta g a b = Inr ()"
    "maybe_take_bank_mint (e_parse_mint env) ais b (ta_token_program ta) = Inr (mint_ai, ais')"
    "receivership_price env (ta_bank ta) a b ais' = Inr price"
    "accrue_interest (e_fx env) (e_now env) g b = Inr b1"
    "wrapper_find (ta_bank ta) (lending_account a) = Inr i"
    "withdraw_tokens env mint_ai n (case all of Some v \<Rightarrow> v | None \<Rightarrow> False) i (lending_account a) b1
       = Inr (m, la, b2)"
    "update_bank_cache (e_fx env) (e_now env) g' b2 = Inr b3"
    "withdraw_health env (ta_bank ta) b3 (booked env la a) ais' = Inr (a', p)"
    "b' = update_cache_price (e_now env) p b3"
  using assms unfolding lending_account_withdraw_def prod.case Let_def
  by (elim bindE) (rule that, (assumption | simp)+)

lemma borrow_cases:
  assumes "lending_account_borrow env ta g ais n (a, b) = Inr (a', b', ts)"
  obtains mint_ai ais' b1 i la k v fee whole debt la' b2 b3 hc p b4 where
    "borrow_guards env ta g a b = Inr ()"
    "maybe_take_bank_mint (e_parse_mint env) ais b (ta_token_program ta) = Inr (mint_ai, ais')"
    "accrue_interest (e_fx env) (e_now env) g b = Inr b1"
    "find_or_create (e_now env) (ta_bank ta) b1 (lending_account a) = Inr (i, la)"
    "pre_fee mint_ai n (clock_epoch (e_clock env)) = Inr k"
    "amount_num env k = Inr v"
    "origination_fee_of (e_fx env) (protocol_origination_fee (interest_rate_config (config b1))) v
       = Inr (fee, whole)"
    "borrowed_amount (e_fx env) (protocol_origination_fee (interest_rate_config (config b1))) v fee = Inr debt"
    "run_at i (borrow (e_fx env) (e_now env) debt) la b1 = Inr (la', b2)"
    "book_origination_fee (e_fx env) (fsc_program_fee_rate (fee_state_cache g)) fee b2 = Inr b3"
    "final_health env (ta_bank ta) b3 (booked env la' a) ais' = Inr (hc, p)"
    "update_bank_cache (e_fx env) (e_now env) g b3 = Inr b4"
    "a' = booked env la' a\<lparr>health_cache := hc\<rparr>" "b' = update_cache_price (e_now env) p b4"
    "ts = [withdraw_spl_transfer k (ta_liquidity_vault ta) (ta_user_tokens ta) (ta_vault_authority ta)]"
  using assms unfolding lending_account_borrow_def prod.case Let_def
  by (elim bindE) (rule that, (assumption | simp)+)

lemma repay_cases:
  assumes "lending_account_repay env ta g ais n all (a, b) = Inr (a', b', ts)"
  obtains b1 i m la b2 b3 where
    "repay_guards env ta g a b = Inr ()"
    "accrue_interest (e_fx env) (e_now env) g b = Inr b1"
    "wrapper_find (ta_bank ta) (lending_account a) = Inr i"
    "repay_tokens env n (case all of Some v \<Rightarrow> v | None \<Rightarrow> False) i (lending_account a) b1 = Inr (m, la, b2)"
    "mark_repayments_complete (e_fx env) b2 = Inr b3"
    "update_bank_cache (e_fx env) (e_now env) g b3 = Inr b'"
    "a' = booked env la a"
  using assms unfolding lending_account_repay_def prod.case Let_def
  by (elim bindE) (rule that, (assumption | simp)+)

lemma close_balance_cases:
  assumes "lending_account_close_balance env ta g (a, b) = Inr (a', b')"
  obtains b1 b2 i la where
    "accrue_interest (e_fx env) (e_now env) g b = Inr b1"
    "update_bank_cache (e_fx env) (e_now env) g b1 = Inr b2"
    "wrapper_find (ta_bank ta) (lending_account a) = Inr i"
    "run_at i (close_balance (e_fx env) (e_now env)) (lending_account a) b2 = Inr (la, b')"
    "a' = booked env la a"
  using assms unfolding lending_account_close_balance_def prod.case
  by (elim bindE) (rule that, (assumption | simp)+)

section \<open>Every handler keeps the ledger\<close>

context fixed_arith
begin

lemma deposit_inv:
  assumes "lending_account_deposit env ta g ais n up (a, b) = Inr (a', b', ts)"
    and fx: "e_fx env = fx" and n: "n \<le> u64_max"
    and inv: "account_inv (ta_bank ta) ra rl others (lending_account a, b)"
  shows "account_inv (ta_bank ta) ra rl others (lending_account a', b')"
  using assms(1)
proof (cases rule: deposit_cases)
  case (moved mint_ai k b1 i la v la' b2 gross t)
  note moved = moved [unfolded fx deposit_def]
  have "k \<le> u64_max"
    using moved(2) n by (auto simp: deposit_amount_of_def bindR_eq_Inr split: if_splits)
  then have "0 \<le> v" using amount_num_eq [OF moved(6) fx] by simp
  have "account_inv (ta_bank ta) ra rl others (la, b1)"
    by (rule inv_open [OF moved(5) inv_accrue [OF moved(4) inv]])
  then have "account_inv (ta_bank ta) ra rl others (la', b2)"
    by (rule inv_increase [OF moved(7) index_of_created [OF moved(5)]]) fact
  then show ?thesis using inv_sort inv_cache [OF moved(10)] moved(11) by simp
qed (use inv in simp)

lemma withdraw_health_frame:
  "withdraw_health env key b a ais = Inr (a', p) \<Longrightarrow> lending_account a' = lending_account a"
  by (auto simp: withdraw_health_def bindR_eq_Inr split: if_splits)

lemma withdraw_tokens_inv:
  assumes "withdraw_tokens env m n all i la b = Inr (k, la', b')" and fx: "e_fx env = fx"
    and "n \<le> u64_max" and "index_of pk la i" and "account_inv pk ra rl others (la, b)"
  shows "account_inv pk ra rl others (la', b')"
proof (cases all)
  case True
  then show ?thesis using assms inv_withdraw_all by (simp add: withdraw_tokens_def)
next
  case False
  obtain k' v where k: "pre_fee m n (clock_epoch (e_clock env)) = Inr k'" and v: "amount_num env k' = Inr v"
    and r: "run_at i (withdraw fx (e_now env) v) la b = Inr (la', b')"
    using assms(1) False unfolding withdraw_tokens_def fx by (auto elim!: bindE)
  have "0 \<le> v" using amount_num_eq [OF v fx] pre_fee_u64 [OF k] assms(3) by simp
  then show ?thesis using inv_decrease [OF r [unfolded withdraw_def] assms(4,5)] by simp
qed

lemma withdraw_inv:
  assumes "lending_account_withdraw env ta ais n all (g, a, b) = Inr (g', a', b', ts)"
    and fx: "e_fx env = fx" and n: "n \<le> u64_max"
    and inv: "account_inv (ta_bank ta) ra rl others (lending_account a, b)"
  shows "account_inv (ta_bank ta) ra rl others (lending_account a', b')"
  using assms(1)
proof (cases rule: withdraw_cases)
  case (1 mint_ai ais' price b1 i m la b2 b3 p)
  have "account_inv (ta_bank ta) ra rl others (la, b2)"
    using withdraw_tokens_inv [OF 1(6) fx n index_of_find [OF 1(5)]] inv_accrue [OF 1(4) [unfolded fx] inv]
    by simp
  then have "account_inv (ta_bank ta) ra rl others (sort_balances la, b3)"
    by (rule inv_sort [OF inv_cache [OF 1(7)]])
  then show ?thesis using inv_price withdraw_health_frame [OF 1(8)] 1(9) by simp
qed

lemma borrowed_amount_eq:
  assumes "origination_fee_of fx r v = Inr (fee, whole)" and "borrowed_amount fx r v fee = Inr debt"
    and "0 \<le> r" "0 \<le> v" "n \<le> u64_max" "v = int n * ONE"
  shows "0 \<le> fee" and "debt = v + fee"
proof -
  have fee: "r \<noteq> 0 \<Longrightarrow> checked_mul fx v r = Some fee \<and> checked_to_u64 fx fee = Some whole"
    "r = 0 \<Longrightarrow> fee = 0"
    using assms(1) by (auto simp: origination_fee_of_def bindR_eq_Inr res_simps split: if_splits)
  then show nn: "0 \<le> fee" using mul_SomeD [of v r fee] assms(3,4) by (cases "r = 0") auto
  show "debt = v + fee"
  proof (cases "r = 0")
    case True
    then show ?thesis using assms(2) fee by (simp add: borrowed_amount_def)
  next
    case False
    have "whole \<le> u64_max" "int whole = fee div ONE" using to_u64_SomeD [of fee whole] fee(1) False nn by auto
    moreover have "fee < fee div ONE * ONE + ONE"
      using div_mult_mod_eq [of fee ONE] pos_mod_bound [OF ONE_pos, of fee] by linarith
    moreover have "fee div ONE * ONE \<le> int u64_max * ONE"
      using calculation(1,2) by (intro mult_right_mono) simp_all
    ultimately have "fee < int u64_max * ONE + ONE" by linarith
    then have "in_fx (v + fee)" using nn assms(4-6)
      by (auto simp: in_fx_def fx_limit_def ONE_def u64_max_def)
    then show ?thesis using assms(2) False plus by (simp add: borrowed_amount_def)
  qed
qed

lemma borrow_inv:
  assumes "lending_account_borrow env ta g ais n (a, b) = Inr (a', b', ts)"
    and fx: "e_fx env = fx" and n: "n \<le> u64_max" and sane: "fees_sane g b"
    and inv: "account_inv (ta_bank ta) ra rl others (lending_account a, b)"
  shows "account_inv (ta_bank ta) ra rl others (lending_account a', b')"
  using assms(1)
proof (cases rule: borrow_cases)
  case (1 mint_ai ais' b1 i la k v fee whole debt la' b2 b3 hc p b4)
  note 1 = 1 [unfolded fx]
  have c: "config b1 = config b"
    by (rule accrue_interest_monotone(9) [OF 1(3) inv_bank_ok [OF inv]])
  have k: "k \<le> u64_max" by (rule pre_fee_u64 [OF 1(5) n])
  note v = amount_num_eq [OF 1(6) fx k]
  have r: "0 \<le> protocol_origination_fee (interest_rate_config (config b1))"
    using sane by (simp add: fees_sane_def c)
  have fee: "0 \<le> fee" "debt = v + fee" using borrowed_amount_eq [OF 1(7,8) r _ k] v by auto
  have "account_inv (ta_bank ta) ra rl others (la, b1)"
    by (rule inv_open [OF 1(4) inv_accrue [OF 1(3) inv]])
  then have "account_inv (ta_bank ta) ra rl others (la', b2)"
    by (rule inv_decrease [OF 1(9) [unfolded borrow_def] index_of_created [OF 1(4)]]) (use v fee in simp)
  then have "account_inv (ta_bank ta) ra rl others (la', b3)"
    using sane by (intro inv_book_fee [OF 1(10) fee(1)]) (simp_all add: fees_sane_def)
  then show ?thesis using inv_sort inv_cache [OF 1(12)] inv_price 1(13,14) by simp
qed

lemma repay_tokens_inv:
  assumes "repay_tokens env n all i la b = Inr (k, la', b')" and fx: "e_fx env = fx"
    and "n \<le> u64_max" and "index_of pk la i" and "account_inv pk ra rl others (la, b)"
  shows "account_inv pk ra rl others (la', b')"
proof (cases all)
  case True
  then show ?thesis using assms inv_repay_all by (simp add: repay_tokens_def)
next
  case False
  obtain v where v: "amount_num env n = Inr v"
    and r: "run_at i (repay fx (e_now env) v) la b = Inr (la', b')"
    using assms(1) False unfolding repay_tokens_def fx by (auto elim!: bindE)
  have "0 \<le> v" using amount_num_eq [OF v fx assms(3)] by simp
  then show ?thesis using inv_increase [OF r [unfolded repay_def] assms(4,5)] by simp
qed

lemma repay_inv:
  assumes "lending_account_repay env ta g ais n all (a, b) = Inr (a', b', ts)"
    and fx: "e_fx env = fx" and n: "n \<le> u64_max"
    and inv: "account_inv (ta_bank ta) ra rl others (lending_account a, b)"
  shows "account_inv (ta_bank ta) ra rl others (lending_account a', b')"
  using assms(1)
proof (cases rule: repay_cases)
  case (1 b1 i m la b2 b3)
  have "account_inv (ta_bank ta) ra rl others (la, b2)"
    using repay_tokens_inv [OF 1(4) fx n index_of_find [OF 1(3)]] inv_accrue [OF 1(2) [unfolded fx] inv]
    by simp
  then have "account_inv (ta_bank ta) ra rl others (la, b')"
    by (rule inv_cache [OF 1(6) inv_repayments_complete [OF 1(5)]])
  then show ?thesis using inv_sort 1(7) by simp
qed

lemma close_balance_inv:
  assumes "lending_account_close_balance env ta g (a, b) = Inr (a', b')" and fx: "e_fx env = fx"
    and inv: "account_inv (ta_bank ta) ra rl others (lending_account a, b)"
  shows "account_inv (ta_bank ta) ra rl others (lending_account a', b')"
  using assms(1)
proof (cases rule: close_balance_cases)
  case (1 b1 b2 i la)
  note 1 = 1 [unfolded fx]
  have "account_inv (ta_bank ta) ra rl others (lending_account a, b2)"
    by (rule inv_cache [OF 1(2) inv_accrue [OF 1(1) inv]])
  then have "account_inv (ta_bank ta) ra rl others (la, b')" by (rule inv_close [OF 1(4) index_of_find [OF 1(3)]])
  then show ?thesis using inv_sort 1(5) by simp
qed

lemma purge_inv:
  assumes "lending_account_purge_delev_balance env ta g (a, b) = Inr (a', b')" and fx: "e_fx env = fx"
    and inv: "account_inv (ta_bank ta) ra rl others (lending_account a, b)"
  shows "account_inv (ta_bank ta) ra rl others (lending_account a', b')"
proof -
  obtain i la where i: "wrapper_find (ta_bank ta) (lending_account a) = Inr i"
    and r: "run_at i (purge_balance fx) (lending_account a) b = Inr (la, b')" and "a' = booked env la a"
    using assms(1) unfolding lending_account_purge_delev_balance_def prod.case fx by (auto elim!: bindE)
  then show ?thesis
    using purge.inv_kept_at [OF r [unfolded run_at_eq] index_of_find [OF i] inv] inv_sort by simp
qed

lemma settle_and_pay_inv:
  assumes "settle_and_pay env pk ea (a, b) = Inr (a', b', ts)" and fx: "e_fx env = fx"
    and inv: "account_inv pk ra rl others (lending_account a, b)"
  shows "account_inv pk ra rl others (lending_account a', b')"
proof -
  obtain i n la where i: "wrapper_find pk (lending_account a) = Inr i"
    and r: "at_balance i (settle_emissions_and_get_transfer_amount fx (e_now env)) (lending_account a, b)
      = Inr (n, la, b')" and "lending_account a' = la"
    using assms(1) unfolding settle_and_pay_def prod.case fx Let_def
    by (auto elim!: bindE split: if_splits)
  then show ?thesis using inv_settle [OF r index_of_find [OF i] inv] by simp
qed

lemma settle_inv:
  assumes "lending_account_settle_emissions env pk (a, b) = Inr (a', b')" and fx: "e_fx env = fx"
    and inv: "account_inv pk ra rl others (lending_account a, b)"
  shows "account_inv pk ra rl others (lending_account a', b')"
proof -
  obtain i la where i: "wrapper_find pk (lending_account a) = Inr i"
    and r: "run_at i (claim_emissions fx (as_u64 (e_now env))) (lending_account a) b = Inr (la, b')"
    and "lending_account a' = la"
    using assms(1) unfolding lending_account_settle_emissions_def prod.case fx by (auto elim!: bindE)
  then show ?thesis using inv_claim [OF r index_of_find [OF i] inv] by simp
qed

end

end
