(* ===== verification/LiquidateFacts.thy ===== *)
theory LiquidateFacts
  imports TokenFacts
begin

text \<open>
  What a liquidation and a bankruptcy do: the amounts of a liquidation, and that both keep the
  ledgers of the accounts and banks they change.
\<close>

section \<open>Moves\<close>

text \<open>
  A change of one account and one bank that keeps the ledger whatever the other accounts hold, the
  slots, and the balances with other banks.
\<close>

definition ledger_move :: "pubkey \<Rightarrow> LendingAccount \<times> Bank \<Rightarrow> LendingAccount \<times> Bank \<Rightarrow> bool" where
  "ledger_move pk s s' \<longleftrightarrow>
     (\<forall>ra rl others. account_inv pk ra rl others s \<longrightarrow> account_inv pk ra rl others s')"

lemma ledger_moveI:
  "(\<And>ra rl others. account_inv pk ra rl others s \<Longrightarrow> account_inv pk ra rl others s') \<Longrightarrow>
   ledger_move pk s s'"
  by (simp add: ledger_move_def)

lemma ledger_moveD:
  "ledger_move pk s s' \<Longrightarrow> account_inv pk ra rl others s \<Longrightarrow> account_inv pk ra rl others s'"
  by (simp add: ledger_move_def)

lemma ledger_move_refl: "ledger_move pk s s"
  by (simp add: ledger_move_def)

lemma ledger_move_trans: "ledger_move pk s s' \<Longrightarrow> ledger_move pk s' s'' \<Longrightarrow> ledger_move pk s s''"
  by (simp add: ledger_move_def)

section \<open>The amounts of a liquidation\<close>

lemma div_times_le: "0 < b \<Longrightarrow> a div b * b \<le> (a :: int)"
  using pos_mod_sign [of b a] div_mult_mod_eq [of a b] by linarith

lemma exp_10_index_pos: "exp_10_index d = Inr s \<Longrightarrow> s = 10 ^ d * ONE"
  by (auto simp: exp_10_index_def exp_10_get_def split: if_splits)

context fixed_arith
begin

lemma ZERO_AMOUNT_THRESHOLD_nonneg: "0 \<le> ZERO_AMOUNT_THRESHOLD fx"
  using decimal_near [of 1 4] by (simp add: ZERO_AMOUNT_THRESHOLD_def ONE_def abs_if split: if_splits)

text \<open>A value, and an amount of a value, are rounded down.\<close>

lemma calc_value_floor:
  assumes "calc_value fx a p d (Some w) = Inr v" and "0 \<le> a" "0 \<le> p" "0 \<le> w"
  shows "0 \<le> v" and "v * 10 ^ d * (ONE * ONE) \<le> a * w * p"
proof -
  have "0 \<le> v \<and> v * 10 ^ d * (ONE * ONE) \<le> a * w * p"
  proof (cases "a = 0")
    case False
    then obtain s x y where s: "s = 10 ^ d * ONE" and x: "checked_mul fx a w = Some x"
      and y: "checked_mul fx x p = Some y" and v: "checked_div fx y s = Some v"
      using assms(1) exp_10_index_pos by (auto simp: calc_value_def bindR_eq_Inr res_simps)
    have xx: "x = a * w div ONE" "0 \<le> x" using mul_SomeD [OF x] assms(2,4) by simp_all
    have yy: "y = x * p div ONE" "0 \<le> y" using mul_SomeD [OF y] xx(2) assms(3) by simp_all
    have vv: "v = y * ONE div s" "0 \<le> v" using div_SomeD [OF v yy(2)] by (simp_all add: s)
    have "v * s \<le> y * ONE" unfolding vv(1) using s by (simp add: div_times_le)
    also have "\<dots> \<le> x * p" unfolding yy(1) by (simp add: div_times_le)
    finally have "v * s * ONE \<le> x * p * ONE" by (simp add: mult_right_mono)
    also have "\<dots> = x * ONE * p" by simp
    also have "\<dots> \<le> a * w * p"
      unfolding xx(1) using assms(3) by (intro mult_right_mono) (simp_all add: div_times_le)
    finally show ?thesis using vv(2) by (simp add: s algebra_simps)
  qed (use assms in \<open>simp add: calc_value_def\<close>)
  then show "0 \<le> v" "v * 10 ^ d * (ONE * ONE) \<le> a * w * p" by simp_all
qed

lemma calc_amount_floor:
  assumes "calc_amount fx v p d = Inr a" and "0 \<le> v" "0 < p"
  shows "0 \<le> a" and "a * p \<le> v * 10 ^ d * ONE" and "in_fx a"
proof -
  obtain s x where s: "s = 10 ^ d * ONE" and x: "checked_mul fx v s = Some x"
    and a: "checked_div fx x p = Some a"
    using assms(1) exp_10_index_pos by (auto simp: calc_amount_def bindR_eq_Inr res_simps)
  have xx: "x = v * s div ONE" "0 \<le> x" using mul_SomeD [OF x assms(2)] by (simp_all add: s)
  have aa: "a = x * ONE div p" "0 \<le> a" "in_fx a" using div_SomeD [OF a xx(2) assms(3)] by blast+
  have "a * p \<le> x * ONE" unfolding aa(1) using assms(3) by (simp add: div_times_le)
  also have "\<dots> = v * 10 ^ d * ONE" unfolding xx(1) s by simp
  finally show "0 \<le> a" "a * p \<le> v * 10 ^ d * ONE" "in_fx a" using aa(2,3) by simp_all
qed

lemma liq_fees:
  "0 \<le> LIQUIDATION_LIQUIDATOR_FEE fx" "0 \<le> LIQUIDATION_INSURANCE_FEE fx"
  "LIQUIDATION_LIQUIDATOR_FEE fx \<le> ONE div 4" "LIQUIDATION_INSURANCE_FEE fx \<le> ONE div 4"
  using decimal_near [of 25 3]
  by (simp_all add: LIQUIDATION_LIQUIDATOR_FEE_def LIQUIDATION_INSURANCE_FEE_def ONE_def abs_if split: if_splits)

text \<open>What is paid for the collateral is worth no more than the collateral at its discount.\<close>

lemma liab_tokens_floor:
  assumes "liab_tokens fx n pa pl w ab lb = Inr t" and "0 \<le> n" "0 < pa" "0 < pl" "0 \<le> w"
  shows "0 \<le> t" and "in_fx t"
    and "t * pl * 10 ^ get_balance_decimals ab * ONE \<le> n * w * pa * 10 ^ get_balance_decimals lb"
proof -
  obtain v where v: "calc_value fx n pa (get_balance_decimals ab) (Some w) = Inr v"
    and t: "calc_amount fx v pl (get_balance_decimals lb) = Inr t"
    using assms(1) by (auto simp: liab_tokens_def bindR_eq_Inr)
  let ?a = "10 ^ get_balance_decimals ab :: int" and ?l = "10 ^ get_balance_decimals lb :: int"
  note vv = calc_value_floor [OF v assms(2) less_imp_le [OF assms(3)] assms(5)]
  note tt = calc_amount_floor [OF t vv(1) assms(4)]
  show "0 \<le> t" "in_fx t" by (rule tt(1) tt(3))+
  have "t * pl * (?a * ONE * ONE) \<le> v * ?l * ONE * (?a * ONE * ONE)"
    using tt(2) by (intro mult_right_mono) simp_all
  also have "\<dots> = v * ?a * (ONE * ONE) * (?l * ONE)" by simp
  also have "\<dots> \<le> n * w * pa * (?l * ONE)" using vv(2) by (intro mult_right_mono) simp_all
  finally have "t * pl * ?a * ONE * ONE \<le> n * w * pa * ?l * ONE" by (simp add: mult_ac)
  then show "t * pl * ?a * ONE \<le> n * w * pa * ?l" by (rule mult_right_le_imp_le) simp
qed

lemma liq_amounts_facts:
  assumes "liq_amounts fx n pa pl ab lb = Inr (paid, received, fee)" and "0 \<le> n" "0 < pa" "0 < pl"
  shows "0 \<le> received" and "fee = paid - received" and "0 \<le> fee"
    and "paid * pl * 10 ^ get_balance_decimals ab * ONE
      \<le> n * (ONE - LIQUIDATION_LIQUIDATOR_FEE fx) * pa * 10 ^ get_balance_decimals lb"
    and "received * pl * 10 ^ get_balance_decimals ab * ONE
      \<le> n * (ONE - LIQUIDATION_LIQUIDATOR_FEE fx - LIQUIDATION_INSURANCE_FEE fx) * pa
        * 10 ^ get_balance_decimals lb"
proof -
  let ?i = "LIQUIDATION_INSURANCE_FEE fx" and ?q = "LIQUIDATION_LIQUIDATOR_FEE fx"
  have b: "0 \<le> ?i" "0 \<le> ?q" "?i \<le> ONE div 4" "?q \<le> ONE div 4" by (rule liq_fees)+
  have r: "in_fx (?i + ?q)" "in_fx (ONE - (?i + ?q))" "in_fx (ONE - ?q)"
    using b by (auto simp: in_fx_def ONE_def fx_limit_def)
  note ops = plus [OF r(1)] minus [OF r(2)] minus [OF r(3)]
  obtain p: "liab_tokens fx n pa pl (ONE - ?q) ab lb = Inr paid"
    and f: "liab_tokens fx n pa pl (ONE - (?i + ?q)) ab lb = Inr received"
    and d: "op_sub fx paid received = Some fee" and nn: "0 \<le> fee"
    using assms(1) by (auto simp: liq_amounts_def ops bindR_eq_Inr res_simps split: if_splits)
  have w: "0 \<le> ONE - ?q" "0 \<le> ONE - (?i + ?q)" using b by (simp_all add: ONE_def)
  note pp = liab_tokens_floor [OF p assms(2-4) w(1)]
  note ff = liab_tokens_floor [OF f assms(2-4) w(2)]
  show "fee = paid - received" using minus [OF in_fx_diff [OF pp(2) ff(2) pp(1) ff(1)]] d by simp
  show "0 \<le> received" by (rule ff(1))
  show "0 \<le> fee" by (rule nn)
  show "paid * pl * 10 ^ get_balance_decimals ab * ONE \<le> n * (ONE - ?q) * pa * 10 ^ get_balance_decimals lb"
    by (rule pp(3))
  have "ONE - (?i + ?q) = ONE - ?q - ?i" by simp
  from ff(3) [unfolded this] show "received * pl * 10 ^ get_balance_decimals ab * ONE
      \<le> n * (ONE - ?q - ?i) * pa * 10 ^ get_balance_decimals lb"
    .
qed

section \<open>The books of a liquidation\<close>

lemma liab_measured_run: "liab_measured fx i f la b = Inr s \<Longrightarrow> run_at i f la b = Inr s"
  by (cases s) (auto simp: liab_measured_def bindR_eq_Inr)

lemma asset_measured_run: "asset_measured fx m i f la b = Inr s \<Longrightarrow> run_at i f la b = Inr s"
  by (cases s) (auto simp: asset_measured_def bindR_eq_Inr)

lemma move_decrease:
  "run_at i (decrease_balance_internal fx now d ty') la b = Inr (la', b') \<Longrightarrow> index_of pk la i \<Longrightarrow>
   0 \<le> d \<Longrightarrow> ledger_move pk (la, b) (la', b')"
  by (rule ledger_moveI) (rule inv_decrease)

lemma move_increase:
  "run_at i (increase_balance_internal fx now d ty) la b = Inr (la', b') \<Longrightarrow> index_of pk la i \<Longrightarrow>
   0 \<le> d \<Longrightarrow> ledger_move pk (la, b) (la', b')"
  by (rule ledger_moveI) (rule inv_increase)

lemma move_open: "find_or_create now pk b la = Inr (i, la') \<Longrightarrow> ledger_move pk (la, b) (la', b)"
  by (rule ledger_moveI) (rule inv_open)

text \<open>The books of a liquidation are four moves, one after the other.\<close>

lemma liq_books_moves:
  assumes "liq_books fx now pa pl n (paid, received, fee) (tor, tee, ab, lb) = Inr (m, tor', tee', ab', lb')"
    and "0 \<le> paid" "0 \<le> n" "0 \<le> received"
  obtains tor1 lb1 tee1 ab1 where
    "ledger_move pl (tor, lb) (tor1, lb1)" "ledger_move pa (tee, ab) (tee1, ab1)"
    "ledger_move pa (tor1, ab1) (tor', ab')" "ledger_move pl (tee1, lb1) (tee', lb')"
proof -
  obtain i t1 tor1 lb1 j tee1 ab1 k t2 l where
    c: "find_or_create now pl lb tor = Inr (i, t1)"
      "liab_measured fx i (withdraw_ignore_borrow_cap fx now paid) t1 lb = Inr (tor1, lb1)"
      "wrapper_find pa tee = Inr j"
      "asset_measured fx (Some n) j (withdraw_ignore_borrow_cap fx now n) tee ab = Inr (tee1, ab1)"
      "find_or_create now pa ab1 tor1 = Inr (k, t2)"
      "asset_measured fx None k (deposit_ignore_deposit_cap fx now n) t2 ab1 = Inr (tor', ab')"
      "wrapper_find pl tee1 = Inr l"
      "liab_measured fx l (repay fx now received) tee1 lb1 = Inr (tee', lb')"
    using assms(1) unfolding liq_books_def prod.case by (auto elim!: bindE)
  note runs = liab_measured_run [OF c(2)] asset_measured_run [OF c(4)] asset_measured_run [OF c(6)]
    liab_measured_run [OF c(8)]
  show thesis
  proof (rule that)
    show "ledger_move pl (tor, lb) (tor1, lb1)"
      using ledger_move_trans [OF move_open [OF c(1)] move_decrease [OF runs(1) [unfolded
            withdraw_ignore_borrow_cap_def] index_of_created [OF c(1)] assms(2)]] .
    show "ledger_move pa (tee, ab) (tee1, ab1)"
      using move_decrease [OF runs(2) [unfolded withdraw_ignore_borrow_cap_def] index_of_find [OF c(3)]
          assms(3)] .
    show "ledger_move pa (tor1, ab1) (tor', ab')"
      using ledger_move_trans [OF move_open [OF c(5)] move_increase [OF runs(3) [unfolded
            deposit_ignore_deposit_cap_def] index_of_created [OF c(5)] assms(3)]] .
    show "ledger_move pl (tee1, lb1) (tee', lb')"
      using move_increase [OF runs(4) [unfolded repay_def] index_of_find [OF c(7)] assms(4)] .
  qed
qed

lemma move_accrue: "accrue_interest fx now g b = Inr b' \<Longrightarrow> ledger_move pk (la, b) (la, b')"
  by (rule ledger_moveI) (rule inv_accrue)

lemma move_sort: "ledger_move pk (la, b) (sort_balances la, b)"
  by (rule ledger_moveI) (rule inv_sort)

lemma move_finish:
  assumes "liq_finish_banks env g fee pa pl ab lb = Inr (ab', lb')" and fx: "e_fx env = fx"
  shows "ledger_move q (tee, ab) (tee, ab')" and "ledger_move q (tee, lb) (tee, lb')"
proof -
  obtain f ab1 lb1 where
    f: "checked_add fx (collected_insurance_fees_outstanding lb) (fee mod ONE) = Some f"
    and u: "update_bank_cache fx (e_now env) g ab = Inr ab1"
      "update_bank_cache fx (e_now env) g (lb\<lparr>collected_insurance_fees_outstanding := f\<rparr>) = Inr lb1"
    and r: "ab' = update_cache_price (e_now env) pa ab1" "lb' = update_cache_price (e_now env) pl lb1"
    using assms(1) unfolding liq_finish_banks_def fx by (auto simp: bindR_eq_Inr res_simps)
  show "ledger_move q (tee, ab) (tee, ab')"
    unfolding r by (intro ledger_moveI inv_price inv_cache [OF u(1)])
  show "ledger_move q (tee, lb) (tee, lb')"
    unfolding r
  proof (intro ledger_moveI inv_price inv_cache [OF u(2)])
    fix ra rl others
    assume i: "account_inv q ra rl others (tee, lb)"
    moreover have "0 \<le> f" using add_SomeD [OF f] inv_bank_ok [OF i] by (simp add: bank_ok_def)
    ultimately show "account_inv q ra rl others (tee, lb\<lparr>collected_insurance_fees_outstanding := f\<rparr>)"
      by (auto intro: inv_same_totals simp: account_inv_def ledger_def bank_ok_def)
  qed
qed

end

text \<open>What a successful liquidation did.\<close>

lemma liquidate_cases:
  assumes "lending_account_liquidate env lq g ais n k1 k2 (tor, tee, ab, lb) = Inr ((tor', tee', ab', lb'), t)"
  obtains mint_ai ais1 ab1 lb1 start pre_health pa pl v asset_price liab_price amounts m tor_la tee_la
    ab2 lb2 tor_start tor_ais where
    "liq_constraints env lq g (tor, tee, ab, lb) = Inr ()"
    "liq_guards lq n (tor, tee, ab, lb) = Inr ()"
    "maybe_take_bank_mint (e_parse_mint env) ais lb (lq_token_program lq) = Inr (mint_ai, ais1)"
    "accrue_interest (e_fx env) (e_now env) g ab = Inr ab1"
    "accrue_interest (e_fx env) (e_now env) g lb = Inr lb1"
    "pre_liquidation env lq (tee\<lparr>lending_account := sort_balances (lending_account tee)\<rparr>)
       (drop start ais1) ab1 lb1 = Inr (pre_health, pa, pl)"
    "amount_num env n = Inr v"
    "liq_prices env lq ais1 ab1 lb1 = Inr (asset_price, liab_price)"
    "liq_amounts (e_fx env) v asset_price liab_price ab1 lb1 = Inr amounts"
    "liq_books (e_fx env) (e_now env) (lq_asset_bank lq) (lq_liab_bank lq) v amounts
       (lending_account tor, sort_balances (lending_account tee), ab1, lb1)
       = Inr (m, tor_la, tee_la, ab2, lb2)"
    "liq_finish_banks env g (snd (snd amounts)) pa pl ab2 lb2 = Inr (ab', lb')"
    "slice tor_start start ais1 = Inr tor_ais"
    "liq_final_checks env lq pre_health tor_ais (drop start ais1) (tor', tee', ab', lb') = Inr ()"
    "tor' = booked env tor_la tor"
    "tee' = tee\<lparr>lending_account := tee_la, acc_last_update := as_u64 (e_now env)\<rparr>"
    "t = withdraw_spl_transfer m (lq_liquidity_vault lq) (lq_insurance_vault lq) (lq_vault_authority lq)"
  using assms unfolding lending_account_liquidate_def prod.case Let_def
  by (elim bindE) (rule that, (assumption | simp)+)

context fixed_arith
begin

lemma liq_prices_pos: "liq_prices env lq ais ab lb = Inr (pa, pl) \<Longrightarrow> 0 < pa \<and> 0 < pl"
  unfolding liq_prices_def by (auto simp: bindR_eq_Inr check_def split: if_splits)

text \<open>A liquidation is four moves between the two accounts and the two banks.\<close>

lemma liquidate_moves:
  assumes "lending_account_liquidate env lq g ais n k1 k2 (tor, tee, ab, lb) = Inr ((tor', tee', ab', lb'), t)"
    and fx: "e_fx env = fx" and n: "n \<le> u64_max"
  obtains tor1 lb1 tee1 ab1 where
    "ledger_move (lq_liab_bank lq) (lending_account tor, lb) (tor1, lb1)"
    "ledger_move (lq_asset_bank lq) (lending_account tee, ab) (tee1, ab1)"
    "ledger_move (lq_asset_bank lq) (tor1, ab1) (lending_account tor', ab')"
    "ledger_move (lq_liab_bank lq) (tee1, lb1) (lending_account tee', lb')"
  using assms(1)
proof (cases rule: liquidate_cases)
  case (1 mint_ai ais1 ab0 lb0 start pre_health pa pl v asset_price liab_price amounts m tor_la tee_la
      ab2 lb2 tor_start tor_ais)
  note 1 = 1 [unfolded fx]
  obtain paid received fee where am: "amounts = (paid, received, fee)" by (cases amounts)
  have v: "0 \<le> v" using amount_num_eq [OF 1(7) fx n] by simp
  note p = liq_prices_pos [OF 1(8)]
  note a = liq_amounts_facts [OF 1(9) [unfolded am] v] p
  have a': "0 \<le> received" "0 \<le> paid" using a by auto
  obtain tor1 lb1 tee1 ab1 where
    m: "ledger_move (lq_liab_bank lq) (lending_account tor, lb0) (tor1, lb1)"
      "ledger_move (lq_asset_bank lq) (sort_balances (lending_account tee), ab0) (tee1, ab1)"
      "ledger_move (lq_asset_bank lq) (tor1, ab1) (tor_la, ab2)"
      "ledger_move (lq_liab_bank lq) (tee1, lb1) (tee_la, lb2)"
    by (rule liq_books_moves [OF 1(10) [unfolded am] a'(2) v a'(1)])
  note f = move_finish [OF 1(11) fx]
  show thesis
  proof (rule that)
    show "ledger_move (lq_liab_bank lq) (lending_account tor, lb) (tor1, lb1)"
      using ledger_move_trans [OF move_accrue [OF 1(5)] m(1)] .
    show "ledger_move (lq_asset_bank lq) (lending_account tee, ab) (tee1, ab1)"
      using ledger_move_trans [OF move_accrue [OF 1(4)] ledger_move_trans [OF move_sort m(2)]] .
    show "ledger_move (lq_asset_bank lq) (tor1, ab1) (lending_account tor', ab')"
      unfolding 1(14) booked_simps
      using ledger_move_trans [OF m(3) ledger_move_trans [OF f(1) move_sort]] .
    show "ledger_move (lq_liab_bank lq) (tee1, lb1) (lending_account tee', lb')"
      using ledger_move_trans [OF m(4) f(2)] by (simp add: 1(15))
  qed
qed

section \<open>Bankruptcy\<close>

end

lemma bad_debt_cases:
  assumes "settle_bad_debt env bk mint_ai la b = Inr (t, killed, la', b')"
  obtains bal bad_debt available fund covered loss c n gross b1 i where
    "get_balance la (bk_bank bk) = Some bal"
    "get_liability_amount (e_fx env) b (liability_shares bal) = Inr bad_debt"
    "ZERO_AMOUNT_THRESHOLD (e_fx env) < bad_debt"
    "post_fee mint_ai (bk_insurance_amount bk) (clock_epoch (e_clock env)) = Inr available"
    "amount_num env available = Inr fund"
    "split_bad_debt (e_fx env) bad_debt fund = Inr (covered, loss)"
    "checked_ceil (e_fx env) covered = Some c"
    "checked_to_u64 (e_fx env) c = Some n"
    "pre_fee mint_ai n (clock_epoch (e_clock env)) = Inr gross"
    "socialize_loss (e_fx env) loss b = Inr (b1, killed)"
    "wrapper_find (bk_bank bk) la = Inr i"
    "run_at i (repay (e_fx env) (e_now env) bad_debt) la b1 = Inr (la', b')"
    "t = withdraw_spl_transfer gross (bk_insurance_vault bk) (bk_liquidity_vault bk)
       (bk_insurance_vault_authority bk)"
  using assms unfolding settle_bad_debt_def
  by (elim bindE) (rule that, (assumption | simp add: res_simps check_def split: if_splits)+)

context fixed_arith
begin

lemma bad_debt_inv:
  assumes "settle_bad_debt env bk mint_ai la b = Inr (t, killed, la', b')" and fx: "e_fx env = fx"
    and inv: "account_inv (bk_bank bk) ra rl others (la, b)"
  shows "account_inv (bk_bank bk) ra rl others (la', b')"
  using assms(1)
proof (cases rule: bad_debt_cases)
  case (1 bal bad_debt available fund covered loss c n gross b1 i)
  note 1 = 1 [unfolded fx]
  have ok: "bank_ok b" by (rule inv_bank_ok [OF inv])
  have "0 \<le> loss" using 1(6) by (auto simp: split_bad_debt_def Let_def bindR_eq_Inr)
  note sv = socialize_loss_value(4) [OF 1(10) ok this] and fr = socialize_loss_frame [OF 1(10)]
  have "bank_ok (b\<lparr>asset_share_value := asset_share_value b1\<rparr>)" using ok sv by (simp add: bank_ok_def)
  with fr have "bank_ok b1" by metis
  moreover have "total_asset_shares b1 = total_asset_shares b"
    "total_liability_shares b1 = total_liability_shares b" by (subst fr, simp)+
  ultimately have "account_inv (bk_bank bk) ra rl others (la, b1)" by (rule inv_same_totals [OF inv])
  moreover have "0 \<le> bad_debt" using 1(3) ZERO_AMOUNT_THRESHOLD_nonneg by linarith
  ultimately show ?thesis
    using inv_increase [OF 1(12) [unfolded repay_def] index_of_find [OF 1(11)]] by simp
qed

end

lemma bankruptcy_cases:
  assumes "lending_pool_handle_bankruptcy env bk g ais (a, b) = Inr (a', b', t)"
  obtains mint_ai ais1 hc price b1 killed la b2 b3 where
    "bankruptcy_constraints env bk g a b = Inr ()"
    "maybe_take_bank_mint (e_parse_mint env) ais b (bk_token_program bk) = Inr (mint_ai, ais1)"
    "bankruptcy_verdict env (bk_bank bk) a b ais1 = Inr (hc, price)"
    "accrue_interest (e_fx env) (e_now env) g b = Inr b1"
    "settle_bad_debt env bk mint_ai (lending_account a) b1 = Inr (t, killed, la, b2)"
    "update_bank_cache (e_fx env) (e_now env) g b2 = Inr b3"
    "b' = (if killed then (update_cache_price (e_now env) price b3)\<lparr>config := (config
       (update_cache_price (e_now env) price b3))\<lparr>operational_state := KilledByBankruptcy\<rparr>\<rparr>
       else update_cache_price (e_now env) price b3)"
    "a' = acc_set_flag ACCOUNT_DISABLED
       (a\<lparr>lending_account := la, health_cache := hc, acc_last_update := as_u64 (e_now env)\<rparr>)"
  using assms unfolding lending_pool_handle_bankruptcy_def prod.case Let_def
  by (elim bindE) (rule that, (assumption | simp)+)

context fixed_arith
begin

lemma bankruptcy_inv:
  assumes "lending_pool_handle_bankruptcy env bk g ais (a, b) = Inr (a', b', t)" and fx: "e_fx env = fx"
    and inv: "account_inv (bk_bank bk) ra rl others (lending_account a, b)"
  shows "account_inv (bk_bank bk) ra rl others (lending_account a', b')"
  using assms(1)
proof (cases rule: bankruptcy_cases)
  case (1 mint_ai ais1 hc price b1 killed la b2 b3)
  note 1 = 1 [unfolded fx]
  have "account_inv (bk_bank bk) ra rl others (la, b2)"
    by (rule bad_debt_inv [OF 1(5) fx inv_accrue [OF 1(4) inv]])
  then have i: "account_inv (bk_bank bk) ra rl others (la, update_cache_price (e_now env) price b3)"
    by (intro inv_price inv_cache [OF 1(6)])
  then have "account_inv (bk_bank bk) ra rl others (la, b')"
    by (rule inv_same_totals) (use inv_bank_ok [OF i] in \<open>simp_all add: 1(7) bank_ok_def\<close>)
  then show ?thesis by (simp add: 1(8) acc_set_flag_def)
qed

end

end
