(* ===== verification/Flashloan.thy ===== *)
theory Flashloan
  imports RiskEngine IxUtils
begin

text \<open>
  Flash loans (\<open>instructions/marginfi_account/flashloan.rs\<close>). Starting one sets a flag on the
  account that suspends its health checks; the start succeeds only at the top level of a transaction
  that holds a matching end instruction later on, and the end clears the flag and checks the health.
  The account constraints of the instructions are their first lines. Whole transactions with flash
  loans are in \<open>FlashloanTx\<close>.
\<close>

section \<open>The handlers\<close>

definition check_flashloan_can_start ::
  "pubkey \<Rightarrow> pubkey \<Rightarrow> MarginfiAccount \<Rightarrow> tx_context \<Rightarrow> nat \<Rightarrow> unit res" where
  "check_flashloan_can_start mrgn_id account_key a tx end_fl_idx =
     bindR (validate_not_cpi_with_sysvar mrgn_id tx) (\<lambda>current_ix_idx.
     bindR (check (current_ix_idx < end_fl_idx) IllegalFlashloan) (\<lambda>_.
     bindR (validate_not_cpi_by_stack_height tx) (\<lambda>_.
     bindR (instruction_at tx end_fl_idx) (\<lambda>end_fl_ix.
     if length (ix_data end_fl_ix) < 8 then Inl Panic
     else if discrim end_fl_ix \<noteq> END_FLASHLOAN then Inl (Err IllegalFlashloan)
     else bindR (check (program_id end_fl_ix = mrgn_id) IllegalFlashloan) (\<lambda>_.
     bindR (if ix_accounts end_fl_ix = [] then Inl (Err IllegalFlashloan)
            else Inr (ix_accounts end_fl_ix ! 0)) (\<lambda>end_fl_marginfi_account.
     bindR (check (am_pubkey end_fl_marginfi_account = account_key) IllegalFlashloan) (\<lambda>_.
     bindR (check (\<not> acc_get_flag a ACCOUNT_DISABLED) AccountDisabled) (\<lambda>_.
     bindR (check (\<not> acc_get_flag a ACCOUNT_IN_FLASHLOAN) IllegalFlashloan) (\<lambda>_.
     bindR (check (\<not> acc_get_flag a ACCOUNT_IN_RECEIVERSHIP) ForbiddenIx) (\<lambda>_.
     check (\<not> acc_get_flag a ACCOUNT_FROZEN) AccountFrozen))))))))))"

definition lending_account_start_flashloan ::
  "pubkey \<Rightarrow> pubkey \<Rightarrow> pubkey \<Rightarrow> MarginfiAccount \<Rightarrow> tx_context \<Rightarrow> u64 \<Rightarrow> MarginfiAccount res" where
  "lending_account_start_flashloan mrgn_id signer account_key a tx end_index =
     bindR (check (authority a = signer) Unauthorized) (\<lambda>_.
     bindR (check_flashloan_can_start mrgn_id account_key a tx end_index) (\<lambda>_.
     Inr (acc_set_flag ACCOUNT_IN_FLASHLOAN a)))"

text \<open>The risk check is a parameter here: \<open>check_account_init_health\<close> without a health cache.\<close>

definition lending_account_end_flashloan ::
  "pubkey \<Rightarrow> MarginfiAccount \<Rightarrow> tx_context \<Rightarrow> (MarginfiAccount \<Rightarrow> unit res) \<Rightarrow> MarginfiAccount res" where
  "lending_account_end_flashloan signer a tx init_health =
     bindR (check (authority a = signer) Unauthorized) (\<lambda>_.
     bindR (validate_not_cpi_by_stack_height tx) (\<lambda>_.
     bindR (check (\<not> acc_get_flag a ACCOUNT_DISABLED) AccountDisabled) (\<lambda>_.
     bindR (check (\<not> acc_get_flag a ACCOUNT_IN_RECEIVERSHIP) ForbiddenIx) (\<lambda>_.
     bindR (check (\<not> acc_get_flag a ACCOUNT_FROZEN) AccountFrozen) (\<lambda>_.
     let a' = acc_unset_flag ACCOUNT_IN_FLASHLOAN a
     in bindR (init_health a') (\<lambda>_. Inr a'))))))"

definition init_health_of ::
  "fixed_ops \<Rightarrow> oracle_lib \<Rightarrow> (AccountInfo \<Rightarrow> Bank res) \<Rightarrow> Clock \<Rightarrow> AccountInfo list
    \<Rightarrow> MarginfiAccount \<Rightarrow> unit res" where
  "init_health_of fx lib load_bank clock ais a =
     fst (check_account_init_health fx lib load_bank clock a ais None)"

section \<open>The instructions of a transaction\<close>

definition from_le :: "u8 list \<Rightarrow> nat" where
  "from_le bs = foldr (\<lambda>b acc. b + 256 * acc) bs 0"

fun to_le :: "nat \<Rightarrow> nat \<Rightarrow> u8 list" where
  "to_le 0 n = []"
| "to_le (Suc k) n = n mod 256 # to_le k (n div 256)"

definition in_flashloan :: "MarginfiAccount \<Rightarrow> bool" where
  "in_flashloan a = acc_get_flag a ACCOUNT_IN_FLASHLOAN"

definition is_end_for :: "pubkey \<Rightarrow> pubkey \<Rightarrow> Instruction \<Rightarrow> bool" where
  "is_end_for mrgn_id account_key ix \<longleftrightarrow> is_ix mrgn_id END_FLASHLOAN ix
     \<and> ix_accounts ix \<noteq> [] \<and> am_pubkey (ix_accounts ix ! 0) = account_key"

definition is_start_for :: "pubkey \<Rightarrow> pubkey \<Rightarrow> Instruction \<Rightarrow> bool" where
  "is_start_for mrgn_id account_key ix \<longleftrightarrow> is_ix mrgn_id START_FLASHLOAN ix
     \<and> ix_accounts ix \<noteq> [] \<and> am_pubkey (ix_accounts ix ! 0) = account_key"

definition top_level :: "Instruction list \<Rightarrow> nat \<Rightarrow> tx_context" where
  "top_level ixs i = \<lparr>current_index = Inr i, instruction_at = list_sysvar ixs,
     stack_height = TRANSACTION_LEVEL_STACK_HEIGHT\<rparr>"

definition ix_signer :: "Instruction \<Rightarrow> pubkey" where
  "ix_signer ix = (if 1 < length (ix_accounts ix) then am_pubkey (ix_accounts ix ! 1) else default_key)"

text \<open>An instruction that the one at index \<open>i\<close> calls: the current code runs deeper.\<close>

definition called :: "Instruction list \<Rightarrow> nat \<Rightarrow> nat \<Rightarrow> tx_context" where
  "called ixs i height = (top_level ixs i)\<lparr>stack_height := height\<rparr>"

section \<open>Facts\<close>

lemma check_True: "check c e = Inr () \<longleftrightarrow> c"
  by (simp add: check_def)

lemma can_start_ends:
  assumes "check_flashloan_can_start mrgn_id key a (top_level ixs i) j = Inr ()"
  shows "i < j \<and> j < length ixs \<and> is_end_for mrgn_id key (ixs ! j) \<and> \<not> in_flashloan a"
  using assms
  by (auto simp: check_flashloan_can_start_def validate_not_cpi_with_sysvar_def top_level_def
      list_sysvar_def is_end_for_def is_ix_def in_flashloan_def check_True
      elim!: bindR_InrE split: if_splits)

lemma start_not_end: "is_start_for mrgn_id key ix \<Longrightarrow> \<not> is_end_for mrgn_id key ix"
  by (simp add: is_start_for_def is_end_for_def is_ix_def START_FLASHLOAN_def END_FLASHLOAN_def)

lemma end_clears:
  assumes "lending_account_end_flashloan signer a tx h = Inr a'"
  shows "\<not> in_flashloan a' \<and> h a' = Inr () \<and> a' = acc_unset_flag ACCOUNT_IN_FLASHLOAN a"
proof -
  have "a' = acc_unset_flag ACCOUNT_IN_FLASHLOAN a" and "h a' = Inr ()"
    using assms by (auto simp: lending_account_end_flashloan_def Let_def elim!: bindR_InrE)
  moreover have "ACCOUNT_IN_FLASHLOAN \<noteq> 0" by (simp add: ACCOUNT_IN_FLASHLOAN_def)
  ultimately show ?thesis by (simp add: in_flashloan_def acc_flags.get_clear)
qed

lemma from_le_to_le: "n < 256 ^ k \<Longrightarrow> from_le (to_le k n) = n"
proof (induction k arbitrary: n)
  case 0
  then show ?case by (simp add: from_le_def)
next
  case (Suc k)
  then have "n div 256 < 256 ^ k" by (simp add: less_mult_imp_div_less mult.commute)
  then show ?case using Suc.IH by (simp add: from_le_def)
qed

lemma length_to_le [simp]: "length (to_le k n) = k"
  by (induction k arbitrary: n) auto

text \<open>What a passed health check means.\<close>

lemma init_health_ok:
  assumes "fixed_arith fx" and "init_health_of fx lib load_bank clock ais a = Inr ()" and "\<not> in_flashloan a"
  shows "\<exists>e. new_no_flashloan_check fx lib load_bank clock a ais = Inr e \<and> covered fx lib e"
proof -
  obtain e where e: "new_no_flashloan_check fx lib load_bank clock a ais = Inr e"
    and h: "fst (check_account_health fx lib Initial e None) = Inr ()"
    using assms(2,3)
    by (auto simp: init_health_of_def check_account_init_health_def in_flashloan_def
        split: sum.splits prod.splits)
  then show ?thesis using fixed_arith.check_account_health_sums [OF assms(1) h] engine_complete(2) [OF e]
    unfolding covered_def by blast
qed

end
