(* ===== verification/IntegrationIx.thy ===== *)
theory IntegrationIx
  imports TokenIx Flashloan
begin

text \<open>
  What the instructions for banks on other lending programs share (\<open>instructions/kamino\<close>,
  \<open>instructions/drift\<close>, \<open>instructions/solend\<close>). Such a bank lends nothing itself: its deposits
  are a position of the bank's vault authority in the other program, and a user's shares are units
  of that position.

  The other program, the token program and the accounts they own are the world \<open>'w\<close>. A record
  \<open>chain\<close> gives what the code does with it: calling another program, moving tokens, and reading
  accounts, which sees what the calls before it have written.
\<close>

section \<open>The world outside\<close>

text \<open>
  A call through the client that Anchor generates from another program's interface: the accounts
  by the name of their field, an account that is left out being \<open>None\<close>, then the remaining accounts
  and the arguments. The signer is the liquidity vault authority of a bank, by its seeds: the key of
  the bank and the bump.
\<close>

record Cpi =
  cpi_program :: pubkey
  cpi_instruction :: string
  cpi_accounts :: "(string \<times> pubkey option) list"
  cpi_remaining :: "pubkey list"
  cpi_args :: "nat list"
  cpi_signer :: "(pubkey \<times> u8) option"

record MinimalObligationCollateral =
  deposit_reserve :: pubkey
  deposited_amount :: u64

record MinimalObligation =
  ob_lending_market :: pubkey
  ob_owner :: pubkey
  ob_deposits :: "MinimalObligationCollateral list"

record 'w chain =
  ch_call :: "Cpi \<Rightarrow> 'w \<Rightarrow> 'w res"
  ch_call_ix :: "Instruction \<Rightarrow> (pubkey \<times> u8) option \<Rightarrow> 'w \<Rightarrow> 'w res"
  ch_transfer :: "Transfer \<Rightarrow> 'w \<Rightarrow> 'w res"
  ch_amount :: "pubkey \<Rightarrow> 'w \<Rightarrow> u64 res"
  ch_data :: "pubkey \<Rightarrow> 'w \<Rightarrow> (pubkey \<times> u8 list) res"
  ch_kamino_reserve :: "pubkey \<Rightarrow> 'w \<Rightarrow> MinimalReserve res"
  ch_kamino_obligation :: "pubkey \<Rightarrow> 'w \<Rightarrow> MinimalObligation res"
  ch_drift_market :: "pubkey \<Rightarrow> 'w \<Rightarrow> MinimalSpotMarket res"
  ch_drift_user :: "pubkey \<Rightarrow> 'w \<Rightarrow> MinimalUser res"
  ch_solend_reserve :: "pubkey \<Rightarrow> 'w \<Rightarrow> SolendMinimalReserve res"

text \<open>The keys of the programs, as numbers.\<close>

definition KAMINO_PROGRAM_ID :: pubkey where
  "KAMINO_PROGRAM_ID = 2124942046077977619906336156481515877251532675532436082254018260872906604552"
definition FARMS_PROGRAM_ID :: pubkey where
  "FARMS_PROGRAM_ID = 98010651435919942948570068443805090822610647434851588040656784992542379525889"
definition DRIFT_PROGRAM_ID :: pubkey where
  "DRIFT_PROGRAM_ID = 4220747412252779889918498273736849715321516614579133782826207725983797761014"
definition SOLEND_PROGRAM_ID :: pubkey where
  "SOLEND_PROGRAM_ID = 2988701836742930407773375347047256035246438894004861344960132585962058759916"

section \<open>Accounts and constraints\<close>

text \<open>
  The accounts that every such instruction has. \<open>in_user_tokens\<close> is the token account a deposit
  takes tokens from (\<open>signer_token_account\<close>) or a withdrawal sends them to
  (\<open>destination_token_account\<close>).
\<close>

record integration_accounts =
  in_group :: pubkey
  in_bank :: pubkey
  in_authority :: pubkey
  in_user_tokens :: pubkey
  in_liquidity_vault :: pubkey
  in_vault_authority :: pubkey
  in_mint :: pubkey
  in_acc_1 :: pubkey
  in_acc_2 :: pubkey

text \<open>The accounts as a part of the larger record of one instruction.\<close>

definition user_constraints ::
  "bool \<Rightarrow> ix_env \<Rightarrow> 'x integration_accounts_scheme \<Rightarrow> MarginfiGroup \<Rightarrow> MarginfiAccount \<Rightarrow> unit res" where
  "user_constraints allow_receivership env acc g a =
     bindR (not_paused g (e_now env)) (\<lambda>_.
     account_constraints allow_receivership (in_group acc) (in_authority acc) g a)"

text \<open>The \<open>has_one\<close> constraints of a bank up to its second integration account.\<close>

definition position_constraints ::
  "marginfi_error \<Rightarrow> marginfi_error \<Rightarrow> 'x integration_accounts_scheme \<Rightarrow> Bank \<Rightarrow> unit res" where
  "position_constraints err1 err2 acc b =
     bindR (bank_in_group (in_group acc) b) (\<lambda>_.
     bindR (check (liquidity_vault b = in_liquidity_vault acc) InvalidLiquidityVault) (\<lambda>_.
     bindR (check (integration_acc_1 b = in_acc_1 acc) err1) (\<lambda>_.
     check (integration_acc_2 b = in_acc_2 acc) err2)))"

definition mint_and_tag :: "(u8 \<Rightarrow> bool) \<Rightarrow> marginfi_error \<Rightarrow> pubkey \<Rightarrow> Bank \<Rightarrow> unit res" where
  "mint_and_tag is_tag err key b =
     bindR (check (mint b = key) InvalidMint) (\<lambda>_. check (is_tag (asset_tag (config b))) err)"

text \<open>Assets without weight cannot leave an account in receivership.\<close>

definition weight_constraint :: "MarginfiAccount \<Rightarrow> Bank \<Rightarrow> unit res" where
  "weight_constraint a b =
     check (\<not> (acc_get_flag a ACCOUNT_IN_RECEIVERSHIP \<and> asset_weight_init (config b) = 0))
       LiquidationPremiumTooHigh"

text \<open>A constraint on a result's \<open>is_ok()\<close>: its error is replaced, a panic is not.\<close>

definition require_ok :: "'a res \<Rightarrow> marginfi_error \<Rightarrow> unit res" where
  "require_ok r err = (case r of Inr _ \<Rightarrow> Inr () | Inl Panic \<Rightarrow> Inl Panic | Inl _ \<Rightarrow> Inl (Err err))"

section \<open>Amounts\<close>

text \<open>\<open>u64\<close> subtraction with overflow checks.\<close>

definition sub_u64 :: "u64 \<Rightarrow> u64 \<Rightarrow> u64 res" where
  "sub_u64 x y = unwrap (checked_sub_nat x y)"

definition assert_within_one_token :: "u64 \<Rightarrow> u64 \<Rightarrow> marginfi_error \<Rightarrow> unit res" where
  "assert_within_one_token actual expected err =
     (let diff = max actual expected - min actual expected
      in if diff > 1 then Inl (Err err) else Inr ())"

section \<open>The shared steps of deposits and withdrawals\<close>

definition deposit_ready :: "MarginfiAccount \<Rightarrow> Bank \<Rightarrow> unit res" where
  "deposit_ready a b =
     bindR (validate_asset_tags b a) (\<lambda>_.
     bindR (validate_bank_state b FailsIfPausedOrReduceState) (\<lambda>_.
     check (\<not> acc_get_flag a ACCOUNT_DISABLED \<and> \<not> acc_get_flag a ACCOUNT_IN_RECEIVERSHIP)
       AccountDisabled))"

definition withdraw_ready :: "MarginfiAccount \<Rightarrow> Bank \<Rightarrow> unit res" where
  "withdraw_ready a b =
     bindR (validate_bank_state b FailsInPausedState) (\<lambda>_.
     check (\<not> acc_get_flag a ACCOUNT_DISABLED) AccountDisabled)"

text \<open>The user's tokens go to the vault before the other program takes them from there, and back.\<close>

definition transfer_in :: "'x integration_accounts_scheme \<Rightarrow> u64 \<Rightarrow> Transfer" where
  "transfer_in acc amount = \<lparr>tr_from = in_user_tokens acc, tr_to = in_liquidity_vault acc,
     tr_authority = in_authority acc, tr_amount = amount\<rparr>"

definition transfer_out :: "'x integration_accounts_scheme \<Rightarrow> u64 \<Rightarrow> Transfer" where
  "transfer_out acc amount = \<lparr>tr_from = in_liquidity_vault acc, tr_to = in_user_tokens acc,
     tr_authority = in_vault_authority acc, tr_amount = amount\<rparr>"

text \<open>The signer seeds of the vault authority (\<open>bank_signer!\<close>).\<close>

definition vault_signer :: "'x integration_accounts_scheme \<Rightarrow> Bank \<Rightarrow> (pubkey \<times> u8) option" where
  "vault_signer acc b = Some (in_bank acc, liquidity_vault_authority_bump b)"

text \<open>The user is credited with the change of the position.\<close>

definition credit_position ::
  "ix_env \<Rightarrow> pubkey \<Rightarrow> MarginfiGroup \<Rightarrow> u64 \<Rightarrow> MarginfiAccount \<Rightarrow> Bank \<Rightarrow> (MarginfiAccount \<times> Bank) res" where
  "credit_position env bank_key g change a b =
     bindR (find_or_create (e_now env) bank_key b (lending_account a)) (\<lambda>(i, la).
     bindR (amount_num env change) (\<lambda>v.
     bindR (run_at i (deposit_no_repay (e_fx env) (e_now env) v) la b) (\<lambda>(la', b1).
     bindR (update_bank_cache (e_fx env) (e_now env) g b1) (\<lambda>b2.
     Inr (booked env la' a, b2)))))"

text \<open>In a deleverage the worth of what is withdrawn counts against the group's daily window.\<close>

definition track_deleverage ::
  "ix_env \<Rightarrow> MarginfiAccount \<Rightarrow> u64 \<Rightarrow> I80F48 \<Rightarrow> Bank \<Rightarrow> MarginfiGroup \<Rightarrow> MarginfiGroup res" where
  "track_deleverage env a n price b g =
     (if acc_get_flag a ACCOUNT_IN_DELEVERAGE
      then bindR (amount_num env n) (\<lambda>v.
           bindR (calc_value (e_fx env) v price (get_balance_decimals b) None) (\<lambda>equity.
           update_withdrawn_equity (e_fx env) equity (e_now env) g))
      else Inr g)"

text \<open>The state changes of a withdrawal of collateral tokens; there is no transfer fee on those.\<close>

definition withdraw_collateral ::
  "ix_env \<Rightarrow> pubkey \<Rightarrow> AccountInfo list \<Rightarrow> u64 \<Rightarrow> bool \<Rightarrow> MarginfiGroup \<Rightarrow> MarginfiAccount \<Rightarrow> Bank
    \<Rightarrow> (MarginfiGroup \<times> u64 \<times> LendingAccount \<times> Bank) res" where
  "withdraw_collateral env bank_key ais amount everything g a b =
     bindR (receivership_price env bank_key a b ais) (\<lambda>price.
     bindR (wrapper_find bank_key (lending_account a)) (\<lambda>i.
     bindR (withdraw_tokens env None amount everything i (lending_account a) b) (\<lambda>(n, la, b1).
     bindR (track_deleverage env a n price b1 g) (\<lambda>g1.
     Inr (g1, n, la, b1)))))"

text \<open>The end of a withdrawal: balances sorted, health checked outside receivership, price cached.\<close>

definition withdraw_finish ::
  "ix_env \<Rightarrow> pubkey \<Rightarrow> AccountInfo list \<Rightarrow> LendingAccount \<Rightarrow> MarginfiAccount \<Rightarrow> Bank
    \<Rightarrow> (MarginfiAccount \<times> Bank) res" where
  "withdraw_finish env bank_key ais la a b =
     bindR (withdraw_health env bank_key b (booked env la a) ais) (\<lambda>(a', price).
     Inr (a', update_cache_price (e_now env) price b))"

end
