(* ===== verification/KaminoIx.thy ===== *)
theory KaminoIx
  imports IntegrationIx
begin

text \<open>
  Banks on Kamino (\<open>instructions/kamino/\<close>): deposits, withdrawals, opening the obligation of a bank
  and collecting its farming rewards. A share of such a bank is a collateral token of the Kamino
  reserve that the bank's obligation holds.
\<close>

section \<open>Accounts\<close>

text \<open>
  \<open>ka_reserve_collateral\<close> is the reserve's token account for collateral
  (\<open>reserve_destination_deposit_collateral\<close> in deposits, \<open>reserve_source_collateral\<close> in
  withdrawals).
\<close>

record kamino_accounts = integration_accounts +
  ka_lending_market :: pubkey
  ka_lending_market_authority :: pubkey
  ka_reserve_liquidity_supply :: pubkey
  ka_reserve_collateral_mint :: pubkey
  ka_reserve_collateral :: pubkey
  ka_obligation_farm_user_state :: "pubkey option"
  ka_reserve_farm_state :: "pubkey option"
  ka_kamino_program :: pubkey
  ka_farms_program :: pubkey
  ka_collateral_token_program :: pubkey
  ka_liquidity_token_program :: pubkey
  ka_instruction_sysvar :: pubkey

text \<open>The first deposit is the bank's, the seven others are empty.\<close>

definition first_deposit :: "MinimalObligation \<Rightarrow> MinimalObligationCollateral res" where
  "first_deposit ob = (case ob_deposits ob of [] \<Rightarrow> Inl Panic | d # _ \<Rightarrow> Inr d)"

definition first_deposited :: "'w chain \<Rightarrow> 'x integration_accounts_scheme \<Rightarrow> 'w \<Rightarrow> u64 res" where
  "first_deposited ch acc w =
     bindR (ch_kamino_obligation ch (in_acc_2 acc) w) (\<lambda>ob.
     bindR (first_deposit ob) (\<lambda>d. Inr (deposited_amount d)))"

definition first_deposit_matches :: "pubkey \<Rightarrow> MinimalObligation \<Rightarrow> unit res" where
  "first_deposit_matches reserve_key ob =
     bindR (first_deposit ob) (\<lambda>d.
     check (deposit_reserve d = reserve_key) ObligationDepositReserveMismatch)"

definition only_first_deposit :: "MinimalObligation \<Rightarrow> unit res" where
  "only_first_deposit ob =
     check (\<forall>d \<in> set (tl (ob_deposits ob)). deposited_amount d = 0) InvalidObligationDepositCount"

definition kamino_programs :: "kamino_accounts \<Rightarrow> unit res" where
  "kamino_programs ka =
     bindR (constraint (ka_kamino_program ka = KAMINO_PROGRAM_ID)) (\<lambda>_.
     constraint (ka_farms_program ka = FARMS_PROGRAM_ID))"

section \<open>Calls to Kamino\<close>

definition deposit_accounts :: "kamino_accounts \<Rightarrow> (string \<times> pubkey option) list" where
  "deposit_accounts ka =
     [(''owner'', Some (in_vault_authority ka)), (''obligation'', Some (in_acc_2 ka)),
      (''lending_market'', Some (ka_lending_market ka)),
      (''lending_market_authority'', Some (ka_lending_market_authority ka)),
      (''reserve'', Some (in_acc_1 ka)), (''reserve_liquidity_mint'', Some (in_mint ka)),
      (''reserve_liquidity_supply'', Some (ka_reserve_liquidity_supply ka)),
      (''reserve_collateral_mint'', Some (ka_reserve_collateral_mint ka)),
      (''reserve_destination_deposit_collateral'', Some (ka_reserve_collateral ka)),
      (''user_source_liquidity'', Some (in_liquidity_vault ka)),
      (''placeholder_user_destination_collateral'', None),
      (''collateral_token_program'', Some (ka_collateral_token_program ka)),
      (''liquidity_token_program'', Some (ka_liquidity_token_program ka)),
      (''instruction_sysvar_account'', Some (ka_instruction_sysvar ka))]"

definition farms_accounts :: "kamino_accounts \<Rightarrow> (string \<times> pubkey option) list" where
  "farms_accounts ka =
     [(''obligation_farm_user_state'', ka_obligation_farm_user_state ka),
      (''reserve_farm_state'', ka_reserve_farm_state ka)]"

definition cpi_kamino_deposit :: "kamino_accounts \<Rightarrow> Bank \<Rightarrow> u64 \<Rightarrow> Cpi" where
  "cpi_kamino_deposit ka b amount =
     \<lparr>cpi_program = ka_kamino_program ka,
      cpi_instruction = ''deposit_reserve_liquidity_and_obligation_collateral_v2'',
      cpi_accounts = deposit_accounts ka @ farms_accounts ka
        @ [(''farms_program'', Some (ka_farms_program ka))],
      cpi_remaining = [], cpi_args = [amount], cpi_signer = vault_signer ka b\<rparr>"

definition cpi_kamino_withdraw :: "kamino_accounts \<Rightarrow> Bank \<Rightarrow> u64 \<Rightarrow> Cpi" where
  "cpi_kamino_withdraw ka b collateral_amount =
     \<lparr>cpi_program = ka_kamino_program ka,
      cpi_instruction = ''withdraw_obligation_collateral_and_redeem_reserve_collateral_v2'',
      cpi_accounts =
       [(''collateral_token_program'', Some (ka_collateral_token_program ka)),
        (''instruction_sysvar_account'', Some (ka_instruction_sysvar ka)),
        (''lending_market'', Some (ka_lending_market ka)),
        (''lending_market_authority'', Some (ka_lending_market_authority ka)),
        (''liquidity_token_program'', Some (ka_liquidity_token_program ka)),
        (''obligation'', Some (in_acc_2 ka)), (''owner'', Some (in_vault_authority ka)),
        (''placeholder_user_destination_collateral'', None),
        (''reserve_collateral_mint'', Some (ka_reserve_collateral_mint ka)),
        (''reserve_liquidity_mint'', Some (in_mint ka)),
        (''reserve_liquidity_supply'', Some (ka_reserve_liquidity_supply ka)),
        (''reserve_source_collateral'', Some (ka_reserve_collateral ka)),
        (''user_destination_liquidity'', Some (in_liquidity_vault ka)),
        (''withdraw_reserve'', Some (in_acc_1 ka))]
        @ farms_accounts ka @ [(''farms_program'', Some (ka_farms_program ka))],
      cpi_remaining = [], cpi_args = [collateral_amount], cpi_signer = vault_signer ka b\<rparr>"

section \<open>Deposit\<close>

definition kamino_deposit_guards ::
  "'w chain \<Rightarrow> ix_env \<Rightarrow> kamino_accounts \<Rightarrow> MarginfiGroup \<Rightarrow> MarginfiAccount \<Rightarrow> Bank \<Rightarrow> 'w \<Rightarrow> unit res" where
  "kamino_deposit_guards ch env ka g a b w =
     bindR (user_constraints False env ka g a) (\<lambda>_.
     bindR (position_constraints InvalidKaminoReserve InvalidKaminoObligation ka b) (\<lambda>_.
     bindR (mint_and_tag is_kamino_asset_tag WrongAssetTagForKaminoInstructions (in_mint ka) b) (\<lambda>_.
     bindR (ch_kamino_obligation ch (in_acc_2 ka) w) (\<lambda>ob.
     bindR (first_deposit_matches (in_acc_1 ka) ob) (\<lambda>_.
     bindR (only_first_deposit ob) (\<lambda>_. kamino_programs ka))))))"

definition kamino_deposit ::
  "'w chain \<Rightarrow> ix_env \<Rightarrow> kamino_accounts \<Rightarrow> MarginfiGroup \<Rightarrow> u64 \<Rightarrow> MarginfiAccount \<times> Bank \<times> 'w
    \<Rightarrow> (MarginfiAccount \<times> Bank \<times> 'w) res" where
  "kamino_deposit ch env ka g amount s = (case s of (a, b, w) \<Rightarrow>
     bindR (kamino_deposit_guards ch env ka g a b w) (\<lambda>_.
     bindR (deposit_ready a b) (\<lambda>_.
     bindR (first_deposited ch ka w) (\<lambda>initial.
     bindR (ch_kamino_reserve ch (in_acc_1 ka) w) (\<lambda>reserve.
     bindR (kamino_liquidity_to_collateral (e_fx env) amount reserve) (\<lambda>expected.
     bindR (ch_transfer ch (transfer_in ka amount) w) (\<lambda>w1.
     bindR (ch_call ch (cpi_kamino_deposit ka b amount) w1) (\<lambda>w2.
     bindR (first_deposited ch ka w2) (\<lambda>final.
     bindR (sub_u64 final initial) (\<lambda>change.
     bindR (assert_within_one_token change expected KaminoDepositFailed) (\<lambda>_.
     bindR (credit_position env (in_bank ka) g change a b) (\<lambda>(a', b').
     Inr (a', b', w2)))))))))))))"

section \<open>Withdraw\<close>

definition kamino_withdraw_guards ::
  "'w chain \<Rightarrow> ix_env \<Rightarrow> kamino_accounts \<Rightarrow> MarginfiGroup \<Rightarrow> MarginfiAccount \<Rightarrow> Bank \<Rightarrow> 'w \<Rightarrow> unit res" where
  "kamino_withdraw_guards ch env ka g a b w =
     bindR (user_constraints True env ka g a) (\<lambda>_.
     bindR (position_constraints InvalidKaminoReserve InvalidKaminoObligation ka b) (\<lambda>_.
     bindR (check (is_kamino_asset_tag (asset_tag (config b))) WrongAssetTagForKaminoInstructions) (\<lambda>_.
     bindR (weight_constraint a b) (\<lambda>_.
     bindR (ch_kamino_obligation ch (in_acc_2 ka) w) (\<lambda>ob.
     bindR (only_first_deposit ob) (\<lambda>_.
     bindR (first_deposit_matches (in_acc_1 ka) ob) (\<lambda>_. kamino_programs ka)))))))"

definition kamino_withdraw ::
  "'w chain \<Rightarrow> ix_env \<Rightarrow> kamino_accounts \<Rightarrow> AccountInfo list \<Rightarrow> u64 \<Rightarrow> bool option
    \<Rightarrow> MarginfiGroup \<times> MarginfiAccount \<times> Bank \<times> 'w
    \<Rightarrow> (MarginfiGroup \<times> MarginfiAccount \<times> Bank \<times> 'w) res" where
  "kamino_withdraw ch env ka ais amount everything s = (case s of (g, a, b, w) \<Rightarrow>
     bindR (kamino_withdraw_guards ch env ka g a b w) (\<lambda>_.
     bindR (ch_amount ch (in_liquidity_vault ka) w) (\<lambda>pre_transfer.
     bindR (first_deposited ch ka w) (\<lambda>initial.
     bindR (withdraw_ready a b) (\<lambda>_.
     bindR (withdraw_collateral env (in_bank ka) ais amount
              (case everything of Some v \<Rightarrow> v | None \<Rightarrow> False) g a b) (\<lambda>(g1, collateral, la, b1).
     bindR (update_bank_cache (e_fx env) (e_now env) g1 b1) (\<lambda>b2.
     bindR (ch_kamino_reserve ch (in_acc_1 ka) w) (\<lambda>reserve.
     bindR (kamino_collateral_to_liquidity (e_fx env) collateral reserve) (\<lambda>expected.
     bindR (ch_call ch (cpi_kamino_withdraw ka b2 collateral) w) (\<lambda>w1.
     bindR (first_deposited ch ka w1) (\<lambda>final.
     bindR (sub_u64 initial final) (\<lambda>decrease.
     bindR (check (decrease = collateral) KaminoWithdrawFailed) (\<lambda>_.
     bindR (ch_amount ch (in_liquidity_vault ka) w1) (\<lambda>post_transfer.
     bindR (sub_u64 post_transfer pre_transfer) (\<lambda>received.
     bindR (assert_within_one_token received expected KaminoWithdrawFailed) (\<lambda>_.
     bindR (ch_transfer ch (transfer_out ka received) w1) (\<lambda>w2.
     bindR (withdraw_finish env (in_bank ka) ais la a b2) (\<lambda>(a', b').
     Inr (g1, a', b', w2)))))))))))))))))))"

section \<open>Opening the obligation of a bank\<close>

text \<open>The token account the nominal deposit comes from must be the fee payer's, of the bank's mint.\<close>

record kamino_init_accounts = kamino_accounts +
  ki_fee_payer :: pubkey
  ki_token_account_mint :: pubkey
  ki_token_account_owner :: pubkey
  ki_user_metadata :: pubkey
  ki_pyth_oracle :: "pubkey option"
  ki_switchboard_price_oracle :: "pubkey option"
  ki_switchboard_twap_oracle :: "pubkey option"
  ki_scope_prices :: "pubkey option"
  ki_rent :: pubkey
  ki_system_program :: pubkey

definition kamino_unsigned :: "kamino_init_accounts \<Rightarrow> string \<Rightarrow> (string \<times> pubkey option) list \<Rightarrow> Cpi" where
  "kamino_unsigned ki ix accounts = \<lparr>cpi_program = ka_kamino_program ki, cpi_instruction = ix,
     cpi_accounts = accounts, cpi_remaining = [], cpi_args = [], cpi_signer = None\<rparr>"

definition cpi_refresh_reserve :: "kamino_init_accounts \<Rightarrow> Cpi" where
  "cpi_refresh_reserve ki = kamino_unsigned ki ''refresh_reserve''
     [(''reserve'', Some (in_acc_1 ki)), (''lending_market'', Some (ka_lending_market ki)),
      (''pyth_oracle'', ki_pyth_oracle ki),
      (''switchboard_price_oracle'', ki_switchboard_price_oracle ki),
      (''switchboard_twap_oracle'', ki_switchboard_twap_oracle ki),
      (''scope_prices'', ki_scope_prices ki)]"

definition cpi_init_user_metadata :: "kamino_init_accounts \<Rightarrow> Bank \<Rightarrow> Cpi" where
  "cpi_init_user_metadata ki b = (kamino_unsigned ki ''init_user_metadata''
     [(''owner'', Some (in_vault_authority ki)), (''fee_payer'', Some (ki_fee_payer ki)),
      (''user_metadata'', Some (ki_user_metadata ki)), (''referrer_user_metadata'', None),
      (''rent'', Some (ki_rent ki)), (''system_program'', Some (ki_system_program ki))])
     \<lparr>cpi_args := [default_key], cpi_signer := vault_signer ki b\<rparr>"

definition cpi_init_obligation :: "kamino_init_accounts \<Rightarrow> Bank \<Rightarrow> Cpi" where
  "cpi_init_obligation ki b = (kamino_unsigned ki ''init_obligation''
     [(''fee_payer'', Some (ki_fee_payer ki)), (''lending_market'', Some (ka_lending_market ki)),
      (''obligation'', Some (in_acc_2 ki)), (''obligation_owner'', Some (in_vault_authority ki)),
      (''owner_user_metadata'', Some (ki_user_metadata ki)), (''rent'', Some (ki_rent ki)),
      (''seed1_account'', Some (ki_system_program ki)),
      (''seed2_account'', Some (ki_system_program ki)),
      (''system_program'', Some (ki_system_program ki))])
     \<lparr>cpi_args := [0, 0], cpi_signer := vault_signer ki b\<rparr>"

definition cpi_refresh_obligation :: "kamino_init_accounts \<Rightarrow> Cpi" where
  "cpi_refresh_obligation ki = kamino_unsigned ki ''refresh_obligation''
     [(''lending_market'', Some (ka_lending_market ki)), (''obligation'', Some (in_acc_2 ki))]"

text \<open>The farm accounts are unwrapped: a missing user state panics.\<close>

definition cpi_init_farms :: "kamino_init_accounts \<Rightarrow> Bank \<Rightarrow> Cpi res" where
  "cpi_init_farms ki b =
     bindR (unwrap (ka_reserve_farm_state ki)) (\<lambda>farm.
     bindR (unwrap (ka_obligation_farm_user_state ki)) (\<lambda>user_state.
     Inr ((kamino_unsigned ki ''init_obligation_farms_for_reserve''
       [(''payer'', Some (ki_fee_payer ki)), (''owner'', Some (in_vault_authority ki)),
        (''obligation'', Some (in_acc_2 ki)),
        (''lending_market_authority'', Some (ka_lending_market_authority ki)),
        (''reserve'', Some (in_acc_1 ki)), (''reserve_farm_state'', Some farm),
        (''obligation_farm'', Some user_state), (''lending_market'', Some (ka_lending_market ki)),
        (''farms_program'', Some (ka_farms_program ki)), (''rent'', Some (ki_rent ki)),
        (''system_program'', Some (ki_system_program ki))])
       \<lparr>cpi_args := [0], cpi_signer := vault_signer ki b\<rparr>)))"

definition init_guards ::
  "(Bank \<Rightarrow> unit res) \<Rightarrow> pubkey \<Rightarrow> pubkey \<Rightarrow> pubkey \<Rightarrow> pubkey \<Rightarrow> Bank \<Rightarrow> unit res" where
  "init_guards bank_check mint_key fee_payer token_mint token_owner b =
     bindR (bank_check b) (\<lambda>_.
     bindR (constraint (token_mint = mint_key)) (\<lambda>_. constraint (token_owner = fee_payer)))"

definition init_bank_check ::
  "marginfi_error \<Rightarrow> marginfi_error \<Rightarrow> (u8 \<Rightarrow> bool) \<Rightarrow> marginfi_error \<Rightarrow> 'x integration_accounts_scheme
    \<Rightarrow> Bank \<Rightarrow> unit res" where
  "init_bank_check err1 err2 is_tag tag_err acc b =
     bindR (check (liquidity_vault b = in_liquidity_vault acc) InvalidLiquidityVault) (\<lambda>_.
     bindR (check (integration_acc_1 b = in_acc_1 acc) err1) (\<lambda>_.
     bindR (check (integration_acc_2 b = in_acc_2 acc) err2) (\<lambda>_.
     mint_and_tag is_tag tag_err (in_mint acc) b)))"

text \<open>The fee payer signs the transfer of the nominal deposit.\<close>

definition transfer_nominal :: "pubkey \<Rightarrow> 'x integration_accounts_scheme \<Rightarrow> u64 \<Rightarrow> Transfer" where
  "transfer_nominal fee_payer acc amount = (transfer_in acc amount)\<lparr>tr_authority := fee_payer\<rparr>"

definition kamino_init_obligation ::
  "'w chain \<Rightarrow> kamino_init_accounts \<Rightarrow> Bank \<Rightarrow> u64 \<Rightarrow> 'w \<Rightarrow> 'w res" where
  "kamino_init_obligation ch ki b amount w =
     bindR (init_guards (init_bank_check InvalidKaminoReserve InvalidKaminoObligation is_kamino_asset_tag
              WrongAssetTagForKaminoInstructions ki)
              (in_mint ki) (ki_fee_payer ki) (ki_token_account_mint ki) (ki_token_account_owner ki) b) (\<lambda>_.
     bindR (kamino_programs (kamino_accounts.truncate ki)) (\<lambda>_.
     bindR (check (amount \<ge> 10) ObligationInitDepositInsufficient) (\<lambda>_.
     bindR (ch_call ch (cpi_refresh_reserve ki) w) (\<lambda>w1.
     bindR (ch_call ch (cpi_init_user_metadata ki b) w1) (\<lambda>w2.
     bindR (ch_call ch (cpi_init_obligation ki b) w2) (\<lambda>w3.
     bindR (if ka_reserve_farm_state ki \<noteq> None
            then bindR (cpi_init_farms ki b) (\<lambda>c. ch_call ch c w3) else Inr w3) (\<lambda>w4.
     bindR (ch_call ch (cpi_refresh_obligation ki) w4) (\<lambda>w5.
     bindR (ch_transfer ch (transfer_nominal (ki_fee_payer ki) ki amount) w5) (\<lambda>w6.
     ch_call ch (cpi_kamino_deposit (kamino_accounts.truncate ki) b amount) w6)))))))))"

section \<open>Farming rewards\<close>

text \<open>The destination is the global fee wallet's associated token account, which Anchor checks.\<close>

record kamino_harvest_accounts =
  kh_bank :: pubkey
  kh_destination :: pubkey
  kh_vault_authority :: pubkey
  kh_user_state :: pubkey
  kh_farm_state :: pubkey
  kh_global_config :: pubkey
  kh_reward_mint :: pubkey
  kh_user_reward_ata :: pubkey
  kh_rewards_vault :: pubkey
  kh_rewards_treasury_vault :: pubkey
  kh_farm_vaults_authority :: pubkey
  kh_scope_prices :: "pubkey option"
  kh_farms_program :: pubkey
  kh_token_program :: pubkey

definition cpi_harvest_rewards :: "kamino_harvest_accounts \<Rightarrow> Bank \<Rightarrow> u64 \<Rightarrow> Cpi" where
  "cpi_harvest_rewards kh b reward_index =
     \<lparr>cpi_program = kh_farms_program kh, cpi_instruction = ''harvest_reward'',
      cpi_accounts =
       [(''owner'', Some (kh_vault_authority kh)), (''user_state'', Some (kh_user_state kh)),
        (''farm_state'', Some (kh_farm_state kh)), (''global_config'', Some (kh_global_config kh)),
        (''reward_mint'', Some (kh_reward_mint kh)), (''user_reward_ata'', Some (kh_user_reward_ata kh)),
        (''rewards_vault'', Some (kh_rewards_vault kh)),
        (''rewards_treasury_vault'', Some (kh_rewards_treasury_vault kh)),
        (''farm_vaults_authority'', Some (kh_farm_vaults_authority kh)),
        (''scope_prices'', kh_scope_prices kh), (''token_program'', Some (kh_token_program kh))],
      cpi_remaining = [], cpi_args = [reward_index],
      cpi_signer = Some (kh_bank kh, liquidity_vault_authority_bump b)\<rparr>"

definition kamino_harvest_reward ::
  "'w chain \<Rightarrow> (pubkey \<Rightarrow> pubkey \<Rightarrow> pubkey) \<Rightarrow> FeeState \<Rightarrow> kamino_harvest_accounts \<Rightarrow> Bank \<Rightarrow> u64 \<Rightarrow> 'w
    \<Rightarrow> 'w res" where
  "kamino_harvest_reward ch ata fs kh b reward_index w =
     bindR (check (is_kamino_asset_tag (asset_tag (config b))) WrongAssetTagForKaminoInstructions) (\<lambda>_.
     bindR (constraint (kh_destination kh = ata (global_fee_wallet fs) (kh_reward_mint kh))) (\<lambda>_.
     bindR (constraint (kh_farms_program kh = FARMS_PROGRAM_ID)) (\<lambda>_.
     bindR (ch_amount ch (kh_user_reward_ata kh) w) (\<lambda>pre_transfer.
     bindR (ch_call ch (cpi_harvest_rewards kh b reward_index) w) (\<lambda>w1.
     bindR (ch_amount ch (kh_user_reward_ata kh) w1) (\<lambda>post_transfer.
     bindR (sub_u64 post_transfer pre_transfer) (\<lambda>received.
     ch_transfer ch \<lparr>tr_from = kh_user_reward_ata kh, tr_to = kh_destination kh,
       tr_authority = kh_vault_authority kh, tr_amount = received\<rparr> w1)))))))"

end
