(* ===== verification/DriftIx.thy ===== *)
theory DriftIx
  imports KaminoIx
begin

text \<open>
  Banks on Drift (\<open>instructions/drift/\<close>): deposits, withdrawals, opening the Drift user of a bank and
  collecting the rewards that Drift's admin deposits for it. A share of such a bank is a unit of the
  scaled balance of its user in the bank's spot market.
\<close>

section \<open>Accounts\<close>

record drift_accounts = integration_accounts +
  da_acc_3 :: pubkey
  da_oracle :: "pubkey option"
  da_state :: pubkey
  da_spot_market_vault :: pubkey
  da_reward_oracle :: "pubkey option"
  da_reward_spot_market :: "pubkey option"
  da_reward_mint :: "pubkey option"
  da_reward_oracle_2 :: "pubkey option"
  da_reward_spot_market_2 :: "pubkey option"
  da_reward_mint_2 :: "pubkey option"
  da_signer :: pubkey
  da_program :: pubkey
  da_token_program :: pubkey
  da_system_program :: pubkey

section \<open>Calls to Drift\<close>

definition some_keys :: "pubkey option list \<Rightarrow> pubkey list" where
  "some_keys ks = concat (map (\<lambda>k. case k of Some x \<Rightarrow> [x] | None \<Rightarrow> []) ks)"

text \<open>The system program stands in for the oracle of the quote asset.\<close>

definition cpi_update_interest :: "drift_accounts \<Rightarrow> Cpi" where
  "cpi_update_interest da =
     \<lparr>cpi_program = da_program da, cpi_instruction = ''update_spot_market_cumulative_interest'',
      cpi_accounts =
       [(''state'', Some (da_state da)), (''spot_market'', Some (in_acc_1 da)),
        (''oracle'', Some (case da_oracle da of Some k \<Rightarrow> k | None \<Rightarrow> da_system_program da)),
        (''spot_market_vault'', Some (da_spot_market_vault da))],
      cpi_remaining = [], cpi_args = [], cpi_signer = None\<rparr>"

text \<open>Oracles come first, then spot markets, then mints. The last argument is \<open>reduce_only\<close>.\<close>

definition cpi_drift_deposit :: "drift_accounts \<Rightarrow> Bank \<Rightarrow> u16 \<Rightarrow> u64 \<Rightarrow> Cpi" where
  "cpi_drift_deposit da b market_index amount =
     \<lparr>cpi_program = da_program da, cpi_instruction = ''deposit'',
      cpi_accounts =
       [(''state'', Some (da_state da)), (''user'', Some (in_acc_2 da)),
        (''user_stats'', Some (da_acc_3 da)), (''authority'', Some (in_vault_authority da)),
        (''spot_market_vault'', Some (da_spot_market_vault da)),
        (''user_token_account'', Some (in_liquidity_vault da)),
        (''token_program'', Some (da_token_program da))],
      cpi_remaining = some_keys [da_oracle da, Some (in_acc_1 da), Some (in_mint da)],
      cpi_args = [market_index, amount, 0], cpi_signer = vault_signer da b\<rparr>"

definition cpi_drift_withdraw :: "drift_accounts \<Rightarrow> Bank \<Rightarrow> u16 \<Rightarrow> u64 \<Rightarrow> Cpi" where
  "cpi_drift_withdraw da b market_index amount =
     \<lparr>cpi_program = da_program da, cpi_instruction = ''withdraw'',
      cpi_accounts =
       [(''state'', Some (da_state da)), (''user'', Some (in_acc_2 da)),
        (''user_stats'', Some (da_acc_3 da)), (''authority'', Some (in_vault_authority da)),
        (''spot_market_vault'', Some (da_spot_market_vault da)), (''drift_signer'', Some (da_signer da)),
        (''user_token_account'', Some (in_liquidity_vault da)),
        (''token_program'', Some (da_token_program da))],
      cpi_remaining = some_keys
       [da_oracle da, da_reward_oracle da, da_reward_oracle_2 da, Some (in_acc_1 da),
        da_reward_spot_market da, da_reward_spot_market_2 da, Some (in_mint da),
        da_reward_mint da, da_reward_mint_2 da],
      cpi_args = [market_index, amount, 1], cpi_signer = vault_signer da b\<rparr>"

section \<open>Constraints\<close>

definition drift_bank_constraints :: "drift_accounts \<Rightarrow> Bank \<Rightarrow> unit res" where
  "drift_bank_constraints da b =
     bindR (position_constraints InvalidDriftSpotMarket InvalidDriftUser da b) (\<lambda>_.
     bindR (check (integration_acc_3 b = da_acc_3 da) InvalidDriftUserStats) (\<lambda>_.
     mint_and_tag is_drift_asset_tag WrongBankAssetTagForDriftOperation (in_mint da) b))"

definition drift_user_constraint :: "'w chain \<Rightarrow> drift_accounts \<Rightarrow> 'w \<Rightarrow> unit res" where
  "drift_user_constraint ch da w =
     bindR (ch_drift_user ch (in_acc_2 da) w) (\<lambda>user.
     bindR (ch_drift_market ch (in_acc_1 da) w) (\<lambda>spot_market.
     require_ok (validate_spot_position (sm_market_index spot_market) user) DriftInvalidSpotPositions))"

definition drift_market_constraint :: "'w chain \<Rightarrow> drift_accounts \<Rightarrow> 'w \<Rightarrow> unit res" where
  "drift_market_constraint ch da w =
     bindR (ch_drift_market ch (in_acc_1 da) w) (\<lambda>spot_market.
     bindR (check (sm_mint spot_market = in_mint da) DriftSpotMarketMintMismatch) (\<lambda>_.
     constraint (da_program da = DRIFT_PROGRAM_ID)))"

definition drift_position :: "'w chain \<Rightarrow> drift_accounts \<Rightarrow> u16 \<Rightarrow> 'w \<Rightarrow> u64 res" where
  "drift_position ch da market_index w =
     bindR (ch_drift_user ch (in_acc_2 da) w) (user_scaled_balance market_index)"

section \<open>Deposit\<close>

definition drift_deposit_guards ::
  "'w chain \<Rightarrow> ix_env \<Rightarrow> drift_accounts \<Rightarrow> MarginfiGroup \<Rightarrow> MarginfiAccount \<Rightarrow> Bank \<Rightarrow> 'w \<Rightarrow> unit res" where
  "drift_deposit_guards ch env da g a b w =
     bindR (user_constraints False env da g a) (\<lambda>_.
     bindR (drift_bank_constraints da b) (\<lambda>_.
     bindR (drift_user_constraint ch da w) (\<lambda>_. drift_market_constraint ch da w)))"

definition drift_deposit ::
  "'w chain \<Rightarrow> ix_env \<Rightarrow> drift_accounts \<Rightarrow> MarginfiGroup \<Rightarrow> u64 \<Rightarrow> MarginfiAccount \<times> Bank \<times> 'w
    \<Rightarrow> (MarginfiAccount \<times> Bank \<times> 'w) res" where
  "drift_deposit ch env da g amount s = (case s of (a, b, w) \<Rightarrow>
     bindR (drift_deposit_guards ch env da g a b w) (\<lambda>_.
     bindR (deposit_ready a b) (\<lambda>_.
     bindR (ch_drift_market ch (in_acc_1 da) w) (\<lambda>market.
     let market_index = sm_market_index market in
     bindR (ch_call ch (cpi_update_interest da) w) (\<lambda>w1.
     bindR (ch_drift_market ch (in_acc_1 da) w1) (\<lambda>fresh.
     bindR (get_scaled_balance_increment amount fresh) (\<lambda>expected.
     bindR (drift_position ch da market_index w1) (\<lambda>initial.
     bindR (ch_transfer ch (transfer_in da amount) w1) (\<lambda>w2.
     bindR (ch_call ch (cpi_drift_deposit da b market_index amount) w2) (\<lambda>w3.
     bindR (drift_position ch da market_index w3) (\<lambda>final.
     bindR (sub_u64 final initial) (\<lambda>change.
     bindR (check (change = expected) DriftScaledBalanceMismatch) (\<lambda>_.
     bindR (credit_position env (in_bank da) g change a b) (\<lambda>(a', b').
     Inr (a', b', w3)))))))))))))))"

section \<open>Withdraw\<close>

definition drift_withdraw_guards ::
  "'w chain \<Rightarrow> ix_env \<Rightarrow> drift_accounts \<Rightarrow> MarginfiGroup \<Rightarrow> MarginfiAccount \<Rightarrow> Bank \<Rightarrow> 'w \<Rightarrow> unit res" where
  "drift_withdraw_guards ch env da g a b w =
     bindR (user_constraints True env da g a) (\<lambda>_.
     bindR (drift_bank_constraints da b) (\<lambda>_.
     bindR (weight_constraint a b) (\<lambda>_.
     bindR (drift_user_constraint ch da w) (\<lambda>_.
     bindR (ch_drift_user ch (in_acc_2 da) w) (\<lambda>user.
     bindR (require_ok (validate_reward_accounts (da_reward_spot_market da = None)
              (da_reward_spot_market_2 da = None) user) DriftMissingRewardAccounts) (\<lambda>_.
     bindR (require_ok (validate_not_bricked_by_admin_deposits user) DriftBrickedAccount) (\<lambda>_.
     drift_market_constraint ch da w)))))))"

text \<open>\<open>to_num::<u64>\<close> of a fixed-point number: the whole part, wrapped to 64 bits.\<close>

definition to_num_u64 :: "I80F48 \<Rightarrow> u64" where
  "to_num_u64 v = nat (v div ONE mod 18446744073709551616)"

text \<open>
  What a full withdrawal of a scaled balance takes out: the tokens it is worth, a token less when
  giving those back would round up past the balance.
\<close>

definition drift_all_tokens :: "MinimalSpotMarket \<Rightarrow> u64 \<Rightarrow> (u64 \<times> u64) res" where
  "drift_all_tokens m scaled =
     bindR (get_withdraw_token_amount scaled m) (\<lambda>token_amount.
     bindR (get_scaled_balance_decrement token_amount m) (\<lambda>expected.
     bindR (unwrap (checked_add_u64 scaled 1)) (\<lambda>one_more.
     bindR (if expected = one_more \<and> token_amount > 0
            then bindR (get_scaled_balance_decrement (token_amount - 1) m) (\<lambda>less.
                 Inr (token_amount - 1, less))
            else Inr (token_amount, expected)) (\<lambda>(tokens, change).
     bindR (check (scaled \<ge> change) MathError) (\<lambda>_.
     Inr (tokens, change))))))"

text \<open>
  What a withdrawal of a token amount takes out: the scaled balance it costs, or, when that is one
  unit more than the user's shares, what the shares are worth.
\<close>

definition drift_some_tokens :: "MinimalSpotMarket \<Rightarrow> u64 \<Rightarrow> u64 \<Rightarrow> (u64 \<times> u64) res" where
  "drift_some_tokens m amount shares =
     bindR (get_scaled_balance_decrement amount m) (\<lambda>scaled_decrement.
     bindR (unwrap (checked_add_u64 shares 1)) (\<lambda>one_more.
     if scaled_decrement > one_more then Inl (Err OperationWithdrawOnly)
     else if scaled_decrement = one_more
       then bindR (get_withdraw_token_amount shares m) (\<lambda>token_amount.
            bindR (get_scaled_balance_decrement token_amount m) (\<lambda>decrement.
            Inr (token_amount, decrement)))
     else Inr (amount, scaled_decrement)))"

definition drift_withdraw_tokens ::
  "ix_env \<Rightarrow> MinimalSpotMarket \<Rightarrow> u64 \<Rightarrow> bool \<Rightarrow> nat \<Rightarrow> LendingAccount \<Rightarrow> Bank
    \<Rightarrow> ((u64 \<times> u64) \<times> LendingAccount \<times> Bank) res" where
  "drift_withdraw_tokens env m amount everything i la b =
     (if everything
      then bindR (at_balance i (withdraw_all (e_fx env) (e_now env)) (la, b)) (\<lambda>(scaled, la', b').
           bindR (drift_all_tokens m scaled) (\<lambda>r. Inr (r, la', b')))
      else bindR (drift_some_tokens m amount (to_num_u64 (asset_shares (balances la ! i)))) (\<lambda>r.
           bindR (amount_num env (snd r)) (\<lambda>v.
           bindR (run_at i (withdraw (e_fx env) (e_now env) v) la b) (\<lambda>(la', b'). Inr (r, la', b')))))"

text \<open>
  The withdrawal from Drift and on to the user. Both the tokens received and the change of the
  position must be the expected ones; a full withdrawal worth no token skips all of it.
\<close>

definition drift_payout ::
  "'w chain \<Rightarrow> drift_accounts \<Rightarrow> Bank \<Rightarrow> u16 \<Rightarrow> bool \<Rightarrow> u64 \<Rightarrow> u64 \<Rightarrow> 'w \<Rightarrow> 'w res" where
  "drift_payout ch da b market_index everything token_amount expected w =
     (if everything \<and> token_amount = 0 then Inr w
      else
        bindR (drift_position ch da market_index w) (\<lambda>initial.
        bindR (ch_amount ch (in_liquidity_vault da) w) (\<lambda>pre_transfer.
        bindR (ch_call ch (cpi_drift_withdraw da b market_index token_amount) w) (\<lambda>w1.
        bindR (drift_position ch da market_index w1) (\<lambda>final.
        bindR (ch_amount ch (in_liquidity_vault da) w1) (\<lambda>post_transfer.
        bindR (sub_u64 post_transfer pre_transfer) (\<lambda>received.
        bindR (sub_u64 initial final) (\<lambda>change.
        bindR (check (received = token_amount) DriftWithdrawFailed) (\<lambda>_.
        bindR (check (change = expected) DriftScaledBalanceMismatch) (\<lambda>_.
        ch_transfer ch (transfer_out da received) w1))))))))))"

definition drift_withdraw ::
  "'w chain \<Rightarrow> ix_env \<Rightarrow> drift_accounts \<Rightarrow> AccountInfo list \<Rightarrow> u64 \<Rightarrow> bool option
    \<Rightarrow> MarginfiGroup \<times> MarginfiAccount \<times> Bank \<times> 'w
    \<Rightarrow> (MarginfiGroup \<times> MarginfiAccount \<times> Bank \<times> 'w) res" where
  "drift_withdraw ch env da ais amount all_of_it s = (case s of (g, a, b, w) \<Rightarrow>
     let everything = (case all_of_it of Some v \<Rightarrow> v | None \<Rightarrow> False) in
     bindR (drift_withdraw_guards ch env da g a b w) (\<lambda>_.
     bindR (ch_call ch (cpi_update_interest da) w) (\<lambda>w1.
     bindR (withdraw_ready a b) (\<lambda>_.
     bindR (receivership_price env (in_bank da) a b ais) (\<lambda>price.
     bindR (ch_drift_market ch (in_acc_1 da) w1) (\<lambda>market.
     let market_index = sm_market_index market in
     bindR (wrapper_find (in_bank da) (lending_account a)) (\<lambda>i.
     bindR (drift_withdraw_tokens env market amount everything i (lending_account a) b)
       (\<lambda>((token_amount, expected), la, b1).
     bindR (track_deleverage env a expected price b1 g) (\<lambda>g1.
     bindR (drift_payout ch da b1 market_index everything token_amount expected w1) (\<lambda>w2.
     bindR (update_bank_cache (e_fx env) (e_now env) g1 b1) (\<lambda>b2.
     bindR (withdraw_finish env (in_bank da) ais la a b2) (\<lambda>(a', b').
     Inr (g1, a', b', w2)))))))))))))"

section \<open>Opening the Drift user of a bank\<close>

record drift_init_accounts = drift_accounts +
  di_fee_payer :: pubkey
  di_token_account_mint :: pubkey
  di_token_account_owner :: pubkey
  di_rent :: pubkey

definition drift_signed ::
  "drift_init_accounts \<Rightarrow> Bank \<Rightarrow> string \<Rightarrow> (string \<times> pubkey option) list \<Rightarrow> nat list \<Rightarrow> Cpi" where
  "drift_signed di b ix accounts args = \<lparr>cpi_program = da_program di, cpi_instruction = ix,
     cpi_accounts = accounts, cpi_remaining = [], cpi_args = args, cpi_signer = vault_signer di b\<rparr>"

definition cpi_init_user_stats :: "drift_init_accounts \<Rightarrow> Bank \<Rightarrow> Cpi" where
  "cpi_init_user_stats di b = drift_signed di b ''initialize_user_stats''
     [(''user_stats'', Some (da_acc_3 di)), (''state'', Some (da_state di)),
      (''authority'', Some (in_vault_authority di)), (''payer'', Some (di_fee_payer di)),
      (''rent'', Some (di_rent di)), (''system_program'', Some (da_system_program di))] []"

text \<open>Subaccount 0, with an empty name of 32 bytes.\<close>

definition cpi_init_user :: "drift_init_accounts \<Rightarrow> Bank \<Rightarrow> Cpi" where
  "cpi_init_user di b = drift_signed di b ''initialize_user''
     [(''user'', Some (in_acc_2 di)), (''user_stats'', Some (da_acc_3 di)),
      (''state'', Some (da_state di)), (''authority'', Some (in_vault_authority di)),
      (''payer'', Some (di_fee_payer di)), (''rent'', Some (di_rent di)),
      (''system_program'', Some (da_system_program di))] (0 # replicate 32 0)"

definition cpi_update_user_pool_id :: "drift_init_accounts \<Rightarrow> Bank \<Rightarrow> u8 \<Rightarrow> Cpi" where
  "cpi_update_user_pool_id di b pool = drift_signed di b ''update_user_pool_id''
     [(''user'', Some (in_acc_2 di)), (''authority'', Some (in_vault_authority di))] [0, pool]"

definition drift_init_bank_check :: "drift_init_accounts \<Rightarrow> Bank \<Rightarrow> unit res" where
  "drift_init_bank_check di b =
     bindR (check (liquidity_vault b = in_liquidity_vault di) InvalidLiquidityVault) (\<lambda>_.
     bindR (check (integration_acc_1 b = in_acc_1 di) InvalidDriftSpotMarket) (\<lambda>_.
     bindR (check (integration_acc_2 b = in_acc_2 di) InvalidDriftUser) (\<lambda>_.
     bindR (check (integration_acc_3 b = da_acc_3 di) InvalidDriftUserStats) (\<lambda>_.
     mint_and_tag is_drift_asset_tag WrongBankAssetTagForDriftOperation (in_mint di) b))))"

text \<open>The token account is checked before the bank.\<close>

definition drift_init_user ::
  "'w chain \<Rightarrow> drift_init_accounts \<Rightarrow> Bank \<Rightarrow> u64 \<Rightarrow> 'w \<Rightarrow> 'w res" where
  "drift_init_user ch di b amount w =
     bindR (constraint (di_token_account_mint di = in_mint di)) (\<lambda>_.
     bindR (constraint (di_token_account_owner di = di_fee_payer di)) (\<lambda>_.
     bindR (drift_init_bank_check di b) (\<lambda>_.
     bindR (constraint (da_program di = DRIFT_PROGRAM_ID)) (\<lambda>_.
     bindR (ch_drift_market ch (in_acc_1 di) w) (\<lambda>market.
     bindR (check (amount \<ge> 10) DriftUserInitDepositInsufficient) (\<lambda>_.
     bindR (ch_call ch (cpi_init_user_stats di b) w) (\<lambda>w1.
     bindR (ch_call ch (cpi_init_user di b) w1) (\<lambda>w2.
     bindR (ch_transfer ch (transfer_nominal (di_fee_payer di) di amount) w2) (\<lambda>w3.
     bindR (if pool_id market \<noteq> 0 then ch_call ch (cpi_update_user_pool_id di b (pool_id market)) w3
            else Inr w3) (\<lambda>w4.
     ch_call ch (cpi_drift_deposit (drift_accounts.truncate di) b (sm_market_index market) amount) w4
     ))))))))))"

section \<open>Rewards\<close>

record drift_harvest_accounts =
  dh_bank :: pubkey
  dh_acc_2 :: pubkey
  dh_acc_3 :: pubkey
  dh_vault_authority :: pubkey
  dh_intermediary :: pubkey
  dh_destination :: pubkey
  dh_state :: pubkey
  dh_spot_market :: pubkey
  dh_spot_market_owner :: pubkey
  dh_spot_market_vault :: pubkey
  dh_signer :: pubkey
  dh_reward_mint :: pubkey
  dh_program :: pubkey
  dh_token_program :: pubkey

definition drift_harvest_guards ::
  "'w chain \<Rightarrow> (pubkey \<Rightarrow> pubkey \<Rightarrow> pubkey) \<Rightarrow> FeeState \<Rightarrow> drift_harvest_accounts \<Rightarrow> Bank
    \<Rightarrow> MinimalSpotMarket \<Rightarrow> 'w \<Rightarrow> unit res" where
  "drift_harvest_guards ch ata fs dh b market w =
     bindR (check (integration_acc_2 b = dh_acc_2 dh) InvalidDriftUser) (\<lambda>_.
     bindR (check (integration_acc_3 b = dh_acc_3 dh) InvalidDriftUserStats) (\<lambda>_.
     bindR (check (is_drift_asset_tag (asset_tag (config b))) WrongBankAssetTagForDriftOperation) (\<lambda>_.
     bindR (constraint (dh_intermediary dh = ata (dh_vault_authority dh) (dh_reward_mint dh))) (\<lambda>_.
     bindR (constraint (dh_destination dh = ata (global_fee_wallet fs) (dh_reward_mint dh))) (\<lambda>_.
     bindR (ch_drift_user ch (dh_acc_2 dh) w) (\<lambda>user.
     bindR (require_ok (has_admin_deposit (sm_market_index market) user) DriftNoAdminDeposit) (\<lambda>_.
     bindR (constraint (dh_spot_market_owner dh = DRIFT_PROGRAM_ID)) (\<lambda>_.
     bindR (check (sm_mint market \<noteq> mint b) DriftSpotMarketMintMismatch) (\<lambda>_.
     bindR (check (dh_spot_market dh \<noteq> integration_acc_1 b) DriftHarvestSameMarket) (\<lambda>_.
     constraint (dh_program dh = DRIFT_PROGRAM_ID)))))))))))"

text \<open>All that is there is withdrawn, as far as it only reduces the position.\<close>

definition cpi_withdraw_from_position ::
  "drift_harvest_accounts \<Rightarrow> Bank \<Rightarrow> u16 \<Rightarrow> pubkey list \<Rightarrow> Cpi" where
  "cpi_withdraw_from_position dh b market_index remaining =
     \<lparr>cpi_program = dh_program dh, cpi_instruction = ''withdraw'',
      cpi_accounts =
       [(''state'', Some (dh_state dh)), (''user'', Some (dh_acc_2 dh)),
        (''user_stats'', Some (dh_acc_3 dh)), (''authority'', Some (dh_vault_authority dh)),
        (''spot_market_vault'', Some (dh_spot_market_vault dh)), (''drift_signer'', Some (dh_signer dh)),
        (''user_token_account'', Some (dh_intermediary dh)),
        (''token_program'', Some (dh_token_program dh))],
      cpi_remaining = remaining, cpi_args = [market_index, u64_max, 1],
      cpi_signer = Some (dh_bank dh, liquidity_vault_authority_bump b)\<rparr>"

definition drift_harvest_reward ::
  "'w chain \<Rightarrow> (pubkey \<Rightarrow> pubkey \<Rightarrow> pubkey) \<Rightarrow> FeeState \<Rightarrow> drift_harvest_accounts \<Rightarrow> Bank
    \<Rightarrow> pubkey list \<Rightarrow> 'w \<Rightarrow> 'w res" where
  "drift_harvest_reward ch ata fs dh b remaining w =
     bindR (ch_drift_market ch (dh_spot_market dh) w) (\<lambda>market.
     bindR (drift_harvest_guards ch ata fs dh b market w) (\<lambda>_.
     bindR (ch_call ch (cpi_withdraw_from_position dh b (sm_market_index market) remaining) w) (\<lambda>w1.
     bindR (ch_amount ch (dh_intermediary dh) w1) (\<lambda>amount.
     ch_transfer ch \<lparr>tr_from = dh_intermediary dh, tr_to = dh_destination dh,
       tr_authority = dh_vault_authority dh, tr_amount = amount\<rparr> w1))))"

end
