(* ===== verification/SolendIx.thy ===== *)
theory SolendIx
  imports DriftIx
begin

text \<open>
  Banks on Solend (\<open>instructions/solend/\<close>, \<open>solend-mocks\<close>): deposits, withdrawals and opening the
  obligation of a bank. A share of such a bank is a collateral token of the Solend reserve that the
  bank's obligation holds. The obligation is read from its bytes.
\<close>

abbreviation SolendInvalidAccountData :: marginfi_error where
  "SolendInvalidAccountData \<equiv> MarginfiError 6001"
abbreviation SolendInvalidObligationCollateral :: marginfi_error where
  "SolendInvalidObligationCollateral \<equiv> MarginfiError 6002"
abbreviation SolendInvalidObligationLiquidity :: marginfi_error where
  "SolendInvalidObligationLiquidity \<equiv> MarginfiError 6003"
abbreviation SolendInvalidReserveLendingMarket :: marginfi_error where
  "SolendInvalidReserveLendingMarket \<equiv> MarginfiError 6004"
abbreviation SolendMocksReserveStale :: marginfi_error where
  "SolendMocksReserveStale \<equiv> MarginfiError 6005"

section \<open>Reading accounts by their bytes\<close>

definition RESERVE_LEN :: nat where "RESERVE_LEN = 619"
definition OBLIGATION_LEN :: nat where "OBLIGATION_LEN = 1300"

text \<open>A key is a number, big endian.\<close>

definition key_of :: "u8 list \<Rightarrow> pubkey" where
  "key_of bs = foldl (\<lambda>n b. n * 256 + b) 0 bs"

definition slice :: "nat \<Rightarrow> nat \<Rightarrow> 'a list \<Rightarrow> 'a list" where
  "slice i j xs = take (j - i) (drop i xs)"

definition solend_obligation_data :: "pubkey \<times> u8 list \<Rightarrow> u8 list res" where
  "solend_obligation_data acc = (case acc of (owner, bytes) \<Rightarrow>
     bindR (check (owner = SOLEND_PROGRAM_ID) SolendInvalidAccountData) (\<lambda>_.
     bindR (check (length bytes \<ge> OBLIGATION_LEN) SolendInvalidAccountData) (\<lambda>_.
     bindR (check (bytes ! 0 = 1) SolendInvalidAccountData) (\<lambda>_.
     Inr bytes))))"

definition obligation_amount :: "u8 list \<Rightarrow> u64" where
  "obligation_amount bytes = from_le (slice 236 244 bytes)"

definition validate_solend_obligation :: "pubkey \<times> u8 list \<Rightarrow> pubkey \<Rightarrow> unit res" where
  "validate_solend_obligation acc expected_reserve =
     bindR (solend_obligation_data acc) (\<lambda>bytes.
     bindR (check (bytes ! 202 = 1) SolendInvalidObligationCollateral) (\<lambda>_.
     bindR (check (bytes ! 203 = 0) SolendInvalidObligationLiquidity) (\<lambda>_.
     bindR (check (key_of (slice 204 236 bytes) = expected_reserve) SolendInvalidObligationCollateral)
       (\<lambda>_.
     check (obligation_amount bytes > 0) SolendInvalidObligationCollateral))))"

definition get_solend_obligation_deposit_amount :: "pubkey \<times> u8 list \<Rightarrow> u64 res" where
  "get_solend_obligation_deposit_amount acc =
     bindR (solend_obligation_data acc) (\<lambda>bytes. Inr (obligation_amount bytes))"

definition validate_solend_reserve :: "u64 \<Rightarrow> pubkey \<times> u8 list \<Rightarrow> pubkey \<Rightarrow> unit res" where
  "validate_solend_reserve current_slot acc expected_lending_market = (case acc of (owner, bytes) \<Rightarrow>
     bindR (check (owner = SOLEND_PROGRAM_ID) SolendInvalidAccountData) (\<lambda>_.
     bindR (check (length bytes = RESERVE_LEN) SolendInvalidAccountData) (\<lambda>_.
     bindR (check (bytes ! 0 = 1) SolendInvalidAccountData) (\<lambda>_.
     bindR (check (key_of (slice 10 42 bytes) = expected_lending_market) SolendInvalidReserveLendingMarket)
       (\<lambda>_.
     if from_le (slice 1 9 bytes) < current_slot then Inl (Err SolendMocksReserveStale) else Inr ())))))"

text \<open>The exchange rate between collateral and liquidity, one when there is no supply.\<close>

definition exchange_rate_from_reserve :: "fixed_ops \<Rightarrow> SolendMinimalReserve \<Rightarrow> I80F48 res" where
  "exchange_rate_from_reserve fx r =
     bindR (solend_total_liquidity fx r) (\<lambda>total_liquidity.
     if sr_collateral_mint_total_supply r = 0 \<or> total_liquidity = 0 then unwrap (from_num fx 1)
     else bindR (unwrap (from_num fx (int (sr_collateral_mint_total_supply r)))) (\<lambda>mint_supply.
          ok_or MocksMathError (checked_div fx mint_supply total_liquidity)))"

definition rate_collateral_to_liquidity :: "fixed_ops \<Rightarrow> I80F48 \<Rightarrow> u64 \<Rightarrow> u64 res" where
  "rate_collateral_to_liquidity fx rate0 collateral_amount =
     bindR (unwrap (from_num fx (int collateral_amount))) (\<lambda>collateral.
     bindR (ok_or MocksMathError (checked_div fx collateral rate0)) (\<lambda>liquidity.
     ok_or MocksMathError (checked_to_u64 fx liquidity)))"

definition rate_liquidity_to_collateral :: "fixed_ops \<Rightarrow> I80F48 \<Rightarrow> u64 \<Rightarrow> u64 res" where
  "rate_liquidity_to_collateral fx rate0 liquidity_amount =
     bindR (unwrap (from_num fx (int liquidity_amount))) (\<lambda>liquidity.
     bindR (ok_or MocksMathError (checked_mul fx liquidity rate0)) (\<lambda>collateral.
     ok_or MocksMathError (checked_to_u64 fx collateral)))"

section \<open>Accounts and calls\<close>

record solend_accounts = integration_accounts +
  so_lending_market :: pubkey
  so_lending_market_authority :: pubkey
  so_reserve_liquidity_supply :: pubkey
  so_reserve_collateral_mint :: pubkey
  so_reserve_collateral_supply :: pubkey
  so_user_collateral :: pubkey
  so_pyth_price :: pubkey
  so_switchboard_feed :: pubkey
  so_solend_program :: pubkey
  so_token_program :: pubkey
  so_rent :: pubkey

definition meta :: "pubkey \<Rightarrow> bool \<Rightarrow> AccountMeta" where
  "meta k signer = \<lparr>am_pubkey = k, am_is_signer = signer, am_is_writable = True\<rparr>"

definition meta_ro :: "pubkey \<Rightarrow> bool \<Rightarrow> AccountMeta" where
  "meta_ro k signer = \<lparr>am_pubkey = k, am_is_signer = signer, am_is_writable = False\<rparr>"

text \<open>The instructions are built by hand: a byte for the instruction and the amount.\<close>

definition solend_init_ix :: "solend_accounts \<Rightarrow> Instruction" where
  "solend_init_ix so = \<lparr>program_id = SOLEND_PROGRAM_ID, ix_accounts =
      [meta (in_acc_2 so) False,
       meta_ro (so_lending_market so) False,
       meta_ro (in_vault_authority so) True,
       meta_ro (so_rent so) False,
       meta_ro (so_token_program so) False],
     ix_data = [6]\<rparr>"

definition solend_deposit_ix :: "solend_accounts \<Rightarrow> u64 \<Rightarrow> Instruction" where
  "solend_deposit_ix so liquidity_amount = \<lparr>program_id = SOLEND_PROGRAM_ID, ix_accounts =
      [meta (in_liquidity_vault so) False,
       meta (so_user_collateral so) False,
       meta (in_acc_1 so) False,
       meta (so_reserve_liquidity_supply so) False,
       meta (so_reserve_collateral_mint so) False,
       meta_ro (so_lending_market so) False,
       meta_ro (so_lending_market_authority so) False,
       meta (so_reserve_collateral_supply so) False,
       meta (in_acc_2 so) False,
       meta_ro (in_vault_authority so) True,
       meta_ro (so_pyth_price so) False,
       meta_ro (so_switchboard_feed so) False,
       meta_ro (in_vault_authority so) True,
       meta_ro (so_token_program so) False],
     ix_data = 14 # to_le 8 liquidity_amount\<rparr>"

definition solend_withdraw_ix :: "solend_accounts \<Rightarrow> u64 \<Rightarrow> Instruction" where
  "solend_withdraw_ix so collateral_amount = \<lparr>program_id = SOLEND_PROGRAM_ID, ix_accounts =
      [meta (so_reserve_collateral_supply so) False,
       meta (so_user_collateral so) False,
       meta (in_acc_1 so) False,
       meta (in_acc_2 so) False,
       meta (so_lending_market so) False,
       meta_ro (so_lending_market_authority so) False,
       meta (in_liquidity_vault so) False,
       meta (so_reserve_collateral_mint so) False,
       meta (so_reserve_liquidity_supply so) False,
       meta_ro (in_vault_authority so) True,
       meta_ro (in_vault_authority so) True,
       meta_ro (so_token_program so) False,
       meta (in_acc_1 so) False],
     ix_data = 15 # to_le 8 collateral_amount\<rparr>"

section \<open>Deposit\<close>

definition solend_deposited :: "'w chain \<Rightarrow> solend_accounts \<Rightarrow> 'w \<Rightarrow> u64 res" where
  "solend_deposited ch so w =
     bindR (ch_data ch (in_acc_2 so) w) get_solend_obligation_deposit_amount"

definition solend_owner_constraint :: "'w chain \<Rightarrow> solend_accounts \<Rightarrow> 'w \<Rightarrow> unit res" where
  "solend_owner_constraint ch so w =
     bindR (ch_data ch (in_acc_2 so) w) (\<lambda>acc. check (fst acc = SOLEND_PROGRAM_ID) InvalidSolendAccount)"

definition solend_reserve_constraint :: "'w chain \<Rightarrow> ix_env \<Rightarrow> solend_accounts \<Rightarrow> 'w \<Rightarrow> unit res" where
  "solend_reserve_constraint ch env so w =
     bindR (ch_solend_reserve ch (in_acc_1 so) w) (\<lambda>reserve.
     bindR (check (\<not> solend_is_stale (clock_slot (e_clock env)) reserve) SolendReserveStale) (\<lambda>_.
     constraint (so_solend_program so = SOLEND_PROGRAM_ID)))"

definition solend_guards ::
  "bool \<Rightarrow> 'w chain \<Rightarrow> ix_env \<Rightarrow> solend_accounts \<Rightarrow> MarginfiGroup \<Rightarrow> MarginfiAccount \<Rightarrow> Bank \<Rightarrow> 'w
    \<Rightarrow> unit res" where
  "solend_guards withdrawing ch env so g a b w =
     bindR (user_constraints withdrawing env so g a) (\<lambda>_.
     bindR (position_constraints InvalidSolendReserve InvalidSolendObligation so b) (\<lambda>_.
     bindR (mint_and_tag is_solend_asset_tag WrongBankAssetTagForSolendOperation (in_mint so) b) (\<lambda>_.
     bindR (if withdrawing then weight_constraint a b else Inr ()) (\<lambda>_.
     bindR (solend_owner_constraint ch so w) (\<lambda>_.
     bindR (solend_reserve_constraint ch env so w) (\<lambda>_.
     bindR (ch_data ch (in_acc_2 so) w) (\<lambda>obligation.
     validate_solend_obligation obligation (in_acc_1 so))))))))"

definition solend_deposit ::
  "'w chain \<Rightarrow> ix_env \<Rightarrow> solend_accounts \<Rightarrow> MarginfiGroup \<Rightarrow> u64 \<Rightarrow> MarginfiAccount \<times> Bank \<times> 'w
    \<Rightarrow> (MarginfiAccount \<times> Bank \<times> 'w) res" where
  "solend_deposit ch env so g amount s = (case s of (a, b, w) \<Rightarrow>
     bindR (solend_guards False ch env so g a b w) (\<lambda>_.
     bindR (deposit_ready a b) (\<lambda>_.
     bindR (solend_deposited ch so w) (\<lambda>initial.
     bindR (ch_solend_reserve ch (in_acc_1 so) w) (\<lambda>reserve.
     bindR (solend_liquidity_to_collateral (e_fx env) amount reserve) (\<lambda>expected.
     bindR (ch_transfer ch (transfer_in so amount) w) (\<lambda>w1.
     bindR (ch_call_ix ch (solend_deposit_ix so amount) (vault_signer so b) w1) (\<lambda>w2.
     bindR (solend_deposited ch so w2) (\<lambda>final.
     bindR (sub_u64 final initial) (\<lambda>change.
     bindR (assert_within_one_token change expected SolendDepositFailed) (\<lambda>_.
     bindR (credit_position env (in_bank so) g change a b) (\<lambda>(a', b').
     Inr (a', b', w2)))))))))))))"

section \<open>Withdraw\<close>

definition solend_withdraw ::
  "'w chain \<Rightarrow> ix_env \<Rightarrow> solend_accounts \<Rightarrow> AccountInfo list \<Rightarrow> u64 \<Rightarrow> bool option
    \<Rightarrow> MarginfiGroup \<times> MarginfiAccount \<times> Bank \<times> 'w
    \<Rightarrow> (MarginfiGroup \<times> MarginfiAccount \<times> Bank \<times> 'w) res" where
  "solend_withdraw ch env so ais amount everything s = (case s of (g, a, b, w) \<Rightarrow>
     bindR (solend_guards True ch env so g a b w) (\<lambda>_.
     bindR (withdraw_ready a b) (\<lambda>_.
     bindR (withdraw_collateral env (in_bank so) ais amount
              (case everything of Some v \<Rightarrow> v | None \<Rightarrow> False) g a b) (\<lambda>(g1, collateral, la, b1).
     bindR (solend_deposited ch so w) (\<lambda>initial.
     bindR (ch_amount ch (in_liquidity_vault so) w) (\<lambda>pre_transfer.
     bindR (ch_solend_reserve ch (in_acc_1 so) w) (\<lambda>reserve.
     bindR (solend_collateral_to_liquidity (e_fx env) collateral reserve) (\<lambda>expected.
     bindR (ch_call_ix ch (solend_withdraw_ix so collateral) (vault_signer so b) w) (\<lambda>w1.
     bindR (solend_deposited ch so w1) (\<lambda>final.
     bindR (sub_u64 initial final) (\<lambda>change.
     bindR (assert_within_one_token change collateral SolendWithdrawFailed) (\<lambda>_.
     bindR (ch_amount ch (in_liquidity_vault so) w1) (\<lambda>post_transfer.
     bindR (sub_u64 post_transfer pre_transfer) (\<lambda>received.
     bindR (assert_within_one_token received expected SolendWithdrawFailed) (\<lambda>_.
     bindR (ch_transfer ch (transfer_out so received) w1) (\<lambda>w2.
     bindR (update_bank_cache (e_fx env) (e_now env) g1 b1) (\<lambda>b2.
     bindR (withdraw_finish env (in_bank so) ais la a b2) (\<lambda>(a', b').
     Inr (g1, a', b', w2)))))))))))))))))))"

section \<open>Opening the obligation of a bank\<close>

text \<open>Anchor creates the obligation's account before; the token account is the fee payer's.\<close>

definition solend_init_obligation ::
  "'w chain \<Rightarrow> solend_accounts \<Rightarrow> pubkey \<Rightarrow> pubkey \<Rightarrow> pubkey \<Rightarrow> Bank \<Rightarrow> u64 \<Rightarrow> 'w \<Rightarrow> 'w res" where
  "solend_init_obligation ch so fee_payer token_mint token_owner b amount w =
     bindR (init_guards (init_bank_check InvalidSolendReserve InvalidSolendObligation is_solend_asset_tag
              WrongBankAssetTagForSolendOperation so)
              (in_mint so) fee_payer token_mint token_owner b) (\<lambda>_.
     bindR (constraint (so_solend_program so = SOLEND_PROGRAM_ID)) (\<lambda>_.
     bindR (check (amount \<ge> 10) ObligationInitDepositInsufficient) (\<lambda>_.
     bindR (ch_call_ix ch (solend_init_ix so) (vault_signer so b) w) (\<lambda>w1.
     bindR (ch_transfer ch (transfer_nominal fee_payer so amount) w1) (\<lambda>w2.
     ch_call_ix ch (solend_deposit_ix so amount) (vault_signer so b) w2)))))"

end
