(* ===== verification/IntegrationFacts.thy ===== *)
theory IntegrationFacts
  imports TokenFacts SolendIx
begin

text \<open>
  What deposits to and withdrawals from banks on other lending programs have in common. The shape
  of each handler that succeeds; the contract \<open>position_ops\<close> of such a pair of handlers, which gives
  that they keep the ledger; and \<open>backed_ops\<close>, which adds the position in the other program and
  gives that the bank owes its users no more than that position holds. Kamino, Drift and Solend
  provide both.
\<close>

section \<open>What the handlers read\<close>

text \<open>The numbers that the accounts hold fit their types.\<close>

locale typed_chain = fixed_arith fx for fx :: fixed_ops +
  fixes ch :: "'w chain"
  assumes kamino_typed: "ch_kamino_obligation ch k w = Inr ob \<Longrightarrow> d \<in> set (ob_deposits ob) \<Longrightarrow>
      deposited_amount d \<le> u64_max"
    and drift_typed: "ch_drift_user ch k w = Inr u \<Longrightarrow> p \<in> set (spot_positions u) \<Longrightarrow>
      scaled_balance p \<le> u64_max"
    and data_typed: "ch_data ch k w = Inr (owner, bytes) \<Longrightarrow> x \<in> set bytes \<Longrightarrow> x < 256"

section \<open>The shape of a handler that succeeds\<close>

lemma user_constraints_shape:
  assumes "user_constraints r env acc g a = Inr ()"
  shows "not_paused g (e_now env) = Inr ()"
    and "account_constraints r (in_group acc) (in_authority acc) g a = Inr ()"
  using assms by (auto simp: user_constraints_def elim!: bindR_InrE)

lemma position_constraints_keys:
  "position_constraints e1 e2 acc b = Inr () \<longleftrightarrow> bank_in_group (in_group acc) b = Inr ()
     \<and> liquidity_vault b = in_liquidity_vault acc \<and> integration_acc_1 b = in_acc_1 acc
     \<and> integration_acc_2 b = in_acc_2 acc"
  by (auto simp: position_constraints_def bindR_eq_Inr check_def)

lemma sub_u64_eq: "sub_u64 x y = Inr z \<longleftrightarrow> y \<le> x \<and> z = x - y"
  by (auto simp: sub_u64_def checked_sub_nat_def res_simps)

lemma within_one_token:
  "assert_within_one_token x y e = Inr () \<longleftrightarrow> x \<le> y + 1 \<and> y \<le> x + 1"
  by (auto simp: assert_within_one_token_def Let_def max_def min_def)

lemma credit_cases:
  assumes "credit_position env key g change a b = Inr (a', b')"
  obtains i la v la' b1 where
    "find_or_create (e_now env) key b (lending_account a) = Inr (i, la)"
    "amount_num env change = Inr v"
    "run_at i (deposit_no_repay (e_fx env) (e_now env) v) la b = Inr (la', b1)"
    "update_bank_cache (e_fx env) (e_now env) g b1 = Inr b'" "a' = booked env la' a"
  using assms unfolding credit_position_def
  by (elim bindE) (rule that, (assumption | simp)+)

lemma withdraw_collateral_cases:
  assumes "withdraw_collateral env key ais amount all g a b = Inr (g1, n, la, b1)"
  obtains price i where
    "receivership_price env key a b ais = Inr price"
    "wrapper_find key (lending_account a) = Inr i"
    "withdraw_tokens env None amount all i (lending_account a) b = Inr (n, la, b1)"
    "track_deleverage env a n price b1 g = Inr g1"
  using assms unfolding withdraw_collateral_def
  by (elim bindE) (rule that, (assumption | simp)+)

lemma withdraw_finish_cases:
  assumes "withdraw_finish env key ais la a b = Inr (a', b')"
  obtains p where "withdraw_health env key b (booked env la a) ais = Inr (a', p)"
    "b' = update_cache_price (e_now env) p b"
  using assms unfolding withdraw_finish_def by (elim bindE) (rule that, (assumption | simp)+)

lemma kamino_deposit_cases:
  assumes "kamino_deposit ch env ka g amount (a, b, w) = Inr (a', b', w')"
  obtains initial reserve expected w1 final change where
    "kamino_deposit_guards ch env ka g a b w = Inr ()" "deposit_ready a b = Inr ()"
    "first_deposited ch ka w = Inr initial" "ch_kamino_reserve ch (in_acc_1 ka) w = Inr reserve"
    "kamino_liquidity_to_collateral (e_fx env) amount reserve = Inr expected"
    "ch_transfer ch (transfer_in ka amount) w = Inr w1"
    "ch_call ch (cpi_kamino_deposit ka b amount) w1 = Inr w'"
    "first_deposited ch ka w' = Inr final" "sub_u64 final initial = Inr change"
    "assert_within_one_token change expected KaminoDepositFailed = Inr ()"
    "credit_position env (in_bank ka) g change a b = Inr (a', b')"
  using assms unfolding kamino_deposit_def prod.case
  by (elim bindE) (rule that, (assumption | simp)+)

lemma kamino_withdraw_cases:
  assumes "kamino_withdraw ch env ka ais amount all (g, a, b, w) = Inr (g', a', b', w')"
  obtains pre initial collateral la b1 b2 reserve expected w1 final post received where
    "kamino_withdraw_guards ch env ka g a b w = Inr ()"
    "ch_amount ch (in_liquidity_vault ka) w = Inr pre" "first_deposited ch ka w = Inr initial"
    "withdraw_ready a b = Inr ()"
    "withdraw_collateral env (in_bank ka) ais amount (case all of Some v \<Rightarrow> v | None \<Rightarrow> False) g a b
       = Inr (g', collateral, la, b1)"
    "update_bank_cache (e_fx env) (e_now env) g' b1 = Inr b2"
    "ch_kamino_reserve ch (in_acc_1 ka) w = Inr reserve"
    "kamino_collateral_to_liquidity (e_fx env) collateral reserve = Inr expected"
    "ch_call ch (cpi_kamino_withdraw ka b2 collateral) w = Inr w1"
    "first_deposited ch ka w1 = Inr final" "sub_u64 initial final = Inr collateral"
    "ch_amount ch (in_liquidity_vault ka) w1 = Inr post" "sub_u64 post pre = Inr received"
    "assert_within_one_token received expected KaminoWithdrawFailed = Inr ()"
    "ch_transfer ch (transfer_out ka received) w1 = Inr w'"
    "withdraw_finish env (in_bank ka) ais la a b2 = Inr (a', b')"
  using assms unfolding kamino_withdraw_def prod.case
  by (elim bindE) (rule that, (assumption | simp add: check_def split: if_splits)+)

lemma drift_deposit_cases:
  assumes "drift_deposit ch env da g amount (a, b, w) = Inr (a', b', w')"
  obtains market w1 fresh expected initial w2 final change where
    "drift_deposit_guards ch env da g a b w = Inr ()" "deposit_ready a b = Inr ()"
    "ch_drift_market ch (in_acc_1 da) w = Inr market"
    "ch_call ch (cpi_update_interest da) w = Inr w1"
    "ch_drift_market ch (in_acc_1 da) w1 = Inr fresh"
    "get_scaled_balance_increment amount fresh = Inr expected"
    "drift_position ch da (sm_market_index market) w1 = Inr initial"
    "ch_transfer ch (transfer_in da amount) w1 = Inr w2"
    "ch_call ch (cpi_drift_deposit da b (sm_market_index market) amount) w2 = Inr w'"
    "drift_position ch da (sm_market_index market) w' = Inr final"
    "sub_u64 final initial = Inr change" "change = expected"
    "credit_position env (in_bank da) g change a b = Inr (a', b')"
  using assms unfolding drift_deposit_def prod.case Let_def
  by (elim bindE) (rule that, (assumption | simp add: check_def split: if_splits)+)

text \<open>A withdrawal that takes all of a position worth nothing leaves the world as it is.\<close>

lemma drift_payout_cases:
  assumes "drift_payout ch da b idx all tokens expected w = Inr w'"
  obtains (skipped) all "tokens = 0" "w' = w"
    | (paid) initial pre w1 final post where
      "drift_position ch da idx w = Inr initial"
      "ch_amount ch (in_liquidity_vault da) w = Inr pre"
      "ch_call ch (cpi_drift_withdraw da b idx tokens) w = Inr w1"
      "drift_position ch da idx w1 = Inr final"
      "ch_amount ch (in_liquidity_vault da) w1 = Inr post"
      "sub_u64 post pre = Inr tokens" "sub_u64 initial final = Inr expected"
      "ch_transfer ch (transfer_out da tokens) w1 = Inr w'"
proof (cases "all \<and> tokens = 0")
  case True
  then show ?thesis using assms skipped by (simp add: drift_payout_def)
next
  case False
  show ?thesis
    using assms unfolding drift_payout_def if_not_P [OF False]
    by (elim bindE) (rule paid, (assumption | simp add: check_def split: if_splits)+)
qed

lemma drift_withdraw_cases:
  assumes "drift_withdraw ch env da ais amount all_of_it (g, a, b, w) = Inr (g', a', b', w')"
  obtains w1 price market i tokens expected la b1 b2 where
    "drift_withdraw_guards ch env da g a b w = Inr ()"
    "ch_call ch (cpi_update_interest da) w = Inr w1" "withdraw_ready a b = Inr ()"
    "receivership_price env (in_bank da) a b ais = Inr price"
    "ch_drift_market ch (in_acc_1 da) w1 = Inr market"
    "wrapper_find (in_bank da) (lending_account a) = Inr i"
    "drift_withdraw_tokens env market amount (case all_of_it of Some v \<Rightarrow> v | None \<Rightarrow> False) i
       (lending_account a) b = Inr ((tokens, expected), la, b1)"
    "track_deleverage env a expected price b1 g = Inr g'"
    "drift_payout ch da b1 (sm_market_index market) (case all_of_it of Some v \<Rightarrow> v | None \<Rightarrow> False)
       tokens expected w1 = Inr w'"
    "update_bank_cache (e_fx env) (e_now env) g' b1 = Inr b2"
    "withdraw_finish env (in_bank da) ais la a b2 = Inr (a', b')"
  using assms unfolding drift_withdraw_def prod.case Let_def
  by (elim bindE) (auto elim!: bindE intro: that)

lemma solend_deposit_cases:
  assumes "solend_deposit ch env so g amount (a, b, w) = Inr (a', b', w')"
  obtains initial reserve expected w1 final change where
    "solend_guards False ch env so g a b w = Inr ()" "deposit_ready a b = Inr ()"
    "solend_deposited ch so w = Inr initial" "ch_solend_reserve ch (in_acc_1 so) w = Inr reserve"
    "solend_liquidity_to_collateral (e_fx env) amount reserve = Inr expected"
    "ch_transfer ch (transfer_in so amount) w = Inr w1"
    "ch_call_ix ch (solend_deposit_ix so amount) (vault_signer so b) w1 = Inr w'"
    "solend_deposited ch so w' = Inr final" "sub_u64 final initial = Inr change"
    "assert_within_one_token change expected SolendDepositFailed = Inr ()"
    "credit_position env (in_bank so) g change a b = Inr (a', b')"
  using assms unfolding solend_deposit_def prod.case
  by (elim bindE) (rule that, (assumption | simp)+)

lemma solend_withdraw_cases:
  assumes "solend_withdraw ch env so ais amount all (g, a, b, w) = Inr (g', a', b', w')"
  obtains collateral la b1 initial pre reserve expected w1 final change post received b2 where
    "solend_guards True ch env so g a b w = Inr ()" "withdraw_ready a b = Inr ()"
    "withdraw_collateral env (in_bank so) ais amount (case all of Some v \<Rightarrow> v | None \<Rightarrow> False) g a b
       = Inr (g', collateral, la, b1)"
    "solend_deposited ch so w = Inr initial"
    "ch_amount ch (in_liquidity_vault so) w = Inr pre"
    "ch_solend_reserve ch (in_acc_1 so) w = Inr reserve"
    "solend_collateral_to_liquidity (e_fx env) collateral reserve = Inr expected"
    "ch_call_ix ch (solend_withdraw_ix so collateral) (vault_signer so b) w = Inr w1"
    "solend_deposited ch so w1 = Inr final" "sub_u64 initial final = Inr change"
    "assert_within_one_token change collateral SolendWithdrawFailed = Inr ()"
    "ch_amount ch (in_liquidity_vault so) w1 = Inr post" "sub_u64 post pre = Inr received"
    "assert_within_one_token received expected SolendWithdrawFailed = Inr ()"
    "ch_transfer ch (transfer_out so received) w1 = Inr w'"
    "update_bank_cache (e_fx env) (e_now env) g' b1 = Inr b2"
    "withdraw_finish env (in_bank so) ais la a b2 = Inr (a', b')"
  using assms unfolding solend_withdraw_def prod.case
  by (elim bindE) (rule that, (assumption | simp)+)

section \<open>The contract of deposits and withdrawals\<close>

text \<open>The steps that each handler makes possible, for the account of one user in one bank.\<close>

inductive kamino_in :: "fixed_ops \<Rightarrow> 'w chain \<Rightarrow> pubkey \<Rightarrow>
    MarginfiAccount \<times> Bank \<times> 'w \<Rightarrow> MarginfiAccount \<times> Bank \<times> 'w \<Rightarrow> bool" for fx ch where
  "kamino_deposit ch env ka g n s = Inr s' \<Longrightarrow> e_fx env = fx \<Longrightarrow> kamino_in fx ch (in_bank ka) s s'"

inductive kamino_out :: "fixed_ops \<Rightarrow> 'w chain \<Rightarrow> pubkey \<Rightarrow>
    MarginfiAccount \<times> Bank \<times> 'w \<Rightarrow> MarginfiAccount \<times> Bank \<times> 'w \<Rightarrow> bool" for fx ch where
  "kamino_withdraw ch env ka ais n all (g, s) = Inr (g', s') \<Longrightarrow> e_fx env = fx \<Longrightarrow> n \<le> u64_max \<Longrightarrow>
   kamino_out fx ch (in_bank ka) s s'"

inductive drift_in :: "fixed_ops \<Rightarrow> 'w chain \<Rightarrow> pubkey \<Rightarrow>
    MarginfiAccount \<times> Bank \<times> 'w \<Rightarrow> MarginfiAccount \<times> Bank \<times> 'w \<Rightarrow> bool" for fx ch where
  "drift_deposit ch env da g n s = Inr s' \<Longrightarrow> e_fx env = fx \<Longrightarrow> drift_in fx ch (in_bank da) s s'"

inductive drift_out :: "fixed_ops \<Rightarrow> 'w chain \<Rightarrow> pubkey \<Rightarrow>
    MarginfiAccount \<times> Bank \<times> 'w \<Rightarrow> MarginfiAccount \<times> Bank \<times> 'w \<Rightarrow> bool" for fx ch where
  "drift_withdraw ch env da ais n all (g, s) = Inr (g', s') \<Longrightarrow> e_fx env = fx \<Longrightarrow>
   drift_out fx ch (in_bank da) s s'"

inductive solend_in :: "fixed_ops \<Rightarrow> 'w chain \<Rightarrow> pubkey \<Rightarrow>
    MarginfiAccount \<times> Bank \<times> 'w \<Rightarrow> MarginfiAccount \<times> Bank \<times> 'w \<Rightarrow> bool" for fx ch where
  "solend_deposit ch env so g n s = Inr s' \<Longrightarrow> e_fx env = fx \<Longrightarrow> solend_in fx ch (in_bank so) s s'"

inductive solend_out :: "fixed_ops \<Rightarrow> 'w chain \<Rightarrow> pubkey \<Rightarrow>
    MarginfiAccount \<times> Bank \<times> 'w \<Rightarrow> MarginfiAccount \<times> Bank \<times> 'w \<Rightarrow> bool" for fx ch where
  "solend_withdraw ch env so ais n all (g, s) = Inr (g', s') \<Longrightarrow> e_fx env = fx \<Longrightarrow> n \<le> u64_max \<Longrightarrow>
   solend_out fx ch (in_bank so) s s'"

text \<open>What a withdrawal of \<open>n\<close> units of the position does to the balance and the bank.\<close>

definition debit_position ::
  "ix_env \<Rightarrow> pubkey \<Rightarrow> u64 \<Rightarrow> MarginfiAccount \<Rightarrow> Bank \<Rightarrow> LendingAccount \<Rightarrow> Bank \<Rightarrow> bool" where
  "debit_position env key n a b la b1 \<longleftrightarrow> (\<exists>i. wrapper_find key (lending_account a) = Inr i
     \<and> ((\<exists>m \<ge> n. at_balance i (withdraw_all (e_fx env) (e_now env)) (lending_account a, b) = Inr (m, la, b1))
        \<or> (\<exists>v. n \<le> u64_max \<and> amount_num env n = Inr v
             \<and> run_at i (withdraw (e_fx env) (e_now env) v) (lending_account a) b = Inr (la, b1))))"

text \<open>The account and the bank of a deposit and of a withdrawal; the world is only passed on.\<close>

locale position_ops = fixed_arith fx for fx :: fixed_ops +
  fixes dep wd :: "pubkey \<Rightarrow> MarginfiAccount \<times> Bank \<times> 'w \<Rightarrow> MarginfiAccount \<times> Bank \<times> 'w \<Rightarrow> bool"
  assumes credits: "dep pk (a, b, w) (a', b', w') \<Longrightarrow>
      \<exists>env g n. e_fx env = fx \<and> n \<le> u64_max \<and> credit_position env pk g n a b = Inr (a', b')"
    and debits: "wd pk (a, b, w) (a', b', w') \<Longrightarrow>
      \<exists>env g ais n la b1 b2. e_fx env = fx \<and> debit_position env pk n a b la b1
        \<and> update_bank_cache fx (e_now env) g b1 = Inr b2 \<and> withdraw_finish env pk ais la a b2 = Inr (a', b')"

context fixed_arith
begin

lemma credit_inv:
  assumes "credit_position env pk g n a b = Inr (a', b')" and fx: "e_fx env = fx" and "n \<le> u64_max"
    and inv: "account_inv pk ra rl others (lending_account a, b)"
  shows "account_inv pk ra rl others (lending_account a', b')"
  using assms(1)
proof (cases rule: credit_cases)
  case (1 i la v la' b1)
  note 1 = 1 [unfolded fx]
  have "0 \<le> v" using amount_num_eq [OF 1(2) fx assms(3)] by simp
  then have "account_inv pk ra rl others (la', b1)"
    using inv_increase [OF 1(3) [unfolded deposit_no_repay_def] index_of_created [OF 1(1)]] inv_open [OF 1(1) inv]
    by simp
  then show ?thesis using inv_sort inv_cache [OF 1(4)] 1(5) by simp
qed

lemma debit_inv:
  assumes "debit_position env pk n a b la b1" and fx: "e_fx env = fx"
    and inv: "account_inv pk ra rl others (lending_account a, b)"
  shows "account_inv pk ra rl others (la, b1)"
proof -
  obtain i where i: "wrapper_find pk (lending_account a) = Inr i"
    and r: "(\<exists>m. at_balance i (withdraw_all fx (e_now env)) (lending_account a, b) = Inr (m, la, b1))
      \<or> (\<exists>v. n \<le> u64_max \<and> amount_num env n = Inr v \<and> run_at i (withdraw fx (e_now env) v) (lending_account a) b = Inr (la, b1))"
    using assms(1) unfolding debit_position_def fx by blast
  note ix = index_of_find [OF i]
  from r show ?thesis
  proof (elim disjE exE conjE)
    fix m assume "at_balance i (withdraw_all fx (e_now env)) (lending_account a, b) = Inr (m, la, b1)"
    then show ?thesis using ix inv by (rule inv_withdraw_all)
  next
    fix v assume n: "n \<le> u64_max" and v: "amount_num env n = Inr v"
      and "run_at i (withdraw fx (e_now env) v) (lending_account a) b = Inr (la, b1)"
    then show ?thesis
      using inv_decrease [OF _ ix inv] amount_num_eq [OF v fx n] unfolding withdraw_def by blast
  qed
qed

lemma finish_inv:
  assumes "withdraw_finish env key ais la a b = Inr (a', b')" and "account_inv pk ra rl others (la, b)"
  shows "account_inv pk ra rl others (lending_account a', b')"
  using assms(1)
proof (cases rule: withdraw_finish_cases)
  case (1 p)
  then show ?thesis using withdraw_health_frame [OF 1(1)] inv_sort inv_price assms(2) by simp
qed

end

context position_ops
begin

lemma deposit_keeps_ledger:
  assumes "dep pk (a, b, w) (a', b', w')" and "account_inv pk ra rl others (lending_account a, b)"
  shows "account_inv pk ra rl others (lending_account a', b')"
  using credits [OF assms(1)] credit_inv assms(2) by blast

lemma withdraw_keeps_ledger:
  assumes "wd pk (a, b, w) (a', b', w')" and inv: "account_inv pk ra rl others (lending_account a, b)"
  shows "account_inv pk ra rl others (lending_account a', b')"
proof -
  obtain env g ais n la b1 b2 where fx: "e_fx env = fx" and d: "debit_position env pk n a b la b1"
    and c: "update_bank_cache fx (e_now env) g b1 = Inr b2"
    and f: "withdraw_finish env pk ais la a b2 = Inr (a', b')"
    using debits [OF assms(1)] by blast
  show ?thesis by (rule finish_inv [OF f inv_cache [OF c debit_inv [OF d fx inv]]])
qed

end

section \<open>The three programs provide the contract\<close>

lemma first_deposited_cases:
  assumes "first_deposited ch acc w = Inr n"
  obtains ob d where "ch_kamino_obligation ch (in_acc_2 acc) w = Inr ob" "d \<in> set (ob_deposits ob)"
    "n = deposited_amount d"
  using assms unfolding first_deposited_def first_deposit_def
  by (elim bindR_InrE) (auto split: list.splits intro: that)

lemma drift_position_cases:
  assumes "drift_position ch da idx w = Inr n"
  obtains u p where "ch_drift_user ch (in_acc_2 da) w = Inr u" "p \<in> set (spot_positions u)"
    "n = scaled_balance p"
  using assms unfolding drift_position_def user_scaled_balance_def position_at_def
  by (elim bindR_InrE) (auto split: if_splits intro: that [OF _ nth_mem])

lemma decrement_u64: "get_scaled_balance_decrement n m = Inr k \<Longrightarrow> k \<le> u64_max"
  by (auto simp: get_scaled_balance_decrement_def get_scaled_balance_def checked_add_u64_def opt_def ok_or_def
      elim!: bindR_InrE split: if_splits option.splits)

lemma from_le_bytes: "(\<And>x. x \<in> set bs \<Longrightarrow> x < 256) \<Longrightarrow> from_le bs < 256 ^ length bs"
proof (induction bs)
  case (Cons b bs)
  then have "from_le bs < 256 ^ length bs" "b < 256" by auto
  then have "b + 256 * from_le bs < 256 * 256 ^ length bs" by linarith
  then show ?case by (simp add: from_le_def)
qed (simp add: from_le_def)

context typed_chain
begin

lemma first_deposited_u64: "first_deposited ch acc w = Inr n \<Longrightarrow> n \<le> u64_max"
  by (erule first_deposited_cases) (auto intro: kamino_typed)

lemma drift_position_u64: "drift_position ch da idx w = Inr n \<Longrightarrow> n \<le> u64_max"
  by (erule drift_position_cases) (auto intro: drift_typed)

lemma solend_deposited_u64:
  assumes "solend_deposited ch so w = Inr n"
  shows "n \<le> u64_max"
proof -
  obtain owner bytes where d: "ch_data ch (in_acc_2 so) w = Inr (owner, bytes)"
    and n: "n = from_le (slice 236 244 bytes)"
    using assms by (auto simp: solend_deposited_def get_solend_obligation_deposit_amount_def
        solend_obligation_data_def obligation_amount_def elim!: bindR_InrE)
  have "x < 256" if "x \<in> set (slice 236 244 bytes)" for x
    using data_typed [OF d] that by (auto simp: slice_def dest: in_set_takeD in_set_dropD)
  then have "n < 256 ^ length (slice 236 244 bytes)" unfolding n by (rule from_le_bytes)
  also have "\<dots> \<le> 256 ^ 8" by (rule power_increasing) (simp_all add: slice_def)
  finally show ?thesis by (simp add: u64_max_def)
qed

lemma withdraw_collateral_debits:
  assumes "withdraw_collateral env key ais amount all g a b = Inr (g1, n, la, b1)"
    and "amount \<le> u64_max"
  shows "debit_position env key n a b la b1"
  using assms(1)
proof (cases rule: withdraw_collateral_cases)
  case (1 price i)
  show ?thesis
    using 1(2,3) assms(2) unfolding withdraw_tokens_def debit_position_def pre_fee_def
    by (auto elim!: bindE split: if_splits)
qed

lemma drift_tokens_debit:
  assumes "drift_withdraw_tokens env m amount all i (lending_account a) b = Inr ((tokens, n), la, b1)"
    and "wrapper_find key (lending_account a) = Inr i"
  shows "debit_position env key n a b la b1"
proof (cases all)
  case True
  then obtain scaled where r: "at_balance i (withdraw_all (e_fx env) (e_now env)) (lending_account a, b)
      = Inr (scaled, la, b1)" and t: "drift_all_tokens m scaled = Inr (tokens, n)"
    using assms(1) unfolding drift_withdraw_tokens_def by (auto elim!: bindE)
  from t have "n \<le> scaled"
    by (auto simp: drift_all_tokens_def check_def elim!: bindE split: if_splits)
  with r show ?thesis using assms(2) by (auto simp: debit_position_def)
next
  case False
  then obtain v where "drift_some_tokens m amount (to_num_u64 (asset_shares (balances (lending_account a) ! i)))
      = Inr (tokens, n)" and v: "amount_num env n = Inr v"
    and r: "run_at i (withdraw (e_fx env) (e_now env) v) (lending_account a) b = Inr (la, b1)"
    using assms(1) unfolding drift_withdraw_tokens_def by (auto elim!: bindE)
  then have "n \<le> u64_max"
    by (auto simp: drift_some_tokens_def decrement_u64 elim!: bindE split: if_splits)
  then show ?thesis using v r assms(2) by (auto simp: debit_position_def)
qed

end

sublocale typed_chain < kamino: position_ops fx "kamino_in fx ch" "kamino_out fx ch"
proof unfold_locales
  fix pk a b w a' b' w'
  assume "kamino_in fx ch pk (a, b, w) (a', b', w')"
  then show "\<exists>env g n. e_fx env = fx \<and> n \<le> u64_max \<and> credit_position env pk g n a b = Inr (a', b')"
  proof cases
    case (1 env ka g n)
    from 1(2) show ?thesis
    proof (cases rule: kamino_deposit_cases)
      case r: (1 initial reserve expected w1 final change)
      then have "change \<le> u64_max" using first_deposited_u64 [OF r(8)] by (simp add: sub_u64_eq)
      then show ?thesis using r(11) 1(1,3) by blast
    qed
  qed
next
  fix pk a b w a' b' w'
  assume "kamino_out fx ch pk (a, b, w) (a', b', w')"
  then show "\<exists>env g ais n la b1 b2. e_fx env = fx \<and> debit_position env pk n a b la b1
      \<and> update_bank_cache fx (e_now env) g b1 = Inr b2 \<and> withdraw_finish env pk ais la a b2 = Inr (a', b')"
  proof cases
    case (1 env ka ais n all g g')
    from 1(2) show ?thesis
    proof (cases rule: kamino_withdraw_cases)
      case r: (1 pre initial collateral la b1 b2 reserve expected w1 final post received)
      show ?thesis using withdraw_collateral_debits [OF r(5) 1(4)] r(6,16) 1(1,3) by blast
    qed
  qed
qed

sublocale typed_chain < drift: position_ops fx "drift_in fx ch" "drift_out fx ch"
proof unfold_locales
  fix pk a b w a' b' w'
  assume "drift_in fx ch pk (a, b, w) (a', b', w')"
  then show "\<exists>env g n. e_fx env = fx \<and> n \<le> u64_max \<and> credit_position env pk g n a b = Inr (a', b')"
  proof cases
    case (1 env da g n)
    from 1(2) show ?thesis
    proof (cases rule: drift_deposit_cases)
      case r: (1 market w1 fresh expected initial w2 final change)
      then have "change \<le> u64_max" using drift_position_u64 [OF r(10)] by (simp add: sub_u64_eq)
      then show ?thesis using r(13) 1(1,3) by blast
    qed
  qed
next
  fix pk a b w a' b' w'
  assume "drift_out fx ch pk (a, b, w) (a', b', w')"
  then show "\<exists>env g ais n la b1 b2. e_fx env = fx \<and> debit_position env pk n a b la b1
      \<and> update_bank_cache fx (e_now env) g b1 = Inr b2 \<and> withdraw_finish env pk ais la a b2 = Inr (a', b')"
  proof cases
    case (1 env da ais n all g g')
    from 1(2) show ?thesis
    proof (cases rule: drift_withdraw_cases)
      case r: (1 w1 price market i tokens expected la b1 b2)
      show ?thesis using drift_tokens_debit [OF r(7,6)] r(10,11) 1(1,3) by blast
    qed
  qed
qed

sublocale typed_chain < solend: position_ops fx "solend_in fx ch" "solend_out fx ch"
proof unfold_locales
  fix pk a b w a' b' w'
  assume "solend_in fx ch pk (a, b, w) (a', b', w')"
  then show "\<exists>env g n. e_fx env = fx \<and> n \<le> u64_max \<and> credit_position env pk g n a b = Inr (a', b')"
  proof cases
    case (1 env so g n)
    from 1(2) show ?thesis
    proof (cases rule: solend_deposit_cases)
      case r: (1 initial reserve expected w1 final change)
      then have "change \<le> u64_max" using solend_deposited_u64 [OF r(8)] by (simp add: sub_u64_eq)
      then show ?thesis using r(11) 1(1,3) by blast
    qed
  qed
next
  fix pk a b w a' b' w'
  assume "solend_out fx ch pk (a, b, w) (a', b', w')"
  then show "\<exists>env g ais n la b1 b2. e_fx env = fx \<and> debit_position env pk n a b la b1
      \<and> update_bank_cache fx (e_now env) g b1 = Inr b2 \<and> withdraw_finish env pk ais la a b2 = Inr (a', b')"
  proof cases
    case (1 env so ais n all g g')
    from 1(2) show ?thesis
    proof (cases rule: solend_withdraw_cases)
      case r: (1 collateral la b1 initial pre reserve expected w1 final change post received b2)
      show ?thesis using withdraw_collateral_debits [OF r(3) 1(4)] r(16,17) 1(1,3) by blast
    qed
  qed
qed

end
