(* ===== verification/BankIx.thy ===== *)
theory BankIx
  imports IxBase
begin

text \<open>
  The administrative instructions on a bank (\<open>instructions/marginfi_group/\<close>): adding and
  closing banks, configuration, e-mode, oracles, emissions, staked settings, interest accrual, and
  collecting and withdrawing fees.
\<close>

section \<open>Configuration\<close>

definition lending_pool_configure_bank ::
  "fixed_ops \<Rightarrow> pubkey \<Rightarrow> pubkey \<Rightarrow> MarginfiGroup \<Rightarrow> BankConfigOpt \<Rightarrow> Bank \<Rightarrow> Bank res" where
  "lending_pool_configure_bank fx signer group_key g bank_config b =
     bindR (check (admin g = signer) Unauthorized) (\<lambda>_.
     bindR (bank_in_group group_key b) (\<lambda>_.
     if bank_get_flag b FREEZE_SETTINGS then Inr (configure_unfrozen_fields_only bank_config b)
     else bindR (bank_configure bank_config b) (\<lambda>b'.
          bindR (validate_entries_with_liability_weights fx (config b') (emode_max_init_leverage g)
                   (emode_max_maint_leverage g) (emode b')) (\<lambda>_. Inr b'))))"

definition lending_pool_configure_bank_interest_only ::
  "pubkey \<Rightarrow> pubkey \<Rightarrow> MarginfiGroup \<Rightarrow> InterestRateConfigOpt \<Rightarrow> Bank \<Rightarrow> Bank res" where
  "lending_pool_configure_bank_interest_only signer group_key g ir b =
     bindR (check (delegate_curve_admin g = signer) Unauthorized) (\<lambda>_.
     bindR (bank_in_group group_key b) (\<lambda>_.
     if bank_get_flag b FREEZE_SETTINGS then Inr b
     else let ir' = ir_update ir (interest_rate_config (config b))
          in bindR (ir_validate ir') (\<lambda>_. Inr (b\<lparr>config := (config b)\<lparr>interest_rate_config := ir'\<rparr>\<rparr>))))"

definition lending_pool_configure_bank_limits_only ::
  "pubkey \<Rightarrow> pubkey \<Rightarrow> MarginfiGroup \<Rightarrow> u64 option \<Rightarrow> u64 option \<Rightarrow> u64 option \<Rightarrow> Bank \<Rightarrow> Bank res" where
  "lending_pool_configure_bank_limits_only signer group_key g dep bor init_limit b =
     bindR (check (delegate_limit_admin g = signer) Unauthorized) (\<lambda>_.
     bindR (bank_in_group group_key b) (\<lambda>_.
     let c = (config b)\<lparr>deposit_limit := set_if_some dep (deposit_limit (config b)),
                borrow_limit := set_if_some bor (borrow_limit (config b))\<rparr>
     in Inr (b\<lparr>config := (if bank_get_flag b FREEZE_SETTINGS then c
          else c\<lparr>total_asset_value_init_limit :=
                   set_if_some init_limit (total_asset_value_init_limit c)\<rparr>)\<rparr>)))"

definition lending_pool_force_tokenless_repay_complete ::
  "pubkey \<Rightarrow> pubkey \<Rightarrow> MarginfiGroup \<Rightarrow> Bank \<Rightarrow> Bank res" where
  "lending_pool_force_tokenless_repay_complete signer group_key g b =
     bindR (check (risk_admin g = signer) Unauthorized) (\<lambda>_.
     bindR (bank_in_group group_key b) (\<lambda>_.
     if bank_get_flag b TOKENLESS_REPAYMENTS_ALLOWED
     then update_flag True TOKENLESS_REPAYMENTS_COMPLETE b else Inr b))"

text \<open>
  The curve of a bank moved from the legacy format to the seven-point one, by anybody. The rates are
  read for the log only.
\<close>

definition migrate_curve :: "fixed_ops \<Rightarrow> Bank \<Rightarrow> Bank res" where
  "migrate_curve fx b =
     bindR (config_validate (config b)) (\<lambda>_.
     let irc = interest_rate_config (config b)
     in if curve_type irc = INTEREST_CURVE_SEVEN_POINT then Inr b
        else bindR (milli_to_u32 fx (max_interest_rate irc)) (\<lambda>hundred.
             bindR (centi_to_u32 fx (optimal_utilization_rate irc)) (\<lambda>u.
             bindR (milli_to_u32 fx (plateau_interest_rate irc)) (\<lambda>r.
             let irc' = irc\<lparr>zero_util_rate := 0, hundred_util_rate := hundred,
                   points := make_points [\<lparr>util = u, rate = r\<rparr>],
                   curve_type := INTEREST_CURVE_SEVEN_POINT, plateau_interest_rate := 0,
                   max_interest_rate := 0, optimal_utilization_rate := 0\<rparr>;
                 b' = b\<lparr>config := (config b)\<lparr>interest_rate_config := irc'\<rparr>\<rparr>
             in bindR (config_validate (config b')) (\<lambda>_. Inr b')))))"

section \<open>E-mode\<close>

definition lending_pool_configure_bank_emode ::
  "fixed_ops \<Rightarrow> pubkey \<Rightarrow> pubkey \<Rightarrow> MarginfiGroup \<Rightarrow> i64 \<Rightarrow> u16 \<Rightarrow> EmodeEntry list \<Rightarrow> Bank \<Rightarrow> Bank res" where
  "lending_pool_configure_bank_emode fx signer group_key g now tag es b =
     bindR (check (emode_admin g = signer) Unauthorized) (\<lambda>_.
     bindR (bank_in_group group_key b) (\<lambda>_.
     let em = (emode b)\<lparr>emode_tag := tag, emode_timestamp := now,
           emode_config := \<lparr>entries = sort_key collateral_bank_emode_tag es\<rparr>\<rparr>
     in bindR (validate_entries_with_liability_weights fx (config b) (emode_max_init_leverage g)
                 (emode_max_maint_leverage g) em) (\<lambda>_.
        Inr (b\<lparr>emode := update_emode_enabled em\<rparr>))))"

definition lending_pool_clone_emode ::
  "pubkey \<Rightarrow> pubkey \<Rightarrow> MarginfiGroup \<Rightarrow> Bank \<Rightarrow> Bank \<Rightarrow> Bank res" where
  "lending_pool_clone_emode signer group_key g copy_from_bank copy_to_bank =
     bindR (bank_in_group group_key copy_from_bank) (\<lambda>_.
     bindR (bank_in_group group_key copy_to_bank) (\<lambda>_.
     bindR (check (signer = admin g \<or> signer = emode_admin g) Unauthorized) (\<lambda>_.
     Inr (copy_to_bank\<lparr>emode := emode copy_from_bank\<rparr>))))"

section \<open>Oracles\<close>

text \<open>
  The keys and derivations of the staking programs: the single-pool program, its mint and stake
  addresses, the classic token program and the native stake program.
\<close>

record stake_keys =
  SPL_SINGLE_POOL_ID :: pubkey
  pool_mint :: "pubkey \<Rightarrow> pubkey"
  pool_stake :: "pubkey \<Rightarrow> pubkey"
  SPL_TOKEN_PROGRAM_ID :: pubkey
  NATIVE_STAKE_ID :: pubkey

definition validate_pyth_key :: "oracle_lib \<Rightarrow> BankConfig \<Rightarrow> AccountInfo \<Rightarrow> unit res" where
  "validate_pyth_key lib c ai =
     bindR (check_key c 0 ai WrongOracleAccountKeys) (\<lambda>_.
     bindR (load_price_update_v2_checked lib ai) (\<lambda>_. Inr ()))"

definition validate_swb_key :: "oracle_lib \<Rightarrow> BankConfig \<Rightarrow> AccountInfo \<Rightarrow> unit res" where
  "validate_swb_key lib c ai =
     bindR (check_key c 0 ai WrongOracleAccountKeys) (\<lambda>_. swb_check_ais lib ai)"

definition validate_staked_keys ::
  "stake_keys \<Rightarrow> pubkey \<Rightarrow> pubkey \<Rightarrow> pubkey \<Rightarrow> AccountInfo \<Rightarrow> AccountInfo \<Rightarrow> unit res" where
  "validate_staked_keys sk lst_mint stake_pool sol_pool ai1 ai2 =
     bindR (check (pool_mint sk stake_pool = lst_mint) StakePoolValidationFailed) (\<lambda>_.
     bindR (check (pool_stake sk stake_pool = sol_pool) StakePoolValidationFailed) (\<lambda>_.
     bindR (check (ai_owner ai1 = SPL_TOKEN_PROGRAM_ID sk) StakePoolValidationFailed) (\<lambda>_.
     bindR (check (ai_key ai1 = lst_mint) StakePoolValidationFailed) (\<lambda>_.
     bindR (check (ai_owner ai2 = NATIVE_STAKE_ID sk) StakePoolValidationFailed) (\<lambda>_.
     check (ai_key ai2 = sol_pool) StakePoolValidationFailed)))))"

definition validate_bank_config ::
  "oracle_lib \<Rightarrow> stake_keys \<Rightarrow> BankConfig \<Rightarrow> AccountInfo list \<Rightarrow> (pubkey \<times> pubkey \<times> pubkey) option
    \<Rightarrow> unit res" where
  "validate_bank_config lib sk c ais staked =
     (case oracle_setup c of
        OracleNone \<Rightarrow> Inl (Err OracleNotSetup)
      | PythLegacy \<Rightarrow> Inl Panic
      | SwitchboardV2 \<Rightarrow> Inl Panic
      | PythPushOracle \<Rightarrow> (case ais of
            [a] \<Rightarrow> validate_pyth_key lib c a | _ \<Rightarrow> Inl (Err WrongNumberOfOracleAccounts))
      | SwitchboardPull \<Rightarrow> (case ais of
            [a] \<Rightarrow> validate_swb_key lib c a | _ \<Rightarrow> Inl (Err WrongNumberOfOracleAccounts))
      | StakedWithPythPush \<Rightarrow> (case staked of
            Some (lst_mint, stake_pool, sol_pool) \<Rightarrow> (case ais of
                [a0, a1, a2] \<Rightarrow> bindR (validate_pyth_key lib c a0) (\<lambda>_.
                  validate_staked_keys sk lst_mint stake_pool sol_pool a1 a2)
              | _ \<Rightarrow> Inl (Err WrongNumberOfOracleAccounts))
          | None \<Rightarrow> (case ais of
                [a] \<Rightarrow> validate_pyth_key lib c a | _ \<Rightarrow> Inl (Err WrongNumberOfOracleAccounts)))
      | OracleFixed \<Rightarrow> check (ais = []) WrongNumberOfOracleAccounts
      | setup \<Rightarrow> (case ais of
            [a0, a1] \<Rightarrow>
              bindR (if setup \<in> {KaminoPythPush, DriftPythPull, SolendPythPull}
                     then validate_pyth_key lib c a0 else validate_swb_key lib c a0) (\<lambda>_.
              check_key c 1 a1
                (if setup \<in> {KaminoPythPush, KaminoSwitchboardPull} then KaminoReserveValidationFailed
                 else if setup \<in> {DriftPythPull, DriftSwitchboardPull}
                   then DriftSpotMarketValidationFailed
                 else SolendReserveValidationFailed))
          | _ \<Rightarrow> Inl (Err WrongNumberOfOracleAccounts)))"

text \<open>Writing \<open>oracle_keys[i]\<close>.\<close>

definition set_oracle_key :: "nat \<Rightarrow> pubkey \<Rightarrow> BankConfig \<Rightarrow> BankConfig" where
  "set_oracle_key i k c = c\<lparr>oracle_keys := (oracle_keys c)[i := k]\<rparr>"

definition lending_pool_configure_bank_oracle ::
  "oracle_lib \<Rightarrow> stake_keys \<Rightarrow> pubkey \<Rightarrow> pubkey \<Rightarrow> MarginfiGroup \<Rightarrow> AccountInfo list \<Rightarrow> u8 \<Rightarrow> pubkey
    \<Rightarrow> Bank \<Rightarrow> Bank res" where
  "lending_pool_configure_bank_oracle lib sk signer group_key g ais setup oracle b =
     bindR (check (admin g = signer) Unauthorized) (\<lambda>_.
     bindR (bank_in_group group_key b) (\<lambda>_.
     if bank_get_flag b FREEZE_SETTINGS then Inl Panic
     else bindR (unwrap (OracleSetup_from_u8 setup)) (\<lambda>setup_type.
       if setup_type = OracleFixed then Inl Panic
       else let c = set_oracle_key 0 oracle ((config b)\<lparr>oracle_setup := setup_type\<rparr>)
            in bindR (validate_bank_config lib sk c ais None) (\<lambda>_. Inr (b\<lparr>config := c\<rparr>)))))"

text \<open>The admin and the group of the bank are checked by constraints without an error code.\<close>

definition lending_pool_set_fixed_oracle_price ::
  "oracle_lib \<Rightarrow> stake_keys \<Rightarrow> pubkey \<Rightarrow> pubkey \<Rightarrow> MarginfiGroup \<Rightarrow> I80F48 \<Rightarrow> Bank \<Rightarrow> Bank res" where
  "lending_pool_set_fixed_oracle_price lib sk signer group_key g price b =
     bindR (constraint (admin g = signer)) (\<lambda>_.
     bindR (constraint (bank_group b = group_key)) (\<lambda>_.
     if bank_get_flag b FREEZE_SETTINGS then Inl Panic
     else if asset_tag (config b) = ASSET_TAG_STAKED then Inl (Err Unauthorized)
     else let c = set_oracle_key 0 default_key ((config b)\<lparr>oracle_setup := OracleFixed\<rparr>)
          in bindR (check (price \<ge> 0) FixedOraclePriceNegative) (\<lambda>_.
             let c' = c\<lparr>fixed_price := price\<rparr>
             in bindR (validate_bank_config lib sk c' [] None) (\<lambda>_. Inr (b\<lparr>config := c'\<rparr>)))))"

definition lending_pool_pulse_bank_price_cache ::
  "fixed_ops \<Rightarrow> oracle_lib \<Rightarrow> pubkey \<Rightarrow> Clock \<Rightarrow> AccountInfo list \<Rightarrow> Bank \<Rightarrow> Bank res" where
  "lending_pool_pulse_bank_price_cache fx lib group_key clock ais b =
     bindR (bank_in_group group_key b) (\<lambda>_.
     bindR (try_from_bank fx lib clock b ais) (\<lambda>pf.
     bindR (get_price_and_confidence_of_type fx lib pf RealTime (oracle_max_confidence (config b))) (\<lambda>p.
     Inr (update_cache_price (unix_timestamp clock) (Some p) b))))"

definition lending_pool_accrue_bank_interest ::
  "fixed_ops \<Rightarrow> pubkey \<Rightarrow> i64 \<Rightarrow> MarginfiGroup \<Rightarrow> Bank \<Rightarrow> Bank res" where
  "lending_pool_accrue_bank_interest fx group_key now g b =
     bindR (bank_in_group group_key b) (\<lambda>_.
     bindR (accrue_interest fx now g b) (update_bank_cache fx now g))"

section \<open>Staked settings\<close>

record StakedSettings =
  ss_key :: pubkey
  ss_group :: pubkey
  ss_oracle :: pubkey
  ss_asset_weight_init :: I80F48
  ss_asset_weight_maint :: I80F48
  ss_deposit_limit :: u64
  ss_total_asset_value_init_limit :: u64
  ss_oracle_max_age :: u16
  ss_risk_tier :: RiskTier

record StakedSettingsEditConfig =
  se_oracle :: "pubkey option"
  se_asset_weight_init :: "I80F48 option"
  se_asset_weight_maint :: "I80F48 option"
  se_deposit_limit :: "u64 option"
  se_total_asset_value_init_limit :: "u64 option"
  se_oracle_max_age :: "u16 option"
  se_risk_tier :: "RiskTier option"

definition staked_validate :: "StakedSettings \<Rightarrow> unit res" where
  "staked_validate s =
     (let init_w = ss_asset_weight_init s; maint_w = ss_asset_weight_maint s
      in bindR (check (init_w \<ge> 0 \<and> init_w \<le> ONE) InvalidConfig) (\<lambda>_.
         bindR (check (maint_w \<ge> init_w) InvalidConfig) (\<lambda>_.
         bindR (check (maint_w \<le> ONE + ONE) InvalidConfig) (\<lambda>_.
         if ss_risk_tier s = Isolated
         then bindR (check (init_w = 0) InvalidConfig) (\<lambda>_. check (maint_w = 0) InvalidConfig)
         else Inr ()))))"

definition initialize_staked_settings ::
  "pubkey \<Rightarrow> MarginfiGroup \<Rightarrow> StakedSettings \<Rightarrow> StakedSettings res" where
  "initialize_staked_settings signer g s =
     bindR (check (admin g = signer) Unauthorized) (\<lambda>_.
     bindR (staked_validate s) (\<lambda>_. Inr s))"

definition edit_staked_settings ::
  "pubkey \<Rightarrow> pubkey \<Rightarrow> MarginfiGroup \<Rightarrow> StakedSettingsEditConfig \<Rightarrow> StakedSettings \<Rightarrow> StakedSettings res" where
  "edit_staked_settings signer group_key g e s =
     bindR (check (admin g = signer) Unauthorized) (\<lambda>_.
     bindR (check (ss_group s = group_key) InvalidGroup) (\<lambda>_.
     let s' = s\<lparr>ss_oracle := set_if_some (se_oracle e) (ss_oracle s),
           ss_asset_weight_init := set_if_some (se_asset_weight_init e) (ss_asset_weight_init s),
           ss_asset_weight_maint := set_if_some (se_asset_weight_maint e) (ss_asset_weight_maint s),
           ss_deposit_limit := set_if_some (se_deposit_limit e) (ss_deposit_limit s),
           ss_total_asset_value_init_limit :=
             set_if_some (se_total_asset_value_init_limit e) (ss_total_asset_value_init_limit s),
           ss_oracle_max_age := set_if_some (se_oracle_max_age e) (ss_oracle_max_age s),
           ss_risk_tier := set_if_some (se_risk_tier e) (ss_risk_tier s)\<rparr>
     in bindR (staked_validate s') (\<lambda>_. Inr s')))"

definition propagate_staked_settings ::
  "oracle_lib \<Rightarrow> stake_keys \<Rightarrow> pubkey \<Rightarrow> AccountInfo list \<Rightarrow> StakedSettings \<Rightarrow> Bank \<Rightarrow> Bank res" where
  "propagate_staked_settings lib sk group_key ais s b =
     bindR (check (ss_group s = group_key) InvalidGroup) (\<lambda>_.
     bindR (constraint (bank_group b = group_key \<and> asset_tag (config b) = ASSET_TAG_STAKED)) (\<lambda>_.
     bindR (oracle_key (config b) 0) (\<lambda>oracle_before.
     let c = (set_oracle_key 0 (ss_oracle s) (config b))
           \<lparr>asset_weight_init := ss_asset_weight_init s, asset_weight_maint := ss_asset_weight_maint s,
            deposit_limit := ss_deposit_limit s,
            total_asset_value_init_limit := ss_total_asset_value_init_limit s,
            oracle_max_age := ss_oracle_max_age s, risk_tier := ss_risk_tier s\<rparr>
     in bindR (if oracle_before \<noteq> ss_oracle s then validate_bank_config lib sk c ais None else Inr ()) (\<lambda>_.
        bindR (config_validate c) (\<lambda>_. Inr (b\<lparr>config := c\<rparr>))))))"

section \<open>Emissions\<close>

text \<open>Both handlers fund the emissions account with the amount and the transfer fee on it.\<close>

definition lending_pool_setup_emissions ::
  "fixed_ops \<Rightarrow> pubkey \<Rightarrow> pubkey \<Rightarrow> MarginfiGroup \<Rightarrow> u64 \<Rightarrow> pubkey \<Rightarrow> MintAi \<Rightarrow> pubkey \<Rightarrow> pubkey
    \<Rightarrow> 64 word \<Rightarrow> u64 \<Rightarrow> u64 \<Rightarrow> Bank \<Rightarrow> (Bank \<times> Transfer) res" where
  "lending_pool_setup_emissions fx signer group_key g epoch em_mint mint_ai funding em_account
     flags em_rate total_emissions b =
     bindR (check (delegate_emissions_admin g = signer) Unauthorized) (\<lambda>_.
     bindR (bank_in_group group_key b) (\<lambda>_.
     bindR (check (emissions_mint b = default_key) EmissionsAlreadySetup) (\<lambda>_.
     bindR (override_emissions_flag flags (b\<lparr>emissions_mint := em_mint\<rparr>)) (\<lambda>b1.
     bindR (unwrap (from_num fx (int total_emissions))) (\<lambda>remaining.
     let b2 = b1\<lparr>emissions_rate := em_rate, emissions_remaining := remaining\<rparr>
     in bindR (calculate_pre_fee_spl_deposit_amount mint_ai total_emissions epoch) (\<lambda>amount.
        Inr (b2, \<lparr>tr_from = funding, tr_to = em_account, tr_authority = signer, tr_amount = amount\<rparr>)))))))"

definition lending_pool_update_emissions_parameters ::
  "fixed_ops \<Rightarrow> pubkey \<Rightarrow> pubkey \<Rightarrow> MarginfiGroup \<Rightarrow> u64 \<Rightarrow> pubkey \<Rightarrow> MintAi \<Rightarrow> pubkey \<Rightarrow> pubkey
    \<Rightarrow> 64 word option \<Rightarrow> u64 option \<Rightarrow> u64 option \<Rightarrow> Bank \<Rightarrow> (Bank \<times> Transfer option) res" where
  "lending_pool_update_emissions_parameters fx signer group_key g epoch em_mint mint_ai funding em_account
     flags em_rate additional b =
     bindR (check (delegate_emissions_admin g = signer) Unauthorized) (\<lambda>_.
     bindR (bank_in_group group_key b) (\<lambda>_.
     bindR (check (emissions_mint b \<noteq> default_key) EmissionsUpdateError) (\<lambda>_.
     bindR (check (emissions_mint b = em_mint) EmissionsUpdateError) (\<lambda>_.
     let b1 = (case flags of Some f \<Rightarrow> b\<lparr>bank_flags := f\<rparr> | None \<Rightarrow> b);
         b2 = b1\<lparr>emissions_rate := set_if_some em_rate (emissions_rate b1)\<rparr>
     in case additional of
          None \<Rightarrow> Inr (b2, None)
        | Some n \<Rightarrow>
            bindR (unwrap (from_num fx (int n))) (\<lambda>v.
            bindR (math (checked_add fx (emissions_remaining b2) v)) (\<lambda>remaining.
            bindR (calculate_pre_fee_spl_deposit_amount mint_ai n epoch) (\<lambda>amount.
            Inr (b2\<lparr>emissions_remaining := remaining\<rparr>,
              Some \<lparr>tr_from = funding, tr_to = em_account, tr_authority = signer,
                    tr_amount = amount\<rparr>))))))))"

section \<open>Adding and closing banks\<close>

text \<open>
  The addresses Anchor derives for a new bank, with their bumps; \<open>bank_new\<close> takes them in the
  order of \<open>Bank::new\<close>.
\<close>

record new_bank_accounts =
  nb_group :: pubkey
  nb_mint :: pubkey
  nb_decimals :: u8
  nb_liquidity_vault :: pubkey
  nb_insurance_vault :: pubkey
  nb_fee_vault :: pubkey
  nb_bumps :: "u8 \<times> u8 \<times> u8 \<times> u8 \<times> u8 \<times> u8"

definition bank_of_accounts :: "new_bank_accounts \<Rightarrow> BankConfig \<Rightarrow> i64 \<Rightarrow> Bank" where
  "bank_of_accounts nb c now = (case nb_bumps nb of (lv, lva, iv, iva, fv, fva) \<Rightarrow>
     bank_new (nb_group nb) c (nb_mint nb) (nb_decimals nb) (nb_liquidity_vault nb)
       (nb_insurance_vault nb) (nb_fee_vault nb) now lv lva iv iva fv fva)"

text \<open>The flat fee of a new bank is a transfer of lamports, skipped when it is zero.\<close>

definition flat_fee :: "FeeState \<Rightarrow> pubkey \<Rightarrow> Transfer list" where
  "flat_fee fs payer =
     (if bank_init_flat_sol_fee fs > 0
      then [\<lparr>tr_from = payer, tr_to = global_fee_wallet fs, tr_authority = payer,
             tr_amount = bank_init_flat_sol_fee fs\<rparr>] else [])"

definition lending_pool_add_bank ::
  "pubkey \<Rightarrow> pubkey \<Rightarrow> pubkey \<Rightarrow> i64 \<Rightarrow> FeeState \<Rightarrow> new_bank_accounts \<Rightarrow> BankConfigCompact
    \<Rightarrow> MarginfiGroup \<Rightarrow> (Bank \<times> MarginfiGroup \<times> Transfer list) res" where
  "lending_pool_add_bank signer payer fee_wallet now fs nb bank_config g =
     bindR (check (admin g = signer) Unauthorized) (\<lambda>_.
     bindR (check (global_fee_wallet fs = fee_wallet) InvalidFeeWallet) (\<lambda>_.
     bindR (check (c_asset_tag bank_config = ASSET_TAG_DEFAULT \<or> c_asset_tag bank_config = ASSET_TAG_SOL)
              WrongAssetTagForStandardInstructions) (\<lambda>_.
     let b = bank_of_accounts nb (config_from_compact bank_config) now
     in bindR (config_validate (config b)) (\<lambda>_. Inr (b, add_bank now g, flat_fee fs payer)))))"

text \<open>The placeholder configuration of a bank for staked collateral, which nobody borrows from.\<close>

definition staked_ir_config :: "fixed_ops \<Rightarrow> InterestRateConfig" where
  "staked_ir_config fx = InterestRateConfig_default\<lparr>
     protocol_fixed_fee_apr := decimal fx 1 2, insurance_ir_fee := decimal fx 1 1,
     zero_util_rate := 0, hundred_util_rate := 1234567,
     points := make_points [\<lparr>util = 12345, rate = 123456\<rparr>],
     curve_type := INTEREST_CURVE_SEVEN_POINT\<rparr>"

definition staked_bank_config :: "fixed_ops \<Rightarrow> StakedSettings \<Rightarrow> BankConfigCompact" where
  "staked_bank_config fx s = \<lparr>
     c_asset_weight_init = ss_asset_weight_init s, c_asset_weight_maint = ss_asset_weight_maint s,
     c_liability_weight_init = decimal fx 15 1, c_liability_weight_maint = decimal fx 125 2,
     c_deposit_limit = ss_deposit_limit s, c_interest_rate_config = ir_to_compact (staked_ir_config fx),
     c_operational_state = Operational, c_borrow_limit = 0, c_risk_tier = ss_risk_tier s,
     c_asset_tag = ASSET_TAG_STAKED, c_config_flags = PYTH_PUSH_MIGRATED_DEPRECATED,
     c_total_asset_value_init_limit = ss_total_asset_value_init_limit s,
     c_oracle_max_age = ss_oracle_max_age s, c_oracle_max_confidence = 0\<rparr>"

definition lending_pool_add_bank_permissionless ::
  "fixed_ops \<Rightarrow> oracle_lib \<Rightarrow> stake_keys \<Rightarrow> i64 \<Rightarrow> pubkey \<Rightarrow> StakedSettings \<Rightarrow> new_bank_accounts
    \<Rightarrow> AccountInfo \<Rightarrow> pubkey \<Rightarrow> AccountInfo list \<Rightarrow> MarginfiGroup \<Rightarrow> (Bank \<times> MarginfiGroup) res" where
  "lending_pool_add_bank_permissionless fx lib sk now group_key s nb stake_pool sol_pool ais g =
     bindR (check (ss_group s = group_key) InvalidGroup) (\<lambda>_.
     let b = bank_of_accounts nb (config_from_compact (staked_bank_config fx s)) now;
         c = set_oracle_key 0 (ss_oracle s) ((config b)\<lparr>oracle_setup := StakedWithPythPush\<rparr>)
     in bindR (config_validate c) (\<lambda>_.
        bindR (check (ai_owner stake_pool = SPL_SINGLE_POOL_ID sk) StakePoolValidationFailed) (\<lambda>_.
        let c' = set_oracle_key 2 sol_pool (set_oracle_key 1 (nb_mint nb) c)
        in bindR (validate_bank_config lib sk c' ais (Some (nb_mint nb, ai_key stake_pool, sol_pool))) (\<lambda>_.
           Inr (b\<lparr>config := c'\<rparr>, add_bank now g)))))"

text \<open>The accounts count goes down before the checks; Anchor closes the account afterwards.\<close>

definition lending_pool_close_bank ::
  "fixed_ops \<Rightarrow> pubkey \<Rightarrow> pubkey \<Rightarrow> Bank \<Rightarrow> MarginfiGroup \<Rightarrow> MarginfiGroup res" where
  "lending_pool_close_bank fx signer group_key b g =
     bindR (check (admin g = signer) Unauthorized) (\<lambda>_.
     bindR (bank_in_group group_key b) (\<lambda>_.
     bindR (check (bank_get_flag b CLOSE_ENABLED_FLAG) BankCannotClose) (\<lambda>_.
     bindR (check (lending_position_count b = 0 \<and> borrowing_position_count b = 0) BankCannotClose) (\<lambda>_.
     bindR (is_zero_with_tolerance fx (total_asset_shares b) (ZERO_AMOUNT_THRESHOLD fx)) (\<lambda>za.
     bindR (if za then is_zero_with_tolerance fx (total_liability_shares b) (ZERO_AMOUNT_THRESHOLD fx)
            else Inr False) (\<lambda>zl.
     bindR (check zl BankCannotClose) (\<lambda>_.
     bindR (is_zero_with_tolerance fx (emissions_remaining b) (ZERO_AMOUNT_THRESHOLD fx)) (\<lambda>ze.
     bindR (check ze BankCannotClose) (\<lambda>_.
     Inr (g\<lparr>banks := banks g - 1\<rparr>))))))))))"

section \<open>Fees\<close>

text \<open>
  What one fee can pay out of the liquidity: whole units only, and the fraction stays outstanding.
  The result is what is transferred, what stays outstanding and what liquidity is left.
\<close>

definition take_fee :: "fixed_ops \<Rightarrow> I80F48 \<Rightarrow> I80F48 \<Rightarrow> (I80F48 \<times> I80F48 \<times> I80F48) res" where
  "take_fee fx outstanding available_liquidity =
     (let transfer_amount = fx_int (min outstanding available_liquidity)
      in bindR (math (checked_sub fx outstanding transfer_amount)) (\<lambda>rest.
         bindR (math (checked_sub fx available_liquidity (fx_int transfer_amount))) (\<lambda>left.
         Inr (fx_int transfer_amount, rest, left))))"

text \<open>The vaults and authorities of a bank, and the token account of the global fee wallet.\<close>

record fee_accounts =
  fa_liquidity_vault :: pubkey
  fa_liquidity_vault_authority :: pubkey
  fa_liquidity_amount :: u64
  fa_insurance_vault :: pubkey
  fa_insurance_vault_authority :: pubkey
  fa_fee_vault :: pubkey
  fa_fee_vault_authority :: pubkey
  fa_fee_vault_amount :: u64
  fa_fee_ata :: pubkey

definition lending_pool_collect_bank_fees ::
  "fixed_ops \<Rightarrow> (pubkey \<Rightarrow> pubkey \<Rightarrow> TokenProgram \<Rightarrow> pubkey) \<Rightarrow> (AccountInfo \<Rightarrow> MintAi option) \<Rightarrow> i64
    \<Rightarrow> pubkey \<Rightarrow> MarginfiGroup \<Rightarrow> FeeState \<Rightarrow> TokenProgram \<Rightarrow> AccountInfo list \<Rightarrow> fee_accounts \<Rightarrow> Bank
    \<Rightarrow> (Bank \<times> Transfer list) res" where
  "lending_pool_collect_bank_fees fx ata parse_mint now group_key g fs tp ais fa b =
     bindR (not_paused g now) (\<lambda>_.
     bindR (bank_in_group group_key b) (\<lambda>_.
     bindR (check (fa_fee_ata fa = ata (global_fee_wallet fs) (mint b) tp) InvalidFeeAta) (\<lambda>_.
     bindR (maybe_take_bank_mint parse_mint ais b tp) (\<lambda>_.
     bindR (unwrap (from_num fx (int (fa_liquidity_amount fa)))) (\<lambda>available.
     bindR (take_fee fx (collected_insurance_fees_outstanding b) available) (\<lambda>(ins, ins_rest, left1).
     bindR (take_fee fx (collected_group_fees_outstanding b) left1) (\<lambda>(grp, grp_rest, left2).
     if \<not> left2 \<ge> 0 then Inl Panic
     else
       let b1 = b\<lparr>collected_insurance_fees_outstanding := ins_rest,
                  collected_group_fees_outstanding := grp_rest\<rparr>;
           pay = (\<lambda>n dst. withdraw_spl_transfer n (fa_liquidity_vault fa) dst
                   (fa_liquidity_vault_authority fa))
       in bindR (math (checked_to_u64 fx grp)) (\<lambda>grp_n.
          bindR (math (checked_to_u64 fx ins)) (\<lambda>ins_n.
          bindR (take_fee fx (collected_program_fees_outstanding b1) left2) (\<lambda>(prg, prg_rest, left3).
          if \<not> left3 \<ge> 0 then Inl Panic
          else bindR (math (checked_to_u64 fx prg)) (\<lambda>prg_n.
            Inr (b1\<lparr>collected_program_fees_outstanding := prg_rest\<rparr>,
                 [pay grp_n (fa_fee_vault fa), pay ins_n (fa_insurance_vault fa),
                  pay prg_n (fa_fee_ata fa)]))))))))))))"

definition lending_pool_withdraw_fees ::
  "(AccountInfo \<Rightarrow> MintAi option) \<Rightarrow> i64 \<Rightarrow> pubkey \<Rightarrow> pubkey \<Rightarrow> MarginfiGroup \<Rightarrow> TokenProgram
    \<Rightarrow> AccountInfo list \<Rightarrow> fee_accounts \<Rightarrow> pubkey \<Rightarrow> u64 \<Rightarrow> Bank \<Rightarrow> Transfer res" where
  "lending_pool_withdraw_fees parse_mint now signer group_key g tp ais fa dst amount b =
     bindR (check (admin g = signer) Unauthorized) (\<lambda>_.
     bindR (not_paused g now) (\<lambda>_.
     bindR (bank_in_group group_key b) (\<lambda>_.
     bindR (maybe_take_bank_mint parse_mint ais b tp) (\<lambda>_.
     Inr (withdraw_spl_transfer amount (fa_fee_vault fa) dst (fa_fee_vault_authority fa))))))"

definition lending_pool_withdraw_insurance ::
  "(AccountInfo \<Rightarrow> MintAi option) \<Rightarrow> i64 \<Rightarrow> pubkey \<Rightarrow> pubkey \<Rightarrow> MarginfiGroup \<Rightarrow> TokenProgram
    \<Rightarrow> AccountInfo list \<Rightarrow> fee_accounts \<Rightarrow> pubkey \<Rightarrow> u64 \<Rightarrow> Bank \<Rightarrow> Transfer res" where
  "lending_pool_withdraw_insurance parse_mint now signer group_key g tp ais fa dst amount b =
     bindR (check (admin g = signer) Unauthorized) (\<lambda>_.
     bindR (not_paused g now) (\<lambda>_.
     bindR (bank_in_group group_key b) (\<lambda>_.
     bindR (maybe_take_bank_mint parse_mint ais b tp) (\<lambda>_.
     Inr (withdraw_spl_transfer amount (fa_insurance_vault fa) dst
            (fa_insurance_vault_authority fa))))))"

definition lending_pool_update_fees_destination_account ::
  "i64 \<Rightarrow> pubkey \<Rightarrow> pubkey \<Rightarrow> MarginfiGroup \<Rightarrow> pubkey \<Rightarrow> pubkey \<Rightarrow> Bank \<Rightarrow> Bank res" where
  "lending_pool_update_fees_destination_account now signer group_key g dst dst_mint b =
     bindR (check (admin g = signer) Unauthorized) (\<lambda>_.
     bindR (not_paused g now) (\<lambda>_.
     bindR (bank_in_group group_key b) (\<lambda>_.
     bindR (check (dst_mint = mint b) InvalidFeesDestinationAccount) (\<lambda>_.
     Inr (b\<lparr>fees_destination_account := dst\<rparr>)))))"

text \<open>Anybody may send the collected fees to the destination the admin has set.\<close>

definition lending_pool_withdraw_fees_permissionless ::
  "(AccountInfo \<Rightarrow> MintAi option) \<Rightarrow> i64 \<Rightarrow> pubkey \<Rightarrow> MarginfiGroup \<Rightarrow> TokenProgram
    \<Rightarrow> AccountInfo list \<Rightarrow> fee_accounts \<Rightarrow> pubkey \<Rightarrow> pubkey \<Rightarrow> u64 \<Rightarrow> Bank \<Rightarrow> Transfer res" where
  "lending_pool_withdraw_fees_permissionless parse_mint now group_key g tp ais fa dst dst_mint amount b =
     bindR (not_paused g now) (\<lambda>_.
     bindR (bank_in_group group_key b) (\<lambda>_.
     bindR (check (fees_destination_account b = dst) InvalidFeesDestinationAccount) (\<lambda>_.
     bindR (check (dst_mint = mint b) InvalidFeesDestinationAccount) (\<lambda>_.
     let n = min amount (fa_fee_vault_amount fa)
     in bindR (maybe_take_bank_mint parse_mint ais b tp) (\<lambda>_.
        Inr (withdraw_spl_transfer n (fa_fee_vault fa) dst (fa_fee_vault_authority fa)))))))"

section \<open>Facts\<close>

text \<open>A fee paid out of the liquidity is whole units, and what stays due is not negative.\<close>

context fixed_arith
begin

lemma take_fee_exact:
  assumes "take_fee fx fee_due available = Inr (paid, rest, left)"
    and "0 \<le> fee_due" and "0 \<le> available"
  shows "paid = fx_int paid \<and> 0 \<le> paid \<and> paid + rest = fee_due \<and> paid + left = available \<and> 0 \<le> rest
    \<and> 0 \<le> left \<and> (rest < ONE \<or> left < ONE)"
proof -
  let ?m = "min fee_due available"
  have idem: "fx_int (fx_int ?m) = fx_int ?m" by (simp add: fx_int_def ONE_neq_0)
  have eqs: "paid = fx_int ?m" "rest = fee_due - fx_int ?m" "left = available - fx_int ?m"
    using assms(1)
    by (auto simp: take_fee_def Let_def idem res_simps elim!: bindR_InrE dest: sub_SomeD)
  have "0 \<le> ?m" using assms(2,3) by simp
  note fx_int_bounds [of ?m] this
  then show ?thesis using idem unfolding eqs by (auto simp: min_def split: if_splits)
qed

text \<open>Out of whole units, whole units are paid: as many as are due and there.\<close>

lemma take_fee_units:
  assumes "take_fee fx fee_due (int n * ONE) = Inr (paid, rest, left)" and "0 \<le> fee_due"
    and "k = min (nat (fee_due div ONE)) n"
  shows "paid = int k * ONE" "rest = fee_due - int k * ONE" "left = int (n - k) * ONE"
proof -
  have "0 \<le> int n * ONE" by simp
  note ex = take_fee_exact [OF assms(1,2) this]
  have "paid = fx_int (min fee_due (int n * ONE))"
  proof -
    have "fx_int (fx_int v) = fx_int v" for v by (simp add: fx_int_def)
    then show ?thesis using assms(1)
      by (auto simp: take_fee_def Let_def res_simps elim!: bindR_InrE dest: sub_SomeD)
  qed
  also have "\<dots> = int k * ONE"
  proof (cases "fee_due < int n * ONE")
    case True
    then have "fee_due div ONE * ONE < int n * ONE"
      using div_mult_mod_eq [of fee_due ONE] pos_mod_sign [OF ONE_pos, of fee_due] by linarith
    then have "fee_due div ONE < int n" using ONE_pos by (simp add: mult_less_cancel_right)
    moreover have "0 \<le> fee_due div ONE" using assms(2) by (simp add: pos_imp_zdiv_nonneg_iff)
    ultimately show ?thesis using True assms(3) by (simp add: fx_int_def min_def)
  next
    case False
    then have "int n * ONE div ONE \<le> fee_due div ONE" using ONE_pos by (intro zdiv_mono1) simp_all
    then have "int n \<le> fee_due div ONE" using ONE_neq_0 by simp
    then have "n \<le> nat (fee_due div ONE)" by simp
    then show ?thesis using False assms(3) by (simp add: fx_int_def min_def)
  qed
  finally show p: "paid = int k * ONE" .
  show "rest = fee_due - int k * ONE" using ex p by simp
  have "k \<le> n" using assms(3) by simp
  then show "left = int (n - k) * ONE" using ex p by (simp add: of_nat_diff left_diff_distrib)
qed

end

end
