(* ===== verification/Protocol.thy ===== *)
theory Protocol
  imports LiquidateFacts IntegrationFacts BankIx
begin

text \<open>
  The whole protocol as a state machine: any number of user accounts and banks, changed by any
  sequence of the instructions that touch a user's balances, those with other lending programs
  included. Every instruction is a sequence of
  moves, and moves keep the books of the protocol: the totals of each bank cover what all accounts
  together hold in it.
\<close>

section \<open>The books of all accounts and banks\<close>

type_synonym books = "(pubkey \<Rightarrow> LendingAccount option) \<times> (pubkey \<Rightarrow> Bank option)"

definition held_by_all ::
  "(Balance \<Rightarrow> int) \<Rightarrow> pubkey \<Rightarrow> (pubkey \<Rightarrow> LendingAccount option) \<Rightarrow> int" where
  "held_by_all f pk las = (\<Sum>k \<in> dom las. held f pk (the (las k)))"

definition holdings_ok :: "pubkey \<Rightarrow> LendingAccount \<Rightarrow> bool" where
  "holdings_ok pk la \<longleftrightarrow> (\<forall>b \<in> set (balances la). is_active b \<and> bank_pk b = pk \<longrightarrow>
     0 \<le> asset_shares b \<and> 0 \<le> liability_shares b)"

definition books_ok :: "books \<Rightarrow> bool" where
  "books_ok s \<longleftrightarrow> finite (dom (fst s)) \<and> (\<forall>la \<in> ran (fst s). slots_ok la)
     \<and> (\<forall>pk b. snd s pk = Some b \<longrightarrow> bank_ok b \<and> (\<forall>la \<in> ran (fst s). holdings_ok pk la)
          \<and> held_by_all asset_shares pk (fst s) \<le> total_asset_shares b
          \<and> held_by_all liability_shares pk (fst s) \<le> total_liability_shares b)"

text \<open>What an account holds in a bank is determined by the balances with that bank.\<close>

lemma held_mset:
  "held f pk la = sum_mset (image_mset f {#b \<in># mset (balances la). is_active b \<and> bank_pk b = pk#})"
proof -
  have "(\<Sum>b\<leftarrow>bs. if is_active b \<and> bank_pk b = pk then f b else 0)
      = sum_mset (image_mset f {#b \<in># mset bs. is_active b \<and> bank_pk b = pk#})" for bs
    by (induction bs) auto
  then show ?thesis by (simp add: held_def)
qed

lemma elsewhere_with:
  assumes "q \<noteq> pk"
  shows "{#b \<in># mset (balances la). is_active b \<and> bank_pk b = q#} = {#b \<in># elsewhere pk la. bank_pk b = q#}"
  unfolding elsewhere_def filter_filter_mset using assms by (intro filter_mset_cong) auto

lemma elsewhere_held:
  "q \<noteq> pk \<Longrightarrow> elsewhere pk la' = elsewhere pk la \<Longrightarrow> held f q la' = held f q la"
  by (simp add: held_mset elsewhere_with)

lemma elsewhere_holdings:
  assumes "q \<noteq> pk" and "elsewhere pk la' = elsewhere pk la" and "holdings_ok q la"
  shows "holdings_ok q la'"
proof -
  have h: "holdings_ok q la \<longleftrightarrow> (\<forall>b \<in># {#b \<in># mset (balances la). is_active b \<and> bank_pk b = q#}.
      0 \<le> asset_shares b \<and> 0 \<le> liability_shares b)" for la
    by (auto simp: holdings_ok_def)
  show ?thesis using assms(3) unfolding h elsewhere_with [OF assms(1)] assms(2) .
qed

lemma held_by_all_insert:
  assumes "finite (dom las)"
  shows "held_by_all f pk (las(k \<mapsto> la)) = held f pk la + (\<Sum>j \<in> dom las - {k}. held f pk (the (las j)))"
proof -
  have d: "dom (las(k \<mapsto> la)) = insert k (dom las - {k})" by auto
  have "held_by_all f pk (las(k \<mapsto> la))
      = held f pk la + (\<Sum>j \<in> dom las - {k}. held f pk (the ((las(k \<mapsto> la)) j)))"
    unfolding held_by_all_def d using assms by (subst sum.insert) simp_all
  also have "(\<Sum>j \<in> dom las - {k}. held f pk (the ((las(k \<mapsto> la)) j)))
      = (\<Sum>j \<in> dom las - {k}. held f pk (the (las j)))"
    by (intro sum.cong) auto
  finally show ?thesis .
qed

lemma held_by_all_eq:
  assumes "finite (dom las)" and "las k = Some la"
  shows "held_by_all f pk las = held f pk la + (\<Sum>j \<in> dom las - {k}. held f pk (the (las j)))"
proof -
  have "las(k \<mapsto> la) = las" using assms(2) by (simp add: fun_upd_idem)
  then show ?thesis using held_by_all_insert [OF assms(1), of f pk k la] by simp
qed

lemma others_nonneg:
  assumes "\<And>la. la \<in> ran las \<Longrightarrow> holdings_ok pk la" and "f = asset_shares \<or> f = liability_shares"
  shows "0 \<le> (\<Sum>j \<in> dom las - {k}. held f pk (the (las j)))"
proof (rule sum_nonneg)
  fix j
  assume "j \<in> dom las - {k}"
  then have "the (las j) \<in> ran las" by (auto simp: ran_def)
  then have "holdings_ok pk (the (las j))" by (rule assms(1))
  then show "0 \<le> held f pk (the (las j))"
    using assms(2) by (intro held_nonneg) (auto simp: holdings_ok_def)
qed

text \<open>A move of one account with one bank keeps the books of all.\<close>

lemma books_move:
  assumes ok: "books_ok (las, bs)" and k: "las k = Some la" and b: "bs pk = Some b"
    and m: "ledger_move pk (la, b) (la', b')"
  shows "books_ok (las(k \<mapsto> la'), bs(pk \<mapsto> b'))"
proof -
  have fin: "finite (dom las)" and slots: "\<And>la. la \<in> ran las \<Longrightarrow> slots_ok la"
    and H: "\<And>la q b. bs q = Some b \<Longrightarrow> la \<in> ran las \<Longrightarrow> holdings_ok q la"
    and B: "\<And>q b. bs q = Some b \<Longrightarrow> bank_ok b
      \<and> held_by_all asset_shares q las \<le> total_asset_shares b
      \<and> held_by_all liability_shares q las \<le> total_liability_shares b"
    using ok unfolding books_ok_def fst_conv snd_conv by blast+
  have la: "la \<in> ran las" using k by (auto simp: ran_def)
  let ?rest = "\<lambda>f q. \<Sum>j \<in> dom las - {k}. held f q (the (las j))"
  note he = held_by_all_eq [OF fin k]
  have "account_inv pk (?rest asset_shares pk) (?rest liability_shares pk) (elsewhere pk la) (la, b)"
    using B [OF b] slots [OF la] H [OF b] H [OF b la] others_nonneg [of las pk]
    by (simp add: account_inv_def ledger_def he holdings_ok_def add.commute)
  then have i: "account_inv pk (?rest asset_shares pk) (?rest liability_shares pk) (elsewhere pk la) (la', b')"
    by (rule ledger_moveD [OF m])
  have ran: "ran (las(k \<mapsto> la')) \<subseteq> insert la' (ran las)" by (auto simp: ran_def)
  have q: "holdings_ok q la' \<and> bank_ok c \<and> (\<forall>x \<in> ran las. holdings_ok q x)
    \<and> held asset_shares q la' + ?rest asset_shares q \<le> total_asset_shares c
    \<and> held liability_shares q la' + ?rest liability_shares q \<le> total_liability_shares c"
    if "(bs(pk \<mapsto> b')) q = Some c" for q c
  proof (cases "q = pk")
    case True
    then show ?thesis using i that H [OF b]
      by (auto simp: account_inv_def ledger_def holdings_ok_def add.commute)
  next
    case False
    then have c: "bs q = Some c" using that by simp
    have e: "elsewhere pk la' = elsewhere pk la" using i by (simp add: account_inv_def)
    show ?thesis
      using B [OF c] H [OF c] elsewhere_holdings [OF False e H [OF c la]]
      by (simp add: elsewhere_held [OF False e] he)
  qed
  have "slots_ok la'" using i by (simp add: account_inv_def)
  with ran slots have "\<forall>x \<in> ran (las(k \<mapsto> la')). slots_ok x" by blast
  moreover have "\<forall>x \<in> ran (las(k \<mapsto> la')). holdings_ok p x" if "(bs(pk \<mapsto> b')) p = Some c" for p c
    using ran q [OF that] by blast
  ultimately show ?thesis
    unfolding books_ok_def fst_conv snd_conv held_by_all_insert [OF fin] using fin q
    by (simp only: finite_insert dom_fun_upd option.distinct if_False) blast
qed

section \<open>The instructions\<close>

text \<open>
  One account and one bank. The group, the clock, the other accounts and the oracles are whatever
  they are at that time; of the group only the fee rates matter, which nothing validates. So is the
  world of the other lending programs.
\<close>

inductive solo_ix ::
  "fixed_ops \<Rightarrow> 'w chain \<Rightarrow> pubkey \<Rightarrow> MarginfiAccount \<times> Bank \<Rightarrow> MarginfiAccount \<times> Bank \<Rightarrow> bool"
  for fx :: fixed_ops and ch :: "'w chain" where
  deposit: "lending_account_deposit env ta g ais n up (a, b) = Inr (a', b', ts) \<Longrightarrow> e_fx env = fx \<Longrightarrow>
    n \<le> u64_max \<Longrightarrow> solo_ix fx ch (ta_bank ta) (a, b) (a', b')"
| withdraw: "lending_account_withdraw env ta ais n all (g, a, b) = Inr (g', a', b', ts) \<Longrightarrow>
    e_fx env = fx \<Longrightarrow> n \<le> u64_max \<Longrightarrow> solo_ix fx ch (ta_bank ta) (a, b) (a', b')"
| borrow: "lending_account_borrow env ta g ais n (a, b) = Inr (a', b', ts) \<Longrightarrow> e_fx env = fx \<Longrightarrow>
    n \<le> u64_max \<Longrightarrow> fees_sane g b \<Longrightarrow> solo_ix fx ch (ta_bank ta) (a, b) (a', b')"
| repay: "lending_account_repay env ta g ais n all (a, b) = Inr (a', b', ts) \<Longrightarrow> e_fx env = fx \<Longrightarrow>
    n \<le> u64_max \<Longrightarrow> solo_ix fx ch (ta_bank ta) (a, b) (a', b')"
| close_balance: "lending_account_close_balance env ta g (a, b) = Inr (a', b') \<Longrightarrow> e_fx env = fx \<Longrightarrow>
    solo_ix fx ch (ta_bank ta) (a, b) (a', b')"
| purge: "lending_account_purge_delev_balance env ta g (a, b) = Inr (a', b') \<Longrightarrow> e_fx env = fx \<Longrightarrow>
    solo_ix fx ch (ta_bank ta) (a, b) (a', b')"
| emissions: "lending_account_withdraw_emissions env ta ea g (a, b) = Inr (a', b', ts) \<Longrightarrow>
    e_fx env = fx \<Longrightarrow> solo_ix fx ch (ta_bank ta) (a, b) (a', b')"
| emissions_permissionless:
    "lending_account_withdraw_emissions_permissionless ata env ta ea g (a, b) = Inr (a', b', ts) \<Longrightarrow>
    e_fx env = fx \<Longrightarrow> solo_ix fx ch (ta_bank ta) (a, b) (a', b')"
| settle: "lending_account_settle_emissions env pk (a, b) = Inr (a', b') \<Longrightarrow> e_fx env = fx \<Longrightarrow>
    solo_ix fx ch pk (a, b) (a', b')"
| bankruptcy: "lending_pool_handle_bankruptcy env bk g ais (a, b) = Inr (a', b', t) \<Longrightarrow>
    e_fx env = fx \<Longrightarrow> solo_ix fx ch (bk_bank bk) (a, b) (a', b')"
| position_in: "kamino_in fx ch pk (a, b, w) (a', b', w') \<or> drift_in fx ch pk (a, b, w) (a', b', w')
    \<or> solend_in fx ch pk (a, b, w) (a', b', w') \<Longrightarrow> solo_ix fx ch pk (a, b) (a', b')"
| position_out: "kamino_out fx ch pk (a, b, w) (a', b', w') \<or> drift_out fx ch pk (a, b, w) (a', b', w')
    \<or> solend_out fx ch pk (a, b, w) (a', b', w') \<Longrightarrow> solo_ix fx ch pk (a, b) (a', b')"

text \<open>One account and no bank: flags, caches and destinations.\<close>

inductive calm_ix :: "MarginfiAccount \<Rightarrow> MarginfiAccount \<Rightarrow> bool" where
  pulse: "lending_account_pulse_health env ais a = Inr a' \<Longrightarrow> calm_ix a a'"
| freeze: "set_account_freeze signer key now g frozen a = Inr a' \<Longrightarrow> calm_ix a a'"
| destination: "marginfi_account_update_emissions_destination_account signer now dst a = Inr a' \<Longrightarrow> calm_ix a a'"
| liquidation_record: "initialize_liquidation_record key payer account_key a = (a', lr) \<Longrightarrow> calm_ix a a'"

text \<open>The same with flash loans.\<close>

inductive alone_ix :: "MarginfiAccount \<Rightarrow> MarginfiAccount \<Rightarrow> bool" where
  calm: "calm_ix a a' \<Longrightarrow> alone_ix a a'"
| start_flashloan: "lending_account_start_flashloan mrgn_id signer key a tx i = Inr a' \<Longrightarrow> alone_ix a a'"
| end_flashloan: "lending_account_end_flashloan signer a tx health = Inr a' \<Longrightarrow> alone_ix a a'"

text \<open>Receivership: its start and its end, of one account.\<close>

inductive receivership_ix :: "MarginfiAccount \<Rightarrow> MarginfiAccount \<Rightarrow> bool" where
  start_liquidation: "start_liquidation env pk tx key receiver ais (a, lr) = Inr (a', lr') \<Longrightarrow> receivership_ix a a'"
| end_liquidation: "end_liquidation env tx key signer fs wallet ais (a, lr) = Inr (a', lr', ts) \<Longrightarrow> receivership_ix a a'"
| start_deleverage:
    "start_deleverage env pk tx key group_key g signer ais (a, lr) = Inr (a', lr') \<Longrightarrow> receivership_ix a a'"
| end_deleverage: "end_deleverage env tx key group_key g signer ais (a, lr) = Inr (a', lr') \<Longrightarrow> receivership_ix a a'"

text \<open>One bank and no account.\<close>

inductive bank_ix :: "fixed_ops \<Rightarrow> Bank \<Rightarrow> Bank \<Rightarrow> bool" for fx :: fixed_ops where
  accrue: "lending_pool_accrue_bank_interest fx group_key now g b = Inr b' \<Longrightarrow> bank_ix fx b b'"
| pulse_price: "lending_pool_pulse_bank_price_cache fx lib group_key clock ais b = Inr b' \<Longrightarrow> bank_ix fx b b'"

type_synonym world = "(pubkey \<Rightarrow> MarginfiAccount option) \<times> (pubkey \<Rightarrow> Bank option)"

text \<open>One step of the whole; what one account alone may do is a parameter.\<close>

inductive world_step ::
  "(MarginfiAccount \<Rightarrow> MarginfiAccount \<Rightarrow> bool) \<Rightarrow> fixed_ops \<Rightarrow> 'w chain \<Rightarrow> world \<Rightarrow> world \<Rightarrow> bool"
  for alone :: "MarginfiAccount \<Rightarrow> MarginfiAccount \<Rightarrow> bool" and fx :: fixed_ops and ch :: "'w chain" where
  solo: "solo_ix fx ch pk (a, b) (a', b') \<Longrightarrow> accs k = Some a \<Longrightarrow> bks pk = Some b \<Longrightarrow>
    world_step alone fx ch (accs, bks) (accs(k \<mapsto> a'), bks(pk \<mapsto> b'))"
| alone: "alone a a' \<Longrightarrow> accs k = Some a \<Longrightarrow> world_step alone fx ch (accs, bks) (accs(k \<mapsto> a'), bks)"
| bank: "bank_ix fx b b' \<Longrightarrow> bks pk = Some b \<Longrightarrow> world_step alone fx ch (accs, bks) (accs, bks(pk \<mapsto> b'))"
| liquidate: "lending_account_liquidate env lq g ais n k1 k2 (tor, tee, ab, lb)
      = Inr ((tor', tee', ab', lb'), t) \<Longrightarrow> e_fx env = fx \<Longrightarrow> n \<le> u64_max \<Longrightarrow>
    accs (lq_liquidator lq) = Some tor \<Longrightarrow> accs (lq_liquidatee lq) = Some tee \<Longrightarrow>
    bks (lq_asset_bank lq) = Some ab \<Longrightarrow> bks (lq_liab_bank lq) = Some lb \<Longrightarrow>
    world_step alone fx ch (accs, bks)
      (accs(lq_liquidator lq \<mapsto> tor', lq_liquidatee lq \<mapsto> tee'),
       bks(lq_asset_bank lq \<mapsto> ab', lq_liab_bank lq \<mapsto> lb'))"
| transfer: "transfer_to_new_account tf now g old = Inr (old', new, t)
      \<or> transfer_to_new_account_pda mrgn_id rules tx bump tf now g index third_party old = Inr (old', new, t) \<Longrightarrow>
    accs (tf_old_account tf) = Some old \<Longrightarrow> accs (tf_new_account tf) = None \<Longrightarrow>
    world_step alone fx ch (accs, bks) (accs(tf_old_account tf \<mapsto> old', tf_new_account tf \<mapsto> new), bks)"
| open_account: "a = initialize_account group_key auth now
      \<or> initialize_account_pda mrgn_id rules tx bump group_key auth now index third_party = Inr a \<Longrightarrow>
    accs k = None \<Longrightarrow> world_step alone fx ch (accs, bks) (accs(k \<mapsto> a), bks)"
| close: "close_account signer a = Inr () \<Longrightarrow> accs k = Some a \<Longrightarrow>
    world_step alone fx ch (accs, bks) (accs(k := None), bks)"

abbreviation everyday_step :: "fixed_ops \<Rightarrow> 'w chain \<Rightarrow> world \<Rightarrow> world \<Rightarrow> bool" where
  "everyday_step \<equiv> world_step alone_ix"

text \<open>All instructions: the everyday ones, and those that start and end a receivership.\<close>

inductive protocol_step :: "fixed_ops \<Rightarrow> 'w chain \<Rightarrow> world \<Rightarrow> world \<Rightarrow> bool"
  for fx :: fixed_ops and ch :: "'w chain" where
  everyday: "everyday_step fx ch w w' \<Longrightarrow> protocol_step fx ch w w'"
| receivership: "receivership_ix a a' \<Longrightarrow> accs k = Some a \<Longrightarrow>
    protocol_step fx ch (accs, bks) (accs(k \<mapsto> a'), bks)"

definition books_of :: "world \<Rightarrow> books" where
  "books_of w = (map_option lending_account \<circ> fst w, snd w)"

lemma books_of_simps [simp]:
  "books_of (accs, bks) = (map_option lending_account \<circ> accs, bks)"
  "map_option lending_account \<circ> accs(k := x)
     = (map_option lending_account \<circ> accs)(k := map_option lending_account x)"
  by (simp_all add: books_of_def fun_upd_comp)

section \<open>Every instruction keeps the books\<close>

lemma calm_ix_balances: "calm_ix a a' \<Longrightarrow> lending_account a' = lending_account a"
proof (induction rule: calm_ix.induct)
  case (pulse env ais a a')
  then show ?case
    by (auto simp: lending_account_pulse_health_def Let_def split: prod.splits if_splits elim!: bindR_InrE)
qed (auto simp: set_account_freeze_def
    marginfi_account_update_emissions_destination_account_def initialize_liquidation_record_def
    acc_set_flag_def acc_unset_flag_def Let_def elim!: bindR_InrE split: if_splits)

lemma alone_ix_balances: "alone_ix a a' \<Longrightarrow> lending_account a' = lending_account a"
  by (induction rule: alone_ix.induct)
    (auto simp: calm_ix_balances lending_account_start_flashloan_def lending_account_end_flashloan_def
      acc_set_flag_def acc_unset_flag_def Let_def elim!: bindR_InrE split: if_splits)

lemma receivership_ix_balances: "receivership_ix a a' \<Longrightarrow> lending_account a' = lending_account a"
  by (induction rule: receivership_ix.induct)
    (auto simp: start_liquidation_def start_receivership_def end_liquidation_def end_receivership_def
      start_deleverage_def end_deleverage_def acc_set_flag_def acc_unset_flag_def Let_def
      elim!: bindR_InrE split: if_splits)

lemma emissions_shape:
  assumes "lending_account_withdraw_emissions env ta ea g (a, b) = Inr s
    \<or> lending_account_withdraw_emissions_permissionless ata env ta ea g (a, b) = Inr s"
  shows "settle_and_pay env (ta_bank ta) ea (a, b) = Inr s"
  using assms unfolding lending_account_withdraw_emissions_def prod.case
    lending_account_withdraw_emissions_permissionless_def by (auto elim!: bindR_InrE)

context typed_chain
begin

lemma solo_ix_move:
  assumes "solo_ix fx ch pk (a, b) (a', b')"
  shows "ledger_move pk (lending_account a, b) (lending_account a', b')"
proof (rule ledger_moveI)
  fix ra rl others
  assume inv: "account_inv pk ra rl others (lending_account a, b)"
  show "account_inv pk ra rl others (lending_account a', b')"
    using assms
  proof (cases rule: solo_ix.cases)
    case (emissions env ta ea g ts)
    then show ?thesis using settle_and_pay_inv emissions_shape inv by blast
  next
    case (emissions_permissionless ata env ta ea g ts)
    then show ?thesis using settle_and_pay_inv emissions_shape inv by blast
  next
    case (position_in w w')
    then show ?thesis
      by (elim disjE) (rule kamino.deposit_keeps_ledger [OF _ inv] drift.deposit_keeps_ledger [OF _ inv]
        solend.deposit_keeps_ledger [OF _ inv], assumption)+
  next
    case (position_out w w')
    then show ?thesis
      by (elim disjE) (rule kamino.withdraw_keeps_ledger [OF _ inv] drift.withdraw_keeps_ledger [OF _ inv]
        solend.withdraw_keeps_ledger [OF _ inv], assumption)+
  next
    case (deposit env ta g ais n up ts)
    show ?thesis
      using deposit_inv [OF deposit(2-4)] inv deposit(1) by simp
  next
    case (withdraw env ta ais n all g g' ts)
    show ?thesis
      using withdraw_inv [OF withdraw(2-4)] inv withdraw(1) by simp
  next
    case (borrow env ta g ais n ts)
    show ?thesis
      using borrow_inv [OF borrow(2-5)] inv borrow(1) by simp
  next
    case (repay env ta g ais n all ts)
    show ?thesis
      using repay_inv [OF repay(2-4)] inv repay(1) by simp
  next
    case (close_balance env ta g)
    show ?thesis
      using close_balance_inv [OF close_balance(2-3)] inv close_balance(1) by simp
  next
    case (purge env ta g)
    show ?thesis
      using purge_inv [OF purge(2-3)] inv purge(1) by simp
  next
    case (settle env)
    show ?thesis
      using settle_inv [OF settle(1-2)] inv settle(1) by simp
  next
    case (bankruptcy env bk g ais t)
    show ?thesis
      using bankruptcy_inv [OF bankruptcy(2-3)] inv bankruptcy(1) by simp
  qed
qed

lemma bank_ix_frame:
  assumes "bank_ix fx b b'" and ok: "bank_ok b"
  shows "bank_ok b' \<and> total_asset_shares b' = total_asset_shares b
    \<and> total_liability_shares b' = total_liability_shares b"
  using assms(1)
proof (cases rule: bank_ix.cases)
  case (accrue group_key now g)
  then obtain b1 where b1: "accrue_interest fx now g b = Inr b1" "update_bank_cache fx now g b1 = Inr b'"
    by (auto simp: lending_pool_accrue_bank_interest_def elim!: bindR_InrE)
  then show ?thesis
    using accrue_interest_ok [OF b1(1) ok] accrue_interest_monotone(6,7) [OF b1(1) ok]
      update_bank_cache_ok [OF b1(2)] update_bank_cache_frame [OF b1(2)] by simp
next
  case (pulse_price lib group_key clock ais)
  then show ?thesis
    using ok by (auto simp: lending_pool_pulse_bank_price_cache_def update_cache_price_def bank_ok_def
        elim!: bindR_InrE)
qed

end

text \<open>Accounts may come and go while nobody holds more.\<close>

lemma books_accounts:
  assumes "books_ok (las, bs)" and "finite (dom las')"
    and "\<And>la. la \<in> ran las' \<Longrightarrow> la \<in> ran las \<or> la = LendingAccount_zeroed"
    and "\<And>f pk. f = asset_shares \<or> f = liability_shares \<Longrightarrow> pk \<in> dom bs \<Longrightarrow>
      held_by_all f pk las' \<le> held_by_all f pk las"
  shows "books_ok (las', bs)"
proof -
  have z: "slots_ok LendingAccount_zeroed" "holdings_ok pk LendingAccount_zeroed" for pk
    by (simp_all add: LendingAccount_zeroed_def slots_ok_def unique_banks_def integration_count_def
        is_active_def empty_deactivated_def holdings_ok_def)
  have le: "held_by_all asset_shares pk las' \<le> held_by_all asset_shares pk las"
    "held_by_all liability_shares pk las' \<le> held_by_all liability_shares pk las"
    if "bs pk = Some b" for pk b
    using assms(4) that by blast+
  show ?thesis
    unfolding books_ok_def fst_conv snd_conv
  proof (intro conjI ballI allI impI)
    fix la assume "la \<in> ran las'"
    then show "slots_ok la" using assms(1,3) z(1) by (auto simp: books_ok_def)
  next
    fix pk b la assume "bs pk = Some b" "la \<in> ran las'"
    then show "holdings_ok pk la" using assms(1,3) z(2) unfolding books_ok_def fst_conv snd_conv by blast
  next
    fix pk b assume b: "bs pk = Some b"
    show "bank_ok b" using assms(1) b by (auto simp: books_ok_def)
    show "held_by_all asset_shares pk las' \<le> total_asset_shares b"
      "held_by_all liability_shares pk las' \<le> total_liability_shares b"
      using assms(1) b le [OF b] by (auto simp: books_ok_def intro: order_trans)
  qed (rule assms(2))
qed

lemma held_zeroed [simp]: "held f pk LendingAccount_zeroed = 0"
  by (simp add: held_def LendingAccount_zeroed_def is_active_def empty_deactivated_def sum_list_replicate)

lemma held_by_all_new:
  assumes "finite (dom las)" and "las k = None"
  shows "held_by_all f pk (las(k \<mapsto> la)) = held f pk la + held_by_all f pk las"
proof -
  have "dom las - {k} = dom las" using assms(2) by auto
  then show ?thesis using held_by_all_insert [OF assms(1), of f pk k la] by (simp add: held_by_all_def)
qed

lemma books_open:
  assumes ok: "books_ok (las, bs)" and "las k = None"
  shows "books_ok (las(k \<mapsto> LendingAccount_zeroed), bs)"
proof (rule books_accounts [OF ok])
  have fin: "finite (dom las)" using ok by (simp add: books_ok_def)
  then show "finite (dom (las(k \<mapsto> LendingAccount_zeroed)))" by simp
  show "held_by_all f pk (las(k \<mapsto> LendingAccount_zeroed)) \<le> held_by_all f pk las" for f pk
    using held_by_all_new [OF fin assms(2), of f pk LendingAccount_zeroed] by simp
qed (auto simp: ran_def split: if_splits)

lemma books_close:
  assumes ok: "books_ok (las, bs)" and k: "las k = Some la"
  shows "books_ok (las(k := None), bs)"
proof (rule books_accounts [OF ok])
  have fin: "finite (dom las)" using ok by (simp add: books_ok_def)
  then show "finite (dom (las(k := None)))" by simp
  fix f :: "Balance \<Rightarrow> int" and pk
  assume f: "f = asset_shares \<or> f = liability_shares" and "pk \<in> dom bs"
  moreover have "la \<in> ran las" using k by (auto simp: ran_def)
  ultimately have "holdings_ok pk la" using ok unfolding books_ok_def fst_conv snd_conv by blast
  then have "0 \<le> held f pk la" using f by (intro held_nonneg) (auto simp: holdings_ok_def)
  moreover have "held_by_all f pk (las(k := None)) = (\<Sum>j \<in> dom las - {k}. held f pk (the (las j)))"
    unfolding held_by_all_def by (intro sum.cong) auto
  ultimately show "held_by_all f pk (las(k := None)) \<le> held_by_all f pk las"
    using held_by_all_eq [OF fin k, of f pk] by simp
qed (auto simp: ran_def split: if_splits)

lemma books_transfer:
  assumes ok: "books_ok (las, bs)" and k: "las k = Some la" and j: "las j = None"
  shows "books_ok (las(k \<mapsto> LendingAccount_zeroed, j \<mapsto> la), bs)"
proof (rule books_accounts [OF ok])
  have fin: "finite (dom las)" using ok by (simp add: books_ok_def)
  then show "finite (dom (las(k \<mapsto> LendingAccount_zeroed, j \<mapsto> la)))" by simp
  have kj: "j \<noteq> k" using k j by auto
  show "held_by_all f pk (las(k \<mapsto> LendingAccount_zeroed, j \<mapsto> la)) \<le> held_by_all f pk las" for f pk
    using held_by_all_new [of "las(k \<mapsto> LendingAccount_zeroed)" j f pk la] fin j kj
      held_by_all_insert [OF fin, of f pk k LendingAccount_zeroed] held_by_all_eq [OF fin k, of f pk]
    by simp
qed (use k in \<open>auto simp: ran_def split: if_splits\<close>)

lemma books_bank:
  assumes "books_ok (las, bs)" and "bs pk = Some b" and "bank_ok b'"
    and "total_asset_shares b' = total_asset_shares b" "total_liability_shares b' = total_liability_shares b"
  shows "books_ok (las, bs(pk \<mapsto> b'))"
  using assms by (auto simp: books_ok_def)

lemma transfer_shape:
  assumes "transfer_to_new_account tf now g old = Inr (old', new, t)
    \<or> transfer_to_new_account_pda mrgn_id rules tx bump tf now g index third_party old = Inr (old', new, t)"
  shows "lending_account old' = LendingAccount_zeroed" and "lending_account new = lending_account old"
    and "acc_get_flag old' ACCOUNT_DISABLED" and "\<not> acc_get_flag old ACCOUNT_IN_FLASHLOAN"
    and "\<not> acc_get_flag old ACCOUNT_IN_RECEIVERSHIP" and "migrated_to old = default_key"
    and "migrated_to old' = tf_new_account tf" and "account_flags new = account_flags old"
    and "migrated_from new = tf_old_account tf" and "authority new = tf_new_authority tf"
    and "acc_group new = acc_group old" and "tr_amount t = ACCOUNT_TRANSFER_FEE"
  using assms
  by (auto simp: transfer_to_new_account_def transfer_to_new_account_pda_def transfer_guards_def
      emptied_account_def moved_account_def with_pda_def account_initialize_def transfer_fee_def
      ACCOUNT_DISABLED_def word_flags.get_put
      acc_set_flag_def acc_get_flag_def check_def elim!: bindR_InrE split: if_splits)

context typed_chain
begin

lemma everyday_step_ok:
  assumes "everyday_step fx ch w w'" and "books_ok (books_of w)"
  shows "books_ok (books_of w')"
  using assms
proof (cases rule: world_step.cases)
  case (solo pk a b a' b' accs k bks)
  then show ?thesis
    using books_move [OF _ _ _ solo_ix_move [OF solo(3)], of "map_option lending_account \<circ> accs" bks k]
      assms(2) by simp
next
  case (alone a a' accs k bks)
  then have "books_of w' = books_of w"
    using alone_ix_balances [OF alone(3)] by (simp add: fun_upd_idem)
  then show ?thesis using assms(2) by simp
next
  case (bank b b' bks pk accs)
  have "books_ok (map_option lending_account \<circ> accs, bks)" using assms(2) bank(1) by simp
  moreover from this have "bank_ok b" using bank(4) by (auto simp: books_ok_def)
  ultimately show ?thesis
    using bank_ix_frame [OF bank(3)] bank(1,2,4) books_bank by simp
next
  case (liquidate env lq g ais n k1 k2 tor tee ab lb tor' tee' ab' lb' t accs bks)
  let ?L = "lq_liquidator lq" and ?T = "lq_liquidatee lq" and ?A = "lq_asset_bank lq" and ?B = "lq_liab_bank lq"
  let ?las = "map_option lending_account \<circ> accs"
  have ne: "?L \<noteq> ?T" "?A \<noteq> ?B"
    using liquidate(3) by (cases rule: liquidate_cases, auto simp: liq_guards_def check_def
        elim!: bindR_InrE split: if_splits)+
  obtain tor1 lb1 tee1 ab1 where m:
    "ledger_move ?B (lending_account tor, lb) (tor1, lb1)"
    "ledger_move ?A (lending_account tee, ab) (tee1, ab1)"
    "ledger_move ?A (tor1, ab1) (lending_account tor', ab')"
    "ledger_move ?B (tee1, lb1) (lending_account tee', lb')"
    by (rule liquidate_moves [OF liquidate(3-5)])
  have "books_ok (?las, bks)" using assms(2) liquidate(1) by simp
  then have "books_ok (?las(?L \<mapsto> tor1), bks(?B \<mapsto> lb1))"
    by (rule books_move [OF _ _ _ m(1)]) (use liquidate in simp_all)
  then have "books_ok (?las(?L \<mapsto> tor1, ?T \<mapsto> tee1), bks(?B \<mapsto> lb1, ?A \<mapsto> ab1))"
    by (rule books_move [OF _ _ _ m(2)]) (use liquidate ne in simp_all)
  then have "books_ok (?las(?L \<mapsto> tor1, ?T \<mapsto> tee1, ?L \<mapsto> lending_account tor'),
      bks(?B \<mapsto> lb1, ?A \<mapsto> ab1, ?A \<mapsto> ab'))"
    by (rule books_move [OF _ _ _ m(3)]) (use ne in simp_all)
  then have "books_ok (?las(?L \<mapsto> tor1, ?T \<mapsto> tee1, ?L \<mapsto> lending_account tor', ?T \<mapsto> lending_account tee'),
      bks(?B \<mapsto> lb1, ?A \<mapsto> ab1, ?A \<mapsto> ab', ?B \<mapsto> lb'))"
    by (rule books_move [OF _ _ _ m(4)]) (use ne in simp_all)
  then show ?thesis using liquidate(1,2) ne by (simp add: fun_upd_twist)
next
  case (transfer tf now g old old' new t mrgn_id rules tx bump index third_party accs bks)
  note sh = transfer_shape(1,2) [OF transfer(3)]
  show ?thesis
    using books_transfer [of "map_option lending_account \<circ> accs" bks "tf_old_account tf"
        "lending_account old" "tf_new_account tf"] transfer assms(2) sh by simp
next
  case (open_account a group_key auth now mrgn_id rules tx bump index third_party accs k bks)
  have "lending_account a = LendingAccount_zeroed"
    using open_account(3) by (auto simp: initialize_account_def initialize_account_pda_def with_pda_def
        account_initialize_def MarginfiAccount_zeroed_def LendingAccount_zeroed_def elim!: bindR_InrE)
  then show ?thesis
    using books_open [of "map_option lending_account \<circ> accs" bks k] open_account assms(2) by simp
next
  case (close signer a accs k bks)
  then show ?thesis
    using books_close [of "map_option lending_account \<circ> accs" bks k "lending_account a"] assms(2) by simp
qed

lemma protocol_step_ok:
  assumes "protocol_step fx ch w w'" and "books_ok (books_of w)"
  shows "books_ok (books_of w')"
  using assms(1)
proof (cases rule: protocol_step.cases)
  case everyday
  then show ?thesis using everyday_step_ok assms(2) by blast
next
  case (receivership a a' accs k bks)
  then have "books_of w' = books_of w"
    using receivership_ix_balances [OF receivership(3)] by (simp add: fun_upd_idem)
  then show ?thesis using assms(2) by simp
qed

lemma protocol_steps_ok: "(protocol_step fx ch)\<^sup>*\<^sup>* w w' \<Longrightarrow> books_ok (books_of w) \<Longrightarrow> books_ok (books_of w')"
  by (induction rule: rtranclp_induct) (auto intro: protocol_step_ok)

end

end
