(* ===== verification/AccountFlags.thy ===== *)
theory AccountFlags
  imports Protocol
begin

text \<open>
  Which accounts are in receivership or in a flash loan, and that no other instruction than those
  that start one puts an account into it: the instructions on balances, on one account alone, on
  banks and on receivership leave the flags they are not about.
\<close>

section \<open>Accounts with a flag\<close>

definition flagged :: "64 word \<Rightarrow> (pubkey \<Rightarrow> MarginfiAccount option) \<Rightarrow> pubkey set" where
  "flagged f accs = {k. \<exists>a. accs k = Some a \<and> acc_get_flag a f}"

text \<open>The two flags that an account has only during a transaction.\<close>

definition passing :: "64 word \<Rightarrow> bool" where
  "passing f \<longleftrightarrow> f = ACCOUNT_IN_RECEIVERSHIP \<or> f = ACCOUNT_IN_FLASHLOAN"

lemma flagged_upd:
  "flagged f (accs(k \<mapsto> a)) = (if acc_get_flag a f then insert k (flagged f accs) else flagged f accs - {k})"
  by (auto simp: flagged_def)

lemma flagged_same:
  "accs k = Some a \<Longrightarrow> acc_get_flag a' f = acc_get_flag a f \<Longrightarrow> flagged f (accs(k \<mapsto> a')) = flagged f accs"
  by (auto simp: flagged_def)

lemma flags_other:
  assumes "passing f"
  shows "acc_get_flag (acc_set_flag ACCOUNT_DISABLED a) f = acc_get_flag a f"
    and "acc_get_flag (acc_set_flag ACCOUNT_FROZEN a) f = acc_get_flag a f"
    and "acc_get_flag (acc_unset_flag ACCOUNT_FROZEN a) f = acc_get_flag a f"
proof -
  have "f AND ACCOUNT_DISABLED = 0" "f AND ACCOUNT_FROZEN = 0" "ACCOUNT_DISABLED AND f = 0" "ACCOUNT_FROZEN AND f = 0"
    using assms by (auto simp: passing_def account_flag_defs)
  then show "acc_get_flag (acc_set_flag ACCOUNT_DISABLED a) f = acc_get_flag a f"
    "acc_get_flag (acc_set_flag ACCOUNT_FROZEN a) f = acc_get_flag a f"
    "acc_get_flag (acc_unset_flag ACCOUNT_FROZEN a) f = acc_get_flag a f"
    by (simp_all add: acc_flags.get_put_other acc_flags.get_clear_other)
qed

lemma flags_kept: "account_flags a' = account_flags a \<Longrightarrow> acc_get_flag a' f = acc_get_flag a f"
  by (simp add: acc_get_flag_def)

lemma booked_flags [simp]: "account_flags (booked env la a) = account_flags a"
  by (simp add: booked_def)

lemma withdraw_health_flags:
  "withdraw_health env key b a ais = Inr (a', p) \<Longrightarrow> account_flags a' = account_flags a"
  by (auto simp: withdraw_health_def elim!: bindE split: if_splits)

lemma credit_flags: "credit_position env key g n a b = Inr (a', b') \<Longrightarrow> account_flags a' = account_flags a"
  by (elim credit_cases) simp

lemma finish_flags:
  "withdraw_finish env key ais la a b = Inr (a', b') \<Longrightarrow> account_flags a' = account_flags a"
  by (elim withdraw_finish_cases) (simp add: withdraw_health_flags)

lemma position_in_flags:
  assumes "kamino_in fx ch pk (a, b, w) (a', b', w') \<or> drift_in fx ch pk (a, b, w) (a', b', w')
      \<or> solend_in fx ch pk (a, b, w) (a', b', w')"
  shows "account_flags a' = account_flags a"
proof -
  have "\<exists>env key g n. credit_position env key g n a b = Inr (a', b')"
    using assms
  proof (elim disjE)
    assume "kamino_in fx ch pk (a, b, w) (a', b', w')"
    then show ?thesis by cases (blast elim: kamino_deposit_cases)
  next
    assume "drift_in fx ch pk (a, b, w) (a', b', w')"
    then show ?thesis by cases (blast elim: drift_deposit_cases)
  next
    assume "solend_in fx ch pk (a, b, w) (a', b', w')"
    then show ?thesis by cases (blast elim: solend_deposit_cases)
  qed
  then show ?thesis using credit_flags by blast
qed

lemma position_out_flags:
  assumes "kamino_out fx ch pk (a, b, w) (a', b', w') \<or> drift_out fx ch pk (a, b, w) (a', b', w')
      \<or> solend_out fx ch pk (a, b, w) (a', b', w')"
  shows "account_flags a' = account_flags a"
proof -
  have "\<exists>env key ais la b2. withdraw_finish env key ais la a b2 = Inr (a', b')"
    using assms
  proof (elim disjE)
    assume "kamino_out fx ch pk (a, b, w) (a', b', w')"
    then show ?thesis by cases (blast elim: kamino_withdraw_cases)
  next
    assume "drift_out fx ch pk (a, b, w) (a', b', w')"
    then show ?thesis by cases (blast elim: drift_withdraw_cases)
  next
    assume "solend_out fx ch pk (a, b, w) (a', b', w')"
    then show ?thesis by cases (blast elim: solend_withdraw_cases)
  qed
  then show ?thesis using finish_flags by blast
qed

lemma solo_ix_flag:
  assumes f: "passing f" and "solo_ix fx ch pk (a, b) (a', b')"
  shows "acc_get_flag a' f = acc_get_flag a f"
  using assms(2)
proof (cases rule: solo_ix.cases)
  case (withdraw env ta ais n all g g' ts)
  from withdraw(2) have "account_flags a' = account_flags a"
    by (rule withdraw_cases) (drule withdraw_health_flags, simp)
  then show ?thesis by (rule flags_kept)
next
  case (bankruptcy env bk g ais t)
  then obtain a1 where "a' = acc_set_flag ACCOUNT_DISABLED a1" "account_flags a1 = account_flags a"
    by (elim bankruptcy_cases) simp
  then show ?thesis using flags_kept [of a1 a f] by (simp add: flags_other [OF f])
next
  case (emissions env ta ea g ts)
  then have "settle_and_pay env (ta_bank ta) ea (a, b) = Inr (a', b', ts)" using emissions_shape by blast
  then show ?thesis by (auto simp: settle_and_pay_def Let_def elim!: bindE split: if_splits intro!: flags_kept)
next
  case (emissions_permissionless ata env ta ea g ts)
  then have "settle_and_pay env (ta_bank ta) ea (a, b) = Inr (a', b', ts)" using emissions_shape by blast
  then show ?thesis by (auto simp: settle_and_pay_def Let_def elim!: bindE split: if_splits intro!: flags_kept)
next
  case (position_in w w')
  then show ?thesis by (rule flags_kept [OF position_in_flags])
next
  case (position_out w w')
  then show ?thesis by (rule flags_kept [OF position_out_flags])
next
  case (purge env ta g)
  then show ?thesis
    by (auto simp: lending_account_purge_delev_balance_def elim!: bindE intro!: flags_kept)
next
  case (settle env)
  then show ?thesis
    by (auto simp: lending_account_settle_emissions_def elim!: bindE intro!: flags_kept)
qed (auto elim!: deposit_cases borrow_cases repay_cases close_balance_cases intro!: flags_kept)

lemma calm_ix_flag: "calm_ix a a' \<Longrightarrow> passing f \<Longrightarrow> acc_get_flag a' f = acc_get_flag a f"
proof (induction rule: calm_ix.induct)
  case (pulse env ais a a')
  then have "account_flags a' = account_flags a"
    by (auto simp: lending_account_pulse_health_def Let_def split: prod.splits if_splits elim!: bindR_InrE)
  then show ?case by (rule flags_kept)
next
  case (freeze signer key now g frozen a a')
  then obtain x where "a' = (if x then acc_set_flag ACCOUNT_FROZEN a else acc_unset_flag ACCOUNT_FROZEN a)
      \<lparr>acc_last_update := as_u64 now\<rparr>"
    by (auto simp: set_account_freeze_def Let_def elim!: bindR_InrE)
  then show ?case
    using flags_kept [of a' "if x then acc_set_flag ACCOUNT_FROZEN a else acc_unset_flag ACCOUNT_FROZEN a" f]
    by (simp add: flags_other [OF freeze(2)])
qed (auto simp: marginfi_account_update_emissions_destination_account_def initialize_liquidation_record_def
    elim!: bindR_InrE intro!: flags_kept)

lemma fresh_account_flag:
  assumes "a = initialize_account group_key auth now
    \<or> initialize_account_pda mrgn_id rules tx bump group_key auth now index third_party = Inr a"
  shows "\<not> acc_get_flag a f"
  using assms
  by (auto simp: initialize_account_pda_def with_pda_def initialize_account_def account_initialize_def
      MarginfiAccount_zeroed_def acc_get_flag_def flag_get_def elim!: bindE)

section \<open>The whole world\<close>

text \<open>A step of the world flags no account that what accounts do alone does not flag.\<close>

lemma world_step_flagged:
  assumes "world_step alone fx ch w w'" and f: "passing f"
    and one: "\<And>a a'. alone a a' \<Longrightarrow> acc_get_flag a' f \<Longrightarrow> acc_get_flag a f"
  shows "flagged f (fst w') \<subseteq> flagged f (fst w)"
  using assms(1)
proof (cases rule: world_step.cases)
  case (solo pk a b a' b' accs k bks)
  then show ?thesis using flagged_same [of accs k a a'] solo_ix_flag [OF f solo(3)] by simp
next
  case (alone a a' accs k bks)
  then show ?thesis using one [OF alone(3)] by (auto simp: flagged_def)
next
  case (liquidate env lq g ais n k1 k2 tor tee ab lb tor' tee' ab' lb' t accs bks)
  have "acc_get_flag tor' f = acc_get_flag tor f" "acc_get_flag tee' f = acc_get_flag tee f"
    using liquidate(3) by (auto elim!: liquidate_cases intro!: flags_kept)
  moreover have "lq_liquidator lq \<noteq> lq_liquidatee lq"
    using liquidate(3) by (cases rule: liquidate_cases) (auto simp: liq_guards_def check_def
        elim!: bindR_InrE split: if_splits)
  ultimately show ?thesis
    unfolding liquidate(1,2) fst_conv using liquidate(6,7) by (auto simp: flagged_def split: if_splits)
next
  case (transfer tf now g old old' new t mrgn_id rules tx bump index third_party accs bks)
  note sh = transfer_shape [OF transfer(3)]
  have "\<not> acc_get_flag new f" using sh(4,5,8) f by (auto simp: passing_def acc_get_flag_def)
  moreover have "acc_get_flag old' f = acc_get_flag old f"
  proof -
    have "account_flags old' = account_flags (acc_set_flag ACCOUNT_DISABLED old)"
      using transfer(3)
      by (auto simp: transfer_to_new_account_def transfer_to_new_account_pda_def emptied_account_def
          acc_set_flag_def elim!: bindR_InrE)
    then show ?thesis using flags_kept flags_other(1) [OF f] by metis
  qed
  ultimately show ?thesis using transfer by (auto simp: flagged_upd flagged_def)
next
  case (open_account a group_key auth now mrgn_id rules tx bump index third_party accs k bks)
  then show ?thesis using fresh_account_flag by (auto simp: flagged_upd)
next
  case (close signer a accs k bks)
  then show ?thesis by (auto simp: flagged_def)
qed (auto simp: flagged_def)

end
