(* ===== verification/ReceivershipTx.thy ===== *)
theory ReceivershipTx
  imports AccountFlags
begin

text \<open>
  Receivership over a whole transaction (\<open>liquidate_start.rs\<close>, \<open>liquidate_end.rs\<close>): the instructions
  of one transaction on all accounts, banks and liquidation records. What starts a receivership
  looks at the instructions of the transaction; here it runs among them. Any other instruction,
  of whatever program, is any sequence of the everyday steps of the protocol.
\<close>

section \<open>Who is in receivership\<close>

definition in_receivership :: "MarginfiAccount \<Rightarrow> bool" where
  "in_receivership a = acc_get_flag a ACCOUNT_IN_RECEIVERSHIP"

definition in_care :: "(pubkey \<Rightarrow> MarginfiAccount option) \<Rightarrow> pubkey set" where
  "in_care accs = {k. \<exists>a. accs k = Some a \<and> in_receivership a}"

lemma in_care_flagged: "in_care = flagged ACCOUNT_IN_RECEIVERSHIP"
  by (simp add: in_care_def flagged_def in_receivership_def fun_eq_iff)

lemma in_care_upd: "in_care (accs(k \<mapsto> a)) = (if in_receivership a then insert k (in_care accs) else in_care accs - {k})"
  by (auto simp: in_care_def)

text \<open>No everyday instruction puts an account into receivership.\<close>

lemma alone_ix_flag:
  assumes "alone_ix a a'"
  shows "acc_get_flag a' ACCOUNT_IN_RECEIVERSHIP = acc_get_flag a ACCOUNT_IN_RECEIVERSHIP"
  using assms
proof (cases rule: alone_ix.cases)
  case calm
  then show ?thesis by (intro calm_ix_flag) (simp_all add: passing_def)
next
  case (start_flashloan mrgn_id signer key tx i)
  then show ?thesis
    by (auto simp: lending_account_start_flashloan_def acc_flags.get_put_other account_flag_defs elim!: bindR_InrE)
next
  case (end_flashloan signer tx health)
  then show ?thesis
    by (auto simp: lending_account_end_flashloan_def Let_def acc_flags.get_clear_other account_flag_defs elim!: bindR_InrE)
qed

lemma everyday_step_care: "everyday_step fx ch w w' \<Longrightarrow> in_care (fst w') \<subseteq> in_care (fst w)"
  unfolding in_care_flagged by (erule world_step_flagged) (simp_all add: passing_def alone_ix_flag)

lemma everyday_steps_care: "(everyday_step fx ch)\<^sup>*\<^sup>* w w' \<Longrightarrow> in_care (fst w') \<subseteq> in_care (fst w)"
  by (induction rule: rtranclp_induct) (use everyday_step_care in blast)+

section \<open>One transaction\<close>

definition starts_receivership :: "program_keys \<Rightarrow> Instruction \<Rightarrow> bool" where
  "starts_receivership pk ix \<longleftrightarrow>
     is_ix (MARGINFI_ID pk) START_LIQUIDATION ix \<or> is_ix (MARGINFI_ID pk) START_DELEVERAGE ix"

definition ends_receivership :: "program_keys \<Rightarrow> Instruction \<Rightarrow> bool" where
  "ends_receivership pk ix \<longleftrightarrow>
     is_ix (MARGINFI_ID pk) END_LIQUIDATION ix \<or> is_ix (MARGINFI_ID pk) END_DELEVERAGE ix"

text \<open>The first accounts of an instruction, in the order of its account struct.\<close>

definition first_accounts :: "Instruction \<Rightarrow> pubkey list \<Rightarrow> bool" where
  "first_accounts ix ks \<longleftrightarrow> take (length ks) (map am_pubkey (ix_accounts ix)) = ks"

type_synonym tx_world = "world \<times> (pubkey \<Rightarrow> LiquidationRecord option)"

text \<open>
  The instruction at index \<open>i\<close> of the transaction \<open>ixs\<close>. The clock, the oracles, the remaining
  accounts, the group and the fees are whatever they are at that time; records may be added.
\<close>

inductive tx_step ::
  "fixed_ops \<Rightarrow> 'w chain \<Rightarrow> program_keys \<Rightarrow> Instruction list \<Rightarrow> nat \<Rightarrow> tx_world \<Rightarrow> tx_world \<Rightarrow> bool"
  for fx :: fixed_ops and ch :: "'w chain" and pk :: program_keys and ixs :: "Instruction list" where
  start_liquidation: "is_ix (MARGINFI_ID pk) START_LIQUIDATION (ixs ! i) \<Longrightarrow>
    first_accounts (ixs ! i) [k, r, receiver] \<Longrightarrow> accs k = Some a \<Longrightarrow> recs r = Some lr \<Longrightarrow> e_fx env = fx \<Longrightarrow>
    start_liquidation env pk (top_level ixs i) r receiver ais (a, lr) = Inr (a', lr') \<Longrightarrow>
    tx_step fx ch pk ixs i ((accs, bks), recs) ((accs(k \<mapsto> a'), bks), recs(r \<mapsto> lr'))"
| end_liquidation: "is_ix (MARGINFI_ID pk) END_LIQUIDATION (ixs ! i) \<Longrightarrow>
    first_accounts (ixs ! i) [k, r, signer] \<Longrightarrow> accs k = Some a \<Longrightarrow> recs r = Some lr \<Longrightarrow> e_fx env = fx \<Longrightarrow>
    end_liquidation env (top_level ixs i) r signer fs wallet ais (a, lr) = Inr (a', lr', ts) \<Longrightarrow>
    tx_step fx ch pk ixs i ((accs, bks), recs) ((accs(k \<mapsto> a'), bks), recs(r \<mapsto> lr'))"
| start_deleverage: "is_ix (MARGINFI_ID pk) START_DELEVERAGE (ixs ! i) \<Longrightarrow>
    first_accounts (ixs ! i) [k, r, gk, signer] \<Longrightarrow> accs k = Some a \<Longrightarrow> recs r = Some lr \<Longrightarrow> e_fx env = fx \<Longrightarrow>
    start_deleverage env pk (top_level ixs i) r gk g signer ais (a, lr) = Inr (a', lr') \<Longrightarrow>
    tx_step fx ch pk ixs i ((accs, bks), recs) ((accs(k \<mapsto> a'), bks), recs(r \<mapsto> lr'))"
| end_deleverage: "is_ix (MARGINFI_ID pk) END_DELEVERAGE (ixs ! i) \<Longrightarrow>
    first_accounts (ixs ! i) [k, r, gk, signer] \<Longrightarrow> accs k = Some a \<Longrightarrow> recs r = Some lr \<Longrightarrow> e_fx env = fx \<Longrightarrow>
    end_deleverage env (top_level ixs i) r gk g signer ais (a, lr) = Inr (a', lr') \<Longrightarrow>
    tx_step fx ch pk ixs i ((accs, bks), recs) ((accs(k \<mapsto> a'), bks), recs(r \<mapsto> lr'))"
| other: "\<not> starts_receivership pk (ixs ! i) \<Longrightarrow> \<not> ends_receivership pk (ixs ! i) \<Longrightarrow>
    (everyday_step fx ch)\<^sup>*\<^sup>* w w' \<Longrightarrow> recs \<subseteq>\<^sub>m recs' \<Longrightarrow> tx_step fx ch pk ixs i (w, recs) (w', recs')"

text \<open>The first \<open>n\<close> instructions of the transaction; all of them succeed or nothing happens.\<close>

inductive tx_run ::
  "fixed_ops \<Rightarrow> 'w chain \<Rightarrow> program_keys \<Rightarrow> Instruction list \<Rightarrow> nat \<Rightarrow> tx_world \<Rightarrow> tx_world \<Rightarrow> bool"
  for fx :: fixed_ops and ch :: "'w chain" and pk :: program_keys and ixs :: "Instruction list" where
  begins: "tx_run fx ch pk ixs 0 s s"
| next_ix: "tx_run fx ch pk ixs n s s' \<Longrightarrow> n < length ixs \<Longrightarrow> tx_step fx ch pk ixs n s' s'' \<Longrightarrow>
    tx_run fx ch pk ixs (Suc n) s s''"

section \<open>What the start demands of the transaction\<close>

lemma only_one:
  assumes "length (filter P xs) = 1" and "i < length xs" "P (xs ! i)" and "j < length xs" "P (xs ! j)"
  shows "j = i"
proof -
  have "card {i. i < length xs \<and> P (xs ! i)} = 1" using assms(1) by (simp add: length_filter_conv_card)
  then obtain x where x: "{i. i < length xs \<and> P (xs ! i)} = {x}" by (rule card_1_singletonE)
  have "i \<in> {i. i < length xs \<and> P (xs ! i)}" "j \<in> {i. i < length xs \<and> P (xs ! i)}" using assms(2-5) by simp_all
  then show ?thesis unfolding x by simp
qed

lemma first_spec_once:
  assumes "first_spec cb ixs pid hash allowed"
  shows "length (filter (is_ix pid hash) ixs) = 1"
proof -
  obtain pre start post where d: "relevant cb ixs = pre @ start # post" "is_ix pid hash start"
    "\<forall>ix \<in> set (pre @ post). \<not> is_ix pid hash ix"
    using assms unfolding first_spec_def by blast
  have "start \<in> set (relevant cb ixs)" using d(1) by simp
  then have "pid \<noteq> cb" using d(2) by (auto simp: relevant_def is_ix_def)
  then have "filter (is_ix pid hash) ixs = filter (is_ix pid hash) (relevant cb ixs)"
    unfolding relevant_def filter_filter by (intro filter_cong) (auto simp: is_ix_def)
  also have "\<dots> = [start]" unfolding d(1) using d(2,3) by (simp add: filter_empty_conv)
  finally show ?thesis by simp
qed

lemma validate_instructions_cases:
  assumes "validate_instructions pk tx s e = Inr ()"
  obtains ixes n m where
    "load_and_validate_instructions tx (Some
       [COMPUTE_PROGRAM_KEY pk, MARGINFI_ID pk, KAMINO_ID pk, DRIFT_ID pk, JUP_KEY pk, TITAN_KEY pk,
        ASSOCIATED_TOKEN_KEY pk, DRIFT_ID pk]) = Inr ixes"
    "validate_ix_first (COMPUTE_PROGRAM_KEY pk) ixes (MARGINFI_ID pk) s
       [(KAMINO_ID pk, REFRESH_RESERVE pk), (KAMINO_ID pk, REFRESH_OBLIGATION pk),
        (MARGINFI_ID pk, INIT_LIQUIDATION_RECORD), (DRIFT_ID pk, UPDATE_CUMULATIVE_INTEREST pk)] = Inr ()"
    "validate_ix_last ixes (MARGINFI_ID pk) e = Inr ()"
    "validate_ixes_exclusive ixes (MARGINFI_ID pk)
       [s, e, INIT_LIQUIDATION_RECORD, LENDING_ACCOUNT_WITHDRAW, LENDING_ACCOUNT_REPAY,
        KAMINO_WITHDRAW, DRIFT_WITHDRAW] = Inr ()"
    "validate_not_cpi_by_stack_height tx = Inr ()"
    "validate_not_cpi_with_sysvar (MARGINFI_ID pk) tx = Inr n"
    "unwrap (checked_sub_nat (length ixes) 1) = Inr m" "check (n < m) StartNotFirst = Inr ()"
  using assms unfolding validate_instructions_def by (elim bindE) (rule that, (assumption | simp)+)

text \<open>The start is the only one, the last instruction ends what it starts, and nothing else of marginfi
  is there but what may happen in receivership.\<close>

lemma validate_instructions_shape:
  assumes "validate_instructions pk (top_level ixs i) s e = Inr ()"
  shows "Suc i < length ixs \<and> is_ix (MARGINFI_ID pk) e (last ixs)
    \<and> length (filter (is_ix (MARGINFI_ID pk) s) ixs) = 1
    \<and> (\<forall>ix \<in> set ixs. program_id ix = MARGINFI_ID pk \<longrightarrow> discrim ix \<in>
         {s, e, INIT_LIQUIDATION_RECORD, LENDING_ACCOUNT_WITHDRAW, LENDING_ACCOUNT_REPAY,
          KAMINO_WITHDRAW, DRIFT_WITHDRAW})"
proof -
  from assms obtain ixes n m where v:
    "load_and_validate_instructions (top_level ixs i) (Some
       [COMPUTE_PROGRAM_KEY pk, MARGINFI_ID pk, KAMINO_ID pk, DRIFT_ID pk, JUP_KEY pk, TITAN_KEY pk,
        ASSOCIATED_TOKEN_KEY pk, DRIFT_ID pk]) = Inr ixes"
    "validate_ix_first (COMPUTE_PROGRAM_KEY pk) ixes (MARGINFI_ID pk) s
       [(KAMINO_ID pk, REFRESH_RESERVE pk), (KAMINO_ID pk, REFRESH_OBLIGATION pk),
        (MARGINFI_ID pk, INIT_LIQUIDATION_RECORD), (DRIFT_ID pk, UPDATE_CUMULATIVE_INTEREST pk)] = Inr ()"
    "validate_ix_last ixes (MARGINFI_ID pk) e = Inr ()"
    "validate_ixes_exclusive ixes (MARGINFI_ID pk)
       [s, e, INIT_LIQUIDATION_RECORD, LENDING_ACCOUNT_WITHDRAW, LENDING_ACCOUNT_REPAY,
        KAMINO_WITHDRAW, DRIFT_WITHDRAW] = Inr ()"
    "validate_not_cpi_by_stack_height (top_level ixs i) = Inr ()"
    "validate_not_cpi_with_sysvar (MARGINFI_ID pk) (top_level ixs i) = Inr n"
    "unwrap (checked_sub_nat (length ixes) 1) = Inr m" "check (n < m) StartNotFirst = Inr ()"
    by (rule validate_instructions_cases)
  have n: "n < length ixes - 1" using v(7,8) by (simp add: check_def checked_sub_nat_def unwrap_def split: if_splits)
  have ixes: "ixes = ixs"
    using v(1) load_and_validate_instructions_list [of "top_level ixs i" ixs] by (auto simp: top_level_def split: if_splits)
  have "n = i" using v(6) by (auto simp: validate_not_cpi_with_sysvar_def top_level_def elim!: bindE split: if_splits)
  then have "Suc i < length ixs" using n ixes by simp
  moreover have "is_ix (MARGINFI_ID pk) e (last ixs)" using v(3) unfolding ixes validate_ix_last_iff by blast
  moreover have "length (filter (is_ix (MARGINFI_ID pk) s) ixs) = 1"
    using v(2) unfolding ixes validate_ix_first_iff by (rule first_spec_once)
  ultimately show ?thesis using v(4) unfolding ixes validate_ixes_exclusive_iff by auto
qed

section \<open>The invariant of a running transaction\<close>

text \<open>
  At most one account is in receivership, and then no start is left and the last instruction, which
  is still to come, is an end.
\<close>

definition end_due :: "program_keys \<Rightarrow> Instruction list \<Rightarrow> nat \<Rightarrow> pubkey set \<Rightarrow> bool" where
  "end_due pk ixs i ks \<longleftrightarrow> (\<exists>k. ks \<subseteq> {k}) \<and> (ks \<noteq> {} \<longrightarrow> i < length ixs \<and> ends_receivership pk (last ixs)
     \<and> (\<forall>j. i \<le> j \<and> j < length ixs \<longrightarrow> \<not> starts_receivership pk (ixs ! j)))"

lemma receivership_flag_on: "in_receivership (acc_set_flag ACCOUNT_IN_RECEIVERSHIP a)"
  unfolding in_receivership_def by (rule acc_flags.get_put) (simp add: ACCOUNT_IN_RECEIVERSHIP_def)

lemma receivership_flag_off: "\<not> in_receivership (acc_unset_flag ACCOUNT_IN_RECEIVERSHIP a)"
  unfolding in_receivership_def by (rule acc_flags.get_clear) (simp add: ACCOUNT_IN_RECEIVERSHIP_def)

lemma start_receivership_on: "start_receivership env ais ih (a, lr) = Inr (a', lr') \<Longrightarrow> in_receivership a'"
  by (auto simp: start_receivership_def receivership_flag_on elim!: bindE)

lemma end_receivership_off: "end_receivership env ais ih (a, lr) = Inr (x, y, a', lr') \<Longrightarrow> \<not> in_receivership a'"
  by (auto simp: end_receivership_def Let_def receivership_flag_off elim!: bindE split: if_splits)

lemma start_liquidation_shape:
  assumes "start_liquidation env pk tx r receiver ais (a, lr) = Inr (a', lr')"
  shows "can_start a" "start_receivership env ais False (a, lr\<lparr>lr_liquidation_receiver := receiver\<rparr>) = Inr (a', lr')"
    "validate_instructions pk tx START_LIQUIDATION END_LIQUIDATION = Inr ()" "in_receivership a'"
  using assms start_receivership_on
  by (auto simp: start_liquidation_def check_def elim!: bindE split: if_splits)

lemma start_deleverage_shape:
  assumes "start_deleverage env pk tx r gk g signer ais (a, lr) = Inr (a', lr')"
  shows "can_start a" "validate_instructions pk tx START_DELEVERAGE END_DELEVERAGE = Inr ()" "in_receivership a'"
  using assms start_receivership_on
  by (auto simp: start_deleverage_def check_def elim!: bindE split: if_splits)

lemma end_liquidation_shape:
  assumes "end_liquidation env tx r signer fs wallet ais (a, lr) = Inr (a', lr', ts)"
  shows "can_end a" "\<not> in_receivership a'"
  using assms end_receivership_off
  by (auto simp: end_liquidation_def check_def Let_def elim!: bindE split: if_splits)

lemma end_deleverage_shape:
  assumes "end_deleverage env tx r gk g signer ais (a, lr) = Inr (a', lr')"
  shows "can_end a" "\<not> in_receivership a'"
  using assms end_receivership_off
  by (auto simp: end_deleverage_def check_def elim!: bindE split: if_splits)

lemmas receivership_hashes = START_LIQUIDATION_def END_LIQUIDATION_def START_DELEVERAGE_def END_DELEVERAGE_def
  INIT_LIQUIDATION_RECORD_def LENDING_ACCOUNT_WITHDRAW_def LENDING_ACCOUNT_REPAY_def KAMINO_WITHDRAW_def
  DRIFT_WITHDRAW_def

lemma starts_once:
  assumes v: "validate_instructions pk (top_level ixs i) s e = Inr ()" and s: "is_ix (MARGINFI_ID pk) s (ixs ! i)"
    and h: "s = START_LIQUIDATION \<and> e = END_LIQUIDATION \<or> s = START_DELEVERAGE \<and> e = END_DELEVERAGE"
  shows "end_due pk ixs (Suc i) {k}"
proof -
  note sh = validate_instructions_shape [OF v]
  have "\<not> starts_receivership pk (ixs ! j)" if j: "Suc i \<le> j" "j < length ixs" for j
  proof
    assume st: "starts_receivership pk (ixs ! j)"
    have "\<not> is_ix (MARGINFI_ID pk) s (ixs ! j)"
      using only_one [of "is_ix (MARGINFI_ID pk) s" ixs i j] sh s j by auto
    moreover have "program_id (ixs ! j) = MARGINFI_ID pk" using st by (auto simp: starts_receivership_def is_ix_def)
    then have "discrim (ixs ! j) \<in> {s, e, INIT_LIQUIDATION_RECORD, LENDING_ACCOUNT_WITHDRAW,
        LENDING_ACCOUNT_REPAY, KAMINO_WITHDRAW, DRIFT_WITHDRAW}"
      using sh j nth_mem by blast
    ultimately show False using st h
      by (auto simp: starts_receivership_def is_ix_def) (simp_all add: receivership_hashes)
  qed
  moreover have "ends_receivership pk (last ixs)" using sh h by (auto simp: ends_receivership_def)
  ultimately show ?thesis using sh by (auto simp: end_due_def)
qed

lemma tx_step_end_due:
  assumes "tx_step fx ch pk ixs i s s'" and i: "i < length ixs" and inv: "end_due pk ixs i (in_care (fst (fst s)))"
  shows "end_due pk ixs (Suc i) (in_care (fst (fst s')))"
proof -
  have none: "in_care (fst (fst s)) = {}" if "starts_receivership pk (ixs ! i)"
    using inv i that unfolding end_due_def by blast
  have drop: "end_due pk ixs (Suc i) (in_care accs - {k})" if "k \<in> in_care accs" "accs = fst (fst s)" for k accs
    using inv that unfolding end_due_def by blast
  show ?thesis
    using assms(1)
  proof (cases rule: tx_step.cases)
    case (start_liquidation k r receiver accs a recs lr env ais a' lr' bks)
    note sh = start_liquidation_shape [OF start_liquidation(8)]
    have "in_care accs = {}" using none start_liquidation(1,3) by (simp add: starts_receivership_def)
    then show ?thesis
      using starts_once [OF sh(3) start_liquidation(3)] sh(4) start_liquidation(2) by (simp add: in_care_upd)
  next
    case (start_deleverage k r gk signer accs a recs lr env g ais a' lr' bks)
    note sh = start_deleverage_shape [OF start_deleverage(8)]
    have "in_care accs = {}" using none start_deleverage(1,3) by (simp add: starts_receivership_def)
    then show ?thesis
      using starts_once [OF sh(2) start_deleverage(3)] sh(3) start_deleverage(2) by (simp add: in_care_upd)
  next
    case (end_liquidation k r signer accs a recs lr env fs wallet ais a' lr' ts bks)
    note sh = end_liquidation_shape [OF end_liquidation(8)]
    have "k \<in> in_care accs" using sh(1) end_liquidation(5) by (auto simp: in_care_def can_end_def in_receivership_def)
    then show ?thesis using drop sh(2) end_liquidation(1,2) by (simp add: in_care_upd)
  next
    case (end_deleverage k r gk signer accs a recs lr env g ais a' lr' bks)
    note sh = end_deleverage_shape [OF end_deleverage(8)]
    have "k \<in> in_care accs" using sh(1) end_deleverage(5) by (auto simp: in_care_def can_end_def in_receivership_def)
    then show ?thesis using drop sh(2) end_deleverage(1,2) by (simp add: in_care_upd)
  next
    case (other w w' recs recs')
    have sub: "in_care (fst w') \<subseteq> in_care (fst w)" by (rule everyday_steps_care [OF other(5)])
    have "Suc i < length ixs" if "ends_receivership pk (last ixs)"
    proof (rule ccontr)
      assume "\<not> Suc i < length ixs"
      then have "last ixs = ixs ! i" using i by (cases ixs rule: rev_cases) (auto simp: nth_append)
      then show False using that other(4) by simp
    qed
    then show ?thesis using inv sub unfolding end_due_def other(1,2) fst_conv by (auto dest: Suc_leD)
  qed
qed

lemma tx_run_end_due:
  assumes "tx_run fx ch pk ixs n s s'" and "in_care (fst (fst s)) = {}"
  shows "end_due pk ixs n (in_care (fst (fst s')))"
  using assms
proof (induction rule: tx_run.induct)
  case (begins s)
  then show ?case by (simp add: end_due_def)
next
  case (next_ix n s s' s'')
  then show ?case using tx_step_end_due by blast
qed

section \<open>The worth of an account\<close>

definition total_worth :: "ix_env \<Rightarrow> RequirementType \<Rightarrow> RiskEngine \<Rightarrow> I80F48 \<times> I80F48" where
  "total_worth env req e =
     ((\<Sum>b\<leftarrow>bank_accounts_with_price e. asset_worth (e_fx env) (e_lib env) req (re_emode_config e) b),
      (\<Sum>b\<leftarrow>bank_accounts_with_price e. liab_worth (e_fx env) (e_lib env) req (re_emode_config e) b))"

lemma receivership_values_worth:
  assumes "fixed_arith (e_fx env)" and "receivership_values env a ais ign = Inr (h, c, hc)"
  obtains e m l me le where
    "risk_engine_new (e_fx env) (e_lib env) (e_load_bank env) (e_clock env) a ais = Inr e"
    "total_worth env Maintenance e = (m, l)" "total_worth env Equity e = (me, le)"
    "c = snapshot m l me le" "h = m - l" "in_fx (m - l)" "\<not> ign \<longrightarrow> m \<le> l"
    "complete e" "all_valued (e_fx env) (e_lib env) Maintenance e" "all_valued (e_fx env) (e_lib env) Equity e"
proof -
  obtain e where e: "risk_engine_new (e_fx env) (e_lib env) (e_load_bank env) (e_clock env) a ais = Inr e"
    using assms(2) by (auto simp: receivership_values_def elim!: bindE)
  obtain m l me le hc1 hc2 hc3 where
    r: "check_pre_liquidation_condition_and_get_account_health (e_fx env) (e_lib env) None ign e
          (Some HealthCache_zeroed) = (Inr (h, m, l), hc1)"
      "get_account_health_components (e_fx env) (e_lib env) Equity e hc2 = (Inr (me, le), hc3)"
      "c = snapshot m l me le"
    using assms(2) unfolding receivership_values_def e
    by (auto elim!: bindE split: prod.splits)
  obtain hc4 where m: "get_account_health_components (e_fx env) (e_lib env) Maintenance e
      (Some HealthCache_zeroed) = (Inr (m, l), hc4)"
    "checked_sub (e_fx env) m l = Some h" "\<not> ign \<longrightarrow> h \<le> 0"
    using r(1)
    by (auto simp: check_pre_liquidation_condition_and_get_account_health_def Let_def
        elim!: bindE split: sum.splits prod.splits option.splits if_splits)
  show thesis
    using fixed_arith.health_components_sums [OF assms(1) m(1)]
      fixed_arith.health_components_sums [OF assms(1) r(2)] fixed_arith.sub_SomeD [OF assms(1) m(2)]
      m(3) r(3) e
    by (intro that [of e m l me le]) (auto simp: total_worth_def risk_engine_new_def check_def intro: engine_complete(2)
      elim!: bindE split: if_splits)
qed

end
