(* ===== verification/FlashloanTx.thy ===== *)
theory FlashloanTx
  imports ReceivershipTx
begin

text \<open>
  Flash loans over a whole transaction (\<open>flashloan.rs\<close>): the instructions of one transaction on all
  accounts and banks. An instruction of marginfi that starts or ends a flash loan runs at the top
  level; any other instruction, of whatever program, calls marginfi as often as it likes, with the
  start and the end of flash loans among what it calls, deeper in the stack.
\<close>

section \<open>One transaction\<close>

abbreviation on_loan :: "(pubkey \<Rightarrow> MarginfiAccount option) \<Rightarrow> pubkey set" where
  "on_loan \<equiv> flagged ACCOUNT_IN_FLASHLOAN"

text \<open>What runs inside the instruction at index \<open>i\<close>, be it marginfi's own or that of a caller.\<close>

inductive call_step ::
  "fixed_ops \<Rightarrow> 'w chain \<Rightarrow> program_keys \<Rightarrow> Instruction list \<Rightarrow> nat \<Rightarrow> world \<Rightarrow> world \<Rightarrow> bool"
  for fx :: fixed_ops and ch :: "'w chain" and pk :: program_keys and ixs :: "Instruction list" and i :: nat where
  everyday: "world_step calm_ix fx ch w w' \<Longrightarrow> call_step fx ch pk ixs i w w'"
| receivership: "receivership_ix a a' \<Longrightarrow> accs k = Some a \<Longrightarrow>
    call_step fx ch pk ixs i (accs, bks) (accs(k \<mapsto> a'), bks)"
| start_flashloan: "TRANSACTION_LEVEL_STACK_HEIGHT < height \<Longrightarrow> accs k = Some a \<Longrightarrow>
    lending_account_start_flashloan (MARGINFI_ID pk) signer k a (called ixs i height) end_index = Inr a' \<Longrightarrow>
    call_step fx ch pk ixs i (accs, bks) (accs(k \<mapsto> a'), bks)"
| end_flashloan: "TRANSACTION_LEVEL_STACK_HEIGHT < height \<Longrightarrow> accs k = Some a \<Longrightarrow> e_fx (env :: ix_env) = fx \<Longrightarrow>
    lending_account_end_flashloan signer a (called ixs i height)
      (init_health_of fx (e_lib env) (e_load_bank env) (e_clock env) ais) = Inr a' \<Longrightarrow>
    call_step fx ch pk ixs i (accs, bks) (accs(k \<mapsto> a'), bks)"

text \<open>The argument of the start: the index of the end, after the eight bytes of the discriminator.\<close>

definition end_index_arg :: "Instruction \<Rightarrow> nat" where
  "end_index_arg ix = from_le (take 8 (drop 8 (ix_data ix)))"

inductive loan_step ::
  "fixed_ops \<Rightarrow> 'w chain \<Rightarrow> program_keys \<Rightarrow> Instruction list \<Rightarrow> nat \<Rightarrow> world \<Rightarrow> world \<Rightarrow> bool"
  for fx :: fixed_ops and ch :: "'w chain" and pk :: program_keys and ixs :: "Instruction list" and i :: nat where
  start_flashloan: "is_ix (MARGINFI_ID pk) START_FLASHLOAN (ixs ! i) \<Longrightarrow> first_accounts (ixs ! i) [k, signer] \<Longrightarrow>
    accs k = Some a \<Longrightarrow>
    lending_account_start_flashloan (MARGINFI_ID pk) signer k a (top_level ixs i) (end_index_arg (ixs ! i)) = Inr a' \<Longrightarrow>
    loan_step fx ch pk ixs i (accs, bks) (accs(k \<mapsto> a'), bks)"
| end_flashloan: "is_ix (MARGINFI_ID pk) END_FLASHLOAN (ixs ! i) \<Longrightarrow> first_accounts (ixs ! i) [k, signer] \<Longrightarrow>
    accs k = Some a \<Longrightarrow> e_fx (env :: ix_env) = fx \<Longrightarrow>
    lending_account_end_flashloan signer a (top_level ixs i)
      (init_health_of fx (e_lib env) (e_load_bank env) (e_clock env) ais) = Inr a' \<Longrightarrow>
    loan_step fx ch pk ixs i (accs, bks) (accs(k \<mapsto> a'), bks)"
| other: "\<not> is_ix (MARGINFI_ID pk) START_FLASHLOAN (ixs ! i) \<Longrightarrow>
    \<not> is_ix (MARGINFI_ID pk) END_FLASHLOAN (ixs ! i) \<Longrightarrow> (call_step fx ch pk ixs i)\<^sup>*\<^sup>* w w' \<Longrightarrow>
    loan_step fx ch pk ixs i w w'"

text \<open>The instructions before index \<open>n\<close>, one after the other.\<close>

inductive loan_run ::
  "fixed_ops \<Rightarrow> 'w chain \<Rightarrow> program_keys \<Rightarrow> Instruction list \<Rightarrow> nat \<Rightarrow> world \<Rightarrow> world \<Rightarrow> bool"
  for fx :: fixed_ops and ch :: "'w chain" and pk :: program_keys and ixs :: "Instruction list" where
  begins: "loan_run fx ch pk ixs 0 w w"
| next_ix: "loan_run fx ch pk ixs n w w' \<Longrightarrow> n < length ixs \<Longrightarrow> loan_step fx ch pk ixs n w' w'' \<Longrightarrow>
    loan_run fx ch pk ixs (Suc n) w w''"

section \<open>What is called puts no account into a flash loan\<close>

lemma receivership_flags_loan:
  "acc_get_flag (acc_set_flag ACCOUNT_IN_RECEIVERSHIP (a\<lparr>health_cache := hc\<rparr>)) ACCOUNT_IN_FLASHLOAN
     = acc_get_flag a ACCOUNT_IN_FLASHLOAN"
  "acc_get_flag (acc_unset_flag ACCOUNT_IN_RECEIVERSHIP (a\<lparr>health_cache := hc\<rparr>)) ACCOUNT_IN_FLASHLOAN
     = acc_get_flag a ACCOUNT_IN_FLASHLOAN"
  "acc_get_flag (acc_set_flag ACCOUNT_IN_DELEVERAGE a) ACCOUNT_IN_FLASHLOAN = acc_get_flag a ACCOUNT_IN_FLASHLOAN"
  "acc_get_flag (acc_unset_flag ACCOUNT_IN_DELEVERAGE a) ACCOUNT_IN_FLASHLOAN = acc_get_flag a ACCOUNT_IN_FLASHLOAN"
proof -
  have d: "ACCOUNT_IN_FLASHLOAN AND ACCOUNT_IN_RECEIVERSHIP = 0" "ACCOUNT_IN_FLASHLOAN AND ACCOUNT_IN_DELEVERAGE = 0"
    "ACCOUNT_IN_RECEIVERSHIP AND ACCOUNT_IN_FLASHLOAN = 0" "ACCOUNT_IN_DELEVERAGE AND ACCOUNT_IN_FLASHLOAN = 0"
    by (simp_all add: account_flag_defs)
  show "acc_get_flag (acc_set_flag ACCOUNT_IN_RECEIVERSHIP (a\<lparr>health_cache := hc\<rparr>)) ACCOUNT_IN_FLASHLOAN
      = acc_get_flag a ACCOUNT_IN_FLASHLOAN"
    "acc_get_flag (acc_unset_flag ACCOUNT_IN_RECEIVERSHIP (a\<lparr>health_cache := hc\<rparr>)) ACCOUNT_IN_FLASHLOAN
      = acc_get_flag a ACCOUNT_IN_FLASHLOAN"
    "acc_get_flag (acc_set_flag ACCOUNT_IN_DELEVERAGE a) ACCOUNT_IN_FLASHLOAN = acc_get_flag a ACCOUNT_IN_FLASHLOAN"
    "acc_get_flag (acc_unset_flag ACCOUNT_IN_DELEVERAGE a) ACCOUNT_IN_FLASHLOAN = acc_get_flag a ACCOUNT_IN_FLASHLOAN"
    using flags_kept [of "a\<lparr>health_cache := hc\<rparr>" a ACCOUNT_IN_FLASHLOAN]
    by (simp_all add: acc_flags.get_put_other acc_flags.get_clear_other d)
qed

lemma receivership_ix_loan:
  assumes "receivership_ix a a'"
  shows "acc_get_flag a' ACCOUNT_IN_FLASHLOAN = acc_get_flag a ACCOUNT_IN_FLASHLOAN"
  using assms
  by (cases rule: receivership_ix.cases)
    (auto simp: start_liquidation_def start_deleverage_def start_receivership_def end_liquidation_def
      end_deleverage_def end_receivership_def Let_def receivership_flags_loan elim!: bindE split: if_splits)

text \<open>The start looks at the height of the stack.\<close>

lemma called_start_fails:
  assumes "TRANSACTION_LEVEL_STACK_HEIGHT < height"
  shows "lending_account_start_flashloan mrgn_id signer k a (called ixs i height) j \<noteq> Inr a'"
  using assms
  by (auto simp: lending_account_start_flashloan_def check_flashloan_can_start_def called_def
      validate_not_cpi_by_stack_height_def check_def elim!: bindE split: if_splits)

lemma call_step_loan:
  assumes "call_step fx ch pk ixs i w w'"
  shows "on_loan (fst w') \<subseteq> on_loan (fst w)"
  using assms
proof (cases rule: call_step.cases)
  case everyday
  then show ?thesis by (rule world_step_flagged) (simp_all add: passing_def calm_ix_flag)
next
  case (receivership a a' accs k bks)
  then show ?thesis using receivership_ix_loan [OF receivership(3)] by (simp add: flagged_same)
next
  case (start_flashloan height accs k a signer end_index a' bks)
  then show ?thesis using called_start_fails by blast
next
  case (end_flashloan height accs k a env signer ais a' bks)
  have "\<not> acc_get_flag a' ACCOUNT_IN_FLASHLOAN"
    using end_clears [OF end_flashloan(6)] unfolding in_flashloan_def by (rule conjunct1)
  then show ?thesis unfolding end_flashloan(1,2) by (auto simp: flagged_upd)
qed

lemma call_steps_loan: "(call_step fx ch pk ixs i)\<^sup>*\<^sup>* w w' \<Longrightarrow> on_loan (fst w') \<subseteq> on_loan (fst w)"
  by (induction rule: rtranclp_induct) (use call_step_loan in blast)+

section \<open>Where loans start and end\<close>

lemma first_account:
  assumes "first_accounts ix (k # ks)"
  shows "ix_accounts ix \<noteq> []" "am_pubkey (ix_accounts ix ! 0) = k"
  using assms by (cases "ix_accounts ix"; simp add: first_accounts_def)+

text \<open>
  A loan starts with a start instruction of the transaction, for this account, and that has an end
  instruction for it ahead; and an end instruction for the account leaves it in no flash loan.
\<close>

lemma loan_step_starts:
  assumes "loan_step fx ch pk ixs i w w'" and "k \<in> on_loan (fst w')" "k \<notin> on_loan (fst w)"
  shows "is_start_for (MARGINFI_ID pk) k (ixs ! i)
    \<and> (\<exists>j. i < j \<and> j < length ixs \<and> is_end_for (MARGINFI_ID pk) k (ixs ! j))"
  using assms(1)
proof (cases rule: loan_step.cases)
  case (start_flashloan k' signer accs a a' bks)
  have "k = k'" using assms(2,3) unfolding start_flashloan(1,2) by (auto simp: flagged_upd split: if_splits)
  moreover have c: "check_flashloan_can_start (MARGINFI_ID pk) k' a (top_level ixs i) (end_index_arg (ixs ! i)) = Inr ()"
    using start_flashloan(6) by (auto simp: lending_account_start_flashloan_def elim!: bindE)
  ultimately show ?thesis
    using can_start_ends [OF c] start_flashloan(3) first_account [OF start_flashloan(4)]
    by (auto simp: is_start_for_def)
next
  case (end_flashloan k' signer accs a env ais a' bks)
  have "\<not> acc_get_flag a' ACCOUNT_IN_FLASHLOAN"
    using end_clears [OF end_flashloan(7)] unfolding in_flashloan_def by (rule conjunct1)
  then show ?thesis using assms(2,3) unfolding end_flashloan(1,2) by (auto simp: flagged_upd split: if_splits)
next
  case other
  then show ?thesis using call_steps_loan assms(2,3) by blast
qed

lemma loan_step_ends:
  assumes "loan_step fx ch pk ixs i w w'" and "is_end_for (MARGINFI_ID pk) k (ixs ! i)"
  shows "k \<notin> on_loan (fst w')"
  using assms(1)
proof (cases rule: loan_step.cases)
  case (start_flashloan k' signer accs a a' bks)
  then show ?thesis
    using assms(2) by (auto simp: is_end_for_def is_ix_def START_FLASHLOAN_def END_FLASHLOAN_def)
next
  case (end_flashloan k' signer accs a env ais a' bks)
  have "\<not> acc_get_flag a' ACCOUNT_IN_FLASHLOAN"
    using end_clears [OF end_flashloan(7)] unfolding in_flashloan_def by (rule conjunct1)
  moreover have "k = k'" using assms(2) first_account [OF end_flashloan(4)] by (simp add: is_end_for_def)
  ultimately show ?thesis unfolding end_flashloan(2) by (simp add: flagged_upd)
next
  case other
  then show ?thesis using assms(2) by (simp add: is_end_for_def)
qed

text \<open>The invariant of a running transaction: every account in a flash loan has its end ahead.\<close>

lemma loan_run_end_ahead:
  assumes "loan_run fx ch pk ixs n w w'" and "on_loan (fst w) = {}" and "k \<in> on_loan (fst w')"
  shows "\<exists>j \<ge> n. j < length ixs \<and> is_end_for (MARGINFI_ID pk) k (ixs ! j)"
  using assms
proof (induction rule: loan_run.induct)
  case (begins w)
  then show ?case by simp
next
  case (next_ix n w w' w'')
  show ?case
  proof (cases "k \<in> on_loan (fst w')")
    case True
    then obtain j where "n \<le> j" "j < length ixs" "is_end_for (MARGINFI_ID pk) k (ixs ! j)"
      using next_ix.IH next_ix.prems(1) by blast
    moreover have "j \<noteq> n" using loan_step_ends [OF next_ix.hyps(3)] next_ix.prems(2) calculation(3) by blast
    ultimately show ?thesis by (intro exI [of _ j]) simp
  next
    case False
    then show ?thesis using loan_step_starts [OF next_ix.hyps(3) next_ix.prems(2)] by (auto intro: Suc_leI)
  qed
qed

end
