(* ===== verification/RiskProps.thy ===== *)
theory RiskProps
  imports RiskEngine Samples
begin

text \<open>
  The properties of the risk engine and the prices it uses: what a passed health check means, what a
  failed oracle is worth, and how far a biased price is from the price.
\<close>

text \<open>C10: The health check passes exactly when every balance can be valued, the values add up without
  overflow, the sum of the weighted debts is at most the sum of the weighted assets, and an isolated
  debt is the only debt; in particular a balance that cannot be valued fails it. (A health cache
  that is passed in must have a price slot for each balance; it has sixteen.)\<close>

theorem health_check_decides:
  assumes "fixed_arith fx" and "cache_room req (length (bank_accounts_with_price e)) hc"
  shows "fst (check_account_health fx lib req e hc) = Inr () \<longleftrightarrow>
      all_valued fx lib req e
      \<and> adds_up 0 (map (asset_worth fx lib req (re_emode_config e)) (bank_accounts_with_price e))
      \<and> adds_up 0 (map (liab_worth fx lib req (re_emode_config e)) (bank_accounts_with_price e))
      \<and> (\<Sum>b\<leftarrow>bank_accounts_with_price e. liab_worth fx lib req (re_emode_config e) b)
        \<le> (\<Sum>b\<leftarrow>bank_accounts_with_price e. asset_worth fx lib req (re_emode_config e) b)
      \<and> (let liabs = filter has_liability (bank_accounts_with_price e)
         in length liabs = 1 \<or> (\<forall>b \<in> set liabs. risk_tier (config (bap_bank b)) \<noteq> Isolated))"
  using fixed_arith.check_account_health_iff [OF assms] .

text \<open>
  A borrower: deposits of 10.25 shares in a bank whose token has a fixed price of 3, a debt of 10.25
  shares in another bank with a fixed price of 1. Both banks have six decimals.
\<close>

definition sample_fixed_bank :: "I80F48 \<Rightarrow> Bank" where
  "sample_fixed_bank p = sample_bank\<lparr>config := (config sample_bank)
     \<lparr>oracle_setup := OracleFixed, fixed_price := p * ONE, oracle_max_age := 60\<rparr>\<rparr>"

definition sample_load_bank :: "AccountInfo \<Rightarrow> Bank res" where
  "sample_load_bank ai = (if ai_key ai = 8 then Inr (sample_fixed_bank 3)
     else if ai_key ai = 7 then Inr (sample_fixed_bank 1)
     else Inl (ProgramError ''InvalidAccountData''))"

definition sample_ais :: "AccountInfo list" where
  "sample_ais = [\<lparr>ai_key = 8, ai_owner = 50\<rparr>, \<lparr>ai_key = 7, ai_owner = 50\<rparr>]"

definition sample_borrower :: MarginfiAccount where
  "sample_borrower = (account_initialize 2 5 100 MarginfiAccount_zeroed)
     \<lparr>lending_account := \<lparr>balances = sample_balance\<lparr>bank_pk := 8\<rparr> # sample_debt
        # replicate 14 empty_deactivated\<rparr>\<rparr>"

definition sample_engine :: RiskEngine where
  "sample_engine = \<lparr>re_account = sample_borrower,
     bank_accounts_with_price =
       [\<lparr>bap_bank = sample_fixed_bank 3, price_feed = Inr (FixedFeed (3 * ONE)),
         bap_balance = sample_balance\<lparr>bank_pk := 8\<rparr>\<rparr>,
        \<lparr>bap_bank = sample_fixed_bank 1, price_feed = Inr (FixedFeed ONE), bap_balance = sample_debt\<rparr>],
     re_emode_config = EmodeConfig_zeroed\<rparr>"

lemmas risk_eval = check_account_init_health_def new_no_flashloan_check_def load_accounts_def
  reconcile_emode_configs_def merge_cfg_def from_entries_def check_account_health_def
  get_account_health_components_def record_totals_def check_account_risk_tiers_def has_liability_def
  calc_weighted_value_def calc_weighted_asset_value_def calc_weighted_liab_value_def
  try_get_price_feed_def get_price_of_type_def raw_price_of_type_def emode_asset_weight_def
  find_with_tag_def get_weight_def maybe_get_asset_weight_init_discount_def calc_value_def
  usd_init_limit_active_def asset_worth_def liab_worth_def is_empty_def is_active_def
  get_oracle_price_type_def keep_result_def get_remaining_accounts_per_bank_def

lemma sample_active: "filter is_active (balances (lending_account sample_borrower))
    = [sample_balance\<lparr>bank_pk := 8\<rparr>, sample_debt]"
  by (simp add: sample_borrower_def is_active_def sample_balance_def sample_debt_def new_balance_def
      empty_deactivated_def)

lemma sample_load:
  "load_accounts fx lib sample_load_bank clock (lending_account sample_borrower) sample_ais
     = Inr (bank_accounts_with_price sample_engine)"
  by (simp add: load_accounts_def sample_active sample_ais_def sample_load_bank_def
      get_remaining_accounts_per_bank_def sample_fixed_bank_def check_def sample_engine_def
      try_from_bank_def try_from_bank_with_max_age_def keep_result_def ONE_def)
    (simp add: sample_defs ONE_def)

lemma reconcile_zeroed: "reconcile_emode_configs [EmodeConfig_zeroed] = Inr EmodeConfig_zeroed"
  by (simp add: reconcile_emode_configs_def merge_cfg_def EmodeConfig_zeroed_def from_entries_def
      MAX_EMODE_ENTRIES_def EmodeEntry_zeroed_def entry_is_empty_def eval_nat_numeral)

lemma sample_engine_loads:
  "new_no_flashloan_check fx lib sample_load_bank clock sample_borrower sample_ais = Inr sample_engine"
proof -
  have "map (\<lambda>b. emode_config (emode (bap_bank b)))
      (filter has_liability (bank_accounts_with_price sample_engine)) = [EmodeConfig_zeroed]"
    by (simp add: sample_engine_def has_liability_def is_empty_def sample_fixed_bank_def sample_defs
        EMPTY_BALANCE_THRESHOLD_def EmodeSettings_zeroed_def ONE_def)
  then show ?thesis
    by (simp add: new_no_flashloan_check_def sample_load reconcile_zeroed) (simp add: sample_engine_def)
qed

text \<open>
  The deposit counts half of 61.5, the debt one and a quarter times 10.25, both over a million.
\<close>

lemma sample_values:
  "calc_weighted_value fx_ref lib Initial EmodeConfig_zeroed
     \<lparr>bap_bank = sample_fixed_bank 3, price_feed = Inr (FixedFeed (3 * ONE)),
      bap_balance = sample_balance\<lparr>bank_pk := 8\<rparr>\<rparr> = Inr (8655355533, 0, 3 * ONE, 0)"
  "calc_weighted_value fx_ref lib Initial EmodeConfig_zeroed
     \<lparr>bap_bank = sample_fixed_bank 1, price_feed = Inr (FixedFeed ONE), bap_balance = sample_debt\<rparr>
     = Inr (0, 3606398139, ONE, 0)"
  by (simp_all add: risk_eval bank_eval sample_fixed_bank_def sample_defs fx_eval
      const_eval EmodeConfig_zeroed_def EmodeEntry_zeroed_def EMODE_TAG_EMPTY_def get_side_def
      EmodeSettings_zeroed_def)

lemma sample_components:
  "get_account_health_components fx_ref lib Initial sample_engine None
     = (Inr (8655355533, 3606398139), None)"
  by (simp add: get_account_health_components_def sample_engine_def sample_values)
    (simp add: fx_ref_ops if_fx_def in_fx_def fx_limit_def Let_def sample_values)

lemma sample_one_debt:
  "length (filter has_liability (bank_accounts_with_price sample_engine)) = 1"
  by (simp add: sample_engine_def has_liability_def is_empty_def sample_defs
      EMPTY_BALANCE_THRESHOLD_def ONE_def)

lemma sample_healthy: "check_account_health fx_ref lib Initial sample_engine None = (Inr (), None)"
proof -
  have "check_account_risk_tiers sample_engine = Inr ()"
    using sample_one_debt by (simp add: check_account_risk_tiers_iff)
  then show ?thesis by (simp add: check_account_health_def sample_components)
qed

lemma sample_room: "cache_room Initial (length (bank_accounts_with_price sample_engine)) (Some HealthCache_zeroed)"
  by (simp add: cache_room_def sample_engine_def HealthCache_zeroed_def MAX_LENDING_ACCOUNT_BALANCES_def)

lemma sample_valued: "all_valued fx_ref lib Initial sample_engine"
  using sample_values by (simp add: all_valued_def valued_def sample_engine_def)

lemma sample_sums:
  "map (asset_worth fx_ref lib Initial (re_emode_config sample_engine)) (bank_accounts_with_price sample_engine)
     = [8655355533, 0]"
  "map (liab_worth fx_ref lib Initial (re_emode_config sample_engine)) (bank_accounts_with_price sample_engine)
     = [0, 3606398139]"
  using sample_values by (simp_all add: sample_engine_def asset_worth_def liab_worth_def)

theorem health_check_decides_witness:
  "\<forall>lib. fst (check_account_health fx_ref lib Initial sample_engine (Some HealthCache_zeroed)) = Inr ()"
proof
  fix lib
  show "fst (check_account_health fx_ref lib Initial sample_engine (Some HealthCache_zeroed)) = Inr ()"
    unfolding health_check_decides [OF ref.fixed_arith_axioms sample_room] sample_sums
    using sample_valued sample_one_debt by (simp add: in_fx_def fx_limit_def)
qed

text \<open>C29: A failed oracle never helps a borrower. A debt whose feed failed fails every check with the
  feed's error. Collateral whose feed failed counts as nothing in the initial check and fails every
  other one, and isolated assets count as nothing without looking at their feed. Only an error
  number of the feed is passed on to be recorded: for an error without a number, code 0, which
  reads as no error, is.\<close>

theorem failed_feed_never_helps:
  assumes "price_feed b = Inl (Err e)"
  shows "calc_weighted_liab_value fx lib req b = Inl (Err (error_from_u32 (error_number e)))
    \<and> (\<forall>v. calc_weighted_asset_value fx lib req ec b = Inr v \<longrightarrow>
          (req = Initial \<or> risk_tier (config (bap_bank b)) = Isolated)
          \<and> (v = (0, 0, 0) \<or> v = (0, 0, error_number e)))
    \<and> (\<forall>x b'. b' = b\<lparr>price_feed := Inl (ProgramError x)\<rparr> \<longrightarrow>
          calc_weighted_liab_value fx lib req b' = Inl (Err InternalLogicError)
          \<and> (\<forall>v. calc_weighted_asset_value fx lib Initial ec b' = Inr v \<longrightarrow> v = (0, 0, 0)))"
  using assms
  by (auto simp: calc_weighted_liab_value_def calc_weighted_asset_value_def try_get_price_feed_def
      Let_def split: RiskTier.splits if_splits)

definition sample_failed :: BankAccountWithPriceFeed where
  "sample_failed = \<lparr>bap_bank = sample_fixed_bank 3, price_feed = Inl (Err PythPushStalePrice),
      bap_balance = sample_balance\<lparr>bank_pk := 8\<rparr>\<rparr>"

lemma sample_failed_asset:
  "calc_weighted_asset_value fx lib Initial ec sample_failed = Inr (0, 0, error_number PythPushStalePrice)"
  "price_feed sample_failed = Inl (Err PythPushStalePrice)"
  by (simp_all add: sample_failed_def calc_weighted_asset_value_def try_get_price_feed_def
      sample_fixed_bank_def sample_defs)

theorem failed_feed_never_helps_witness:
  "\<forall>fx lib ec. calc_weighted_liab_value fx lib Maintenance sample_failed = Inl (Err PythPushStalePrice)
   \<and> calc_weighted_asset_value fx lib Initial ec sample_failed = Inr (0, 0, error_number PythPushStalePrice)"
  using failed_feed_never_helps [OF sample_failed_asset(2)]
  by (simp add: sample_failed_asset(1) error_from_u32_def from_u32_core_arms_def from_u32_integration_arms_def)

text \<open>C30: The prices a check uses lie around the price of the feed: the low one for assets is
  between zero and the price, the high one for debts is at least the price, and neither is
  further from it than five percent (up to one fixed-point unit).\<close>

theorem biased_prices_bounded:
  assumes "fixed_arith fx" and "raw_price_of_type fx lib a ty = Inr p" and "0 \<le> p"
    and "get_price_of_type fx lib a ty (Some Low) m = Inr l"
    and "get_price_of_type fx lib a ty (Some High) m = Inr h"
  shows "0 \<le> l \<and> l \<le> p \<and> p \<le> h
    \<and> 20 * (p - l) * ONE \<le> p * (ONE + 20) \<and> 20 * (h - p) * ONE \<le> p * (ONE + 20)"
  using fixed_arith.biased_within [OF assms(1,4,2,3)] fixed_arith.biased_within [OF assms(1,5,2,3)]
  by auto

definition sample_feed :: OraclePriceFeedAdapter where
  "sample_feed = PythPushFeed
     \<lparr>ema_price = \<lparr>pp_price = 1000, pp_conf = 20, pp_exponent = -1, pp_publish_time = 0\<rparr>,
      feed_price = \<lparr>pp_price = 1000, pp_conf = 1, pp_exponent = -1, pp_publish_time = 0\<rparr>\<rparr>"

lemma sample_prices:
  "raw_price_of_type fx_ref lib sample_feed TimeWeighted = Inr (100 * ONE)"
  "get_price_of_type fx_ref lib sample_feed TimeWeighted (Some Low) 0 = Inr (100 * ONE - 2 * (212 * ONE div 100))"
  "get_price_of_type fx_ref lib sample_feed TimeWeighted (Some High) 0 = Inr (100 * ONE + 2 * (212 * ONE div 100))"
  by (simp_all add: sample_feed_def get_price_of_type_def raw_price_of_type_def get_ema_price_def
      pyth_price_value_def pyth_price_components_to_i80f48_def confidence_interval_of_type_def
      pyth_get_confidence_interval_def clamp_confidence_def apply_bias_def fx_eval const_eval
      CONF_INTERVAL_MULTIPLE_def MAX_CONF_INTERVAL_def U32_MAX_DIV_10_def U32_MAX_FX_def)

theorem biased_prices_bounded_witness: "0 \<le> 100 * ONE - 2 * (212 * ONE div 100)"
  using biased_prices_bounded [OF ref.fixed_arith_axioms sample_prices(1) _ sample_prices(2,3)] ONE_pos
  by simp

end
