(* ===== verification/BankFrame.thy ===== *)
theory BankFrame
  imports LiquidateFacts IntegrationFacts
begin

text \<open>
  What the operations on balances leave alone: everything of a bank that is not its books. The
  settings of a bank are the bank with its books blanked out.
\<close>

section \<open>Settings\<close>

definition settings_of :: "Bank \<Rightarrow> Bank" where
  "settings_of b = b\<lparr>asset_share_value := 0, liability_share_value := 0, total_asset_shares := 0,
     total_liability_shares := 0, collected_insurance_fees_outstanding := 0,
     collected_group_fees_outstanding := 0, collected_program_fees_outstanding := 0,
     bank_last_update := 0, emissions_remaining := 0, cache := BankCache_default,
     lending_position_count := 0, borrowing_position_count := 0\<rparr>"

lemma settings_updates [simp]:
  "settings_of (b\<lparr>asset_share_value := x\<rparr>) = settings_of b"
  "settings_of (b\<lparr>liability_share_value := x\<rparr>) = settings_of b"
  "settings_of (b\<lparr>total_asset_shares := x\<rparr>) = settings_of b"
  "settings_of (b\<lparr>total_liability_shares := x\<rparr>) = settings_of b"
  "settings_of (b\<lparr>collected_insurance_fees_outstanding := x\<rparr>) = settings_of b"
  "settings_of (b\<lparr>collected_group_fees_outstanding := x\<rparr>) = settings_of b"
  "settings_of (b\<lparr>collected_program_fees_outstanding := x\<rparr>) = settings_of b"
  "settings_of (b\<lparr>bank_last_update := t\<rparr>) = settings_of b"
  "settings_of (b\<lparr>emissions_remaining := x\<rparr>) = settings_of b"
  "settings_of (b\<lparr>cache := c\<rparr>) = settings_of b"
  "settings_of (b\<lparr>lending_position_count := i\<rparr>) = settings_of b"
  "settings_of (b\<lparr>borrowing_position_count := i\<rparr>) = settings_of b"
  by (simp_all add: settings_of_def)

lemma settings_derived [simp]:
  "settings_of (update_position_counts fx bal bal' b) = settings_of b"
  "settings_of (decrement_lending_position_count b) = settings_of b"
  "settings_of (decrement_borrowing_position_count b) = settings_of b"
  "settings_of (update_cache_price now p b) = settings_of b"
  by (simp_all add: update_position_counts_def Let_def update_cache_price_def
      increment_lending_position_count_def decrement_lending_position_count_def
      increment_borrowing_position_count_def decrement_borrowing_position_count_def split: option.splits)

lemma settings_fields:
  assumes "settings_of b' = settings_of b"
  shows "config b' = config b" "bank_group b' = bank_group b" "integration_acc_1 b' = integration_acc_1 b"
    "integration_acc_2 b' = integration_acc_2 b" "integration_acc_3 b' = integration_acc_3 b"
    "emode b' = emode b" "bank_flags b' = bank_flags b" "mint b' = mint b"
    "fees_destination_account b' = fees_destination_account b" "emissions_rate b' = emissions_rate b"
proof -
  have f: "f b' = f b" if "\<And>b. f (settings_of b) = f b" for f :: "Bank \<Rightarrow> 'x"
    using that assms by metis
  show "config b' = config b" "bank_group b' = bank_group b" "integration_acc_1 b' = integration_acc_1 b"
    "integration_acc_2 b' = integration_acc_2 b" "integration_acc_3 b' = integration_acc_3 b"
    "emode b' = emode b" "bank_flags b' = bank_flags b" "mint b' = mint b"
    "fees_destination_account b' = fees_destination_account b" "emissions_rate b' = emissions_rate b"
    by (rule f, simp add: settings_of_def)+
qed

section \<open>The bank\<close>

lemma settings_change:
  "change_asset_shares fx s bp b = Inr b' \<Longrightarrow> settings_of b' = settings_of b"
  "change_liability_shares fx s bp b = Inr b' \<Longrightarrow> settings_of b' = settings_of b"
  "claim_emissions fx t (bal, b) = Inr (bal', b') \<Longrightarrow> settings_of b' = settings_of b"
  "update_bank_cache fx now g b = Inr b' \<Longrightarrow> settings_of b' = settings_of b"
  subgoal by (drule change_asset_shares_frame(1)) (metis settings_updates(3))
  subgoal by (drule change_liability_shares_frame(1)) (metis settings_updates(4))
  by (auto dest!: claim_emissions_shape update_bank_cache_shape)

lemma settings_accrue: "accrue_interest fx now g b = Inr b' \<Longrightarrow> settings_of b' = settings_of b"
  unfolding accrue_interest_def Let_def
  by (elim bindE) (auto elim!: bindE split: if_splits)

lemma settings_socialize: "socialize_loss fx loss b = Inr (b', killed) \<Longrightarrow> settings_of b' = settings_of b"
  by (auto simp: socialize_loss_def elim!: bindE split: if_splits)

lemma settings_origination: "book_origination_fee fx r fee b = Inr b' \<Longrightarrow> settings_of b' = settings_of b"
  by (auto simp: book_origination_fee_def elim!: bindE split: if_splits)

section \<open>Balances\<close>

lemma settings_increase:
  assumes "increase_balance_internal fx now d ty (bal, b) = Inr (bal', b')"
  shows "settings_of b' = settings_of b"
  using assms unfolding increase_balance_internal_def Let_def
  by (elim bindE) (auto dest!: settings_change)

lemma settings_decrease:
  assumes "decrease_balance_internal fx now d ty (bal, b) = Inr (bal', b')"
  shows "settings_of b' = settings_of b"
  using assms unfolding decrease_balance_internal_def Let_def
  by (elim bindE) (auto dest!: settings_change)

lemma settings_all:
  "withdraw_all fx now (bal, b) = Inr (n, bal', b') \<Longrightarrow> settings_of b' = settings_of b"
  "repay_all fx now (bal, b) = Inr (n, bal', b') \<Longrightarrow> settings_of b' = settings_of b"
  "close_balance fx now (bal, b) = Inr (bal', b') \<Longrightarrow> settings_of b' = settings_of b"
  "purge_balance fx (bal, b) = Inr (bal', b') \<Longrightarrow> settings_of b' = settings_of b"
  "settle_emissions_and_get_transfer_amount fx now (bal, b) = Inr (n, bal', b') \<Longrightarrow> settings_of b' = settings_of b"
  unfolding withdraw_all_def repay_all_def close_balance_def purge_balance_def
    settle_emissions_and_get_transfer_amount_def
  by (auto elim!: bindE dest!: settings_change split: if_splits)

text \<open>The same through the account that holds the balance.\<close>

lemma settings_at:
  assumes "at_balance i f (la, b) = Inr (r, la', b')"
    and "\<And>bal bal' b b' r. f (bal, b) = Inr (r, bal', b') \<Longrightarrow> settings_of b' = settings_of b"
  shows "settings_of b' = settings_of b"
  using assms(1) by (auto simp: at_balance_def elim!: bindE dest: assms(2))

lemma settings_run:
  assumes "run_at i f la b = Inr (la', b')"
    and "\<And>bal bal' b b'. f (bal, b) = Inr (bal', b') \<Longrightarrow> settings_of b' = settings_of b"
  shows "settings_of b' = settings_of b"
proof -
  obtain r where "at_balance i (\<lambda>w. bindR (f w) (\<lambda>w'. Inr ((), w'))) (la, b) = Inr (r, la', b')"
    using assms(1) by (auto simp: run_at_def elim!: bindE)
  then show ?thesis by (rule settings_at) (auto elim!: bindE dest: assms(2))
qed

lemma settings_wrappers:
  "deposit fx now v (bal, b) = Inr (bal', b') \<Longrightarrow> settings_of b' = settings_of b"
  "deposit_ignore_deposit_cap fx now v (bal, b) = Inr (bal', b') \<Longrightarrow> settings_of b' = settings_of b"
  "deposit_no_repay fx now v (bal, b) = Inr (bal', b') \<Longrightarrow> settings_of b' = settings_of b"
  "repay fx now v (bal, b) = Inr (bal', b') \<Longrightarrow> settings_of b' = settings_of b"
  "withdraw fx now v (bal, b) = Inr (bal', b') \<Longrightarrow> settings_of b' = settings_of b"
  "withdraw_ignore_borrow_cap fx now v (bal, b) = Inr (bal', b') \<Longrightarrow> settings_of b' = settings_of b"
  "borrow fx now v (bal, b) = Inr (bal', b') \<Longrightarrow> settings_of b' = settings_of b"
  by (simp_all add: deposit_def deposit_ignore_deposit_cap_def deposit_no_repay_def repay_def withdraw_def
      withdraw_ignore_borrow_cap_def borrow_def settings_increase settings_decrease)

lemma settings_tokens:
  "withdraw_tokens env m n all i la b = Inr (k, la', b') \<Longrightarrow> settings_of b' = settings_of b"
  "repay_tokens env n all i la b = Inr (k, la', b') \<Longrightarrow> settings_of b' = settings_of b"
  by (auto simp: withdraw_tokens_def repay_tokens_def elim!: bindE split: if_splits
      dest: settings_at [OF _ settings_all(1)] settings_at [OF _ settings_all(2)]
        settings_run [OF _ settings_wrappers(5)] settings_run [OF _ settings_wrappers(4)])

section \<open>Instructions\<close>

lemma settings_deposit:
  assumes "lending_account_deposit env ta g ais n up (a, b) = Inr (a', b', ts)"
  shows "settings_of b' = settings_of b"
  using assms unfolding lending_account_deposit_def prod.case
  by (elim bindE) (auto elim!: bindE split: if_splits
      dest!: settings_change settings_accrue settings_run [OF _ settings_wrappers(1)])

lemma settings_withdraw:
  assumes "lending_account_withdraw env ta ais n all (g, a, b) = Inr (g', a', b', ts)"
  shows "settings_of b' = settings_of b"
  using assms
proof (cases rule: withdraw_cases)
  case (1 mint_ai ais' price b1 i m la b2 b3 p)
  then show ?thesis by (auto dest!: settings_change(4) settings_accrue settings_tokens(1))
qed

lemma settings_borrow:
  assumes "lending_account_borrow env ta g ais n (a, b) = Inr (a', b', ts)"
  shows "settings_of b' = settings_of b"
  using assms
proof (cases rule: borrow_cases)
  case (1 mint_ai ais' b1 i la k v fee whole debt la' b2 b3 hc p b4)
  then show ?thesis
    by (auto dest!: settings_change(4) settings_accrue settings_origination settings_run [OF _ settings_wrappers(7)])
qed

lemma settings_close_balance:
  assumes "lending_account_close_balance env ta g (a, b) = Inr (a', b')"
  shows "settings_of b' = settings_of b"
  using assms
proof (cases rule: close_balance_cases)
  case (1 b1 b2 i la)
  then show ?thesis
    by (auto dest!: settings_change(4) settings_accrue settings_run [OF _ settings_all(3)])
qed

lemma settings_purge:
  assumes "lending_account_purge_delev_balance env ta g (a, b) = Inr (a', b')"
  shows "settings_of b' = settings_of b"
  using assms unfolding lending_account_purge_delev_balance_def prod.case
  by (elim bindE) (auto dest!: settings_run [OF _ settings_all(4)])

lemma settings_emissions:
  "settle_and_pay env k ea (a, b) = Inr (a', b', ts) \<Longrightarrow> settings_of b' = settings_of b"
  "lending_account_settle_emissions env k (a, b) = Inr (a', b') \<Longrightarrow> settings_of b' = settings_of b"
  unfolding settle_and_pay_def lending_account_settle_emissions_def prod.case Let_def
  by (auto elim!: bindE split: if_splits dest!: settings_at [OF _ settings_all(5)]
      settings_run [OF _ settings_change(3)])

lemma settings_credit:
  assumes "credit_position env k g n a b = Inr (a', b')"
  shows "settings_of b' = settings_of b"
  using assms
proof (cases rule: credit_cases)
  case (1 i la v la' b1)
  then show ?thesis by (auto dest!: settings_change(4) settings_run [OF _ settings_wrappers(3)])
qed

lemma settings_finish: "withdraw_finish env k ais la a b = Inr (a', b') \<Longrightarrow> settings_of b' = settings_of b"
  by (auto simp: withdraw_finish_def elim!: bindE)

lemma settings_collateral:
  assumes "withdraw_collateral env k ais n all g a b = Inr (g', m, la, b')"
  shows "settings_of b' = settings_of b"
  using assms by (auto simp: withdraw_collateral_def elim!: bindE dest!: settings_tokens(1))

lemma settings_drift_tokens:
  assumes "drift_withdraw_tokens env m n all i la b = Inr (r, la', b')"
  shows "settings_of b' = settings_of b"
  using assms by (auto simp: drift_withdraw_tokens_def elim!: bindE split: if_splits
      dest: settings_at [OF _ settings_all(1)] settings_run [OF _ settings_wrappers(5)])

lemma settings_position_in:
  "kamino_deposit ch env ka g n (a, b, w) = Inr (a', b', w') \<Longrightarrow> settings_of b' = settings_of b"
  "drift_deposit ch env da g n (a, b, w) = Inr (a', b', w') \<Longrightarrow> settings_of b' = settings_of b"
  "solend_deposit ch env so g n (a, b, w) = Inr (a', b', w') \<Longrightarrow> settings_of b' = settings_of b"
  by (erule kamino_deposit_cases drift_deposit_cases solend_deposit_cases, erule settings_credit)+

lemma settings_position_out:
  "kamino_withdraw ch env ka ais n all (g, a, b, w) = Inr (g', a', b', w') \<Longrightarrow> settings_of b' = settings_of b"
  "drift_withdraw ch env da ais n all (g, a, b, w) = Inr (g', a', b', w') \<Longrightarrow> settings_of b' = settings_of b"
  "solend_withdraw ch env so ais n all (g, a, b, w) = Inr (g', a', b', w') \<Longrightarrow> settings_of b' = settings_of b"
  by (erule kamino_withdraw_cases drift_withdraw_cases solend_withdraw_cases,
      simp add: settings_finish settings_change(4) settings_collateral settings_drift_tokens)+

text \<open>
  A liquidation; a bankruptcy, which may kill the bank; a repayment, which may complete the
  repayments of a bank that is being deleveraged.
\<close>

lemma settings_measured:
  assumes "\<And>bal bal' b b'. f (bal, b) = Inr (bal', b') \<Longrightarrow> settings_of b' = settings_of b"
  shows "liab_measured fx i f la b = Inr (la', b') \<Longrightarrow> settings_of b' = settings_of b"
    and "asset_measured fx m i f la b = Inr (la', b') \<Longrightarrow> settings_of b' = settings_of b"
  unfolding liab_measured_def asset_measured_def
  by (auto elim!: bindE split: option.splits dest!: settings_run [OF _ assms])

lemma settings_books:
  "liab_measured fx i (withdraw_ignore_borrow_cap fx' now v) la b = Inr (la', b') \<Longrightarrow> settings_of b' = settings_of b"
  "liab_measured fx i (repay fx' now v) la b = Inr (la', b') \<Longrightarrow> settings_of b' = settings_of b"
  "asset_measured fx m i (withdraw_ignore_borrow_cap fx' now v) la b = Inr (la', b') \<Longrightarrow>
    settings_of b' = settings_of b"
  "asset_measured fx m i (deposit_ignore_deposit_cap fx' now v) la b = Inr (la', b') \<Longrightarrow>
    settings_of b' = settings_of b"
  by (erule settings_measured [rotated], erule settings_wrappers)+

lemma settings_liquidate:
  assumes "lending_account_liquidate env lq g ais n k1 k2 (tor, tee, ab, lb) = Inr ((tor', tee', ab', lb'), t)"
  shows "settings_of ab' = settings_of ab \<and> settings_of lb' = settings_of lb"
  using assms
proof (cases rule: liquidate_cases)
  case (1 mint_ai ais1 ab1 lb1 start pre_health pa pl v asset_price liab_price amounts m tor_la tee_la
    ab2 lb2 tor_start tor_ais)
  have "settings_of ab2 = settings_of ab1 \<and> settings_of lb2 = settings_of lb1"
    using 1(10) unfolding liq_books_def
    by (auto elim!: bindE split: prod.splits
        dest!: settings_books)
  moreover have "settings_of ab' = settings_of ab2 \<and> settings_of lb' = settings_of lb2"
    using 1(11) by (auto simp: liq_finish_banks_def elim!: bindE dest!: settings_change(4))
  ultimately show ?thesis using settings_accrue [OF 1(4)] settings_accrue [OF 1(5)] by simp
qed

lemma settings_config: "settings_of (b\<lparr>config := c\<rparr>) = (settings_of b)\<lparr>config := c\<rparr>"
  and settings_flags: "settings_of (b\<lparr>bank_flags := f\<rparr>) = (settings_of b)\<lparr>bank_flags := f\<rparr>"
  by (simp_all add: settings_of_def)

lemma settings_bankruptcy:
  assumes "lending_pool_handle_bankruptcy env bk g ais (a, b) = Inr (a', b', t)"
  shows "settings_of b' = settings_of b
    \<or> settings_of b' = (settings_of b)\<lparr>config := (config b)\<lparr>operational_state := KilledByBankruptcy\<rparr>\<rparr>"
  using assms
proof (cases rule: bankruptcy_cases)
  case (1 mint_ai ais1 hc price b1 killed la b2 b3)
  have "settings_of b2 = settings_of b1"
    using 1(5) unfolding settle_bad_debt_def
    by (elim bindE) (auto dest!: settings_socialize settings_run [OF _ settings_wrappers(4)] elim!: bindE)
  then have s: "settings_of (update_cache_price (e_now env) price b3) = settings_of b"
    using settings_accrue [OF 1(4)] settings_change(4) [OF 1(6)] by simp
  show ?thesis using 1(7) s settings_fields(1) [OF s] by (auto simp: settings_config)
qed

lemma settings_repay:
  assumes "lending_account_repay env ta g ais n all (a, b) = Inr (a', b', ts)"
  shows "settings_of b' = settings_of b
    \<or> settings_of b' = (settings_of b)\<lparr>bank_flags := flag_put TOKENLESS_REPAYMENTS_COMPLETE (bank_flags b)\<rparr>"
  using assms
proof (cases rule: repay_cases)
  case (1 b1 i m la b2 b3)
  have s: "settings_of b2 = settings_of b"
    using settings_tokens(2) [OF 1(4)] settings_accrue [OF 1(2)] by simp
  moreover have "b3 = b2 \<or> b3 = b2\<lparr>bank_flags := flag_put TOKENLESS_REPAYMENTS_COMPLETE (bank_flags b2)\<rparr>"
    using 1(5) by (auto simp: mark_repayments_complete_def update_flag_def elim!: bindE split: if_splits)
  ultimately show ?thesis
    using settings_change(4) [OF 1(6)] settings_fields(7) [OF s] by (auto simp: settings_flags)
qed

end
