(* ===== verification/Backing.thy ===== *)
theory Backing
  imports Protocol BankFrame
begin

text \<open>
  That a bank on another lending program never owes its users more than its position there holds,
  and what the code relies on for it: the locale \<open>lending_chain\<close> states which accounts a token
  transfer or a refresh of interest leaves alone. The contract \<open>backed_ops\<close> is what a program's
  deposits and withdrawals keep of the books between the bank and its position.
\<close>

section \<open>The position of a bank\<close>

definition bank_position :: "'w chain \<Rightarrow> Bank \<Rightarrow> 'w \<Rightarrow> u64 res" where
  "bank_position ch b w =
     (if is_kamino_asset_tag (asset_tag (config b))
      then bindR (ch_kamino_obligation ch (integration_acc_2 b) w) (\<lambda>ob.
           bindR (first_deposit ob) (\<lambda>d. Inr (deposited_amount d)))
      else if is_drift_asset_tag (asset_tag (config b))
      then bindR (ch_drift_market ch (integration_acc_1 b) w) (\<lambda>m.
           bindR (ch_drift_user ch (integration_acc_2 b) w) (user_scaled_balance (sm_market_index m)))
      else bindR (ch_data ch (integration_acc_2 b) w) get_solend_obligation_deposit_amount)"

text \<open>What the users are owed: their deposits less their debts, in units of the position.\<close>

definition units_owed :: "Bank \<Rightarrow> int" where
  "units_owed b = total_asset_shares b - total_liability_shares b"

text \<open>A bank whose shares are units of the position.\<close>

definition unit_shares :: "Bank \<Rightarrow> bool" where
  "unit_shares b \<longleftrightarrow> asset_share_value b = ONE \<and> liability_share_value b = ONE"

definition account_units :: "pubkey \<Rightarrow> LendingAccount \<Rightarrow> int" where
  "account_units pk la = held asset_shares pk la - held liability_shares pk la"

definition backed :: "(Bank \<Rightarrow> 'w \<Rightarrow> u64 res) \<Rightarrow> nat \<Rightarrow> Bank \<Rightarrow> 'w \<Rightarrow> bool" where
  "backed pos c b w \<longleftrightarrow> unit_shares b \<and> (\<exists>n. pos b w = Inr n \<and> units_owed b \<le> int (n + c) * ONE)"

text \<open>The position is where the bank says it is.\<close>

definition same_place :: "Bank \<Rightarrow> Bank \<Rightarrow> bool" where
  "same_place b b' \<longleftrightarrow> config b' = config b \<and> integration_acc_1 b' = integration_acc_1 b
     \<and> integration_acc_2 b' = integration_acc_2 b"

lemma same_place_refl [simp]: "same_place b b"
  by (simp add: same_place_def)

lemma same_place_trans: "same_place b b' \<Longrightarrow> same_place b' b'' \<Longrightarrow> same_place b b''"
  by (simp add: same_place_def)

lemma bank_position_place: "same_place b b' \<Longrightarrow> bank_position ch b' = bank_position ch b"
  by (simp add: same_place_def bank_position_def fun_eq_iff)

lemma place_settings: "settings_of b' = settings_of b \<Longrightarrow> same_place b b'"
  using settings_fields [of b' b] by (simp add: same_place_def)

lemmas cache_place = settings_change(4) [THEN place_settings]
  and increase_place = settings_increase [THEN place_settings]
  and decrease_place = settings_decrease [THEN place_settings]
  and withdraw_all_place = settings_all(1) [THEN place_settings]

section \<open>What a deposit and a withdrawal do to the units owed\<close>

lemma unit_shares_terms: "same_terms b b' \<Longrightarrow> unit_shares b \<Longrightarrow> unit_shares b'"
  by (simp add: same_terms_def unit_shares_def)

lemma run_at_cases:
  assumes "run_at i f la b = Inr (la', b')"
  obtains bal' where "f (balances la ! i, b) = Inr (bal', b')"
  using assms by (auto simp: run_at_def at_balance_def bindR_eq_Inr)

lemma inv_wr_ok: "account_inv pk ra rl others (la, b) \<Longrightarrow> index_of pk la i \<Longrightarrow> wr_ok (balances la ! i, b)"
  using ledger_wr_ok by (auto simp: account_inv_def index_of_def)

context fixed_arith
begin

lemma unit_amounts:
  assumes "unit_shares b" and "0 \<le> s"
  shows "get_asset_amount fx b s = Inr x \<Longrightarrow> x = s" and "get_liability_amount fx b s = Inr x \<Longrightarrow> x = s"
    and "get_asset_shares fx b s = Inr x \<Longrightarrow> x = s" and "get_liability_shares fx b s = Inr x \<Longrightarrow> x = s"
  using assms asset_amount_eq [of b s x] liability_amount_eq [of b s x] asset_shares_eq [of b s x]
    liability_shares_eq [of b s x] by (auto simp: unit_shares_def)

lemma increase_units:
  assumes "increase_balance_internal fx now v ty (bal, b) = Inr (bal', b')" and ok: "wr_ok (bal, b)"
    and v: "0 \<le> v" and u: "unit_shares b"
  shows "units_owed b' = units_owed b + v \<and> unit_shares b'"
  using assms(1)
proof (rule increase_shape [OF _ ok v])
  fix liab s l
  assume l: "get_liability_amount fx b (liability_shares bal) = Inr liab"
    "get_asset_shares fx b (max (v - liab) 0) = Inr s" "get_liability_shares fx b (min liab v) = Inr l"
    and t: "total_asset_shares b' = total_asset_shares b + s"
      "total_liability_shares b' = total_liability_shares b - l" "same_terms b b'" "0 \<le> liab"
  have "s = max (v - liab) 0" "l = min liab v" using unit_amounts [OF u] l(2,3) t(4) v by auto
  then show ?thesis using t unit_shares_terms [OF t(3) u] by (simp add: units_owed_def)
qed

lemma decrease_units:
  assumes "decrease_balance_internal fx now v ty (bal, b) = Inr (bal', b')" and ok: "wr_ok (bal, b)"
    and v: "0 \<le> v" and u: "unit_shares b"
  shows "units_owed b' = units_owed b - v \<and> unit_shares b'"
  using assms(1)
proof (rule decrease_shape [OF _ ok v])
  fix assets s l
  assume l: "get_asset_shares fx b (min assets v) = Inr s" "get_liability_shares fx b (max (v - assets) 0) = Inr l"
    and t: "total_asset_shares b' = total_asset_shares b - s"
      "total_liability_shares b' = total_liability_shares b + l" "same_terms b b'" "0 \<le> assets"
  have "l = max (v - assets) 0" "s = min assets v" using unit_amounts [OF u] l t(4) v by auto
  then show ?thesis using t unit_shares_terms [OF t(3) u] by (simp add: units_owed_def)
qed

lemma withdraw_all_units:
  assumes "withdraw_all fx now (bal, b) = Inr (n, bal', b')" and ok: "wr_ok (bal, b)" and u: "unit_shares b"
  shows "units_owed b' \<le> units_owed b - int n * ONE \<and> unit_shares b'"
  using assms(1)
proof (rule withdraw_all_shape [OF _ ok])
  fix a
  assume a: "get_asset_amount fx b (asset_shares bal) = Inr a" and n: "int n = a div ONE"
    and t: "total_asset_shares b' = total_asset_shares b - asset_shares bal"
      "total_liability_shares b' = total_liability_shares b" "same_terms b b'"
  have "a = asset_shares bal" using unit_amounts(1) [OF u _ a] ok by (simp add: wr_ok_def)
  moreover have "a div ONE * ONE \<le> a" by (rule div_ONE_le)
  ultimately show ?thesis using t n unit_shares_terms [OF t(3) u] by (simp add: units_owed_def)
qed

lemma cache_units: "update_bank_cache fx now g b = Inr b' \<Longrightarrow> units_owed b' = units_owed b \<and> (unit_shares b' \<longleftrightarrow> unit_shares b)"
  using update_bank_cache_frame by (simp add: units_owed_def unit_shares_def)

lemma credit_units:
  assumes "credit_position env pk g n a b = Inr (a', b')" and fx: "e_fx env = fx" and n: "n \<le> u64_max"
    and inv: "account_inv pk ra rl others (lending_account a, b)" and u: "unit_shares b"
  shows "units_owed b' = units_owed b + int n * ONE \<and> unit_shares b' \<and> same_place b b'"
  using assms(1)
proof (cases rule: credit_cases)
  case (1 i la v la' b1)
  note 1 = 1 [unfolded fx deposit_no_repay_def]
  have v: "v = int n * ONE" "0 \<le> v" using amount_num_eq [OF 1(2) fx n] by simp_all
  obtain bal' where r: "increase_balance_internal fx (e_now env) v DepositOnly (balances la ! i, b) = Inr (bal', b1)"
    using 1(3) by (rule run_at_cases)
  have ok: "wr_ok (balances la ! i, b)" by (rule inv_wr_ok [OF inv_open [OF 1(1) inv] index_of_created [OF 1(1)]])
  show ?thesis
    using increase_units [OF r ok v(2) u] increase_place [OF r] cache_units [OF 1(4)] cache_place [OF 1(4)] v(1)
      same_place_trans by auto
qed

lemma debit_units:
  assumes "debit_position env pk n a b la b1" and fx: "e_fx env = fx"
    and inv: "account_inv pk ra rl others (lending_account a, b)" and u: "unit_shares b"
  shows "units_owed b1 \<le> units_owed b - int n * ONE \<and> unit_shares b1 \<and> same_place b b1"
proof -
  obtain i where i: "wrapper_find pk (lending_account a) = Inr i"
    and r: "(\<exists>m \<ge> n. at_balance i (withdraw_all fx (e_now env)) (lending_account a, b) = Inr (m, la, b1))
      \<or> (\<exists>v. n \<le> u64_max \<and> amount_num env n = Inr v \<and> run_at i (withdraw fx (e_now env) v) (lending_account a) b = Inr (la, b1))"
    using assms(1) unfolding debit_position_def fx by blast
  have ok: "wr_ok (balances (lending_account a) ! i, b)" by (rule inv_wr_ok [OF inv index_of_find [OF i]])
  from r show ?thesis
  proof (elim disjE exE conjE)
    fix m assume m: "n \<le> m"
      and "at_balance i (withdraw_all fx (e_now env)) (lending_account a, b) = Inr (m, la, b1)"
    then obtain bal' where "withdraw_all fx (e_now env) (balances (lending_account a) ! i, b) = Inr (m, bal', b1)"
      by (auto simp: at_balance_def bindR_eq_Inr)
    note w = withdraw_all_units [OF this ok u] withdraw_all_place [OF this]
    moreover have "int n * ONE \<le> int m * ONE" using m by (simp add: mult_right_mono)
    ultimately show ?thesis by linarith
  next
    fix v assume n: "n \<le> u64_max" and v: "amount_num env n = Inr v"
      and "run_at i (withdraw fx (e_now env) v) (lending_account a) b = Inr (la, b1)"
    then obtain bal' where r: "decrease_balance_internal fx (e_now env) v WithdrawOnly
        (balances (lending_account a) ! i, b) = Inr (bal', b1)"
      unfolding withdraw_def by (auto elim: run_at_cases)
    have "v = int n * ONE" "0 \<le> v" using amount_num_eq [OF v fx n] by simp_all
    then show ?thesis using decrease_units [OF r ok _ u] decrease_place [OF r] by simp
  qed
qed

text \<open>The units of a user: what the account's balance with the bank holds.\<close>

lemma increase_own:
  assumes "increase_balance_internal fx now v ty (bal, b) = Inr (bal', b')" and "wr_ok (bal, b)" and "0 \<le> v"
  shows "asset_shares bal' - liability_shares bal' = asset_shares bal - liability_shares bal
      + (units_owed b' - units_owed b) \<and> is_active bal' = is_active bal \<and> bank_pk bal' = bank_pk bal"
  by (rule increase_shape [OF assms]) (simp add: units_owed_def is_active_def)

lemma credit_account:
  assumes "credit_position env pk g n a b = Inr (a', b')" and fx: "e_fx env = fx" and n: "n \<le> u64_max"
    and inv: "account_inv pk ra rl others (lending_account a, b)" and u: "unit_shares b"
  shows "account_units pk (lending_account a') = account_units pk (lending_account a) + int n * ONE"
  using assms(1)
proof (cases rule: credit_cases)
  case (1 i la v la' b1)
  note 1 = 1 [unfolded fx deposit_no_repay_def]
  have v: "v = int n * ONE" "0 \<le> v" using amount_num_eq [OF 1(2) fx n] by simp_all
  obtain bal' where r: "increase_balance_internal fx (e_now env) v DepositOnly (balances la ! i, b) = Inr (bal', b1)"
    and la': "la' = la\<lparr>balances := (balances la)[i := bal']\<rparr>"
    using 1(3) by (auto simp: run_at_def at_balance_def bindR_eq_Inr)
  note ix = index_of_created [OF 1(1)]
  have ok: "wr_ok (balances la ! i, b)" by (rule inv_wr_ok [OF inv_open [OF 1(1) inv] ix])
  have "account_units pk la' = account_units pk la + v"
    using increase_own [OF r ok v(2)] increase_units [OF r ok v(2) u] ix
    by (simp add: account_units_def la' held_update index_of_def)
  moreover have "account_units pk la = account_units pk (lending_account a)"
    using find_or_create_held [OF 1(1)] by (simp add: account_units_def new_balance_def)
  ultimately show ?thesis using 1(5) v(1) by (simp add: account_units_def)
qed

lemma finish_units:
  assumes "withdraw_finish env key ais la a b = Inr (a', b')"
  shows "units_owed b' = units_owed b \<and> (unit_shares b' \<longleftrightarrow> unit_shares b) \<and> same_place b b'"
  using assms
proof (cases rule: withdraw_finish_cases)
  case (1 p)
  then show ?thesis by (cases p) (simp_all add: units_owed_def unit_shares_def update_cache_price_def same_place_def)
qed

end

section \<open>The contract\<close>

locale backed_ops = fixed_arith fx for fx :: fixed_ops +
  fixes dep wd :: "pubkey \<Rightarrow> MarginfiAccount \<times> Bank \<times> 'w \<Rightarrow> MarginfiAccount \<times> Bank \<times> 'w \<Rightarrow> bool"
    and pos :: "Bank \<Rightarrow> 'w \<Rightarrow> u64 res"
    and slack :: nat
  assumes credits_seen: "dep pk (a, b, w) (a', b', w') \<Longrightarrow>
      \<exists>env g i f. e_fx env = fx \<and> pos b w = Inr i \<and> pos b w' = Inr f \<and> i \<le> f \<and> f \<le> u64_max
        \<and> credit_position env pk g (f - i) a b = Inr (a', b')"
    and debits_seen: "wd pk (a, b, w) (a', b', w') \<Longrightarrow>
      \<exists>env g ais n i f la b1 b2. e_fx env = fx \<and> pos b w = Inr i \<and> pos b w' = Inr f \<and> i \<le> f + n + slack
        \<and> debit_position env pk n a b la b1 \<and> update_bank_cache fx (e_now env) g b1 = Inr b2
        \<and> withdraw_finish env pk ais la a b2 = Inr (a', b')"
    and pos_place: "same_place b b' \<Longrightarrow> pos b' = pos b"
begin

lemma deposit_backed:
  assumes "dep pk (a, b, w) (a', b', w')" and inv: "account_inv pk ra rl others (lending_account a, b)"
    and "backed pos c b w"
  shows "backed pos c b' w'"
proof -
  obtain env g i f where fx: "e_fx env = fx" and i: "pos b w = Inr i" and f: "pos b w' = Inr f" "f \<le> u64_max"
    and le: "i \<le> f" and r: "credit_position env pk g (f - i) a b = Inr (a', b')"
    using credits_seen [OF assms(1)] by blast
  have b: "unit_shares b" "units_owed b \<le> int (i + c) * ONE" using assms(3) i by (auto simp: backed_def)
  have u: "units_owed b' = units_owed b + int (f - i) * ONE" "unit_shares b'" "same_place b b'"
    using credit_units [OF r fx _ inv b(1)] f(2) by simp_all
  have "int (i + c) * ONE + int (f - i) * ONE = int (f + c) * ONE"
    using le by (simp add: of_nat_diff algebra_simps)
  then have "units_owed b' \<le> int (f + c) * ONE" using b(2) u(1) by linarith
  then show ?thesis using u(2) f(1) pos_place [OF u(3)] by (simp add: backed_def)
qed

lemma deposit_credits:
  assumes "dep pk (a, b, w) (a', b', w')" and inv: "account_inv pk ra rl others (lending_account a, b)"
    and "unit_shares b"
  shows "same_place b b' \<and> (\<exists>i f. pos b w = Inr i \<and> pos b' w' = Inr f \<and> i \<le> f
    \<and> units_owed b' = units_owed b + int (f - i) * ONE
    \<and> account_units pk (lending_account a') = account_units pk (lending_account a) + int (f - i) * ONE)"
proof -
  obtain env g i f where fx: "e_fx env = fx" and i: "pos b w = Inr i" and f: "pos b w' = Inr f" "f \<le> u64_max"
    and le: "i \<le> f" and r: "credit_position env pk g (f - i) a b = Inr (a', b')"
    using credits_seen [OF assms(1)] by blast
  have n: "f - i \<le> u64_max" using f(2) by simp
  note units = credit_units [OF r fx n inv assms(3)]
  have "pos b' w' = Inr f" using pos_place units f(1) by metis
  then show ?thesis using i le units credit_account [OF r fx n inv assms(3)] by blast
qed

lemma withdraw_backed:
  assumes "wd pk (a, b, w) (a', b', w')" and inv: "account_inv pk ra rl others (lending_account a, b)"
    and "backed pos c b w"
  shows "backed pos (c + slack) b' w'"
proof -
  obtain env g ais n i f la b1 b2 where fx: "e_fx env = fx" and i: "pos b w = Inr i" and f: "pos b w' = Inr f"
    and le: "i \<le> f + n + slack" and d: "debit_position env pk n a b la b1"
    and c: "update_bank_cache fx (e_now env) g b1 = Inr b2"
    and e: "withdraw_finish env pk ais la a b2 = Inr (a', b')"
    using debits_seen [OF assms(1)] by blast
  have b: "unit_shares b" "units_owed b \<le> int (i + c) * ONE" using assms(3) i by (auto simp: backed_def)
  have u: "units_owed b' \<le> units_owed b - int n * ONE" "unit_shares b'"
    using debit_units [OF d fx inv b(1)] cache_units [OF c] finish_units [OF e] by simp_all
  have "same_place b b1" "same_place b2 b'" using debit_units [OF d fx inv b(1)] finish_units [OF e] by simp_all
  then have p: "same_place b b'" using cache_place [OF c] same_place_trans by blast
  have "int (i + c) * ONE \<le> int (f + (c + slack) + n) * ONE" using le by (intro mult_right_mono) simp_all
  also have "\<dots> = int (f + (c + slack)) * ONE + int n * ONE" by (simp add: algebra_simps)
  finally have "units_owed b' \<le> int (f + (c + slack)) * ONE" using b(2) u(1) by linarith
  then show ?thesis using u(2) f pos_place [OF p] by (simp add: backed_def)
qed

end

sublocale backed_ops < position_ops fx dep wd
proof unfold_locales
  show "\<exists>env g n. e_fx env = fx \<and> n \<le> u64_max \<and> credit_position env pk g n a b = Inr (a', b')"
    if d: "dep pk (a, b, w) (a', b', w')" for pk a b w a' b' w'
  proof -
    obtain env g i f where "e_fx env = fx" "f \<le> u64_max" "credit_position env pk g (f - i) a b = Inr (a', b')"
      using credits_seen [OF d] by blast
    then show ?thesis by (intro exI [of _ env] exI [of _ g] exI [of _ "f - i"]) simp
  qed
  show "\<exists>env g ais n la b1 b2. e_fx env = fx \<and> debit_position env pk n a b la b1
      \<and> update_bank_cache fx (e_now env) g b1 = Inr b2 \<and> withdraw_finish env pk ais la a b2 = Inr (a', b')"
    if "wd pk (a, b, w) (a', b', w')" for pk a b w a' b' w'
    using debits_seen [OF that] by blast
qed

section \<open>The world that the code relies on\<close>

text \<open>
  A transfer of tokens changes token accounts only. Refreshing the interest of a Drift market does
  not change any user, and no call moves a market to another index.
\<close>

locale lending_chain = typed_chain fx ch for fx :: fixed_ops and ch :: "'w chain" +
  assumes transfer_frame: "ch_transfer ch t w = Inr w' \<Longrightarrow>
      ch_kamino_obligation ch k w' = ch_kamino_obligation ch k w \<and> ch_drift_user ch k w' = ch_drift_user ch k w
      \<and> ch_drift_market ch k w' = ch_drift_market ch k w"
    and transfer_data: "ch_transfer ch t w = Inr w' \<Longrightarrow> ch_data ch k w = Inr (SOLEND_PROGRAM_ID, bytes) \<Longrightarrow>
      ch_data ch k w' = Inr (SOLEND_PROGRAM_ID, bytes)"
    and interest_frame: "cpi_instruction c = ''update_spot_market_cumulative_interest'' \<Longrightarrow>
      ch_call ch c w = Inr w' \<Longrightarrow> ch_drift_user ch k w' = ch_drift_user ch k w"
    and index_kept: "ch_call ch c w = Inr w' \<Longrightarrow> ch_drift_market ch k w = Inr m \<Longrightarrow>
      \<exists>m'. ch_drift_market ch k w' = Inr m' \<and> sm_market_index m' = sm_market_index m"
begin

lemma kamino_position:
  assumes "position_constraints e1 e2 acc b = Inr ()" and "is_kamino_asset_tag (asset_tag (config b))"
  shows "bank_position ch b w = first_deposited ch acc w"
  using assms by (simp add: position_constraints_keys bank_position_def first_deposited_def)

lemma solend_position:
  assumes "position_constraints e1 e2 so b = Inr ()" and "is_solend_asset_tag (asset_tag (config b))"
  shows "bank_position ch b w = solend_deposited ch so w"
  using assms by (simp add: position_constraints_keys bank_position_def solend_deposited_def asset_tag_defs
      is_kamino_asset_tag_def is_drift_asset_tag_def is_solend_asset_tag_def)

lemma drift_position_of_bank:
  assumes "drift_bank_constraints da b = Inr ()" and "ch_drift_market ch (in_acc_1 da) w = Inr m"
  shows "bank_position ch b w = drift_position ch da (sm_market_index m) w"
proof -
  have "position_constraints InvalidDriftSpotMarket InvalidDriftUser da b = Inr ()"
    "is_drift_asset_tag (asset_tag (config b))"
    using assms(1) by (auto simp: drift_bank_constraints_def mint_and_tag_def check_def elim!: bindR_InrE
        split: if_splits)
  then show ?thesis
    using assms(2) by (simp add: position_constraints_keys bank_position_def drift_position_def asset_tag_defs
        is_kamino_asset_tag_def is_drift_asset_tag_def)
qed

lemma first_deposited_transfer: "ch_transfer ch t w = Inr w' \<Longrightarrow> first_deposited ch acc w' = first_deposited ch acc w"
  by (simp add: first_deposited_def transfer_frame)

lemma drift_position_transfer: "ch_transfer ch t w = Inr w' \<Longrightarrow> drift_position ch da idx w' = drift_position ch da idx w"
  by (simp add: drift_position_def transfer_frame)

lemma solend_deposited_transfer:
  assumes "ch_transfer ch t w = Inr w'" and "solend_deposited ch so w = Inr n"
  shows "solend_deposited ch so w' = Inr n"
proof -
  obtain bytes where "ch_data ch (in_acc_2 so) w = Inr (SOLEND_PROGRAM_ID, bytes)"
    using assms(2) by (auto simp: solend_deposited_def get_solend_obligation_deposit_amount_def
        solend_obligation_data_def check_def elim!: bindR_InrE split: if_splits)
  moreover from transfer_data [OF assms(1) this]
  have "ch_data ch (in_acc_2 so) w' = Inr (SOLEND_PROGRAM_ID, bytes)" .
  ultimately show ?thesis using assms(2) by (simp add: solend_deposited_def)
qed

end

text \<open>The conditions on the bank that the guards leave.\<close>

lemma kamino_deposit_place:
  "kamino_deposit_guards ch env ka g a b w = Inr () \<Longrightarrow>
     position_constraints InvalidKaminoReserve InvalidKaminoObligation ka b = Inr ()
     \<and> is_kamino_asset_tag (asset_tag (config b))"
  by (auto simp: kamino_deposit_guards_def mint_and_tag_def check_def elim!: bindR_InrE split: if_splits)

lemma kamino_withdraw_place:
  "kamino_withdraw_guards ch env ka g a b w = Inr () \<Longrightarrow>
     position_constraints InvalidKaminoReserve InvalidKaminoObligation ka b = Inr ()
     \<and> is_kamino_asset_tag (asset_tag (config b))"
  by (auto simp: kamino_withdraw_guards_def check_def elim!: bindR_InrE split: if_splits)

lemma solend_place:
  "solend_guards r ch env so g a b w = Inr () \<Longrightarrow>
     position_constraints InvalidSolendReserve InvalidSolendObligation so b = Inr ()
     \<and> is_solend_asset_tag (asset_tag (config b))"
  by (auto simp: solend_guards_def mint_and_tag_def check_def elim!: bindR_InrE split: if_splits)

lemma drift_withdraw_place:
  assumes "drift_withdraw_guards ch env da g a b w = Inr ()"
  obtains m u p where "drift_bank_constraints da b = Inr ()" "ch_drift_market ch (in_acc_1 da) w = Inr m"
    "ch_drift_user ch (in_acc_2 da) w = Inr u" "position_at (position_index (sm_market_index m)) u = Inr p"
proof -
  obtain m u where r: "drift_bank_constraints da b = Inr ()" "ch_drift_market ch (in_acc_1 da) w = Inr m"
    "ch_drift_user ch (in_acc_2 da) w = Inr u"
    "require_ok (validate_spot_position (sm_market_index m) u) DriftInvalidSpotPositions = Inr ()"
    using assms unfolding drift_withdraw_guards_def drift_user_constraint_def by (elim bindR_InrE) auto
  then obtain p where "position_at (position_index (sm_market_index m)) u = Inr p"
    by (cases "position_at (position_index (sm_market_index m)) u")
      (auto simp: require_ok_def validate_spot_position_def split: failure.splits)
  with r show thesis by (intro that)
qed

sublocale lending_chain < kamino_backed: backed_ops fx "kamino_in fx ch" "kamino_out fx ch" "bank_position ch" 0
proof unfold_locales
  fix pk a b w a' b' w'
  assume "kamino_in fx ch pk (a, b, w) (a', b', w')"
  then show "\<exists>env g i f. e_fx env = fx \<and> bank_position ch b w = Inr i \<and> bank_position ch b w' = Inr f
      \<and> i \<le> f \<and> f \<le> u64_max \<and> credit_position env pk g (f - i) a b = Inr (a', b')"
  proof cases
    case (1 env ka g n)
    from 1(2) show ?thesis
    proof (cases rule: kamino_deposit_cases)
      case r: (1 initial reserve expected w1 final change)
      note pos = kamino_position [OF kamino_deposit_place [OF r(1), THEN conjunct1]
          kamino_deposit_place [OF r(1), THEN conjunct2]]
      have "initial \<le> final" "change = final - initial" using r(9) by (simp_all add: sub_u64_eq)
      moreover have "final \<le> u64_max" using first_deposited_u64 [OF r(8)] .
      ultimately show ?thesis using r(3,8,11) 1(1,3) unfolding pos by blast
    qed
  qed
next
  fix pk a b w a' b' w'
  assume "kamino_out fx ch pk (a, b, w) (a', b', w')"
  then show "\<exists>env g ais n i f la b1 b2. e_fx env = fx \<and> bank_position ch b w = Inr i
      \<and> bank_position ch b w' = Inr f \<and> i \<le> f + n + 0 \<and> debit_position env pk n a b la b1
      \<and> update_bank_cache fx (e_now env) g b1 = Inr b2 \<and> withdraw_finish env pk ais la a b2 = Inr (a', b')"
  proof cases
    case (1 env ka ais n all g g')
    from 1(2) show ?thesis
    proof (cases rule: kamino_withdraw_cases)
      case r: (1 pre initial collateral la b1 b2 reserve expected w1 final post received)
      note pos = kamino_position [OF kamino_withdraw_place [OF r(1), THEN conjunct1]
          kamino_withdraw_place [OF r(1), THEN conjunct2]]
      have "first_deposited ch ka w' = Inr final" by (simp add: first_deposited_transfer [OF r(15)] r(10))
      moreover have "initial \<le> final + collateral + 0" using r(11) by (simp add: sub_u64_eq)
      ultimately show ?thesis
        using withdraw_collateral_debits [OF r(5) 1(4)] r(3,6,16) 1(1,3) unfolding pos by blast
    qed
  qed
qed (rule bank_position_place)

sublocale lending_chain < solend_backed: backed_ops fx "solend_in fx ch" "solend_out fx ch" "bank_position ch" 1
proof unfold_locales
  fix pk a b w a' b' w'
  assume "solend_in fx ch pk (a, b, w) (a', b', w')"
  then show "\<exists>env g i f. e_fx env = fx \<and> bank_position ch b w = Inr i \<and> bank_position ch b w' = Inr f
      \<and> i \<le> f \<and> f \<le> u64_max \<and> credit_position env pk g (f - i) a b = Inr (a', b')"
  proof cases
    case (1 env so g n)
    from 1(2) show ?thesis
    proof (cases rule: solend_deposit_cases)
      case r: (1 initial reserve expected w1 final change)
      note pos = solend_position [OF solend_place [OF r(1), THEN conjunct1] solend_place [OF r(1), THEN conjunct2]]
      have "initial \<le> final" "change = final - initial" using r(9) by (simp_all add: sub_u64_eq)
      moreover have "final \<le> u64_max" using solend_deposited_u64 [OF r(8)] .
      ultimately show ?thesis using r(3,8,11) 1(1,3) unfolding pos by blast
    qed
  qed
next
  fix pk a b w a' b' w'
  assume "solend_out fx ch pk (a, b, w) (a', b', w')"
  then show "\<exists>env g ais n i f la b1 b2. e_fx env = fx \<and> bank_position ch b w = Inr i
      \<and> bank_position ch b w' = Inr f \<and> i \<le> f + n + 1 \<and> debit_position env pk n a b la b1
      \<and> update_bank_cache fx (e_now env) g b1 = Inr b2 \<and> withdraw_finish env pk ais la a b2 = Inr (a', b')"
  proof cases
    case (1 env so ais n all g g')
    from 1(2) show ?thesis
    proof (cases rule: solend_withdraw_cases)
      case r: (1 collateral la b1 initial pre reserve expected w1 final change post received b2)
      note pos = solend_position [OF solend_place [OF r(1), THEN conjunct1] solend_place [OF r(1), THEN conjunct2]]
      have "solend_deposited ch so w' = Inr final" using solend_deposited_transfer [OF r(15,9)] .
      moreover have "initial \<le> final + collateral + 1"
        using r(10,11) by (auto simp: sub_u64_eq within_one_token)
      ultimately show ?thesis
        using withdraw_collateral_debits [OF r(3) 1(4)] r(4,16,17) 1(1,3) unfolding pos by blast
    qed
  qed
qed (rule bank_position_place)

context lending_chain
begin

text \<open>The reads of the position around a call that refreshes the interest.\<close>

lemma drift_refreshed:
  assumes "drift_bank_constraints da b = Inr ()" and "ch_drift_market ch (in_acc_1 da) w = Inr m"
    and "ch_call ch (cpi_update_interest da) w = Inr w1"
  shows "bank_position ch b w = drift_position ch da (sm_market_index m) w1"
proof -
  have "ch_drift_user ch (in_acc_2 da) w1 = ch_drift_user ch (in_acc_2 da) w"
    using assms(3) by (intro interest_frame) (simp_all add: cpi_update_interest_def)
  then show ?thesis using drift_position_of_bank [OF assms(1,2)] by (simp add: drift_position_def)
qed

text \<open>A Drift withdrawal and what the position loses.\<close>

lemma drift_out_position:
  assumes "drift_bank_constraints da b = Inr ()"
    and p: "ch_drift_user ch (in_acc_2 da) w = Inr u" "position_at (position_index (sm_market_index m0)) u = Inr p"
    and m0: "ch_drift_market ch (in_acc_1 da) w = Inr m0"
    and w1: "ch_call ch (cpi_update_interest da) w = Inr w1"
    and m: "ch_drift_market ch (in_acc_1 da) w1 = Inr m"
    and pay: "drift_payout ch da b1 (sm_market_index m) all tokens n w1 = Inr w'"
  shows "\<exists>i f. bank_position ch b w = Inr i \<and> bank_position ch b w' = Inr f \<and> i \<le> f + n + 0"
proof -
  have idx: "sm_market_index m = sm_market_index m0" using index_kept [OF w1 m0] m by auto
  note pw = drift_refreshed [OF assms(1) m0 w1]
  from pay show ?thesis
  proof (cases rule: drift_payout_cases)
    case skipped
    have "drift_position ch da (sm_market_index m0) w1 = Inr (scaled_balance p)"
      using p drift_position_of_bank [OF assms(1) m0] pw by (simp add: drift_position_def user_scaled_balance_def)
    moreover have "bank_position ch b w1 = drift_position ch da (sm_market_index m0) w1"
      using drift_position_of_bank [OF assms(1) m] idx by simp
    ultimately show ?thesis using pw skipped(3) by auto
  next
    case (paid initial pre w2 final post)
    obtain m2 where m2: "ch_drift_market ch (in_acc_1 da) w2 = Inr m2" "sm_market_index m2 = sm_market_index m0"
      using index_kept [OF paid(3) m] idx by auto
    then have "ch_drift_market ch (in_acc_1 da) w' = Inr m2" using transfer_frame [OF paid(8)] by simp
    then have "bank_position ch b w' = Inr final"
      using drift_position_of_bank [OF assms(1)] m2(2) paid(4) drift_position_transfer [OF paid(8), of da] idx
      by simp
    then show ?thesis using pw paid(1,7) idx by (auto simp: sub_u64_eq)
  qed
qed

end

sublocale lending_chain < drift_backed: backed_ops fx "drift_in fx ch" "drift_out fx ch" "bank_position ch" 0
proof unfold_locales
  fix pk a b w a' b' w'
  assume "drift_in fx ch pk (a, b, w) (a', b', w')"
  then show "\<exists>env g i f. e_fx env = fx \<and> bank_position ch b w = Inr i \<and> bank_position ch b w' = Inr f
      \<and> i \<le> f \<and> f \<le> u64_max \<and> credit_position env pk g (f - i) a b = Inr (a', b')"
  proof cases
    case (1 env da g n)
    from 1(2) show ?thesis
    proof (cases rule: drift_deposit_cases)
      case r: (1 market w1 fresh expected initial w2 final change)
      have c: "drift_bank_constraints da b = Inr ()"
        using r(1) unfolding drift_deposit_guards_def by (elim bindR_InrE) simp
      obtain m2 where m2: "ch_drift_market ch (in_acc_1 da) w2 = Inr m2" "sm_market_index m2 = sm_market_index market"
        using index_kept [OF r(4,3)] transfer_frame [OF r(8)] by auto
      obtain m' where "ch_drift_market ch (in_acc_1 da) w' = Inr m'" "sm_market_index m' = sm_market_index market"
        using index_kept [OF r(9) m2(1)] m2(2) by auto
      then have "bank_position ch b w' = Inr final" using drift_position_of_bank [OF c] r(10) by simp
      moreover have "bank_position ch b w = Inr initial" using drift_refreshed [OF c r(3,4)] r(7) by simp
      moreover have "initial \<le> final" "change = final - initial" using r(11) by (simp_all add: sub_u64_eq)
      moreover have "final \<le> u64_max" using drift_position_u64 [OF r(10)] .
      ultimately show ?thesis using r(13) 1(1,3) by blast
    qed
  qed
next
  fix pk a b w a' b' w'
  assume "drift_out fx ch pk (a, b, w) (a', b', w')"
  then show "\<exists>env g ais n i f la b1 b2. e_fx env = fx \<and> bank_position ch b w = Inr i
      \<and> bank_position ch b w' = Inr f \<and> i \<le> f + n + 0 \<and> debit_position env pk n a b la b1
      \<and> update_bank_cache fx (e_now env) g b1 = Inr b2 \<and> withdraw_finish env pk ais la a b2 = Inr (a', b')"
  proof cases
    case (1 env da ais n all g g')
    from 1(2) show ?thesis
    proof (cases rule: drift_withdraw_cases)
      case r: (1 w1 price market i tokens expected la b1 b2)
      obtain m u p where g: "drift_bank_constraints da b = Inr ()" "ch_drift_market ch (in_acc_1 da) w = Inr m"
        "ch_drift_user ch (in_acc_2 da) w = Inr u" "position_at (position_index (sm_market_index m)) u = Inr p"
        using r(1) by (rule drift_withdraw_place)
      show ?thesis
        using drift_out_position [OF g(1,3,4,2) r(2,5,9)] drift_tokens_debit [OF r(7,6)] r(10,11) 1(1,3) by blast
    qed
  qed
qed (rule bank_position_place)

context lending_chain
begin

lemmas kamino_backed_deposit = kamino_backed.deposit_credits
lemmas drift_backed_deposit = drift_backed.deposit_credits
lemmas solend_backed_deposit = solend_backed.deposit_credits

end

section \<open>One bank among all users\<close>

text \<open>
  What can happen around the bank \<open>pk\<close>: any user deposits or withdraws; any other instruction runs
  that does not add to what the bank owes; or the world moves on without taking from the position.
  The number counts the withdrawals from Solend.
\<close>

inductive vault_step :: "fixed_ops \<Rightarrow> 'w chain \<Rightarrow> pubkey \<Rightarrow> nat \<Rightarrow> world \<times> 'w \<Rightarrow> world \<times> 'w \<Rightarrow> bool"
  for fx :: fixed_ops and ch :: "'w chain" and pk :: pubkey where
  deposit: "kamino_in fx ch pk (a, b, w) (a', b', w') \<or> drift_in fx ch pk (a, b, w) (a', b', w')
      \<or> solend_in fx ch pk (a, b, w) (a', b', w') \<Longrightarrow> accs k = Some a \<Longrightarrow> bks pk = Some b \<Longrightarrow>
    vault_step fx ch pk 0 ((accs, bks), w) ((accs(k \<mapsto> a'), bks(pk \<mapsto> b')), w')"
| withdraw: "kamino_out fx ch pk (a, b, w) (a', b', w') \<or> drift_out fx ch pk (a, b, w) (a', b', w') \<Longrightarrow>
    accs k = Some a \<Longrightarrow> bks pk = Some b \<Longrightarrow>
    vault_step fx ch pk 0 ((accs, bks), w) ((accs(k \<mapsto> a'), bks(pk \<mapsto> b')), w')"
| withdraw_solend: "solend_out fx ch pk (a, b, w) (a', b', w') \<Longrightarrow> accs k = Some a \<Longrightarrow> bks pk = Some b \<Longrightarrow>
    vault_step fx ch pk 1 ((accs, bks), w) ((accs(k \<mapsto> a'), bks(pk \<mapsto> b')), w')"
| elsewhere: "protocol_step fx ch s s' \<Longrightarrow> snd s pk = Some b \<Longrightarrow> snd s' pk = Some b' \<Longrightarrow> same_place b b' \<Longrightarrow>
    unit_shares b' \<Longrightarrow> units_owed b' \<le> units_owed b \<Longrightarrow> vault_step fx ch pk 0 (s, w) (s', w)"
| outside: "snd s pk = Some b \<Longrightarrow> bank_position ch b w = Inr i \<Longrightarrow> bank_position ch b w' = Inr f \<Longrightarrow> i \<le> f \<Longrightarrow>
    vault_step fx ch pk 0 (s, w) (s, w')"

inductive vault_run :: "fixed_ops \<Rightarrow> 'w chain \<Rightarrow> pubkey \<Rightarrow> nat \<Rightarrow> world \<times> 'w \<Rightarrow> world \<times> 'w \<Rightarrow> bool"
  for fx :: fixed_ops and ch :: "'w chain" and pk :: pubkey where
  none: "vault_run fx ch pk 0 s s"
| more: "vault_run fx ch pk n s s' \<Longrightarrow> vault_step fx ch pk m s' s'' \<Longrightarrow> vault_run fx ch pk (n + m) s s''"

definition vault_ok :: "'w chain \<Rightarrow> pubkey \<Rightarrow> nat \<Rightarrow> world \<times> 'w \<Rightarrow> bool" where
  "vault_ok ch pk c s \<longleftrightarrow> books_ok (books_of (fst s))
     \<and> (\<exists>b. snd (fst s) pk = Some b \<and> backed (bank_position ch) c b (snd s))"

lemma backed_le: "backed pos c b w \<Longrightarrow> unit_shares b' \<Longrightarrow> units_owed b' \<le> units_owed b \<Longrightarrow>
    pos b w = Inr i \<Longrightarrow> pos b' w' = Inr f \<Longrightarrow> i \<le> f \<Longrightarrow> backed pos c b' w'"
proof -
  assume a: "backed pos c b w" "unit_shares b'" "units_owed b' \<le> units_owed b" "pos b w = Inr i" "pos b' w' = Inr f" "i \<le> f"
  have "units_owed b \<le> int (i + c) * ONE" using a(1,4) by (auto simp: backed_def)
  also have "\<dots> \<le> int (f + c) * ONE" using a(6) by (intro mult_right_mono) simp_all
  finally have "units_owed b' \<le> int (f + c) * ONE" using a(3) by linarith
  then show ?thesis using a(2,5) by (simp add: backed_def)
qed

lemma books_account:
  assumes ok: "books_ok (las, bs)" and k: "las k = Some la" and b: "bs pk = Some b"
  shows "\<exists>ra rl. account_inv pk ra rl (elsewhere pk la) (la, b)"
proof -
  have fin: "finite (dom las)" and slots: "slots_ok la"
    using ok k by (auto simp: books_ok_def ran_def)
  have H: "\<And>x. x \<in> ran las \<Longrightarrow> holdings_ok pk x" using ok b by (auto simp: books_ok_def)
  have la: "la \<in> ran las" using k by (auto simp: ran_def)
  show ?thesis
    using slots H [OF la] ok b others_nonneg [of las pk asset_shares k] others_nonneg [of las pk liability_shares k] H
      held_by_all_eq [OF fin k]
    by (intro exI [of _ "\<Sum>j \<in> dom las - {k}. held asset_shares pk (the (las j))"]
        exI [of _ "\<Sum>j \<in> dom las - {k}. held liability_shares pk (the (las j))"])
      (auto simp: account_inv_def ledger_def books_ok_def holdings_ok_def add.commute)
qed

context lending_chain
begin

lemma vault_step_solo:
  assumes "solo_ix fx ch pk (a, b) (a', b')" and "accs k = Some a" and "bks pk = Some b"
    and "vault_ok ch pk c ((accs, bks), w)"
    and "\<And>ra rl. account_inv pk ra rl (elsewhere pk (lending_account a)) (lending_account a, b) \<Longrightarrow>
      backed (bank_position ch) c b w \<Longrightarrow> backed (bank_position ch) c' b' w'"
  shows "vault_ok ch pk c' ((accs(k \<mapsto> a'), bks(pk \<mapsto> b')), w')"
proof -
  have ok: "books_ok (books_of (accs, bks))" and bk: "backed (bank_position ch) c b w"
    using assms(3,4) by (auto simp: vault_ok_def)
  have "books_ok (books_of (accs(k \<mapsto> a'), bks(pk \<mapsto> b')))"
    by (rule protocol_step_ok [OF _ ok]) (rule protocol_step.everyday, rule world_step.solo, fact+)
  moreover obtain ra rl where "account_inv pk ra rl (elsewhere pk (lending_account a)) (lending_account a, b)"
    using books_account [of "map_option lending_account \<circ> accs" bks k "lending_account a" pk b] ok assms(2,3) by auto
  ultimately show ?thesis using assms(5) bk by (simp add: vault_ok_def)
qed

lemma vault_step_ok:
  assumes "vault_step fx ch pk m s s'" and ok: "vault_ok ch pk c s"
  shows "vault_ok ch pk (c + m) s'"
  using assms(1)
proof cases
  case (deposit a b w a' b' w' accs k bks)
  show ?thesis
    unfolding deposit(1,3)
  proof (rule vault_step_solo [OF solo_ix.position_in [OF deposit(4)] deposit(5,6) ok [unfolded deposit(2)]])
    fix ra rl
    assume "account_inv pk ra rl (elsewhere pk (lending_account a)) (lending_account a, b)"
      "backed (bank_position ch) c b w"
    then show "backed (bank_position ch) (c + 0) b' w'"
      using deposit(4) kamino_backed.deposit_backed drift_backed.deposit_backed solend_backed.deposit_backed
      by (elim disjE) simp_all
  qed
next
  case (withdraw a b w a' b' w' accs k bks)
  then have out: "kamino_out fx ch pk (a, b, w) (a', b', w') \<or> drift_out fx ch pk (a, b, w) (a', b', w')
      \<or> solend_out fx ch pk (a, b, w) (a', b', w')" by blast
  show ?thesis
    unfolding withdraw(1,3)
  proof (rule vault_step_solo [OF solo_ix.position_out [OF out] withdraw(5,6) ok [unfolded withdraw(2)]])
    fix ra rl
    assume "account_inv pk ra rl (elsewhere pk (lending_account a)) (lending_account a, b)"
      "backed (bank_position ch) c b w"
    then show "backed (bank_position ch) (c + 0) b' w'"
      using withdraw(4) kamino_backed.withdraw_backed drift_backed.withdraw_backed by (elim disjE) simp_all
  qed
next
  case (withdraw_solend a b w a' b' w' accs k bks)
  then have out: "kamino_out fx ch pk (a, b, w) (a', b', w') \<or> drift_out fx ch pk (a, b, w) (a', b', w')
      \<or> solend_out fx ch pk (a, b, w) (a', b', w')" by blast
  show ?thesis
    unfolding withdraw_solend(1,3)
    by (rule vault_step_solo [OF solo_ix.position_out [OF out] withdraw_solend(5,6) ok [unfolded withdraw_solend(2)]])
      (rule solend_backed.withdraw_backed [OF withdraw_solend(4)])
next
  case (elsewhere t t' b b' w)
  then have bk: "backed (bank_position ch) c b w" using ok by (auto simp: vault_ok_def)
  then obtain i where i: "bank_position ch b w = Inr i" by (auto simp: backed_def)
  then have "bank_position ch b' w = Inr i" by (simp add: bank_position_place [OF elsewhere(7)])
  then have "backed (bank_position ch) c b' w"
    by (rule backed_le [where pos = "bank_position ch", OF bk elsewhere(8,9) i]) simp
  moreover have "books_ok (books_of t')" using ok elsewhere protocol_step_ok by (auto simp: vault_ok_def)
  ultimately show ?thesis using elsewhere by (simp add: vault_ok_def)
next
  case (outside t b w i w' f)
  then have "backed (bank_position ch) c b w" "unit_shares b" using ok by (auto simp: vault_ok_def backed_def)
  then have "backed (bank_position ch) c b w'"
    by (rule backed_le [where pos = "bank_position ch"]) (use outside in simp_all)
  then show ?thesis using ok outside by (simp add: vault_ok_def)
qed

lemma vault_run_ok: "vault_run fx ch pk n s s' \<Longrightarrow> vault_ok ch pk c s \<Longrightarrow> vault_ok ch pk (c + n) s'"
proof (induction rule: vault_run.induct)
  case (more n s s' m s'')
  then show ?case using vault_step_ok [OF more.hyps(2), of "c + n"] by (simp add: add.assoc)
qed simp

end

end
