(* ===== verification/RefChain.thy ===== *)
theory RefChain
  imports Backing Samples
begin

text \<open>
  A concrete world of other lending programs, on which the witnesses run: token accounts with
  balances and positions with amounts, at an exchange rate of one. It meets the assumptions of
  \<open>lending_chain\<close>.
\<close>

record ref_world =
  rw_tokens :: "pubkey \<Rightarrow> nat"
  rw_position :: "pubkey \<Rightarrow> nat"

definition ref_in :: "pubkey \<Rightarrow> pubkey \<Rightarrow> nat \<Rightarrow> ref_world \<Rightarrow> ref_world res" where
  "ref_in tokens place n w =
     (if n \<le> rw_tokens w tokens
      then Inr (w\<lparr>rw_tokens := (rw_tokens w)(tokens := rw_tokens w tokens - n),
                  rw_position := (rw_position w)(place := rw_position w place + n)\<rparr>)
      else Inl (ProgramError ''InsufficientFunds''))"

definition ref_out :: "pubkey \<Rightarrow> pubkey \<Rightarrow> nat \<Rightarrow> ref_world \<Rightarrow> ref_world res" where
  "ref_out place tokens n w =
     (if n \<le> rw_position w place
      then Inr (w\<lparr>rw_tokens := (rw_tokens w)(tokens := rw_tokens w tokens + n),
                  rw_position := (rw_position w)(place := rw_position w place - n)\<rparr>)
      else Inl (ProgramError ''InsufficientFunds''))"

definition cpi_key :: "Cpi \<Rightarrow> string \<Rightarrow> pubkey" where
  "cpi_key c name = (case map_of (cpi_accounts c) name of Some (Some k) \<Rightarrow> k | _ \<Rightarrow> default_key)"

definition ref_call :: "Cpi \<Rightarrow> ref_world \<Rightarrow> ref_world res" where
  "ref_call c w =
     (if cpi_instruction c = ''deposit_reserve_liquidity_and_obligation_collateral_v2''
      then ref_in (cpi_key c ''user_source_liquidity'') (cpi_key c ''obligation'') (hd (cpi_args c)) w
      else if cpi_instruction c = ''withdraw_obligation_collateral_and_redeem_reserve_collateral_v2''
      then ref_out (cpi_key c ''obligation'') (cpi_key c ''user_destination_liquidity'') (hd (cpi_args c)) w
      else if cpi_instruction c = ''deposit''
      then ref_in (cpi_key c ''user_token_account'') (cpi_key c ''user'') (cpi_args c ! 1) w
      else if cpi_instruction c = ''withdraw''
      then ref_out (cpi_key c ''user'') (cpi_key c ''user_token_account'') (cpi_args c ! 1) w
      else Inr w)"

definition ref_call_ix :: "Instruction \<Rightarrow> ref_world \<Rightarrow> ref_world res" where
  "ref_call_ix ix w =
     (let key = (\<lambda>i. am_pubkey (ix_accounts ix ! i)); n = from_le (tl (ix_data ix))
      in if hd (ix_data ix) = 14 then ref_in (key 0) (key 8) n w
         else if hd (ix_data ix) = 15 then ref_out (key 3) (key 6) n w
         else Inr w)"

definition ref_transfer :: "Transfer \<Rightarrow> ref_world \<Rightarrow> ref_world res" where
  "ref_transfer t w =
     (if tr_amount t \<le> rw_tokens w (tr_from t)
      then let w1 = (rw_tokens w)(tr_from t := rw_tokens w (tr_from t) - tr_amount t)
           in Inr (w\<lparr>rw_tokens := w1(tr_to t := w1 (tr_to t) + tr_amount t)\<rparr>)
      else Inl (ProgramError ''InsufficientFunds''))"

definition read_u64 :: "nat \<Rightarrow> u64 res" where
  "read_u64 n = (if n \<le> u64_max then Inr n else Inl (ProgramError ''AccountDidNotDeserialize''))"

text \<open>Reserve 40 and market 40, with a thousand tokens on both sides.\<close>

definition ref_kamino_reserve :: MinimalReserve where
  "ref_kamino_reserve = \<lparr>kr_version = 1, kr_slot = 0, kr_stale = 0, kr_price_status = 0,
     kr_lending_market = 50, kr_farm_collateral = 0, kr_farm_debt = 0, kr_mint_pubkey = 2,
     kr_supply_vault = 51, kr_fee_vault = 52, kr_available_amount = 1000, kr_borrowed_amount_sf = 0,
     kr_market_price_sf = 0, kr_market_price_last_updated_ts = 0, kr_mint_decimals = 6,
     kr_accumulated_protocol_fees_sf = 0, kr_accumulated_referrer_fees_sf = 0,
     kr_pending_referrer_fees_sf = 0, kr_absolute_referral_rate_sf = 0, kr_token_program = 0,
     kr_collateral_mint_pubkey = 53, kr_mint_total_supply = 1000, kr_collateral_supply_vault = 54\<rparr>"

definition ref_solend_reserve :: SolendMinimalReserve where
  "ref_solend_reserve = \<lparr>sr_last_update_slot = 0, sr_last_update_stale = 0, sr_lending_market = 50,
     sr_liquidity_mint_pubkey = 2, sr_liquidity_mint_decimals = 6, sr_liquidity_supply_pubkey = 51,
     sr_liquidity_pyth_oracle_pubkey = 0, sr_liquidity_switchboard_oracle_pubkey = 0,
     sr_liquidity_available_amount = 1000, sr_liquidity_borrowed_amount_wads = 0,
     sr_liquidity_cumulative_borrow_rate_wads = 0, sr_liquidity_market_price = 0,
     sr_collateral_mint_pubkey = 53, sr_collateral_mint_total_supply = 1000,
     sr_collateral_supply_pubkey = 54, sr_liquidity_accumulated_protocol_fees_wads = 0\<rparr>"

definition ref_drift_market :: MinimalSpotMarket where
  "ref_drift_market = \<lparr>sm_pubkey = 40, sm_oracle = 0, sm_mint = 2, sm_vault = 51, deposit_balance = 1000,
     borrow_balance = 0, cumulative_deposit_interest = 10000000000, cumulative_borrow_interest = 10000000000,
     last_interest_ts = 0, sm_decimals = 9, sm_market_index = 0, pool_id = 0\<rparr>"

definition ref_spot :: "u64 \<Rightarrow> SpotPosition" where
  "ref_spot n = \<lparr>scaled_balance = n, open_bids = 0, open_asks = 0, cumulative_deposits = 0,
     pos_market_index = 0, balance_type = Deposit, open_orders = 0\<rparr>"

definition ref_chain :: "ref_world chain" where
  "ref_chain = \<lparr>ch_call = ref_call, ch_call_ix = (\<lambda>ix _. ref_call_ix ix), ch_transfer = ref_transfer,
     ch_amount = (\<lambda>k w. read_u64 (rw_tokens w k)),
     ch_data = (\<lambda>k w. bindR (read_u64 (rw_position w k)) (\<lambda>n.
       Inr (SOLEND_PROGRAM_ID, [1] @ replicate 201 0 @ [1, 0] @ replicate 31 0 @ [40] @ to_le 8 n
         @ replicate 1056 0))),
     ch_kamino_reserve = (\<lambda>k w. Inr ref_kamino_reserve),
     ch_kamino_obligation = (\<lambda>k w. bindR (read_u64 (rw_position w k)) (\<lambda>n.
       Inr \<lparr>ob_lending_market = 50, ob_owner = 31,
            ob_deposits = \<lparr>deposit_reserve = 40, deposited_amount = n\<rparr>
              # replicate 7 \<lparr>deposit_reserve = default_key, deposited_amount = 0\<rparr>\<rparr>)),
     ch_drift_market = (\<lambda>k w. Inr ref_drift_market),
     ch_drift_user = (\<lambda>k w. bindR (read_u64 (rw_position w k)) (\<lambda>n.
       Inr \<lparr>du_authority = 31, du_delegate = 0, spot_positions = ref_spot n # replicate 7 (ref_spot 0),
            sub_account_id = 0, du_status = UserActive\<rparr>)),
     ch_solend_reserve = (\<lambda>k w. Inr ref_solend_reserve)\<rparr>"

lemma ref_chain_simps [simp]:
  "ch_call ref_chain = ref_call" "ch_call_ix ref_chain ix s = ref_call_ix ix" "ch_transfer ref_chain = ref_transfer"
  "ch_amount ref_chain k w = read_u64 (rw_tokens w k)"
  "ch_kamino_reserve ref_chain k w = Inr ref_kamino_reserve"
  "ch_drift_market ref_chain k w = Inr ref_drift_market"
  "ch_solend_reserve ref_chain k w = Inr ref_solend_reserve"
  by (simp_all add: ref_chain_def)

lemma read_u64_eq: "read_u64 n = Inr m \<longleftrightarrow> m = n \<and> n \<le> u64_max"
  by (auto simp: read_u64_def)

lemma to_le_bytes: "x \<in> set (to_le k n) \<Longrightarrow> x < 256"
  by (induction k n rule: to_le.induct) auto

lemma ref_transfer_frame: "ref_transfer t w = Inr w' \<Longrightarrow> rw_position w' = rw_position w"
  by (auto simp: ref_transfer_def Let_def split: if_splits)

interpretation ref_chain: lending_chain fx_ref ref_chain
proof unfold_locales
  fix k w ob d
  assume "ch_kamino_obligation ref_chain k w = Inr ob" "d \<in> set (ob_deposits ob)"
  then show "deposited_amount d \<le> u64_max"
    by (auto simp: ref_chain_def read_u64_eq elim!: bindR_InrE)
next
  fix k w u p
  assume "ch_drift_user ref_chain k w = Inr u" "p \<in> set (spot_positions u)"
  then show "scaled_balance p \<le> u64_max"
    by (auto simp: ref_chain_def read_u64_eq ref_spot_def elim!: bindR_InrE)
next
  fix k w owner bytes x
  assume "ch_data ref_chain k w = Inr (owner, bytes)" "x \<in> set bytes"
  then show "x < 256"
    by (auto simp: ref_chain_def read_u64_eq dest: to_le_bytes elim!: bindR_InrE)
next
  fix c :: Cpi and k w w'
  assume "cpi_instruction c = ''update_spot_market_cumulative_interest''" "ch_call ref_chain c w = Inr w'"
  then show "ch_drift_user ref_chain k w' = ch_drift_user ref_chain k w"
    by (simp add: ref_call_def)
qed (auto simp: ref_chain_def ref_transfer_frame)

end
