(* ===== verification/TxProps.thy ===== *)
theory TxProps
  imports FlashloanTx RiskProps RefChain
begin

text \<open>
  The properties of a whole transaction: what the position checks accept, that reading the
  instructions ends, and that no account leaves a transaction inside a flash loan.
\<close>

text \<open>The check that a start instruction is the first one accepts exactly the transactions whose
  instructions, those of the compute budget program apart, are some allowed ones, one start
  instruction, and then anything but another start instruction, each with at least eight bytes of
  data.\<close>

theorem validate_ix_first_decides:
  "validate_ix_first compute_budget_key ixs pid hash allowed = Inr ()
     \<longleftrightarrow> first_spec compute_budget_key ixs pid hash allowed"
  by (rule validate_ix_first_iff)

text \<open>Reading the instructions of a transaction always ends: with all of them in order when each
  is of an allowed program, with \<open>ForbiddenIx\<close> otherwise.\<close>

theorem load_instructions_total:
  assumes "instruction_at tx = list_sysvar ixs"
  shows "load_loop (instruction_at tx) allowed 0 [] \<noteq> None
    \<and> load_and_validate_instructions tx allowed =
        (if \<exists>keys. allowed = Some keys \<and> \<not> program_id ` set ixs \<subseteq> set keys
         then Inl (Err ForbiddenIx) else Inr ixs)"
  using load_loop_list [of ixs "[]" ixs allowed] load_and_validate_instructions_list [OF assms, of allowed]
  by (cases allowed) (auto simp: assms)

definition sample_end_ix :: Instruction where
  "sample_end_ix = \<lparr>program_id = 50,
     ix_accounts = [\<lparr>am_pubkey = 60, am_is_signer = False, am_is_writable = True\<rparr>,
                    \<lparr>am_pubkey = 5, am_is_signer = True, am_is_writable = False\<rparr>],
     ix_data = END_FLASHLOAN\<rparr>"

definition sample_start_ix :: Instruction where
  "sample_start_ix = sample_end_ix\<lparr>ix_data := START_FLASHLOAN @ to_le 8 2\<rparr>"

definition sample_borrow_ix :: Instruction where
  "sample_borrow_ix = sample_end_ix\<lparr>ix_data := [4, 126, 116, 53, 48, 5, 212, 31] @ to_le 8 1000\<rparr>"

theorem load_instructions_total_witness:
  "load_and_validate_instructions (top_level [sample_start_ix, sample_end_ix] 0) (Some [50])
     = Inr [sample_start_ix, sample_end_ix]"
  using load_instructions_total [of "top_level [sample_start_ix, sample_end_ix] 0"
      "[sample_start_ix, sample_end_ix]" "Some [50]"]
  by (simp add: top_level_def sample_start_ix_def sample_end_ix_def)

text \<open>C11: No account leaves a transaction inside a flash loan. If none was in one before a transaction
  and all its instructions succeed, whatever its other instructions call, flash loans and receivership
  included, none is in one after it; and a loan is only ever started by a start instruction of the
  transaction itself, for this account, with an end instruction for it further on.\<close>

theorem flashloan_always_closed:
  assumes "loan_run fx ch pk ixs (length ixs) w w'" and "on_loan (fst w) = {}"
  shows "on_loan (fst w') = {}
    \<and> (\<forall>i v v' k. loan_step fx ch pk ixs i v v' \<and> k \<in> on_loan (fst v') \<and> k \<notin> on_loan (fst v) \<longrightarrow>
         is_start_for (MARGINFI_ID pk) k (ixs ! i)
         \<and> (\<exists>j. i < j \<and> j < length ixs \<and> is_end_for (MARGINFI_ID pk) k (ixs ! j)))"
proof
  show "on_loan (fst w') = {}" using loan_run_end_ahead [OF assms] by fastforce
qed (use loan_step_starts in blast)

definition sample_user :: MarginfiAccount where
  "sample_user = account_initialize 2 5 100 MarginfiAccount_zeroed"

lemmas account_eval = acc_get_flag_def acc_set_flag_def acc_unset_flag_def account_flag_defs
  account_initialize_def MarginfiAccount_zeroed_def

lemmas tx_eval = is_ix_def discrim_def START_FLASHLOAN_def END_FLASHLOAN_def top_level_def list_sysvar_def
  lending_account_start_flashloan_def lending_account_end_flashloan_def
  check_flashloan_can_start_def validate_not_cpi_with_sysvar_def
  validate_not_cpi_by_stack_height_def check_def from_le_to_le

text \<open>A flash loan around an instruction that does nothing.\<close>

definition sample_tx :: "Instruction list" where
  "sample_tx = [sample_start_ix, sample_borrow_ix, sample_end_ix]"

definition loan_keys :: program_keys where
  "loan_keys = \<lparr>COMPUTE_PROGRAM_KEY = 70, MARGINFI_ID = 50, KAMINO_ID = 71, DRIFT_ID = 72, JUP_KEY = 73,
     TITAN_KEY = 74, ASSOCIATED_TOKEN_KEY = 75, REFRESH_RESERVE = [1], REFRESH_OBLIGATION = [2],
     UPDATE_CUMULATIVE_INTEREST = [3]\<rparr>"

lemmas sample_tx_defs = sample_tx_def sample_start_ix_def sample_borrow_ix_def sample_end_ix_def loan_keys_def

lemma sample_loan_starts:
  "lending_account_start_flashloan (MARGINFI_ID loan_keys) 5 60 sample_user (top_level sample_tx 0)
     (end_index_arg (sample_tx ! 0)) = Inr (acc_set_flag ACCOUNT_IN_FLASHLOAN sample_user)"
  by (simp add: tx_eval sample_tx_defs end_index_arg_def sample_user_def account_eval flag_eval)

lemma sample_loan_ends:
  "lending_account_end_flashloan 5 (acc_set_flag ACCOUNT_IN_FLASHLOAN sample_user) (top_level sample_tx 2)
     (init_health_of fx_ref lib load_bank clock []) = Inr sample_user"
  by (simp add: tx_eval sample_user_def account_eval flag_eval Let_def init_health_of_def
      check_account_init_health_def new_no_flashloan_check_def load_accounts_def
      reconcile_emode_configs_def check_account_health_def get_account_health_components_def
      check_account_risk_tiers_def)

lemma sample_tx_run:
  "loan_run fx_ref ref_chain loan_keys sample_tx 3 ([60 \<mapsto> sample_user], Map.empty) ([60 \<mapsto> sample_user], Map.empty)"
proof -
  let ?step = "loan_step fx_ref ref_chain loan_keys sample_tx"
  let ?w = "([60 \<mapsto> sample_user], Map.empty) :: world"
  let ?v = "([60 \<mapsto> sample_user, 60 \<mapsto> acc_set_flag ACCOUNT_IN_FLASHLOAN sample_user], Map.empty) :: world"
  let ?u = "([60 \<mapsto> sample_user, 60 \<mapsto> acc_set_flag ACCOUNT_IN_FLASHLOAN sample_user, 60 \<mapsto> sample_user], Map.empty) :: world"
  have s0: "?step 0 ?w ?v"
    by (rule loan_step.start_flashloan [OF _ _ _ sample_loan_starts])
      (simp_all add: tx_eval sample_tx_defs first_accounts_def)
  have s1: "?step 1 ?v ?v"
    by (rule loan_step.other) (simp_all add: tx_eval sample_tx_defs)
  have s2: "?step 2 ?v ?u"
    by (rule loan_step.end_flashloan [where env = "undefined\<lparr>e_fx := fx_ref\<rparr>", OF _ _ _ _ sample_loan_ends])
      (simp_all add: tx_eval sample_tx_defs first_accounts_def)
  have "length sample_tx = 3" by (simp add: sample_tx_def)
  note next_ix = loan_run.next_ix [where ixs = sample_tx, unfolded this]
  have "loan_run fx_ref ref_chain loan_keys sample_tx 1 ?w ?v"
    using next_ix [OF loan_run.begins _ s0] by simp
  from next_ix [OF this _ s1] have "loan_run fx_ref ref_chain loan_keys sample_tx 2 ?w ?v"
    by (simp add: numeral_2_eq_2)
  from next_ix [OF this _ s2] show ?thesis by (simp add: numeral_3_eq_3 numeral_2_eq_2)
qed

theorem flashloan_always_closed_witness:
  "\<exists>w. loan_run fx_ref ref_chain loan_keys sample_tx 3 ([60 \<mapsto> sample_user], Map.empty) w \<and> on_loan (fst w) = {}"
proof -
  have "length sample_tx = 3" by (simp add: sample_tx_def)
  moreover have "on_loan (fst ([60 \<mapsto> sample_user], Map.empty)) = {}"
    by (auto simp: flagged_def sample_user_def account_eval flag_eval split: if_splits)
  ultimately show ?thesis
    using flashloan_always_closed [of fx_ref ref_chain loan_keys sample_tx] sample_tx_run by metis
qed

text \<open>C12: A flash loan can only be ended on a healthy account: a successful end is the authority's, clears
  the flag, and the oracles and banks it was given load into a risk engine that holds every active
  balance, values every one of them, and finds the initial-weighted debts covered by the
  initial-weighted assets and an isolated debt only alone.\<close>

theorem flashloan_ends_healthy:
  assumes "fixed_arith fx"
    and "lending_account_end_flashloan signer a tx (init_health_of fx lib load_bank clock ais) = Inr a'"
  shows "\<not> in_flashloan a' \<and> authority a = signer \<and>
    (\<exists>e. new_no_flashloan_check fx lib load_bank clock a' ais = Inr e \<and> covered fx lib e)"
proof -
  have "\<not> in_flashloan a'" and h: "init_health_of fx lib load_bank clock ais a' = Inr ()"
    using end_clears [OF assms(2)] by auto
  moreover have "authority a = signer"
    using assms(2) by (auto simp: lending_account_end_flashloan_def check_True elim!: bindR_InrE)
  ultimately show ?thesis
    using init_health_ok [OF assms(1) h] by blast
qed

lemma sample_end:
  "lending_account_end_flashloan 5 (acc_set_flag ACCOUNT_IN_FLASHLOAN sample_borrower)
     (top_level sample_tx 2) (init_health_of fx_ref lib sample_load_bank clock sample_ais)
     = Inr sample_borrower"
proof -
  have "init_health_of fx_ref lib sample_load_bank clock sample_ais sample_borrower = Inr ()"
    by (simp add: init_health_of_def check_account_init_health_def sample_engine_loads sample_healthy)
  moreover have "acc_unset_flag ACCOUNT_IN_FLASHLOAN (acc_set_flag ACCOUNT_IN_FLASHLOAN sample_borrower)
      = sample_borrower"
    by (simp add: sample_borrower_def account_eval flag_eval)
  ultimately show ?thesis
    by (simp add: lending_account_end_flashloan_def top_level_def validate_not_cpi_by_stack_height_def
        check_def Let_def)
      (simp add: sample_borrower_def account_eval flag_eval)
qed

theorem flashloan_ends_healthy_witness:
  "\<not> in_flashloan sample_borrower
   \<and> (\<forall>lib clock. \<exists>e. new_no_flashloan_check fx_ref lib sample_load_bank clock sample_borrower sample_ais = Inr e)"
  using flashloan_ends_healthy [OF ref.fixed_arith_axioms sample_end] by blast

end
