(* ===== verification/GroupProps.thy ===== *)
theory GroupProps
  imports GroupIx Samples
begin

text \<open>
  The properties of the protocol pause as a group sees it: the group works on its own cached copy
  of the pause, which only changes when somebody propagates it.
\<close>

text \<open>C23: A group that caches the pause agrees with the global state at any later time: what the
  instructions of a group see after a propagation is exactly the pause of the fee state.\<close>

theorem propagated_pause_agrees:
  assumes "propagate_fee now fs g = Inr g'"
  shows "is_protocol_paused g' t =
    bindR (is_expired (panic_state fs) t) (\<lambda>expired. Inr (is_paused_flag (panic_state fs) \<and> \<not> expired))"
proof -
  note c = propagated_cache [OF assms]
  show ?thesis
    by (auto simp: is_protocol_paused_def c cache_matches_state is_expired_def)
qed

definition sample_fee_state :: FeeState where
  "sample_fee_state = initialize_fee_state 1 255 9 8 0 0 0 0 0"

definition sample_new_group :: MarginfiGroup where
  "sample_new_group = (set_program_fee_enabled True MarginfiGroup_zeroed)
     \<lparr>admin := 5, emode_max_init_leverage := 644245094, emode_max_maint_leverage := 858993458,
      fee_state_cache := \<lparr>global_fee_wallet_cached = 8, fsc_program_fee_fixed = 0,
        fsc_program_fee_rate = 0, fsc_last_update = 100000\<rparr>\<rparr>"

theorem propagated_pause_agrees_witness:
  "is_protocol_paused (sample_new_group\<lparr>fee_state_cache := copy_fees sample_fee_state 100 (fee_state_cache sample_new_group),
     panic_state_cache := update_from_panic_state (panic_state sample_fee_state) 100
       (panic_state_cache sample_new_group)\<rparr>) 200 = Inr False"
proof -
  have "propagate_fee 100 sample_fee_state sample_new_group = Inr (sample_new_group
    \<lparr>fee_state_cache := copy_fees sample_fee_state 100 (fee_state_cache sample_new_group),
     panic_state_cache := update_from_panic_state (panic_state sample_fee_state) 100
       (panic_state_cache sample_new_group)\<rparr>)"
    by (simp add: propagate_fee_def Let_def cache_matches_state sample_fee_state_def
        initialize_fee_state_def PanicState_default_def is_paused_flag_def flag_eval)
  from propagated_pause_agrees [OF this, of 200] show ?thesis
    by (simp add: sample_fee_state_def initialize_fee_state_def PanicState_default_def
        is_paused_flag_def is_expired_def flag_eval)
qed

lemma sample_reach: "sys_reach sample_fee_state sample_new_group 100000"
proof (rule sys_reach.init)
  show "sample_fee_state = initialize_fee_state 1 255 9 8 0 0 0 0 0" by (rule sample_fee_state_def)
  show "initialize_group fx_ref 5 100000 sample_fee_state = Inr sample_new_group"
    by (simp add: initialize_group_def set_initial_configuration_def basis_to_u32_def scale_to_u32_def
        sample_new_group_def copy_fees_def sample_fee_state_def initialize_fee_state_def
        DEFAULT_INIT_MAX_EMODE_LEVERAGE_def DEFAULT_MAINT_MAX_EMODE_LEVERAGE_def
        set_program_fee_enabled_def MarginfiGroup_zeroed_def fx_eval)
qed (simp_all add: CLOCK_LIMIT_def)

text \<open>C25: No group stays paused for long unless somebody pauses again: from every reachable state of the
  fee state and the group, whatever other instructions run on both (propagations and unpauses
  included, or none at all), an hour later the group is not paused; and asking whether it is paused
  never panics.\<close>

theorem group_pause_expires:
  assumes "sys_reach fs g now" and "calm_run fs g now fs' g' now'" and "now' \<le> t" and "t \<le> CLOCK_LIMIT"
  shows "\<exists>b. is_protocol_paused g' t = Inr b \<and> (now + 3600 \<le> t \<longrightarrow> \<not> b)"
proof -
  note inv = sys_reach_inv [OF assms(1)]
  have after: "sys_inv fs' g' now'" "ends_by (now + 2 * PAUSE_DURATION_SECONDS) fs' g'"
    using calm_run_ends [OF assms(2) inv sys_inv_ends [OF inv]] by auto
  then have "cache_inv (panic_state_cache g') now'" "0 \<le> now'" by (auto simp: sys_inv_def)
  note cache_inv_expired [OF this assms(3,4)]
  moreover have "\<not> (pc_is_paused_flag (panic_state_cache g')
      \<and> t < pc_pause_start_timestamp (panic_state_cache g') + PAUSE_DURATION_SECONDS)"
    if "now + 3600 \<le> t"
    using that after(2) by (auto simp: ends_by_def PAUSE_DURATION_SECONDS_def)
  ultimately show ?thesis by blast
qed

definition sample_paused_fs :: FeeState where
  "sample_paused_fs = sample_fee_state\<lparr>panic_state := PanicState_default\<lparr>pause_flags := 1,
     pause_start_timestamp := 100000, daily_pause_count := 1, consecutive_pause_count := 1,
     last_daily_reset_timestamp := 100000\<rparr>\<rparr>"

definition sample_paused_group :: MarginfiGroup where
  "sample_paused_group = sample_new_group
    \<lparr>fee_state_cache := copy_fees sample_paused_fs 100000 (fee_state_cache sample_new_group),
     panic_state_cache := update_from_panic_state (panic_state sample_paused_fs) 100000
       (panic_state_cache sample_new_group)\<rparr>"

lemma sample_paused_reach: "sys_reach sample_paused_fs sample_paused_group 100000"
proof -
  have "panic_pause 9 100000 sample_fee_state = Inr sample_paused_fs"
    by (simp add: panic_pause_def fee_admin_only_def check_def sample_paused_fs_def sample_fee_state_def
        initialize_fee_state_def PanicState_default_def pause_def unpause_if_expired_def
        is_paused_flag_def flag_eval daily_reset_def can_pause_def begin_or_extend_def
        panic_consts fx_eval)
  then have "sys_reach sample_paused_fs sample_new_group 100000"
    by (rule sys_reach.step [OF sample_reach sys_step.panic_on])
  moreover have "propagate_fee 100000 sample_paused_fs sample_new_group = Inr sample_paused_group"
    by (simp add: propagate_fee_def sample_paused_group_def Let_def cache_matches_state)
      (simp add: sample_paused_fs_def is_paused_flag_def flag_eval is_expired_def i64_op_def
        in_i64_def panic_consts)
  ultimately show ?thesis by (rule sys_reach.step [OF _ sys_step.calm [OF calm_step.propagate]])
qed

text \<open>The pause is propagated to the group once more half an hour later.\<close>

lemma sample_propagated_again:
  "\<exists>g'. calm_run sample_paused_fs sample_paused_group 100000 sample_paused_fs g' 101700"
proof -
  have "calm_run sample_paused_fs sample_paused_group 100000 sample_paused_fs sample_paused_group 101700"
    by (rule calm_run.go [OF calm_run.stay calm_step.tick]) (simp_all add: CLOCK_LIMIT_def)
  moreover have "\<exists>g'. propagate_fee 101700 sample_paused_fs sample_paused_group = Inr g'"
    by (simp add: propagate_fee_def Let_def cache_matches_state)
      (simp add: sample_paused_fs_def is_paused_flag_def flag_eval is_expired_def i64_op_def
        in_i64_def panic_consts)
  ultimately show ?thesis by (blast intro: calm_run.go calm_step.propagate)
qed

theorem group_pause_expires_witness:
  "is_protocol_paused sample_paused_group 100000 = Inr True
   \<and> (\<exists>g'. calm_run sample_paused_fs sample_paused_group 100000 sample_paused_fs g' 101700
        \<and> is_protocol_paused g' 103600 = Inr False)"
proof
  show "is_protocol_paused sample_paused_group 100000 = Inr True"
    by (simp add: is_protocol_paused_def sample_paused_group_def cache_matches_state)
      (simp add: sample_paused_fs_def is_paused_flag_def flag_eval is_expired_def i64_op_def in_i64_def
        panic_consts)
  obtain g' where r: "calm_run sample_paused_fs sample_paused_group 100000 sample_paused_fs g' 101700"
    using sample_propagated_again by blast
  have "is_protocol_paused g' 103600 = Inr False"
    using group_pause_expires [OF sample_paused_reach r, of 103600] by (auto simp: CLOCK_LIMIT_def)
  with r show "\<exists>g'. calm_run sample_paused_fs sample_paused_group 100000 sample_paused_fs g' 101700
        \<and> is_protocol_paused g' 103600 = Inr False" by blast
qed

end
