(* ===== verification/BankIxProps.thy ===== *)
theory BankIxProps
  imports BankIx Samples
begin

text \<open>
  The properties of the administrative instructions on a bank: what collecting fees pays, what a
  frozen bank keeps, and where e-mode and staked settings escape validation.
\<close>

section \<open>Fees\<close>

text \<open>C38: Collecting the fees of a bank pays exactly what is due to exactly whom: out of the liquidity
  vault, first the whole units of insurance fees go to the insurance vault, then those of the group's
  fees to the fee vault and then those of the program's fees to the token account of the global fee
  wallet for the bank's mint, each as far as the vault still holds them; what was paid is no longer
  outstanding, and nothing else of the bank changes.\<close>

theorem collect_fees_exact:
  assumes "fixed_arith fx"
    and "lending_pool_collect_bank_fees fx ata parse_mint now group_key g fs tp ais fa b = Inr (b', ts)"
    and "0 \<le> collected_insurance_fees_outstanding b" "0 \<le> collected_group_fees_outstanding b"
        "0 \<le> collected_program_fees_outstanding b"
    and "fa_liquidity_amount fa \<le> u64_max"
  shows "let available = fa_liquidity_amount fa;
             insurance = min (nat (collected_insurance_fees_outstanding b div ONE)) available;
             grp = min (nat (collected_group_fees_outstanding b div ONE)) (available - insurance);
             program = min (nat (collected_program_fees_outstanding b div ONE)) (available - insurance - grp);
             pay = (\<lambda>n dst. \<lparr>tr_from = fa_liquidity_vault fa, tr_to = dst,
                      tr_authority = fa_liquidity_vault_authority fa, tr_amount = n\<rparr>)
         in ts = [pay grp (fa_fee_vault fa), pay insurance (fa_insurance_vault fa), pay program (fa_fee_ata fa)]
          \<and> fa_fee_ata fa = ata (global_fee_wallet fs) (mint b) tp
          \<and> b' = b\<lparr>collected_insurance_fees_outstanding := collected_insurance_fees_outstanding b - int insurance * ONE,
                    collected_group_fees_outstanding := collected_group_fees_outstanding b - int grp * ONE,
                    collected_program_fees_outstanding := collected_program_fees_outstanding b - int program * ONE\<rparr>"
proof -
  let ?n = "fa_liquidity_amount fa"
  define i where "i = min (nat (collected_insurance_fees_outstanding b div ONE)) ?n"
  define g where "g = min (nat (collected_group_fees_outstanding b div ONE)) (?n - i)"
  define p where "p = min (nat (collected_program_fees_outstanding b div ONE)) (?n - i - g)"
  obtain ins ins_rest left1 grp grp_rest left2 prg prg_rest left3 ins_n grp_n prg_n where
    t: "take_fee fx (collected_insurance_fees_outstanding b) (int ?n * ONE) = Inr (ins, ins_rest, left1)"
      "take_fee fx (collected_group_fees_outstanding b) left1 = Inr (grp, grp_rest, left2)"
      "take_fee fx (collected_program_fees_outstanding b) left2 = Inr (prg, prg_rest, left3)"
    and n: "checked_to_u64 fx ins = Some ins_n" "checked_to_u64 fx grp = Some grp_n"
      "checked_to_u64 fx prg = Some prg_n"
    and r: "ts = [withdraw_spl_transfer grp_n (fa_liquidity_vault fa) (fa_fee_vault fa) (fa_liquidity_vault_authority fa),
        withdraw_spl_transfer ins_n (fa_liquidity_vault fa) (fa_insurance_vault fa) (fa_liquidity_vault_authority fa),
        withdraw_spl_transfer prg_n (fa_liquidity_vault fa) (fa_fee_ata fa) (fa_liquidity_vault_authority fa)]"
      "b' = b\<lparr>collected_insurance_fees_outstanding := ins_rest,
          collected_group_fees_outstanding := grp_rest, collected_program_fees_outstanding := prg_rest\<rparr>"
      "fa_fee_ata fa = ata (global_fee_wallet fs) (mint b) tp"
    using assms(2)
    by (auto simp: lending_pool_collect_bank_fees_def Let_def fixed_arith.from_num_u64 [OF assms(1,6)] res_simps
        elim!: bindR_InrE split: if_splits prod.splits)
  note I = fixed_arith.take_fee_units [OF assms(1) t(1) assms(3) i_def]
  note G = fixed_arith.take_fee_units [OF assms(1) t(2) [unfolded I(3)] assms(4) g_def]
  note P = fixed_arith.take_fee_units [OF assms(1) t(3) [unfolded G(3)] assms(5) p_def]
  have units: "m = k" if "checked_to_u64 fx (int k * ONE) = Some m" for m k
    using fixed_arith.to_u64_SomeD [OF assms(1) that] by simp
  have "ins_n = i" "grp_n = g" "prg_n = p"
    using units n unfolding I(1) G(1) P(1) by blast+
  then show ?thesis
    unfolding Let_def i_def [symmetric] g_def [symmetric] p_def [symmetric] r(1,2) I(2) G(2) P(2)
    using r(3) by (simp add: withdraw_spl_transfer_def)
qed

definition sample_fee_bank :: Bank where
  "sample_fee_bank = sample_bank\<lparr>collected_insurance_fees_outstanding := 3 * ONE + ONE div 2,
     collected_group_fees_outstanding := ONE + ONE div 4, collected_program_fees_outstanding := 2 * ONE\<rparr>"

definition sample_fee_accounts :: fee_accounts where
  "sample_fee_accounts = \<lparr>fa_liquidity_vault = 3, fa_liquidity_vault_authority = 13, fa_liquidity_amount = 5,
     fa_insurance_vault = 4, fa_insurance_vault_authority = 14, fa_fee_vault = 5,
     fa_fee_vault_authority = 15, fa_fee_vault_amount = 0, fa_fee_ata = 21\<rparr>"

definition sample_fs :: FeeState where
  "sample_fs = initialize_fee_state 1 255 9 8 0 0 0 0 0"

lemma sample_collect:
  "lending_pool_collect_bank_fees fx_ref (\<lambda>w m t. 21) (\<lambda>_. None) 100 1 sample_group sample_fs Tokenkeg []
     sample_fee_accounts sample_fee_bank
   = Inr (sample_fee_bank\<lparr>collected_insurance_fees_outstanding := ONE div 2,
        collected_group_fees_outstanding := ONE div 4, collected_program_fees_outstanding := ONE\<rparr>,
       [\<lparr>tr_from = 3, tr_to = 5, tr_authority = 13, tr_amount = 1\<rparr>,
        \<lparr>tr_from = 3, tr_to = 4, tr_authority = 13, tr_amount = 3\<rparr>,
        \<lparr>tr_from = 3, tr_to = 21, tr_authority = 13, tr_amount = 1\<rparr>])"
  by (simp add: lending_pool_collect_bank_fees_def not_paused_def is_protocol_paused_def
      pc_is_paused_flag_def flag_eval bank_in_group_def check_def maybe_take_bank_mint_def take_fee_def
      fx_int_def withdraw_spl_transfer_def sample_fee_bank_def sample_fee_accounts_def sample_defs fx_eval)

theorem collect_fees_exact_witness:
  "min (nat (collected_insurance_fees_outstanding sample_fee_bank div ONE)) 5 = 3
   \<and> min (nat (collected_group_fees_outstanding sample_fee_bank div ONE)) 2 = 1"
proof -
  have "0 \<le> collected_insurance_fees_outstanding sample_fee_bank" "0 \<le> collected_group_fees_outstanding sample_fee_bank"
    "0 \<le> collected_program_fees_outstanding sample_fee_bank" "fa_liquidity_amount sample_fee_accounts \<le> u64_max"
    by (simp_all add: sample_fee_bank_def sample_fee_accounts_def u64_max_def ONE_def)
  note paid = collect_fees_exact [OF ref.fixed_arith_axioms sample_collect this, unfolded Let_def, THEN conjunct1]
  then have "min (nat (collected_insurance_fees_outstanding sample_fee_bank div ONE)) 5 = 3"
    by (simp add: sample_fee_accounts_def)
  with paid show ?thesis by (simp add: sample_fee_accounts_def)
qed

section \<open>Frozen banks\<close>

lemma frozen_steps:
  assumes "bank_get_flag b FREEZE_SETTINGS"
  shows "lending_pool_configure_bank fx signer key g oc b = Inr b' \<Longrightarrow> b' = configure_unfrozen_fields_only oc b"
    and "lending_pool_configure_bank_interest_only signer key g ir b = Inr b' \<Longrightarrow> b' = b"
    and "lending_pool_configure_bank_limits_only signer key g dep bor lim b = Inr b' \<Longrightarrow>
      b' = b\<lparr>config := (config b)\<lparr>deposit_limit := set_if_some dep (deposit_limit (config b)),
        borrow_limit := set_if_some bor (borrow_limit (config b))\<rparr>\<rparr>"
    and "lending_pool_configure_bank_oracle lib sk signer key g ais setup oracle b \<noteq> Inr b'"
    and "lending_pool_set_fixed_oracle_price lib sk signer key g price b \<noteq> Inr b'"
  using assms
  by (simp_all add: lending_pool_configure_bank_def lending_pool_configure_bank_interest_only_def
      lending_pool_configure_bank_limits_only_def lending_pool_configure_bank_oracle_def
      lending_pool_set_fixed_oracle_price_def Let_def bindR_eq_Inr)

definition sample_frozen :: Bank where
  "sample_frozen = sample_bank\<lparr>bank_flags := 24, emissions_mint := 77\<rparr>"

lemma sample_frozen_flag: "bank_get_flag sample_frozen FREEZE_SETTINGS"
  by (simp add: sample_frozen_def bank_get_flag_def FREEZE_SETTINGS_def flag_eval)

text \<open>The freeze is not safe from the emissions admin: updating the emissions parameters of a bank
  replaces all of its flags by the given ones, so for every bank whose emissions are set up one
  such update lifts the freeze and every other flag, and the bank can be configured again.\<close>

theorem emissions_update_lifts_freeze:
  assumes "emissions_mint b \<noteq> default_key" and "bank_group b = key"
  shows "lending_pool_update_emissions_parameters fx (delegate_emissions_admin g) key g epoch
      (emissions_mint b) mint_ai funding em_account (Some 0) None None b = Inr (b\<lparr>bank_flags := 0\<rparr>, None)
    \<and> \<not> bank_get_flag (b\<lparr>bank_flags := 0\<rparr>) FREEZE_SETTINGS
    \<and> \<not> verify_emissions_flags FREEZE_SETTINGS"
  using assms
  by (simp add: lending_pool_update_emissions_parameters_def bank_in_group_def check_def set_if_some_def
      bank_get_flag_def flag_get_def verify_emissions_flags_def FREEZE_SETTINGS_def EMISSION_FLAGS_def
      EMISSIONS_FLAG_BORROW_ACTIVE_def EMISSIONS_FLAG_LENDING_ACTIVE_def)

theorem emissions_update_lifts_freeze_witness:
  "bank_get_flag sample_frozen FREEZE_SETTINGS
   \<and> lending_pool_update_emissions_parameters fx 1 1 sample_group epoch 77 mint_ai funding em_account
       (Some 0) None None sample_frozen = Inr (sample_frozen\<lparr>bank_flags := 0\<rparr>, None)"
  using emissions_update_lifts_freeze [of sample_frozen 1 fx sample_group] sample_frozen_flag
  by (simp add: sample_frozen_def sample_defs)

section \<open>E-mode\<close>

text \<open>What the validation of e-mode entries promises of a bank.\<close>

definition emode_sound :: "Bank \<Rightarrow> bool" where
  "emode_sound b \<longleftrightarrow> (\<forall>e \<in> set (entries (emode_config (emode b))). \<not> entry_is_empty e \<longrightarrow>
     e_asset_weight_init e < liability_weight_init (config b)
     \<and> e_asset_weight_maint e < liability_weight_maint (config b))"

lemma configure_emode_sound:
  "lending_pool_configure_bank_emode fx signer key g now tag es b = Inr b' \<Longrightarrow> emode_sound b'"
  "\<not> bank_get_flag b FREEZE_SETTINGS \<Longrightarrow>
     lending_pool_configure_bank fx signer key g oc b = Inr b' \<Longrightarrow> emode_sound b'"
  by (auto simp: lending_pool_configure_bank_emode_def lending_pool_configure_bank_def Let_def
      emode_sound_def update_emode_enabled_def elim!: bindR_InrE dest!: validate_entries_ok(2))

lemma sorted_nonempty_tags:
  "sorted (nonempty_tags \<lparr>entries = sort_key collateral_bank_emode_tag es\<rparr>)"
  unfolding nonempty_tags_def
  by (simp add: sorted_wrt_map) (metis sorted_map sorted_sort_key sorted_wrt_filter)

text \<open>C31: Configuring the e-mode of a bank leaves e-mode settings the risk engine can rely on: no two
  entries for one collateral tag; every entry's weights ordered and below the bank's liability
  weights, so borrowing against itself can never be free; and the leverage that recursive borrowing
  reaches with them within the group's two caps, initially and for maintenance.\<close>

theorem configure_emode_sound_settings:
  assumes "fixed_arith fx"
    and "lending_pool_configure_bank_emode fx signer key g now tag es b = Inr b'"
    and "length es = MAX_EMODE_ENTRIES"
  shows "emode_unique (emode_config (emode b')) \<and> emode_sound b' \<and> emode_admin g = signer
    \<and> (emode_is_enabled (emode b') \<longleftrightarrow> (\<exists>e \<in> set es. \<not> entry_is_empty e))
    \<and> (\<exists>cap_init cap_maint. u32_to_basis fx (emode_max_init_leverage g) = Inr cap_init
         \<and> u32_to_basis fx (emode_max_maint_leverage g) = Inr cap_maint
         \<and> (\<forall>e \<in> set (entries (emode_config (emode b'))). \<not> entry_is_empty e \<longrightarrow>
              0 \<le> e_asset_weight_init e \<and> e_asset_weight_init e \<le> e_asset_weight_maint e
              \<and> leverage_within cap_init (e_asset_weight_init e) (liability_weight_init (config b'))
              \<and> leverage_within cap_maint (e_asset_weight_maint e) (liability_weight_maint (config b'))))"
proof -
  let ?em = "(emode b)\<lparr>emode_tag := tag, emode_timestamp := now,
      emode_config := \<lparr>entries = sort_key collateral_bank_emode_tag es\<rparr>\<rparr>"
  have v: "validate_entries_with_liability_weights fx (config b) (emode_max_init_leverage g)
        (emode_max_maint_leverage g) ?em = Inr ()"
    and b': "b' = b\<lparr>emode := update_emode_enabled ?em\<rparr>" and "emode_admin g = signer"
    using assms(2) by (auto simp: lending_pool_configure_bank_emode_def Let_def res_simps elim!: bindR_InrE)
  moreover have "distinct (nonempty_tags \<lparr>entries = sort_key collateral_bank_emode_tag es\<rparr>)"
    using validate_entries_ok(1) [OF v] adjacent_equal_sorted [OF sorted_nonempty_tags] by simp
  ultimately have unique: "emode_unique (emode_config (emode b')) \<and> emode_sound b' \<and> emode_admin g = signer
      \<and> (emode_is_enabled (emode b') \<longleftrightarrow> (\<exists>e \<in> set es. \<not> entry_is_empty e))"
    using assms(3) configure_emode_sound(1) [OF assms(2)]
    by (auto simp: emode_unique_def update_emode_enabled_def emode_is_enabled_def has_entries_def
        flag_get_put flag_get_clear EMODE_ON_def)
  have same: "config b' = config b" "entries (emode_config (emode b')) = entries (emode_config ?em)"
    by (simp_all add: b' update_emode_enabled_def)
  obtain mi mm where m: "u32_to_basis fx (emode_max_init_leverage g) = Inr mi"
      "u32_to_basis fx (emode_max_maint_leverage g) = Inr mm"
    and each: "\<And>e. e \<in> set (entries (emode_config ?em)) \<Longrightarrow> \<not> entry_is_empty e \<Longrightarrow>
      0 \<le> e_asset_weight_init e \<and> e_asset_weight_init e \<le> e_asset_weight_maint e
      \<and> (\<exists>li lm. calculate_max_leverage fx (e_asset_weight_init e) (liability_weight_init (config b)) = Inr li \<and> li \<le> mi
           \<and> calculate_max_leverage fx (e_asset_weight_maint e) (liability_weight_maint (config b)) = Inr lm \<and> lm \<le> mm)"
    by (rule validate_entries_each [OF v]) (rule that)
  have "0 \<le> e_asset_weight_init e \<and> e_asset_weight_init e \<le> e_asset_weight_maint e
      \<and> leverage_within mi (e_asset_weight_init e) (liability_weight_init (config b'))
      \<and> leverage_within mm (e_asset_weight_maint e) (liability_weight_maint (config b'))"
    if "e \<in> set (entries (emode_config (emode b')))" "\<not> entry_is_empty e" for e
    using each [OF that(1) [unfolded same] that(2)] fixed_arith.max_leverage_within [OF assms(1)]
    unfolding same(1) by (meson order_trans)
  then show ?thesis using unique m by blast
qed

definition sample_entry :: "u16 \<Rightarrow> I80F48 \<Rightarrow> EmodeEntry" where
  "sample_entry t w = \<lparr>collateral_bank_emode_tag = t, entry_flags = 0, e_asset_weight_init = w,
     e_asset_weight_maint = w\<rparr>"

definition sample_emode_group :: MarginfiGroup where
  "sample_emode_group = sample_group\<lparr>emode_max_init_leverage := 644245094,
     emode_max_maint_leverage := 858993458\<rparr>"

lemma sample_emode_entries:
  "sort_key collateral_bank_emode_tag (sample_entry 5 w # replicate 9 EmodeEntry_zeroed)
     = replicate 9 EmodeEntry_zeroed @ [sample_entry 5 w]"
  by (simp add: eval_nat_numeral sample_entry_def EmodeEntry_zeroed_def)

definition sample_emode :: EmodeSettings where
  "sample_emode = EmodeSettings_zeroed\<lparr>emode_tag := 3, emode_timestamp := 100, emode_config :=
     \<lparr>entries = replicate 9 EmodeEntry_zeroed @ [sample_entry 5 (ONE div 2 + ONE div 4)]\<rparr>\<rparr>"

lemma sample_basis:
  "u32_to_basis fx_ref 644245094 = Inr 4222124649021400"
  "u32_to_basis fx_ref 858993458 = Inr 5629499527659500"
  by (simp_all add: u32_to_basis_def u32_ratio_def fx_eval)

lemma sample_entry_valid:
  "validate_entry fx_ref (ONE + ONE div 4) (ONE + ONE div 8) 4222124649021400 5629499527659500
     (sample_entry 5 (ONE div 2 + ONE div 4)) = Inr ()"
  by (simp add: validate_entry_def sample_entry_def entry_is_empty_def EMODE_TAG_EMPTY_def
      calculate_max_leverage_def fx_eval)

lemma sample_emode_valid:
  "validate_entries_with_liability_weights fx_ref (config sample_bank) 644245094 858993458 sample_emode
     = Inr ()"
proof -
  have w: "get_weight (config sample_bank) Initial Liabilities = ONE + ONE div 4"
    "get_weight (config sample_bank) Maintenance Liabilities = ONE + ONE div 8"
    by (simp_all add: get_weight_def sample_defs)
  have "foldR (\<lambda>e _. validate_entry fx_ref (ONE + ONE div 4) (ONE + ONE div 8) 4222124649021400
      5629499527659500 e) (entries (emode_config sample_emode)) () = Inr ()"
    unfolding foldR_check using sample_entry_valid
    by (auto simp: sample_emode_def validate_entry_def)
  moreover have "check_dupes sample_emode = Inr ()"
    by (simp add: check_dupes_def nonempty_tags_def sample_emode_def)
  ultimately show ?thesis
    by (simp add: validate_entries_with_liability_weights_def sample_basis w Let_def)
qed

lemma sample_configure_emode:
  "lending_pool_configure_bank_emode fx_ref 1 1 sample_emode_group 100 3
     (sample_entry 5 (ONE div 2 + ONE div 4) # replicate 9 EmodeEntry_zeroed) sample_bank
     = Inr (sample_bank\<lparr>emode := update_emode_enabled sample_emode\<rparr>)"
proof -
  have "(emode sample_bank)\<lparr>emode_tag := 3, emode_timestamp := 100, emode_config :=
      \<lparr>entries = replicate 9 EmodeEntry_zeroed @ [sample_entry 5 (ONE div 2 + ONE div 4)]\<rparr>\<rparr> = sample_emode"
    by (simp add: sample_emode_def sample_defs)
  moreover have "emode_admin sample_emode_group = 1" "emode_max_init_leverage sample_emode_group = 644245094"
    "emode_max_maint_leverage sample_emode_group = 858993458" "bank_group sample_bank = 1"
    by (simp_all add: sample_emode_group_def sample_defs)
  ultimately show ?thesis
    unfolding lending_pool_configure_bank_emode_def sample_emode_entries
    by (simp add: check_def bank_in_group_def sample_emode_valid Let_def)
qed

theorem configure_emode_sound_settings_witness:
  "emode_is_enabled (update_emode_enabled sample_emode)"
  using configure_emode_sound_settings [OF ref.fixed_arith_axioms sample_configure_emode]
  by (simp add: MAX_EMODE_ENTRIES_def) (simp add: sample_entry_def entry_is_empty_def EMODE_TAG_EMPTY_def)

text \<open>Cloning e-mode settings escapes this validation: there are two banks of one group, both with
  sound e-mode settings, such that cloning from the one to the other succeeds and leaves an entry
  whose weights are not below the destination's liability weights.\<close>

theorem clone_emode_unsound:
  "\<exists>src dst dst'. emode_sound src \<and> emode_sound dst
     \<and> lending_pool_clone_emode 1 1 sample_group src dst = Inr dst' \<and> \<not> emode_sound dst'"
proof (intro exI conjI)
  let ?em = "\<lparr>emode_tag = 3, emode_timestamp = 100, emode_flags = EMODE_ON,
      emode_config = \<lparr>entries = [sample_entry 5 (ONE + ONE div 16)]\<rparr>\<rparr>"
  let ?src = "sample_bank\<lparr>emode := ?em\<rparr>"
  let ?dst = "sample_bank\<lparr>config := (config sample_bank)
      \<lparr>liability_weight_init := ONE, liability_weight_maint := ONE\<rparr>\<rparr>"
  show "emode_sound ?src"
    by (simp add: emode_sound_def sample_entry_def sample_defs ONE_def)
  show "emode_sound ?dst"
    by (simp add: emode_sound_def sample_defs EmodeSettings_zeroed_def EmodeConfig_zeroed_def)
  show "lending_pool_clone_emode 1 1 sample_group ?src ?dst = Inr (?dst\<lparr>emode := ?em\<rparr>)"
    by (simp add: lending_pool_clone_emode_def bank_in_group_def check_def sample_defs)
  show "\<not> emode_sound (?dst\<lparr>emode := ?em\<rparr>)"
    by (simp add: emode_sound_def sample_entry_def entry_is_empty_def EMODE_TAG_EMPTY_def ONE_def)
qed

section \<open>Staked settings\<close>

text \<open>Validated staked settings can be propagated to a valid staked bank with the same oracle exactly
  when their oracle age is at least the minimum of a bank: the validation of staked settings, meant
  to be that of a bank, lacks this one check, so settings can be stored that no bank accepts.\<close>

theorem staked_settings_propagate_iff:
  assumes "staked_validate s = Inr ()" and "config_validate (config b) = Inr ()"
    and "bank_group b = ss_group s" and "asset_tag (config b) = ASSET_TAG_STAKED"
    and "oracle_key (config b) 0 = Inr (ss_oracle s)"
  shows "(\<exists>b'. propagate_staked_settings lib sk (ss_group s) ais s b = Inr b')
     \<longleftrightarrow> ORACLE_MIN_AGE \<le> ss_oracle_max_age s"
  using assms
  by (auto simp: propagate_staked_settings_def check_def constraint_def bindR_eq_Inr config_validate_iff
      weights_spec_def set_oracle_key_def staked_validate_def Let_def split: if_splits)

definition sample_staked :: StakedSettings where
  "sample_staked = \<lparr>ss_key = 30, ss_group = 1, ss_oracle = 40, ss_asset_weight_init = ONE div 2,
     ss_asset_weight_maint = ONE div 2, ss_deposit_limit = 1000, ss_total_asset_value_init_limit = 0,
     ss_oracle_max_age = 0, ss_risk_tier = Collateral\<rparr>"

theorem staked_settings_propagate_iff_witness:
  "\<forall>lib sk ais. \<not> (\<exists>b'. propagate_staked_settings lib sk 1 ais sample_staked (sample_bank\<lparr>config := (config sample_bank)
      \<lparr>asset_tag := ASSET_TAG_STAKED, oracle_keys := [40, 0, 0, 0, 0]\<rparr>\<rparr>) = Inr b')"
proof -
  let ?b = "sample_bank\<lparr>config := (config sample_bank)
      \<lparr>asset_tag := ASSET_TAG_STAKED, oracle_keys := [40, 0, 0, 0, 0]\<rparr>\<rparr>"
  have "config_validate (config ?b) = Inr ()"
    by (simp add: config_validate_def sample_defs ir_validate_def validate_seven_point_def
        INTEREST_CURVE_LEGACY_def INTEREST_CURVE_SEVEN_POINT_def CURVE_POINTS_def ORACLE_MIN_AGE_def
        fx_eval)
  moreover have "staked_validate sample_staked = Inr ()"
    by (simp add: staked_validate_def sample_staked_def check_def ONE_def)
  moreover have "bank_group ?b = ss_group sample_staked" by (simp add: sample_defs sample_staked_def)
  ultimately show ?thesis
    using staked_settings_propagate_iff [of sample_staked ?b]
    by (simp add: sample_staked_def oracle_key_def ORACLE_MIN_AGE_def)
qed

end
