(* ===== verification/EmodeProps.thy ===== *)
theory EmodeProps
  imports Emode Reserves Samples
begin

text \<open>
  The properties of e-mode reconciliation, and of the conversions between the tokens of a bank and
  the shares of the lending protocols it integrates.
\<close>

text \<open>C32: Reconciling e-mode configurations without duplicate tags never fails and computes their
  intersection: a tag is in the result exactly when it is in every configuration, with the least of
  their flags and weights.\<close>

theorem reconcile_is_intersection:
  assumes "\<forall>c \<in> set cs. emode_unique c"
  shows "\<exists>r. reconcile_emode_configs cs = Inr r \<and> emode_unique r
    \<and> (\<forall>t. find_with_tag r t = emode_intersection cs t)"
  using reconcile_intersection [OF assms] by blast

definition tag_config :: "(u16 \<times> I80F48) list \<Rightarrow> EmodeConfig" where
  "tag_config l = \<lparr>entries = map (\<lambda>(t, w). \<lparr>collateral_bank_emode_tag = t, entry_flags = 0,
     e_asset_weight_init = w, e_asset_weight_maint = w\<rparr>) l\<rparr>"

lemmas tag_eval = tag_config_def emode_unique_def nonempty_tags_def entry_is_empty_def EMODE_TAG_EMPTY_def
  MAX_EMODE_ENTRIES_def

definition sample_cfgs :: "EmodeConfig list" where
  "sample_cfgs = [tag_config [(3, 70), (5, 80)], tag_config [(4, 10), (5, 60)]]"

lemma sample_cfgs_unique: "\<forall>c \<in> set sample_cfgs. emode_unique c"
  by (simp add: sample_cfgs_def tag_eval)

lemma sample_intersection:
  "emode_intersection sample_cfgs 3 = None"
  "map_option e_asset_weight_init (emode_intersection sample_cfgs 5) = Some 60"
  by (simp_all add: emode_intersection_def sample_cfgs_def find_with_tag_def tag_equals_def tag_eval
      least_entry_def)

theorem reconcile_is_intersection_witness:
  "\<exists>r. reconcile_emode_configs sample_cfgs = Inr r
     \<and> find_with_tag r 3 = None \<and> map_option e_asset_weight_init (find_with_tag r 5) = Some 60"
  using reconcile_is_intersection [OF sample_cfgs_unique] sample_intersection by auto

text \<open>C33: The optimised reconciliation agrees with the classic one on every tag, whatever valid
  configurations it is given: both succeed and find the same entries.\<close>

theorem reconcile_agrees_with_classic:
  assumes "\<forall>c \<in> set cs. emode_unique c"
  shows "\<exists>r r'. reconcile_emode_configs cs = Inr r \<and> reconcile_emode_configs_classic cs = Inr r'
    \<and> (\<forall>t. find_with_tag r t = find_with_tag r' t)"
proof -
  obtain r where r: "reconcile_emode_configs cs = Inr r"
      "\<forall>t. find_with_tag r t = emode_intersection cs t"
    using reconcile_intersection [OF assms] by blast
  consider "cs = []" | c where "cs = [c]" | "1 < length cs"
    by (cases cs rule: remdups_adj.cases) auto
  then show ?thesis
  proof cases
    case 1
    then show ?thesis by (simp add: reconcile_emode_configs_def reconcile_emode_configs_classic_def)
  next
    case 2
    have "find_with_tag r t = find_with_tag c t" for t
    proof (cases "find_with_tag c t")
      case None
      then show ?thesis using r(2) by (simp add: emode_intersection_def 2)
    next
      case (Some e)
      then have "collateral_bank_emode_tag e = t"
        using find_with_tag_Some_iff [of c t e] assms 2 by simp
      then have "least_entry t [e] = e" by (simp add: least_entry_def)
      then show ?thesis using r(2) Some by (simp add: emode_intersection_def 2)
    qed
    then show ?thesis using r(1) 2 by (simp add: reconcile_emode_configs_classic_def)
  next
    case 3
    then have "cs \<noteq> []" by auto
    then have "reconcile_emode_configs_classic cs = reconcile_emode_configs cs"
      using classic_common [OF 3] reconcile_common [of cs] by simp
    then show ?thesis using r(1) by auto
  qed
qed

text \<open>A tag that one configuration holds twice is counted twice, and lost by the optimised one only.\<close>

lemma reconcile_differs_on_duplicates:
  "\<exists>c r r'. reconcile_emode_configs [c] = Inr r \<and> reconcile_emode_configs_classic [c] = Inr r'
     \<and> find_with_tag r 5 \<noteq> find_with_tag r' 5"
  by (rule exI [of _ "tag_config [(5, 80), (5, 60)]"])
    (simp add: reconcile_emode_configs_def reconcile_emode_configs_classic_def merge_cfg_def tag_eval
      from_entries_def merge_into_def find_with_tag_def tag_equals_def EmodeEntry_zeroed_def eval_nat_numeral)

theorem reconcile_agrees_with_classic_witness:
  "\<exists>r r'. reconcile_emode_configs sample_cfgs = Inr r \<and> reconcile_emode_configs_classic sample_cfgs = Inr r'"
  using reconcile_agrees_with_classic [OF sample_cfgs_unique] by auto

text \<open>C36: Moving tokens into Drift and back gains none, up to one unit of the scaled balance: the tokens
  that the scaled balance of a deposit is worth are at most those deposited, and the scaled balance
  that a withdrawal gives up, unless it is zero, is worth at least what is withdrawn; and it is zero
  exactly for a withdrawal that is worth less than one unit, which costs nothing although the
  decrement is said to be rounded up (\<open>drift_withdraw_free\<close>).\<close>

theorem drift_round_trips:
  assumes "get_scaled_balance_increment deposited m = Inr inc"
    and "get_withdraw_token_amount inc m = Inr worth"
    and "get_scaled_balance_decrement withdrawn m = Inr dec"
    and "get_withdraw_token_amount dec m = Inr given_up"
  shows "worth \<le> deposited \<and> (dec \<noteq> 0 \<longrightarrow> withdrawn \<le> given_up)
    \<and> (\<exists>p. get_precision_increase (sm_decimals m) = Inr p
         \<and> (dec = 0 \<longleftrightarrow> withdrawn * p < cumulative_deposit_interest m))"
proof -
  obtain p where p: "get_precision_increase (sm_decimals m) = Inr p" "0 < p" "cumulative_deposit_interest m \<noteq> 0"
    "dec = withdrawn * p div cumulative_deposit_interest m
      + (if withdrawn * p div cumulative_deposit_interest m \<noteq> 0 then 1 else 0)"
    using assms(3) unfolding get_scaled_balance_decrement_def by (elim drift_scaled_amount) simp
  then have "dec = 0 \<longleftrightarrow> withdrawn * p < cumulative_deposit_interest m" by (simp add: div_eq_0_iff)
  then show ?thesis
    using drift_deposit_no_gain [OF assms(1,2)] drift_withdraw_covered [OF assms(3,4)] p(1) by blast
qed

definition sample_market :: MinimalSpotMarket where
  "sample_market = \<lparr>sm_pubkey = 1, sm_oracle = 2, sm_mint = 3, sm_vault = 4, deposit_balance = 0,
     borrow_balance = 0, cumulative_deposit_interest = 10500000001, cumulative_borrow_interest = 0,
     last_interest_ts = 0, sm_decimals = 6, sm_market_index = 0, pool_id = 0\<rparr>"

lemmas market_eval = sample_market_def get_scaled_balance_increment_def get_scaled_balance_decrement_def
  get_withdraw_token_amount_def get_scaled_balance_def get_precision_increase_def DRIFT_PRECISION_EXP_def
  u128_mul_def u128_div_def u128_limit_def checked_add_u64_def u64_max_def

lemma sample_scaled:
  "get_scaled_balance_increment 1000000 sample_market = Inr 952380952"
  "get_withdraw_token_amount 952380952 sample_market = Inr 999999"
  "get_scaled_balance_decrement 1000000 sample_market = Inr 952380953"
  "get_withdraw_token_amount 952380953 sample_market = Inr 1000000"
  by (simp_all add: market_eval)

text \<open>With nine decimals a single unit of the token is withdrawn for nothing.\<close>

lemma drift_withdraw_free:
  "get_scaled_balance_decrement 1 (sample_market\<lparr>sm_decimals := 9\<rparr>) = Inr 0"
  by (simp add: market_eval)

theorem drift_round_trips_witness:
  "(999999 :: u64) \<le> 1000000 \<and> (1000000 :: u64) \<le> 1000000
   \<and> (\<exists>p. get_precision_increase (sm_decimals sample_market) = Inr p \<and> 10500000001 \<le> 1000000 * p)"
proof -
  have "(1000000 :: u64) \<le> 1000000 \<and> cumulative_deposit_interest sample_market = 10500000001"
    by (simp add: sample_market_def)
  then show ?thesis using drift_round_trips [OF sample_scaled] by (auto simp: not_less)
qed

end
