(* ===== verification/FlashBot.thy ===== *)
theory FlashBot
  imports Flashloan
begin

text \<open>
  The arbitrage program (\<open>programs/flash_loan_bot/src/lib.rs\<close>): six instructions that call
  marginfi, Raydium and Orca. It keeps no state of its own; what it changes is the state of the
  programs it calls. Calling another program (\<open>invoke\<close>) and reading a token balance are the
  runtime's: a record \<open>runtime\<close> over a type of worlds gives them. An account of an instruction
  is its key.
\<close>

datatype FlashLoanError = NegativeProfit | SlippageExceeded | ArithmeticOverflow

datatype bot_failure = Bot FlashLoanError | Called failure

record 'w runtime =
  invoke :: "Instruction \<Rightarrow> pubkey list \<Rightarrow> 'w \<Rightarrow> 'w res"
  get_amount :: "'w \<Rightarrow> pubkey \<Rightarrow> u64 res"

definition called :: "'a res \<Rightarrow> bot_failure + 'a" where
  "called r = (case r of Inl e \<Rightarrow> Inl (Called e) | Inr x \<Rightarrow> Inr x)"

definition meta_new :: "pubkey \<Rightarrow> bool \<Rightarrow> AccountMeta" where
  "meta_new k signer = \<lparr>am_pubkey = k, am_is_signer = signer, am_is_writable = True\<rparr>"

definition meta_new_readonly :: "pubkey \<Rightarrow> bool \<Rightarrow> AccountMeta" where
  "meta_new_readonly k signer = \<lparr>am_pubkey = k, am_is_signer = signer, am_is_writable = False\<rparr>"

section \<open>Account structs\<close>

record MarginfiFlashloanBounds =
  fb_marginfi_account :: pubkey
  fb_signer :: pubkey
  fb_marginfi_program :: pubkey
  fb_ixs_sysvar :: pubkey

record MarginfiBorrow =
  mb_marginfi_group :: pubkey
  mb_marginfi_account :: pubkey
  mb_signer :: pubkey
  mb_bank :: pubkey
  mb_destination_token_account :: pubkey
  mb_bank_liquidity_vault_authority :: pubkey
  mb_bank_liquidity_vault :: pubkey
  mb_token_program :: pubkey
  mb_marginfi_program :: pubkey

record MarginfiRepay =
  mr_marginfi_group :: pubkey
  mr_marginfi_account :: pubkey
  mr_signer :: pubkey
  mr_bank :: pubkey
  mr_signer_token_account :: pubkey
  mr_bank_liquidity_vault :: pubkey
  mr_token_program :: pubkey
  mr_marginfi_program :: pubkey

record ProxyRaydium =
  ray_user :: pubkey
  ray_user_token_account :: pubkey
  ray_destination_token_account :: pubkey
  ray_token_program :: pubkey
  ray_raydium_program :: pubkey
  ray_amm_id :: pubkey
  ray_amm_authority :: pubkey
  ray_amm_open_orders :: pubkey
  ray_amm_target_orders :: pubkey
  ray_amm_coin_vault :: pubkey
  ray_amm_pc_vault :: pubkey
  ray_serum_program :: pubkey
  ray_serum_market :: pubkey
  ray_serum_bids :: pubkey
  ray_serum_asks :: pubkey
  ray_serum_event_queue :: pubkey
  ray_serum_coin_vault :: pubkey
  ray_serum_pc_vault :: pubkey
  ray_serum_vault_signer :: pubkey

record ProxyOrca =
  orca_token_program :: pubkey
  orca_token_authority :: pubkey
  orca_whirlpool_program :: pubkey
  orca_whirlpool :: pubkey
  orca_token_owner_account_a :: pubkey
  orca_token_vault_a :: pubkey
  orca_token_owner_account_b :: pubkey
  orca_token_vault_b :: pubkey
  orca_tick_array_0 :: pubkey
  orca_tick_array_1 :: pubkey
  orca_tick_array_2 :: pubkey
  orca_oracle :: pubkey

section \<open>The six instructions\<close>

definition marginfi_start_flashloan ::
  "'w runtime \<Rightarrow> MarginfiFlashloanBounds \<Rightarrow> u64 \<Rightarrow> 'w \<Rightarrow> bot_failure + 'w" where
  "marginfi_start_flashloan rt acc end_index w =
     called (invoke rt
       \<lparr>program_id = fb_marginfi_program acc,
        ix_accounts = [meta_new (fb_marginfi_account acc) False,
                       meta_new_readonly (fb_signer acc) True,
                       meta_new_readonly (fb_ixs_sysvar acc) False],
        ix_data = [14, 131, 33, 220, 81, 186, 180, 107] @ to_le 8 end_index\<rparr>
       [fb_marginfi_account acc, fb_signer acc, fb_ixs_sysvar acc] w)"

definition marginfi_borrow :: "'w runtime \<Rightarrow> MarginfiBorrow \<Rightarrow> u64 \<Rightarrow> 'w \<Rightarrow> bot_failure + 'w" where
  "marginfi_borrow rt acc amount w =
     called (invoke rt
       \<lparr>program_id = mb_marginfi_program acc,
        ix_accounts = [meta_new_readonly (mb_marginfi_group acc) False,
                       meta_new (mb_marginfi_account acc) False,
                       meta_new_readonly (mb_signer acc) True,
                       meta_new (mb_bank acc) False,
                       meta_new (mb_destination_token_account acc) False,
                       meta_new_readonly (mb_bank_liquidity_vault_authority acc) False,
                       meta_new (mb_bank_liquidity_vault acc) False,
                       meta_new_readonly (mb_token_program acc) False],
        ix_data = [4, 126, 116, 53, 48, 5, 212, 31] @ to_le 8 amount\<rparr>
       [mb_marginfi_group acc, mb_marginfi_account acc, mb_signer acc, mb_bank acc,
        mb_destination_token_account acc, mb_bank_liquidity_vault_authority acc,
        mb_bank_liquidity_vault acc, mb_token_program acc] w)"

text \<open>
  Both swaps read the balance of the receiving token account before and after the call and require
  the difference to be at least the minimum.
\<close>

definition measured_invoke ::
  "'w runtime \<Rightarrow> pubkey \<Rightarrow> Instruction \<Rightarrow> pubkey list \<Rightarrow> u64 \<Rightarrow> 'w \<Rightarrow> bot_failure + 'w" where
  "measured_invoke rt destination ix infos amount_out_min w =
     bindR (called (get_amount rt w destination)) (\<lambda>balance_before.
     bindR (called (invoke rt ix infos w)) (\<lambda>w'.
     bindR (called (get_amount rt w' destination)) (\<lambda>balance_after.
     case checked_sub_nat balance_after balance_before of
       None \<Rightarrow> Inl (Bot ArithmeticOverflow)
     | Some received \<Rightarrow>
         if \<not> received \<ge> amount_out_min then Inl (Bot SlippageExceeded) else Inr w')))"

definition raydium_ix :: "ProxyRaydium \<Rightarrow> u64 \<Rightarrow> u64 \<Rightarrow> Instruction" where
  "raydium_ix acc amount_in amount_out_min =
     \<lparr>program_id = ray_raydium_program acc,
      ix_accounts = [meta_new_readonly (ray_token_program acc) False,
        meta_new (ray_amm_id acc) False,
        meta_new_readonly (ray_amm_authority acc) False,
        meta_new (ray_amm_open_orders acc) False,
        meta_new (ray_amm_target_orders acc) False,
        meta_new (ray_amm_coin_vault acc) False,
        meta_new (ray_amm_pc_vault acc) False,
        meta_new_readonly (ray_serum_program acc) False,
        meta_new (ray_serum_market acc) False,
        meta_new (ray_serum_bids acc) False,
        meta_new (ray_serum_asks acc) False,
        meta_new (ray_serum_event_queue acc) False,
        meta_new (ray_serum_coin_vault acc) False,
        meta_new (ray_serum_pc_vault acc) False,
        meta_new_readonly (ray_serum_vault_signer acc) False,
        meta_new (ray_user_token_account acc) False,
        meta_new (ray_destination_token_account acc) False,
        meta_new_readonly (ray_user acc) True],
      ix_data = [9] @ to_le 8 amount_in @ to_le 8 amount_out_min\<rparr>"

definition proxy_raydium ::
  "'w runtime \<Rightarrow> ProxyRaydium \<Rightarrow> u64 \<Rightarrow> u64 \<Rightarrow> 'w \<Rightarrow> bot_failure + 'w" where
  "proxy_raydium rt acc amount_in amount_out_min w =
     (let ix = raydium_ix acc amount_in amount_out_min
      in measured_invoke rt (ray_destination_token_account acc) ix
           (map am_pubkey (ix_accounts ix)) amount_out_min w)"

definition orca_ix :: "ProxyOrca \<Rightarrow> u64 \<Rightarrow> u64 \<Rightarrow> Instruction" where
  "orca_ix acc amount_in amount_out_min =
     \<lparr>program_id = orca_whirlpool_program acc,
      ix_accounts = [meta_new_readonly (orca_token_program acc) False,
        meta_new_readonly (orca_token_authority acc) True,
        meta_new (orca_whirlpool acc) False,
        meta_new (orca_token_owner_account_a acc) False,
        meta_new (orca_token_vault_a acc) False,
        meta_new (orca_token_owner_account_b acc) False,
        meta_new (orca_token_vault_b acc) False,
        meta_new (orca_tick_array_0 acc) False,
        meta_new (orca_tick_array_1 acc) False,
        meta_new (orca_tick_array_2 acc) False,
        meta_new (orca_oracle acc) False],
      ix_data = [248, 198, 158, 145, 225, 117, 135, 200] @ to_le 8 amount_in @ to_le 8 amount_out_min
        @ to_le 16 4295048016 @ [1] @ [1]\<rparr>"

definition proxy_orca :: "'w runtime \<Rightarrow> ProxyOrca \<Rightarrow> u64 \<Rightarrow> u64 \<Rightarrow> 'w \<Rightarrow> bot_failure + 'w" where
  "proxy_orca rt acc amount_in amount_out_min w =
     (let ix = orca_ix acc amount_in amount_out_min
      in measured_invoke rt (orca_token_owner_account_b acc) ix
           (map am_pubkey (ix_accounts ix)) amount_out_min w)"

definition repay_ix :: "MarginfiRepay \<Rightarrow> u64 \<Rightarrow> bool \<Rightarrow> Instruction" where
  "repay_ix acc amount repay_everything =
     \<lparr>program_id = mr_marginfi_program acc,
      ix_accounts = [meta_new_readonly (mr_marginfi_group acc) False,
                     meta_new (mr_marginfi_account acc) False,
                     meta_new_readonly (mr_signer acc) True,
                     meta_new (mr_bank acc) False,
                     meta_new (mr_signer_token_account acc) False,
                     meta_new (mr_bank_liquidity_vault acc) False,
                     meta_new_readonly (mr_token_program acc) False],
      ix_data = [79, 209, 172, 177, 222, 51, 173, 151] @ to_le 8 amount
        @ (if repay_everything then [1, 1] else [0])\<rparr>"

definition marginfi_repay ::
  "'w runtime \<Rightarrow> MarginfiRepay \<Rightarrow> u64 \<Rightarrow> bool \<Rightarrow> 'w \<Rightarrow> bot_failure + 'w" where
  "marginfi_repay rt acc amount repay_everything w =
     (let ix = repay_ix acc amount repay_everything
      in called (invoke rt ix (map am_pubkey (ix_accounts ix)) w))"

definition marginfi_end_flashloan ::
  "'w runtime \<Rightarrow> MarginfiFlashloanBounds \<Rightarrow> 'w \<Rightarrow> bot_failure + 'w" where
  "marginfi_end_flashloan rt acc w =
     called (invoke rt
       \<lparr>program_id = fb_marginfi_program acc,
        ix_accounts = [meta_new (fb_marginfi_account acc) False,
                       meta_new_readonly (fb_signer acc) True],
        ix_data = [105, 124, 201, 106, 153, 2, 8, 156]\<rparr>
       [fb_marginfi_account acc, fb_signer acc] w)"

section \<open>Facts\<close>

lemma called_eq_Inr: "called r = Inr x \<longleftrightarrow> r = Inr x"
  by (auto simp: called_def split: sum.splits)

text \<open>How Borsh encodes the optional flag that marginfi's repay reads.\<close>

definition decode_repay_args :: "u8 list \<Rightarrow> (u64 \<times> bool option) option" where
  "decode_repay_args d =
     (let amount = from_le (take 8 d); r = drop 8 d
      in if length d < 9 then None
         else if hd r = 0 then Some (amount, None)
         else if hd r = 1 \<and> 1 < length r \<and> r ! 1 \<le> 1 then Some (amount, Some (r ! 1 = 1))
         else None)"

text \<open>
  The documented behaviour of the runtime: a call to a program's instruction succeeds only when the
  called handler does, and the handler runs above the top level of the transaction.
\<close>

definition cpi_runs_marginfi :: "pubkey \<Rightarrow> 'w runtime \<Rightarrow> bool" where
  "cpi_runs_marginfi mrgn_id rt \<longleftrightarrow> (\<forall>ix infos w w'. invoke rt ix infos w = Inr w' \<longrightarrow>
     (is_ix mrgn_id START_FLASHLOAN ix \<longrightarrow>
        (\<exists>a tx key a'. stack_height tx > TRANSACTION_LEVEL_STACK_HEIGHT
           \<and> lending_account_start_flashloan mrgn_id (ix_signer ix) key a tx
                (from_le (take 8 (drop 8 (ix_data ix)))) = Inr a'))
     \<and> (is_ix mrgn_id END_FLASHLOAN ix \<longrightarrow>
        (\<exists>a tx h a'. stack_height tx > TRANSACTION_LEVEL_STACK_HEIGHT
           \<and> lending_account_end_flashloan (ix_signer ix) a tx h = Inr a')))"

lemma start_not_in_cpi:
  "stack_height tx > TRANSACTION_LEVEL_STACK_HEIGHT \<Longrightarrow>
     lending_account_start_flashloan mrgn_id s key a tx n \<noteq> Inr a'"
  by (auto simp: lending_account_start_flashloan_def check_flashloan_can_start_def
      validate_not_cpi_by_stack_height_def check_True elim!: bindR_InrE)

lemma end_not_in_cpi:
  "stack_height tx > TRANSACTION_LEVEL_STACK_HEIGHT \<Longrightarrow>
     lending_account_end_flashloan s a tx h \<noteq> Inr a'"
  by (auto simp: lending_account_end_flashloan_def validate_not_cpi_by_stack_height_def check_True
      elim!: bindR_InrE)

lemma measured_invoke_cases:
  assumes "get_amount rt w d = Inr b" and "invoke rt ix infos w = Inr w'" and "get_amount rt w' d = Inr a"
  shows "measured_invoke rt d ix infos m w =
    (if a < b then Inl (Bot ArithmeticOverflow)
     else if a < b + m then Inl (Bot SlippageExceeded) else Inr w')"
  using assms by (auto simp: measured_invoke_def called_def checked_sub_nat_def)

lemma measured_invoke_ok:
  "measured_invoke rt d ix infos m w = Inr w' \<longleftrightarrow>
     (\<exists>b a. get_amount rt w d = Inr b \<and> invoke rt ix infos w = Inr w' \<and> get_amount rt w' d = Inr a
        \<and> b + m \<le> a)"
proof (cases "get_amount rt w d")
  case (Inr b)
  show ?thesis
  proof (cases "\<exists>a. invoke rt ix infos w = Inr w' \<and> get_amount rt w' d = Inr a")
    case True
    then obtain a where "invoke rt ix infos w = Inr w'" "get_amount rt w' d = Inr a" by blast
    then show ?thesis using measured_invoke_cases [OF Inr, of ix infos w' a m] Inr by auto
  next
    case False
    then show ?thesis
      by (auto simp: measured_invoke_def bindR_eq_Inr called_eq_Inr split: if_splits option.splits)
  qed
qed (simp add: measured_invoke_def called_def)

lemma called_not_Bot: "called r \<noteq> Inl (Bot e)"
  by (auto simp: called_def split: sum.splits)

lemma measured_invoke_no_loss: "measured_invoke rt d ix infos m w \<noteq> Inl (Bot NegativeProfit)"
  by (auto simp: measured_invoke_def bindR_def called_def split: sum.splits option.splits)

lemma cpi_runs_marginfiD:
  assumes "cpi_runs_marginfi mrgn_id rt" and "invoke rt ix infos w = Inr w'"
  shows "\<not> is_ix mrgn_id START_FLASHLOAN ix \<and> \<not> is_ix mrgn_id END_FLASHLOAN ix"
  using assms start_not_in_cpi end_not_in_cpi unfolding cpi_runs_marginfi_def by metis

end
