(* ===== verification/BotProps.thy ===== *)
theory BotProps
  imports FlashBot
begin

text \<open>
  The properties of the arbitrage program: what its swaps enforce, what it never checks, and why
  its two flash-loan instructions can not succeed against marginfi.
\<close>

text \<open>A swap through Raydium or Orca succeeds exactly when the call does and the balance of the
  receiving token account grows by at least the minimum the caller asked for.\<close>

theorem swap_succeeds_iff:
  "(proxy_raydium rt ray amount_in out_min w = Inr w' \<longleftrightarrow>
     (\<exists>before after. get_amount rt w (ray_destination_token_account ray) = Inr before
        \<and> invoke rt (raydium_ix ray amount_in out_min)
            (map am_pubkey (ix_accounts (raydium_ix ray amount_in out_min))) w = Inr w'
        \<and> get_amount rt w' (ray_destination_token_account ray) = Inr after \<and> before + out_min \<le> after))
   \<and> (proxy_orca rt orca amount_in out_min w = Inr w' \<longleftrightarrow>
     (\<exists>before after. get_amount rt w (orca_token_owner_account_b orca) = Inr before
        \<and> invoke rt (orca_ix orca amount_in out_min)
            (map am_pubkey (ix_accounts (orca_ix orca amount_in out_min))) w = Inr w'
        \<and> get_amount rt w' (orca_token_owner_account_b orca) = Inr after \<and> before + out_min \<le> after))"
  by (auto simp: proxy_raydium_def proxy_orca_def Let_def measured_invoke_ok)

text \<open>No instruction of the bot ever reports a loss: the error the program declares for a negative
  profit is returned by none of the six.\<close>

theorem loss_never_reported:
  "marginfi_start_flashloan rt bounds end_index w \<noteq> Inl (Bot NegativeProfit)
   \<and> marginfi_borrow rt borrow amount w \<noteq> Inl (Bot NegativeProfit)
   \<and> proxy_raydium rt ray amount_in out_min w \<noteq> Inl (Bot NegativeProfit)
   \<and> proxy_orca rt orca amount_in out_min w \<noteq> Inl (Bot NegativeProfit)
   \<and> marginfi_repay rt repay amount everything w \<noteq> Inl (Bot NegativeProfit)
   \<and> marginfi_end_flashloan rt bounds w \<noteq> Inl (Bot NegativeProfit)"
  by (simp add: marginfi_start_flashloan_def marginfi_borrow_def proxy_raydium_def proxy_orca_def
      marginfi_repay_def marginfi_end_flashloan_def Let_def called_not_Bot measured_invoke_no_loss)

text \<open>C40: The bot can neither start nor end a flash loan: it calls marginfi from its own program, and
  marginfi accepts both instructions at the top level of a transaction only.\<close>

theorem bot_flashloan_rejected:
  assumes "cpi_runs_marginfi (fb_marginfi_program acc) rt"
  shows "marginfi_start_flashloan rt acc end_index w \<noteq> Inr w'
    \<and> marginfi_end_flashloan rt acc w \<noteq> Inr w'"
  using cpi_runs_marginfiD [OF assms]
  by (fastforce simp: marginfi_start_flashloan_def marginfi_end_flashloan_def called_eq_Inr is_ix_def
      discrim_def START_FLASHLOAN_def END_FLASHLOAN_def)

text \<open>A runtime whose world is the balances of the token accounts, and in which marginfi answers as it
  does to a call from another program.\<close>

definition sample_runtime :: "(pubkey \<Rightarrow> u64) runtime" where
  "sample_runtime = \<lparr>
     invoke = \<lambda>ix infos w. if is_ix 50 START_FLASHLOAN ix \<or> is_ix 50 END_FLASHLOAN ix
       then Inl (Err IllegalFlashloan) else Inr (w(7 := w 7 + 100)),
     get_amount = \<lambda>w k. Inr (w k)\<rparr>"

definition sample_bounds :: MarginfiFlashloanBounds where
  "sample_bounds = \<lparr>fb_marginfi_account = 60, fb_signer = 5, fb_marginfi_program = 50, fb_ixs_sysvar = 9\<rparr>"

theorem bot_flashloan_rejected_witness:
  "marginfi_start_flashloan sample_runtime sample_bounds 3 (\<lambda>_. 0) \<noteq> Inr (\<lambda>_. 0)
   \<and> marginfi_end_flashloan sample_runtime sample_bounds (\<lambda>_. 0) \<noteq> Inr (\<lambda>_. 0)"
  by (rule bot_flashloan_rejected)
    (auto simp: cpi_runs_marginfi_def sample_runtime_def sample_bounds_def split: if_splits)

text \<open>The arguments of the repayment that the bot encodes by hand are the ones marginfi reads: the
  amount, and the flag to repay everything only when it is set.\<close>

theorem repay_args_round_trip:
  assumes "amount \<le> u64_max"
  shows "decode_repay_args (drop 8 (ix_data (repay_ix acc amount everything)))
    = Some (amount, if everything then Some True else None)"
proof -
  have "from_le (to_le 8 amount) = amount"
    using assms by (intro from_le_to_le) (simp add: u64_max_def)
  then show ?thesis by (simp add: decode_repay_args_def repay_ix_def Let_def)
qed

definition sample_repay :: MarginfiRepay where
  "sample_repay = \<lparr>mr_marginfi_group = 1, mr_marginfi_account = 2, mr_signer = 3, mr_bank = 4,
     mr_signer_token_account = 5, mr_bank_liquidity_vault = 6, mr_token_program = 7,
     mr_marginfi_program = 50\<rparr>"

theorem repay_args_round_trip_witness:
  "decode_repay_args (drop 8 (ix_data (repay_ix sample_repay 1000000 True))) = Some (1000000, Some True)"
  using repay_args_round_trip [of 1000000 sample_repay True] by (simp add: u64_max_def)

end
