(* ===== verification/ProtocolProps.thy ===== *)
theory ProtocolProps
  imports RefChain RiskProps
begin

text \<open>
  The properties of the protocol as a whole and of its instructions: the books of all accounts and
  banks, the health that borrows and withdrawals leave, liquidations, bankruptcies, receivership and
  account transfers.
\<close>

section \<open>A sample instruction\<close>

text \<open>
  A user with a deposit in bank 8 and a debt in bank 7, both with fixed prices, as instructions see
  them at time 100.
\<close>

definition sample_env :: "oracle_lib \<Rightarrow> ix_env" where
  "sample_env lib = \<lparr>e_fx = fx_ref, e_lib = lib, e_load_bank = sample_load_bank, e_parse_mint = (\<lambda>_. None),
     e_clock = \<lparr>clock_slot = 0, unix_timestamp = 100, clock_epoch = 0\<rparr>\<rparr>"

definition sample_ta :: token_accounts where
  "sample_ta = \<lparr>ta_group = 1, ta_bank = 7, ta_authority = 5, ta_user_tokens = 30, ta_liquidity_vault = 3,
     ta_vault_authority = 31, ta_vault_amount = 500, ta_token_program = Tokenkeg\<rparr>"

definition sample_user :: MarginfiAccount where
  "sample_user = sample_borrower\<lparr>acc_group := 1\<rparr>"

lemmas account_eval = account_initialize_def MarginfiAccount_zeroed_def acc_get_flag_def account_flag_defs

lemmas guard_eval = not_paused_def is_protocol_paused_def pc_is_paused_flag_def account_constraints_def
  account_in_group_def bank_constraints_def bank_in_group_def check_def is_signer_authorized_def
  account_not_frozen_for_authority_def is_marginfi_asset_tag_def bank_get_flag_def
  maybe_take_bank_mint_def validate_asset_tags_def validate_bank_state_def is_active_def
  empty_deactivated_def asset_tag_defs

lemma sample_env_simps [simp]:
  "e_fx (sample_env lib) = fx_ref" "e_lib (sample_env lib) = lib" "e_load_bank (sample_env lib) = sample_load_bank"
  "e_now (sample_env lib) = 100" "e_parse_mint (sample_env lib) = (\<lambda>_. None)"
  by (simp_all add: sample_env_def e_now_def)

lemma sample_ta_simps [simp]:
  "ta_bank sample_ta = 7" "ta_token_program sample_ta = Tokenkeg"
  by (simp_all add: sample_ta_def)

lemma sample_borrow_guards: "borrow_guards (sample_env lib) sample_ta sample_group sample_user (sample_fixed_bank 1) = Inr ()"
  by (simp add: borrow_guards_def guard_eval flag_eval sample_ta_def sample_user_def sample_borrower_def
      account_eval sample_fixed_bank_def sample_defs TOKENLESS_REPAYMENTS_ALLOWED_def CLOSE_ENABLED_FLAG_def)

lemma sample_user_flags: "acc_get_flag sample_user f \<longleftrightarrow> False"
  by (simp add: account_eval sample_user_def sample_borrower_def flag_eval)

lemma sample_accrue: "accrue_interest fx 100 g (sample_fixed_bank p) = Inr (sample_fixed_bank p)"
  by (simp add: accrue_interest_def time_delta_of_def sample_fixed_bank_def sample_defs i64_op_def in_i64_def)

lemma scan_tags_empty: "scan_tags (replicate n empty_deactivated) d s = Inr (d, s)"
  by (induction n) (simp_all add: is_active_def empty_deactivated_def)

lemma sample_scan: "scan_tags (balances (lending_account sample_user)) False False = Inr (True, False)"
  by (simp add: sample_user_def sample_borrower_def scan_tags_empty is_active_def sample_balance_def
      sample_debt_def new_balance_def)

lemma sample_tags: "validate_asset_tags (sample_fixed_bank 1) sample_user = Inr ()"
  "validate_bank_state (sample_fixed_bank 1) FailsIfPausedOrReduceState = Inr ()"
  by (simp_all add: validate_asset_tags_def sample_scan validate_bank_state_def)
    (simp_all add: sample_fixed_bank_def sample_defs asset_tag_defs)

lemma sample_find: "find_or_create 100 7 b (lending_account sample_user) = Inr (Suc 0, lending_account sample_user)"
  by (simp add: find_or_create_def sample_user_def sample_borrower_def sample_defs is_active_def)

definition more_debt :: Balance where
  "more_debt = sample_debt\<lparr>liability_shares := 11 * ONE + ONE div 4\<rparr>"

definition more_debt_bank :: Bank where
  "more_debt_bank = (sample_fixed_bank 1)\<lparr>total_liability_shares := 501 * ONE\<rparr>"

definition more_debt_user :: LendingAccount where
  "more_debt_user = \<lparr>balances = sample_balance\<lparr>bank_pk := 8\<rparr> # more_debt # replicate 14 empty_deactivated\<rparr>"

lemma sample_borrow_balance:
  "borrow fx_ref 100 ONE (sample_debt, sample_fixed_bank 1) = Inr (more_debt, more_debt_bank)"
  by (simp add: wrapper_eval bank_eval sample_fixed_bank_def sample_defs more_debt_def more_debt_bank_def
      const_eval fx_eval)


lemma sample_cache: "\<exists>b. update_bank_cache fx_ref 100 sample_group more_debt_bank = Inr b"
  by (simp add: update_bank_cache_def more_debt_bank_def sample_fixed_bank_def sample_defs bank_eval const_eval
      fx_eval interest_eval update_interest_rates_def milli_to_u32_def scale_to_u32_def flag_eval
      PROGRAM_FEES_ENABLED_def)

lemma sample_run: "run_at (Suc 0) (borrow fx_ref 100 ONE) (lending_account sample_user) (sample_fixed_bank 1)
    = Inr (more_debt_user, more_debt_bank)"
  by (simp add: run_at_def at_balance_def sample_user_def sample_borrower_def sample_borrow_balance
      more_debt_user_def)

lemma more_debt_sorted: "sort_balances more_debt_user = more_debt_user"
proof -
  have "sort_key (\<lambda>b. - int (bank_pk b)) (balances more_debt_user) = balances more_debt_user"
    by (rule sort_key_id_if_sorted) (simp add: more_debt_user_def more_debt_def sample_debt_def
        sample_balance_def new_balance_def empty_deactivated_def)
  then show ?thesis by (simp add: sort_balances_def)
qed

lemma more_debt_active: "filter is_active (balances more_debt_user) = [sample_balance\<lparr>bank_pk := 8\<rparr>, more_debt]"
  by (simp add: more_debt_user_def is_active_def sample_balance_def more_debt_def sample_debt_def new_balance_def
      empty_deactivated_def)

definition more_debt_accounts :: "BankAccountWithPriceFeed list" where
  "more_debt_accounts =
     [\<lparr>bap_bank = sample_fixed_bank 3, price_feed = Inr (FixedFeed (3 * ONE)),
       bap_balance = sample_balance\<lparr>bank_pk := 8\<rparr>\<rparr>,
      \<lparr>bap_bank = more_debt_bank, price_feed = Inr (FixedFeed ONE), bap_balance = more_debt\<rparr>]"

lemma more_debt_load:
  "load_accounts fx lib (with_bank 7 more_debt_bank sample_load_bank) clock more_debt_user sample_ais
     = Inr more_debt_accounts"
  by (simp add: load_accounts_def more_debt_active sample_ais_def with_bank_def sample_load_bank_def
      get_remaining_accounts_per_bank_def sample_fixed_bank_def check_def more_debt_accounts_def
      try_from_bank_def try_from_bank_with_max_age_def keep_result_def ONE_def more_debt_bank_def)
    (simp add: sample_defs more_debt_def ONE_def)

definition more_debt_engine :: "MarginfiAccount \<Rightarrow> RiskEngine" where
  "more_debt_engine a = \<lparr>re_account = a, bank_accounts_with_price = more_debt_accounts,
     re_emode_config = EmodeConfig_zeroed\<rparr>"

lemma more_debt_engine_loads:
  "new_no_flashloan_check fx lib (with_bank 7 more_debt_bank sample_load_bank) clock
     (a\<lparr>lending_account := more_debt_user\<rparr>) sample_ais
   = Inr (more_debt_engine (a\<lparr>lending_account := more_debt_user\<rparr>))"
proof -
  have "map (\<lambda>b. emode_config (emode (bap_bank b))) (filter has_liability more_debt_accounts) = [EmodeConfig_zeroed]"
    by (simp add: more_debt_accounts_def has_liability_def is_empty_def sample_fixed_bank_def more_debt_bank_def
        more_debt_def sample_defs EMPTY_BALANCE_THRESHOLD_def EmodeSettings_zeroed_def ONE_def)
  then show ?thesis
    by (simp add: new_no_flashloan_check_def more_debt_load reconcile_zeroed more_debt_engine_def)
qed

lemma more_debt_values:
  "calc_weighted_value fx_ref lib Initial EmodeConfig_zeroed
     \<lparr>bap_bank = more_debt_bank, price_feed = Inr (FixedFeed ONE), bap_balance = more_debt\<rparr>
     = Inr (0, 3958241859, ONE, 0)"
  by (simp add: risk_eval bank_eval more_debt_bank_def more_debt_def sample_fixed_bank_def sample_defs fx_eval
      const_eval EmodeConfig_zeroed_def EmodeEntry_zeroed_def EMODE_TAG_EMPTY_def get_side_def
      EmodeSettings_zeroed_def)


lemma more_debt_components:
  "length (prices hc) = 16 \<Longrightarrow> \<exists>hc'. get_account_health_components fx_ref lib Initial (more_debt_engine a) (Some hc)
     = (Inr (8655355533, 3958241859), Some hc')"
  by (simp add: get_account_health_components_def more_debt_engine_def more_debt_accounts_def sample_values
      more_debt_values)
    (auto simp: fx_ref_ops if_fx_def in_fx_def fx_limit_def Let_def sample_values more_debt_values)

lemma more_debt_healthy:
  "length (prices hc) = 16 \<Longrightarrow> \<exists>hc'. check_account_health fx_ref lib Initial (more_debt_engine a) (Some hc) = (Inr (), Some hc')"
proof -
  assume hc: "length (prices hc) = 16"
  have "length (filter has_liability (bank_accounts_with_price (more_debt_engine a))) = 1"
    by (simp add: more_debt_engine_def more_debt_accounts_def has_liability_def is_empty_def sample_defs
        more_debt_def EMPTY_BALANCE_THRESHOLD_def ONE_def)
  then have "check_account_risk_tiers (more_debt_engine a) = Inr ()" by (simp add: check_account_risk_tiers_iff)
  then show ?thesis using more_debt_components [OF hc, of lib a]
    by (auto simp: check_account_health_def split: prod.splits)
qed

lemma more_debt_final:
  "\<exists>hc p. final_health (sample_env lib) 7 more_debt_bank (booked (sample_env lib) more_debt_user sample_user)
     sample_ais = Inr (hc, p)"
proof -
  let ?a = "booked (sample_env lib) more_debt_user sample_user"
  have a: "?a = ?a\<lparr>lending_account := more_debt_user\<rparr>" by (simp add: booked_def more_debt_sorted)
  obtain hc' where "check_account_health fx_ref lib Initial (more_debt_engine ?a)
      (Some (HealthCache_zeroed\<lparr>hc_timestamp := 100\<rparr>)) = (Inr (), Some hc')"
    using more_debt_healthy [of "HealthCache_zeroed\<lparr>hc_timestamp := 100\<rparr>" lib ?a]
    by (auto simp: HealthCache_zeroed_def MAX_LENDING_ACCOUNT_BALANCES_def)
  moreover have "new_no_flashloan_check fx_ref lib (with_bank 7 more_debt_bank sample_load_bank)
      (e_clock (sample_env lib)) ?a sample_ais = Inr (more_debt_engine ?a)"
    using more_debt_engine_loads [of fx_ref lib _ ?a] a by simp
  moreover have "ok_of (get_unbiased_price_for_bank fx_ref lib 7 (more_debt_engine ?a))
      = Inr (Some \<lparr>opc_price = ONE, opc_confidence = 0\<rparr>)"
    by (simp add: get_unbiased_price_for_bank_def find_bank_account_def more_debt_engine_def
        more_debt_accounts_def try_get_price_feed_def get_price_and_confidence_of_type_def
        get_price_of_type_def raw_price_of_type_def confidence_interval_of_type_def ok_of_def more_debt_def sample_debt_def
        sample_balance_def new_balance_def)
  ultimately show ?thesis
    by (auto simp: final_health_def check_account_init_health_def sample_user_flags)
qed

lemma sample_borrow:
  "\<exists>a b ts. lending_account_borrow (sample_env lib) sample_ta sample_group sample_ais 1
     (sample_user, sample_fixed_bank 1) = Inr (a, b, ts)"
proof -
  have fee: "protocol_origination_fee (interest_rate_config (config (sample_fixed_bank 1))) = 0"
    by (simp add: sample_fixed_bank_def sample_defs)
  have one: "amount_num (sample_env lib) (Suc 0) = Inr ONE" by (simp add: amount_num_def fx_eval)
  obtain hc p where "final_health (sample_env lib) 7 more_debt_bank
      (booked (sample_env lib) more_debt_user sample_user) sample_ais = Inr (hc, p)"
    using more_debt_final by blast
  moreover obtain b where "update_bank_cache fx_ref 100 sample_group more_debt_bank = Inr b"
    using sample_cache by blast
  ultimately show ?thesis
    by (simp add: lending_account_borrow_def sample_borrow_guards maybe_take_bank_mint_def check_def
        sample_user_flags sample_accrue sample_tags sample_find fee pre_fee_def one origination_fee_of_def
        borrowed_amount_def sample_run book_origination_fee_def)
qed
section \<open>The books of the protocol\<close>

text \<open>Whatever instructions whichever users, liquidators and admins send in whichever order
  (deposits, withdrawals, borrows, repayments, deposits to and withdrawals from banks on Kamino,
  Drift and Solend, closings, purges, emissions, bankruptcies,
  liquidations, receivership, flash loans, freezes, transfers to new accounts, opening and closing
  accounts, interest accrual), the totals of every bank cover the shares all accounts together hold
  in it, no account holds negative shares, two balances with one bank or more than eight
  integration positions.\<close>

theorem protocol_books_hold:
  assumes "typed_chain fx ch" and "(protocol_step fx ch)\<^sup>*\<^sup>* w w'" and "books_ok (books_of w)"
    and "snd w' pk = Some b"
  shows "held_by_all asset_shares pk (map_option lending_account \<circ> fst w') \<le> total_asset_shares b
    \<and> held_by_all liability_shares pk (map_option lending_account \<circ> fst w') \<le> total_liability_shares b
    \<and> (\<forall>k a. fst w' k = Some a \<longrightarrow> slots_ok (lending_account a)
         \<and> (\<forall>bal \<in> set (balances (lending_account a)). is_active bal \<and> bank_pk bal = pk \<longrightarrow>
              0 \<le> asset_shares bal \<and> 0 \<le> liability_shares bal))"
proof -
  have ok: "books_ok (books_of w')" by (rule typed_chain.protocol_steps_ok [OF assms(1-3)])
  have "lending_account a \<in> ran (map_option lending_account \<circ> fst w')" if "fst w' k = Some a" for k a
    using that by (force simp: ran_def)
  then show ?thesis
    using ok assms(4) unfolding books_ok_def books_of_def fst_conv snd_conv holdings_ok_def by blast
qed

definition sample_world :: world where
  "sample_world = ([5 \<mapsto> sample_user], [7 \<mapsto> sample_fixed_bank 1, 8 \<mapsto> sample_fixed_bank 3])"

lemma sample_user_balances: "balances (lending_account sample_user)
    = sample_balance\<lparr>bank_pk := 8\<rparr> # sample_debt # replicate 14 empty_deactivated"
  by (simp add: sample_user_def sample_borrower_def)

lemma sample_world_ok: "books_ok (books_of sample_world)"
proof -
  have h: "held f pk (lending_account sample_user)
      = (if pk = 8 then f (sample_balance\<lparr>bank_pk := 8\<rparr>) else 0) + (if pk = 7 then f sample_debt else 0)" for f pk
    by (simp add: held_def sample_user_balances is_active_def sample_balance_def sample_debt_def
        new_balance_def empty_deactivated_def sum_list_replicate)
  have "slots_ok (lending_account sample_user)"
    by (simp add: slots_ok_def unique_banks_distinct integration_count_def sample_user_balances
        is_active_def sample_balance_def sample_debt_def new_balance_def empty_deactivated_def
        const_eval is_integration_asset_tag_def)
  moreover have "holdings_ok pk (lending_account sample_user)" for pk
    by (auto simp: holdings_ok_def sample_user_balances sample_balance_def sample_debt_def
        new_balance_def empty_deactivated_def ONE_def)
  moreover have "bank_ok (sample_fixed_bank p)" "total_asset_shares (sample_fixed_bank p) = 500 * ONE"
    "total_liability_shares (sample_fixed_bank p) = 500 * ONE" for p
    using sample_bank_ok by (simp_all add: sample_fixed_bank_def bank_ok_def sample_bank_def)
  ultimately show ?thesis
    by (auto simp: books_ok_def sample_world_def ran_def held_by_all_def h sample_balance_def
        sample_debt_def new_balance_def ONE_def split: if_splits)
qed

lemma sample_world_borrows:
  "\<exists>a b. protocol_step fx_ref ref_chain sample_world ((fst sample_world)(5 \<mapsto> a), (snd sample_world)(7 \<mapsto> b))"
proof -
  obtain a b ts where r: "lending_account_borrow (sample_env undefined) sample_ta sample_group sample_ais 1
      (sample_user, sample_fixed_bank 1) = Inr (a, b, ts)"
    using sample_borrow by blast
  have "fees_sane sample_group (sample_fixed_bank 1)"
    by (simp add: fees_sane_def sample_fixed_bank_def sample_defs ONE_def)
  then have "solo_ix fx_ref ref_chain 7 (sample_user, sample_fixed_bank 1) (a, b)"
    using solo_ix.borrow [OF r, of fx_ref ref_chain] by (simp add: u64_max_def)
  then have "protocol_step fx_ref ref_chain ([5 \<mapsto> sample_user], snd sample_world)
      ([5 \<mapsto> sample_user](5 \<mapsto> a), (snd sample_world)(7 \<mapsto> b))"
    by (intro protocol_step.everyday world_step.solo) (simp_all add: sample_world_def)
  then show ?thesis by (auto simp: sample_world_def)
qed

theorem protocol_books_hold_witness:
  "\<exists>a b. protocol_step fx_ref ref_chain sample_world ((fst sample_world)(5 \<mapsto> a), (snd sample_world)(7 \<mapsto> b))
     \<and> held_by_all liability_shares 7 (map_option lending_account \<circ> (fst sample_world)(5 \<mapsto> a))
         \<le> total_liability_shares b"
proof -
  obtain a b where s: "protocol_step fx_ref ref_chain sample_world
      ((fst sample_world)(5 \<mapsto> a), (snd sample_world)(7 \<mapsto> b))"
    using sample_world_borrows by blast
  then have "(protocol_step fx_ref ref_chain)\<^sup>*\<^sup>* sample_world
      ((fst sample_world)(5 \<mapsto> a), (snd sample_world)(7 \<mapsto> b))"
    by (rule r_into_rtranclp)
  from protocol_books_hold [OF ref_chain.typed_chain_axioms this sample_world_ok, of 7 b] s
  show ?thesis by auto
qed

section \<open>Health\<close>

lemma init_check_covers:
  assumes "fixed_arith fx" and "fst (check_account_init_health fx lib load clock a ais hc) = Inr ()"
    and "\<not> acc_get_flag a ACCOUNT_IN_FLASHLOAN"
  shows "\<exists>e. new_no_flashloan_check fx lib load clock a ais = Inr e \<and> covered fx lib e"
proof -
  obtain e where e: "new_no_flashloan_check fx lib load clock a ais = Inr e"
    and h: "fst (check_account_health fx lib Initial e hc) = Inr ()"
    using assms(2,3) by (auto simp: check_account_init_health_def split: sum.splits prod.splits)
  then show ?thesis using fixed_arith.check_account_health_sums [OF assms(1) h] engine_complete(2) [OF e] by (auto simp: covered_def)
qed

lemma final_health_covers:
  assumes "final_health env pk b a ais = Inr (hc, p)" and "fixed_arith (e_fx env)"
    and "\<not> acc_get_flag a ACCOUNT_IN_FLASHLOAN"
  shows "\<exists>e. new_no_flashloan_check (e_fx env) (e_lib env) (with_bank pk b (e_load_bank env)) (e_clock env) a ais
      = Inr e \<and> covered (e_fx env) (e_lib env) e"
proof (rule init_check_covers [OF assms(2) _ assms(3)])
  show "fst (check_account_init_health (e_fx env) (e_lib env) (with_bank pk b (e_load_bank env))
      (e_clock env) a ais (Some (HealthCache_zeroed\<lparr>hc_timestamp := e_now env\<rparr>))) = Inr ()"
    using assms(1) by (auto simp: final_health_def split: prod.splits elim!: bindR_InrE)
qed

lemma cache_only:
  assumes "update_bank_cache fx now g b = Inr b'"
  shows "update_cache_price now' p b' = b\<lparr>cache := cache (update_cache_price now' p b'),
    bank_last_update := bank_last_update b'\<rparr>"
  using update_bank_cache_shape [OF assms] by (cases p) (auto simp: update_cache_price_def)

lemma borrow_leaves_healthy:
  assumes "fixed_arith (e_fx env)" and "lending_account_borrow env ta g ais n (a, b) = Inr (a', b', ts)"
    and "\<not> acc_get_flag a ACCOUNT_IN_FLASHLOAN"
  shows "\<exists>mint_ai ais' b1 hc e.
      maybe_take_bank_mint (e_parse_mint env) ais b (ta_token_program ta) = Inr (mint_ai, ais')
    \<and> b' = b1\<lparr>cache := cache b', bank_last_update := bank_last_update b'\<rparr>
    \<and> new_no_flashloan_check (e_fx env) (e_lib env) (with_bank (ta_bank ta) b1 (e_load_bank env))
        (e_clock env) (a'\<lparr>health_cache := hc\<rparr>) ais' = Inr e
    \<and> covered (e_fx env) (e_lib env) e"
  using assms(2)
proof (cases rule: borrow_cases)
  case (1 mint_ai ais' b1 i la k v fee whole debt la' b2 b3 hc p b4)
  have f: "\<not> acc_get_flag (booked env la' a) ACCOUNT_IN_FLASHLOAN" using assms(3) by simp
  obtain e where e: "new_no_flashloan_check (e_fx env) (e_lib env)
      (with_bank (ta_bank ta) b3 (e_load_bank env)) (e_clock env) (booked env la' a) ais' = Inr e"
    "covered (e_fx env) (e_lib env) e"
    using final_health_covers [OF 1(11) assms(1) f] by blast
  have a': "a'\<lparr>health_cache := health_cache (booked env la' a)\<rparr> = booked env la' a" by (simp add: 1)
  have "bank_last_update b' = bank_last_update b4"
    by (cases p) (simp_all add: 1 update_cache_price_def)
  then have "b' = b3\<lparr>cache := cache b', bank_last_update := bank_last_update b'\<rparr>"
    using cache_only [OF 1(12)] by (simp add: 1(14))
  then show ?thesis using 1(2) e a' by metis
qed

lemma withdraw_more:
  assumes "lending_account_withdraw env ta ais n all (g, a, b) = Inr (g', a', b', ts)"
  obtains mint_ai ais' la b3 p where
    "maybe_take_bank_mint (e_parse_mint env) ais b (ta_token_program ta) = Inr (mint_ai, ais')"
    "withdraw_health env (ta_bank ta) b3 (booked env la a) ais' = Inr (a', p)"
    "b' = update_cache_price (e_now env) p b3"
  using assms by (elim withdraw_cases) (rule that, assumption+)

lemma withdraw_health_covers:
  assumes "withdraw_health env key b (booked env la a) ais = Inr (a', p)" and "fixed_arith (e_fx env)"
    and "\<not> acc_get_flag a ACCOUNT_IN_FLASHLOAN" and "\<not> acc_get_flag a ACCOUNT_IN_RECEIVERSHIP"
  shows "\<exists>hc e. new_no_flashloan_check (e_fx env) (e_lib env) (with_bank key b (e_load_bank env))
        (e_clock env) (a'\<lparr>health_cache := hc\<rparr>) ais = Inr e
    \<and> covered (e_fx env) (e_lib env) e"
proof -
  have f: "\<not> acc_get_flag (booked env la a) ACCOUNT_IN_FLASHLOAN" using assms(3) by simp
  obtain hc where h: "final_health env key b (booked env la a) ais = Inr (hc, p)"
    and a': "a' = (booked env la a)\<lparr>health_cache := hc\<rparr>"
    using assms(1,4) by (auto simp: withdraw_health_def elim!: bindE)
  have "a'\<lparr>health_cache := health_cache (booked env la a)\<rparr> = booked env la a" by (simp add: a')
  then show ?thesis using final_health_covers [OF h assms(2) f] by metis
qed

text \<open>Caching a price is a change of the cache.\<close>

lemma update_cache_price_caches:
  "b' = update_cache_price now p b \<Longrightarrow> b' = b\<lparr>cache := cache b', bank_last_update := bank_last_update b'\<rparr>"
  by (cases p) (simp_all add: update_cache_price_def)

lemma withdraw_leaves_healthy:
  assumes "fixed_arith (e_fx env)"
    and "lending_account_withdraw env ta ais n all (g, a, b) = Inr (g', a', b', ts)"
    and "\<not> acc_get_flag a ACCOUNT_IN_FLASHLOAN" and "\<not> acc_get_flag a ACCOUNT_IN_RECEIVERSHIP"
  shows "\<exists>mint_ai ais' b1 hc e.
      maybe_take_bank_mint (e_parse_mint env) ais b (ta_token_program ta) = Inr (mint_ai, ais')
    \<and> b' = b1\<lparr>cache := cache b', bank_last_update := bank_last_update b'\<rparr>
    \<and> new_no_flashloan_check (e_fx env) (e_lib env) (with_bank (ta_bank ta) b1 (e_load_bank env))
        (e_clock env) (a'\<lparr>health_cache := hc\<rparr>) ais' = Inr e
    \<and> covered (e_fx env) (e_lib env) e"
proof -
  obtain mint_ai ais' la b3 p where
    r: "maybe_take_bank_mint (e_parse_mint env) ais b (ta_token_program ta) = Inr (mint_ai, ais')"
      "withdraw_health env (ta_bank ta) b3 (booked env la a) ais' = Inr (a', p)"
      "b' = update_cache_price (e_now env) p b3"
    by (rule withdraw_more [OF assms(2)])
  show ?thesis
    using withdraw_health_covers [OF r(2) assms(1,3,4)] update_cache_price_caches [OF r(3)] r(1) by blast
qed

text \<open>C7: Nobody takes tokens out of an account that is left unhealthy: after every borrow outside a flash
  loan, and every withdrawal outside flash loans and receivership, the risk engine that the account
  loads with the changed bank (up to its caches) and the accounts passed to the instruction holds
  every active balance, values every one of them, and sees the debts covered by the assets at initial
  weights, and an isolated debt only alone. A debt that cannot be priced fails the instruction.\<close>

theorem tokens_leave_healthy_accounts:
  assumes "fixed_arith (e_fx env)" and "\<not> acc_get_flag a ACCOUNT_IN_FLASHLOAN"
    and "lending_account_borrow env ta g ais n (a, b) = Inr (a', b', ts)
      \<or> lending_account_withdraw env ta ais n all (g, a, b) = Inr (g', a', b', ts)
         \<and> \<not> acc_get_flag a ACCOUNT_IN_RECEIVERSHIP"
  shows "\<exists>mint_ai ais' b1 hc e.
      maybe_take_bank_mint (e_parse_mint env) ais b (ta_token_program ta) = Inr (mint_ai, ais')
    \<and> b' = b1\<lparr>cache := cache b', bank_last_update := bank_last_update b'\<rparr>
    \<and> new_no_flashloan_check (e_fx env) (e_lib env) (with_bank (ta_bank ta) b1 (e_load_bank env))
        (e_clock env) (a'\<lparr>health_cache := hc\<rparr>) ais' = Inr e
    \<and> covered (e_fx env) (e_lib env) e"
  using assms(3)
proof (elim disjE conjE)
  assume "lending_account_borrow env ta g ais n (a, b) = Inr (a', b', ts)"
  then show ?thesis by (rule borrow_leaves_healthy [OF assms(1) _ assms(2)])
next
  assume "lending_account_withdraw env ta ais n all (g, a, b) = Inr (g', a', b', ts)"
    and "\<not> acc_get_flag a ACCOUNT_IN_RECEIVERSHIP"
  then show ?thesis by (rule withdraw_leaves_healthy [OF assms(1) _ assms(2)])
qed

theorem tokens_leave_healthy_accounts_witness:
  "\<forall>lib. \<exists>a' b1 hc e. new_no_flashloan_check fx_ref lib (with_bank 7 b1 sample_load_bank)
     (e_clock (sample_env lib)) (a'\<lparr>health_cache := hc\<rparr>) sample_ais = Inr e \<and> covered fx_ref lib e"
proof
  fix lib
  obtain a b ts where r: "lending_account_borrow (sample_env lib) sample_ta sample_group sample_ais 1
      (sample_user, sample_fixed_bank 1) = Inr (a, b, ts)"
    using sample_borrow by blast
  have fa: "fixed_arith (e_fx (sample_env lib))" using ref.fixed_arith_axioms by simp
  have fl: "\<not> acc_get_flag sample_user ACCOUNT_IN_FLASHLOAN" by (simp add: sample_user_flags)
  show "\<exists>a' b1 hc e. new_no_flashloan_check fx_ref lib (with_bank 7 b1 sample_load_bank)
      (e_clock (sample_env lib)) (a'\<lparr>health_cache := hc\<rparr>) sample_ais = Inr e \<and> covered fx_ref lib e"
    using tokens_leave_healthy_accounts [OF fa fl disjI1 [OF r]] by (simp add: maybe_take_bank_mint_def) blast
qed

section \<open>The pause\<close>

text \<open>C22: While the protocol is paused, no instruction that moves tokens, debts or collateral runs:
  deposits, withdrawals, borrows, repayments, emission withdrawals, liquidations, bankruptcies,
  account transfers and the deposits to and withdrawals from other lending programs all fail with ProtocolPaused, whatever else is wrong with them.\<close>

theorem paused_protocol_stops_users:
  assumes "is_protocol_paused g (e_now env) = Inr True"
  shows "lending_account_deposit env ta g ais n up (a, b) = Inl (Err ProtocolPaused)
    \<and> lending_account_withdraw env ta ais n all (g, a, b) = Inl (Err ProtocolPaused)
    \<and> lending_account_borrow env ta g ais n (a, b) = Inl (Err ProtocolPaused)
    \<and> lending_account_repay env ta g ais n all (a, b) = Inl (Err ProtocolPaused)
    \<and> lending_account_withdraw_emissions env ta ea g (a, b) = Inl (Err ProtocolPaused)
    \<and> lending_account_withdraw_emissions_permissionless ata env ta ea g (a, b) = Inl (Err ProtocolPaused)
    \<and> lending_account_liquidate env lq g ais n k1 k2 (a, a2, b, b2) = Inl (Err ProtocolPaused)
    \<and> lending_pool_handle_bankruptcy env bk g ais (a, b) = Inl (Err ProtocolPaused)
    \<and> transfer_to_new_account tf (e_now env) g a = Inl (Err ProtocolPaused)
    \<and> transfer_to_new_account_pda mrgn_id rules tx bump tf (e_now env) g index third_party a
        = Inl (Err ProtocolPaused)
    \<and> kamino_deposit ch env ka g n (a, b, w) = Inl (Err ProtocolPaused)
    \<and> kamino_withdraw ch env ka ais n all (g, a, b, w) = Inl (Err ProtocolPaused)
    \<and> drift_deposit ch env da g n (a, b, w) = Inl (Err ProtocolPaused)
    \<and> drift_withdraw ch env da ais n all (g, a, b, w) = Inl (Err ProtocolPaused)
    \<and> solend_deposit ch env so g n (a, b, w) = Inl (Err ProtocolPaused)
    \<and> solend_withdraw ch env so ais n all (g, a, b, w) = Inl (Err ProtocolPaused)"
proof -
  have p: "not_paused g (e_now env) = Inl (Err ProtocolPaused)" using assms by (simp add: not_paused_def check_def)
  show ?thesis
    by (simp add: p lending_account_deposit_def deposit_guards_def lending_account_withdraw_def
        withdraw_guards_def lending_account_borrow_def borrow_guards_def lending_account_repay_def
        repay_guards_def lending_account_withdraw_emissions_def
        lending_account_withdraw_emissions_permissionless_def lending_account_liquidate_def
        liq_constraints_def lending_pool_handle_bankruptcy_def bankruptcy_constraints_def
        transfer_to_new_account_def transfer_to_new_account_pda_def transfer_guards_def Let_def user_constraints_def
        kamino_deposit_def kamino_deposit_guards_def kamino_withdraw_def kamino_withdraw_guards_def
        drift_deposit_def drift_deposit_guards_def drift_withdraw_def drift_withdraw_guards_def
        solend_deposit_def solend_withdraw_def solend_guards_def)
qed

definition paused_group :: MarginfiGroup where
  "paused_group = sample_group\<lparr>panic_state_cache := \<lparr>pc_pause_flags = 1, pc_pause_start_timestamp = 90,
     pc_last_cache_update = 90\<rparr>\<rparr>"

lemma paused_group_paused: "is_protocol_paused paused_group (e_now (sample_env lib)) = Inr True"
  by (simp add: is_protocol_paused_def paused_group_def pc_is_paused_flag_def flag_eval pc_is_expired_def
      i64_op_def in_i64_def PAUSE_DURATION_SECONDS_def FLAG_PAUSED_def)

theorem paused_protocol_stops_users_witness:
  "\<forall>lib a b. lending_account_borrow (sample_env lib) sample_ta paused_group [] 1 (a, b) = Inl (Err ProtocolPaused)"
  by (intro allI) (rule paused_protocol_stops_users [OF paused_group_paused, THEN conjunct2, THEN conjunct2,
      THEN conjunct1])

end
