(* ===== verification/PoolIx.thy ===== *)
theory PoolIx
  imports SolendIx BankIx
begin

text \<open>
  Adding banks on other lending programs (\<open>state/kamino.rs\<close>, \<open>state/drift.rs\<close>, \<open>state/solend.rs\<close> and the
  three \<open>add_pool.rs\<close>), the seeded and the cloning variants of adding a bank, and the metadata of a
  bank.
\<close>

section \<open>Configurations of integration banks\<close>

text \<open>The three compact configurations have the same fields.\<close>

record IntegrationConfigCompact =
  ic_oracle :: pubkey
  ic_asset_weight_init :: I80F48
  ic_asset_weight_maint :: I80F48
  ic_deposit_limit :: u64
  ic_oracle_setup :: OracleSetup
  ic_operational_state :: BankOperationalState
  ic_risk_tier :: RiskTier
  ic_config_flags :: "8 word"
  ic_total_asset_value_init_limit :: u64
  ic_oracle_max_age :: u16
  ic_oracle_max_confidence :: u32

definition placeholder_ir_config :: "fixed_ops \<Rightarrow> InterestRateConfig" where
  "placeholder_ir_config fx = InterestRateConfig_default\<lparr>
     optimal_utilization_rate := 0, plateau_interest_rate := 0, max_interest_rate := 0,
     protocol_fixed_fee_apr := 0, insurance_ir_fee := decimal fx 1 1,
     zero_util_rate := 0, hundred_util_rate := 1234567,
     points := make_points [\<lparr>util = 12345, rate = 123456\<rparr>],
     curve_type := INTEREST_CURVE_SEVEN_POINT\<rparr>"

definition integration_bank_config ::
  "fixed_ops \<Rightarrow> u8 \<Rightarrow> IntegrationConfigCompact \<Rightarrow> pubkey \<Rightarrow> BankConfig" where
  "integration_bank_config fx tag c key = \<lparr>
     asset_weight_init = ic_asset_weight_init c, asset_weight_maint = ic_asset_weight_maint c,
     liability_weight_init = decimal fx 15 1, liability_weight_maint = decimal fx 125 2,
     deposit_limit = ic_deposit_limit c, interest_rate_config = placeholder_ir_config fx,
     operational_state = ic_operational_state c, oracle_setup = ic_oracle_setup c,
     oracle_keys = [ic_oracle c, key, default_key, default_key, default_key],
     borrow_limit = 0, risk_tier = ic_risk_tier c, asset_tag = tag, config_flags = ic_config_flags c,
     total_asset_value_init_limit = ic_total_asset_value_init_limit c,
     oracle_max_age = ic_oracle_max_age c, oracle_max_confidence = ic_oracle_max_confidence c,
     fixed_price = 0\<rparr>"

definition kamino_bank_config where
  "kamino_bank_config fx c reserve_key = integration_bank_config fx ASSET_TAG_KAMINO c reserve_key"

definition drift_bank_config where
  "drift_bank_config fx c spot_market_key = integration_bank_config fx ASSET_TAG_DRIFT c spot_market_key"

definition solend_bank_config where
  "solend_bank_config fx c reserve_key = integration_bank_config fx ASSET_TAG_SOLEND c reserve_key"

definition KaminoConfigCompact_default :: "fixed_ops \<Rightarrow> IntegrationConfigCompact" where
  "KaminoConfigCompact_default fx = \<lparr>ic_oracle = default_key,
     ic_asset_weight_init = decimal fx 8 1, ic_asset_weight_maint = decimal fx 9 1,
     ic_deposit_limit = 1000000, ic_oracle_setup = KaminoPythPush,
     ic_operational_state = Operational, ic_risk_tier = Collateral,
     ic_config_flags = PYTH_PUSH_MIGRATED_DEPRECATED, ic_total_asset_value_init_limit = 1000000,
     ic_oracle_max_age = 10, ic_oracle_max_confidence = 0\<rparr>"

definition DriftConfigCompact_default :: "fixed_ops \<Rightarrow> IntegrationConfigCompact" where
  "DriftConfigCompact_default fx = (KaminoConfigCompact_default fx)
     \<lparr>ic_oracle_setup := DriftPythPull, ic_oracle_max_age := 60\<rparr>"

definition SolendConfigCompact_default :: "fixed_ops \<Rightarrow> IntegrationConfigCompact" where
  "SolendConfigCompact_default fx = (KaminoConfigCompact_default fx)
     \<lparr>ic_oracle_setup := SolendPythPull, ic_oracle_max_age := 60\<rparr>"

section \<open>Adding integration banks\<close>

text \<open>The new bank, with its position in the other program, once the configuration passes.\<close>

definition add_integration_bank ::
  "oracle_lib \<Rightarrow> stake_keys \<Rightarrow> i64 \<Rightarrow> new_bank_accounts \<Rightarrow> BankConfig \<Rightarrow> pubkey \<times> pubkey \<times> pubkey
    \<Rightarrow> AccountInfo list \<Rightarrow> MarginfiGroup \<Rightarrow> (Bank \<times> MarginfiGroup) res" where
  "add_integration_bank lib sk now nb c accs ais g = (case accs of (acc1, acc2, acc3) \<Rightarrow>
     let b = (bank_of_accounts nb c now)
           \<lparr>integration_acc_1 := acc1, integration_acc_2 := acc2, integration_acc_3 := acc3\<rparr>
     in bindR (config_validate c) (\<lambda>_.
        bindR (validate_bank_config lib sk c ais None) (\<lambda>_. Inr (b, add_bank now g))))"

definition lending_pool_add_bank_kamino ::
  "fixed_ops \<Rightarrow> oracle_lib \<Rightarrow> stake_keys \<Rightarrow> i64 \<Rightarrow> pubkey \<Rightarrow> new_bank_accounts \<Rightarrow> IntegrationConfigCompact
    \<Rightarrow> pubkey \<times> MinimalReserve \<Rightarrow> pubkey \<Rightarrow> AccountInfo list \<Rightarrow> MarginfiGroup
    \<Rightarrow> (Bank \<times> MarginfiGroup) res" where
  "lending_pool_add_bank_kamino fx lib sk now signer nb c reserve obligation ais g =
     bindR (check (admin g = signer) Unauthorized) (\<lambda>_.
     bindR (check (kr_mint_pubkey (snd reserve) = nb_mint nb) KaminoReserveMintAddressMismatch) (\<lambda>_.
     bindR (check (ic_oracle_setup c \<in> {KaminoPythPush, KaminoSwitchboardPull}) KaminoInvalidOracleSetup)
       (\<lambda>_.
     add_integration_bank lib sk now nb (kamino_bank_config fx c (fst reserve))
       (fst reserve, obligation, default_key) ais g)))"

definition lending_pool_add_bank_drift ::
  "fixed_ops \<Rightarrow> oracle_lib \<Rightarrow> stake_keys \<Rightarrow> i64 \<Rightarrow> pubkey \<Rightarrow> new_bank_accounts \<Rightarrow> IntegrationConfigCompact
    \<Rightarrow> pubkey \<times> MinimalSpotMarket \<Rightarrow> pubkey \<Rightarrow> pubkey \<Rightarrow> AccountInfo list \<Rightarrow> MarginfiGroup
    \<Rightarrow> (Bank \<times> MarginfiGroup) res" where
  "lending_pool_add_bank_drift fx lib sk now signer nb c market user user_stats ais g =
     bindR (check (admin g = signer) Unauthorized) (\<lambda>_.
     bindR (check (sm_mint (snd market) = nb_mint nb) DriftSpotMarketMintMismatch) (\<lambda>_.
     bindR (check (ic_oracle_setup c \<in> {DriftPythPull, DriftSwitchboardPull}) DriftInvalidOracleSetup)
       (\<lambda>_.
     bindR (check (nb_decimals nb \<le> DRIFT_PRECISION_EXP) DriftUnsupportedTokenDecimals) (\<lambda>_.
     add_integration_bank lib sk now nb (drift_bank_config fx c (fst market))
       (fst market, user, user_stats) ais g))))"

definition lending_pool_add_bank_solend ::
  "fixed_ops \<Rightarrow> oracle_lib \<Rightarrow> stake_keys \<Rightarrow> i64 \<Rightarrow> pubkey \<Rightarrow> new_bank_accounts \<Rightarrow> IntegrationConfigCompact
    \<Rightarrow> pubkey \<times> SolendMinimalReserve \<Rightarrow> pubkey \<Rightarrow> AccountInfo list \<Rightarrow> MarginfiGroup
    \<Rightarrow> (Bank \<times> MarginfiGroup) res" where
  "lending_pool_add_bank_solend fx lib sk now signer nb c reserve obligation ais g =
     bindR (check (admin g = signer) Unauthorized) (\<lambda>_.
     bindR (check (sr_liquidity_mint_pubkey (snd reserve) = nb_mint nb) SolendReserveMintMismatch) (\<lambda>_.
     bindR (check (ic_oracle_setup c \<in> {SolendPythPull, SolendSwitchboardPull}) SolendInvalidOracleSetup)
       (\<lambda>_.
     add_integration_bank lib sk now nb (solend_bank_config fx c (fst reserve))
       (fst reserve, obligation, default_key) ais g)))"

section \<open>Seeded and cloned banks\<close>

text \<open>The seed only chooses the address of the bank.\<close>

definition lending_pool_add_bank_with_seed ::
  "pubkey \<Rightarrow> pubkey \<Rightarrow> pubkey \<Rightarrow> i64 \<Rightarrow> FeeState \<Rightarrow> new_bank_accounts \<Rightarrow> BankConfigCompact \<Rightarrow> u64
    \<Rightarrow> MarginfiGroup \<Rightarrow> (Bank \<times> MarginfiGroup \<times> Transfer list) res" where
  "lending_pool_add_bank_with_seed signer payer fee_wallet now fs nb bank_config bank_seed g =
     bindR (check (admin g = signer) Unauthorized) (\<lambda>_.
     bindR (check (global_fee_wallet fs = fee_wallet) InvalidFeeWallet) (\<lambda>_.
     bindR (check (c_asset_tag bank_config = ASSET_TAG_DEFAULT \<or> c_asset_tag bank_config = ASSET_TAG_SOL)
              WrongAssetTagForStandardInstructions) (\<lambda>_.
     let b = bank_of_accounts nb (config_from_compact bank_config) now
     in bindR (config_validate (config b)) (\<lambda>_. Inr (b, add_bank now g, flat_fee fs payer)))))"

text \<open>
  Cloning a bank of the mainnet program into a staging deployment, \<open>crate_id\<close> being the key the
  program is built for, which the build chooses. The source is given by its owner and, when its data
  decode as a bank, its contents.
\<close>

definition MAINNET_PROGRAM_ID :: pubkey where
  "MAINNET_PROGRAM_ID = 2347220691806293639428827900514996093801988534716016008815348639507076233019"
definition STAGING_ID :: pubkey where
  "STAGING_ID = 5896609708262927174937461825114276545155940430380787530314518354535781068441"
definition LOCALNET_ID :: pubkey where
  "LOCALNET_ID = 11618501659618320377656151960194191673430384325456595556394836243982298919245"

definition lending_pool_clone_bank ::
  "pubkey \<Rightarrow> pubkey \<Rightarrow> i64 \<Rightarrow> new_bank_accounts \<Rightarrow> pubkey \<times> Bank option \<Rightarrow> MarginfiGroup
    \<Rightarrow> (Bank \<times> MarginfiGroup) res" where
  "lending_pool_clone_bank crate_id signer now nb source g =
     bindR (check (admin g = signer) Unauthorized) (\<lambda>_.
     if crate_id \<noteq> STAGING_ID \<and> crate_id \<noteq> LOCALNET_ID then Inl Panic
     else if crate_id = MAINNET_PROGRAM_ID then Inl Panic
     else
       bindR (check (fst source = MAINNET_PROGRAM_ID) InvalidBankAccount) (\<lambda>_.
       bindR (ok_or InvalidBankAccount (snd source)) (\<lambda>src.
       bindR (check (nb_mint nb = mint src) InvalidBankAccount) (\<lambda>_.
       bindR (check (nb_decimals nb = mint_decimals src) InvalidBankAccount) (\<lambda>_.
       Inr ((bank_of_accounts nb (config src) now)
              \<lparr>bank_flags := bank_flags src, emissions_rate := emissions_rate src,
               emissions_mint := emissions_mint src, emode := emode src,
               fees_destination_account := fees_destination_account src\<rparr>,
            add_bank now g))))))"

section \<open>Metadata\<close>

record BankMetadata =
  md_bank :: pubkey
  md_placeholder :: u64
  md_ticker :: "u8 list"
  md_description :: "u8 list"
  md_data_blob :: "u8 list"
  md_end_description_byte :: u16
  md_end_data_blob :: u16
  md_end_ticker_byte :: u8
  md_bump :: u8

definition BankMetadata_zeroed :: BankMetadata where
  "BankMetadata_zeroed = \<lparr>md_bank = default_key, md_placeholder = 0, md_ticker = replicate 64 0,
     md_description = replicate 128 0, md_data_blob = replicate 256 0, md_end_description_byte = 0,
     md_end_data_blob = 0, md_end_ticker_byte = 0, md_bump = 0\<rparr>"

definition init_bank_metadata :: "pubkey \<Rightarrow> u8 \<Rightarrow> BankMetadata" where
  "init_bank_metadata bank_key bump = BankMetadata_zeroed\<lparr>md_bank := bank_key, md_bump := bump\<rparr>"

text \<open>The new bytes over zeros, and the index of the last one.\<close>

definition fill_bytes :: "u8 list \<Rightarrow> u8 list \<Rightarrow> (u8 list \<times> nat) res" where
  "fill_bytes old bytes =
     (if length bytes > length old then Inl (Err MetadataTooLong)
      else Inr (bytes @ replicate (length old - length bytes) 0,
                if bytes = [] then 0 else length bytes - 1))"

definition write_bank_metadata ::
  "pubkey \<Rightarrow> pubkey \<Rightarrow> pubkey \<Rightarrow> MarginfiGroup \<Rightarrow> Bank \<Rightarrow> u8 list option \<Rightarrow> u8 list option
    \<Rightarrow> BankMetadata \<Rightarrow> BankMetadata res" where
  "write_bank_metadata signer group_key bank_key g b ticker description md =
     bindR (constraint (metadata_admin g = signer)) (\<lambda>_.
     bindR (constraint (bank_group b = group_key)) (\<lambda>_.
     bindR (constraint (md_bank md = bank_key)) (\<lambda>_.
     bindR (case ticker of None \<Rightarrow> Inr md
            | Some bytes \<Rightarrow> bindR (fill_bytes (md_ticker md) bytes) (\<lambda>(filled, end_byte).
                Inr (md\<lparr>md_ticker := filled, md_end_ticker_byte := end_byte mod 256\<rparr>))) (\<lambda>md1.
     case description of None \<Rightarrow> Inr md1
     | Some bytes \<Rightarrow> bindR (fill_bytes (md_description md1) bytes) (\<lambda>(filled, end_byte).
         Inr (md1\<lparr>md_description := filled, md_end_description_byte := end_byte mod 65536\<rparr>))))))"

end
