(* ===== verification/IntegrationProps.thy ===== *)
theory IntegrationProps
  imports ProtocolProps PoolIx
begin

text \<open>
  The properties of banks on other lending programs: their positions cover what they owe, their
  withdrawals leave healthy accounts, and what moves between the user, the vault and the other
  program. The samples run a deposit of 10 tokens into a Kamino bank, and its full withdrawal, in the
  world of \<open>RefChain\<close>.
\<close>

section \<open>A sample bank on Kamino\<close>

definition vault_bank :: Bank where
  "vault_bank = sample_bank\<lparr>asset_share_value := ONE, total_asset_shares := 500 * ONE,
     total_liability_shares := 0, config := sample_config\<lparr>asset_tag := ASSET_TAG_KAMINO\<rparr>,
     integration_acc_1 := 40, integration_acc_2 := 41\<rparr>"

definition saver :: MarginfiAccount where
  "saver = account_initialize 1 5 100 MarginfiAccount_zeroed"

definition sample_ka :: kamino_accounts where
  "sample_ka = \<lparr>in_group = 1, in_bank = 7, in_authority = 5, in_user_tokens = 30, in_liquidity_vault = 3,
     in_vault_authority = 31, in_mint = 2, in_acc_1 = 40, in_acc_2 = 41, ka_lending_market = 50,
     ka_lending_market_authority = 55, ka_reserve_liquidity_supply = 51, ka_reserve_collateral_mint = 53,
     ka_reserve_collateral = 54, ka_obligation_farm_user_state = None, ka_reserve_farm_state = None,
     ka_kamino_program = KAMINO_PROGRAM_ID, ka_farms_program = FARMS_PROGRAM_ID,
     ka_collateral_token_program = 60, ka_liquidity_token_program = 60, ka_instruction_sysvar = 61\<rparr>"

definition start_world :: ref_world where
  "start_world = \<lparr>rw_tokens = (\<lambda>_. 0)(30 := 100), rw_position = (\<lambda>_. 0)(41 := 500)\<rparr>"

definition paid_world :: ref_world where
  "paid_world = \<lparr>rw_tokens = (\<lambda>_. 0)(30 := 90), rw_position = (\<lambda>_. 0)(41 := 510)\<rparr>"

lemmas world_eval = start_world_def paid_world_def sample_ka_def ref_call_def ref_in_def ref_out_def
  ref_transfer_def transfer_in_def transfer_out_def cpi_key_def cpi_kamino_deposit_def deposit_accounts_def
  cpi_kamino_withdraw_def farms_accounts_def

lemma sample_deposit_world:
  "ref_transfer (transfer_in sample_ka 10) start_world
     = Inr (start_world\<lparr>rw_tokens := (\<lambda>_. 0)(30 := 90, 3 := 10)\<rparr>)"
  "ref_call (cpi_kamino_deposit sample_ka b 10) (start_world\<lparr>rw_tokens := (\<lambda>_. 0)(30 := 90, 3 := 10)\<rparr>)
     = Inr paid_world"
  by (simp_all add: world_eval fun_eq_iff)

lemma sample_positions [simp]: "rw_position start_world 41 = 500" "rw_position paid_world 41 = 510"
  by (simp_all add: start_world_def paid_world_def)

lemma sample_first_deposited: "first_deposited ref_chain sample_ka w
    = bindR (read_u64 (rw_position w 41)) (\<lambda>n. Inr n)"
  by (simp add: first_deposited_def ref_chain_def first_deposit_def sample_ka_def read_u64_def)

lemma sample_guards: "kamino_deposit_guards ref_chain (sample_env lib) sample_ka sample_group saver vault_bank start_world
    = Inr ()"
  by (simp add: kamino_deposit_guards_def user_constraints_def position_constraints_def mint_and_tag_def
      guard_eval account_eval saver_def vault_bank_def sample_ka_def sample_defs flag_eval ref_chain_def
      start_world_def read_u64_def first_deposit_matches_def first_deposit_def only_first_deposit_def
      kamino_programs_def constraint_def is_kamino_asset_tag_def u64_max_def)

lemma sample_expected: "kamino_liquidity_to_collateral fx_ref 10 ref_kamino_reserve = Inr 10"
  by (simp add: kamino_liquidity_to_collateral_def kamino_scaled_supplies_def kamino_total_supply_def
      ref_kamino_reserve_def u68f60_to_i80f48_def scale_supplies_def exp_10_get_def MAX_EXP_10_I80F48_def
      liquidity_to_collateral_from_scaled_def none_to_def fx_eval opt_def)

lemma sample_ready: "deposit_ready saver vault_bank = Inr ()"
  by (simp add: deposit_ready_def validate_asset_tags_def saver_def account_eval scan_tags_empty vault_bank_def
      sample_defs asset_tag_defs validate_bank_state_def check_def flag_eval MAX_LENDING_ACCOUNT_BALANCES_def)

text \<open>The deposit gives the account a balance of 10 units.\<close>

definition vault_balance :: Balance where
  "vault_balance = (new_balance 7 ASSET_TAG_KAMINO 100)\<lparr>asset_shares := 10 * ONE\<rparr>"

definition saved :: LendingAccount where
  "saved = \<lparr>balances = vault_balance # replicate 15 empty_deactivated\<rparr>"

definition fuller_bank :: Bank where
  "fuller_bank = (increment_lending_position_count vault_bank)\<lparr>total_asset_shares := 510 * ONE\<rparr>"

lemma saver_balances: "balances (lending_account saver) = empty_deactivated # replicate 15 empty_deactivated"
proof -
  have "balances (lending_account saver) = replicate (Suc 15) empty_deactivated"
    by (simp add: saver_def account_initialize_def MarginfiAccount_zeroed_def MAX_LENDING_ACCOUNT_BALANCES_def)
  then show ?thesis by (simp only: replicate_Suc)
qed

lemma empty_inactive: "\<not> is_active empty_deactivated"
  by (simp add: is_active_def empty_deactivated_def)

lemma sample_open: "find_or_create 100 7 vault_bank (lending_account saver)
    = Inr (0, \<lparr>balances = new_balance 7 ASSET_TAG_KAMINO 100 # replicate 15 empty_deactivated\<rparr>)"
proof -
  have none: "position (\<lambda>b. is_active b \<and> bank_pk b = 7) (replicate 15 empty_deactivated) = None"
    by (simp add: position_None empty_inactive)
  have zero: "integration_count (lending_account saver) = 0"
    by (simp add: integration_count_def saver_balances empty_inactive)
  have "asset_tag (config vault_bank) = ASSET_TAG_KAMINO" by (simp add: vault_bank_def)
  then show ?thesis
    by (simp add: find_or_create_def saver_balances none zero empty_inactive get_first_empty_balance_def
        MAX_INTEGRATION_POSITIONS_def)
qed

lemma sample_credit: "deposit_no_repay fx_ref 100 (10 * ONE) (new_balance 7 ASSET_TAG_KAMINO 100, vault_bank)
    = Inr (vault_balance, fuller_bank)"
  by (simp add: deposit_no_repay_def wrapper_eval bank_eval vault_bank_def sample_defs vault_balance_def
      fuller_bank_def const_eval fx_eval)

lemma sample_vault_deposit: "\<exists>a b. kamino_deposit ref_chain (sample_env lib) sample_ka sample_group 10
    (saver, vault_bank, start_world) = Inr (a, b, paid_world)"
proof -
  have ten: "amount_num (sample_env lib) 10 = Inr (10 * ONE)" by (simp add: amount_num_def fx_eval)
  have cache: "\<exists>b. update_bank_cache fx_ref 100 sample_group fuller_bank = Inr b"
    by (simp add: update_bank_cache_def fuller_bank_def vault_bank_def sample_defs bank_eval fx_eval)
  have run: "run_at 0 (deposit_no_repay fx_ref 100 (10 * ONE))
      \<lparr>balances = new_balance 7 ASSET_TAG_KAMINO 100 # replicate 15 empty_deactivated\<rparr> vault_bank
      = Inr (saved, fuller_bank)"
    by (simp add: run_at_def at_balance_def sample_credit saved_def)
  have "in_bank sample_ka = 7" by (simp add: sample_ka_def)
  then have "\<exists>a b. credit_position (sample_env lib) (in_bank sample_ka) sample_group 10 saver vault_bank = Inr (a, b)"
    using cache by (auto simp: credit_position_def sample_open ten run)
  then show ?thesis
    by (auto simp: kamino_deposit_def sample_guards sample_ready sample_first_deposited read_u64_def
        sample_expected sample_deposit_world sub_u64_def checked_sub_nat_def u64_max_def
        assert_within_one_token_def)
qed

section \<open>Positions cover what is owed\<close>

text \<open>C6: A bank on Kamino, Drift or Solend never owes its users more than its position in the other
  program holds: whatever deposits and withdrawals whichever users make in whichever order, between
  any instructions that leave the bank's debts alone and while the position earns outside, what the
  users are owed (deposits less debts, in units of the position) stays within the position, up to one
  unit for each withdrawal from Solend, whose check allows it.\<close>

theorem integration_positions_backed:
  assumes "lending_chain fx ch" and "vault_run fx ch pk n (s, w) (s', w')" and "books_ok (books_of s)"
    and "snd s pk = Some b" and "unit_shares b" and "bank_position ch b w = Inr i"
    and "units_owed b \<le> int i * ONE"
  shows "\<exists>b' f. snd s' pk = Some b' \<and> bank_position ch b' w' = Inr f
    \<and> units_owed b' \<le> int (f + n) * ONE"
proof -
  have "vault_ok ch pk 0 (s, w)" using assms by (simp add: vault_ok_def backed_def)
  then have "vault_ok ch pk n (s', w')" using lending_chain.vault_run_ok [OF assms(1,2), of 0] by simp
  then show ?thesis by (auto simp: vault_ok_def backed_def)
qed

lemma vault_bank_books: "books_ok (books_of ([5 \<mapsto> saver], [7 \<mapsto> vault_bank]))"
proof -
  have none: "is_active b \<longleftrightarrow> False" if "b \<in> set (balances (lending_account saver))" for b
    using that by (auto simp: saver_balances empty_inactive)
  have "\<not> is_active (balances (lending_account saver) ! i)" if "i < length (balances (lending_account saver))" for i
    using none [OF nth_mem [OF that]] by simp
  then have "slots_ok (lending_account saver)"
    using none by (simp add: slots_ok_def unique_banks_def integration_count_def saver_balances
        MAX_LENDING_ACCOUNT_BALANCES_def MAX_INTEGRATION_POSITIONS_def empty_inactive)
  moreover have "holdings_ok pk (lending_account saver)" for pk
    using none by (auto simp: holdings_ok_def)
  moreover have "held f pk (lending_account saver) = 0" for f pk
    by (simp add: held_def saver_balances empty_inactive sum_list_replicate)
  moreover have "bank_ok vault_bank" using sample_bank_ok by (simp add: bank_ok_def vault_bank_def fx_eval)
  ultimately show ?thesis
    by (auto simp: books_ok_def ran_def held_by_all_def vault_bank_def ONE_def split: if_splits)
qed

lemma vault_bank_units: "unit_shares vault_bank" "units_owed vault_bank = 500 * ONE"
  by (simp_all add: unit_shares_def units_owed_def vault_bank_def sample_defs)

lemma vault_bank_position: "bank_position ref_chain vault_bank w = bindR (read_u64 (rw_position w 41)) (\<lambda>n. Inr n)"
  by (simp add: bank_position_def vault_bank_def is_kamino_asset_tag_def ref_chain_def first_deposit_def read_u64_def)

lemma sample_kamino_in:
  obtains a b where "kamino_in fx_ref ref_chain 7 (saver, vault_bank, start_world) (a, b, paid_world)"
proof -
  obtain a b where r: "kamino_deposit ref_chain (sample_env undefined) sample_ka sample_group 10
      (saver, vault_bank, start_world) = Inr (a, b, paid_world)"
    using sample_vault_deposit by blast
  have "in_bank sample_ka = 7" by (simp add: sample_ka_def)
  then show thesis using that kamino_in.intros [OF r, of fx_ref] by simp
qed

lemma sample_vault_step:
  obtains a b where "vault_step fx_ref ref_chain 7 0 (([5 \<mapsto> saver], [7 \<mapsto> vault_bank]), start_world)
    (([5 \<mapsto> saver](5 \<mapsto> a), [7 \<mapsto> vault_bank](7 \<mapsto> b)), paid_world)"
proof -
  obtain a b where "kamino_in fx_ref ref_chain 7 (saver, vault_bank, start_world) (a, b, paid_world)"
    by (rule sample_kamino_in)
  then show thesis by (intro that vault_step.deposit disjI1) simp_all
qed

theorem integration_positions_backed_witness:
  "\<exists>a b f. vault_run fx_ref ref_chain 7 0 (([5 \<mapsto> saver], [7 \<mapsto> vault_bank]), start_world)
      (([5 \<mapsto> saver](5 \<mapsto> a), [7 \<mapsto> vault_bank](7 \<mapsto> b)), paid_world)
    \<and> bank_position ref_chain b paid_world = Inr f \<and> units_owed b \<le> int (f + 0) * ONE"
proof -
  obtain a b where "vault_step fx_ref ref_chain 7 0 (([5 \<mapsto> saver], [7 \<mapsto> vault_bank]), start_world)
      (([5 \<mapsto> saver](5 \<mapsto> a), [7 \<mapsto> vault_bank](7 \<mapsto> b)), paid_world)"
    by (rule sample_vault_step)
  from vault_run.more [OF vault_run.none this]
  have r: "vault_run fx_ref ref_chain 7 0 (([5 \<mapsto> saver], [7 \<mapsto> vault_bank]), start_world)
      (([5 \<mapsto> saver](5 \<mapsto> a), [7 \<mapsto> vault_bank](7 \<mapsto> b)), paid_world)" by simp
  have p: "bank_position ref_chain vault_bank start_world = Inr 500"
    by (simp add: vault_bank_position read_u64_def u64_max_def)
  have u: "units_owed vault_bank \<le> int 500 * ONE" by (simp add: vault_bank_units)
  have s: "snd ([5 \<mapsto> saver], [7 \<mapsto> vault_bank]) 7 = Some vault_bank" by simp
  show ?thesis
    using integration_positions_backed [OF ref_chain.lending_chain_axioms r vault_bank_books s vault_bank_units(1) p u] r
    by auto
qed

text \<open>C9: A deposit to Kamino, Drift or Solend credits the user with exactly what the bank's position in
  the other program has grown by, in units of the position, whatever the tokens sent were worth: the
  user's account and the bank's books grow by the same amount, and the position does not shrink.\<close>

theorem integration_deposits_credit_growth:
  assumes "lending_chain fx ch"
    and "kamino_in fx ch pk (a, b, w) (a', b', w') \<or> drift_in fx ch pk (a, b, w) (a', b', w')
      \<or> solend_in fx ch pk (a, b, w) (a', b', w')"
    and "account_inv pk ra rl others (lending_account a, b)" and "unit_shares b"
  shows "same_place b b' \<and> (\<exists>i f. bank_position ch b w = Inr i \<and> bank_position ch b' w' = Inr f \<and> i \<le> f
    \<and> units_owed b' = units_owed b + int (f - i) * ONE
    \<and> account_units pk (lending_account a') = account_units pk (lending_account a) + int (f - i) * ONE)"
proof -
  note ops = lending_chain.kamino_backed_deposit [OF assms(1)] lending_chain.drift_backed_deposit [OF assms(1)]
    lending_chain.solend_backed_deposit [OF assms(1)]
  show ?thesis using assms(2) by (elim disjE) (rule ops [OF _ assms(3,4)], assumption)+
qed

theorem integration_deposits_credit_growth_witness:
  "\<exists>a b. kamino_in fx_ref ref_chain 7 (saver, vault_bank, start_world) (a, b, paid_world)
     \<and> units_owed b = 510 * ONE
     \<and> account_units 7 (lending_account a) = account_units 7 (lending_account saver) + 10 * ONE"
proof -
  obtain a b where k: "kamino_in fx_ref ref_chain 7 (saver, vault_bank, start_world) (a, b, paid_world)"
    by (rule sample_kamino_in)
  have "books_ok ([5 \<mapsto> lending_account saver], [7 \<mapsto> vault_bank])"
    using vault_bank_books by (simp add: books_of_def)
  from books_account [OF this, of 5 "lending_account saver" 7 vault_bank]
  obtain ra rl where i: "account_inv 7 ra rl (elsewhere 7 (lending_account saver)) (lending_account saver, vault_bank)"
    by auto
  note p = integration_deposits_credit_growth [OF ref_chain.lending_chain_axioms disjI1 [OF k] i vault_bank_units(1)]
  then have "bank_position ref_chain b = bank_position ref_chain vault_bank" using bank_position_place by blast
  then show ?thesis
    using p k by (auto simp: vault_bank_position read_u64_def u64_max_def vault_bank_units)
qed

section \<open>Withdrawals\<close>

lemma finish_leaves_healthy:
  assumes "withdraw_finish env key ais la a b = Inr (a', b')" and "fixed_arith (e_fx env)"
    and "\<not> acc_get_flag a ACCOUNT_IN_FLASHLOAN" and "\<not> acc_get_flag a ACCOUNT_IN_RECEIVERSHIP"
  shows "\<exists>b1 hc e. b' = b1\<lparr>cache := cache b', bank_last_update := bank_last_update b'\<rparr>
    \<and> new_no_flashloan_check (e_fx env) (e_lib env) (with_bank key b1 (e_load_bank env))
        (e_clock env) (a'\<lparr>health_cache := hc\<rparr>) ais = Inr e
    \<and> covered (e_fx env) (e_lib env) e"
  using assms(1)
proof (cases rule: withdraw_finish_cases)
  case (1 p)
  show ?thesis using withdraw_health_covers [OF 1(1) assms(2-4)] update_cache_price_caches [OF 1(2)] by blast
qed

text \<open>C8: Nobody takes collateral out of Kamino, Drift or Solend and leaves an unhealthy account: after
  every such withdrawal outside flash loans and receivership, the risk engine that the account loads
  with the changed bank (up to its caches) holds every active balance, values every one of them, and
  sees the debts covered by the assets at initial weights, and an isolated debt only alone. A debt
  that cannot be priced fails the instruction.\<close>

theorem integration_withdrawals_leave_healthy:
  assumes "fixed_arith (e_fx env)" and "\<not> acc_get_flag a ACCOUNT_IN_FLASHLOAN"
    and "\<not> acc_get_flag a ACCOUNT_IN_RECEIVERSHIP"
    and "kamino_withdraw ch env ka ais n all (g, a, b, w) = Inr (g', a', b', w') \<and> key = in_bank ka
      \<or> drift_withdraw ch env da ais n all (g, a, b, w) = Inr (g', a', b', w') \<and> key = in_bank da
      \<or> solend_withdraw ch env so ais n all (g, a, b, w) = Inr (g', a', b', w') \<and> key = in_bank so"
  shows "\<exists>b1 hc e. b' = b1\<lparr>cache := cache b', bank_last_update := bank_last_update b'\<rparr>
    \<and> new_no_flashloan_check (e_fx env) (e_lib env) (with_bank key b1 (e_load_bank env))
        (e_clock env) (a'\<lparr>health_cache := hc\<rparr>) ais = Inr e
    \<and> covered (e_fx env) (e_lib env) e"
proof -
  obtain la b2 where "withdraw_finish env key ais la a b2 = Inr (a', b')"
    using assms(4)
  proof (elim disjE conjE)
    assume "kamino_withdraw ch env ka ais n all (g, a, b, w) = Inr (g', a', b', w')" "key = in_bank ka"
    then show ?thesis using that by (elim kamino_withdraw_cases) simp
  next
    assume "drift_withdraw ch env da ais n all (g, a, b, w) = Inr (g', a', b', w')" "key = in_bank da"
    then show ?thesis using that by (elim drift_withdraw_cases) simp
  next
    assume "solend_withdraw ch env so ais n all (g, a, b, w) = Inr (g', a', b', w')" "key = in_bank so"
    then show ?thesis using that by (elim solend_withdraw_cases) simp
  qed
  then show ?thesis by (rule finish_leaves_healthy [OF _ assms(1-3)])
qed

text \<open>The sample balance withdrawn again, in full.\<close>

definition vault_holder :: MarginfiAccount where
  "vault_holder = saver\<lparr>lending_account := saved\<rparr>"

definition emptier_bank :: Bank where
  "emptier_bank = (decrement_lending_position_count fuller_bank)\<lparr>total_asset_shares := 500 * ONE\<rparr>"

definition no_balances :: LendingAccount where
  "no_balances = \<lparr>balances = empty_deactivated # replicate 15 empty_deactivated\<rparr>"

lemma sample_withdraw_world:
  "ref_call (cpi_kamino_withdraw sample_ka b 10) paid_world
     = Inr (paid_world\<lparr>rw_tokens := (\<lambda>_. 0)(30 := 90, 3 := 10), rw_position := (\<lambda>_. 0)(41 := 500)\<rparr>)"
  "ref_transfer (transfer_out sample_ka 10)
      (paid_world\<lparr>rw_tokens := (\<lambda>_. 0)(30 := 90, 3 := 10), rw_position := (\<lambda>_. 0)(41 := 500)\<rparr>) = Inr start_world"
  by (simp_all add: world_eval fun_eq_iff)

lemma holder_flags: "\<not> acc_get_flag vault_holder f"
  by (simp add: vault_holder_def saver_def account_eval flag_eval)

lemma sample_withdraw_guards:
  "kamino_withdraw_guards ref_chain (sample_env lib) sample_ka sample_group vault_holder fuller_bank paid_world = Inr ()"
  by (simp add: kamino_withdraw_guards_def user_constraints_def position_constraints_def weight_constraint_def
      guard_eval account_eval vault_holder_def saver_def fuller_bank_def
      vault_bank_def sample_ka_def sample_defs increment_lending_position_count_def flag_eval ref_chain_def read_u64_def
      first_deposit_matches_def first_deposit_def only_first_deposit_def kamino_programs_def constraint_def
      is_kamino_asset_tag_def u64_max_def)

lemma sample_withdraw_ready: "withdraw_ready vault_holder fuller_bank = Inr ()"
  by (simp add: withdraw_ready_def holder_flags check_def validate_bank_state_def fuller_bank_def vault_bank_def
      increment_lending_position_count_def sample_defs)

lemma sample_redeemed: "kamino_collateral_to_liquidity fx_ref 10 ref_kamino_reserve = Inr 10"
  by (simp add: kamino_collateral_to_liquidity_def kamino_scaled_supplies_def kamino_total_supply_def
      ref_kamino_reserve_def u68f60_to_i80f48_def scale_supplies_def exp_10_get_def MAX_EXP_10_I80F48_def
      collateral_to_liquidity_from_scaled_def none_to_def fx_eval opt_def)

lemma sample_empties: "withdraw_all fx_ref 100 (vault_balance, fuller_bank) = Inr (10, empty_deactivated, emptier_bank)"
  by (simp add: wrapper_eval bank_eval emptier_bank_def fuller_bank_def vault_bank_def sample_defs
      vault_balance_def const_eval fx_eval)

lemma sample_collateral: "withdraw_collateral (sample_env lib) 7 [] 0 True sample_group vault_holder fuller_bank
    = Inr (sample_group, 10, no_balances, emptier_bank)"
proof -
  have "wrapper_find 7 (lending_account vault_holder) = Inr 0"
    by (simp add: wrapper_find_def vault_holder_def saved_def vault_balance_def new_balance_def is_active_def)
  moreover have "at_balance 0 (withdraw_all fx_ref 100) (lending_account vault_holder, fuller_bank)
      = Inr (10, no_balances, emptier_bank)"
    by (simp add: at_balance_def vault_holder_def saved_def no_balances_def sample_empties)
  ultimately show ?thesis
    by (simp add: withdraw_collateral_def receivership_price_def holder_flags withdraw_tokens_def track_deleverage_def)
qed

lemma sorted_none: "balances (sort_balances no_balances) = balances no_balances"
proof -
  have "sort_key (\<lambda>b. - int (bank_pk b)) (balances no_balances) = balances no_balances"
    by (rule sort_key_id_if_sorted) (auto simp: no_balances_def sorted_replicate)
  then show ?thesis by (simp add: sort_balances_def)
qed

lemma sample_finish: "\<exists>a' b'. withdraw_finish (sample_env lib) 7 [] no_balances vault_holder b = Inr (a', b')"
proof -
  let ?a = "booked (sample_env lib) no_balances vault_holder"
  have "filter is_active (balances (lending_account ?a)) = []"
    by (simp add: booked_def sorted_none) (simp add: no_balances_def empty_inactive)
  then have e: "new_no_flashloan_check fx_ref lib lb clock ?a [] = Inr \<lparr>re_account = ?a,
      bank_accounts_with_price = [], re_emode_config = EmodeConfig_zeroed\<rparr>" for lb clock
    by (simp add: new_no_flashloan_check_def load_accounts_def reconcile_emode_configs_def)
  have "\<exists>hc p. final_health (sample_env lib) 7 b ?a [] = Inr (hc, p)"
    by (simp add: final_health_def check_account_init_health_def holder_flags e check_account_health_def
        get_account_health_components_def check_account_risk_tiers_def check_def get_unbiased_price_for_bank_def
        find_bank_account_def ok_of_def)
  then show ?thesis by (auto simp: withdraw_finish_def withdraw_health_def holder_flags)
qed

lemma sample_withdraw: "\<exists>a b. kamino_withdraw ref_chain (sample_env lib) sample_ka [] 0 (Some True)
    (sample_group, vault_holder, fuller_bank, paid_world) = Inr (sample_group, a, b, start_world)"
proof -
  have key: "in_bank sample_ka = 7" "in_liquidity_vault sample_ka = 3" by (simp_all add: sample_ka_def)
  have vault: "rw_tokens paid_world 3 = 0" by (simp add: paid_world_def)
  obtain b where b: "update_bank_cache fx_ref 100 sample_group emptier_bank = Inr b"
    by (simp add: update_bank_cache_def emptier_bank_def fuller_bank_def vault_bank_def sample_defs bank_eval fx_eval)
  obtain a' b' where "withdraw_finish (sample_env lib) 7 [] no_balances vault_holder b = Inr (a', b')"
    using sample_finish by blast
  then show ?thesis
    by (simp add: kamino_withdraw_def key vault sample_withdraw_guards sample_withdraw_ready sample_first_deposited
        sample_collateral b sample_redeemed sample_withdraw_world read_u64_def u64_max_def sub_u64_def
        checked_sub_nat_def check_def assert_within_one_token_def)
qed

theorem integration_withdrawals_leave_healthy_witness:
  "\<forall>lib. \<exists>a' b1 hc e. new_no_flashloan_check fx_ref lib (with_bank 7 b1 sample_load_bank)
     (e_clock (sample_env lib)) (a'\<lparr>health_cache := hc\<rparr>) [] = Inr e \<and> covered fx_ref lib e"
proof
  fix lib
  obtain a b where r: "kamino_withdraw ref_chain (sample_env lib) sample_ka [] 0 (Some True)
      (sample_group, vault_holder, fuller_bank, paid_world) = Inr (sample_group, a, b, start_world)"
    using sample_withdraw by blast
  have fa: "fixed_arith (e_fx (sample_env lib))" using ref.fixed_arith_axioms by simp
  have key: "in_bank sample_ka = 7" by (simp add: sample_ka_def)
  show "\<exists>a' b1 hc e. new_no_flashloan_check fx_ref lib (with_bank 7 b1 sample_load_bank)
      (e_clock (sample_env lib)) (a'\<lparr>health_cache := hc\<rparr>) [] = Inr e \<and> covered fx_ref lib e"
    using integration_withdrawals_leave_healthy [OF fa holder_flags holder_flags disjI1 [OF conjI [OF r key [symmetric]]]]
    by simp blast
qed

end
