(* ===== verification/PoolProps.thy ===== *)
theory PoolProps
  imports PoolIx RefChain
begin

text \<open>
  The properties of the banks that the three \<open>add_pool\<close> instructions add, of their configurations,
  and of the metadata of a bank.
\<close>

section \<open>Configurations\<close>

lemma placeholder_points: "make_points [p] = [p, zero_point, zero_point, zero_point, zero_point]"
proof -
  have "replicate 4 zero_point = [zero_point, zero_point, zero_point, zero_point]"
    by (simp only: numeral_eq_Suc pred_numeral_simps BitM.simps replicate.simps)
  then show ?thesis by (simp add: make_points_def CURVE_POINTS_def)
qed

lemma placeholder_valid: "ir_validate (placeholder_ir_config fx) = Inr ()"
  by (simp add: ir_validate_def placeholder_ir_config_def INTEREST_CURVE_LEGACY_def
      INTEREST_CURVE_SEVEN_POINT_def validate_seven_point_def placeholder_points zero_point_def Let_def)

context fixed_arith
begin

lemma placeholder_weights: "ONE \<le> decimal fx 125 2" "decimal fx 125 2 \<le> decimal fx 15 1"
  using decimal_near [of 125 2] decimal_near [of 15 1] by (simp_all add: ONE_def)

end

text \<open>The configuration that a compact configuration of a Kamino, Drift or Solend bank stands for
  is valid exactly when its asset weights are (the initial one between 0 and 1 and not above the
  maintenance one, that one at most 2, both 0 for an isolated bank) and its oracle may be at least
  \<open>ORACLE_MIN_AGE\<close> old; whatever else the admin sets, the liability weights, the rates and the
  borrow limit are fixed.\<close>

theorem integration_config_valid_iff:
  assumes "fixed_arith fx"
  shows "config_validate (integration_bank_config fx tag c key) = Inr () \<longleftrightarrow>
      0 \<le> ic_asset_weight_init c \<and> ic_asset_weight_init c \<le> ONE
    \<and> ic_asset_weight_init c \<le> ic_asset_weight_maint c \<and> ic_asset_weight_maint c \<le> 2 * ONE
    \<and> (ic_risk_tier c = Isolated \<longrightarrow> ic_asset_weight_init c = 0 \<and> ic_asset_weight_maint c = 0)
    \<and> ORACLE_MIN_AGE \<le> ic_oracle_max_age c"
  unfolding config_validate_iff
  using fixed_arith.placeholder_weights [OF assms]
  by (auto simp: weights_spec_def integration_bank_config_def placeholder_valid)

lemma placeholder_weights_ref: "decimal fx_ref 125 2 = ONE + ONE div 4" "decimal fx_ref 15 1 = ONE + ONE div 2"
  by (simp_all add: fx_eval)

theorem integration_config_valid_iff_witness:
  "config_validate (integration_bank_config fx_ref ASSET_TAG_KAMINO (KaminoConfigCompact_default fx_ref) 40) = Inr ()
     \<longleftrightarrow> ORACLE_MIN_AGE \<le> (10 :: nat)"
  unfolding integration_config_valid_iff [OF ref.fixed_arith_axioms]
  by (simp add: KaminoConfigCompact_default_def fx_eval)

section \<open>New banks\<close>

text \<open>A sound new bank on another lending program, at the given place.\<close>

definition fresh_integration_bank :: "u8 \<Rightarrow> pubkey \<Rightarrow> pubkey \<Rightarrow> Bank \<Rightarrow> bool" where
  "fresh_integration_bank tag acc1 acc2 b \<longleftrightarrow> bank_ok b \<and> unit_shares b \<and> units_owed b = 0
     \<and> config_validate (config b) = Inr () \<and> borrow_limit (config b) = 0
     \<and> length (oracle_keys (config b)) = 5 \<and> asset_tag (config b) = tag
     \<and> integration_acc_1 b = acc1 \<and> integration_acc_2 b = acc2"

lemma add_integration_bank_fresh:
  assumes "add_integration_bank lib sk now nb (integration_bank_config fx tag c key) (acc1, acc2, acc3) ais g = Inr (b, g')"
  shows "fresh_integration_bank tag acc1 acc2 b \<and> g' = add_bank now g"
  using assms
  by (auto simp: add_integration_bank_def fresh_integration_bank_def bank_of_accounts_def bank_new_def bank_ok_def
      unit_shares_def units_owed_def integration_bank_config_def Let_def elim!: bindR_InrE split: prod.splits)

text \<open>C34: Only the group's admin adds a bank on Kamino, Drift or Solend, and the bank is well-formed:
  its configuration is valid, nothing can be borrowed, its shares are units of the position at the
  accounts given (the reserve or market that the oracle keys name second), and it owes nothing; the
  group counts it. With this every such bank starts covered by its position.\<close>

theorem new_integration_banks_well_formed:
  assumes "lending_pool_add_bank_kamino fx lib sk now signer nb c reserve acc2 ais g = Inr (b, g')
        \<and> tag = ASSET_TAG_KAMINO \<and> acc1 = fst reserve
      \<or> lending_pool_add_bank_drift fx lib sk now signer nb c market acc2 acc3 ais g = Inr (b, g')
        \<and> tag = ASSET_TAG_DRIFT \<and> acc1 = fst market
      \<or> lending_pool_add_bank_solend fx lib sk now signer nb c solend acc2 ais g = Inr (b, g')
        \<and> tag = ASSET_TAG_SOLEND \<and> acc1 = fst solend"
  shows "admin g = signer \<and> fresh_integration_bank tag acc1 acc2 b \<and> g' = add_bank now g"
  using assms
proof (elim disjE conjE)
  assume "lending_pool_add_bank_kamino fx lib sk now signer nb c reserve acc2 ais g = Inr (b, g')"
    "tag = ASSET_TAG_KAMINO" "acc1 = fst reserve"
  then show ?thesis unfolding lending_pool_add_bank_kamino_def kamino_bank_config_def
    by (elim bindR_InrE) (auto simp: check_def split: if_splits dest!: add_integration_bank_fresh)
next
  assume "lending_pool_add_bank_drift fx lib sk now signer nb c market acc2 acc3 ais g = Inr (b, g')"
    "tag = ASSET_TAG_DRIFT" "acc1 = fst market"
  then show ?thesis unfolding lending_pool_add_bank_drift_def drift_bank_config_def
    by (elim bindR_InrE) (auto simp: check_def split: if_splits dest!: add_integration_bank_fresh)
next
  assume "lending_pool_add_bank_solend fx lib sk now signer nb c solend acc2 ais g = Inr (b, g')"
    "tag = ASSET_TAG_SOLEND" "acc1 = fst solend"
  then show ?thesis unfolding lending_pool_add_bank_solend_def solend_bank_config_def
    by (elim bindR_InrE) (auto simp: check_def split: if_splits dest!: add_integration_bank_fresh)
qed

definition sample_lib :: "oracle_lib \<Rightarrow> oracle_lib" where
  "sample_lib lib = lib\<lparr>is_live := True, pyth_receiver_id := 70, pyth_discriminator_ok := (\<lambda>_. Inr True),
     read_price_update := (\<lambda>_. Inr undefined)\<rparr>"

definition sample_new_bank :: new_bank_accounts where
  "sample_new_bank = \<lparr>nb_group = 1, nb_mint = 2, nb_decimals = 6, nb_liquidity_vault = 3,
     nb_insurance_vault = 4, nb_fee_vault = 5, nb_bumps = (255, 255, 255, 255, 255, 255)\<rparr>"

definition sample_compact :: IntegrationConfigCompact where
  "sample_compact = (KaminoConfigCompact_default fx_ref)\<lparr>ic_oracle := 71\<rparr>"

lemma sample_added: "\<exists>b g'. lending_pool_add_bank_kamino fx_ref (sample_lib lib) sk 100 1 sample_new_bank
    sample_compact (40, ref_kamino_reserve) 41 [\<lparr>ai_key = 71, ai_owner = 70\<rparr>, \<lparr>ai_key = 40, ai_owner = 0\<rparr>] sample_group
    = Inr (b, g')"
proof -
  let ?c = "kamino_bank_config fx_ref sample_compact 40"
  have "config_validate ?c = Inr ()"
    using placeholder_weights_ref
    by (simp add: config_validate_iff kamino_bank_config_def weights_spec_def integration_bank_config_def
        placeholder_valid sample_compact_def KaminoConfigCompact_default_def ORACLE_MIN_AGE_def fx_eval)
  moreover have "validate_bank_config (sample_lib lib) sk ?c
      [\<lparr>ai_key = 71, ai_owner = 70\<rparr>, \<lparr>ai_key = 40, ai_owner = 0\<rparr>] None = Inr ()"
    by (simp add: validate_bank_config_def kamino_bank_config_def integration_bank_config_def sample_compact_def
        KaminoConfigCompact_default_def validate_pyth_key_def check_key_def oracle_key_def check_def sample_lib_def
        load_price_update_v2_checked_def)
  ultimately show ?thesis
    by (auto simp: lending_pool_add_bank_kamino_def add_integration_bank_def check_def sample_group_def
        ref_kamino_reserve_def sample_new_bank_def sample_compact_def KaminoConfigCompact_default_def)
qed

theorem new_integration_banks_well_formed_witness:
  "\<forall>lib sk. \<exists>b g'. lending_pool_add_bank_kamino fx_ref (sample_lib lib) sk 100 1 sample_new_bank
      sample_compact (40, ref_kamino_reserve) 41 [\<lparr>ai_key = 71, ai_owner = 70\<rparr>, \<lparr>ai_key = 40, ai_owner = 0\<rparr>]
      sample_group = Inr (b, g') \<and> fresh_integration_bank ASSET_TAG_KAMINO 40 41 b"
proof (intro allI)
  fix lib sk
  obtain b g' where r: "lending_pool_add_bank_kamino fx_ref (sample_lib lib) sk 100 1 sample_new_bank
      sample_compact (40, ref_kamino_reserve) 41 [\<lparr>ai_key = 71, ai_owner = 70\<rparr>, \<lparr>ai_key = 40, ai_owner = 0\<rparr>]
      sample_group = Inr (b, g')"
    using sample_added by blast
  have "40 = fst (40 :: nat, ref_kamino_reserve)" by simp
  from new_integration_banks_well_formed [OF disjI1 [OF conjI [OF r conjI [OF refl this]]]] r
  show "\<exists>b g'. lending_pool_add_bank_kamino fx_ref (sample_lib lib) sk 100 1 sample_new_bank
      sample_compact (40, ref_kamino_reserve) 41 [\<lparr>ai_key = 71, ai_owner = 70\<rparr>, \<lparr>ai_key = 40, ai_owner = 0\<rparr>]
      sample_group = Inr (b, g') \<and> fresh_integration_bank ASSET_TAG_KAMINO 40 41 b" by blast
qed

section \<open>Metadata\<close>

definition metadata_ok :: "BankMetadata \<Rightarrow> bool" where
  "metadata_ok md \<longleftrightarrow> length (md_ticker md) = 64 \<and> length (md_description md) = 128
     \<and> length (md_data_blob md) = 256 \<and> md_end_ticker_byte md < 64 \<and> md_end_description_byte md < 128"

text \<open>What a reader of the metadata takes for the text: the bytes up to the last one.\<close>

definition text_of :: "u8 list \<Rightarrow> nat \<Rightarrow> u8 list" where
  "text_of bytes end_byte = take (end_byte + 1) bytes"

definition read_after :: "u8 list option \<Rightarrow> u8 list \<Rightarrow> u8 list" where
  "read_after written before =
     (case written of None \<Rightarrow> before | Some bytes \<Rightarrow> if bytes = [] then [0] else bytes)"

lemma fill_bytes_reads:
  assumes "fill_bytes old bytes = Inr (filled, e)" and "length old \<le> m" and "old \<noteq> []"
  shows "length filled = length old \<and> e mod m < length old
    \<and> text_of filled (e mod m) = read_after (Some bytes) before"
proof (cases "bytes = []")
  case True
  then show ?thesis using assms
    by (cases "length old") (auto simp: fill_bytes_def text_of_def read_after_def)
next
  case False
  then have "length bytes \<le> length old" "filled = bytes @ replicate (length old - length bytes) 0"
    "e = length bytes - 1" "0 < length bytes"
    using assms(1) by (auto simp: fill_bytes_def split: if_splits)
  moreover have "e < length old" using calculation by linarith
  moreover from this have "e mod m = e" using assms(2) by simp
  ultimately show ?thesis using False by (simp add: text_of_def read_after_def)
qed

text \<open>C35: Metadata reads back as it was written: a bank's metadata starts well-formed and stays so; a
  ticker or description that is not empty is what a reader finds up to its last byte, and the field
  that is not written keeps what it held. (An empty text reads back as a single zero byte.)\<close>

theorem metadata_round_trip:
  assumes "metadata_ok md" and "write_bank_metadata signer group_key bank_key g b ticker description md = Inr md'"
  shows "metadata_ok md' \<and> signer = metadata_admin g \<and> md_bank md' = bank_key
    \<and> text_of (md_ticker md') (md_end_ticker_byte md')
        = read_after ticker (text_of (md_ticker md) (md_end_ticker_byte md))
    \<and> text_of (md_description md') (md_end_description_byte md')
        = read_after description (text_of (md_description md) (md_end_description_byte md))"
proof -
  obtain md1 where t: "(case ticker of None \<Rightarrow> Inr md
      | Some bytes \<Rightarrow> bindR (fill_bytes (md_ticker md) bytes) (\<lambda>(filled, end_byte).
          Inr (md\<lparr>md_ticker := filled, md_end_ticker_byte := end_byte mod 256\<rparr>))) = Inr md1"
    and d: "(case description of None \<Rightarrow> Inr md1
      | Some bytes \<Rightarrow> bindR (fill_bytes (md_description md1) bytes) (\<lambda>(filled, end_byte).
          Inr (md1\<lparr>md_description := filled, md_end_description_byte := end_byte mod 65536\<rparr>))) = Inr md'"
    and k: "metadata_admin g = signer" "md_bank md = bank_key"
    using assms(2) unfolding write_bank_metadata_def by (auto simp: constraint_eq_Inr elim!: bindR_InrE)
  have 1: "metadata_ok md1 \<and> md_bank md1 = md_bank md \<and> md_description md1 = md_description md
      \<and> md_end_description_byte md1 = md_end_description_byte md
      \<and> text_of (md_ticker md1) (md_end_ticker_byte md1)
        = read_after ticker (text_of (md_ticker md) (md_end_ticker_byte md))"
  proof (cases ticker)
    case None
    then show ?thesis using t assms(1) by (simp add: read_after_def)
  next
    case (Some bytes)
    then obtain f e where f: "fill_bytes (md_ticker md) bytes = Inr (f, e)"
      and "md1 = md\<lparr>md_ticker := f, md_end_ticker_byte := e mod 256\<rparr>"
      using t by (auto elim!: bind2E)
    moreover have "length f = 64 \<and> e mod 256 < 64 \<and> text_of f (e mod 256) = read_after (Some bytes) before" for before
      using fill_bytes_reads [OF f, where m = 256 and before = before] assms(1)
      by (cases "md_ticker md") (simp_all add: metadata_ok_def)
    ultimately show ?thesis using assms(1) Some by (simp add: metadata_ok_def)
  qed
  show ?thesis
  proof (cases description)
    case None
    then show ?thesis using d 1 k by (simp add: read_after_def)
  next
    case (Some bytes)
    then obtain f e where f: "fill_bytes (md_description md1) bytes = Inr (f, e)"
      and "md' = md1\<lparr>md_description := f, md_end_description_byte := e mod 65536\<rparr>"
      using d by (auto elim!: bind2E)
    moreover have "length f = 128 \<and> e mod 65536 < 128
        \<and> text_of f (e mod 65536) = read_after (Some bytes) before" for before
    proof -
      have "length (md_description md1) = 128" using 1 unfolding metadata_ok_def by blast
      then show ?thesis
        using fill_bytes_reads [OF f, where m = 65536 and before = before] by (cases "md_description md1") simp_all
    qed
    ultimately show ?thesis using 1 k Some by (simp add: metadata_ok_def)
  qed
qed

lemma init_metadata_ok: "metadata_ok (init_bank_metadata k bump)"
  by (simp add: metadata_ok_def init_bank_metadata_def BankMetadata_zeroed_def)

theorem metadata_round_trip_witness:
  "\<exists>md. write_bank_metadata 1 1 7 sample_group (sample_bank) (Some [83, 79, 76]) None (init_bank_metadata 7 255) = Inr md
     \<and> text_of (md_ticker md) (md_end_ticker_byte md) = [83, 79, 76]"
proof -
  have f: "fill_bytes (md_ticker (init_bank_metadata 7 255)) [83, 79, 76] = Inr ([83, 79, 76] @ replicate 61 0, 2)"
    by (simp add: fill_bytes_def init_bank_metadata_def BankMetadata_zeroed_def)
  obtain md where r: "write_bank_metadata 1 1 7 sample_group (sample_bank) (Some [83, 79, 76]) None
      (init_bank_metadata 7 255) = Inr md"
    by (simp add: write_bank_metadata_def f constraint_def sample_defs)
      (simp add: init_bank_metadata_def)
  then show ?thesis using metadata_round_trip [OF init_metadata_ok r] by (auto simp: read_after_def)
qed

end
