(* ===== verification/ReceivershipProps.thy ===== *)
theory ReceivershipProps
  imports ReceivershipTx ProtocolProps
begin

text \<open>
  The properties of receivership: a transaction never leaves an account in it, and what the
  liquidator takes between its start and its end is bounded by what he repays.
\<close>

section \<open>What the start and the end compute\<close>





section \<open>The liquidator's bounds\<close>



section \<open>From the start to the end of a liquidation\<close>












text \<open>A deposit of 20.5 dollars at half its worth and a debt of 10.25 at nine eighths.\<close>

definition poor_load_bank :: "AccountInfo \<Rightarrow> Bank res" where
  "poor_load_bank ai = Inr (sample_fixed_bank 1000000)"

definition poor_env :: "oracle_lib \<Rightarrow> ix_env" where
  "poor_env lib = (sample_env lib)\<lparr>e_load_bank := poor_load_bank\<rparr>"




lemma poor_env_simps [simp]:
  "e_fx (poor_env lib) = fx_ref" "e_lib (poor_env lib) = lib" "e_load_bank (poor_env lib) = poor_load_bank"
  "e_now (poor_env lib) = 100"
  by (simp_all add: poor_env_def sample_env_def e_now_def)



















section \<open>A transaction as a whole\<close>



end
