(* ===== verification/Program.thy ===== *)
theory Program
  imports Protocol PoolIx
begin

text \<open>
  The entry points of the program (\<open>lib.rs\<close>): every instruction it offers, dispatched to its handler
  on the state of all accounts it owns. A step names the key that signs as the authority of the
  instruction; instructions that anybody may send name any key.
\<close>

section \<open>The state of the program\<close>

record 'w program_state =
  ps_accounts :: "pubkey \<Rightarrow> MarginfiAccount option"
  ps_banks :: "pubkey \<Rightarrow> Bank option"
  ps_groups :: "pubkey \<Rightarrow> MarginfiGroup option"
  ps_fee_state :: "FeeState option"
  ps_staked :: "pubkey \<Rightarrow> StakedSettings option"
  ps_records :: "pubkey \<Rightarrow> LiquidationRecord option"
  ps_metadata :: "pubkey \<Rightarrow> BankMetadata option"
  ps_chain :: 'w

definition put_account :: "pubkey \<Rightarrow> MarginfiAccount \<Rightarrow> 'w program_state \<Rightarrow> 'w program_state" where
  "put_account k a s = s\<lparr>ps_accounts := (ps_accounts s)(k \<mapsto> a)\<rparr>"

definition put_bank :: "pubkey \<Rightarrow> Bank \<Rightarrow> 'w program_state \<Rightarrow> 'w program_state" where
  "put_bank k b s = s\<lparr>ps_banks := (ps_banks s)(k \<mapsto> b)\<rparr>"

definition put_group :: "pubkey \<Rightarrow> MarginfiGroup \<Rightarrow> 'w program_state \<Rightarrow> 'w program_state" where
  "put_group k g s = s\<lparr>ps_groups := (ps_groups s)(k \<mapsto> g)\<rparr>"

definition put_record :: "pubkey \<Rightarrow> LiquidationRecord \<Rightarrow> 'w program_state \<Rightarrow> 'w program_state" where
  "put_record k r s = s\<lparr>ps_records := (ps_records s)(k \<mapsto> r)\<rparr>"

definition put_staked :: "pubkey \<Rightarrow> StakedSettings \<Rightarrow> 'w program_state \<Rightarrow> 'w program_state" where
  "put_staked k st s = s\<lparr>ps_staked := (ps_staked s)(k \<mapsto> st)\<rparr>"

definition put_metadata :: "pubkey \<Rightarrow> BankMetadata \<Rightarrow> 'w program_state \<Rightarrow> 'w program_state" where
  "put_metadata k m s = s\<lparr>ps_metadata := (ps_metadata s)(k \<mapsto> m)\<rparr>"

definition put_fee_state :: "FeeState \<Rightarrow> 'w program_state \<Rightarrow> 'w program_state" where
  "put_fee_state fs s = s\<lparr>ps_fee_state := Some fs\<rparr>"

definition put_chain :: "'w \<Rightarrow> 'w program_state \<Rightarrow> 'w program_state" where
  "put_chain w s = s\<lparr>ps_chain := w\<rparr>"

lemmas put_defs = put_account_def put_bank_def put_group_def put_record_def put_staked_def put_metadata_def
  put_fee_state_def put_chain_def

text \<open>The environment of an instruction computes with \<open>fx\<close> and reads the banks as they are.\<close>

definition reads_state :: "fixed_ops \<Rightarrow> 'w program_state \<Rightarrow> ix_env \<Rightarrow> bool" where
  "reads_state fx s env \<longleftrightarrow> e_fx env = fx
     \<and> (\<forall>ai b. e_load_bank env ai = Inr b \<longrightarrow> ps_banks s (ai_key ai) = Some b)"

text \<open>A key at which a bank can be created: no bank is there, and no balance remembers one.\<close>

definition fresh_bank :: "pubkey \<Rightarrow> 'w program_state \<Rightarrow> bool" where
  "fresh_bank k s \<longleftrightarrow> ps_banks s k = None
     \<and> (\<forall>a \<in> ran (ps_accounts s). \<forall>b \<in> set (balances (lending_account a)). is_active b \<longrightarrow> bank_pk b \<noteq> k)"

section \<open>Groups and new banks\<close>

inductive group_entry ::
  "fixed_ops \<Rightarrow> pubkey \<Rightarrow> 'w program_state \<Rightarrow> 'w program_state \<Rightarrow> bool" for fx :: fixed_ops where
  marginfi_group_initialize: "initialize_group fx signer now fs = Inr g \<Longrightarrow> ps_fee_state s = Some fs \<Longrightarrow>
    ps_groups s gk = None \<Longrightarrow> group_entry fx signer s (put_group gk g s)"
| marginfi_group_configure: "configure fx signer n emode_init emode_maint now g = Inr g' \<Longrightarrow>
    ps_groups s gk = Some g \<Longrightarrow> group_entry fx signer s (put_group gk g' s)"

inductive add_bank_entry ::
  "fixed_ops \<Rightarrow> pubkey \<Rightarrow> 'w program_state \<Rightarrow> 'w program_state \<Rightarrow> bool" for fx :: fixed_ops where
  lending_pool_add_bank: "lending_pool_add_bank signer payer wallet now fs nb c g = Inr (b, g', ts) \<Longrightarrow>
    ps_fee_state s = Some fs \<Longrightarrow> ps_groups s (nb_group nb) = Some g \<Longrightarrow> fresh_bank k s \<Longrightarrow>
    add_bank_entry fx signer s (put_bank k b (put_group (nb_group nb) g' s))"
| lending_pool_add_bank_with_seed:
    "lending_pool_add_bank_with_seed signer payer wallet now fs nb c bank_seed g = Inr (b, g', ts) \<Longrightarrow>
    ps_fee_state s = Some fs \<Longrightarrow> ps_groups s (nb_group nb) = Some g \<Longrightarrow> fresh_bank k s \<Longrightarrow>
    add_bank_entry fx signer s (put_bank k b (put_group (nb_group nb) g' s))"
| lending_pool_clone_bank: "lending_pool_clone_bank crate_id signer now nb source g = Inr (b, g') \<Longrightarrow>
    ps_groups s (nb_group nb) = Some g \<Longrightarrow> fresh_bank k s \<Longrightarrow>
    add_bank_entry fx signer s (put_bank k b (put_group (nb_group nb) g' s))"
| lending_pool_add_bank_permissionless:
    "lending_pool_add_bank_permissionless fx lib sk now (nb_group nb) st nb stake_pool sol_pool ais g = Inr (b, g') \<Longrightarrow>
    ps_staked s stk = Some st \<Longrightarrow> ps_groups s (nb_group nb) = Some g \<Longrightarrow> fresh_bank k s \<Longrightarrow>
    add_bank_entry fx signer s (put_bank k b (put_group (nb_group nb) g' s))"

section \<open>The settings of a bank\<close>

inductive settings_entry ::
  "fixed_ops \<Rightarrow> pubkey \<Rightarrow> 'w program_state \<Rightarrow> 'w program_state \<Rightarrow> bool" for fx :: fixed_ops where
  lending_pool_configure_bank: "lending_pool_configure_bank fx signer gk g oc b = Inr b' \<Longrightarrow>
    ps_groups s gk = Some g \<Longrightarrow> ps_banks s k = Some b \<Longrightarrow> settings_entry fx signer s (put_bank k b' s)"
| lending_pool_configure_bank_interest_only: "lending_pool_configure_bank_interest_only signer gk g ir b = Inr b' \<Longrightarrow>
    ps_groups s gk = Some g \<Longrightarrow> ps_banks s k = Some b \<Longrightarrow> settings_entry fx signer s (put_bank k b' s)"
| lending_pool_configure_bank_limits_only:
    "lending_pool_configure_bank_limits_only signer gk g dep bor lim b = Inr b' \<Longrightarrow>
    ps_groups s gk = Some g \<Longrightarrow> ps_banks s k = Some b \<Longrightarrow> settings_entry fx signer s (put_bank k b' s)"
| lending_pool_force_tokenless_repay_complete:
    "lending_pool_force_tokenless_repay_complete signer gk g b = Inr b' \<Longrightarrow>
    ps_groups s gk = Some g \<Longrightarrow> ps_banks s k = Some b \<Longrightarrow> settings_entry fx signer s (put_bank k b' s)"
| lending_pool_configure_bank_oracle:
    "lending_pool_configure_bank_oracle lib sk signer gk g ais setup_type new_oracle b = Inr b' \<Longrightarrow>
    ps_groups s gk = Some g \<Longrightarrow> ps_banks s k = Some b \<Longrightarrow> settings_entry fx signer s (put_bank k b' s)"
| lending_pool_set_fixed_oracle_price:
    "lending_pool_set_fixed_oracle_price lib sk signer gk g price b = Inr b' \<Longrightarrow>
    ps_groups s gk = Some g \<Longrightarrow> ps_banks s k = Some b \<Longrightarrow> settings_entry fx signer s (put_bank k b' s)"
| lending_pool_configure_bank_emode: "lending_pool_configure_bank_emode fx signer gk g now tag es b = Inr b' \<Longrightarrow>
    ps_groups s gk = Some g \<Longrightarrow> ps_banks s k = Some b \<Longrightarrow> settings_entry fx signer s (put_bank k b' s)"
| lending_pool_clone_emode: "lending_pool_clone_emode signer gk g src b = Inr b' \<Longrightarrow>
    ps_groups s gk = Some g \<Longrightarrow> ps_banks s k0 = Some src \<Longrightarrow> ps_banks s k = Some b \<Longrightarrow>
    settings_entry fx signer s (put_bank k b' s)"
| lending_pool_setup_emissions:
    "lending_pool_setup_emissions fx signer gk g epoch em_mint mint_ai funding em_account flags em_rate n b = Inr (b', t) \<Longrightarrow>
    ps_groups s gk = Some g \<Longrightarrow> ps_banks s k = Some b \<Longrightarrow> settings_entry fx signer s (put_bank k b' s)"
| lending_pool_update_emissions_parameters:
    "lending_pool_update_emissions_parameters fx signer gk g epoch em_mint mint_ai funding em_account flags' em_rate' more_n b
       = Inr (b', t') \<Longrightarrow>
    ps_groups s gk = Some g \<Longrightarrow> ps_banks s k = Some b \<Longrightarrow> settings_entry fx signer s (put_bank k b' s)"

section \<open>Users\<close>

text \<open>Fees are sane for a borrow: the program itself does not check their rates.\<close>

inductive user_entry ::
  "fixed_ops \<Rightarrow> pubkey \<Rightarrow> 'w program_state \<Rightarrow> 'w program_state \<Rightarrow> bool" for fx :: fixed_ops where
  lending_pool_handle_bankruptcy: "lending_pool_handle_bankruptcy env bk g ais (a, b) = Inr (a', b', t) \<Longrightarrow>
    reads_state fx s env \<Longrightarrow> ps_groups s (bk_group bk) = Some g \<Longrightarrow> ps_accounts s k = Some a \<Longrightarrow>
    ps_banks s (bk_bank bk) = Some b \<Longrightarrow>
    user_entry fx (bk_signer bk) s (put_account k a' (put_bank (bk_bank bk) b' s))"
| marginfi_account_initialize: "a = initialize_account gk signer now \<Longrightarrow> ps_groups s gk = Some g \<Longrightarrow>
    ps_accounts s k = None \<Longrightarrow> user_entry fx signer s (put_account k a s)"
| marginfi_account_init_liq_record: "initialize_liquidation_record r payer k a = (a', lr) \<Longrightarrow>
    ps_accounts s k = Some a \<Longrightarrow> ps_records s r = None \<Longrightarrow>
    user_entry fx signer s (put_account k a' (put_record r lr s))"
| marginfi_account_initialize_pda:
    "initialize_account_pda mrgn_id rules tx bump gk signer now index third_party = Inr a \<Longrightarrow>
    ps_groups s gk = Some g \<Longrightarrow> ps_accounts s k = None \<Longrightarrow> user_entry fx signer s (put_account k a s)"
| lending_account_deposit: "lending_account_deposit env ta g ais n up (a, b) = Inr (a', b', ts) \<Longrightarrow> n \<le> u64_max \<Longrightarrow>
    reads_state fx s env \<Longrightarrow> ps_groups s (ta_group ta) = Some g \<Longrightarrow> ps_accounts s k = Some a \<Longrightarrow>
    ps_banks s (ta_bank ta) = Some b \<Longrightarrow>
    user_entry fx (ta_authority ta) s (put_account k a' (put_bank (ta_bank ta) b' s))"
| lending_account_repay: "lending_account_repay env ta g ais n all (a, b) = Inr (a', b', ts) \<Longrightarrow> n \<le> u64_max \<Longrightarrow>
    reads_state fx s env \<Longrightarrow> ps_groups s (ta_group ta) = Some g \<Longrightarrow> ps_accounts s k = Some a \<Longrightarrow>
    ps_banks s (ta_bank ta) = Some b \<Longrightarrow>
    user_entry fx (ta_authority ta) s (put_account k a' (put_bank (ta_bank ta) b' s))"
| lending_account_withdraw: "lending_account_withdraw env ta ais n all (g, a, b) = Inr (g', a', b', ts) \<Longrightarrow>
    n \<le> u64_max \<Longrightarrow> reads_state fx s env \<Longrightarrow> ps_groups s (ta_group ta) = Some g \<Longrightarrow> ps_accounts s k = Some a \<Longrightarrow>
    ps_banks s (ta_bank ta) = Some b \<Longrightarrow>
    user_entry fx (ta_authority ta) s (put_account k a' (put_bank (ta_bank ta) b' (put_group (ta_group ta) g' s)))"
| lending_account_borrow: "lending_account_borrow env ta g ais n (a, b) = Inr (a', b', ts) \<Longrightarrow> n \<le> u64_max \<Longrightarrow>
    fees_sane g b \<Longrightarrow> reads_state fx s env \<Longrightarrow> ps_groups s (ta_group ta) = Some g \<Longrightarrow> ps_accounts s k = Some a \<Longrightarrow>
    ps_banks s (ta_bank ta) = Some b \<Longrightarrow>
    user_entry fx (ta_authority ta) s (put_account k a' (put_bank (ta_bank ta) b' s))"
| lending_account_close_balance: "lending_account_close_balance env ta g (a, b) = Inr (a', b') \<Longrightarrow>
    reads_state fx s env \<Longrightarrow> ps_groups s (ta_group ta) = Some g \<Longrightarrow> ps_accounts s k = Some a \<Longrightarrow>
    ps_banks s (ta_bank ta) = Some b \<Longrightarrow>
    user_entry fx (ta_authority ta) s (put_account k a' (put_bank (ta_bank ta) b' s))"
| lending_account_withdraw_emissions: "lending_account_withdraw_emissions env ta ea g (a, b) = Inr (a', b', ts) \<Longrightarrow>
    reads_state fx s env \<Longrightarrow> ps_groups s (ta_group ta) = Some g \<Longrightarrow> ps_accounts s k = Some a \<Longrightarrow>
    ps_banks s (ta_bank ta) = Some b \<Longrightarrow>
    user_entry fx (ta_authority ta) s (put_account k a' (put_bank (ta_bank ta) b' s))"
| lending_account_settle_emissions: "lending_account_settle_emissions env bank_key (a, b) = Inr (a', b') \<Longrightarrow>
    reads_state fx s env \<Longrightarrow> ps_accounts s k = Some a \<Longrightarrow> ps_banks s bank_key = Some b \<Longrightarrow>
    user_entry fx signer s (put_account k a' (put_bank bank_key b' s))"
| lending_account_liquidate: "lending_account_liquidate env lq g ais n k1 k2 (tor, tee, ab, lb)
      = Inr ((tor', tee', ab', lb'), t) \<Longrightarrow> n \<le> u64_max \<Longrightarrow> reads_state fx s env \<Longrightarrow>
    ps_groups s (lq_group lq) = Some g \<Longrightarrow> ps_accounts s (lq_liquidator lq) = Some tor \<Longrightarrow>
    ps_accounts s (lq_liquidatee lq) = Some tee \<Longrightarrow> ps_banks s (lq_asset_bank lq) = Some ab \<Longrightarrow>
    ps_banks s (lq_liab_bank lq) = Some lb \<Longrightarrow>
    user_entry fx (lq_authority lq) s
      (put_account (lq_liquidatee lq) tee' (put_account (lq_liquidator lq) tor'
        (put_bank (lq_liab_bank lq) lb' (put_bank (lq_asset_bank lq) ab' s))))"
| lending_account_start_flashloan: "lending_account_start_flashloan mrgn_id signer k a tx end_index = Inr a' \<Longrightarrow>
    ps_accounts s k = Some a \<Longrightarrow> user_entry fx signer s (put_account k a' s)"
| lending_account_end_flashloan: "lending_account_end_flashloan signer a tx
      (init_health_of fx (e_lib env) (e_load_bank env) (e_clock env) ais) = Inr a' \<Longrightarrow>
    reads_state fx s env \<Longrightarrow> ps_accounts s k = Some a \<Longrightarrow> user_entry fx signer s (put_account k a' s)"
| marginfi_account_update_emissions_destination_account:
    "marginfi_account_update_emissions_destination_account signer now dst a = Inr a' \<Longrightarrow>
    ps_accounts s k = Some a \<Longrightarrow> user_entry fx signer s (put_account k a' s)"

section \<open>Operation\<close>

text \<open>Fee and insurance withdrawals only move tokens.\<close>

inductive operational_entry ::
  "fixed_ops \<Rightarrow> pubkey \<Rightarrow> 'w program_state \<Rightarrow> 'w program_state \<Rightarrow> bool" for fx :: fixed_ops where
  lending_pool_accrue_bank_interest: "lending_pool_accrue_bank_interest fx gk now g b = Inr b' \<Longrightarrow>
    ps_groups s gk = Some g \<Longrightarrow> ps_banks s k = Some b \<Longrightarrow> operational_entry fx signer s (put_bank k b' s)"
| lending_pool_collect_bank_fees:
    "lending_pool_collect_bank_fees fx ata parse_mint now gk g fs tp ais fa b = Inr (b', ts) \<Longrightarrow>
    fa_liquidity_amount fa \<le> u64_max \<Longrightarrow> ps_fee_state s = Some fs \<Longrightarrow> ps_groups s gk = Some g \<Longrightarrow>
    ps_banks s k = Some b \<Longrightarrow> operational_entry fx signer s (put_bank k b' s)"
| lending_pool_withdraw_fees: "lending_pool_withdraw_fees parse_mint now signer gk g tp ais fa dst n b = Inr t \<Longrightarrow>
    ps_groups s gk = Some g \<Longrightarrow> ps_banks s k = Some b \<Longrightarrow> operational_entry fx signer s s"
| lending_pool_withdraw_fees_permissionless:
    "lending_pool_withdraw_fees_permissionless parse_mint now gk g tp ais fa dst dst_mint n b = Inr t \<Longrightarrow>
    ps_groups s gk = Some g \<Longrightarrow> ps_banks s k = Some b \<Longrightarrow> operational_entry fx signer s s"
| lending_pool_update_fees_destination_account:
    "lending_pool_update_fees_destination_account now signer gk g dst dst_mint b = Inr b' \<Longrightarrow>
    ps_groups s gk = Some g \<Longrightarrow> ps_banks s k = Some b \<Longrightarrow> operational_entry fx signer s (put_bank k b' s)"
| lending_pool_withdraw_insurance:
    "lending_pool_withdraw_insurance parse_mint now signer gk g tp ais fa dst n b = Inr t \<Longrightarrow>
    ps_groups s gk = Some g \<Longrightarrow> ps_banks s k = Some b \<Longrightarrow> operational_entry fx signer s s"
| lending_pool_close_bank: "lending_pool_close_bank fx signer gk b g = Inr g' \<Longrightarrow> ps_groups s gk = Some g \<Longrightarrow>
    ps_banks s k = Some b \<Longrightarrow>
    operational_entry fx signer s ((put_group gk g' s)\<lparr>ps_banks := (ps_banks s)(k := None)\<rparr>)"
| transfer_to_new_account: "transfer_to_new_account tf now g old = Inr (old', new, t) \<Longrightarrow>
    ps_groups s (tf_group tf) = Some g \<Longrightarrow> ps_accounts s (tf_old_account tf) = Some old \<Longrightarrow>
    ps_accounts s (tf_new_account tf) = None \<Longrightarrow>
    operational_entry fx (tf_authority tf) s
      (put_account (tf_new_account tf) new (put_account (tf_old_account tf) old' s))"
| transfer_to_new_account_pda:
    "transfer_to_new_account_pda mrgn_id rules tx bump tf now g index third_party old = Inr (old', new, t) \<Longrightarrow>
    ps_groups s (tf_group tf) = Some g \<Longrightarrow> ps_accounts s (tf_old_account tf) = Some old \<Longrightarrow>
    ps_accounts s (tf_new_account tf) = None \<Longrightarrow>
    operational_entry fx (tf_authority tf) s
      (put_account (tf_new_account tf) new (put_account (tf_old_account tf) old' s))"
| marginfi_account_set_freeze: "set_account_freeze signer gk now g frozen a = Inr a' \<Longrightarrow>
    ps_groups s gk = Some g \<Longrightarrow> ps_accounts s k = Some a \<Longrightarrow> operational_entry fx signer s (put_account k a' s)"
| marginfi_account_close: "close_account signer a = Inr () \<Longrightarrow> ps_accounts s k = Some a \<Longrightarrow>
    operational_entry fx signer s (s\<lparr>ps_accounts := (ps_accounts s)(k := None)\<rparr>)"
| lending_account_withdraw_emissions_permissionless:
    "lending_account_withdraw_emissions_permissionless ata env ta ea g (a, b) = Inr (a', b', ts) \<Longrightarrow>
    reads_state fx s env \<Longrightarrow> ps_groups s (ta_group ta) = Some g \<Longrightarrow> ps_accounts s k = Some a \<Longrightarrow>
    ps_banks s (ta_bank ta) = Some b \<Longrightarrow>
    operational_entry fx signer s (put_account k a' (put_bank (ta_bank ta) b' s))"
| lending_account_pulse_health: "lending_account_pulse_health env ais a = Inr a' \<Longrightarrow> reads_state fx s env \<Longrightarrow>
    ps_accounts s k = Some a \<Longrightarrow> operational_entry fx signer s (put_account k a' s)"
| lending_pool_pulse_bank_price_cache: "lending_pool_pulse_bank_price_cache fx lib gk clock ais b = Inr b' \<Longrightarrow>
    ps_groups s gk = Some g \<Longrightarrow> ps_banks s k = Some b \<Longrightarrow> operational_entry fx signer s (put_bank k b' s)"

section \<open>Fee state and staked settings\<close>

inductive fee_entry ::
  "fixed_ops \<Rightarrow> pubkey \<Rightarrow> 'w program_state \<Rightarrow> 'w program_state \<Rightarrow> bool" for fx :: fixed_ops where
  init_global_fee_state: "ps_fee_state s = None \<Longrightarrow> fee_entry fx signer s
    (put_fee_state (initialize_fee_state key bump admin_key wallet bank_flat liq_flat fee_fixed fee_rate liq_max) s)"
| edit_global_fee_state:
    "edit_fee_state signer admin_key wallet bank_flat liq_flat fee_fixed fee_rate liq_max fs = Inr fs' \<Longrightarrow>
    ps_fee_state s = Some fs \<Longrightarrow> fee_entry fx signer s (put_fee_state fs' s)"
| propagate_fee_state: "propagate_fee now fs g = Inr g' \<Longrightarrow> ps_fee_state s = Some fs \<Longrightarrow> ps_groups s gk = Some g \<Longrightarrow>
    fee_entry fx signer s (put_group gk g' s)"
| config_group_fee: "config_group_fee signer enable now fs g = Inr g' \<Longrightarrow> ps_fee_state s = Some fs \<Longrightarrow>
    ps_groups s gk = Some g \<Longrightarrow> fee_entry fx signer s (put_group gk g' s)"
| init_staked_settings: "initialize_staked_settings signer g st = Inr st' \<Longrightarrow> ps_groups s gk = Some g \<Longrightarrow>
    ss_group st = gk \<Longrightarrow> ps_staked s k = None \<Longrightarrow> fee_entry fx signer s (put_staked k st' s)"
| edit_staked_settings: "edit_staked_settings signer gk g e st = Inr st' \<Longrightarrow> ps_groups s gk = Some g \<Longrightarrow>
    ps_staked s k = Some st \<Longrightarrow> fee_entry fx signer s (put_staked k st' s)"
| propagate_staked_settings: "propagate_staked_settings lib sk gk ais st b = Inr b' \<Longrightarrow> ps_groups s gk = Some g \<Longrightarrow>
    ps_staked s stk = Some st \<Longrightarrow> ps_banks s k = Some b \<Longrightarrow> fee_entry fx signer s (put_bank k b' s)"

section \<open>Receivership\<close>

inductive receivership_entry ::
  "fixed_ops \<Rightarrow> pubkey \<Rightarrow> 'w program_state \<Rightarrow> 'w program_state \<Rightarrow> bool" for fx :: fixed_ops where
  start_liquidation: "start_liquidation env pk tx r receiver ais (a, lr) = Inr (a', lr') \<Longrightarrow> reads_state fx s env \<Longrightarrow>
    ps_accounts s k = Some a \<Longrightarrow> ps_records s r = Some lr \<Longrightarrow>
    receivership_entry fx signer s (put_account k a' (put_record r lr' s))"
| end_liquidation: "end_liquidation env tx r signer fs wallet ais (a, lr) = Inr (a', lr', ts) \<Longrightarrow>
    reads_state fx s env \<Longrightarrow> ps_fee_state s = Some fs \<Longrightarrow> ps_accounts s k = Some a \<Longrightarrow> ps_records s r = Some lr \<Longrightarrow>
    receivership_entry fx signer s (put_account k a' (put_record r lr' s))"
| start_deleverage: "start_deleverage env pk tx r gk g signer ais (a, lr) = Inr (a', lr') \<Longrightarrow> reads_state fx s env \<Longrightarrow>
    ps_groups s gk = Some g \<Longrightarrow> ps_accounts s k = Some a \<Longrightarrow> ps_records s r = Some lr \<Longrightarrow>
    receivership_entry fx signer s (put_account k a' (put_record r lr' s))"
| end_deleverage: "end_deleverage env tx r gk g signer ais (a, lr) = Inr (a', lr') \<Longrightarrow> reads_state fx s env \<Longrightarrow>
    ps_groups s gk = Some g \<Longrightarrow> ps_accounts s k = Some a \<Longrightarrow> ps_records s r = Some lr \<Longrightarrow>
    receivership_entry fx signer s (put_account k a' (put_record r lr' s))"

section \<open>Pauses, curves, metadata, deleveraging\<close>

inductive upkeep_entry ::
  "fixed_ops \<Rightarrow> pubkey \<Rightarrow> 'w program_state \<Rightarrow> 'w program_state \<Rightarrow> bool" for fx :: fixed_ops where
  panic_pause: "panic_pause signer now fs = Inr fs' \<Longrightarrow> ps_fee_state s = Some fs \<Longrightarrow>
    upkeep_entry fx signer s (put_fee_state fs' s)"
| panic_unpause: "panic_unpause signer now fs = Inr fs' \<Longrightarrow> ps_fee_state s = Some fs \<Longrightarrow>
    upkeep_entry fx signer s (put_fee_state fs' s)"
| panic_unpause_permissionless: "panic_unpause_permissionless now fs = Inr fs' \<Longrightarrow> ps_fee_state s = Some fs \<Longrightarrow>
    upkeep_entry fx signer s (put_fee_state fs' s)"
| migrate_curve: "migrate_curve fx b = Inr b' \<Longrightarrow> ps_banks s k = Some b \<Longrightarrow> upkeep_entry fx signer s (put_bank k b' s)"
| init_bank_metadata: "ps_banks s k = Some b \<Longrightarrow> ps_metadata s mk = None \<Longrightarrow>
    upkeep_entry fx signer s (put_metadata mk (init_bank_metadata k bump) s)"
| write_bank_metadata: "write_bank_metadata signer gk k g b ticker desc md = Inr md' \<Longrightarrow> ps_groups s gk = Some g \<Longrightarrow>
    ps_banks s k = Some b \<Longrightarrow> ps_metadata s mk = Some md \<Longrightarrow> upkeep_entry fx signer s (put_metadata mk md' s)"
| configure_deleverage_withdrawal_limit: "configure_deleverage_withdrawal_limit signer limit now g = Inr g' \<Longrightarrow>
    ps_groups s gk = Some g \<Longrightarrow> upkeep_entry fx signer s (put_group gk g' s)"
| purge_deleverage_balance: "lending_account_purge_delev_balance env ta g (a, b) = Inr (a', b') \<Longrightarrow>
    reads_state fx s env \<Longrightarrow> ps_groups s (ta_group ta) = Some g \<Longrightarrow> ps_accounts s k = Some a \<Longrightarrow>
    ps_banks s (ta_bank ta) = Some b \<Longrightarrow>
    upkeep_entry fx (ta_authority ta) s (put_account k a' (put_bank (ta_bank ta) b' s))"

section \<open>The other lending programs\<close>

inductive kamino_entry ::
  "fixed_ops \<Rightarrow> 'w chain \<Rightarrow> pubkey \<Rightarrow> 'w program_state \<Rightarrow> 'w program_state \<Rightarrow> bool"
  for fx :: fixed_ops and ch :: "'w chain" where
  kamino_init_obligation: "kamino_init_obligation ch ki b n (ps_chain s) = Inr w \<Longrightarrow> ps_banks s k = Some b \<Longrightarrow>
    n \<le> u64_max \<Longrightarrow> kamino_entry fx ch signer s (put_chain w s)"
| kamino_deposit: "kamino_deposit ch env ka g n (a, b, ps_chain s) = Inr (a', b', w) \<Longrightarrow> reads_state fx s env \<Longrightarrow>
    n \<le> u64_max \<Longrightarrow> ps_groups s (in_group ka) = Some g \<Longrightarrow> ps_accounts s k = Some a \<Longrightarrow>
    ps_banks s (in_bank ka) = Some b \<Longrightarrow>
    kamino_entry fx ch (in_authority ka) s (put_chain w (put_account k a' (put_bank (in_bank ka) b' s)))"
| kamino_withdraw: "kamino_withdraw ch env ka ais n all (g, a, b, ps_chain s) = Inr (g', a', b', w) \<Longrightarrow>
    reads_state fx s env \<Longrightarrow> n \<le> u64_max \<Longrightarrow> ps_groups s (in_group ka) = Some g \<Longrightarrow> ps_accounts s k = Some a \<Longrightarrow>
    ps_banks s (in_bank ka) = Some b \<Longrightarrow>
    kamino_entry fx ch (in_authority ka) s
      (put_chain w (put_account k a' (put_bank (in_bank ka) b' (put_group (in_group ka) g' s))))"
| lending_pool_add_bank_kamino:
    "lending_pool_add_bank_kamino fx lib sk now signer nb c reserve obligation ais g = Inr (b, g') \<Longrightarrow>
    ps_groups s (nb_group nb) = Some g \<Longrightarrow> fresh_bank k s \<Longrightarrow>
    kamino_entry fx ch signer s (put_bank k b (put_group (nb_group nb) g' s))"
| kamino_harvest_reward: "kamino_harvest_reward ch ata fs kh b reward_index (ps_chain s) = Inr w \<Longrightarrow>
    ps_fee_state s = Some fs \<Longrightarrow> ps_banks s k = Some b \<Longrightarrow> kamino_entry fx ch signer s (put_chain w s)"

inductive drift_entry ::
  "fixed_ops \<Rightarrow> 'w chain \<Rightarrow> pubkey \<Rightarrow> 'w program_state \<Rightarrow> 'w program_state \<Rightarrow> bool"
  for fx :: fixed_ops and ch :: "'w chain" where
  lending_pool_add_bank_drift:
    "lending_pool_add_bank_drift fx lib sk now signer nb c market user user_stats ais g = Inr (b, g') \<Longrightarrow>
    ps_groups s (nb_group nb) = Some g \<Longrightarrow> fresh_bank k s \<Longrightarrow>
    drift_entry fx ch signer s (put_bank k b (put_group (nb_group nb) g' s))"
| drift_init_user: "drift_init_user ch di b n (ps_chain s) = Inr w \<Longrightarrow> ps_banks s k = Some b \<Longrightarrow> n \<le> u64_max \<Longrightarrow>
    drift_entry fx ch signer s (put_chain w s)"
| drift_deposit: "drift_deposit ch env da g n (a, b, ps_chain s) = Inr (a', b', w) \<Longrightarrow> reads_state fx s env \<Longrightarrow>
    n \<le> u64_max \<Longrightarrow> ps_groups s (in_group da) = Some g \<Longrightarrow> ps_accounts s k = Some a \<Longrightarrow>
    ps_banks s (in_bank da) = Some b \<Longrightarrow>
    drift_entry fx ch (in_authority da) s (put_chain w (put_account k a' (put_bank (in_bank da) b' s)))"
| drift_withdraw: "drift_withdraw ch env da ais n all (g, a, b, ps_chain s) = Inr (g', a', b', w) \<Longrightarrow>
    reads_state fx s env \<Longrightarrow> n \<le> u64_max \<Longrightarrow> ps_groups s (in_group da) = Some g \<Longrightarrow> ps_accounts s k = Some a \<Longrightarrow>
    ps_banks s (in_bank da) = Some b \<Longrightarrow>
    drift_entry fx ch (in_authority da) s
      (put_chain w (put_account k a' (put_bank (in_bank da) b' (put_group (in_group da) g' s))))"
| drift_harvest_reward: "drift_harvest_reward ch ata fs dh b remaining (ps_chain s) = Inr w \<Longrightarrow>
    ps_fee_state s = Some fs \<Longrightarrow> ps_banks s k = Some b \<Longrightarrow> drift_entry fx ch signer s (put_chain w s)"

inductive solend_entry ::
  "fixed_ops \<Rightarrow> 'w chain \<Rightarrow> pubkey \<Rightarrow> 'w program_state \<Rightarrow> 'w program_state \<Rightarrow> bool"
  for fx :: fixed_ops and ch :: "'w chain" where
  lending_pool_add_bank_solend:
    "lending_pool_add_bank_solend fx lib sk now signer nb c reserve obligation ais g = Inr (b, g') \<Longrightarrow>
    ps_groups s (nb_group nb) = Some g \<Longrightarrow> fresh_bank k s \<Longrightarrow>
    solend_entry fx ch signer s (put_bank k b (put_group (nb_group nb) g' s))"
| solend_init_obligation: "solend_init_obligation ch so fee_payer token_mint token_owner b n (ps_chain s) = Inr w \<Longrightarrow>
    ps_banks s k = Some b \<Longrightarrow> n \<le> u64_max \<Longrightarrow> solend_entry fx ch signer s (put_chain w s)"
| solend_deposit: "solend_deposit ch env so g n (a, b, ps_chain s) = Inr (a', b', w) \<Longrightarrow> reads_state fx s env \<Longrightarrow>
    n \<le> u64_max \<Longrightarrow> ps_groups s (in_group so) = Some g \<Longrightarrow> ps_accounts s k = Some a \<Longrightarrow>
    ps_banks s (in_bank so) = Some b \<Longrightarrow>
    solend_entry fx ch (in_authority so) s (put_chain w (put_account k a' (put_bank (in_bank so) b' s)))"
| solend_withdraw: "solend_withdraw ch env so ais n all (g, a, b, ps_chain s) = Inr (g', a', b', w) \<Longrightarrow>
    reads_state fx s env \<Longrightarrow> n \<le> u64_max \<Longrightarrow> ps_groups s (in_group so) = Some g \<Longrightarrow> ps_accounts s k = Some a \<Longrightarrow>
    ps_banks s (in_bank so) = Some b \<Longrightarrow>
    solend_entry fx ch (in_authority so) s
      (put_chain w (put_account k a' (put_bank (in_bank so) b' (put_group (in_group so) g' s))))"

section \<open>The program\<close>

text \<open>
  One instruction; besides, what the other programs do between instructions, which reaches no account
  of this program.
\<close>

inductive program_step ::
  "fixed_ops \<Rightarrow> 'w chain \<Rightarrow> pubkey \<Rightarrow> 'w program_state \<Rightarrow> 'w program_state \<Rightarrow> bool"
  for fx :: fixed_ops and ch :: "'w chain" where
  group: "group_entry fx signer s s' \<Longrightarrow> program_step fx ch signer s s'"
| add_bank: "add_bank_entry fx signer s s' \<Longrightarrow> program_step fx ch signer s s'"
| settings: "settings_entry fx signer s s' \<Longrightarrow> program_step fx ch signer s s'"
| user: "user_entry fx signer s s' \<Longrightarrow> program_step fx ch signer s s'"
| operational: "operational_entry fx signer s s' \<Longrightarrow> program_step fx ch signer s s'"
| fees: "fee_entry fx signer s s' \<Longrightarrow> program_step fx ch signer s s'"
| receivership: "receivership_entry fx signer s s' \<Longrightarrow> program_step fx ch signer s s'"
| upkeep: "upkeep_entry fx signer s s' \<Longrightarrow> program_step fx ch signer s s'"
| kamino: "kamino_entry fx ch signer s s' \<Longrightarrow> program_step fx ch signer s s'"
| drift: "drift_entry fx ch signer s s' \<Longrightarrow> program_step fx ch signer s s'"
| solend: "solend_entry fx ch signer s s' \<Longrightarrow> program_step fx ch signer s s'"
| elsewhere: "program_step fx ch signer s (put_chain w s)"

text \<open>Any number of instructions, with the keys that sign them.\<close>

inductive program_run ::
  "fixed_ops \<Rightarrow> 'w chain \<Rightarrow> pubkey list \<Rightarrow> 'w program_state \<Rightarrow> 'w program_state \<Rightarrow> bool"
  for fx :: fixed_ops and ch :: "'w chain" where
  nothing: "program_run fx ch [] s s"
| more: "program_run fx ch ks s s' \<Longrightarrow> program_step fx ch k s' s'' \<Longrightarrow> program_run fx ch (ks @ [k]) s s''"

lemma program_run_induct [consumes 2, case_names step]:
  assumes "program_run fx ch ks s s'" and "Q s"
    and "\<And>k s s'. program_step fx ch k s s' \<Longrightarrow> k \<in> set ks \<Longrightarrow> Q s \<Longrightarrow> Q s'"
  shows "Q s'"
  using assms
proof (induction rule: program_run.induct)
  case (nothing s)
  then show ?case by simp
next
  case (more ks s s' k s'')
  have "Q s'" by (rule more.IH [OF more.prems(1)], rule more.prems(2)) auto
  then show ?case using more.prems(2) [OF more.hyps(2)] by simp
qed

end
