(* ===== verification/ProgramFacts.thy ===== *)
theory ProgramFacts
  imports Program
begin

text \<open>
  What the entry points do to the books of the program: those of users are steps of the protocol,
  those of administrators keep what the banks owe and are owed, new banks owe nothing.
\<close>

section \<open>Entry points as steps of the protocol\<close>

definition world_of :: "'w program_state \<Rightarrow> world" where
  "world_of s = (ps_accounts s, ps_banks s)"

lemma world_of_put [simp]:
  "world_of (put_account k a s) = ((fst (world_of s))(k \<mapsto> a), snd (world_of s))"
  "world_of (put_bank k b s) = (fst (world_of s), (snd (world_of s))(k \<mapsto> b))"
  "world_of (put_group k g s) = world_of s" "world_of (put_record k r s) = world_of s"
  "world_of (put_staked k st s) = world_of s" "world_of (put_metadata k m s) = world_of s"
  "world_of (put_fee_state fs s) = world_of s" "world_of (put_chain w s) = world_of s"
  by (simp_all add: world_of_def put_defs)

lemma reads_fx: "reads_state fx s env \<Longrightarrow> e_fx env = fx"
  by (simp add: reads_state_def)

lemma solo_world:
  assumes "solo_ix fx ch pk (a, b) (a', b')" and "ps_accounts s k = Some a" and "ps_banks s pk = Some b"
  shows "everyday_step fx ch (world_of s) ((fst (world_of s))(k \<mapsto> a'), (snd (world_of s))(pk \<mapsto> b'))"
  unfolding world_of_def fst_conv snd_conv by (rule world_step.solo) (rule assms)+

lemma alone_world:
  assumes "alone_ix a a'" and "ps_accounts s k = Some a"
  shows "everyday_step fx ch (world_of s) ((fst (world_of s))(k \<mapsto> a'), snd (world_of s))"
  unfolding world_of_def fst_conv snd_conv by (rule world_step.alone) (rule assms)+

lemma open_world:
  assumes "a = initialize_account gk auth now
      \<or> initialize_account_pda mrgn_id rules tx bump gk auth now index third_party = Inr a"
    and "ps_accounts s k = None"
  shows "everyday_step fx ch (world_of s) ((fst (world_of s))(k \<mapsto> a), snd (world_of s))"
  unfolding world_of_def fst_conv snd_conv by (rule world_step.open_account) (rule assms)+

lemma transfer_world:
  assumes "transfer_to_new_account tf now g old = Inr (old', new, t)
      \<or> transfer_to_new_account_pda mrgn_id rules tx bump tf now g index third_party old = Inr (old', new, t)"
    and "ps_accounts s (tf_old_account tf) = Some old" "ps_accounts s (tf_new_account tf) = None"
  shows "everyday_step fx ch (world_of s)
    ((fst (world_of s))(tf_old_account tf \<mapsto> old', tf_new_account tf \<mapsto> new), snd (world_of s))"
  unfolding world_of_def fst_conv snd_conv by (rule world_step.transfer) (rule assms)+

lemma user_entry_world:
  assumes "user_entry fx signer s s'"
  shows "everyday_step fx ch (world_of s) (world_of s')"
  using assms
proof (cases rule: user_entry.cases)
  case (lending_pool_handle_bankruptcy env bk g ais a b a' b' t k)
  show ?thesis
    using solo_world [OF solo_ix.bankruptcy [OF lending_pool_handle_bankruptcy(3) reads_fx]]
      lending_pool_handle_bankruptcy by simp
next
  case (marginfi_account_initialize a gk now g k)
  then show ?thesis using open_world [OF disjI1] by simp
next
  case (marginfi_account_init_liq_record r payer k a a' lr)
  then show ?thesis using alone_world [OF alone_ix.calm [OF calm_ix.liquidation_record]] by simp
next
  case (marginfi_account_initialize_pda mrgn_id rules tx bump gk now index third_party a g k)
  then show ?thesis using open_world [OF disjI2] by simp
next
  case (lending_account_deposit env ta g ais n up a b a' b' ts k)
  show ?thesis
    using solo_world [OF solo_ix.deposit [OF lending_account_deposit(3) reads_fx]] lending_account_deposit by simp
next
  case (lending_account_repay env ta g ais n all a b a' b' ts k)
  show ?thesis
    using solo_world [OF solo_ix.repay [OF lending_account_repay(3) reads_fx]] lending_account_repay by simp
next
  case (lending_account_withdraw env ta ais n all g a b g' a' b' ts k)
  show ?thesis
    using solo_world [OF solo_ix.withdraw [OF lending_account_withdraw(3) reads_fx]] lending_account_withdraw by simp
next
  case (lending_account_borrow env ta g ais n a b a' b' ts k)
  show ?thesis
    using solo_world [OF solo_ix.borrow [OF lending_account_borrow(3) reads_fx]] lending_account_borrow by simp
next
  case (lending_account_close_balance env ta g a b a' b' k)
  show ?thesis
    using solo_world [OF solo_ix.close_balance [OF lending_account_close_balance(3) reads_fx]]
      lending_account_close_balance by simp
next
  case (lending_account_withdraw_emissions env ta ea g a b a' b' ts k)
  show ?thesis
    using solo_world [OF solo_ix.emissions [OF lending_account_withdraw_emissions(3) reads_fx]]
      lending_account_withdraw_emissions by simp
next
  case (lending_account_settle_emissions env bank_key a b a' b' k)
  show ?thesis
    using solo_world [OF solo_ix.settle [OF lending_account_settle_emissions(2) reads_fx]]
      lending_account_settle_emissions by simp
next
  case (lending_account_liquidate env lq g ais n k1 k2 tor tee ab lb tor' tee' ab' lb' t)
  show ?thesis
    unfolding lending_account_liquidate(1,2) world_of_def put_defs
    using world_step.liquidate [OF lending_account_liquidate(3) reads_fx [OF lending_account_liquidate(5)]
        lending_account_liquidate(4,7-10)] by simp
next
  case (lending_account_start_flashloan mrgn_id k a tx end_index a')
  then show ?thesis using alone_world [OF alone_ix.start_flashloan] by simp
next
  case (lending_account_end_flashloan a tx env ais a' k)
  then show ?thesis using alone_world [OF alone_ix.end_flashloan] by simp
next
  case (marginfi_account_update_emissions_destination_account now dst a a' k)
  then show ?thesis using alone_world [OF alone_ix.calm [OF calm_ix.destination]] by simp
qed

lemma position_in_world:
  assumes "kamino_in fx ch pk (a, b, w) (a', b', w') \<or> drift_in fx ch pk (a, b, w) (a', b', w')
      \<or> solend_in fx ch pk (a, b, w) (a', b', w')"
    and "ps_accounts s k = Some a" and "ps_banks s pk = Some b"
  shows "everyday_step fx ch (world_of s) ((fst (world_of s))(k \<mapsto> a'), (snd (world_of s))(pk \<mapsto> b'))"
  by (rule solo_world [OF solo_ix.position_in [OF assms(1)] assms(2,3)])

lemma position_out_world:
  assumes "kamino_out fx ch pk (a, b, w) (a', b', w') \<or> drift_out fx ch pk (a, b, w) (a', b', w')
      \<or> solend_out fx ch pk (a, b, w) (a', b', w')"
    and "ps_accounts s k = Some a" and "ps_banks s pk = Some b"
  shows "everyday_step fx ch (world_of s) ((fst (world_of s))(k \<mapsto> a'), (snd (world_of s))(pk \<mapsto> b'))"
  by (rule solo_world [OF solo_ix.position_out [OF assms(1)] assms(2,3)])

section \<open>What administrators do to a bank\<close>

text \<open>The money of a bank: what its shares are worth, how many there are, and the fees it collected.\<close>

definition same_money :: "Bank \<Rightarrow> Bank \<Rightarrow> bool" where
  "same_money b b' \<longleftrightarrow> asset_share_value b' = asset_share_value b
     \<and> liability_share_value b' = liability_share_value b \<and> total_asset_shares b' = total_asset_shares b
     \<and> total_liability_shares b' = total_liability_shares b
     \<and> collected_group_fees_outstanding b' = collected_group_fees_outstanding b
     \<and> collected_insurance_fees_outstanding b' = collected_insurance_fees_outstanding b
     \<and> collected_program_fees_outstanding b' = collected_program_fees_outstanding b"

lemma same_money_refl [simp]: "same_money b b"
  by (simp add: same_money_def)

lemma same_money_trans: "same_money b b' \<Longrightarrow> same_money b' b'' \<Longrightarrow> same_money b b''"
  by (simp add: same_money_def)

lemma same_money_ok: "same_money b b' \<Longrightarrow> bank_ok b \<Longrightarrow> bank_ok b'"
  by (simp add: same_money_def bank_ok_def)

lemma same_money_updates [simp]:
  "same_money b (b0\<lparr>config := c\<rparr>) \<longleftrightarrow> same_money b b0" "same_money b (b0\<lparr>emode := e\<rparr>) \<longleftrightarrow> same_money b b0"
  "same_money b (b0\<lparr>bank_flags := f\<rparr>) \<longleftrightarrow> same_money b b0"
  "same_money b (b0\<lparr>emissions_mint := m\<rparr>) \<longleftrightarrow> same_money b b0"
  "same_money b (b0\<lparr>emissions_rate := n\<rparr>) \<longleftrightarrow> same_money b b0"
  "same_money b (b0\<lparr>emissions_remaining := x\<rparr>) \<longleftrightarrow> same_money b b0"
  "same_money b (b0\<lparr>fees_destination_account := k\<rparr>) \<longleftrightarrow> same_money b b0"
  "same_money b (update_cache_price now pr b0) \<longleftrightarrow> same_money b b0"
  by (simp_all add: same_money_def update_cache_price_def split: option.splits)

lemma flag_shape:
  "update_flag v f b = Inr b' \<Longrightarrow> \<exists>fl. b' = b\<lparr>bank_flags := fl\<rparr>"
  "update_flag_if_some v' f b = Inr b' \<Longrightarrow> \<exists>fl. b' = b\<lparr>bank_flags := fl\<rparr>"
  "override_emissions_flag w b = Inr b' \<Longrightarrow> \<exists>fl. b' = b\<lparr>bank_flags := fl\<rparr>"
  by (auto simp: update_flag_def update_flag_if_some_def override_emissions_flag_def res_simps
      split: if_splits option.splits intro: exI [of _ "bank_flags b"])

lemma configure_shape:
  "bank_configure oc b = Inr b' \<Longrightarrow> \<exists>fl. b' = b\<lparr>config := apply_config_opt oc (config b), bank_flags := fl\<rparr>"
  by (auto simp: bank_configure_def res_simps split: if_splits dest!: flag_shape(2))

text \<open>The settings instructions: who signs, in which group, and that the money stays.\<close>

definition settings_admins :: "MarginfiGroup \<Rightarrow> pubkey set" where
  "settings_admins g = {admin g, emode_admin g, delegate_curve_admin g, delegate_limit_admin g,
     delegate_emissions_admin g, risk_admin g}"

lemma settings_entry_bank:
  assumes "settings_entry fx signer s s'"
  obtains gk g k b b' where "ps_groups s gk = Some g" "signer \<in> settings_admins g" "ps_banks s k = Some b"
    "bank_group b = gk" "bank_group b' = gk" "same_money b b'" "s' = put_bank k b' s"
  using assms
proof (cases rule: settings_entry.cases)
  case (lending_pool_configure_bank gk g oc b b' k)
  then show thesis
    by (intro that [of gk g k b b'])
      (auto simp: lending_pool_configure_bank_def settings_admins_def check_def bank_in_group_def
        configure_unfrozen_fields_only_def elim!: bindE dest!: configure_shape split: if_splits)
next
  case (lending_pool_configure_bank_interest_only gk g ir b b' k)
  then show thesis
    by (intro that [of gk g k b b'])
      (auto simp: lending_pool_configure_bank_interest_only_def settings_admins_def check_def bank_in_group_def Let_def
        elim!: bindE split: if_splits)
next
  case (lending_pool_configure_bank_limits_only gk g dep bor lim b b' k)
  then show thesis
    by (intro that [of gk g k b b'])
      (auto simp: lending_pool_configure_bank_limits_only_def settings_admins_def check_def bank_in_group_def Let_def
        elim!: bindE split: if_splits)
next
  case (lending_pool_force_tokenless_repay_complete gk g b b' k)
  then show thesis
    by (intro that [of gk g k b b'])
      (auto simp: lending_pool_force_tokenless_repay_complete_def settings_admins_def check_def bank_in_group_def
        elim!: bindE dest!: flag_shape(1) split: if_splits)
next
  case (lending_pool_configure_bank_oracle lib sk gk g ais setup_type new_oracle b b' k)
  then show thesis
    by (intro that [of gk g k b b'])
      (auto simp: lending_pool_configure_bank_oracle_def settings_admins_def check_def bank_in_group_def Let_def
        elim!: bindE split: if_splits)
next
  case (lending_pool_set_fixed_oracle_price lib sk gk g price b b' k)
  then show thesis
    by (intro that [of gk g k b b'])
      (auto simp: lending_pool_set_fixed_oracle_price_def settings_admins_def constraint_def check_def Let_def
        elim!: bindE split: if_splits)
next
  case (lending_pool_configure_bank_emode gk g now tag es b b' k)
  then show thesis
    by (intro that [of gk g k b b'])
      (auto simp: lending_pool_configure_bank_emode_def settings_admins_def check_def bank_in_group_def Let_def
        elim!: bindE split: if_splits)
next
  case (lending_pool_clone_emode gk g src b b' k0 k)
  then show thesis
    by (intro that [of gk g k b b'])
      (auto simp: lending_pool_clone_emode_def settings_admins_def check_def bank_in_group_def
        elim!: bindE split: if_splits)
next
  case (lending_pool_setup_emissions gk g epoch em_mint mint_ai funding em_account flags em_rate n b b' t k)
  then show thesis
    by (intro that [of gk g k b b'])
      (auto simp: lending_pool_setup_emissions_def settings_admins_def check_def bank_in_group_def Let_def
        elim!: bindE dest!: flag_shape(3) split: if_splits)
next
  case (lending_pool_update_emissions_parameters gk g epoch em_mint mint_ai funding em_account flags' em_rate'
      more_n b b' t' k)
  then show thesis
    by (intro that [of gk g k b b'])
      (auto simp: lending_pool_update_emissions_parameters_def settings_admins_def check_def bank_in_group_def Let_def
        elim!: bindE split: if_splits option.splits)
qed

section \<open>New banks\<close>

definition new_bank_ok :: "Bank \<Rightarrow> bool" where
  "new_bank_ok b \<longleftrightarrow> bank_ok b \<and> total_asset_shares b = 0 \<and> total_liability_shares b = 0"

lemma new_bank_simps [simp]:
  "new_bank_ok (bank_of_accounts nb c now)"
  "new_bank_ok (b\<lparr>config := c\<rparr>) \<longleftrightarrow> new_bank_ok b" "new_bank_ok (b\<lparr>emode := e\<rparr>) \<longleftrightarrow> new_bank_ok b"
  "new_bank_ok (b\<lparr>bank_flags := f\<rparr>) \<longleftrightarrow> new_bank_ok b" "new_bank_ok (b\<lparr>emissions_mint := k\<rparr>) \<longleftrightarrow> new_bank_ok b"
  "new_bank_ok (b\<lparr>emissions_rate := n\<rparr>) \<longleftrightarrow> new_bank_ok b"
  "new_bank_ok (b\<lparr>fees_destination_account := k\<rparr>) \<longleftrightarrow> new_bank_ok b"
  "new_bank_ok (b\<lparr>integration_acc_1 := k\<rparr>) \<longleftrightarrow> new_bank_ok b"
  "new_bank_ok (b\<lparr>integration_acc_2 := k\<rparr>) \<longleftrightarrow> new_bank_ok b"
  "new_bank_ok (b\<lparr>integration_acc_3 := k\<rparr>) \<longleftrightarrow> new_bank_ok b"
proof -
  show "new_bank_ok (bank_of_accounts nb c now)"
    using bank_new_ok by (simp add: new_bank_ok_def bank_of_accounts_def split: prod.splits) (simp add: bank_new_def)
qed (simp_all add: new_bank_ok_def bank_ok_def)

lemma bank_of_accounts_group: "bank_group (bank_of_accounts nb c now) = nb_group nb"
  by (simp add: bank_of_accounts_def bank_new_def split: prod.splits)

lemma integration_bank_new:
  "add_integration_bank lib sk now nb c accs ais g = Inr (b, g') \<Longrightarrow>
    new_bank_ok b \<and> g' = add_bank now g \<and> bank_group b = nb_group nb"
  by (auto simp: add_integration_bank_def Let_def bank_of_accounts_group
      elim!: bindE split: prod.splits)

lemma added_bank:
  shows "lending_pool_add_bank signer payer wallet now fs nb cc g = Inr (b, g', ts) \<Longrightarrow>
      new_bank_ok b \<and> g' = add_bank now g \<and> bank_group b = nb_group nb \<and> signer = admin g"
    and "lending_pool_add_bank_with_seed signer payer wallet now fs nb cc bank_seed g = Inr (b, g', ts) \<Longrightarrow>
      new_bank_ok b \<and> g' = add_bank now g \<and> bank_group b = nb_group nb \<and> signer = admin g"
    and "lending_pool_clone_bank crate_id signer now nb source g = Inr (b, g') \<Longrightarrow>
      new_bank_ok b \<and> g' = add_bank now g \<and> bank_group b = nb_group nb \<and> signer = admin g"
    and "lending_pool_add_bank_permissionless fx lib sk now (nb_group nb) st nb stake_pool sol_pool ais g
      = Inr (b, g') \<Longrightarrow> new_bank_ok b \<and> g' = add_bank now g \<and> bank_group b = nb_group nb"
    and "lending_pool_add_bank_kamino fx lib sk now signer nb c kreserve acc2 ais g = Inr (b, g') \<Longrightarrow>
      new_bank_ok b \<and> g' = add_bank now g \<and> bank_group b = nb_group nb \<and> signer = admin g"
    and "lending_pool_add_bank_drift fx lib sk now signer nb c market acc2 acc3 ais g = Inr (b, g') \<Longrightarrow>
      new_bank_ok b \<and> g' = add_bank now g \<and> bank_group b = nb_group nb \<and> signer = admin g"
    and "lending_pool_add_bank_solend fx lib sk now signer nb c sreserve acc2 ais g = Inr (b, g') \<Longrightarrow>
      new_bank_ok b \<and> g' = add_bank now g \<and> bank_group b = nb_group nb \<and> signer = admin g"
  subgoal by (auto simp: lending_pool_add_bank_def check_def Let_def bank_of_accounts_group
      elim!: bindE split: if_splits)
  subgoal by (auto simp: lending_pool_add_bank_with_seed_def lending_pool_add_bank_def check_def Let_def
      bank_of_accounts_group elim!: bindE split: if_splits)
  subgoal by (auto simp: lending_pool_clone_bank_def check_def Let_def bank_of_accounts_group
      elim!: bindE split: if_splits)
  subgoal by (auto simp: lending_pool_add_bank_permissionless_def check_def Let_def bank_of_accounts_group
      elim!: bindE split: if_splits)
  subgoal by (auto simp: lending_pool_add_bank_kamino_def check_def elim!: bindE split: if_splits
      dest!: integration_bank_new)
  subgoal by (auto simp: lending_pool_add_bank_drift_def check_def elim!: bindE split: if_splits
      dest!: integration_bank_new)
  subgoal by (auto simp: lending_pool_add_bank_solend_def check_def elim!: bindE split: if_splits
      dest!: integration_bank_new)
  done

lemma add_bank_entry_shape:
  assumes "add_bank_entry fx signer s s'"
  obtains k b gk g now where "fresh_bank k s" "new_bank_ok b" "ps_groups s gk = Some g" "bank_group b = gk"
    "s' = put_bank k b (put_group gk (add_bank now g) s)"
  using assms
proof (cases rule: add_bank_entry.cases)
  case (lending_pool_add_bank payer wallet now fs nb c g b g' ts k)
  then show thesis using added_bank(1) [OF lending_pool_add_bank(2)] that by blast
next
  case (lending_pool_add_bank_with_seed payer wallet now fs nb c bank_seed g b g' ts k)
  then show thesis using added_bank(2) [OF lending_pool_add_bank_with_seed(2)] that by blast
next
  case (lending_pool_clone_bank crate_id now nb source g b g' k)
  then show thesis using added_bank(3) [OF lending_pool_clone_bank(2)] that by blast
next
  case (lending_pool_add_bank_permissionless lib sk now nb st stake_pool sol_pool ais g b g' stk k)
  then show thesis using added_bank(4) [OF lending_pool_add_bank_permissionless(2)] that by blast
qed

section \<open>The books of the program\<close>

definition ps_books :: "'w program_state \<Rightarrow> books" where
  "ps_books s = books_of (world_of s)"

lemma ps_books_put [simp]:
  "ps_books (put_group k g s) = ps_books s" "ps_books (put_record k r s) = ps_books s"
  "ps_books (put_staked k st s) = ps_books s" "ps_books (put_metadata k m s) = ps_books s"
  "ps_books (put_fee_state fs s) = ps_books s" "ps_books (put_chain w s) = ps_books s"
  "ps_books (put_bank k b s) = (fst (ps_books s), (snd (ps_books s))(k \<mapsto> b))"
  by (simp_all add: ps_books_def) (simp add: books_of_def)

lemma ps_books_eq: "ps_books s = (map_option lending_account \<circ> ps_accounts s, ps_banks s)"
  by (simp add: ps_books_def world_of_def)

lemma books_bank_put:
  assumes "books_ok (ps_books s)" and "ps_banks s k = Some b" and "same_money b b'"
  shows "books_ok (ps_books (put_bank k b' s))"
proof -
  have "bank_ok b" using assms(1,2) by (auto simp: ps_books_eq books_ok_def)
  then have "bank_ok b'" using assms(3) same_money_ok by blast
  then show ?thesis
    using assms books_bank [of "map_option lending_account \<circ> ps_accounts s" "ps_banks s" k b b']
    by (simp add: ps_books_eq same_money_def put_bank_def)
qed

text \<open>Nothing is held in a bank that no balance names.\<close>

lemma held_none:
  assumes "\<And>b. b \<in> set (balances la) \<Longrightarrow> \<not> (is_active b \<and> bank_pk b = k)"
  shows "held f k la = 0"
proof -
  have "map (\<lambda>b. if is_active b \<and> bank_pk b = k then f b else 0) (balances la) = map (\<lambda>b. 0) (balances la)"
    by (rule map_cong) (use assms in \<open>auto split: if_splits\<close>)
  then show ?thesis by (simp add: held_def sum_list_replicate map_replicate_const)
qed

lemma books_new_bank:
  assumes ok: "books_ok (ps_books s)" and fresh: "fresh_bank k s" and b: "new_bank_ok b"
  shows "books_ok (ps_books (put_bank k b s))"
proof -
  let ?las = "map_option lending_account \<circ> ps_accounts s"
  have away: "\<not> (is_active bal \<and> bank_pk bal = k)" if "la \<in> ran ?las" "bal \<in> set (balances la)" for la bal
    using fresh that by (auto simp: fresh_bank_def ran_def)
  have h: "held_by_all f k ?las = 0" for f
    unfolding held_by_all_def
  proof (rule sum.neutral, rule ballI, rule held_none)
    fix j bal
    assume "j \<in> dom ?las" and bal: "bal \<in> set (balances (the (?las j)))"
    then obtain la where la: "?las j = Some la" by blast
    have "bal \<in> set (balances la)" using bal unfolding la option.sel .
    then show "\<not> (is_active bal \<and> bank_pk bal = k)" using away [OF ranI [of ?las, OF la]] by blast
  qed
  have hk: "holdings_ok k la" if "la \<in> ran ?las" for la
    using away [OF that] by (auto simp: holdings_ok_def)
  have "books_ok (?las, (ps_banks s)(k \<mapsto> b))"
    using ok b h hk unfolding ps_books_eq books_ok_def new_bank_ok_def by auto
  then show ?thesis by (simp add: ps_books_eq put_bank_def)
qed

lemma books_close_bank: "books_ok (ps_books s) \<Longrightarrow> books_ok (ps_books (s\<lparr>ps_banks := (ps_banks s)(k := None)\<rparr>))"
  by (auto simp: ps_books_eq books_ok_def)

context typed_chain
begin

lemma world_ok: "everyday_step fx ch (world_of s) (world_of s') \<Longrightarrow> books_ok (ps_books s) \<Longrightarrow> books_ok (ps_books s')"
  unfolding ps_books_def by (rule everyday_step_ok)

lemma bank_ix_put:
  assumes "bank_ix fx b b'" and "ps_banks s k = Some b" and "books_ok (ps_books s)"
  shows "books_ok (ps_books (put_bank k b' s))"
  using world_step.bank [OF assms(1), of "ps_banks s" k alone_ix ch "ps_accounts s"] assms(2,3)
    world_ok [of s "put_bank k b' s"] by (simp add: world_of_def put_bank_def)

lemma collect_fees_ok:
  assumes "lending_pool_collect_bank_fees fx ata parse_mint now gk g fs tp ais fa b = Inr (b', ts)"
    and ok: "bank_ok b" and n: "fa_liquidity_amount fa \<le> u64_max"
  shows "bank_ok b' \<and> total_asset_shares b' = total_asset_shares b \<and> total_liability_shares b' = total_liability_shares b"
proof -
  let ?n = "int (fa_liquidity_amount fa) * ONE"
  obtain ins ins_rest left1 grp grp_rest left2 prg prg_rest left3 where
    t: "take_fee fx (collected_insurance_fees_outstanding b) ?n = Inr (ins, ins_rest, left1)"
      "take_fee fx (collected_group_fees_outstanding b) left1 = Inr (grp, grp_rest, left2)"
      "take_fee fx (collected_program_fees_outstanding b) left2 = Inr (prg, prg_rest, left3)"
    and b': "b' = b\<lparr>collected_insurance_fees_outstanding := ins_rest,
          collected_group_fees_outstanding := grp_rest, collected_program_fees_outstanding := prg_rest\<rparr>"
    using assms(1)
    by (auto simp: lending_pool_collect_bank_fees_def Let_def from_num_u64 [OF n] res_simps
        elim!: bindR_InrE split: if_splits prod.splits)
  have "0 \<le> ?n" using ONE_nonneg by simp
  with ok take_fee_exact [OF t(1)] take_fee_exact [OF t(2)] take_fee_exact [OF t(3)]
  have "0 \<le> ins_rest" "0 \<le> grp_rest" "0 \<le> prg_rest" by (auto simp: bank_ok_def)
  then show ?thesis using ok by (simp add: b' bank_ok_def)
qed

lemma operational_entry_ok:
  assumes "operational_entry fx signer s s'" and ok: "books_ok (ps_books s)"
  shows "books_ok (ps_books s')"
proof -
  have W: "everyday_step fx ch (world_of s) (world_of s') \<Longrightarrow> ?thesis" by (rule world_ok [OF _ ok])
  show ?thesis
    using assms(1)
  proof (cases rule: operational_entry.cases)
  case (lending_pool_accrue_bank_interest gk now g b b' k)
  then show ?thesis using bank_ix_put [OF bank_ix.accrue] ok by simp
next
  case (lending_pool_collect_bank_fees ata parse_mint now gk g fs tp ais fa b b' ts k)
  have "bank_ok b" using ok lending_pool_collect_bank_fees(6) by (auto simp: ps_books_eq books_ok_def)
  note collect_fees_ok [OF lending_pool_collect_bank_fees(2) this lending_pool_collect_bank_fees(3)]
  then show ?thesis
    using ok lending_pool_collect_bank_fees(1,6) books_bank [of "map_option lending_account \<circ> ps_accounts s" "ps_banks s"]
    by (simp add: ps_books_eq put_bank_def)
next
  case (lending_pool_update_fees_destination_account now gk g dst dst_mint b b' k)
  then have "same_money b b'"
    by (auto simp: lending_pool_update_fees_destination_account_def elim!: bindE)
  then show ?thesis using books_bank_put ok lending_pool_update_fees_destination_account by blast
next
  case (lending_pool_close_bank gk b g g' k)
  then show ?thesis
    using books_close_bank [OF ok, of k] by (simp add: ps_books_eq put_group_def)
next
  case (transfer_to_new_account tf now g old old' new t)
  note t = transfer_to_new_account
  have "everyday_step fx ch (world_of s) (world_of s')"
    using transfer_world [OF disjI1 [OF t(3)] t(5,6)] unfolding t(2) by simp
  then show ?thesis by (rule W)
next
  case (transfer_to_new_account_pda mrgn_id rules tx bump tf now g index third_party old old' new t)
  note t = transfer_to_new_account_pda
  have "everyday_step fx ch (world_of s) (world_of s')"
    using transfer_world [OF disjI2 [OF t(3)] t(5,6)] unfolding t(2) by simp
  then show ?thesis by (rule W)
next
  case (marginfi_account_set_freeze gk now g frozen a a' k)
  then show ?thesis by (intro W) (use alone_world [OF alone_ix.calm [OF calm_ix.freeze]] in simp)
next
  case (marginfi_account_close a k)
  then show ?thesis
    using world_step.close [of signer a "ps_accounts s" k alone_ix fx ch "ps_banks s"]
    by (intro W) (simp add: world_of_def)
next
  case (lending_account_withdraw_emissions_permissionless ata env ta ea g a b a' b' ts k)
  show ?thesis
    using solo_world [OF solo_ix.emissions_permissionless
          [OF lending_account_withdraw_emissions_permissionless(2) reads_fx]]
      lending_account_withdraw_emissions_permissionless by (intro W) simp
next
  case (lending_account_pulse_health env ais a a' k)
  then show ?thesis by (intro W) (use alone_world [OF alone_ix.calm [OF calm_ix.pulse]] in simp)
next
  case (lending_pool_pulse_bank_price_cache lib gk clock ais b b' g k)
  then show ?thesis using bank_ix_put [OF bank_ix.pulse_price] ok by simp
qed (use ok in simp_all)
qed

lemma fee_entry_ok:
  assumes "fee_entry fx signer s s'" and ok: "books_ok (ps_books s)"
  shows "books_ok (ps_books s')"
  using assms(1)
proof (cases rule: fee_entry.cases)
  case (propagate_staked_settings lib sk gk ais st b b' g stk k)
  then have "same_money b b'"
    by (auto simp: propagate_staked_settings_def Let_def elim!: bindE split: if_splits)
  then show ?thesis using books_bank_put ok propagate_staked_settings by blast
qed (use ok in simp_all)

lemma receivership_put:
  assumes "receivership_ix a a'" "ps_accounts s k = Some a" "books_ok (ps_books s)"
  shows "books_ok (ps_books (put_account k a' (put_record r lr s)))"
  using receivership_ix_balances [OF assms(1)] assms(2,3)
  by (simp add: ps_books_def put_defs world_of_def fun_upd_idem)

lemma receivership_entry_ok:
  assumes "receivership_entry fx signer s s'" and ok: "books_ok (ps_books s)"
  shows "books_ok (ps_books s')"
  using assms(1) by (cases rule: receivership_entry.cases) (auto intro: receivership_ix.intros receivership_put ok)

lemma upkeep_entry_ok:
  assumes "upkeep_entry fx signer s s'" and ok: "books_ok (ps_books s)"
  shows "books_ok (ps_books s')"
  using assms(1)
proof (cases rule: upkeep_entry.cases)
  case (migrate_curve b b' k)
  then have "same_money b b'"
    by (auto simp: migrate_curve_def Let_def elim!: bindE split: if_splits)
  then show ?thesis using books_bank_put ok migrate_curve by blast
next
  case (purge_deleverage_balance env ta g a b a' b' k)
  have "everyday_step fx ch (world_of s) (world_of s')"
    using solo_world [OF solo_ix.purge [OF purge_deleverage_balance(3) reads_fx]] purge_deleverage_balance by simp
  then show ?thesis by (rule world_ok) (rule ok)
qed (use ok in simp_all)

lemma position_entry_ok:
  assumes "(kamino_in fx ch pk (a, b, w) (a', b', w') \<or> drift_in fx ch pk (a, b, w) (a', b', w')
        \<or> solend_in fx ch pk (a, b, w) (a', b', w'))
      \<or> (kamino_out fx ch pk (a, b, w) (a', b', w') \<or> drift_out fx ch pk (a, b, w) (a', b', w')
        \<or> solend_out fx ch pk (a, b, w) (a', b', w'))"
    and "ps_accounts s k = Some a" "ps_banks s pk = Some b" and ok: "books_ok (ps_books s)"
    and "ps_accounts s' = (ps_accounts s)(k \<mapsto> a')" "ps_banks s' = (ps_banks s)(pk \<mapsto> b')"
  shows "books_ok (ps_books s')"
proof (rule world_ok [OF _ ok])
  from assms(1) show "everyday_step fx ch (world_of s) (world_of s')"
  proof
    assume "kamino_in fx ch pk (a, b, w) (a', b', w') \<or> drift_in fx ch pk (a, b, w) (a', b', w')
      \<or> solend_in fx ch pk (a, b, w) (a', b', w')"
    from position_in_world [OF this assms(2,3)] show ?thesis using assms(5,6) by (simp add: world_of_def)
  next
    assume "kamino_out fx ch pk (a, b, w) (a', b', w') \<or> drift_out fx ch pk (a, b, w) (a', b', w')
      \<or> solend_out fx ch pk (a, b, w) (a', b', w')"
    from position_out_world [OF this assms(2,3)] show ?thesis using assms(5,6) by (simp add: world_of_def)
  qed
qed

lemma added_entry_ok:
  assumes "new_bank_ok b \<and> P" and "fresh_bank k s" and ok: "books_ok (ps_books s)"
  shows "books_ok (ps_books (put_bank k b (put_group gk g s)))"
  using books_new_bank [OF ok assms(2)] assms(1) by simp

lemma kamino_entry_ok:
  assumes "kamino_entry fx ch signer s s'" and ok: "books_ok (ps_books s)"
  shows "books_ok (ps_books s')"
  using assms(1)
proof (cases rule: kamino_entry.cases)
  case (kamino_deposit env ka g n a b a' b' w k)
  have "kamino_in fx ch (in_bank ka) (a, b, ps_chain s) (a', b', w)"
    by (rule kamino_in.intros [OF kamino_deposit(3) reads_fx [OF kamino_deposit(4)]])
  then show ?thesis
    by (intro position_entry_ok [OF disjI1 [OF disjI1] kamino_deposit(7,8) ok])
      (simp_all add: kamino_deposit(2) put_defs)
next
  case (kamino_withdraw env ka ais n all g a b g' a' b' w k)
  have "kamino_out fx ch (in_bank ka) (a, b, ps_chain s) (a', b', w)"
    by (rule kamino_out.intros [OF kamino_withdraw(3) reads_fx [OF kamino_withdraw(4)] kamino_withdraw(5)])
  then show ?thesis
    by (intro position_entry_ok [OF disjI2 [OF disjI1] kamino_withdraw(7,8) ok])
      (simp_all add: kamino_withdraw(2) put_defs)
next
  case (lending_pool_add_bank_kamino lib sk now nb c reserve obligation ais g b g' k)
  then show ?thesis using added_entry_ok [OF added_bank(5) _ ok] by blast
qed (use ok in simp_all)

lemma drift_entry_ok:
  assumes "drift_entry fx ch signer s s'" and ok: "books_ok (ps_books s)"
  shows "books_ok (ps_books s')"
  using assms(1)
proof (cases rule: drift_entry.cases)
  case (drift_deposit env da g n a b a' b' w k)
  have "drift_in fx ch (in_bank da) (a, b, ps_chain s) (a', b', w)"
    by (rule drift_in.intros [OF drift_deposit(3) reads_fx [OF drift_deposit(4)]])
  then show ?thesis
    by (intro position_entry_ok [OF disjI1 [OF disjI2 [OF disjI1]] drift_deposit(7,8) ok])
      (simp_all add: drift_deposit(2) put_defs)
next
  case (drift_withdraw env da ais n all g a b g' a' b' w k)
  have "drift_out fx ch (in_bank da) (a, b, ps_chain s) (a', b', w)"
    by (rule drift_out.intros [OF drift_withdraw(3) reads_fx [OF drift_withdraw(4)]])
  then show ?thesis
    by (intro position_entry_ok [OF disjI2 [OF disjI2 [OF disjI1]] drift_withdraw(7,8) ok])
      (simp_all add: drift_withdraw(2) put_defs)
next
  case (lending_pool_add_bank_drift lib sk now nb c market user user_stats ais g b g' k)
  then show ?thesis using added_entry_ok [OF added_bank(6) _ ok] by blast
qed (use ok in simp_all)

lemma solend_entry_ok:
  assumes "solend_entry fx ch signer s s'" and ok: "books_ok (ps_books s)"
  shows "books_ok (ps_books s')"
  using assms(1)
proof (cases rule: solend_entry.cases)
  case (solend_deposit env so g n a b a' b' w k)
  have "solend_in fx ch (in_bank so) (a, b, ps_chain s) (a', b', w)"
    by (rule solend_in.intros [OF solend_deposit(3) reads_fx [OF solend_deposit(4)]])
  then show ?thesis
    by (intro position_entry_ok [OF disjI1 [OF disjI2 [OF disjI2]] solend_deposit(7,8) ok])
      (simp_all add: solend_deposit(2) put_defs)
next
  case (solend_withdraw env so ais n all g a b g' a' b' w k)
  have "solend_out fx ch (in_bank so) (a, b, ps_chain s) (a', b', w)"
    by (rule solend_out.intros [OF solend_withdraw(3) reads_fx [OF solend_withdraw(4)] solend_withdraw(5)])
  then show ?thesis
    by (intro position_entry_ok [OF disjI2 [OF disjI2 [OF disjI2]] solend_withdraw(7,8) ok])
      (simp_all add: solend_withdraw(2) put_defs)
next
  case (lending_pool_add_bank_solend lib sk now nb c reserve obligation ais g b g' k)
  then show ?thesis using added_entry_ok [OF added_bank(7) _ ok] by blast
qed (use ok in simp_all)

text \<open>Every instruction of the program keeps the books.\<close>

lemma program_step_ok:
  assumes "program_step fx ch signer s s'" and ok: "books_ok (ps_books s)"
  shows "books_ok (ps_books s')"
  using assms(1)
proof (cases rule: program_step.cases)
  case group
  then show ?thesis using ok by (cases rule: group_entry.cases) simp_all
next
  case add_bank
  then show ?thesis using books_new_bank [OF ok] by (cases rule: add_bank_entry_shape) simp
next
  case settings
  then show ?thesis using books_bank_put [OF ok] by (cases rule: settings_entry_bank) blast
next
  case user
  then show ?thesis using world_ok [OF user_entry_world] ok by blast
next
  case (elsewhere w)
  then show ?thesis using ok by simp
qed (rule operational_entry_ok fee_entry_ok receivership_entry_ok upkeep_entry_ok kamino_entry_ok
    drift_entry_ok solend_entry_ok, assumption, rule ok)+

lemma program_run_ok:
  assumes "program_run fx ch ks s s'" and "books_ok (ps_books s)"
  shows "books_ok (ps_books s')"
  using assms by (rule program_run_induct) (rule program_step_ok)

end

end
