(* ===== verification/ProgramControl.thy ===== *)
theory ProgramControl
  imports ProgramFacts ReceivershipTx
begin

text \<open>
  Who controls what: which keys must sign before the admins of a group, the shares of an account or
  the settings of a bank change.
\<close>

section \<open>Groups\<close>

text \<open>What only the admin of a group decides: the admins, the leverage caps and the withdrawal limit.\<close>

definition group_keys :: "MarginfiGroup \<Rightarrow> pubkey list \<times> u32 list" where
  "group_keys g = ([admin g, emode_admin g, delegate_curve_admin g, delegate_limit_admin g,
     delegate_emissions_admin g, risk_admin g, metadata_admin g],
     [emode_max_init_leverage g, emode_max_maint_leverage g, daily_limit (deleverage_withdraw_window_cache g)])"

lemma group_keys_admins: "group_keys g' = group_keys g \<Longrightarrow> admin g' = admin g \<and> risk_admin g' = risk_admin g"
  by (simp add: group_keys_def)

definition groups_move ::
  "pubkey \<Rightarrow> (pubkey \<Rightarrow> MarginfiGroup option) \<Rightarrow> (pubkey \<Rightarrow> MarginfiGroup option) \<Rightarrow> bool" where
  "groups_move signer gs gs' \<longleftrightarrow> (\<forall>gk g. gs gk = Some g \<and> admin g \<noteq> signer \<longrightarrow>
     (\<exists>g'. gs' gk = Some g' \<and> group_keys g' = group_keys g))"

lemma groups_move_same [simp]: "groups_move signer gs gs"
  by (simp add: groups_move_def)

lemma groups_move_new: "gs gk = None \<Longrightarrow> groups_move signer gs (gs(gk \<mapsto> g))"
  by (auto simp: groups_move_def)

lemma groups_move_put:
  "gs gk = Some g \<Longrightarrow> group_keys g' = group_keys g \<or> signer = admin g \<Longrightarrow> groups_move signer gs (gs(gk \<mapsto> g'))"
  by (auto simp: groups_move_def)

lemma ps_groups_put [simp]:
  "ps_groups (put_account k a s) = ps_groups s" "ps_groups (put_bank k b s) = ps_groups s"
  "ps_groups (put_group k g s) = (ps_groups s)(k \<mapsto> g)" "ps_groups (put_record k r s) = ps_groups s"
  "ps_groups (put_staked k st s) = ps_groups s" "ps_groups (put_metadata k m s) = ps_groups s"
  "ps_groups (put_fee_state fs s) = ps_groups s" "ps_groups (put_chain w s) = ps_groups s"
  by (simp_all add: put_defs)

lemma keys_window: "update_withdrawn_equity fx e now g = Inr g' \<Longrightarrow> group_keys g' = group_keys g"
  by (auto simp: update_withdrawn_equity_def Let_def reset_window_def group_keys_def res_simps split: if_splits)

lemma keys_track: "track_deleverage env a n price b g = Inr g' \<Longrightarrow> group_keys g' = group_keys g"
  by (auto simp: track_deleverage_def dest: keys_window elim!: bindE split: if_splits)

lemma keys_collateral: "withdraw_collateral env k ais n all g a b = Inr (g', x, la, b') \<Longrightarrow> group_keys g' = group_keys g"
  by (auto simp: withdraw_collateral_def dest: keys_track elim!: bindE)

lemma keys_withdraw: "lending_account_withdraw env ta ais n all (g, a, b) = Inr (g', a', b', ts) \<Longrightarrow>
    group_keys g' = group_keys g"
  unfolding lending_account_withdraw_def prod.case Let_def
  by (elim bindE) (auto dest: keys_window elim!: bindE split: if_splits prod.splits)

lemma keys_kamino: "kamino_withdraw ch env ka ais n all (g, a, b, w) = Inr (g', a', b', w') \<Longrightarrow>
    group_keys g' = group_keys g"
  by (erule kamino_withdraw_cases) (rule keys_collateral)

lemma keys_solend: "solend_withdraw ch env so ais n all (g, a, b, w) = Inr (g', a', b', w') \<Longrightarrow>
    group_keys g' = group_keys g"
  by (erule solend_withdraw_cases) (rule keys_collateral)

lemma keys_drift: "drift_withdraw ch env da ais n all (g, a, b, w) = Inr (g', a', b', w') \<Longrightarrow>
    group_keys g' = group_keys g"
  by (erule drift_withdraw_cases) (rule keys_track)

lemma keys_groups:
  "configure fx signer n i m now g = Inr g' \<Longrightarrow> signer = admin g"
  "propagate_fee now fs g = Inr g' \<Longrightarrow> group_keys g' = group_keys g"
  "config_group_fee signer enable now fs g = Inr g' \<Longrightarrow> group_keys g' = group_keys g"
  "configure_deleverage_withdrawal_limit signer limit now g = Inr g' \<Longrightarrow> signer = admin g"
  "lending_pool_close_bank fx signer gk b g = Inr g' \<Longrightarrow> group_keys g' = group_keys g"
  by (auto simp: configure_def group_admin_only_def propagate_fee_def config_group_fee_def
      configure_deleverage_withdrawal_limit_def lending_pool_close_bank_def
      set_program_fee_enabled_def group_keys_def check_def Let_def elim!: bindE split: if_splits)

lemma keys_add_bank [simp]: "group_keys (add_bank now g) = group_keys g"
  by (simp add: add_bank_def group_keys_def)

lemma added_keys:
  assumes "new_bank_ok b \<and> g' = add_bank now g \<and> P" and "ps_groups s gk = Some g"
  shows "groups_move signer (ps_groups s) ((ps_groups s)(gk \<mapsto> g'))"
  by (rule groups_move_put [of "ps_groups s" gk g]) (use assms in auto)

lemma program_step_groups:
  assumes "program_step fx ch signer s s'"
  shows "groups_move signer (ps_groups s) (ps_groups s')"
  using assms
proof (cases rule: program_step.cases)
  case group
  then show ?thesis
    by (cases rule: group_entry.cases) (auto intro: groups_move_new groups_move_put dest: keys_groups)
next
  case add_bank
  then show ?thesis
    by (cases rule: add_bank_entry_shape) (auto intro!: groups_move_put)
next
  case settings
  then show ?thesis by (cases rule: settings_entry_bank) auto
next
  case user
  then show ?thesis
    by (cases rule: user_entry.cases) (auto intro: groups_move_put dest: keys_withdraw)
next
  case operational
  then show ?thesis
    by (cases rule: operational_entry.cases) (auto intro: groups_move_put dest: keys_groups)
next
  case fees
  then show ?thesis
    by (cases rule: fee_entry.cases) (auto intro: groups_move_put dest: keys_groups)
next
  case receivership
  then show ?thesis by (cases rule: receivership_entry.cases) auto
next
  case upkeep
  then show ?thesis
    by (cases rule: upkeep_entry.cases) (auto intro: groups_move_put dest: keys_groups)
next
  case kamino
  then show ?thesis
    by (cases rule: kamino_entry.cases)
      (auto intro: groups_move_put dest: keys_kamino elim!: added_keys [OF added_bank(5)])
next
  case drift
  then show ?thesis
    by (cases rule: drift_entry.cases)
      (auto intro: groups_move_put dest: keys_drift elim!: added_keys [OF added_bank(6)])
next
  case solend
  then show ?thesis
    by (cases rule: solend_entry.cases)
      (auto intro: groups_move_put dest: keys_solend elim!: added_keys [OF added_bank(7)])
qed simp

lemma program_run_groups:
  assumes "program_run fx ch ks s s'" and "ps_groups s gk = Some g" and "admin g \<notin> set ks"
  shows "\<exists>g'. ps_groups s' gk = Some g' \<and> group_keys g' = group_keys g"
  using assms(1)
proof (rule program_run_induct)
  show "\<exists>g'. ps_groups s gk = Some g' \<and> group_keys g' = group_keys g" using assms(2) by blast
next
  fix k s1 s2
  assume s: "program_step fx ch k s1 s2" and k: "k \<in> set ks"
    and "\<exists>g'. ps_groups s1 gk = Some g' \<and> group_keys g' = group_keys g"
  then obtain g1 where g1: "ps_groups s1 gk = Some g1" "group_keys g1 = group_keys g" by blast
  then have "admin g1 \<noteq> k" using k assms(3) group_keys_admins by metis
  then show "\<exists>g'. ps_groups s2 gk = Some g' \<and> group_keys g' = group_keys g"
    using program_step_groups [OF s] g1 unfolding groups_move_def by metis
qed

section \<open>Accounts\<close>

text \<open>What an account holds, slot by slot: the bank, the deposit shares and the debt shares.\<close>

definition slot_of :: "Balance \<Rightarrow> nat \<times> pubkey \<times> I80F48 \<times> I80F48" where
  "slot_of b = (active b, bank_pk b, asset_shares b, liability_shares b)"

definition positions :: "LendingAccount \<Rightarrow> (nat \<times> pubkey \<times> I80F48 \<times> I80F48) list" where
  "positions la = map slot_of (balances la)"

definition debt_free :: "MarginfiAccount \<Rightarrow> bool" where
  "debt_free a \<longleftrightarrow> (\<forall>b \<in> set (balances (lending_account a)). is_active b \<longrightarrow> liability_shares b = 0)"

text \<open>The same owner, group, holdings, emissions destination and flags, the one of receivership apart.\<close>

definition untouched :: "MarginfiAccount \<Rightarrow> MarginfiAccount \<Rightarrow> bool" where
  "untouched a a' \<longleftrightarrow> authority a' = authority a \<and> acc_group a' = acc_group a
     \<and> positions (lending_account a') = positions (lending_account a)
     \<and> emissions_destination_account a' = emissions_destination_account a
     \<and> migrated_to a' = migrated_to a
     \<and> (\<forall>f \<in> {ACCOUNT_DISABLED, ACCOUNT_IN_FLASHLOAN, ACCOUNT_FROZEN}. acc_get_flag a' f = acc_get_flag a f)"

lemma untouched_refl [simp]: "untouched a a"
  by (simp add: untouched_def)

lemma untouched_trans: "untouched a b \<Longrightarrow> untouched b c \<Longrightarrow> untouched a c"
  by (simp add: untouched_def)

lemma debt_free_positions:
  "debt_free a \<longleftrightarrow> (\<forall>(act, pk, s, l) \<in> set (positions (lending_account a)). act \<noteq> 0 \<longrightarrow> l = 0)"
  by (auto simp: debt_free_def positions_def slot_of_def is_active_def)

lemma untouched_debt_free: "untouched a a' \<Longrightarrow> debt_free a \<Longrightarrow> debt_free a'"
  by (simp add: untouched_def debt_free_positions)

lemma untouched_updates [simp]:
  "untouched a (a\<lparr>health_cache := hc\<rparr>)" "untouched a (a\<lparr>liquidation_record := r\<rparr>)"
  "untouched a (a\<lparr>acc_last_update := t\<rparr>)"
  by (simp_all add: untouched_def acc_get_flag_def)

text \<open>Claiming emissions leaves the positions.\<close>

lemma positions_at:
  assumes "at_balance i f (la, b) = Inr (r, la', b')"
    and "\<And>bal bal' bank bank' r. f (bal, bank) = Inr (r, bal', bank') \<Longrightarrow> slot_of bal' = slot_of bal"
  shows "positions la' = positions la"
proof -
  obtain bal bank where r: "f (balances la ! i, b) = Inr (r, bal, b')" "la' = la\<lparr>balances := (balances la)[i := bal]\<rparr>"
    using assms(1) by (auto simp: at_balance_def elim!: bindE)
  have "positions la' = (map slot_of (balances la))[i := slot_of (balances la ! i)]"
    using assms(2) [OF r(1)] by (simp add: positions_def r(2) map_update)
  also have "\<dots> = positions la"
    by (cases "i < length (balances la)") (simp_all add: positions_def list_update_beyond list_update_same_conv)
  finally show ?thesis .
qed

lemma slot_claim: "claim_emissions fx t (bal, bank) = Inr (bal', bank') \<Longrightarrow> slot_of bal' = slot_of bal"
  by (auto simp: slot_of_def dest!: claim_emissions_shape)

lemma slot_emissions [simp]: "slot_of (bal\<lparr>emissions_outstanding := e\<rparr>) = slot_of bal"
  by (simp add: slot_of_def)

lemma positions_settle:
  assumes "at_balance i (settle_emissions_and_get_transfer_amount fx now) (la, b) = Inr (n, la', b')"
  shows "positions la' = positions la"
  using assms
  by (rule positions_at)
    (auto simp: settle_emissions_and_get_transfer_amount_def elim!: bindE dest!: slot_claim)

lemma positions_claim:
  assumes "run_at i (claim_emissions fx t) la b = Inr (la', b')"
  shows "positions la' = positions la"
proof -
  obtain r where "at_balance i (\<lambda>w. bindR (claim_emissions fx t w) (\<lambda>w'. Inr ((), w'))) (la, b) = Inr (r, la', b')"
    using assms by (auto simp: run_at_def elim!: bindE)
  then show ?thesis by (rule positions_at) (auto elim!: bindE dest!: slot_claim)
qed

lemma untouched_pay:
  assumes "settle_and_pay env k ea (a, b) = Inr (a', b', ts)"
  shows "untouched a a' \<and> account_flags a' = account_flags a"
  using assms
  by (auto simp: settle_and_pay_def Let_def untouched_def acc_get_flag_def elim!: bindE dest!: positions_settle
      split: if_splits)

lemma untouched_settle:
  assumes "lending_account_settle_emissions env k (a, b) = Inr (a', b')"
  shows "untouched a a' \<and> account_flags a' = account_flags a"
  using assms
  by (auto simp: lending_account_settle_emissions_def untouched_def acc_get_flag_def elim!: bindE
      dest!: positions_claim)

section \<open>Outsiders\<close>

text \<open>A key that is neither the owner of an account nor the admin or the risk admin of its group.\<close>

definition outsider :: "'w program_state \<Rightarrow> pubkey \<Rightarrow> MarginfiAccount \<Rightarrow> bool" where
  "outsider s signer a \<longleftrightarrow> (\<exists>g. ps_groups s (acc_group a) = Some g \<and> signer \<noteq> authority a
     \<and> signer \<noteq> admin g \<and> signer \<noteq> risk_admin g)"

text \<open>An account that an instruction leaves as it is.\<close>

definition stays :: "MarginfiAccount \<Rightarrow> MarginfiAccount option \<Rightarrow> bool" where
  "stays a x \<longleftrightarrow> (\<exists>a'. x = Some a' \<and> untouched a a' \<and> account_flags a' = account_flags a)"

lemma stays_same [simp]: "stays a (Some a)"
  by (simp add: stays_def)

lemma outsider_rejected:
  assumes "outsider s signer a" and "\<not> acc_get_flag a ACCOUNT_IN_RECEIVERSHIP" and "ps_groups s gk = Some g"
  shows "account_constraints r gk signer g a \<noteq> Inr ()"
  using assms
  by (auto simp: outsider_def account_constraints_def account_in_group_def is_signer_authorized_def check_def
      res_simps split: if_splits)

lemma ps_accounts_put [simp]:
  "ps_accounts (put_account k a s) = (ps_accounts s)(k \<mapsto> a)" "ps_accounts (put_bank k b s) = ps_accounts s"
  "ps_accounts (put_group k g s) = ps_accounts s" "ps_accounts (put_record k r s) = ps_accounts s"
  "ps_accounts (put_staked k st s) = ps_accounts s" "ps_accounts (put_metadata k m s) = ps_accounts s"
  "ps_accounts (put_fee_state fs s) = ps_accounts s" "ps_accounts (put_chain w s) = ps_accounts s"
  by (simp_all add: put_defs)

lemma owner_guards:
  "lending_account_deposit env ta g ais n up (a, b) = Inr x \<Longrightarrow>
    account_constraints False (ta_group ta) (ta_authority ta) g a = Inr ()"
  "lending_account_repay env ta g ais n all (a, b) = Inr y \<Longrightarrow>
    account_constraints True (ta_group ta) (ta_authority ta) g a = Inr ()"
  "lending_account_withdraw env ta ais n all (g, a, b) = Inr z \<Longrightarrow>
    account_constraints True (ta_group ta) (ta_authority ta) g a = Inr ()"
  "lending_account_borrow env ta g ais n (a, b) = Inr x \<Longrightarrow>
    account_constraints False (ta_group ta) (ta_authority ta) g a = Inr ()"
  "lending_account_close_balance env ta g (a, b) = Inr v \<Longrightarrow>
    account_constraints False (ta_group ta) (ta_authority ta) g a = Inr ()"
  "lending_account_withdraw_emissions env ta ea g (a, b) = Inr x \<Longrightarrow>
    account_constraints False (ta_group ta) (ta_authority ta) g a = Inr ()"
  unfolding lending_account_deposit_def lending_account_repay_def lending_account_withdraw_def
    lending_account_borrow_def lending_account_close_balance_def lending_account_withdraw_emissions_def
    deposit_guards_def repay_guards_def withdraw_guards_def borrow_guards_def prod.case Let_def
  by - (elim bindE, simp add: unit_eq)+

lemma position_guards:
  "kamino_deposit ch env ka g n (a, b, w) = Inr x \<Longrightarrow>
    account_constraints False (in_group ka) (in_authority ka) g a = Inr ()"
  "kamino_withdraw ch env ka ais n all (g, a, b, w) = Inr y \<Longrightarrow>
    account_constraints True (in_group ka) (in_authority ka) g a = Inr ()"
  "drift_deposit ch env da g n (a, b, w) = Inr x \<Longrightarrow>
    account_constraints False (in_group da) (in_authority da) g a = Inr ()"
  "drift_withdraw ch env da ais n all (g, a, b, w) = Inr y \<Longrightarrow>
    account_constraints True (in_group da) (in_authority da) g a = Inr ()"
  "solend_deposit ch env so g n (a, b, w) = Inr x \<Longrightarrow>
    account_constraints False (in_group so) (in_authority so) g a = Inr ()"
  "solend_withdraw ch env so ais n all (g, a, b, w) = Inr y \<Longrightarrow>
    account_constraints True (in_group so) (in_authority so) g a = Inr ()"
  unfolding kamino_deposit_def kamino_withdraw_def drift_deposit_def drift_withdraw_def solend_deposit_def
    solend_withdraw_def kamino_deposit_guards_def kamino_withdraw_guards_def drift_deposit_guards_def
    drift_withdraw_guards_def solend_guards_def prod.case Let_def
  by - (elim bindE, rule user_constraints_shape(2), simp add: unit_eq)+

lemma transfer_guards_owner:
  assumes "transfer_to_new_account tf now g old = Inr x
    \<or> transfer_to_new_account_pda mrgn_id rules tx bump tf now g index third_party old = Inr x"
  shows "account_constraints False (tf_group tf) (tf_authority tf) g old = Inr ()"
  using assms unfolding transfer_to_new_account_def transfer_to_new_account_pda_def transfer_guards_def
  by (elim disjE bindE) simp_all

text \<open>Nobody without debt is liquidated or bankrupt.\<close>

lemma engine_balances:
  assumes "risk_engine_new fx lib load clock a ais = Inr e"
  shows "map bap_balance (bank_accounts_with_price e) = filter is_active (balances (lending_account a))"
  using assms
  by (auto simp: risk_engine_new_def new_no_flashloan_check_def load_accounts_def elim!: bindE
      dest: load_from_balances)

lemma engine_debt_free:
  assumes "risk_engine_new fx lib load clock a ais = Inr e" and "debt_free a" and "x \<in> set (bank_accounts_with_price e)"
  shows "liability_shares (bap_balance x) = 0"
proof -
  have "bap_balance x \<in> set (map bap_balance (bank_accounts_with_price e))" using assms(3) by simp
  then have "bap_balance x \<in> set (filter is_active (balances (lending_account a)))"
    unfolding engine_balances [OF assms(1)] .
  then show ?thesis using assms(2) by (simp add: debt_free_def)
qed

lemma debt_free_sorted: "debt_free (a\<lparr>lending_account := sort_balances la\<rparr>) \<longleftrightarrow> debt_free (a\<lparr>lending_account := la\<rparr>)"
  by (simp add: debt_free_def sort_balances_def)

lemma not_liquidated:
  assumes "lending_account_liquidate env lq g ais n k1 k2 (tor, tee, ab, lb) = Inr ((tor', tee', ab', lb'), t)"
  shows "\<not> debt_free tee"
  using assms
proof (cases rule: liquidate_cases)
  case (1 mint_ai ais1 ab1 lb1 start pre_health pa pl v asset_price liab_price amounts m tor_la tee_la
    ab2 lb2 tor_start tor_ais)
  let ?tee = "tee\<lparr>lending_account := sort_balances (lending_account tee)\<rparr>"
  obtain e r where e: "risk_engine_new (e_fx env) (e_lib env) (with_banks lq ab1 lb1 env) (e_clock env) ?tee
      (drop start ais1) = Inr e"
    and "fst (check_pre_liquidation_condition_and_get_account_health (e_fx env) (e_lib env)
      (Some (lq_liab_bank lq)) False e None) = Inr r"
    using 1(6) unfolding pre_liquidation_def by (auto elim!: bindE)
  then obtain b where b: "find_bank_account (lq_liab_bank lq) e = Some b" "\<not> is_empty (bap_balance b) Liabilities"
    by (auto simp: check_pre_liquidation_condition_and_get_account_health_def check_def res_simps
        split: sum.splits if_splits)
  then have "b \<in> set (bank_accounts_with_price e)"
    by (auto simp: find_bank_account_def find_Some_iff)
  moreover have "liability_shares (bap_balance b) \<noteq> 0" using b(2) by (auto simp: is_empty_def EMPTY_BALANCE_THRESHOLD_def ONE_def)
  ultimately have "\<not> debt_free ?tee" using engine_debt_free [OF e] by blast
  then show ?thesis by (simp add: debt_free_sorted)
qed

lemma not_bankrupt:
  assumes "fixed_arith (e_fx env)" and "lending_pool_handle_bankruptcy env bk g ais (a, b) = Inr (a', b', t)"
  shows "\<not> debt_free a"
  using assms(2)
proof (cases rule: bankruptcy_cases)
  case (1 mint_ai ais1 hc price b1 killed la b2 b3)
  obtain bal bad where bal: "get_balance (lending_account a) (bk_bank bk) = Some bal"
    and bad: "get_liability_amount (e_fx env) b1 (liability_shares bal) = Inr bad"
      "bad > ZERO_AMOUNT_THRESHOLD (e_fx env)"
    using 1(5) by (auto simp: settle_bad_debt_def check_def res_simps elim!: bindE split: if_splits option.splits)
  have "\<bar>ZERO_AMOUNT_THRESHOLD (e_fx env) * 10 ^ 4 - 1 * ONE\<bar> \<le> 10 ^ 4"
    unfolding ZERO_AMOUNT_THRESHOLD_def by (rule fixed_arith.decimal_near [OF assms(1)])
  then have "0 < ZERO_AMOUNT_THRESHOLD (e_fx env)" by (simp add: ONE_def)
  moreover have "\<bar>bad * ONE\<bar> < ONE" if "liability_shares bal = 0"
    using bad(1) fixed_arith.mul_near [OF assms(1), of 0 "liability_share_value b1" bad] that
    by (auto simp: get_liability_amount_def res_simps)
  ultimately have "liability_shares bal \<noteq> 0" using bad(2) ONE_pos by (auto simp: abs_mult)
  then show ?thesis using bal by (auto simp: debt_free_def get_balance_def find_Some_iff)
qed

section \<open>What outsiders cannot do\<close>

lemma stays_untouched: "untouched a a' \<and> account_flags a' = account_flags a \<Longrightarrow> stays a (Some a')"
  by (simp add: stays_def)

text \<open>An outsider and the account \<open>k\<close>, which has no debt and is not in receivership.\<close>

definition guest :: "'w program_state \<Rightarrow> pubkey \<Rightarrow> pubkey \<Rightarrow> MarginfiAccount \<Rightarrow> bool" where
  "guest s signer k a \<longleftrightarrow> ps_accounts s k = Some a \<and> outsider s signer a
     \<and> \<not> acc_get_flag a ACCOUNT_IN_RECEIVERSHIP \<and> debt_free a"

lemma guest_put:
  assumes "account_constraints r gk key g b = Inr ()" and "ps_groups s gk = Some g" and "ps_accounts s j = Some b"
    and "key = signer" and guest: "guest s signer k a"
  shows "stays a (((ps_accounts s)(j \<mapsto> b')) k)"
proof -
  have "b \<noteq> a"
    using outsider_rejected [of s signer a gk g r] assms by (auto simp: guest_def)
  then have "j \<noteq> k" using assms(3) guest by (auto simp: guest_def)
  then show ?thesis using guest by (simp add: guest_def)
qed

lemma not_authorized:
  "outsider s signer a \<Longrightarrow> authority a \<noteq> signer"
  by (auto simp: outsider_def)

lemma user_entry_stays:
  assumes "user_entry fx signer s s'" and fx: "fixed_arith fx" and guest: "guest s signer k a"
  shows "stays a (ps_accounts s' k)"
proof -
  note W = guest_put [OF _ _ _ _ guest]
  have k: "ps_accounts s k = Some a" and out: "outsider s signer a" and free: "debt_free a"
    using guest by (simp_all add: guest_def)
  show ?thesis
    using assms(1)
  proof (cases rule: user_entry.cases)
    case (lending_pool_handle_bankruptcy env bk g ais b bank b' bank' t j)
    have "\<not> debt_free b"
      using not_bankrupt [OF _ lending_pool_handle_bankruptcy(3)] fx reads_fx [OF lending_pool_handle_bankruptcy(4)] by simp
    then show ?thesis using lending_pool_handle_bankruptcy k free by auto
  next
    case (marginfi_account_initialize b gk now g j)
    then show ?thesis using k by auto
  next
    case (marginfi_account_init_liq_record r payer j b b' lr)
    then show ?thesis using k by (auto simp: initialize_liquidation_record_def intro: stays_untouched)
  next
    case (marginfi_account_initialize_pda mrgn_id rules tx bump gk now index third_party b g j)
    then show ?thesis using k by auto
  next
    case (lending_account_deposit env ta g ais n up b bank b' bank' ts j)
    show ?thesis
      using W [OF owner_guards(1) [OF lending_account_deposit(3)]] lending_account_deposit by simp
  next
    case (lending_account_repay env ta g ais n all b bank b' bank' ts j)
    show ?thesis
      using W [OF owner_guards(2) [OF lending_account_repay(3)]] lending_account_repay by simp
  next
    case (lending_account_withdraw env ta ais n all g b bank g' b' bank' ts j)
    show ?thesis
      using W [OF owner_guards(3) [OF lending_account_withdraw(3)]] lending_account_withdraw by simp
  next
    case (lending_account_borrow env ta g ais n b bank b' bank' ts j)
    show ?thesis
      using W [OF owner_guards(4) [OF lending_account_borrow(3)]] lending_account_borrow by simp
  next
    case (lending_account_close_balance env ta g b bank b' bank' j)
    show ?thesis
      using W [OF owner_guards(5) [OF lending_account_close_balance(3)]] lending_account_close_balance by simp
  next
    case (lending_account_withdraw_emissions env ta ea g b bank b' bank' ts j)
    show ?thesis
      using W [OF owner_guards(6) [OF lending_account_withdraw_emissions(3)]] lending_account_withdraw_emissions by simp
  next
    case (lending_account_settle_emissions env bank_key b bank b' bank' j)
    then show ?thesis using k untouched_settle by (auto intro!: stays_untouched)
  next
    case (lending_account_liquidate env lq g ais n k1 k2 tor tee ab lb tor' tee' ab' lb' t)
    have "a \<noteq> tee" using not_liquidated [OF lending_account_liquidate(3)] free by blast
    then have tee: "lq_liquidatee lq \<noteq> k" using lending_account_liquidate k by auto
    have c: "account_in_group (lq_group lq) tor = Inr ()" "account_not_frozen_for_authority tor (lq_authority lq)"
      "is_signer_authorized tor (admin g) (lq_authority lq) False"
      using lending_account_liquidate(3) unfolding lending_account_liquidate_def liq_constraints_def prod.case
      by (elim bindE, simp add: unit_eq check_def split: if_splits)+
    have "account_constraints False (lq_group lq) (lq_authority lq) g tor = Inr ()"
      by (simp add: account_constraints_def c check_def)
    moreover have "ps_groups s (lq_group lq) = Some g" "ps_accounts s (lq_liquidator lq) = Some tor"
      using lending_account_liquidate by simp_all
    ultimately have "stays a (((ps_accounts s)(lq_liquidator lq \<mapsto> tor')) k)"
      using W lending_account_liquidate(1) by blast
    then show ?thesis using tee lending_account_liquidate by simp
  next
    case (lending_account_start_flashloan mrgn_id j b tx end_index b')
    then show ?thesis using k not_authorized [OF out]
      by (auto simp: lending_account_start_flashloan_def check_def elim!: bindE split: if_splits)
  next
    case (lending_account_end_flashloan b tx env ais b' j)
    then show ?thesis using k not_authorized [OF out]
      by (auto simp: lending_account_end_flashloan_def check_def elim!: bindE split: if_splits)
  next
    case (marginfi_account_update_emissions_destination_account now dst b b' j)
    then show ?thesis using k not_authorized [OF out]
      by (auto simp: marginfi_account_update_emissions_destination_account_def check_def elim!: bindE split: if_splits)
  qed
qed

lemma operational_entry_stays:
  assumes "operational_entry fx signer s s'" and guest: "guest s signer k a"
  shows "stays a (ps_accounts s' k)"
proof -
  note W = guest_put [OF _ _ _ _ guest]
  have k: "ps_accounts s k = Some a" and out: "outsider s signer a"
    using guest by (simp_all add: guest_def)
  show ?thesis
    using assms(1)
  proof (cases rule: operational_entry.cases)
    case (transfer_to_new_account tf now g old old' new t)
    note t = transfer_to_new_account
    have "stays a (((ps_accounts s)(tf_old_account tf \<mapsto> old')) k)"
      using W [OF transfer_guards_owner [OF disjI1 [OF t(3)]]] t by simp
    then show ?thesis using t k by auto
  next
    case (transfer_to_new_account_pda mrgn_id rules tx bump tf now g index third_party old old' new t)
    note t = transfer_to_new_account_pda
    have "stays a (((ps_accounts s)(tf_old_account tf \<mapsto> old')) k)"
      using W [OF transfer_guards_owner [OF disjI2 [OF t(3)]]] t by simp
    then show ?thesis using t k by auto
  next
    case (marginfi_account_set_freeze gk now g frozen b b' j)
    then have "j \<noteq> k" using k out
      by (auto simp: set_account_freeze_def account_in_group_def check_def outsider_def elim!: bindE split: if_splits)
    then show ?thesis using marginfi_account_set_freeze k by simp
  next
    case (marginfi_account_close b j)
    then show ?thesis using k not_authorized [OF out]
      by (auto simp: close_account_def check_def elim!: bindE split: if_splits)
  next
    case (lending_account_withdraw_emissions_permissionless ata env ta ea g b bank b' bank' ts j)
    have "settle_and_pay env (ta_bank ta) ea (b, bank) = Inr (b', bank', ts)"
      by (rule emissions_shape) (rule disjI2, rule lending_account_withdraw_emissions_permissionless(2))
    from stays_untouched [OF untouched_pay [OF this]] show ?thesis
      using lending_account_withdraw_emissions_permissionless k by auto
  next
    case (lending_account_pulse_health env ais b b' j)
    then have "untouched b b' \<and> account_flags b' = account_flags b"
      by (auto simp: lending_account_pulse_health_def Let_def split: prod.splits if_splits
          elim!: bindR_InrE)
    from stays_untouched [OF this] show ?thesis using lending_account_pulse_health k by auto
  qed (use k in simp_all)
qed

text \<open>
  A liquidation that was started on the account, turning it from \<open>a\<close> into \<open>a'\<close>: with the clock and
  the banks of the program and the oracles it was given, it held every active balance of the account
  and found a value at maintenance weights for each; and the deposits count for nothing.
\<close>

definition worthless :: "fixed_ops \<Rightarrow> 'w program_state \<Rightarrow> MarginfiAccount \<Rightarrow> MarginfiAccount \<Rightarrow> bool" where
  "worthless fx s a a' \<longleftrightarrow> (\<exists>env pk tx r receiver ais lr lr' e. reads_state fx s env \<and> ps_records s r = Some lr
     \<and> start_liquidation env pk tx r receiver ais (a, lr) = Inr (a', lr')
     \<and> risk_engine_new fx (e_lib env) (e_load_bank env) (e_clock env) a ais = Inr e
     \<and> re_account e = a \<and> complete e \<and> all_valued fx (e_lib env) Maintenance e
     \<and> fst (total_worth env Maintenance e) \<le> 0)"

lemma debt_free_worth:
  assumes "risk_engine_new fx lib load clock a ais = Inr e" and "debt_free a"
  shows "snd (total_worth env req e) = 0"
proof -
  have "liab_worth (e_fx env) (e_lib env) req (re_emode_config e) x = 0"
    if "x \<in> set (bank_accounts_with_price e)" for x
    using engine_debt_free [OF assms that]
    by (auto simp: liab_worth_def calc_weighted_value_def get_side_def EMPTY_BALANCE_THRESHOLD_def ONE_def bindR_def
        split: sum.splits prod.splits)
  then have "(\<Sum>x\<leftarrow>bank_accounts_with_price e. liab_worth (e_fx env) (e_lib env) req (re_emode_config e) x)
      = (\<Sum>x\<leftarrow>bank_accounts_with_price e. 0)"
    by (intro arg_cong [of _ _ sum_list] map_cong) simp_all
  then show ?thesis by (simp add: total_worth_def)
qed

lemma receivership_entry_stays:
  assumes "receivership_entry fx signer s s'" and fx: "fixed_arith fx" and guest: "guest s signer k a"
  shows "stays a (ps_accounts s' k)
    \<or> (\<exists>a'. ps_accounts s' k = Some a' \<and> untouched a a' \<and> worthless fx s a a')"
proof -
  have k: "ps_accounts s k = Some a" and out: "outsider s signer a" and free: "debt_free a"
    and no: "\<not> acc_get_flag a ACCOUNT_IN_RECEIVERSHIP"
    using guest by (simp_all add: guest_def)
  show ?thesis
    using assms(1)
  proof (cases rule: receivership_entry.cases)
    case (start_liquidation env pk tx r receiver ais b lr b' lr' j)
    show ?thesis
    proof (cases "j = k")
      case True
      then have b: "b = a" using start_liquidation k by simp
      have env: "e_fx env = fx" using start_liquidation(3) by (rule reads_fx)
      obtain h c hc where v: "receivership_values env a ais False = Inr (h, c, hc)"
        and b': "b' = acc_set_flag ACCOUNT_IN_RECEIVERSHIP (a\<lparr>health_cache := hc\<rparr>)"
        using start_liquidation_shape(2) [OF start_liquidation(2)] b by (auto simp: start_receivership_def elim!: bindE)
      have arith: "fixed_arith (e_fx env)" using fx env by simp
      obtain e m l where e: "risk_engine_new fx (e_lib env) (e_load_bank env) (e_clock env) a ais = Inr e"
          "total_worth env Maintenance e = (m, l)" "m \<le> l" "complete e" "all_valued fx (e_lib env) Maintenance e"
        by (rule receivership_values_worth [OF arith v]) (simp add: env)
      have "re_account e = a" using e(1) by (auto simp: risk_engine_new_def elim!: bindE intro: engine_complete(1))
      moreover have "fst (total_worth env Maintenance e) \<le> 0"
        using debt_free_worth [OF e(1) free, of env Maintenance] e(2,3) by simp
      ultimately have "worthless fx s a b'"
        using start_liquidation(2,3,5) e(1,4,5) unfolding worthless_def b by blast
      moreover have "untouched a b'"
        by (simp add: b' untouched_def acc_flags.get_put_other account_flag_defs) (simp add: acc_set_flag_def acc_get_flag_def)
      ultimately show ?thesis using start_liquidation True by auto
    next
      case False
      then show ?thesis using start_liquidation k by simp
    qed
  next
    case (end_liquidation env tx r fs wallet ais b lr b' lr' ts j)
    have "b \<noteq> a" using end_liquidation_shape(1) [OF end_liquidation(2)] no by (auto simp: can_end_def)
    then show ?thesis using end_liquidation k by auto
  next
    case (start_deleverage env pk tx r gk g ais b lr b' lr' j)
    have "acc_group b = gk" "risk_admin g = signer"
      using start_deleverage(2) by (auto simp: start_deleverage_def res_simps elim!: bindE)
    then have "b \<noteq> a" using out start_deleverage by (auto simp: outsider_def)
    then show ?thesis using start_deleverage k by auto
  next
    case (end_deleverage env tx r gk g ais b lr b' lr' j)
    have "b \<noteq> a" using end_deleverage_shape(1) [OF end_deleverage(2)] no by (auto simp: can_end_def)
    then show ?thesis using end_deleverage k by auto
  qed
qed

lemma upkeep_entry_stays:
  assumes "upkeep_entry fx signer s s'" and guest: "guest s signer k a"
  shows "stays a (ps_accounts s' k)"
  using assms(1)
proof (cases rule: upkeep_entry.cases)
  case (purge_deleverage_balance env ta g b bank b' bank' j)
  have "risk_admin g = signer" "acc_group b = ta_group ta"
    using purge_deleverage_balance(1,3)
    by (auto simp: lending_account_purge_delev_balance_def account_in_group_def check_def elim!: bindE split: if_splits)
  then have "b \<noteq> a" using guest purge_deleverage_balance by (auto simp: guest_def outsider_def)
  then show ?thesis using purge_deleverage_balance guest by (auto simp: guest_def)
qed (use guest in \<open>simp_all add: guest_def\<close>)

lemma kamino_entry_stays:
  assumes "kamino_entry fx ch signer s s'" and guest: "guest s signer k a"
  shows "stays a (ps_accounts s' k)"
  using assms(1)
proof (cases rule: kamino_entry.cases)
  case (kamino_deposit env ka g n b bank b' bank' w j)
  show ?thesis
    using guest_put [OF position_guards(1) [OF kamino_deposit(3)] _ _ _ guest] kamino_deposit by simp
next
  case (kamino_withdraw env ka ais n all g b bank g' b' bank' w j)
  show ?thesis
    using guest_put [OF position_guards(2) [OF kamino_withdraw(3)] _ _ _ guest] kamino_withdraw by simp
qed (use guest in \<open>simp_all add: guest_def\<close>)

lemma drift_entry_stays:
  assumes "drift_entry fx ch signer s s'" and guest: "guest s signer k a"
  shows "stays a (ps_accounts s' k)"
  using assms(1)
proof (cases rule: drift_entry.cases)
  case (drift_deposit env da g n b bank b' bank' w j)
  show ?thesis
    using guest_put [OF position_guards(3) [OF drift_deposit(3)] _ _ _ guest] drift_deposit by simp
next
  case (drift_withdraw env da ais n all g b bank g' b' bank' w j)
  show ?thesis
    using guest_put [OF position_guards(4) [OF drift_withdraw(3)] _ _ _ guest] drift_withdraw by simp
qed (use guest in \<open>simp_all add: guest_def\<close>)

lemma solend_entry_stays:
  assumes "solend_entry fx ch signer s s'" and guest: "guest s signer k a"
  shows "stays a (ps_accounts s' k)"
  using assms(1)
proof (cases rule: solend_entry.cases)
  case (solend_deposit env so g n b bank b' bank' w j)
  show ?thesis
    using guest_put [OF position_guards(5) [OF solend_deposit(3)] _ _ _ guest] solend_deposit by simp
next
  case (solend_withdraw env so ais n all g b bank g' b' bank' w j)
  show ?thesis
    using guest_put [OF position_guards(6) [OF solend_withdraw(3)] _ _ _ guest] solend_withdraw by simp
qed (use guest in \<open>simp_all add: guest_def\<close>)

lemma other_entry_accounts:
  "group_entry fx signer s s' \<Longrightarrow> ps_accounts s' = ps_accounts s"
  "add_bank_entry fx signer s s' \<Longrightarrow> ps_accounts s' = ps_accounts s"
  "settings_entry fx signer s s' \<Longrightarrow> ps_accounts s' = ps_accounts s"
  "fee_entry fx signer s s' \<Longrightarrow> ps_accounts s' = ps_accounts s"
  by (auto elim!: group_entry.cases add_bank_entry.cases settings_entry.cases fee_entry.cases)

lemma program_step_stays:
  assumes "program_step fx ch signer s s'" and "fixed_arith fx" and guest: "guest s signer k a"
  shows "stays a (ps_accounts s' k)
    \<or> (\<exists>a'. ps_accounts s' k = Some a' \<and> untouched a a' \<and> worthless fx s a a')"
proof -
  have same: "stays a (ps_accounts s' k)" if "ps_accounts s' = ps_accounts s"
    using guest that by (simp add: guest_def)
  from assms(1) show ?thesis
  proof (cases rule: program_step.cases)
    case receivership
    then show ?thesis by (rule receivership_entry_stays [OF _ assms(2) guest])
  next
    case (elsewhere w)
    then show ?thesis using same by simp
  qed (rule disjI1, (rule user_entry_stays [OF _ assms(2) guest] operational_entry_stays [OF _ guest]
      upkeep_entry_stays [OF _ guest] kamino_entry_stays [OF _ guest] drift_entry_stays [OF _ guest]
      solend_entry_stays [OF _ guest] same [OF other_entry_accounts(1)] same [OF other_entry_accounts(2)]
      same [OF other_entry_accounts(3)] same [OF other_entry_accounts(4)], assumption))+
qed

text \<open>
  An instruction that none of the keys \<open>ks\<close> signs and after which the account \<open>k\<close> is not in
  receivership.
\<close>

definition others_step ::
  "fixed_ops \<Rightarrow> 'w chain \<Rightarrow> pubkey set \<Rightarrow> pubkey \<Rightarrow> 'w program_state \<Rightarrow> 'w program_state \<Rightarrow> bool" where
  "others_step fx ch ks k s s' \<longleftrightarrow> (\<exists>signer. signer \<notin> ks \<and> program_step fx ch signer s s')
     \<and> \<not> (\<exists>a. ps_accounts s' k = Some a \<and> acc_get_flag a ACCOUNT_IN_RECEIVERSHIP)"

definition at_rest ::
  "'w program_state \<Rightarrow> pubkey \<Rightarrow> MarginfiAccount \<Rightarrow> MarginfiGroup \<Rightarrow> bool" where
  "at_rest s k a g \<longleftrightarrow> (\<exists>a' g'. ps_accounts s k = Some a' \<and> untouched a a'
     \<and> \<not> acc_get_flag a' ACCOUNT_IN_RECEIVERSHIP
     \<and> ps_groups s (acc_group a) = Some g' \<and> group_keys g' = group_keys g)"

lemma at_rest_guest:
  assumes "at_rest s k a g" and "debt_free a" and "signer \<notin> {authority a, admin g, risk_admin g}"
  obtains a' g' where "guest s signer k a'" "untouched a a'" "ps_groups s (acc_group a) = Some g'"
    "group_keys g' = group_keys g"
proof -
  obtain a' g' where r: "ps_accounts s k = Some a'" "untouched a a'" "\<not> acc_get_flag a' ACCOUNT_IN_RECEIVERSHIP"
    "ps_groups s (acc_group a) = Some g'" "group_keys g' = group_keys g"
    using assms(1) by (auto simp: at_rest_def)
  have "outsider s signer a'"
    using r(2,4) group_keys_admins [OF r(5)] assms(3) by (auto simp: outsider_def untouched_def)
  then have "guest s signer k a'"
    using r untouched_debt_free [OF r(2) assms(2)] by (simp add: guest_def)
  then show thesis using r that by blast
qed

lemma others_step_rest:
  assumes "fixed_arith fx" and "others_step fx ch {authority a, admin g, risk_admin g} k s s'"
    and rest: "at_rest s k a g" and free: "debt_free a"
  shows "at_rest s' k a g"
proof -
  obtain signer where s: "signer \<notin> {authority a, admin g, risk_admin g}" "program_step fx ch signer s s'"
    and no: "\<And>a. ps_accounts s' k = Some a \<Longrightarrow> \<not> acc_get_flag a ACCOUNT_IN_RECEIVERSHIP"
    using assms(2) unfolding others_step_def by blast
  obtain a1 g1 where r: "guest s signer k a1" "untouched a a1" "ps_groups s (acc_group a) = Some g1"
    "group_keys g1 = group_keys g"
    by (rule at_rest_guest [OF rest free s(1)])
  have "admin g1 \<noteq> signer" using group_keys_admins [OF r(4)] s(1) by auto
  then obtain g2 where g2: "ps_groups s' (acc_group a) = Some g2" "group_keys g2 = group_keys g"
    using program_step_groups [OF s(2)] r(3,4) unfolding groups_move_def by metis
  obtain a2 where "ps_accounts s' k = Some a2" "untouched a1 a2"
    using program_step_stays [OF s(2) assms(1) r(1)] by (auto simp: stays_def)
  then show ?thesis using untouched_trans [OF r(2)] no g2 unfolding at_rest_def by blast
qed

lemma others_run_rest:
  assumes "fixed_arith fx" and "(others_step fx ch {authority a, admin g, risk_admin g} k)\<^sup>*\<^sup>* s s'"
    and "at_rest s k a g" and "debt_free a"
  shows "at_rest s' k a g"
  using assms(2,3)
  by (induction rule: rtranclp_induct) (auto intro: others_step_rest [OF assms(1) _ _ assms(4)])

end
