(* ===== verification/ProgramSettings.thy ===== *)
theory ProgramSettings
  imports ProgramControl BankFrame
begin

text \<open>
  Who changes the settings of a bank: nobody but the admins of its group, apart from what a
  bankruptcy and the last repayment of a deleveraged bank record.
\<close>

section \<open>What everybody can do to the settings of a bank\<close>

definition settings_kept :: "Bank \<Rightarrow> Bank \<Rightarrow> bool" where
  "settings_kept b b' \<longleftrightarrow> (\<exists>st fl.
     settings_of b' = (settings_of b)\<lparr>config := (config b)\<lparr>operational_state := st\<rparr>, bank_flags := fl\<rparr>
     \<and> st \<in> {operational_state (config b), KilledByBankruptcy}
     \<and> fl \<in> {bank_flags b, flag_put TOKENLESS_REPAYMENTS_COMPLETE (bank_flags b)})"

lemma settings_keptI: "settings_of b' = settings_of b \<Longrightarrow> settings_kept b b'"
  unfolding settings_kept_def
  by (rule exI [of _ "operational_state (config b)"], rule exI [of _ "bank_flags b"]) (simp add: settings_of_def)

lemma settings_kept_refl [simp]: "settings_kept b b"
  by (rule settings_keptI) simp

lemma settings_killed:
  "settings_of b' = (settings_of b)\<lparr>config := (config b)\<lparr>operational_state := KilledByBankruptcy\<rparr>\<rparr> \<Longrightarrow>
    settings_kept b b'"
  unfolding settings_kept_def
  by (rule exI [of _ KilledByBankruptcy], rule exI [of _ "bank_flags b"]) (simp add: settings_of_def)

lemma settings_completed:
  "settings_of b' = (settings_of b)\<lparr>bank_flags := flag_put TOKENLESS_REPAYMENTS_COMPLETE (bank_flags b)\<rparr> \<Longrightarrow>
    settings_kept b b'"
  unfolding settings_kept_def
  by (rule exI [of _ "operational_state (config b)"],
      rule exI [of _ "flag_put TOKENLESS_REPAYMENTS_COMPLETE (bank_flags b)"]) (simp add: settings_of_def)

lemma settings_of_fields:
  "config (settings_of b) = config b" "bank_flags (settings_of b) = bank_flags b"
  "bank_group (settings_of b) = bank_group b"
  by (simp_all add: settings_of_def)

lemma settings_keptE:
  assumes "settings_kept b b'"
  obtains st fl where
    "settings_of b' = (settings_of b)\<lparr>config := (config b)\<lparr>operational_state := st\<rparr>, bank_flags := fl\<rparr>"
    "config b' = (config b)\<lparr>operational_state := st\<rparr>" "bank_flags b' = fl" "bank_group b' = bank_group b"
    "st \<in> {operational_state (config b), KilledByBankruptcy}"
    "fl \<in> {bank_flags b, flag_put TOKENLESS_REPAYMENTS_COMPLETE (bank_flags b)}"
proof -
  obtain st fl where
    s: "settings_of b' = (settings_of b)\<lparr>config := (config b)\<lparr>operational_state := st\<rparr>, bank_flags := fl\<rparr>"
      "st \<in> {operational_state (config b), KilledByBankruptcy}"
      "fl \<in> {bank_flags b, flag_put TOKENLESS_REPAYMENTS_COMPLETE (bank_flags b)}"
    using assms unfolding settings_kept_def by blast
  have "config (settings_of b') = (config b)\<lparr>operational_state := st\<rparr>" "bank_flags (settings_of b') = fl"
    "bank_group (settings_of b') = bank_group b"
    unfolding s(1) by (simp_all add: settings_of_fields)
  then show thesis unfolding settings_of_fields by (intro that [OF s(1) _ _ _ s(2,3)])
qed

lemma flag_put_twice [simp]: "flag_put f (flag_put f w) = flag_put f w"
  by (simp add: flag_put_def or.assoc)

lemma settings_kept_trans:
  assumes "settings_kept b b'" and "settings_kept b' b''"
  shows "settings_kept b b''"
proof -
  obtain st fl where 1:
    "settings_of b' = (settings_of b)\<lparr>config := (config b)\<lparr>operational_state := st\<rparr>, bank_flags := fl\<rparr>"
    "config b' = (config b)\<lparr>operational_state := st\<rparr>" "bank_flags b' = fl"
    "st \<in> {operational_state (config b), KilledByBankruptcy}"
    "fl \<in> {bank_flags b, flag_put TOKENLESS_REPAYMENTS_COMPLETE (bank_flags b)}"
    by (rule settings_keptE [OF assms(1)])
  obtain st' fl' where 2:
    "settings_of b'' = (settings_of b')\<lparr>config := (config b')\<lparr>operational_state := st'\<rparr>, bank_flags := fl'\<rparr>"
    "st' \<in> {operational_state (config b'), KilledByBankruptcy}"
    "fl' \<in> {bank_flags b', flag_put TOKENLESS_REPAYMENTS_COMPLETE (bank_flags b')}"
    by (rule settings_keptE [OF assms(2)])
  have "settings_of b'' = (settings_of b)\<lparr>config := (config b)\<lparr>operational_state := st'\<rparr>, bank_flags := fl'\<rparr>"
    unfolding 2(1) 1(1) 1(2) by simp
  moreover have "st' \<in> {operational_state (config b), KilledByBankruptcy}" using 1(2,4) 2(2) by auto
  moreover have "fl' \<in> {bank_flags b, flag_put TOKENLESS_REPAYMENTS_COMPLETE (bank_flags b)}"
    using 1(3,5) 2(3) by auto
  ultimately show ?thesis unfolding settings_kept_def by blast
qed

section \<open>What the instructions do to a bank\<close>

text \<open>A bank that no instruction without an admin's signature reconfigures.\<close>

definition settled :: "Bank \<Rightarrow> bool" where
  "settled b \<longleftrightarrow> asset_tag (config b) \<noteq> ASSET_TAG_STAKED
     \<and> curve_type (interest_rate_config (config b)) = INTEREST_CURVE_SEVEN_POINT"

definition bank_stays :: "Bank \<Rightarrow> Bank option \<Rightarrow> bool" where
  "bank_stays b x \<longleftrightarrow> (\<exists>b'. x = Some b' \<and> settings_kept b b')"

lemma bank_stays_same [simp]: "bank_stays b (Some b)"
  by (simp add: bank_stays_def)

lemma bank_staysI: "settings_of b' = settings_of b \<Longrightarrow> bank_stays b (Some b')"
  by (auto simp: bank_stays_def intro: settings_keptI)

lemma bank_stays_put:
  "ps_banks s j = Some b1 \<Longrightarrow> ps_banks s k = Some b \<Longrightarrow> settings_kept b1 b1' \<Longrightarrow>
    bank_stays b (((ps_banks s)(j \<mapsto> b1')) k)"
  by (auto simp: bank_stays_def)

lemma bank_stays_frame:
  "ps_banks s k = Some b \<Longrightarrow> ps_banks s j = Some b1 \<Longrightarrow> settings_of b1' = settings_of b1 \<Longrightarrow>
    bank_stays b (((ps_banks s)(j \<mapsto> b1')) k)"
  by (rule bank_stays_put) (auto intro: settings_keptI)

lemma ps_banks_put [simp]:
  "ps_banks (put_account k a s) = ps_banks s" "ps_banks (put_bank k b s) = (ps_banks s)(k \<mapsto> b)"
  "ps_banks (put_group k g s) = ps_banks s" "ps_banks (put_record k r s) = ps_banks s"
  "ps_banks (put_staked k st s) = ps_banks s" "ps_banks (put_metadata k m s) = ps_banks s"
  "ps_banks (put_fee_state fs s) = ps_banks s" "ps_banks (put_chain w s) = ps_banks s"
  by (simp_all add: put_defs)

lemma user_entry_banks:
  assumes "user_entry fx signer s s'" and k: "ps_banks s k = Some b"
  shows "bank_stays b (ps_banks s' k)"
proof -
  note W = bank_stays_frame [OF k]
  show ?thesis
    using assms(1)
  proof (cases rule: user_entry.cases)
    case (lending_pool_handle_bankruptcy env bk g ais a b1 a' b1' t j)
    then have "settings_kept b1 b1'" using settings_bankruptcy settings_keptI settings_killed by blast
    then show ?thesis using bank_stays_put [OF _ k] lending_pool_handle_bankruptcy by simp
  next
    case (lending_account_deposit env ta g ais n up a b1 a' b1' ts j)
    then show ?thesis using W settings_deposit by simp
  next
    case (lending_account_repay env ta g ais n all a b1 a' b1' ts j)
    then have "settings_kept b1 b1'" using settings_repay settings_keptI settings_completed by blast
    then show ?thesis using bank_stays_put [OF _ k] lending_account_repay by simp
  next
    case (lending_account_withdraw env ta ais n all g a b1 g' a' b1' ts j)
    then show ?thesis using W settings_withdraw by simp
  next
    case (lending_account_borrow env ta g ais n a b1 a' b1' ts j)
    then show ?thesis using W settings_borrow by simp
  next
    case (lending_account_close_balance env ta g a b1 a' b1' j)
    then show ?thesis using W settings_close_balance by simp
  next
    case (lending_account_withdraw_emissions env ta ea g a b1 a' b1' ts j)
    have "settings_of b1' = settings_of b1"
      by (rule settings_emissions(1), rule emissions_shape, rule disjI1,
          rule lending_account_withdraw_emissions(3))
    then show ?thesis using W lending_account_withdraw_emissions by simp
  next
    case (lending_account_settle_emissions env bank_key a b1 a' b1' j)
    then show ?thesis using W settings_emissions(2) by simp
  next
    case (lending_account_liquidate env lq g ais n k1 k2 tor tee ab lb tor' tee' ab' lb' t)
    note s = settings_liquidate [OF lending_account_liquidate(3)]
    have "bank_stays b (((ps_banks s)(lq_asset_bank lq \<mapsto> ab')) k)"
      "bank_stays b (((ps_banks s)(lq_liab_bank lq \<mapsto> lb')) k)"
      using W s lending_account_liquidate by simp_all
    then show ?thesis using lending_account_liquidate by (auto split: if_splits)
  qed (use k in simp_all)
qed

lemma kamino_entry_banks:
  assumes "kamino_entry fx ch signer s s'" and k: "ps_banks s k = Some b"
  shows "bank_stays b (ps_banks s' k)"
  using assms(1)
proof (cases rule: kamino_entry.cases)
  case (kamino_deposit env ka g n a b1 a' b1' w j)
  then show ?thesis using bank_stays_frame [OF k _ settings_position_in(1) [OF kamino_deposit(3)]] by simp
next
  case (kamino_withdraw env ka ais n all g a b1 g' a' b1' w j)
  then show ?thesis using bank_stays_frame [OF k _ settings_position_out(1) [OF kamino_withdraw(3)]] by simp
qed (use k in \<open>auto simp: fresh_bank_def\<close>)

lemma drift_entry_banks:
  assumes "drift_entry fx ch signer s s'" and k: "ps_banks s k = Some b"
  shows "bank_stays b (ps_banks s' k)"
  using assms(1)
proof (cases rule: drift_entry.cases)
  case (drift_deposit env da g n a b1 a' b1' w j)
  then show ?thesis using bank_stays_frame [OF k _ settings_position_in(2) [OF drift_deposit(3)]] by simp
next
  case (drift_withdraw env da ais n all g a b1 g' a' b1' w j)
  then show ?thesis using bank_stays_frame [OF k _ settings_position_out(2) [OF drift_withdraw(3)]] by simp
qed (use k in \<open>auto simp: fresh_bank_def\<close>)

lemma solend_entry_banks:
  assumes "solend_entry fx ch signer s s'" and k: "ps_banks s k = Some b"
  shows "bank_stays b (ps_banks s' k)"
  using assms(1)
proof (cases rule: solend_entry.cases)
  case (solend_deposit env so g n a b1 a' b1' w j)
  then show ?thesis using bank_stays_frame [OF k _ settings_position_in(3) [OF solend_deposit(3)]] by simp
next
  case (solend_withdraw env so ais n all g a b1 g' a' b1' w j)
  then show ?thesis using bank_stays_frame [OF k _ settings_position_out(3) [OF solend_withdraw(3)]] by simp
qed (use k in \<open>auto simp: fresh_bank_def\<close>)

lemma settings_collect:
  assumes "lending_pool_collect_bank_fees fx ata parse_mint now gk g fs tp ais fa b = Inr (b', ts)"
  shows "settings_of b' = settings_of b"
  using assms
  by (auto simp: lending_pool_collect_bank_fees_def Let_def elim!: bindE split: if_splits prod.splits)

lemma settings_bank_ix: "bank_ix fx b b' \<Longrightarrow> settings_of b' = settings_of b"
  by (erule bank_ix.cases)
    (auto simp: lending_pool_accrue_bank_interest_def lending_pool_pulse_bank_price_cache_def elim!: bindE
      dest!: settings_accrue settings_change(4))

text \<open>An outsider of the group of a bank: a key that is none of its settings admins.\<close>

definition no_admin :: "'w program_state \<Rightarrow> pubkey \<Rightarrow> Bank \<Rightarrow> bool" where
  "no_admin s signer b \<longleftrightarrow> (\<exists>g. ps_groups s (bank_group b) = Some g \<and> signer \<notin> settings_admins g)"

lemma no_admin_admin: "no_admin s signer b \<Longrightarrow> ps_groups s (bank_group b) = Some g \<Longrightarrow> admin g \<noteq> signer"
  by (auto simp: no_admin_def settings_admins_def)

lemma operational_entry_banks:
  assumes "operational_entry fx signer s s'" and k: "ps_banks s k = Some b" and out: "no_admin s signer b"
  shows "bank_stays b (ps_banks s' k)"
proof -
  note W = bank_stays_frame [OF k]
  show ?thesis
    using assms(1)
  proof (cases rule: operational_entry.cases)
    case (lending_pool_accrue_bank_interest gk now g b1 b1' j)
    then show ?thesis using W settings_bank_ix [OF bank_ix.accrue] by simp
  next
    case (lending_pool_collect_bank_fees ata parse_mint now gk g fs tp ais fa b1 b1' ts j)
    then show ?thesis using W settings_collect by simp
  next
    case (lending_pool_update_fees_destination_account now gk g dst dst_mint b1 b1' j)
    then have "admin g = signer" "bank_group b1 = gk"
      by (auto simp: lending_pool_update_fees_destination_account_def bank_in_group_def check_def
          elim!: bindE split: if_splits)
    then have "j \<noteq> k" using lending_pool_update_fees_destination_account k no_admin_admin [OF out] by auto
    then show ?thesis using lending_pool_update_fees_destination_account k by simp
  next
    case (lending_pool_close_bank gk b1 g g' j)
    then have "admin g = signer" "bank_group b1 = gk"
      by (auto simp: lending_pool_close_bank_def bank_in_group_def check_def elim!: bindE split: if_splits)
    then have "j \<noteq> k" using lending_pool_close_bank k no_admin_admin [OF out] by auto
    then show ?thesis using lending_pool_close_bank k by simp
  next
    case (lending_account_withdraw_emissions_permissionless ata env ta ea g a b1 a' b1' ts j)
    have "settings_of b1' = settings_of b1"
      by (rule settings_emissions(1), rule emissions_shape, rule disjI2,
          rule lending_account_withdraw_emissions_permissionless(2))
    then show ?thesis using W lending_account_withdraw_emissions_permissionless by simp
  next
    case (lending_pool_pulse_bank_price_cache lib gk clock ais b1 b1' g j)
    then show ?thesis using W settings_bank_ix [OF bank_ix.pulse_price] by simp
  qed (use k in simp_all)
qed

lemma fee_entry_banks:
  assumes "fee_entry fx signer s s'" and k: "ps_banks s k = Some b" and "settled b"
  shows "bank_stays b (ps_banks s' k)"
  using assms(1)
proof (cases rule: fee_entry.cases)
  case (propagate_staked_settings lib sk gk ais st b1 b1' g stk j)
  then have "asset_tag (config b1) = ASSET_TAG_STAKED"
    by (auto simp: propagate_staked_settings_def constraint_eq_Inr elim!: bindE)
  then have "j \<noteq> k" using propagate_staked_settings k assms(3) by (auto simp: settled_def)
  then show ?thesis using propagate_staked_settings k by simp
qed (use k in simp_all)

lemma upkeep_entry_banks:
  assumes "upkeep_entry fx signer s s'" and k: "ps_banks s k = Some b" and "settled b"
  shows "bank_stays b (ps_banks s' k)"
  using assms(1)
proof (cases rule: upkeep_entry.cases)
  case (migrate_curve b1 b1' j)
  have "b1' = b1" if "settled b1"
    using migrate_curve(2) that by (auto simp: migrate_curve_def settled_def elim!: bindE)
  then show ?thesis using migrate_curve k assms(3) by auto
next
  case (purge_deleverage_balance env ta g a b1 a' b1' j)
  then show ?thesis using bank_stays_frame [OF k _ settings_purge [OF purge_deleverage_balance(3)]] by simp
qed (use k in simp_all)

lemma program_step_banks:
  assumes "program_step fx ch signer s s'" and k: "ps_banks s k = Some b" and out: "no_admin s signer b"
    and settled: "settled b"
  shows "bank_stays b (ps_banks s' k)"
  using assms(1)
proof (cases rule: program_step.cases)
  case group
  then show ?thesis using k by (cases rule: group_entry.cases) simp_all
next
  case add_bank
  then show ?thesis using k by (cases rule: add_bank_entry_shape) (auto simp: fresh_bank_def)
next
  case settings
  then show ?thesis using k out by (cases rule: settings_entry_bank) (auto simp: no_admin_def)
next
  case receivership
  then show ?thesis using k by (cases rule: receivership_entry.cases) simp_all
next
  case (elsewhere w)
  then show ?thesis using k by simp
qed (rule user_entry_banks [OF _ k] operational_entry_banks [OF _ k out] fee_entry_banks [OF _ k settled]
    upkeep_entry_banks [OF _ k settled] kamino_entry_banks [OF _ k] drift_entry_banks [OF _ k]
    solend_entry_banks [OF _ k], assumption)+

text \<open>The settings survive any number of instructions.\<close>

lemma program_run_banks:
  assumes "program_run fx ch ks s s'" and "ps_banks s k = Some b" and "settled b"
    and "ps_groups s (bank_group b) = Some g" and "settings_admins g \<inter> set ks = {}"
  shows "bank_stays b (ps_banks s' k)"
proof -
  let ?Q = "\<lambda>s. bank_stays b (ps_banks s k)
    \<and> (\<exists>g'. ps_groups s (bank_group b) = Some g' \<and> group_keys g' = group_keys g)"
  have "?Q s'"
    using assms(1)
  proof (rule program_run_induct)
    show "?Q s" using assms(2,4) by simp
  next
    fix j s1 s2
    assume s: "program_step fx ch j s1 s2" and j: "j \<in> set ks" and "?Q s1"
    then obtain b1 g1 where b1: "ps_banks s1 k = Some b1" "settings_kept b b1"
      and g1: "ps_groups s1 (bank_group b) = Some g1" "group_keys g1 = group_keys g"
      unfolding bank_stays_def by blast
    have same: "settings_admins g1 = settings_admins g" using g1(2) by (simp add: group_keys_def settings_admins_def)
    then have j': "j \<notin> settings_admins g1" using j assms(5) by blast
    have "bank_group b1 = bank_group b" "settled b1"
      by (rule settings_keptE [OF b1(2)], simp) (rule settings_keptE [OF b1(2)], use assms(3) in \<open>simp add: settled_def\<close>)
    then have "bank_stays b1 (ps_banks s2 k)"
      using program_step_banks [OF s b1(1)] g1(1) j' by (simp add: no_admin_def)
    then have "bank_stays b (ps_banks s2 k)" using settings_kept_trans [OF b1(2)] by (auto simp: bank_stays_def)
    moreover have "admin g1 \<noteq> j" using j' by (auto simp: settings_admins_def)
    then have "\<exists>g'. ps_groups s2 (bank_group b) = Some g' \<and> group_keys g' = group_keys g"
      using program_step_groups [OF s] g1 unfolding groups_move_def by metis
    ultimately show "?Q s2" by blast
  qed
  then show ?thesis by blast
qed

end
