(* ===== verification/ProgramFreeze.thy ===== *)
theory ProgramFreeze
  imports ProgramSettings BankIxProps
begin

text \<open>
  What any instruction of the program, whoever signs it, can do to a bank whose settings are frozen.
\<close>

text \<open>
  The limits change with the signature of the admin or the limits admin, the e-mode with that of the
  admin or the e-mode admin, the freeze is lost with that of the emissions admin only, a bankruptcy may
  kill the bank, and the admin may close it; all else of its configuration is fixed.
\<close>

definition freeze_holds :: "MarginfiGroup \<Rightarrow> pubkey \<Rightarrow> Bank \<Rightarrow> Bank option \<Rightarrow> bool" where
  "freeze_holds g signer b x \<longleftrightarrow> x = None \<and> signer = admin g \<or>
     (\<exists>b' d l st. x = Some b'
        \<and> config b' = (config b)\<lparr>deposit_limit := d, borrow_limit := l, operational_state := st\<rparr>
        \<and> st \<in> {operational_state (config b), KilledByBankruptcy}
        \<and> (d = deposit_limit (config b) \<and> l = borrow_limit (config b) \<or> signer \<in> {admin g, delegate_limit_admin g})
        \<and> (emode b' = emode b \<or> signer \<in> {admin g, emode_admin g})
        \<and> (bank_get_flag b' FREEZE_SETTINGS \<or> signer = delegate_emissions_admin g))"

lemma freeze_holdsI:
  assumes "config b' = (config b)\<lparr>deposit_limit := d, borrow_limit := l\<rparr>"
    and "d = deposit_limit (config b) \<and> l = borrow_limit (config b) \<or> signer \<in> {admin g, delegate_limit_admin g}"
    and "emode b' = emode b \<or> signer \<in> {admin g, emode_admin g}"
    and "bank_get_flag b' FREEZE_SETTINGS \<or> signer = delegate_emissions_admin g"
  shows "freeze_holds g signer b (Some b')"
  unfolding freeze_holds_def using assms
  by (intro disjI2 exI [of _ b'] exI [of _ d] exI [of _ l] exI [of _ "operational_state (config b)"]) simp

text \<open>The configuration stays.\<close>

lemma freeze_holds_same:
  assumes "config b' = config b" and "emode b' = emode b \<or> signer \<in> {admin g, emode_admin g}"
    and "bank_get_flag b' FREEZE_SETTINGS \<or> signer = delegate_emissions_admin g"
  shows "freeze_holds g signer b (Some b')"
  by (rule freeze_holdsI [where d = "deposit_limit (config b)" and l = "borrow_limit (config b)"]) (use assms in simp_all)

lemma freeze_holds_refl: "bank_get_flag b FREEZE_SETTINGS \<Longrightarrow> freeze_holds g signer b (Some b)"
  by (rule freeze_holds_same) simp_all

lemma bank_flag_put: "x AND f = f \<Longrightarrow> flag_put t x AND f = f" for f t x :: "64 word"
  by (simp add: flag_put_def bit_eq_iff bit_simps) blast

lemma freeze_holds_kept:
  assumes "settings_kept b b'" and "bank_get_flag b FREEZE_SETTINGS"
  shows "freeze_holds g signer b (Some b')"
proof -
  obtain st fl where s:
    "settings_of b' = (settings_of b)\<lparr>config := (config b)\<lparr>operational_state := st\<rparr>, bank_flags := fl\<rparr>"
    "config b' = (config b)\<lparr>operational_state := st\<rparr>" "bank_flags b' = fl"
    "st \<in> {operational_state (config b), KilledByBankruptcy}"
    "fl \<in> {bank_flags b, flag_put TOKENLESS_REPAYMENTS_COMPLETE (bank_flags b)}"
    by (rule settings_keptE [OF assms(1)])
  have "emode (settings_of b') = emode (settings_of b)" unfolding s(1) by simp
  then have "emode b' = emode b" by (simp add: settings_of_def)
  moreover have "bank_get_flag b' FREEZE_SETTINGS"
    using s(3,5) assms(2) bank_flag_put by (auto simp: bank_get_flag_def)
  ultimately show ?thesis
    unfolding freeze_holds_def using s(2,4)
    by (intro disjI2 exI [of _ b'] exI [of _ "deposit_limit (config b)"] exI [of _ "borrow_limit (config b)"]
        exI [of _ st]) simp
qed

lemma bank_stays_freeze: "bank_stays b x \<Longrightarrow> bank_get_flag b FREEZE_SETTINGS \<Longrightarrow> freeze_holds g signer b x"
  using freeze_holds_kept by (auto simp: bank_stays_def)

section \<open>The instructions that set a bank up\<close>

lemma emissions_shape_config:
  "lending_pool_setup_emissions fx signer gk g epoch em_mint mint_ai funding em_account flags em_rate n b
     = Inr (b', t) \<Longrightarrow> config b' = config b \<and> emode b' = emode b \<and> signer = delegate_emissions_admin g"
  "lending_pool_update_emissions_parameters fx signer gk g epoch em_mint mint_ai funding em_account flags' em_rate' more_n b
     = Inr (b', t') \<Longrightarrow> config b' = config b \<and> emode b' = emode b \<and> signer = delegate_emissions_admin g"
  by (auto simp: lending_pool_setup_emissions_def lending_pool_update_emissions_parameters_def
      override_emissions_flag_def check_def Let_def elim!: bindE split: if_splits option.splits)

lemma settings_entry_freeze:
  assumes "settings_entry fx signer s s'" and k: "ps_banks s k = Some b" and g: "ps_groups s (bank_group b) = Some g"
    and f: "bank_get_flag b FREEZE_SETTINGS"
  shows "freeze_holds g signer b (ps_banks s' k)"
proof -
  have put: "freeze_holds g signer b (((ps_banks s)(j \<mapsto> b1')) k)"
    if "ps_banks s j = Some b1" "j = k \<Longrightarrow> b1 = b \<Longrightarrow> freeze_holds g signer b (Some b1')" for j b1 b1'
    using that k freeze_holds_refl [OF f] by (cases "j = k") auto
  have group: "g1 = g" if "bank_in_group gk b = Inr u" "ps_groups s gk = Some g1" for gk g1 u
    using that g by (auto simp: bank_in_group_def check_def split: if_splits)
  show ?thesis
    using assms(1)
  proof (cases rule: settings_entry.cases)
    case (lending_pool_configure_bank gk g1 oc b1 b1' j)
    note c = this
    have "freeze_holds g signer b (Some b1')" if "b1 = b"
    proof -
      have "b1' = configure_unfrozen_fields_only oc b" using frozen_steps(1) [OF f] c(2) that by blast
      moreover have "signer \<in> {admin g, delegate_limit_admin g}"
        using c(2,3) group that by (auto simp: lending_pool_configure_bank_def check_def elim!: bindE split: if_splits)
      ultimately show ?thesis
        using f by (intro freeze_holdsI) (auto simp: configure_unfrozen_fields_only_def bank_get_flag_def)
    qed
    then show ?thesis using put c by simp
  next
    case (lending_pool_configure_bank_interest_only gk g1 ir b1 b1' j)
    note c = this
    have "freeze_holds g signer b (Some b1')" if "b1 = b"
      using frozen_steps(2) [OF f] c(2) that freeze_holds_refl [OF f] by metis
    then show ?thesis using put c by simp
  next
    case (lending_pool_configure_bank_limits_only gk g1 dep bor lim b1 b1' j)
    note c = this
    have "freeze_holds g signer b (Some b1')" if "b1 = b"
    proof -
      have "signer \<in> {admin g, delegate_limit_admin g}"
        using c(2,3) group that
        by (auto simp: lending_pool_configure_bank_limits_only_def check_def elim!: bindE split: if_splits)
      moreover have "b1' = b\<lparr>config := (config b)\<lparr>deposit_limit := set_if_some dep (deposit_limit (config b)),
          borrow_limit := set_if_some bor (borrow_limit (config b))\<rparr>\<rparr>"
        using frozen_steps(3) [OF f] c(2) that by blast
      ultimately show ?thesis using f by (intro freeze_holdsI) (auto simp: bank_get_flag_def)
    qed
    then show ?thesis using put c by simp
  next
    case (lending_pool_force_tokenless_repay_complete gk g1 b1 b1' j)
    note c = this
    have "freeze_holds g signer b (Some b1')" if "b1 = b"
      using c(2) that f bank_flag_put
      by (intro freeze_holds_same)
        (auto simp: lending_pool_force_tokenless_repay_complete_def update_flag_def bank_get_flag_def
          elim!: bindE split: if_splits)
    then show ?thesis using put c by simp
  next
    case (lending_pool_configure_bank_oracle lib sk gk g1 ais setup_type new_oracle b1 b1' j)
    note c = this
    have "b1 \<noteq> b" using frozen_steps(4) [OF f] c(2) by metis
    then show ?thesis using put [OF c(4)] c(1) by simp
  next
    case (lending_pool_set_fixed_oracle_price lib sk gk g1 price b1 b1' j)
    note c = this
    have "b1 \<noteq> b" using frozen_steps(5) [OF f] c(2) by metis
    then show ?thesis using put [OF c(4)] c(1) by simp
  next
    case (lending_pool_configure_bank_emode gk g1 now tag es b1 b1' j)
    note c = this
    have "freeze_holds g signer b (Some b1')" if "b1 = b"
    proof -
      have "signer = emode_admin g"
        using c(2,3) group that
        by (auto simp: lending_pool_configure_bank_emode_def check_def elim!: bindE split: if_splits)
      then show ?thesis using c(2) that f
        by (intro freeze_holds_same)
          (auto simp: lending_pool_configure_bank_emode_def bank_get_flag_def Let_def elim!: bindE)
    qed
    then show ?thesis using put c by simp
  next
    case (lending_pool_clone_emode gk g1 src b1 b1' k0 j)
    note c = this
    have "freeze_holds g signer b (Some b1')" if "b1 = b"
    proof -
      have "signer \<in> {admin g, emode_admin g}"
        using c(2,3) group that by (auto simp: lending_pool_clone_emode_def check_def elim!: bindE split: if_splits)
      then show ?thesis using c(2) that f
        by (intro freeze_holds_same) (auto simp: lending_pool_clone_emode_def bank_get_flag_def elim!: bindE)
    qed
    then show ?thesis using put [OF c(5)] c(1) by simp
  next
    case (lending_pool_setup_emissions gk g1 epoch em_mint mint_ai funding em_account flags em_rate n b1 b1' t j)
    note c = this
    have "g1 = g" if "b1 = b"
      using c(2,3) group that by (auto simp: lending_pool_setup_emissions_def elim!: bindE)
    then show ?thesis
      using put [OF c(4)] emissions_shape_config(1) [OF c(2)] freeze_holds_same c(1) by auto
  next
    case (lending_pool_update_emissions_parameters gk g1 epoch em_mint mint_ai funding em_account flags' em_rate' more_n b1 b1' t' j)
    note c = this
    have "g1 = g" if "b1 = b"
      using c(2,3) group that by (auto simp: lending_pool_update_emissions_parameters_def elim!: bindE)
    then show ?thesis
      using put [OF c(4)] emissions_shape_config(2) [OF c(2)] freeze_holds_same c(1) by auto
  qed
qed

section \<open>All instructions\<close>

lemma operational_entry_freeze:
  assumes e: "operational_entry fx signer s s'" and k: "ps_banks s k = Some b"
    and g: "ps_groups s (bank_group b) = Some g" and f: "bank_get_flag b FREEZE_SETTINGS"
  shows "freeze_holds g signer b (ps_banks s' k)"
proof -
  have stays: "freeze_holds g signer b x" if "bank_stays b x" for x using bank_stays_freeze [OF that f] .
  note W = bank_stays_frame [OF k]
  show ?thesis
    using e
  proof (cases rule: operational_entry.cases)
    case (lending_pool_accrue_bank_interest gk now g b1 b1' j)
    then show ?thesis by (intro stays) (use W settings_bank_ix [OF bank_ix.accrue] in simp)
  next
    case (lending_pool_collect_bank_fees ata parse_mint now gk g fs tp ais fa b1 b1' ts j)
    then show ?thesis by (intro stays) (use W settings_collect in simp)
  next
    case (lending_pool_update_fees_destination_account now gk g dst dst_mint b1 b1' j)
    then have "config b1' = config b1" "emode b1' = emode b1" "bank_flags b1' = bank_flags b1"
      by (auto simp: lending_pool_update_fees_destination_account_def elim!: bindE)
    then show ?thesis
      using lending_pool_update_fees_destination_account k f freeze_holds_refl [OF f]
      by (cases "j = k") (auto intro: freeze_holds_same simp: bank_get_flag_def)
  next
    case (lending_pool_close_bank gk b1 g1 g' j)
    then have "admin g1 = signer" "bank_group b1 = gk"
      by (auto simp: lending_pool_close_bank_def bank_in_group_def check_def elim!: bindE split: if_splits)
    then show ?thesis
      using lending_pool_close_bank k g freeze_holds_refl [OF f] by (cases "j = k") (auto simp: freeze_holds_def [of _ _ _ None])
  next
    case (lending_account_withdraw_emissions_permissionless ata env ta ea g a b1 a' b1' ts j)
    have "settings_of b1' = settings_of b1"
      by (rule settings_emissions(1), rule emissions_shape, rule disjI2,
          rule lending_account_withdraw_emissions_permissionless(2))
    then show ?thesis by (intro stays) (use W lending_account_withdraw_emissions_permissionless in simp)
  next
    case (lending_pool_pulse_bank_price_cache lib gk clock ais b1 b1' g j)
    then show ?thesis by (intro stays) (use W settings_bank_ix [OF bank_ix.pulse_price] in simp)
  qed (use k freeze_holds_refl [OF f] in simp_all)
qed

lemma program_step_freeze:
  assumes "program_step fx ch signer s s'" and k: "ps_banks s k = Some b"
    and g: "ps_groups s (bank_group b) = Some g" and f: "bank_get_flag b FREEZE_SETTINGS" and settled: "settled b"
  shows "freeze_holds g signer b (ps_banks s' k)"
proof -
  have stays: "freeze_holds g signer b x" if "bank_stays b x" for x using bank_stays_freeze [OF that f] .
  show ?thesis
    using assms(1)
  proof (cases rule: program_step.cases)
    case group
    then have "bank_stays b (ps_banks s' k)" using k by (cases rule: group_entry.cases) simp_all
    then show ?thesis by (rule stays)
  next
    case add_bank
    then have "bank_stays b (ps_banks s' k)" using k by (cases rule: add_bank_entry_shape) (auto simp: fresh_bank_def)
    then show ?thesis by (rule stays)
  next
    case settings
    then show ?thesis by (rule settings_entry_freeze [OF _ k g f])
  next
    case operational
    then show ?thesis by (rule operational_entry_freeze [OF _ k g f])
  next
    case receivership
    then have "bank_stays b (ps_banks s' k)" using k by (cases rule: receivership_entry.cases) simp_all
    then show ?thesis by (rule stays)
  next
    case (elsewhere w)
    then show ?thesis using k by (intro stays) simp
  qed (rule stays, rule user_entry_banks [OF _ k] fee_entry_banks [OF _ k settled]
      upkeep_entry_banks [OF _ k settled] kamino_entry_banks [OF _ k] drift_entry_banks [OF _ k]
      solend_entry_banks [OF _ k], assumption)+
qed

end
