(* ===== verification/ProgramProps.thy ===== *)
theory ProgramProps
  imports ProgramFreeze ProtocolProps
begin

text \<open>
  The properties of the program as a whole: of everything its entry points can do from its first
  instruction on.
\<close>

section \<open>The books\<close>

text \<open>The program before its first instruction owns nothing.\<close>

definition genesis :: "'w \<Rightarrow> 'w program_state" where
  "genesis w = \<lparr>ps_accounts = Map.empty, ps_banks = Map.empty, ps_groups = Map.empty, ps_fee_state = None,
     ps_staked = Map.empty, ps_records = Map.empty, ps_metadata = Map.empty, ps_chain = w\<rparr>"

lemma genesis_ok: "books_ok (ps_books (genesis w))"
  by (simp add: ps_books_eq genesis_def books_ok_def)

text \<open>C1: From its first instruction on, whatever instructions of the program whoever sends in
  whichever order (all of them: groups, new banks and their settings, users, liquidators, flash loans,
  receivership, bankruptcies, fees, banks on Kamino, Drift and Solend, closed accounts and closed
  banks), the totals of every bank cover the shares all accounts together hold in it, no account holds
  negative shares, two balances with one bank or more than eight integration positions. Borrows are taken with an
  origination fee rate that is not negative and a program fee rate from 0 to 1.\<close>

theorem program_books_hold:
  assumes "typed_chain fx ch" and "program_run fx ch ks (genesis w) s" and "ps_banks s k = Some b"
  shows "held_by_all asset_shares k (map_option lending_account \<circ> ps_accounts s) \<le> total_asset_shares b
    \<and> held_by_all liability_shares k (map_option lending_account \<circ> ps_accounts s) \<le> total_liability_shares b
    \<and> (\<forall>j a. ps_accounts s j = Some a \<longrightarrow> slots_ok (lending_account a)
         \<and> (\<forall>bal \<in> set (balances (lending_account a)). is_active bal \<and> bank_pk bal = k \<longrightarrow>
              0 \<le> asset_shares bal \<and> 0 \<le> liability_shares bal))"
proof -
  have ok: "books_ok (ps_books s)" by (rule typed_chain.program_run_ok [OF assms(1,2) genesis_ok])
  have "lending_account a \<in> ran (map_option lending_account \<circ> ps_accounts s)" if "ps_accounts s j = Some a" for j a
    using that by (force simp: ran_def)
  then show ?thesis
    using ok assms(3) unfolding books_ok_def ps_books_eq fst_conv snd_conv holdings_ok_def by blast
qed

text \<open>
  A first user: the fee state, a group of admin 1, its bank 7, the account 50 of user 5, who deposits
  five tokens.
\<close>

definition first_fees :: FeeState where
  "first_fees = initialize_fee_state 11 255 12 13 0 0 0 0 0"

definition first_compact :: BankConfigCompact where
  "first_compact = (config_to_compact sample_config)\<lparr>c_config_flags := 0\<rparr>"

definition first_accounts :: new_bank_accounts where
  "first_accounts = \<lparr>nb_group = 1, nb_mint = 2, nb_decimals = 6, nb_liquidity_vault = 3,
     nb_insurance_vault = 4, nb_fee_vault = 5, nb_bumps = (255, 255, 255, 255, 255, 255)\<rparr>"

definition first_bank :: Bank where
  "first_bank = bank_new 1 sample_config 2 6 3 4 5 100 255 255 255 255 255 255"

definition first_account :: MarginfiAccount where
  "first_account = initialize_account 1 5 100"

lemma first_group: "\<exists>g. initialize_group fx_ref 1 100 first_fees = Inr g \<and> admin g = 1
    \<and> panic_state_cache g = panic_state_cache MarginfiGroup_zeroed"
  by (simp add: initialize_group_def set_initial_configuration_def basis_to_u32_def scale_to_u32_def
      DEFAULT_INIT_MAX_EMODE_LEVERAGE_def DEFAULT_MAINT_MAX_EMODE_LEVERAGE_def u32_ratio_def fx_eval
      set_program_fee_enabled_def MarginfiGroup_zeroed_def)

lemma first_config: "config_from_compact first_compact = sample_config"
proof -
  have "replicate 5 x = [x, x, x, x, x]" for x :: pubkey
    by (simp only: numeral_eq_Suc pred_numeral_simps BitM.simps replicate.simps)
  then show ?thesis
    by (simp add: first_compact_def config_from_compact_def config_to_compact_def ir_from_compact_def
        ir_to_compact_def sample_defs MAX_ORACLE_KEYS_def)
qed

lemma first_config_valid: "config_validate sample_config = Inr ()"
proof -
  have "ir_validate sample_ir = Inr ()"
    by (simp add: ir_validate_def sample_defs INTEREST_CURVE_LEGACY_def INTEREST_CURVE_SEVEN_POINT_def
        validate_seven_point_def Let_def)
  then show ?thesis
    by (simp add: config_validate_iff weights_spec_def) (simp add: sample_config_def BankConfig_default_def ORACLE_MIN_AGE_def fx_eval)
qed

lemma first_bank_added: "admin g = 1 \<Longrightarrow>
    lending_pool_add_bank 1 1 13 100 first_fees first_accounts first_compact g = Inr (first_bank, add_bank 100 g, [])"
proof -
  have "bank_of_accounts first_accounts sample_config 100 = first_bank"
    by (simp add: bank_of_accounts_def first_accounts_def first_bank_def)
  moreover have "config first_bank = sample_config" by (simp add: first_bank_def bank_new_def)
  moreover have "c_asset_tag first_compact = ASSET_TAG_DEFAULT"
    by (simp add: first_compact_def config_to_compact_def sample_defs asset_tag_defs)
  moreover assume "admin g = 1"
  ultimately show ?thesis
    by (simp add: lending_pool_add_bank_def check_def first_config first_config_valid flat_fee_def)
      (simp add: first_fees_def initialize_fee_state_def)
qed

definition first_env :: "oracle_lib \<Rightarrow> ix_env" where
  "first_env lib = (sample_env lib)\<lparr>e_load_bank := (\<lambda>_. Inl Panic)\<rparr>"

definition opening_ta :: token_accounts where
  "opening_ta = \<lparr>ta_group = 1, ta_bank = 7, ta_authority = 5, ta_user_tokens = 30, ta_liquidity_vault = 3,
     ta_vault_authority = 31, ta_vault_amount = 0, ta_token_program = Tokenkeg\<rparr>"

definition first_balance :: Balance where
  "first_balance = (new_balance 7 ASSET_TAG_DEFAULT 100)\<lparr>asset_shares := 5 * ONE\<rparr>"

definition deposited_bank :: Bank where
  "deposited_bank = (increment_lending_position_count first_bank)\<lparr>total_asset_shares := 5 * ONE\<rparr>"

lemma first_env_simps [simp]:
  "e_fx (first_env lib) = fx_ref" "e_now (first_env lib) = 100" "e_parse_mint (first_env lib) = (\<lambda>_. None)"
  "ta_bank opening_ta = 7" "ta_token_program opening_ta = Tokenkeg" "ta_liquidity_vault opening_ta = 3"
  by (simp_all add: first_env_def sample_env_def e_now_def opening_ta_def)

lemma first_deposited:
  "deposit fx_ref 100 (5 * ONE) (new_balance 7 ASSET_TAG_DEFAULT 100, first_bank) = Inr (first_balance, deposited_bank)"
  by (simp add: first_balance_def deposited_bank_def first_bank_def wrapper_eval sample_defs bank_eval const_eval fx_eval)

lemma first_slots: "balances (lending_account first_account) = empty_deactivated # replicate 15 empty_deactivated"
proof -
  have "balances (lending_account first_account) = replicate (Suc 15) empty_deactivated"
    by (simp add: first_account_def initialize_account_def account_eval MAX_LENDING_ACCOUNT_BALANCES_def)
  then show ?thesis by (simp only: replicate_Suc)
qed

lemma first_found: "find_or_create 100 7 first_bank (lending_account first_account)
    = Inr (0, \<lparr>balances = new_balance 7 ASSET_TAG_DEFAULT 100 # replicate 15 empty_deactivated\<rparr>)"
proof -
  have none: "position (\<lambda>b. is_active b \<and> bank_pk b = 7) (replicate 15 empty_deactivated) = None"
    by (simp add: position_None)
  have "asset_tag (config first_bank) = ASSET_TAG_DEFAULT"
    by (simp add: first_bank_def sample_defs asset_tag_defs)
  then show ?thesis
    by (simp add: find_or_create_def first_slots none get_first_empty_balance_def is_integration_asset_tag_def
        asset_tag_defs)
qed

lemma first_ready: "validate_asset_tags first_bank first_account = Inr ()"
    "validate_bank_state first_bank FailsIfPausedOrReduceState = Inr ()"
    "accrue_interest fx_ref 100 g first_bank = Inr first_bank"
  by (simp_all add: validate_asset_tags_def first_slots scan_tags_empty validate_bank_state_def
      accrue_interest_def time_delta_of_def first_bank_def sample_defs i64_op_def in_i64_def asset_tag_defs)

lemma first_cache: "\<exists>b. update_bank_cache fx_ref 100 g deposited_bank = Inr b \<and> total_asset_shares b = 5 * ONE"
  by (simp add: update_bank_cache_def deposited_bank_def first_bank_def sample_defs bank_eval fx_eval)

lemma first_deposit_runs:
  assumes "admin g = 1" and "panic_state_cache g = panic_state_cache MarginfiGroup_zeroed"
  shows "\<exists>a b ts. lending_account_deposit (first_env lib) opening_ta g [] 5 None (first_account, first_bank)
      = Inr (a, b, ts) \<and> total_asset_shares b = 5 * ONE"
proof -
  obtain b where b: "update_bank_cache fx_ref 100 g deposited_bank = Inr b" "total_asset_shares b = 5 * ONE"
    using first_cache by blast
  have flags: "\<not> acc_get_flag first_account f" for f
    by (simp add: first_account_def initialize_account_def account_eval flag_eval)
  have guards: "deposit_guards (first_env lib) opening_ta g first_account first_bank = Inr ()"
    using assms(2) flags
    by (simp add: deposit_guards_def guard_eval flag_eval opening_ta_def first_bank_def sample_defs
        TOKENLESS_REPAYMENTS_ALLOWED_def CLOSE_ENABLED_FLAG_def MarginfiGroup_zeroed_def)
      (simp add: first_account_def initialize_account_def account_eval)
  have run: "run_at 0 (deposit fx_ref 100 (5 * ONE))
      \<lparr>balances = new_balance 7 ASSET_TAG_DEFAULT 100 # replicate 15 empty_deactivated\<rparr> first_bank
    = Inr (\<lparr>balances = first_balance # replicate 15 empty_deactivated\<rparr>, deposited_bank)"
    by (simp add: run_at_def at_balance_def first_deposited)
  have n: "amount_num (first_env lib) 5 = Inr (5 * ONE)" by (simp add: amount_num_def first_env_def fx_eval)
  have vault: "liquidity_vault deposited_bank = 3"
    by (simp add: deposited_bank_def first_bank_def bank_new_def increment_lending_position_count_def)
  show ?thesis
    using b by (simp add: lending_account_deposit_def guards maybe_take_bank_mint_def check_def flags first_ready
        deposit_amount_of_def first_found n run pre_fee_def deposit_spl_transfer_def vault)
qed

definition opened_state :: "'w \<Rightarrow> MarginfiGroup \<Rightarrow> 'w program_state" where
  "opened_state w g = put_account 50 first_account (put_bank 7 first_bank (put_group 1 (add_bank 100 g)
     (put_group 1 g (put_fee_state first_fees (genesis w)))))"

lemma opened_run:
  assumes g: "initialize_group fx_ref 1 100 first_fees = Inr g" "admin g = 1"
  shows "program_run fx_ref ch [12, 1, 1, 5] (genesis w) (opened_state w g)"
proof -
  let ?s1 = "put_fee_state first_fees (genesis w)"
  let ?s2 = "put_group 1 g ?s1"
  let ?s3 = "put_bank 7 first_bank (put_group 1 (add_bank 100 g) ?s2)"
  have "fee_entry fx_ref 12 (genesis w) ?s1"
    unfolding first_fees_def by (rule fee_entry.init_global_fee_state) (simp add: genesis_def)
  then have r1: "program_run fx_ref ch ([] @ [12]) (genesis w) ?s1"
    by (intro program_run.more [OF program_run.nothing] program_step.fees)
  have "group_entry fx_ref 1 ?s1 ?s2"
    by (rule group_entry.marginfi_group_initialize [OF g(1)]) (simp_all add: genesis_def put_defs)
  then have r2: "program_run fx_ref ch (([] @ [12]) @ [1]) (genesis w) ?s2"
    by (intro program_run.more [OF r1] program_step.group)
  have "add_bank_entry fx_ref 1 ?s2 ?s3"
    using add_bank_entry.lending_pool_add_bank [OF first_bank_added [OF g(2)], of ?s2 7 fx_ref]
    by (simp add: genesis_def put_defs first_accounts_def fresh_bank_def)
  then have r3: "program_run fx_ref ch ((([] @ [12]) @ [1]) @ [1]) (genesis w) ?s3"
    by (intro program_run.more [OF r2] program_step.add_bank)
  have "user_entry fx_ref 5 ?s3 (put_account 50 first_account ?s3)"
    unfolding first_account_def
    by (rule user_entry.marginfi_account_initialize [OF refl]) (simp_all add: genesis_def put_defs)
  then have "program_run fx_ref ch (((([] @ [12]) @ [1]) @ [1]) @ [5]) (genesis w) (put_account 50 first_account ?s3)"
    by (intro program_run.more [OF r3] program_step.user)
  then show ?thesis by (simp add: opened_state_def)
qed

lemma deposit_step:
  assumes g: "initialize_group fx_ref 1 100 first_fees = Inr g" "admin g = 1"
    "panic_state_cache g = panic_state_cache MarginfiGroup_zeroed"
  shows "\<exists>s a b. program_step fx_ref ch 5 (opened_state w g) s \<and> ps_accounts s 50 = Some a
    \<and> ps_banks s 7 = Some b \<and> total_asset_shares b = 5 * ONE"
proof -
  have g': "admin (add_bank 100 g) = 1"
      "panic_state_cache (add_bank 100 g) = panic_state_cache MarginfiGroup_zeroed"
    using g by (simp_all add: add_bank_def)
  obtain a b ts where d: "lending_account_deposit (first_env undefined) opening_ta (add_bank 100 g) [] 5 None
      (first_account, first_bank) = Inr (a, b, ts)" "total_asset_shares b = 5 * ONE"
    using first_deposit_runs [OF g'] by blast
  let ?s = "opened_state w g"
  have "user_entry fx_ref (ta_authority opening_ta) ?s (put_account 50 a (put_bank (ta_bank opening_ta) b ?s))"
    by (rule user_entry.lending_account_deposit [OF d(1)])
      (simp_all add: u64_max_def reads_state_def first_env_def opened_state_def put_defs opening_ta_def)
  then have "program_step fx_ref ch 5 ?s (put_account 50 a (put_bank 7 b ?s))"
    by (intro program_step.user) (simp add: opening_ta_def)
  then show ?thesis using d(2) by (auto simp: put_defs)
qed

lemma first_run:
  "\<exists>s a b. program_run fx_ref ch [12, 1, 1, 5, 5] (genesis w) s \<and> ps_accounts s 50 = Some a
     \<and> ps_banks s 7 = Some b \<and> total_asset_shares b = 5 * ONE"
proof -
  obtain g where g: "initialize_group fx_ref 1 100 first_fees = Inr g" "admin g = 1"
      "panic_state_cache g = panic_state_cache MarginfiGroup_zeroed"
    using first_group by blast
  obtain s a b where s: "program_step fx_ref ch 5 (opened_state w g) s" "ps_accounts s 50 = Some a"
      "ps_banks s 7 = Some b" "total_asset_shares b = 5 * ONE"
    using deposit_step [OF g, where ch = ch and w = w] by blast
  from program_run.more [OF opened_run [OF g(1,2)] s(1)]
  have "program_run fx_ref ch [12, 1, 1, 5, 5] (genesis w) s" by simp
  then show ?thesis using s(2-4) by blast
qed

theorem program_books_hold_witness:
  "\<forall>w. \<exists>s a b. program_run fx_ref ref_chain [12, 1, 1, 5, 5] (genesis w) s \<and> ps_accounts s 50 = Some a
     \<and> ps_banks s 7 = Some b \<and> total_asset_shares b = 5 * ONE
     \<and> held_by_all asset_shares 7 (map_option lending_account \<circ> ps_accounts s) \<le> 5 * ONE
     \<and> slots_ok (lending_account a)"
proof
  fix w :: ref_world
  obtain s a b where r: "program_run fx_ref ref_chain [12, 1, 1, 5, 5] (genesis w) s" "ps_accounts s 50 = Some a"
      "ps_banks s 7 = Some b" "total_asset_shares b = 5 * ONE"
    using first_run [of ref_chain w] by blast
  from program_books_hold [OF ref_chain.typed_chain_axioms r(1,3)] r
  show "\<exists>s a b. program_run fx_ref ref_chain [12, 1, 1, 5, 5] (genesis w) s \<and> ps_accounts s 50 = Some a
     \<and> ps_banks s 7 = Some b \<and> total_asset_shares b = 5 * ONE
     \<and> held_by_all asset_shares 7 (map_option lending_account \<circ> ps_accounts s) \<le> 5 * ONE
     \<and> slots_ok (lending_account a)" by (metis (no_types))
qed

section \<open>Closing a bank\<close>

lemma closing_check:
  assumes "fixed_arith fx" and "is_zero_with_tolerance fx v t = Inr True" and "0 \<le> v" and "in_fx v"
  shows "v < t"
  using assms by (simp add: is_zero_with_tolerance_def fixed_arith.abs)

lemma close_bank_checks:
  assumes "lending_pool_close_bank fx signer gk b g = Inr g'"
  shows "admin g = signer" "bank_group b = gk"
    "is_zero_with_tolerance fx (total_asset_shares b) (ZERO_AMOUNT_THRESHOLD fx) = Inr True"
    "is_zero_with_tolerance fx (total_liability_shares b) (ZERO_AMOUNT_THRESHOLD fx) = Inr True"
  using assms by (auto simp: lending_pool_close_bank_def bank_in_group_def check_def elim!: bindE split: if_splits)

text \<open>C2: When a bank is closed, whatever happened before, it is its group's admin who closes it, and all
  accounts together hold less than \<open>ZERO_AMOUNT_THRESHOLD\<close> (a ten-thousandth) of one of its shares,
  in deposits as in debts: nobody's deposit and nobody's debt disappears with it. (The totals are
  values of the fixed-point type. Borrows are taken with an origination fee rate that is not negative
  and a program fee rate from 0 to 1.)\<close>

theorem closed_bank_owes_dust:
  assumes "typed_chain fx ch" and "program_run fx ch ks (genesis w) s" and "ps_banks s k = Some b"
    and "in_fx (total_asset_shares b)" and "in_fx (total_liability_shares b)"
    and "lending_pool_close_bank fx signer gk b g = Inr g'"
  shows "admin g = signer \<and> bank_group b = gk
    \<and> held_by_all asset_shares k (map_option lending_account \<circ> ps_accounts s) < ZERO_AMOUNT_THRESHOLD fx
    \<and> held_by_all liability_shares k (map_option lending_account \<circ> ps_accounts s) < ZERO_AMOUNT_THRESHOLD fx"
proof -
  have ok: "books_ok (ps_books s)" by (rule typed_chain.program_run_ok [OF assms(1,2) genesis_ok])
  then have "bank_ok b" using assms(3) by (auto simp: books_ok_def ps_books_eq)
  then have "0 \<le> total_asset_shares b" "0 \<le> total_liability_shares b" by (simp_all add: bank_ok_def)
  note closing_check [OF typed_chain.axioms(1) [OF assms(1)] close_bank_checks(3) [OF assms(6)] this(1) assms(4)]
    closing_check [OF typed_chain.axioms(1) [OF assms(1)] close_bank_checks(4) [OF assms(6)] this(2) assms(5)]
  then show ?thesis
    using ok assms(3) close_bank_checks(1,2) [OF assms(6)]
    unfolding books_ok_def ps_books_eq fst_conv snd_conv by force
qed

theorem closed_bank_owes_dust_witness:
  "\<forall>w. \<exists>g g'. program_run fx_ref ref_chain [12, 1, 1, 5] (genesis w) (opened_state w g)
     \<and> lending_pool_close_bank fx_ref 1 1 first_bank g = Inr g'
     \<and> held_by_all asset_shares 7 (map_option lending_account \<circ> ps_accounts (opened_state w g)) < ONE"
proof
  fix w :: ref_world
  obtain g where g: "initialize_group fx_ref 1 100 first_fees = Inr g" "admin g = 1"
    using first_group by blast
  have b: "ps_banks (opened_state w g) 7 = Some first_bank" by (simp add: opened_state_def put_defs)
  have t: "in_fx (total_asset_shares first_bank)" "in_fx (total_liability_shares first_bank)"
    by (simp_all add: first_bank_def bank_new_def fx_eval)
  have "\<exists>g'. lending_pool_close_bank fx_ref 1 1 first_bank g = Inr g'"
    using g(2) by (simp add: lending_pool_close_bank_def bank_in_group_def check_def bank_get_flag_def flag_eval
        first_bank_def bank_new_def Bank_default_def is_zero_with_tolerance_def const_eval fx_eval CLOSE_ENABLED_FLAG_def)
  then obtain g' where c: "lending_pool_close_bank fx_ref 1 1 first_bank g = Inr g'" by blast
  note r = opened_run [OF g, of ref_chain w]
  have "ZERO_AMOUNT_THRESHOLD fx_ref < ONE" by (simp add: const_eval fx_eval)
  with closed_bank_owes_dust [OF ref_chain.typed_chain_axioms r b t c] r c
  show "\<exists>g g'. program_run fx_ref ref_chain [12, 1, 1, 5] (genesis w) (opened_state w g)
     \<and> lending_pool_close_bank fx_ref 1 1 first_bank g = Inr g'
     \<and> held_by_all asset_shares 7 (map_option lending_account \<circ> ps_accounts (opened_state w g)) < ONE"
    by (intro exI [of _ g] exI [of _ g']) simp
qed

section \<open>Control\<close>

text \<open>C3: Only the admin of a group hands over any of its admin rights, changes its leverage caps or its
  daily limit of deleverage withdrawals: whatever instructions of the program anybody else sends, the
  group stays with the same admins, caps and limit. (Borrows are taken with an origination fee rate
  that is not negative and a program fee rate from 0 to 1.)\<close>

theorem admins_in_control:
  assumes "program_run fx ch ks s s'" and "ps_groups s gk = Some g" and "admin g \<notin> set ks"
  shows "\<exists>g'. ps_groups s' gk = Some g' \<and> group_keys g' = group_keys g"
  by (rule program_run_groups [OF assms])

lemma opened_parts:
  "ps_groups (opened_state w g) 1 = Some (add_bank 100 g)" "ps_banks (opened_state w g) 7 = Some first_bank"
  "ps_accounts (opened_state w g) 50 = Some first_account"
  by (simp_all add: opened_state_def)

lemma run_one: "program_step fx ch k s s' \<Longrightarrow> program_run fx ch [k] s s'"
  using program_run.more [OF program_run.nothing] by fastforce

theorem admins_in_control_witness:
  "\<forall>w. \<exists>g s' g'. program_run fx_ref ref_chain [5] (opened_state w g) s' \<and> ps_groups s' 1 = Some g' \<and> admin g' = 1"
proof
  fix w :: ref_world
  obtain g where g: "initialize_group fx_ref 1 100 first_fees = Inr g" "admin g = 1"
      "panic_state_cache g = panic_state_cache MarginfiGroup_zeroed"
    using first_group by blast
  obtain s' where "program_step fx_ref ref_chain 5 (opened_state w g) s'" using deposit_step [OF g, where ch = ref_chain and w = w] by blast
  then have r: "program_run fx_ref ref_chain [5] (opened_state w g) s'" by (rule run_one)
  have a: "admin (add_bank 100 g) = 1" using g(2) by (simp add: add_bank_def)
  have "\<exists>g'. ps_groups s' 1 = Some g' \<and> group_keys g' = group_keys (add_bank 100 g)"
    by (rule admins_in_control [OF r opened_parts(1)]) (simp add: a)
  then show "\<exists>g s' g'. program_run fx_ref ref_chain [5] (opened_state w g) s' \<and> ps_groups s' 1 = Some g' \<and> admin g' = 1"
    using r a group_keys_admins by metis
qed

text \<open>C4: Nobody but the admins of its group touches the settings of a bank (its configuration with
  weights, limits, oracles and curve, e-mode, flags, vaults, emissions, fee destination, place in the
  other lending program): whatever instructions all others send, the bank is still there with the
  same settings, except that a bankruptcy may have killed it and the last repayment of a bank under
  deleverage may have set its flag. (Apart from banks of staked collateral, which anybody may bring up
  to the group's staked settings, and banks still on the legacy curve, which anybody may migrate.
  Borrows are taken with an origination fee rate that is not negative and a program fee rate from 0
  to 1.)\<close>

theorem bank_settings_need_admin:
  assumes "program_run fx ch ks s s'" and "ps_banks s k = Some b" and "ps_groups s (bank_group b) = Some g"
    and "settings_admins g \<inter> set ks = {}" and "asset_tag (config b) \<noteq> ASSET_TAG_STAKED"
    and "curve_type (interest_rate_config (config b)) = INTEREST_CURVE_SEVEN_POINT"
  shows "\<exists>b' st fl. ps_banks s' k = Some b'
    \<and> settings_of b' = (settings_of b)\<lparr>config := (config b)\<lparr>operational_state := st\<rparr>, bank_flags := fl\<rparr>
    \<and> st \<in> {operational_state (config b), KilledByBankruptcy}
    \<and> fl \<in> {bank_flags b, flag_put TOKENLESS_REPAYMENTS_COMPLETE (bank_flags b)}"
proof -
  have "settled b" using assms(5,6) by (simp add: settled_def)
  from program_run_banks [OF assms(1,2) this assms(3,4)] show ?thesis
    unfolding bank_stays_def settings_kept_def by blast
qed

theorem bank_settings_need_admin_witness:
  "\<forall>w. \<exists>g s' b'. program_run fx_ref ref_chain [5] (opened_state w g) s' \<and> ps_banks s' 7 = Some b'
     \<and> emode b' = emode first_bank \<and> liquidity_vault b' = 3"
proof
  fix w :: ref_world
  obtain g where g: "initialize_group fx_ref 1 100 first_fees = Inr g" "admin g = 1"
      "panic_state_cache g = panic_state_cache MarginfiGroup_zeroed"
    using first_group by blast
  obtain s' where "program_step fx_ref ref_chain 5 (opened_state w g) s'" using deposit_step [OF g, where ch = ref_chain and w = w] by blast
  then have r: "program_run fx_ref ref_chain [5] (opened_state w g) s'" by (rule run_one)
  have b: "bank_group first_bank = 1" "asset_tag (config first_bank) \<noteq> ASSET_TAG_STAKED"
    "curve_type (interest_rate_config (config first_bank)) = INTEREST_CURVE_SEVEN_POINT"
    by (simp_all add: first_bank_def sample_defs asset_tag_defs)
  have "settings_admins (add_bank 100 g) = {1, default_key}"
    using g(1,2) by (auto simp: settings_admins_def add_bank_def initialize_group_def set_initial_configuration_def
        set_program_fee_enabled_def MarginfiGroup_zeroed_def elim!: bindE)
  then have "settings_admins (add_bank 100 g) \<inter> set [5] = {}" by simp
  from bank_settings_need_admin [OF r opened_parts(2) _ this b(2,3)] opened_parts(1) [of w g] b(1)
  obtain b' st fl where b': "ps_banks s' 7 = Some b'" "settings_of b' = (settings_of first_bank)
      \<lparr>config := (config first_bank)\<lparr>operational_state := st\<rparr>, bank_flags := fl\<rparr>"
    by auto
  have "emode (settings_of b') = emode (settings_of first_bank)"
      "liquidity_vault (settings_of b') = liquidity_vault (settings_of first_bank)"
    unfolding b'(2) by simp_all
  then have "emode b' = emode first_bank" "liquidity_vault b' = 3"
    by (simp_all add: settings_of_def first_bank_def bank_new_def)
  with r b'(1) show "\<exists>g s' b'. program_run fx_ref ref_chain [5] (opened_state w g) s' \<and> ps_banks s' 7 = Some b'
     \<and> emode b' = emode first_bank \<and> liquidity_vault b' = 3" by blast
qed

text \<open>C39: The settings of a frozen bank stay, whichever instruction of the program is sent and whoever
  signs it: the configuration changes in nothing but the deposit and borrow limits, and these only by
  the admin or the limits admin, and its operational state, which a bankruptcy may turn to killed;
  e-mode, which the freeze is not about, changes only by the admin or the e-mode admin; the freeze
  itself is lost only to the emissions admin, and the bank itself only to the admin who closes it.
  (Apart from banks of staked collateral, which anybody may bring up to the group's staked settings,
  and banks still on the legacy curve, which anybody may migrate: these two ignore the freeze.)\<close>

theorem frozen_settings_stay:
  assumes "program_step fx ch signer s s'" and "ps_banks s k = Some b" and "ps_groups s (bank_group b) = Some g"
    and "bank_get_flag b FREEZE_SETTINGS" and "asset_tag (config b) \<noteq> ASSET_TAG_STAKED"
    and "curve_type (interest_rate_config (config b)) = INTEREST_CURVE_SEVEN_POINT"
  shows "ps_banks s' k = None \<and> signer = admin g \<or>
    (\<exists>b' d l st. ps_banks s' k = Some b'
       \<and> config b' = (config b)\<lparr>deposit_limit := d, borrow_limit := l, operational_state := st\<rparr>
       \<and> st \<in> {operational_state (config b), KilledByBankruptcy}
       \<and> (d = deposit_limit (config b) \<and> l = borrow_limit (config b) \<or> signer \<in> {admin g, delegate_limit_admin g})
       \<and> (emode b' = emode b \<or> signer \<in> {admin g, emode_admin g})
       \<and> (bank_get_flag b' FREEZE_SETTINGS \<or> signer = delegate_emissions_admin g))"
proof -
  have "settled b" using assms(5,6) by (simp add: settled_def)
  from program_step_freeze [OF assms(1-4) this] show ?thesis unfolding freeze_holds_def .
qed

definition frozen_bank :: Bank where
  "frozen_bank = first_bank\<lparr>bank_flags := FREEZE_SETTINGS\<rparr>"

theorem frozen_settings_stay_witness:
  "\<forall>w. \<exists>g s'. program_step fx_ref ref_chain 1 (put_bank 7 frozen_bank (opened_state w g)) s'
     \<and> (\<exists>b'. ps_banks s' 7 = Some b' \<and> deposit_limit (config b') = 9
          \<and> asset_weight_init (config b') = asset_weight_init (config first_bank))"
proof
  fix w :: ref_world
  obtain g where g: "initialize_group fx_ref 1 100 first_fees = Inr g" "admin g = 1"
    using first_group by blast
  let ?s = "put_bank 7 frozen_bank (opened_state w g)" and ?g = "add_bank 100 g"
  let ?b' = "frozen_bank\<lparr>config := (config frozen_bank)\<lparr>deposit_limit := 9\<rparr>\<rparr>"
  have a: "admin ?g = 1" using g(2) by (simp add: add_bank_def)
  have b: "bank_group frozen_bank = 1" "asset_tag (config frozen_bank) \<noteq> ASSET_TAG_STAKED"
    "curve_type (interest_rate_config (config frozen_bank)) = INTEREST_CURVE_SEVEN_POINT"
    "config frozen_bank = config first_bank" "bank_get_flag frozen_bank FREEZE_SETTINGS"
    by (simp_all add: frozen_bank_def first_bank_def sample_defs asset_tag_defs bank_get_flag_def)
  have s: "ps_groups ?s 1 = Some ?g" "ps_banks ?s 7 = Some frozen_bank"
    using opened_parts(1) by (simp_all add: put_defs)
  let ?opt = "undefined\<lparr>o_asset_weight_init := Some 0, o_deposit_limit := Some 9, o_borrow_limit := None\<rparr>"
  have "lending_pool_configure_bank fx_ref 1 1 ?g ?opt frozen_bank = Inr ?b'"
    using a b(1,5) by (simp add: lending_pool_configure_bank_def configure_unfrozen_fields_only_def
        bank_in_group_def check_def set_if_some_def)
  then have "settings_entry fx_ref 1 ?s (put_bank 7 ?b' ?s)"
    by (rule settings_entry.lending_pool_configure_bank) (rule s)+
  then have st: "program_step fx_ref ref_chain 1 ?s (put_bank 7 ?b' ?s)" by (rule program_step.settings)
  have g1: "ps_groups ?s (bank_group frozen_bank) = Some ?g" using s(1) b(1) by simp
  have "ps_banks (put_bank 7 ?b' ?s) 7 = Some ?b'" by simp
  with frozen_settings_stay [OF st s(2) g1 b(5,2,3)]
  have "asset_weight_init (config ?b') = asset_weight_init (config frozen_bank)" by auto
  then show "\<exists>g s'. program_step fx_ref ref_chain 1 (put_bank 7 frozen_bank (opened_state w g)) s'
     \<and> (\<exists>b'. ps_banks s' 7 = Some b' \<and> deposit_limit (config b') = 9
          \<and> asset_weight_init (config b') = asset_weight_init (config first_bank))"
    using st b(4) by (intro exI [of _ g] exI [of _ "put_bank 7 ?b' ?s"] exI [of _ ?b'] conjI) simp_all
qed

text \<open>C5: A depositor without debt keeps everything: as long as neither he nor the admin or risk admin
  of his group signs and his account is not put into receivership, it stays his, in its group, with
  the same shares in the same slots, the same flags and the same destination of emissions, whatever
  all others do; liquidators and the settlement of bankruptcies cannot touch it. And if the next
  instruction of an outsider does put it into receivership, that is the start of a liquidation whose
  own oracles and banks give every balance of the account a value, and together its deposits count
  for nothing at maintenance weights at these prices. Borrows are taken with an origination fee rate
  that is not negative and a program fee rate from 0 to 1.\<close>

theorem depositor_keeps_shares:
  assumes "fixed_arith fx" and "ps_accounts s k = Some a" and "ps_groups s (acc_group a) = Some g"
    and "debt_free a" and "\<not> acc_get_flag a ACCOUNT_IN_RECEIVERSHIP"
    and "(others_step fx ch {authority a, admin g, risk_admin g} k)\<^sup>*\<^sup>* s s'"
  shows "\<exists>a'. ps_accounts s' k = Some a' \<and> untouched a a'
    \<and> (\<forall>signer s''. signer \<notin> {authority a, admin g, risk_admin g} \<and> program_step fx ch signer s' s'' \<longrightarrow>
         (\<exists>a''. ps_accounts s'' k = Some a'' \<and> untouched a a''
            \<and> (acc_get_flag a'' ACCOUNT_IN_RECEIVERSHIP \<longrightarrow> worthless fx s' a' a'')))"
proof -
  have "at_rest s k a g" using assms(2,3,5) by (auto simp: at_rest_def)
  then have rest: "at_rest s' k a g" by (rule others_run_rest [OF assms(1,6) _ assms(4)])
  then obtain a' where a': "ps_accounts s' k = Some a'" "untouched a a'" "\<not> acc_get_flag a' ACCOUNT_IN_RECEIVERSHIP"
    by (auto simp: at_rest_def)
  have "\<exists>a''. ps_accounts s'' k = Some a'' \<and> untouched a a''
      \<and> (acc_get_flag a'' ACCOUNT_IN_RECEIVERSHIP \<longrightarrow> worthless fx s' a' a'')"
    if j: "signer \<notin> {authority a, admin g, risk_admin g}" and s: "program_step fx ch signer s' s''" for signer s''
  proof -
    obtain a1 where "guest s' signer k a1" by (rule at_rest_guest [OF rest assms(4) j])
    then have "guest s' signer k a'" using a'(1) by (simp add: guest_def)
    from program_step_stays [OF s assms(1) this] show ?thesis
      using untouched_trans [OF a'(2)] a'(3) by (auto simp: stays_def acc_get_flag_def)
  qed
  then show ?thesis using a'(1,2) by blast
qed

definition depositor :: MarginfiAccount where
  "depositor = first_account\<lparr>lending_account := \<lparr>balances = first_balance # replicate 15 empty_deactivated\<rparr>\<rparr>"

theorem depositor_keeps_shares_witness:
  "\<forall>w. \<exists>g s' a'. others_step fx_ref ref_chain {5, 1, default_key} 50 (put_account 50 depositor (opened_state w g)) s'
     \<and> ps_accounts s' 50 = Some a' \<and> untouched depositor a'"
proof
  fix w :: ref_world
  obtain g where g: "initialize_group fx_ref 1 100 first_fees = Inr g" "admin g = 1"
    using first_group by blast
  have ra: "risk_admin (add_bank 100 g) = default_key" "admin (add_bank 100 g) = 1"
    using g by (auto simp: add_bank_def initialize_group_def set_initial_configuration_def
        set_program_fee_enabled_def MarginfiGroup_zeroed_def elim!: bindE)
  let ?s = "put_account 50 depositor (opened_state w g)"
  let ?s' = "put_account 51 (initialize_account 1 6 100) ?s"
  have a: "authority depositor = 5" "acc_group depositor = 1" "\<not> acc_get_flag depositor f" "debt_free depositor" for f
    by (simp_all add: depositor_def first_account_def initialize_account_def account_eval flag_eval debt_free_def
        first_balance_def new_balance_def)
  have s: "ps_accounts ?s 50 = Some depositor" "ps_groups ?s (acc_group depositor) = Some (add_bank 100 g)"
    using a(2) opened_parts(1) by simp_all
  have "user_entry fx_ref 6 ?s ?s'"
    by (rule user_entry.marginfi_account_initialize [OF refl, of _ 1])
      (simp_all add: opened_parts(1) opened_state_def genesis_def)
  then have o: "others_step fx_ref ref_chain {authority depositor, admin (add_bank 100 g), risk_admin (add_bank 100 g)} 50 ?s ?s'"
    using a ra by (auto simp: others_step_def intro!: exI [of _ 6] program_step.user)
  from depositor_keeps_shares [OF ref.fixed_arith_axioms s a(4,3) r_into_rtranclp [of "others_step _ _ _ _", OF o]] o
  show "\<exists>g s' a'. others_step fx_ref ref_chain {5, 1, default_key} 50 (put_account 50 depositor (opened_state w g)) s'
     \<and> ps_accounts s' 50 = Some a' \<and> untouched depositor a'"
    unfolding a(1) ra by blast
qed

end
