(* ===== verification/Spec2Isabelle.thy ===== *)
theory Spec2Isabelle
  imports LedgerProps PauseProps InterestProps BankProps TxProps RiskProps GroupProps BankIxProps
    EmodeProps BotProps ProtocolProps LiquidateProps IntegrationProps PoolProps
    ReceivershipProps ProgramProps
begin

text \<open>
  A verification library of the repository's on-chain Rust code: the lending program marginfi
  (\<open>marginfi-v2/programs/marginfi\<close> with its type crate \<open>marginfi-v2/type-crate\<close> and the account
  readers of the external lending programs in \<open>marginfi-v2/programs/*-mocks\<close>), and the flash loan
  bot that calls it (\<open>programs/flash_loan_bot\<close>).

  \<^bold>\<open>The program.\<close> A group owns banks; a bank lends one token. A user's account holds at most sixteen
  balances, each with one bank and each either collateral (asset shares) or debt (liability shares).
  Shares times the share value of the bank are tokens; interest moves the share values. Every
  instruction is a function of the accounts it may change; what it may call outside the program
  (token transfers, oracles, other lending programs, the fixed-point crate, the instruction sysvar)
  is a parameter.

  \<^bold>\<open>How code is modelled.\<close> A struct is a \<open>record\<close>, an enum a \<open>datatype\<close>. A fallible function returns
  \<open>'a res\<close> (\<open>Prelude\<close>, \<open>Errors\<close>): \<open>Inl\<close> an error of the program, a missing \<open>Option\<close>, an error of
  another program or a panic (the release profile checks integer overflow). \<open>u64\<close>, \<open>u32\<close> and smaller
  unsigned integers are \<open>nat\<close> and \<open>i64\<close> is \<open>int\<close>, with the checks and the wrapping casts written out;
  flag words are \<open>64 word\<close>. \<open>I80F48\<close> is the 128-bit pattern of the number as an \<open>int\<close> (\<open>Fixed\<close>):
  the crate \<open>fixed\<close> is not in the repository, so its operations are a record \<open>fixed_ops\<close>, the locale
  \<open>fixed_arith\<close> states its documented laws (exact addition and subtraction, multiplication and
  division rounded within a bit, \<open>None\<close> or a panic exactly out of range) and \<open>fx_ref\<close> is a reference
  implementation that meets them, on which all witnesses run. Clocks, keys and account lists are
  arguments. Token movements are returned as lists of \<open>Transfer\<close>s. Events and logs are not modelled.

  \<^bold>\<open>Data and state\<close>
  \<^item> \<open>Errors\<close>: \<open>errors.rs\<close>, every error with its code and the decoder.
  \<^item> \<open>Constants\<close>, \<open>Types\<close>: \<open>constants.rs\<close> and the account types of \<open>type-crate/src/types\<close>.
  \<^item> \<open>Accounts\<close>: \<open>user_account.rs\<close>, \<open>health_cache.rs\<close>: balances, sides, flags, sorting.
  \<^item> \<open>PauseState\<close>: \<open>panic_state.rs\<close> and its cache; the step relation \<open>panic_reach\<close> of the pause,
    and \<open>panic_trace\<close>, the same with the times of all pauses, for the counts per day.
  \<^item> \<open>GroupState\<close>: \<open>marginfi_group.rs\<close>, \<open>fee_state.rs\<close>, \<open>staked_settings.rs\<close>: administration and the
    withdraw window of deleveraging.

  \<^bold>\<open>Banks\<close>
  \<^item> \<open>Interest\<close>: \<open>interest_rate.rs\<close>: validation, both rate curves, fees, accrual. \<open>InterestFacts\<close>: the
    declarative form of the curve, bounds and monotonicity, interest charged against interest paid.
  \<^item> \<open>BankOps\<close>: \<open>bank.rs\<close>, \<open>bank_config.rs\<close>, \<open>bank_cache.rs\<close>. \<open>BankFacts\<close>: the invariant \<open>bank_ok\<close> and
    the frame of each operation.
  \<^item> \<open>Guards\<close>: the checks of \<open>utils/general.rs\<close>: asset tags, bank states, transfer fees.
  \<^item> \<open>Emode\<close>: \<open>state/emode.rs\<close> and \<open>types/emode.rs\<close>: validation of e-mode settings and both forms of
    reconciliation, against the declarative intersection \<open>emode_intersection\<close>.

  \<^bold>\<open>Balances and the ledger\<close>
  \<^item> \<open>BalanceOps\<close>: the \<open>BankAccountWrapper\<close> of \<open>marginfi_account.rs\<close>: deposits, withdrawals, borrows,
    repayments, closing, emissions. \<open>BalanceFacts\<close>: what each moves.
  \<^item> \<open>Ledger\<close>: the abstract view (what an account holds of a bank against the bank's totals). The
    locale \<open>wrapper_op\<close> is the contract of an operation on one balance and its bank; it is
    interpreted on each of them, and gives that the operation keeps the ledger of the whole account.
  \<^item> \<open>AccountSteps\<close>: all operations on one account and one bank as the relation \<open>acct_step\<close>, with the
    invariant \<open>account_inv\<close> (the account's shares and those of the others are covered by the totals;
    one active balance per bank; at most eight integration positions; other balances untouched).

  \<^bold>\<open>Prices and risk\<close>
  \<^item> \<open>Reserves\<close>: the readers of Kamino, Solend and Drift accounts: conversion of collateral, staleness.
  \<^item> \<open>Price\<close>: \<open>state/price.rs\<close>: the oracle adapter, confidence and bias; the locale \<open>price_band\<close>.
  \<^item> \<open>RiskEngine\<close>: the risk engine of \<open>marginfi_account.rs\<close>: loading, weights, health checks before and
    after liquidation, bankruptcy. \<open>complete\<close> says that an engine holds every active balance, \<open>all_valued\<close>
    that it finds a value for each, and \<open>covered\<close> that with both the debts are covered by the assets.

  \<^bold>\<open>Instructions\<close>
  \<^item> \<open>IxUtils\<close>, \<open>Flashloan\<close>: \<open>ix_utils.rs\<close>, \<open>flashloan.rs\<close>.
  \<^item> \<open>GroupIx\<close>, \<open>BankIx\<close>, \<open>IxBase\<close>: \<open>instructions/marginfi_group\<close>.
  \<^item> \<open>TokenIx\<close>, \<open>AccountIx\<close>: the instructions of \<open>instructions/marginfi_account\<close> that move tokens and
    the others; \<open>TokenFacts\<close>: the shape of each handler that succeeds, and that it keeps the ledger.
  \<^item> \<open>LiquidateIx\<close>, \<open>Receivership\<close>: liquidation, bankruptcy, and liquidation or deleveraging in
    receivership; \<open>LiquidateFacts\<close>: shapes, the amounts of a liquidation, moves of the ledger.
  \<^item> \<open>PoolIx\<close>: banks on other lending programs (\<open>state/kamino.rs\<close>, \<open>state/drift.rs\<close>, \<open>state/solend.rs\<close>,
    the three \<open>add_pool.rs\<close>), seeded and cloned banks, bank metadata.
  \<^item> \<open>Protocol\<close>: all of it as one state machine \<open>protocol_step\<close> over any number of accounts and banks,
    and its invariant \<open>books_ok\<close>; \<open>everyday_step\<close> is what needs no receivership, \<open>receivership_ix\<close> its
    starts and ends. What an account does alone is a parameter of \<open>world_step\<close>: \<open>alone_ix\<close> with flash
    loans, \<open>calm_ix\<close> without.
  \<^item> \<open>AccountFlags\<close>: no other instruction than those that start one puts an account into receivership
    or into a flash loan.
  \<^item> \<open>ReceivershipTx\<close>: the instructions of one transaction on the whole world, liquidation records
    included (\<open>tx_step\<close>, \<open>tx_run\<close>). What the start of a receivership demands of the other
    instructions gives the invariant \<open>end_due\<close>: while an account is in receivership its end is to come.
    \<open>ReceivershipProps\<close> follows the record of one liquidation from its start to its end, in runs
    (\<open>addressed_run\<close>) whose liquidation records are at the addresses Anchor derives.
  \<^item> \<open>FlashloanTx\<close>: the same for flash loans (\<open>loan_step\<close>, \<open>loan_run\<close>): the instructions of marginfi that
    start and end them run at the top level, and whatever any other instruction calls, starts and
    ends of flash loans included, runs deeper in the stack (\<open>call_step\<close>).
  \<^item> \<open>FlashBot\<close>: the instructions of the bot, with the calls it makes as data.

  \<^bold>\<open>Other lending programs\<close> (\<open>instructions/kamino\<close>, \<open>instructions/drift\<close>, \<open>instructions/solend\<close>)
  \<^item> \<open>IntegrationIx\<close>: what their instructions share: constraints, the credit of a deposit, the end of a
    withdrawal. The other programs, the token program and their accounts are a world \<open>'w\<close>, which the
    record \<open>chain\<close> calls and reads; a call is data (\<open>Cpi\<close>, \<open>Instruction\<close>).
  \<^item> \<open>KaminoIx\<close>, \<open>DriftIx\<close>, \<open>SolendIx\<close>: deposit, withdrawal, opening the position of a bank, rewards.
  \<^item> \<open>IntegrationFacts\<close>: the shape of each handler that succeeds. The locale \<open>typed_chain\<close> says that
    reads of accounts give values of their types; \<open>position_ops\<close> is the contract of a deposit and a
    withdrawal of a position, which each of the three programs meets and which gives that they keep
    the ledger.
  \<^item> \<open>Backing\<close>: the locale \<open>lending_chain\<close> adds that a transfer of tokens changes no position and
    that refreshing a Drift market changes neither its index nor a user; \<open>backed_ops\<close> is the
    contract by which what a bank owes stays within its position, met by all three;
    \<open>vault_step\<close> is one bank among all users, other instructions and the world outside.
  \<^item> \<open>RefChain\<close>: a concrete world that meets the laws of \<open>lending_chain\<close>.

  \<^bold>\<open>The program as a whole\<close> (\<open>lib.rs\<close>)
  \<^item> \<open>Program\<close>: everything the program owns as one state, and its entry points as steps of it:
    \<open>group_entry\<close>, \<open>add_bank_entry\<close>, \<open>settings_entry\<close>, \<open>user_entry\<close>, \<open>operational_entry\<close>,
    \<open>fee_entry\<close>, \<open>receivership_entry\<close>, \<open>upkeep_entry\<close>, \<open>kamino_entry\<close>, \<open>drift_entry\<close> and
    \<open>solend_entry\<close> are its sections in order, with one rule per instruction: which accounts it takes
    and writes, who signs, what it creates and closes. \<open>program_step\<close> joins them, \<open>program_run\<close> is a
    sequence of instructions with its signers. The environments of the handlers (\<open>ix_env\<close>) read the
    banks as they are (\<open>reads_state\<close>); a new bank takes an address that no balance names
    (\<open>fresh_bank\<close>: addresses are derived or signed for); a borrow has an origination fee rate that
    is not negative and a program fee rate from 0 to 1 (\<open>fees_sane\<close>), which no instruction validates. What \<open>tx_step\<close> says of the rest of the transaction is not repeated here: a
    run is any sequence of instructions, whole transactions among them.
  \<^item> \<open>ProgramFacts\<close>: every instruction keeps \<open>books_ok\<close> for all accounts and banks, in particular when
    accounts are closed and moved and banks are added and closed.
  \<^item> \<open>BankFrame\<close>: what a handler may not change of a bank: \<open>settings_of\<close> is the bank without its books.
  \<^item> \<open>ProgramControl\<close>, \<open>ProgramSettings\<close>: who may change what: the keys of a group, an account without
    debt (\<open>untouched\<close>, while only an \<open>outsider\<close> acts), the settings of a bank (\<open>settings_kept\<close>).
    \<open>worthless\<close> is what the start of a liquidation finds of such an account. \<open>ProgramFreeze\<close>: what any
    instruction can do to a bank with frozen settings.

  \<^bold>\<open>Properties\<close> stand in the theories named \<open>...Props\<close>: the ledger and balances (\<open>LedgerProps\<close>),
  interest (\<open>InterestProps\<close>), banks (\<open>BankProps\<close>, \<open>BankIxProps\<close>), pauses (\<open>PauseProps\<close>, \<open>GroupProps\<close>),
  e-mode (\<open>EmodeProps\<close>), risk (\<open>RiskProps\<close>), transactions (\<open>TxProps\<close>), all
  instructions that move value (\<open>ProtocolProps\<close>), the whole program (\<open>ProgramProps\<close>),
  liquidations (\<open>LiquidateProps\<close>), receivership (\<open>ReceivershipProps\<close>), banks on other programs (\<open>IntegrationProps\<close>,
  \<open>PoolProps\<close>) and the bot (\<open>BotProps\<close>). \<open>Samples\<close> holds the concrete data their witnesses share.

  \<^bold>\<open>Bounds and fuel.\<close> No definition uses fuel. The loops over balances, rate points and e-mode entries
  are structural; the scan of the transaction's instructions, which the code ends at the first error
  of the sysvar, is a \<open>partial_function\<close> and proved to return for every transaction
  (\<open>load_instructions_total\<close>).

  \<^bold>\<open>Not modelled.\<close> The decoding of an instruction and of its accounts (Anchor's generated code), address
  derivation of program accounts (the derived keys are arguments), events and logs, the layout and
  padding of accounts, what other programs do when they are called (they are parameters); the
  command line client, the fuzzer, the test utilities and the mock programs, which are input, output
  and test doubles around the program.
\<close>

end
